(* ===== verification/Radio_Prelude.thy ===== *)
theory Radio_Prelude
  imports Complex_Main "HOL-Library.Word" "HOL-Library.Signed_Division"
begin

text \<open>
  Shared vocabulary of the development: the status codes of the C interface, Rust's
  fixed-width integer operations on unbounded integers with the wrap-around written out,
  and the two generic interfaces the components share (a sample-span stage and a
  frame clock).  Signed values (\<open>i16\<close>, \<open>i32\<close>, \<open>i64\<close>) are \<^typ>\<open>int\<close>, counts and
  indices (\<open>u32\<close>, \<open>u64\<close>, \<open>usize\<close>) are \<^typ>\<open>nat\<close>; bit masks and wrapping
  counters are words.
\<close>

named_theorems radio_defs \<open>definitions a component unfolds in its own proofs\<close>
named_theorems radio_arith \<open>facts on fixed-width arithmetic\<close>

section \<open>Status codes\<close>

datatype radio_error =
    INVALID_ARGUMENT
  | PROVIDER_FAILED
  | FRAME_COUNT_EXCEEDED
  | UNSUPPORTED
  | NOT_READY
  | BUSY

fun error_code :: "radio_error \<Rightarrow> int" where
  "error_code INVALID_ARGUMENT = -1"
| "error_code PROVIDER_FAILED = -2"
| "error_code FRAME_COUNT_EXCEEDED = -3"
| "error_code UNSUPPORTED = -4"
| "error_code NOT_READY = -5"
| "error_code BUSY = -6"

type_synonym 'a result = "radio_error + 'a"

definition bind_result :: "'e + 'a \<Rightarrow> ('a \<Rightarrow> 'e + 'b) \<Rightarrow> 'e + 'b" where
  "bind_result r f = (case r of Inl e \<Rightarrow> Inl e | Inr a \<Rightarrow> f a)"

lemma bind_result_simps [simp]:
  "bind_result (Inl e) f = Inl e" "bind_result (Inr a) f = f a"
  by (simp_all add: bind_result_def)

lemma bind_result_Inr:
  "bind_result r f = Inr b \<longleftrightarrow> (\<exists>a. r = Inr a \<and> f a = Inr b)"
  by (cases r) simp_all

section \<open>Fixed-width integers\<close>

definition wrap_i16 :: "int \<Rightarrow> int" where
  "wrap_i16 x = signed_take_bit 15 x"

definition wrap_i32 :: "int \<Rightarrow> int" where
  "wrap_i32 x = signed_take_bit 31 x"

definition wrap_i64 :: "int \<Rightarrow> int" where
  "wrap_i64 x = signed_take_bit 63 x"

definition in_i16 :: "int \<Rightarrow> bool" where
  "in_i16 x \<longleftrightarrow> -32768 \<le> x \<and> x \<le> 32767"

definition in_i32 :: "int \<Rightarrow> bool" where
  "in_i32 x \<longleftrightarrow> -2147483648 \<le> x \<and> x \<le> 2147483647"

definition in_i64 :: "int \<Rightarrow> bool" where
  "in_i64 x \<longleftrightarrow> -9223372036854775808 \<le> x \<and> x \<le> 9223372036854775807"

definition u32_max :: nat where
  "u32_max = 4294967295"

definition u64_max :: nat where
  "u64_max = 18446744073709551615"

text \<open>The unsigned \<open>as\<close> casts drop high bits; \<open>saturating_add\<close> stops at the bound;
  \<open>checked_add\<close> and \<open>checked_mul\<close> return \<open>None\<close> beyond it.\<close>

definition as_u32 :: "nat \<Rightarrow> nat" where
  "as_u32 n = n mod 4294967296"

definition saturating_add_u64 :: "nat \<Rightarrow> nat \<Rightarrow> nat" where
  "saturating_add_u64 a b = min u64_max (a + b)"

definition checked_u32 :: "nat \<Rightarrow> nat option" where
  "checked_u32 n = (if n \<le> u32_max then Some n else None)"

definition checked_u64 :: "nat \<Rightarrow> nat option" where
  "checked_u64 n = (if n \<le> u64_max then Some n else None)"

definition saturating_i32 :: "int \<Rightarrow> int" where
  "saturating_i32 x = max (-2147483648) (min 2147483647 x)"

definition of_flag :: "bool \<Rightarrow> nat" where
  "of_flag b = (if b then 1 else 0)"

text \<open>\<open>div_ceil\<close> on unsigned integers.\<close>

definition div_ceil :: "nat \<Rightarrow> nat \<Rightarrow> nat" where
  "div_ceil a b = (if a mod b = 0 then a div b else a div b + 1)"

lemma wrap_i16_id [radio_arith]: "in_i16 x \<Longrightarrow> wrap_i16 x = x"
  unfolding wrap_i16_def in_i16_def by (rule signed_take_bit_int_eq_self) auto

lemma wrap_i32_id [radio_arith]: "in_i32 x \<Longrightarrow> wrap_i32 x = x"
  unfolding wrap_i32_def in_i32_def by (rule signed_take_bit_int_eq_self) auto

lemma wrap_i64_id [radio_arith]: "in_i64 x \<Longrightarrow> wrap_i64 x = x"
  unfolding wrap_i64_def in_i64_def by (rule signed_take_bit_int_eq_self) auto

lemma in_i16_wrap [simp, intro]: "in_i16 (wrap_i16 x)"
  using signed_take_bit_int_greater_eq_minus_exp [of 15 x] signed_take_bit_int_less_exp [of 15 x]
  by (simp add: in_i16_def wrap_i16_def)

lemma in_i32_wrap [simp, intro]: "in_i32 (wrap_i32 x)"
  using signed_take_bit_int_greater_eq_minus_exp [of 31 x] signed_take_bit_int_less_exp [of 31 x]
  by (simp add: in_i32_def wrap_i32_def)

lemma in_i64_wrap [simp, intro]: "in_i64 (wrap_i64 x)"
  using signed_take_bit_int_greater_eq_minus_exp [of 63 x] signed_take_bit_int_less_exp [of 63 x]
  by (simp add: in_i64_def wrap_i64_def)

lemma of_flag_simps [simp]:
  "of_flag True = 1" "of_flag False = 0" "(of_flag b \<noteq> 0) = b" "(0 < of_flag b) = b"
  "(of_flag b = 0) = (\<not> b)" "of_flag b \<le> 1"
  by (auto simp: of_flag_def)

lemma abs_sdiv_le: "\<bar>(k :: int) sdiv l\<bar> \<le> \<bar>k\<bar>"
proof -
  have "\<bar>k\<bar> div \<bar>l\<bar> \<le> \<bar>k\<bar>" "0 \<le> \<bar>k\<bar> div \<bar>l\<bar>"
    using zdiv_mono2 [of "\<bar>k\<bar>" 1 "\<bar>l\<bar>"] by (cases "l = 0"; simp add: pos_imp_zdiv_nonneg_iff)+
  then show ?thesis by (simp add: signed_divide_int_def abs_mult abs_sgn_eq)
qed

lemma div_ceil_le: "0 < b \<Longrightarrow> a \<le> div_ceil a b * b"
proof -
  assume "0 < b"
  have "a div b * b + a mod b = a" by (rule div_mult_mod_eq)
  moreover have "a mod b < b" using \<open>0 < b\<close> by simp
  ultimately have "a \<le> a div b * b + b" "a mod b = 0 \<Longrightarrow> a \<le> a div b * b"
    by linarith+
  then show ?thesis by (simp add: div_ceil_def add.commute)
qed

lemma div_ceil_least:
  assumes "a \<le> k * b" and "0 < b"
  shows "div_ceil a b \<le> k"
proof (cases "a mod b = 0")
  case True
  have "a div b \<le> k * b div b" using assms(1) by (rule div_le_mono)
  with True assms(2) show ?thesis by (simp add: div_ceil_def)
next
  case False
  then have "a \<noteq> k * b" by auto
  with assms(1) have "a < k * b" by simp
  then have "a div b < k" by (rule less_mult_imp_div_less)
  with False show ?thesis by (simp add: div_ceil_def)
qed

lemma div_ceil_le_numerator: "0 < b \<Longrightarrow> 0 < a \<Longrightarrow> div_ceil a b \<le> a"
  by (cases "b = 1")
    (auto simp: div_ceil_def Suc_le_eq intro: div_less_dividend)

lemma div_mod_carry:
  fixes x n k :: nat
  assumes "0 < k"
  shows "(x + n) div k = x div k + (x mod k + n) div k"
proof -
  have "x + n = (x mod k + n) + x div k * k"
    by simp
  then have "(x + n) div k = ((x mod k + n) + x div k * k) div k"
    by (rule arg_cong)
  also have "\<dots> = x div k + (x mod k + n) div k"
    by (rule div_mult_self1) (use assms in simp)
  finally show ?thesis .
qed

lemma as_u32_le: "as_u32 n \<le> n"
  by (simp add: as_u32_def)

section \<open>A sample-span stage\<close>

text \<open>
  Every fixed-point stage of the receiver has the same contract: it checks the whole span
  first, leaves its state alone when the span is malformed, and otherwise advances one
  sample at a time.  The locale states the contract; its lemma is the property the stages
  are used for, that the callback partition of a stream is invisible.
\<close>

locale span_stage =
  fixes process :: "'s \<Rightarrow> 'x list \<Rightarrow> 'e + 's \<times> 'y list"
    and accepts :: "'x \<Rightarrow> bool"
    and valid :: "'s \<Rightarrow> bool"
  assumes process_ok: "valid s \<Longrightarrow> list_all accepts xs \<Longrightarrow>
      \<exists>s' ys. process s xs = Inr (s', ys) \<and> length ys = length xs \<and> valid s'"
    and process_rejects: "valid s \<Longrightarrow> \<not> list_all accepts xs \<Longrightarrow> \<exists>e. process s xs = Inl e"
    and process_append: "valid s \<Longrightarrow> xs \<noteq> [] \<Longrightarrow> zs \<noteq> [] \<Longrightarrow> process s xs = Inr (s1, ys) \<Longrightarrow>
      process s1 zs = Inr (s2, ws) \<Longrightarrow> process s (xs @ zs) = Inr (s2, ys @ ws)"

fun process_blocks :: "('s \<Rightarrow> 'x list \<Rightarrow> 'e + 's \<times> 'y list) \<Rightarrow> 's \<Rightarrow> 'x list list \<Rightarrow> 'e + 's \<times> 'y list" where
  "process_blocks p s [] = Inr (s, [])"
| "process_blocks p s (b # bs) =
     (case p s b of
        Inl e \<Rightarrow> Inl e
      | Inr (s1, ys) \<Rightarrow>
          (case process_blocks p s1 bs of
             Inl e \<Rightarrow> Inl e
           | Inr (s2, zs) \<Rightarrow> Inr (s2, ys @ zs)))"

context span_stage
begin

lemma accepted_iff: "valid s \<Longrightarrow> (\<exists>r. process s xs = Inr r) \<longleftrightarrow> list_all accepts xs"
  using process_ok [of s xs] process_rejects [of s xs] by (cases "list_all accepts xs") auto

lemma accepted_valid: "valid s \<Longrightarrow> process s xs = Inr (s', ys) \<Longrightarrow> valid s'"
  using process_ok [of s xs] process_rejects [of s xs] by (cases "list_all accepts xs") auto

lemma blocks_cong:
  assumes "\<And>s xs. valid s \<Longrightarrow> xs \<noteq> [] \<Longrightarrow> p s xs = process s xs"
    and "valid s" and "\<forall>b \<in> set bs. b \<noteq> []"
  shows "process_blocks p s bs = process_blocks process s bs"
  using assms(2,3)
proof (induction bs arbitrary: s)
  case Nil
  then show ?case by simp
next
  case (Cons b bs)
  have "p s b = process s b" using assms(1) Cons.prems by simp
  then show ?case
    using Cons.IH Cons.prems accepted_valid [OF Cons.prems(1), of b]
    by (auto split: sum.splits)
qed

lemma blocks_partition:
  assumes "valid s" and "\<forall>b \<in> set bs. b \<noteq> []" and "bs \<noteq> []" and "list_all accepts (concat bs)"
  shows "process_blocks process s bs = process s (concat bs)"
  using assms
proof (induction bs arbitrary: s)
  case Nil
  then show ?case by simp
next
  case (Cons b bs)
  have ok: "list_all accepts b" "list_all accepts (concat bs)"
    using Cons.prems by simp_all
  from process_ok [OF Cons.prems(1) ok(1)] obtain s1 ys where b: "process s b = Inr (s1, ys)" "valid s1"
    by blast
  show ?case
  proof (cases "bs = []")
    case True
    with b show ?thesis by simp
  next
    case False
    have rest: "process_blocks process s1 bs = process s1 (concat bs)"
      using Cons.prems False b(2) by (intro Cons.IH) auto
    from process_ok [OF b(2) ok(2)] obtain s2 zs
      where c: "process s1 (concat bs) = Inr (s2, zs)" by blast
    have "concat bs \<noteq> []"
      using Cons.prems False by (cases bs) auto
    with Cons.prems b c have "process s (b @ concat bs) = Inr (s2, ys @ zs)"
      by (intro process_append) auto
    with b c rest show ?thesis by simp
  qed
qed

end

text \<open>The usual implementation of the contract: one step per sample.\<close>

fun step_samples :: "('s \<Rightarrow> 'x \<Rightarrow> 's \<times> 'y) \<Rightarrow> 's \<Rightarrow> 'x list \<Rightarrow> 's \<times> 'y list" where
  "step_samples step s [] = (s, [])"
| "step_samples step s (x # xs) =
     (let (s1, y) = step s x; (s2, ys) = step_samples step s1 xs in (s2, y # ys))"

lemma step_samples_append:
  "step_samples step s (xs @ zs) =
     (let (s1, ys) = step_samples step s xs; (s2, ws) = step_samples step s1 zs in (s2, ys @ ws))"
  by (induction xs arbitrary: s) (auto simp: case_prod_beta Let_def)

lemma length_step_samples [simp]: "length (snd (step_samples step s xs)) = length xs"
  by (induction xs arbitrary: s) (auto simp: case_prod_beta Let_def)

lemma step_samples_invariant:
  assumes "\<And>s x. P s \<Longrightarrow> x \<in> set xs \<Longrightarrow> P (fst (step s x))" and "P s"
  shows "P (fst (step_samples step s xs))"
  using assms by (induction xs arbitrary: s) (auto simp: case_prod_beta Let_def)

lemma step_samples_outputs:
  assumes "\<And>s x. P s \<Longrightarrow> x \<in> set xs \<Longrightarrow> P (fst (step s x)) \<and> Q (snd (step s x))" and "P s"
  shows "list_all Q (snd (step_samples step s xs))"
  using assms by (induction xs arbitrary: s) (auto simp: case_prod_beta Let_def)

text \<open>A loop on local variables and a loop on the stored state agree when every step does.\<close>

lemma step_samples_map:
  assumes "\<And>l x. P l \<Longrightarrow> x \<in> set xs \<Longrightarrow> P (fst (step l x)) \<and>
      stored (store l) x = (store (fst (step l x)), snd (step l x))"
    and "P l"
  shows "step_samples stored (store l) xs =
    (store (fst (step_samples step l xs)), snd (step_samples step l xs))"
  using assms
proof (induction xs arbitrary: l)
  case Nil
  then show ?case by simp
next
  case (Cons x xs)
  have "step_samples stored (store (fst (step l x))) xs =
      (store (fst (step_samples step (fst (step l x)) xs)), snd (step_samples step (fst (step l x)) xs))"
    by (rule Cons.IH) (use Cons.prems in auto)
  with Cons.prems show ?case by (simp add: case_prod_beta Let_def)
qed

text \<open>One step per sample, of which any may panic.\<close>

fun fallible_steps :: "('s \<Rightarrow> 'x \<Rightarrow> ('s \<times> 'y) option) \<Rightarrow> 's \<Rightarrow> 'x list \<Rightarrow> ('s \<times> 'y list) option" where
  "fallible_steps step s [] = Some (s, [])"
| "fallible_steps step s (x # xs) =
     Option.bind (step s x) (\<lambda>(s, y). map_option (\<lambda>(s, ys). (s, y # ys)) (fallible_steps step s xs))"

lemma fallible_steps_Cons:
  "fallible_steps step s (x # xs) = Some (s', zs) \<longleftrightarrow>
     (\<exists>s1 y ys. step s x = Some (s1, y) \<and> fallible_steps step s1 xs = Some (s', ys) \<and> zs = y # ys)"
  by (auto split: Option.bind_splits)

lemma fallible_steps_append:
  "fallible_steps step s (xs @ zs) = Some (s', ys) \<longleftrightarrow>
     (\<exists>s1 us ws. fallible_steps step s xs = Some (s1, us) \<and> fallible_steps step s1 zs = Some (s', ws) \<and> ys = us @ ws)"
  by (induction xs arbitrary: s ys) (auto simp: fallible_steps_Cons simp del: fallible_steps.simps(2))

lemma fallible_steps_total:
  assumes "\<And>s x. \<exists>s' y. step s x = Some (s', y)"
  shows "\<exists>s' ys. fallible_steps step s xs = Some (s', ys)"
proof (induction xs arbitrary: s)
  case (Cons x xs)
  then show ?case using assms [of s x] by (metis fallible_steps_Cons)
qed simp

section \<open>A frame clock\<close>

text \<open>
  The timing components advance by a number of native frames, at most \<open>limit\<close> of them in
  one call.  Advancing twice is advancing once by the sum, so any callback partition of
  the same frames gives the same state.
\<close>

locale frame_clock =
  fixes advance :: "'s \<Rightarrow> nat \<Rightarrow> 's"
    and steady :: "'s \<Rightarrow> bool"
    and limit :: nat
  assumes steady_advance: "steady s \<Longrightarrow> n \<le> limit \<Longrightarrow> steady (advance s n)"
    and advance_add: "steady s \<Longrightarrow> 0 < m \<Longrightarrow> 0 < n \<Longrightarrow> m + n \<le> limit \<Longrightarrow>
      advance (advance s m) n = advance s (m + n)"

context frame_clock
begin

lemma partition_sum:
  assumes "steady s" and "ns \<noteq> []" and "\<forall>n \<in> set ns. 0 < n" and "sum_list ns \<le> limit"
  shows "foldl advance s ns = advance s (sum_list ns)"
  using assms
proof (induction ns arbitrary: s)
  case Nil
  then show ?case by simp
next
  case (Cons n ns)
  show ?case
  proof (cases ns)
    case Nil
    then show ?thesis by simp
  next
    case (Cons m ms)
    have "foldl advance (advance s n) ns = advance (advance s n) (sum_list ns)"
      using Cons.prems Cons steady_advance [of s n] by (intro Cons.IH) auto
    moreover have "0 < sum_list ns"
      using Cons.prems Cons by auto
    ultimately show ?thesis
      using Cons.prems by (simp add: advance_add)
  qed
qed

end

end
