(* ===== verification/Soft_Float.thy ===== *)
theory Soft_Float
  imports Radio_Prelude "HOL-Library.Log_Nat"
begin

text \<open>
  Rust's \<open>f32\<close> and \<open>f64\<close> as the language defines them: IEEE 754 binary formats,
  round to nearest with ties to even.  A value is a NaN (payloads are not
  distinguished), a signed infinity, or a sign with an exact rational magnitude; each
  operation is the exact rational one followed by one rounding to the format.  The sign
  of zero is kept.  Everything here computes.
\<close>

datatype fp = NaN | Infty bool | Finite bool rat

type_synonym f32 = fp
type_synonym f64 = fp

record fp_format =
  precision :: int
  least_exponent :: int
  overflow_exponent :: int

definition binary32 :: fp_format where
  "binary32 = \<lparr>precision = 24, least_exponent = -149, overflow_exponent = 128\<rparr>"

definition binary64 :: fp_format where
  "binary64 = \<lparr>precision = 53, least_exponent = -1074, overflow_exponent = 1024\<rparr>"

section \<open>Rounding\<close>

text \<open>A power of two with an integer exponent, and the binary exponent of a positive
  rational: the greatest \<open>e\<close> with \<open>2 ^ e \<le> q\<close>.\<close>

definition pow2 :: "int \<Rightarrow> rat" where
  "pow2 e = (if 0 \<le> e then 2 ^ nat e else 1 / 2 ^ nat (- e))"

definition flog2 :: "rat \<Rightarrow> int" where
  "flog2 q = (let (a, b) = quotient_of q; d = bitlen a - bitlen b
              in if pow2 d \<le> q then d else d - 1)"

definition round_even :: "rat \<Rightarrow> int" where
  "round_even q = (let f = \<lfloor>q\<rfloor>; r = q - of_int f
                   in if r < 1 / 2 then f else if 1 / 2 < r then f + 1
                      else if even f then f else f + 1)"

definition grid_exponent :: "fp_format \<Rightarrow> rat \<Rightarrow> int" where
  "grid_exponent fmt q = max (least_exponent fmt) (flog2 q - precision fmt + 1)"

definition round_magnitude :: "fp_format \<Rightarrow> rat \<Rightarrow> rat" where
  "round_magnitude fmt q =
     (let u = pow2 (grid_exponent fmt q) in of_int (round_even (q / u)) * u)"

definition fp_round :: "fp_format \<Rightarrow> bool \<Rightarrow> rat \<Rightarrow> fp" where
  "fp_round fmt s q =
     (if q = 0 then Finite s 0
      else let m = round_magnitude fmt q
           in if pow2 (overflow_exponent fmt) \<le> m then Infty s else Finite s m)"

section \<open>Classification, sign and comparison\<close>

fun is_finite :: "fp \<Rightarrow> bool" where
  "is_finite (Finite _ _) = True"
| "is_finite _ = False"

fun is_nan :: "fp \<Rightarrow> bool" where
  "is_nan NaN = True"
| "is_nan _ = False"

definition signed :: "bool \<Rightarrow> rat \<Rightarrow> rat" where
  "signed s q = (if s then - q else q)"

fun fp_value :: "fp \<Rightarrow> rat" where
  "fp_value (Finite s q) = signed s q"
| "fp_value _ = 0"

definition fp_zero :: fp where
  "fp_zero = Finite False 0"

definition fp_of_rat :: "rat \<Rightarrow> fp" where
  "fp_of_rat q = Finite (q < 0) \<bar>q\<bar>"

fun fp_lt :: "fp \<Rightarrow> fp \<Rightarrow> bool" where
  "fp_lt NaN _ = False"
| "fp_lt _ NaN = False"
| "fp_lt (Infty s) (Infty t) = (s \<and> \<not> t)"
| "fp_lt (Infty s) (Finite _ _) = s"
| "fp_lt (Finite _ _) (Infty t) = (\<not> t)"
| "fp_lt (Finite s p) (Finite t q) = (signed s p < signed t q)"

fun fp_eq :: "fp \<Rightarrow> fp \<Rightarrow> bool" where
  "fp_eq (Infty s) (Infty t) = (s = t)"
| "fp_eq (Finite s p) (Finite t q) = (signed s p = signed t q)"
| "fp_eq _ _ = False"

definition fp_le :: "fp \<Rightarrow> fp \<Rightarrow> bool" where
  "fp_le x y = (fp_lt x y \<or> fp_eq x y)"

fun fp_abs :: "fp \<Rightarrow> fp" where
  "fp_abs NaN = NaN"
| "fp_abs (Infty _) = Infty False"
| "fp_abs (Finite _ q) = Finite False q"

text \<open>\<open>f32::max\<close> ignores a NaN operand; \<open>clamp\<close> keeps it.\<close>

definition fp_max :: "fp \<Rightarrow> fp \<Rightarrow> fp" where
  "fp_max x y = (if is_nan x then y else if is_nan y then x else if fp_lt x y then y else x)"

definition fp_clamp :: "fp \<Rightarrow> fp \<Rightarrow> fp \<Rightarrow> fp" where
  "fp_clamp x lo hi =
     (let y = (if fp_lt x lo then lo else x) in if fp_lt hi y then hi else y)"

section \<open>Arithmetic\<close>

fun fp_mul :: "fp_format \<Rightarrow> fp \<Rightarrow> fp \<Rightarrow> fp" where
  "fp_mul _ NaN _ = NaN"
| "fp_mul _ _ NaN = NaN"
| "fp_mul _ (Infty s) (Infty t) = Infty (s \<noteq> t)"
| "fp_mul _ (Infty s) (Finite t q) = (if q = 0 then NaN else Infty (s \<noteq> t))"
| "fp_mul _ (Finite s p) (Infty t) = (if p = 0 then NaN else Infty (s \<noteq> t))"
| "fp_mul fmt (Finite s p) (Finite t q) = fp_round fmt (s \<noteq> t) (p * q)"

fun fp_add :: "fp_format \<Rightarrow> fp \<Rightarrow> fp \<Rightarrow> fp" where
  "fp_add _ NaN _ = NaN"
| "fp_add _ _ NaN = NaN"
| "fp_add _ (Infty s) (Infty t) = (if s = t then Infty s else NaN)"
| "fp_add _ (Infty s) (Finite _ _) = Infty s"
| "fp_add _ (Finite _ _) (Infty t) = Infty t"
| "fp_add fmt (Finite s p) (Finite t q) =
     (let r = signed s p + signed t q
      in if r = 0 then Finite (s \<and> t) 0 else fp_round fmt (r < 0) \<bar>r\<bar>)"

fun fp_div :: "fp_format \<Rightarrow> fp \<Rightarrow> fp \<Rightarrow> fp" where
  "fp_div _ NaN _ = NaN"
| "fp_div _ _ NaN = NaN"
| "fp_div _ (Infty _) (Infty _) = NaN"
| "fp_div _ (Infty s) (Finite t _) = Infty (s \<noteq> t)"
| "fp_div _ (Finite s _) (Infty t) = Finite (s \<noteq> t) 0"
| "fp_div fmt (Finite s p) (Finite t q) =
     (if q = 0 then (if p = 0 then NaN else Infty (s \<noteq> t))
      else fp_round fmt (s \<noteq> t) (p / q))"

text \<open>Conversions: an integer to a format, a wider format to a narrower one, rounding to
  the nearest integer with ties away from zero, and the saturating cast to an integer.\<close>

fun fp_neg :: "fp \<Rightarrow> fp" where
  "fp_neg NaN = NaN"
| "fp_neg (Infty s) = Infty (\<not> s)"
| "fp_neg (Finite s q) = Finite (\<not> s) q"

definition fp_sub :: "fp_format \<Rightarrow> fp \<Rightarrow> fp \<Rightarrow> fp" where
  "fp_sub fmt x y = fp_add fmt x (fp_neg y)"

definition fp_of_int :: "fp_format \<Rightarrow> int \<Rightarrow> fp" where
  "fp_of_int fmt n = fp_round fmt (n < 0) (of_int \<bar>n\<bar>)"

fun fp_narrow :: "fp_format \<Rightarrow> fp \<Rightarrow> fp" where
  "fp_narrow _ NaN = NaN"
| "fp_narrow _ (Infty s) = Infty s"
| "fp_narrow fmt (Finite s q) = fp_round fmt s q"

fun fp_nearest :: "fp \<Rightarrow> fp" where
  "fp_nearest (Finite s q) = Finite s (of_int \<lfloor>q + 1 / 2\<rfloor>)"
| "fp_nearest x = x"

fun fp_to_int :: "int \<Rightarrow> int \<Rightarrow> fp \<Rightarrow> int" where
  "fp_to_int lo hi NaN = 0"
| "fp_to_int lo hi (Infty s) = (if s then lo else hi)"
| "fp_to_int lo hi (Finite s q) = max lo (min hi (if s then - \<lfloor>q\<rfloor> else \<lfloor>q\<rfloor>))"

text \<open>The correctly rounded square root.  No rational square root is a rounding tie, so
  the integer root of the scaled operand and one comparison decide.\<close>

function isqrt_search :: "nat \<Rightarrow> nat \<Rightarrow> nat \<Rightarrow> nat" where
  "isqrt_search n lo hi =
     (if hi \<le> lo + 1 then lo
      else let m = (lo + hi) div 2
           in if m * m \<le> n then isqrt_search n m hi else isqrt_search n lo m)"
  by pat_completeness auto
termination
  by (relation "measure (\<lambda>(n, lo, hi). hi - lo)") auto

declare isqrt_search.simps [simp del]

definition isqrt :: "nat \<Rightarrow> nat" where
  "isqrt n = isqrt_search n 0 (n + 1)"

fun fp_sqrt :: "fp_format \<Rightarrow> fp \<Rightarrow> fp" where
  "fp_sqrt fmt NaN = NaN"
| "fp_sqrt fmt (Infty s) = (if s then NaN else Infty s)"
| "fp_sqrt fmt (Finite s q) =
     (if q = 0 then Finite s 0
      else if s then NaN
      else let e = max (least_exponent fmt) (flog2 q div 2 - precision fmt + 1);
               scaled = q / (pow2 e * pow2 e);
               m = int (isqrt (nat \<lfloor>scaled\<rfloor>));
               half = of_int m + 1 / 2
           in Finite False (of_int (if half * half < scaled then m + 1 else m) * pow2 e))"

section \<open>Exactness of representable values\<close>

lemma pow2_pos [simp]: "0 < pow2 e"
  by (simp add: pow2_def)

lemma pow2_nonzero [simp]: "pow2 e \<noteq> 0"
  using pow2_pos [of e] by linarith

lemma pow2_eq_powi: "pow2 e = 2 powi e"
  by (simp add: pow2_def power_int_def field_simps)

lemma pow2_add: "pow2 (a + b) = pow2 a * pow2 b"
  by (simp add: pow2_eq_powi power_int_add)

lemma pow2_mono: "a \<le> b \<Longrightarrow> pow2 a \<le> pow2 b"
  by (simp add: pow2_eq_powi power_int_increasing)

lemma pow2_strict_mono: "a < b \<Longrightarrow> pow2 a < pow2 b"
  by (simp add: pow2_eq_powi power_int_strict_increasing)

lemma pow2_less_cancel: "pow2 a < pow2 b \<Longrightarrow> a < b"
  using pow2_mono [of b a] by (meson leD le_less_linear)

lemma pow2_nat: "0 \<le> e \<Longrightarrow> pow2 e = of_int (2 ^ nat e)"
  by (simp add: pow2_def)

lemma round_even_int [simp]: "round_even (of_int n) = n"
  by (simp add: round_even_def Let_def)

lemma pow2_flog2:
  assumes "0 < q"
  shows "pow2 (flog2 q) \<le> q" and "q < pow2 (flog2 q + 1)"
proof -
  obtain a b where ab: "quotient_of q = (a, b)"
    by fastforce
  then have b: "0 < b" and q: "q = of_int a / of_int b"
    by (simp_all add: quotient_of_denom_pos quotient_of_div)
  with assms have a: "0 < a"
    by (simp add: zero_less_divide_iff)
  define d where "d = bitlen a - bitlen b"
  have bl: "1 \<le> bitlen a" "1 \<le> bitlen b"
    using a b bitlen_nonneg [of a] bitlen_nonneg [of b] bitlen_eq_zero_iff [of a] bitlen_eq_zero_iff [of b]
    by linarith+
  have bounds: "pow2 (bitlen x - 1) \<le> of_int x" "of_int x < pow2 (bitlen x)"
    if "0 < x" "1 \<le> bitlen x" for x
    using bitlen_bounds [OF that(1)] that by (simp_all add: pow2_nat)
  have qb: "q * of_int b = of_int a"
    using b q by simp
  have "of_int a \<le> q * pow2 (bitlen b)" "q * pow2 (bitlen b - 1) \<le> of_int a"
    unfolding qb [symmetric] using bounds [OF b bl(2)] assms by (auto intro: mult_left_mono)
  then have "pow2 (bitlen a - 1) \<le> q * pow2 (bitlen b)"
    and "q * pow2 (bitlen b - 1) < pow2 (bitlen a)"
    using bounds [OF a bl(1)] by linarith+
  moreover have "pow2 (bitlen a - 1) = pow2 (d - 1) * pow2 (bitlen b)"
    and "pow2 (bitlen a) = pow2 (d + 1) * pow2 (bitlen b - 1)"
    by (simp_all add: d_def pow2_add [symmetric])
  ultimately have low: "pow2 (d - 1) \<le> q" and high: "q < pow2 (d + 1)"
    by simp_all
  show "pow2 (flog2 q) \<le> q" and "q < pow2 (flog2 q + 1)"
    using low high by (auto simp: flog2_def ab d_def [symmetric] Let_def)
qed

lemma flog2_le_iff: "0 < q \<Longrightarrow> q < pow2 e \<Longrightarrow> flog2 q < e"
  using pow2_flog2(1) [of q] by (meson order_le_less_trans pow2_less_cancel)

text \<open>A magnitude \<open>n * 2 ^ k\<close> with \<open>n\<close> in the precision and \<open>k\<close> in the exponent range is
  a value of the format: rounding leaves it alone.\<close>

lemma round_magnitude_exact:
  assumes n: "0 < n" "of_int n < pow2 (precision fmt)" and k: "least_exponent fmt \<le> k"
  shows "round_magnitude fmt (of_int n * pow2 k) = of_int n * pow2 k"
proof -
  define q where "q = of_int n * pow2 k"
  have "0 < q" using n by (simp add: q_def)
  moreover have "q < pow2 (precision fmt + k)"
    using n by (simp add: q_def pow2_add)
  ultimately have "flog2 q < precision fmt + k"
    by (rule flog2_le_iff)
  with k have e: "grid_exponent fmt q \<le> k"
    by (simp add: grid_exponent_def)
  define j where "j = k - grid_exponent fmt q"
  have j: "0 \<le> j" "k = j + grid_exponent fmt q"
    using e by (simp_all add: j_def)
  have "q / pow2 (grid_exponent fmt q) = of_int (n * 2 ^ nat j)"
    unfolding q_def [symmetric] using j(1)
    by (subst q_def, subst j(2)) (simp add: pow2_add pow2_nat [symmetric] pow2_nat)
  moreover have "of_int (n * 2 ^ nat j) * pow2 (grid_exponent fmt q) = q"
    using calculation by (simp add: field_simps)
  ultimately show ?thesis
    unfolding q_def [symmetric] by (simp only: round_magnitude_def Let_def round_even_int)
qed

lemma fp_round_exact:
  assumes "0 \<le> n" and "of_int n < pow2 (precision fmt)" and "least_exponent fmt \<le> k"
    and "of_int n * pow2 k < pow2 (overflow_exponent fmt)"
  shows "fp_round fmt s (of_int n * pow2 k) = Finite s (of_int n * pow2 k)"
proof (cases "n = 0")
  case True
  then show ?thesis by (simp add: fp_round_def)
next
  case False
  with assms have "round_magnitude fmt (of_int n * pow2 k) = of_int n * pow2 k"
    by (intro round_magnitude_exact) simp_all
  with assms False show ?thesis
    by (simp add: fp_round_def)
qed

text \<open>In \<open>f32\<close>: integers up to \<open>2 ^ 23\<close>, divided by \<open>2 ^ 15\<close> or not, are exact.\<close>

lemma fp_round_f32_int:
  assumes "0 \<le> n" and "n < 8388608"
  shows "fp_round binary32 s (of_int n) = Finite s (of_int n)"
proof -
  have "(of_int n :: rat) < of_int 8388608"
    using assms(2) by (simp only: of_int_less_iff)
  then have "(of_int n :: rat) < 16777216" "(of_int n :: rat) < pow2 128"
    by (simp_all add: pow2_def)
  then show ?thesis
    using fp_round_exact [of n binary32 0 s] assms by (simp add: binary32_def pow2_def)
qed

lemma fp_round_f32_pcm:
  assumes "0 \<le> n" and "n < 8388608"
  shows "fp_round binary32 s (of_int n / 32768) = Finite s (of_int n / 32768)"
proof -
  have "(of_int n :: rat) < of_int 8388608"
    using assms(2) by (simp only: of_int_less_iff)
  then have "(of_int n :: rat) < 16777216" "of_int n / 32768 < pow2 128"
    by (simp_all add: pow2_def)
  then show ?thesis
    using fp_round_exact [of n binary32 "-15" s] assms by (simp add: binary32_def pow2_def)
qed

lemma fp_of_int_f32: "\<bar>n\<bar> < 8388608 \<Longrightarrow> fp_of_int binary32 n = Finite (n < 0) (of_int \<bar>n\<bar>)"
  unfolding fp_of_int_def by (rule fp_round_f32_int) simp_all

section \<open>The integer square root\<close>

lemma isqrt_search_bounds:
  assumes "lo * lo \<le> n" and "n < hi * hi"
  shows "isqrt_search n lo hi * isqrt_search n lo hi \<le> n \<and>
    n < (isqrt_search n lo hi + 1) * (isqrt_search n lo hi + 1)"
  using assms
proof (induction n lo hi rule: isqrt_search.induct)
  case (1 n lo hi)
  show ?case
  proof (cases "hi \<le> lo + 1")
    case True
    then have "hi * hi \<le> (lo + 1) * (lo + 1)"
      by (intro mult_le_mono)
    with "1.prems" True show ?thesis
      by (subst (1 2 3 4) isqrt_search.simps) simp
  next
    case False
    with "1.IH" "1.prems" show ?thesis
      by (subst (1 2 3 4) isqrt_search.simps) (auto simp: Let_def not_le)
  qed
qed

lemma isqrt_bounds: "isqrt n * isqrt n \<le> n" "n < (isqrt n + 1) * (isqrt n + 1)"
  using isqrt_search_bounds [of 0 n "n + 1"] by (simp_all add: isqrt_def)

end
