(* ===== verification/Timer.thy ===== *)
theory Timer
  imports Radio_Prelude
begin

text \<open>
  Sample-clocked timer arithmetic (\<open>src/timer.rs\<close>): whole milliseconds out of native
  frames with a persistent sub-millisecond remainder, and a millisecond countdown that
  reports the time left after expiry.
\<close>

definition NATIVE_SAMPLE_RATE_HZ :: nat where
  "NATIVE_SAMPLE_RATE_HZ = 48000"

definition FRAMES_PER_MILLISECOND :: nat where
  "FRAMES_PER_MILLISECOND = NATIVE_SAMPLE_RATE_HZ div 1000"

text \<open>The persistent remainder comes in and goes out; the sum is taken in \<open>u64\<close>, where
  it cannot overflow, and the quotient is cast to \<open>i32\<close>.\<close>

definition elapsed_ms :: "nat \<Rightarrow> nat \<Rightarrow> int \<times> nat" where
  "elapsed_ms remainder native_frames =
     (let elapsed = remainder + native_frames;
          milliseconds = wrap_i32 (int (elapsed div FRAMES_PER_MILLISECOND))
      in (milliseconds, as_u32 (elapsed mod FRAMES_PER_MILLISECOND)))"

text \<open>\<open>consume timer milliseconds\<close> returns the new timer and the residual duration.\<close>

definition consume :: "int \<Rightarrow> int \<Rightarrow> int \<times> int" where
  "consume timer milliseconds =
     (if timer \<le> 0 \<or> milliseconds \<le> 0 then (timer, milliseconds)
      else if timer \<le> milliseconds then (0, milliseconds - timer)
      else (timer - milliseconds, 0))"

lemma frames_per_millisecond [simp]: "FRAMES_PER_MILLISECOND = 48"
  by (simp add: FRAMES_PER_MILLISECOND_def NATIVE_SAMPLE_RATE_HZ_def)

lemma elapsed_ms_eq:
  assumes "r \<le> u32_max" and "n \<le> u32_max"
  shows "elapsed_ms r n = (int ((r + n) div 48), (r + n) mod 48)"
proof -
  have "(r + n) div 48 \<le> 178956970"
    using assms by (simp add: u32_max_def)
  then have "wrap_i32 (int ((r + n) div 48)) = int ((r + n) div 48)"
    by (intro wrap_i32_id) (simp add: in_i32_def)
  moreover have "(r + n) mod 48 mod 4294967296 = (r + n) mod 48"
    by (rule mod_less) (use mod_less_divisor [of 48 "r + n"] in linarith)
  ultimately show ?thesis
    by (simp add: elapsed_ms_def as_u32_def Let_def)
qed

lemma elapsed_ms_remainder: "snd (elapsed_ms r n) < 48"
proof -
  have "as_u32 ((r + n) mod 48) \<le> (r + n) mod 48"
    by (rule as_u32_le)
  also have "\<dots> < 48" by simp
  finally show ?thesis by (simp add: elapsed_ms_def Let_def)
qed

lemma consume_simps [simp]:
  "consume 0 ms = (0, ms)"
  "consume t 0 = (t, 0)"
  by (simp_all add: consume_def)

lemma consume_bounds:
  assumes "consume t ms = (t', rest)" and "0 \<le> t" and "0 \<le> ms"
  shows "0 \<le> t'" and "t' \<le> t" and "0 \<le> rest" and "rest \<le> ms"
  using assms by (auto simp: consume_def split: if_splits)

text \<open>Native frames are neither lost nor invented by the millisecond clock.\<close>

theorem elapsed_ms_conserves_frames:
  assumes "r \<le> u32_max" and "n \<le> u32_max" and "elapsed_ms r n = (ms, r')"
  shows "48 * nat ms + r' = r + n \<and> r' < 48 \<and> in_i32 ms \<and> 0 \<le> ms"
proof -
  have "ms = int ((r + n) div 48)" and "r' = (r + n) mod 48"
    using assms elapsed_ms_eq by auto
  moreover have "in_i32 (int ((r + n) div 48))"
    using assms(1,2) by (simp add: in_i32_def u32_max_def)
  ultimately show ?thesis by simp
qed

theorem elapsed_ms_conserves_frames_witness:
  "48 * nat 20 + 17 = 5 + (972::nat) \<and> (17::nat) < 48 \<and> in_i32 20 \<and> (0::int) \<le> 20"
  by (rule elapsed_ms_conserves_frames) (simp_all add: u32_max_def elapsed_ms_eq)

text \<open>The clock that accumulates milliseconds over callbacks is a frame clock.\<close>

definition elapsed_clock :: "int \<times> nat \<Rightarrow> nat \<Rightarrow> int \<times> nat" where
  "elapsed_clock s n = (let (ms, r) = elapsed_ms (snd s) n in (fst s + ms, r))"

interpretation ec: frame_clock elapsed_clock "\<lambda>s. snd s < 48" u32_max
proof unfold_locales
  fix s :: "int \<times> nat" and n
  show "snd (elapsed_clock s n) < 48"
    using elapsed_ms_remainder [of "snd s" n] by (auto simp: elapsed_clock_def split: prod.split)
next
  fix s :: "int \<times> nat" and m n :: nat
  assume s: "snd s < 48" and mn: "m + n \<le> u32_max"
  define r1 where "r1 = (snd s + m) mod 48"
  have r1: "r1 < 48" by (simp add: r1_def)
  have "(snd s + (m + n)) div 48 = (snd s + m) div 48 + (r1 + n) div 48"
    using div_mod_carry [of 48 "snd s + m" n] by (simp add: r1_def add.assoc)
  then show "elapsed_clock (elapsed_clock s m) n = elapsed_clock s (m + n)"
    using s mn r1 by (simp add: elapsed_clock_def elapsed_ms_eq u32_max_def r1_def mod_add_left_eq add.assoc Let_def)
qed

text \<open>However a stream of native frames is split into callbacks, the milliseconds
  counted and the remainder kept are those of one callback.\<close>

theorem elapsed_ms_partition:
  assumes "snd s < 48" and "ns \<noteq> []" and "\<forall>n \<in> set ns. 0 < n" and "sum_list ns \<le> u32_max"
  shows "foldl elapsed_clock s ns = elapsed_clock s (sum_list ns)"
  using assms by (rule ec.partition_sum)

theorem elapsed_ms_partition_witness:
  "foldl elapsed_clock (0, 5) [7, 960, 30] = elapsed_clock (0, 5) (sum_list [7, 960, 30])"
  by (rule elapsed_ms_partition) (simp_all add: u32_max_def)

text \<open>A running timer spends exactly the time it is given: what it loses and what it
  hands on add up to the elapsed time, and something is handed on only at expiry.\<close>

theorem consume_conserves:
  assumes "0 < t" and "0 \<le> ms" and "consume t ms = (t', rest)"
  shows "(t - t') + rest = ms \<and> 0 \<le> t' \<and> (rest = 0 \<or> t' = 0)"
  using assms by (auto simp: consume_def split: if_splits)

theorem consume_conserves_witness:
  "(10 - 0) + 4 = (14::int) \<and> (0::int) \<le> 0 \<and> ((4::int) = 0 \<or> (0::int) = 0)"
  by (rule consume_conserves) (simp_all add: consume_def)

end
