(* ===== verification/Audio_Meter.thy ===== *)
theory Audio_Meter
  imports Soft_Float
begin

text \<open>
  The quantiser every fixed-point stage starts from (\<open>src/audio_meter.rs\<close>) and the map
  back, \<open>f32::from(code) / PCM_SCALE\<close>, that every stage writes its output with.
\<close>

definition PCM_SCALE :: f32 where
  "PCM_SCALE = fp_of_int binary32 32768"

definition f32_to_pcm_code :: "f32 \<Rightarrow> int result" where
  "f32_to_pcm_code sample =
     (if \<not> is_finite sample then Inl INVALID_ARGUMENT
      else Inr (fp_to_int (-2147483648) 2147483647
             (fp_clamp (fp_nearest (fp_mul binary32 sample PCM_SCALE))
                (fp_of_int binary32 (-32768)) (fp_of_int binary32 32767))))"

definition pcm_to_f32 :: "int \<Rightarrow> f32" where
  "pcm_to_f32 code = fp_div binary32 (fp_of_int binary32 code) PCM_SCALE"

lemma PCM_SCALE_eq: "PCM_SCALE = Finite False 32768"
  by (simp add: PCM_SCALE_def fp_of_int_f32)

lemma pcm_to_f32_eq:
  assumes "in_i16 c"
  shows "pcm_to_f32 c = Finite (c < 0) (of_int \<bar>c\<bar> / 32768)"
proof -
  have "fp_of_int binary32 c = Finite (c < 0) (of_int \<bar>c\<bar>)"
    using assms by (intro fp_of_int_f32) (auto simp: in_i16_def)
  moreover have "fp_round binary32 s (of_int \<bar>c\<bar> / 32768) = Finite s (of_int \<bar>c\<bar> / 32768)" for s
    using assms by (intro fp_round_f32_pcm) (auto simp: in_i16_def)
  ultimately show ?thesis
    by (simp add: pcm_to_f32_def PCM_SCALE_eq del: of_int_abs)
qed

lemma pcm_to_f32_finite [simp]: "in_i16 c \<Longrightarrow> is_finite (pcm_to_f32 c)"
  by (simp add: pcm_to_f32_eq)

lemma clamp_code_range:
  assumes "\<not> is_nan x"
  shows "in_i16 (fp_to_int (-2147483648) 2147483647
           (fp_clamp x (fp_of_int binary32 (-32768)) (fp_of_int binary32 32767)))"
proof (cases x)
  case NaN
  with assms show ?thesis by simp
next
  case (Infty s)
  then show ?thesis
    by (cases s) (simp_all add: fp_clamp_def fp_of_int_f32 signed_def in_i16_def)
next
  case (Finite s q)
  show ?thesis
  proof (cases "fp_lt x (Finite True 32768) \<or> fp_lt (Finite False 32767) x")
    case True
    then show ?thesis
      by (auto simp: Finite fp_clamp_def fp_of_int_f32 signed_def in_i16_def Let_def)
  next
    case False
    then have "s \<Longrightarrow> -32767 \<le> \<lfloor>q\<rfloor>" "s \<Longrightarrow> \<lfloor>q\<rfloor> \<le> 32768"
      "\<not> s \<Longrightarrow> -32768 \<le> \<lfloor>q\<rfloor>" "\<not> s \<Longrightarrow> \<lfloor>q\<rfloor> \<le> 32767"
      by (auto simp: Finite signed_def floor_le_iff)
    then have "-32768 \<le> (if s then - \<lfloor>q\<rfloor> else \<lfloor>q\<rfloor>)" "(if s then - \<lfloor>q\<rfloor> else \<lfloor>q\<rfloor>) \<le> 32767"
      by (cases s; simp; linarith)+
    with False show ?thesis
      by (simp add: Finite fp_clamp_def fp_of_int_f32 in_i16_def Let_def)
  qed
qed

lemma fp_mul_scale_not_nan: "is_finite x \<Longrightarrow> \<not> is_nan (fp_mul binary32 x PCM_SCALE)"
  by (cases x) (simp_all add: PCM_SCALE_eq fp_round_def Let_def)

lemma is_nan_nearest [simp]: "is_nan (fp_nearest x) = is_nan x"
  by (cases x) simp_all

lemma f32_to_pcm_code_i16:
  assumes "f32_to_pcm_code x = Inr c"
  shows "is_finite x" and "in_i16 c"
  using assms clamp_code_range [of "fp_nearest (fp_mul binary32 x PCM_SCALE)"]
  by (auto simp: f32_to_pcm_code_def fp_mul_scale_not_nan split: if_splits)

lemma f32_to_pcm_code_of_code:
  assumes "in_i16 c"
  shows "f32_to_pcm_code (pcm_to_f32 c) = Inr c"
proof -
  have c: "\<bar>c\<bar> < 8388608"
    using assms by (auto simp: in_i16_def)
  have mul: "fp_mul binary32 (pcm_to_f32 c) PCM_SCALE = Finite (c < 0) (of_int \<bar>c\<bar>)"
    using fp_round_f32_int [of "\<bar>c\<bar>" "c < 0"] c assms
    by (simp add: pcm_to_f32_eq PCM_SCALE_eq del: of_int_abs)
  have near: "fp_nearest (Finite (c < 0) (of_int \<bar>c\<bar>)) = Finite (c < 0) (of_int \<bar>c\<bar>)"
    by (simp add: floor_unique [of "\<bar>c\<bar>"] del: of_int_abs)
  have "(of_int c :: rat) < -32768 \<longleftrightarrow> c < -32768" "(32767 :: rat) < of_int c \<longleftrightarrow> 32767 < c"
    by linarith+
  then have "fp_clamp (Finite (c < 0) (of_int \<bar>c\<bar>)) (fp_of_int binary32 (-32768))
      (fp_of_int binary32 32767) = Finite (c < 0) (of_int \<bar>c\<bar>)"
    using assms by (auto simp: fp_clamp_def fp_of_int_f32 signed_def in_i16_def)
  then show ?thesis
    using assms unfolding f32_to_pcm_code_def mul near
    by (auto simp: in_i16_def simp del: of_int_abs)
qed

text \<open>The quantiser rejects exactly the non-finite samples, with the invalid-argument
  status, and every code it returns is a signed 16-bit value, so the \<open>as i16\<close> casts of
  the stages that follow lose nothing.\<close>

theorem pcm_code_total:
  "(if is_finite x then \<exists>c. f32_to_pcm_code x = Inr c \<and> in_i16 c
    else f32_to_pcm_code x = Inl INVALID_ARGUMENT)"
  using clamp_code_range [of "fp_nearest (fp_mul binary32 x PCM_SCALE)"]
  by (simp add: f32_to_pcm_code_def fp_mul_scale_not_nan)

text \<open>C23: a sample written from a signed 16-bit code is read back as that code.\<close>

theorem pcm_roundtrip:
  assumes "in_i16 c"
  shows "f32_to_pcm_code (pcm_to_f32 c) = Inr c"
  using assms by (rule f32_to_pcm_code_of_code)

theorem pcm_roundtrip_witness:
  "f32_to_pcm_code (pcm_to_f32 (-12345)) = Inr (-12345)"
  by (rule pcm_roundtrip) (simp add: in_i16_def)

end
