(* ===== verification/Signal_Mode.thy ===== *)
theory Signal_Mode
  imports Timer
begin

text \<open>
  Receive signaling-mode selection (\<open>src/signal_mode.rs\<close>): which of CTCSS and DCS owns the
  received code, how long it is held, and which transmit CTCSS tone follows the decoded
  one.  \<open>smc_\<close>, \<open>smi_\<close> and \<open>sms_\<close> are the fields of the configuration, the input snapshot
  and the state.  The array of mapped frequencies is a list of \<open>TONE_COUNT\<close> entries.
\<close>

definition MODE_NONE :: int where "MODE_NONE = 0"
definition MODE_CTCSS :: int where "MODE_CTCSS = 2"
definition MODE_DCS :: int where "MODE_DCS = 3"
definition CTCSS_NONE :: int where "CTCSS_NONE = -1"
definition TONE_COUNT :: nat where "TONE_COUNT = 38"

record signal_mode_config =
  smc_hold_ms :: int
  smc_ctcss_tx_enabled :: nat
  smc_default_tx_ctcss_frequency_tenths_hz :: int
  smc_mapped_tx_ctcss_frequency_tenths_hz :: "int list"

record signal_mode_input =
  smi_elapsed_ms :: int
  smi_decoded_ctcss :: int
  smi_dcs_valid :: nat
  smi_tx_ptt_in :: nat

record signal_mode_state =
  sms_smode :: int
  sms_smode_was :: int
  sms_smode_timer_ms :: int
  sms_last_rx_ctcss :: int
  sms_tx_ctcss_frequency_tenths_hz :: int
  sms_tx_ctcss_option :: nat
  sms_smode_turnoff :: nat

definition signal_mode_default :: signal_mode_state where
  "signal_mode_default = \<lparr>
     sms_smode = MODE_NONE,
     sms_smode_was = MODE_NONE,
     sms_smode_timer_ms = 0,
     sms_last_rx_ctcss = CTCSS_NONE,
     sms_tx_ctcss_frequency_tenths_hz = 0,
     sms_tx_ctcss_option = 0,
     sms_smode_turnoff = 0\<rparr>"

definition signal_mode_validate_config :: "signal_mode_config \<Rightarrow> unit result" where
  "signal_mode_validate_config config =
     (if 1 < smc_ctcss_tx_enabled config \<or>
         list_ex (\<lambda>frequency. frequency < 0) (smc_mapped_tx_ctcss_frequency_tenths_hz config)
      then Inl INVALID_ARGUMENT else Inr ())"

text \<open>The four parts of \<open>advance_validated\<close>, in their order: the hold timer, the CTCSS
  claim, the transmit-tone selection and the DCS claim.\<close>

definition advance_hold_timer :: "signal_mode_input \<Rightarrow> signal_mode_state \<Rightarrow> signal_mode_state" where
  "advance_hold_timer input next =
     (if 0 < sms_smode_timer_ms next \<and> smi_tx_ptt_in input = 0 then
        let next = next\<lparr>sms_smode_timer_ms :=
                     fst (consume (sms_smode_timer_ms next) (smi_elapsed_ms input))\<rparr>
        in if sms_smode_timer_ms next = 0
           then next\<lparr>sms_smode_was := sms_smode next, sms_smode := MODE_NONE, sms_smode_turnoff := 1\<rparr>
           else next
      else next)"

definition claim_ctcss :: "signal_mode_config \<Rightarrow> signal_mode_input \<Rightarrow> signal_mode_state \<Rightarrow> signal_mode_state" where
  "claim_ctcss config input next =
     (if CTCSS_NONE < smi_decoded_ctcss input \<and>
         (sms_smode next = MODE_NONE \<or> sms_smode next = MODE_CTCSS) then
        let next = (if sms_smode next \<noteq> MODE_CTCSS
                    then next\<lparr>sms_smode := MODE_CTCSS, sms_smode_was := MODE_CTCSS\<rparr> else next)
        in next\<lparr>sms_smode_timer_ms := smc_hold_ms config\<rparr>
      else next)"

definition select_tx_tone :: "signal_mode_config \<Rightarrow> signal_mode_input \<Rightarrow> signal_mode_state \<Rightarrow> signal_mode_state" where
  "select_tx_tone config input next =
     (if sms_smode next = MODE_CTCSS \<and> smc_ctcss_tx_enabled config \<noteq> 0 then
        if smi_decoded_ctcss input \<noteq> sms_last_rx_ctcss next then
          let next = next\<lparr>sms_last_rx_ctcss := smi_decoded_ctcss input\<rparr>;
              selected_frequency =
                (if CTCSS_NONE < smi_decoded_ctcss input
                 then smc_mapped_tx_ctcss_frequency_tenths_hz config ! nat (smi_decoded_ctcss input)
                 else smc_default_tx_ctcss_frequency_tenths_hz config)
          in if selected_frequency \<noteq> 0 \<and> sms_tx_ctcss_frequency_tenths_hz next \<noteq> selected_frequency
             then next\<lparr>sms_tx_ctcss_frequency_tenths_hz := selected_frequency, sms_tx_ctcss_option := 1\<rparr>
             else next
        else next
      else next\<lparr>sms_last_rx_ctcss := CTCSS_NONE\<rparr>)"

definition claim_dcs :: "signal_mode_config \<Rightarrow> signal_mode_input \<Rightarrow> signal_mode_state \<Rightarrow> signal_mode_state" where
  "claim_dcs config input next =
     (if smi_dcs_valid input \<noteq> 0 \<and> (sms_smode next = MODE_NONE \<or> sms_smode next = MODE_DCS)
      then next\<lparr>sms_smode := MODE_DCS, sms_smode_was := MODE_DCS, sms_smode_timer_ms := smc_hold_ms config\<rparr>
      else next)"

definition signal_mode_advance :: "signal_mode_config \<Rightarrow> signal_mode_input \<Rightarrow> signal_mode_state \<Rightarrow> signal_mode_state" where
  "signal_mode_advance config input state =
     claim_dcs config input (select_tx_tone config input
       (claim_ctcss config input (advance_hold_timer input state)))"

lemmas signal_mode_consts [radio_defs] =
  MODE_NONE_def MODE_CTCSS_def MODE_DCS_def CTCSS_NONE_def TONE_COUNT_def

lemmas signal_mode_parts [radio_defs] =
  signal_mode_advance_def advance_hold_timer_def claim_ctcss_def select_tx_tone_def claim_dcs_def

section \<open>What an update can change\<close>

definition hold_expires :: "signal_mode_input \<Rightarrow> signal_mode_state \<Rightarrow> bool" where
  "hold_expires input s \<longleftrightarrow> 0 < sms_smode_timer_ms s \<and> smi_tx_ptt_in input = 0 \<and>
     sms_smode_timer_ms s \<le> smi_elapsed_ms input"

lemma advance_hold_timer_smode:
  "sms_smode (advance_hold_timer input s) = (if hold_expires input s then MODE_NONE else sms_smode s)"
  by (auto simp: advance_hold_timer_def hold_expires_def consume_def Let_def)

text \<open>The option word is either kept or set to the start request; the mode word stays one
  of the three modes.\<close>

lemma signal_mode_option:
  "sms_tx_ctcss_option (signal_mode_advance config input s) \<in> {sms_tx_ctcss_option s, 1}"
  by (simp add: radio_defs Let_def)

definition mode_wf :: "signal_mode_state \<Rightarrow> bool" where
  "mode_wf s \<longleftrightarrow> sms_smode s \<in> {MODE_NONE, MODE_CTCSS, MODE_DCS} \<and> sms_tx_ctcss_option s \<le> 3"

lemma mode_wf_default: "mode_wf signal_mode_default"
  by (simp add: mode_wf_def signal_mode_default_def)

lemma mode_wf_advance:
  "mode_wf s \<Longrightarrow> mode_wf (signal_mode_advance config input s)"
  by (auto simp: mode_wf_def radio_defs Let_def)

text \<open>Which mode owns the code after an update.  An expired hold frees the mode, CTCSS
  claims a free or CTCSS mode first, and DCS claims only what CTCSS left free: a decoder
  never takes the mode from the other one.\<close>

theorem signal_mode_owner:
  "sms_smode (signal_mode_advance config input s) =
     (let held = (if hold_expires input s then MODE_NONE else sms_smode s)
      in if CTCSS_NONE < smi_decoded_ctcss input \<and> held \<in> {MODE_NONE, MODE_CTCSS} then MODE_CTCSS
         else if smi_dcs_valid input \<noteq> 0 \<and> held \<in> {MODE_NONE, MODE_DCS} then MODE_DCS
         else held)"
proof -
  have "sms_smode (select_tx_tone config input t) = sms_smode t" for t
    by (simp add: select_tx_tone_def Let_def)
  then show ?thesis
    by (auto simp: signal_mode_advance_def claim_dcs_def claim_ctcss_def advance_hold_timer_smode
        MODE_NONE_def MODE_CTCSS_def MODE_DCS_def Let_def)
qed

text \<open>A state the decoders of this snapshot have nothing left to change in.\<close>

definition settled :: "signal_mode_config \<Rightarrow> signal_mode_input \<Rightarrow> signal_mode_state \<Rightarrow> bool" where
  "settled config input t \<longleftrightarrow>
     (CTCSS_NONE < smi_decoded_ctcss input \<and> sms_smode t \<in> {MODE_NONE, MODE_CTCSS} \<longrightarrow>
        sms_smode t = MODE_CTCSS \<and> sms_smode_timer_ms t = smc_hold_ms config) \<and>
     sms_last_rx_ctcss t = (if sms_smode t = MODE_CTCSS \<and> smc_ctcss_tx_enabled config \<noteq> 0
                            then smi_decoded_ctcss input else CTCSS_NONE) \<and>
     (smi_dcs_valid input \<noteq> 0 \<and> sms_smode t \<in> {MODE_NONE, MODE_DCS} \<longrightarrow>
        sms_smode t = MODE_DCS \<and> sms_smode_was t = MODE_DCS \<and>
        sms_smode_timer_ms t = smc_hold_ms config)"

lemma settled_fixed:
  assumes "settled config input t" and "smi_tx_ptt_in input \<noteq> 0"
  shows "signal_mode_advance config input t = t"
proof -
  have "advance_hold_timer input t = t"
    using assms(2) by (simp add: advance_hold_timer_def)
  moreover have "claim_ctcss config input t = t"
    using assms(1) by (cases t) (auto simp: settled_def claim_ctcss_def)
  moreover have "select_tx_tone config input t = t"
    using assms(1) by (cases t) (auto simp: settled_def select_tx_tone_def)
  moreover have "claim_dcs config input t = t"
    using assms(1) by (cases t) (auto simp: settled_def claim_dcs_def)
  ultimately show ?thesis
    by (simp add: signal_mode_advance_def)
qed

lemma select_tx_tone_fields:
  "sms_smode (select_tx_tone config input t) = sms_smode t"
  "sms_smode_timer_ms (select_tx_tone config input t) = sms_smode_timer_ms t"
  "sms_last_rx_ctcss (select_tx_tone config input t) =
     (if sms_smode t = MODE_CTCSS \<and> smc_ctcss_tx_enabled config \<noteq> 0
      then smi_decoded_ctcss input else CTCSS_NONE)"
  by (simp_all add: select_tx_tone_def Let_def)

lemma claim_ctcss_fields:
  "sms_smode (claim_ctcss config input t) =
     (if CTCSS_NONE < smi_decoded_ctcss input \<and> sms_smode t \<in> {MODE_NONE, MODE_CTCSS}
      then MODE_CTCSS else sms_smode t)"
  "CTCSS_NONE < smi_decoded_ctcss input \<Longrightarrow> sms_smode t \<in> {MODE_NONE, MODE_CTCSS} \<Longrightarrow>
     sms_smode_timer_ms (claim_ctcss config input t) = smc_hold_ms config"
  by (auto simp: claim_ctcss_def Let_def)

lemma settled_claim_dcs:
  assumes "sms_last_rx_ctcss t = (if sms_smode t = MODE_CTCSS \<and> smc_ctcss_tx_enabled config \<noteq> 0
      then smi_decoded_ctcss input else CTCSS_NONE)"
    and "CTCSS_NONE < smi_decoded_ctcss input \<Longrightarrow> sms_smode t \<in> {MODE_NONE, MODE_CTCSS} \<Longrightarrow>
      sms_smode t = MODE_CTCSS \<and> sms_smode_timer_ms t = smc_hold_ms config"
  shows "settled config input (claim_dcs config input t)"
  using assms by (auto simp: settled_def claim_dcs_def MODE_NONE_def MODE_CTCSS_def MODE_DCS_def)

lemma settled_advance: "settled config input (signal_mode_advance config input s)"
  unfolding signal_mode_advance_def
  by (rule settled_claim_dcs)
    (auto simp: select_tx_tone_fields claim_ctcss_fields MODE_NONE_def MODE_CTCSS_def split: if_splits)

lemma settled_option:
  "settled config input (t\<lparr>sms_tx_ctcss_option := x\<rparr>) = settled config input t"
  by (simp add: settled_def)

text \<open>A tone already acted on is not requested again: feeding the same decoder
  snapshot twice while the hold is frozen leaves the mode, the requested frequency and the
  consumed start request as the first update left them.\<close>

theorem signal_mode_tone_idempotent:
  assumes "smi_tx_ptt_in input \<noteq> 0"
  shows "let once = (signal_mode_advance config input s)\<lparr>sms_tx_ctcss_option := 0\<rparr>
         in signal_mode_advance config input once = once"
  using assms by (simp add: Let_def settled_fixed settled_option settled_advance)

definition signal_mode_sample :: "signal_mode_config" where
  "signal_mode_sample = \<lparr>smc_hold_ms = 2500, smc_ctcss_tx_enabled = 1,
     smc_default_tx_ctcss_frequency_tenths_hz = 1000,
     smc_mapped_tx_ctcss_frequency_tenths_hz = replicate 38 1072\<rparr>"

theorem signal_mode_tone_idempotent_witness:
  "let i = \<lparr>smi_elapsed_ms = 20, smi_decoded_ctcss = 4, smi_dcs_valid = 0, smi_tx_ptt_in = 1\<rparr>;
       once = (signal_mode_advance signal_mode_sample i signal_mode_default)\<lparr>sms_tx_ctcss_option := 0\<rparr>
   in sms_tx_ctcss_frequency_tenths_hz once = 1072 \<and>
      signal_mode_advance signal_mode_sample i once = once"
  unfolding Let_def
  by (rule conjI, code_simp, rule signal_mode_tone_idempotent [unfolded Let_def]) simp

end
