(* ===== verification/Ctcss_Render_State.thy ===== *)
theory Ctcss_Render_State
  imports Timer Soft_Float
begin

text \<open>
  The CTCSS renderer's option word and oscillator state (\<open>src/ctcss_render_state.rs\<close>).
  \<open>crc_\<close> and \<open>crs_\<close> are the configuration and state fields.
\<close>

definition OPTION_HOLD :: nat where "OPTION_HOLD = 0"
definition OPTION_START :: nat where "OPTION_START = 1"
definition OPTION_TURNOFF :: nat where "OPTION_TURNOFF = 2"
definition OPTION_DISABLE :: nat where "OPTION_DISABLE = 3"
definition CTCSS_STATE_DISABLED :: nat where "CTCSS_STATE_DISABLED = 0"
definition CTCSS_STATE_ACTIVE :: nat where "CTCSS_STATE_ACTIVE = 1"
definition CTCSS_STATE_TURNOFF :: nat where "CTCSS_STATE_TURNOFF = 2"

record ctcss_render_config =
  crc_turnoff_duration_ms :: int
  crc_turnoff_phase_shift_degrees :: f64
  crc_turnoff_tail_tone_hz :: f64

record ctcss_render_state =
  crs_option :: nat
  crs_oscillator_state :: nat
  crs_enabled :: nat
  crs_turnoff_remaining_ms :: int
  crs_phase_shift_degrees :: f64
  crs_tail_tone_hz :: f64

definition ctcss_render_default :: ctcss_render_state where
  "ctcss_render_default = \<lparr>
     crs_option = OPTION_HOLD,
     crs_oscillator_state = CTCSS_STATE_DISABLED,
     crs_enabled = 0,
     crs_turnoff_remaining_ms = 0,
     crs_phase_shift_degrees = fp_zero,
     crs_tail_tone_hz = fp_zero\<rparr>"

text \<open>The derived equality of the Rust struct, with IEEE equality on the two \<open>f64\<close> fields.\<close>

definition crs_eq :: "ctcss_render_state \<Rightarrow> ctcss_render_state \<Rightarrow> bool" where
  "crs_eq a b \<longleftrightarrow> crs_option a = crs_option b \<and> crs_oscillator_state a = crs_oscillator_state b \<and>
     crs_enabled a = crs_enabled b \<and> crs_turnoff_remaining_ms a = crs_turnoff_remaining_ms b \<and>
     fp_eq (crs_phase_shift_degrees a) (crs_phase_shift_degrees b) \<and>
     fp_eq (crs_tail_tone_hz a) (crs_tail_tone_hz b)"

definition ctcss_render_validate_config :: "ctcss_render_config \<Rightarrow> unit result" where
  "ctcss_render_validate_config config =
     (if crc_turnoff_duration_ms config < 0 \<or>
         \<not> is_finite (crc_turnoff_phase_shift_degrees config) \<or>
         \<not> is_finite (crc_turnoff_tail_tone_hz config)
      then Inl INVALID_ARGUMENT else Inr ())"

definition ctcss_render_advance :: "ctcss_render_config \<Rightarrow> int \<Rightarrow> ctcss_render_state \<Rightarrow> ctcss_render_state" where
  "ctcss_render_advance config elapsed state =
     (let next = state\<lparr>crs_phase_shift_degrees := fp_zero\<rparr>
      in if crs_option next = OPTION_HOLD then
           if crs_oscillator_state next = CTCSS_STATE_TURNOFF then
             let next = next\<lparr>crs_turnoff_remaining_ms :=
                          fst (consume (crs_turnoff_remaining_ms next) elapsed)\<rparr>
             in if crs_turnoff_remaining_ms next = 0
                then next\<lparr>crs_option := OPTION_DISABLE\<rparr> else next
           else next
         else if crs_option next = OPTION_START then
           next\<lparr>crs_option := OPTION_HOLD, crs_oscillator_state := CTCSS_STATE_ACTIVE,
                crs_tail_tone_hz := fp_zero\<rparr>
         else if crs_option next = OPTION_TURNOFF then
           next\<lparr>crs_option := OPTION_HOLD, crs_oscillator_state := CTCSS_STATE_TURNOFF,
                crs_turnoff_remaining_ms :=
                  max (saturating_i32 (crc_turnoff_duration_ms config - elapsed)) 0,
                crs_phase_shift_degrees := crc_turnoff_phase_shift_degrees config,
                crs_tail_tone_hz := crc_turnoff_tail_tone_hz config\<rparr>
         else
           next\<lparr>crs_option := OPTION_HOLD, crs_oscillator_state := CTCSS_STATE_DISABLED,
                crs_enabled := 0, crs_tail_tone_hz := fp_zero\<rparr>)"

lemmas ctcss_render_consts [radio_defs] =
  OPTION_HOLD_def OPTION_START_def OPTION_TURNOFF_def OPTION_DISABLE_def
  CTCSS_STATE_DISABLED_def CTCSS_STATE_ACTIVE_def CTCSS_STATE_TURNOFF_def

definition crs_wf :: "ctcss_render_state \<Rightarrow> bool" where
  "crs_wf s \<longleftrightarrow> crs_option s \<le> OPTION_DISABLE \<and> crs_oscillator_state s \<le> CTCSS_STATE_TURNOFF \<and>
     crs_enabled s \<le> 1 \<and> 0 \<le> crs_turnoff_remaining_ms s \<and>
     is_finite (crs_phase_shift_degrees s) \<and> is_finite (crs_tail_tone_hz s)"

lemma crs_wf_default: "crs_wf ctcss_render_default"
  by (simp add: crs_wf_def ctcss_render_default_def fp_zero_def radio_defs)

lemma crs_wf_advance:
  assumes "ctcss_render_validate_config config = Inr ()" and "crs_wf s" and "0 \<le> elapsed"
  shows "crs_wf (ctcss_render_advance config elapsed s)"
  using assms consume_bounds(1) [of "crs_turnoff_remaining_ms s" elapsed]
  by (auto simp: ctcss_render_advance_def ctcss_render_validate_config_def crs_wf_def radio_defs
      Let_def fp_zero_def prod_eq_iff split: if_splits)

lemma ctcss_render_option:
  "crs_option (ctcss_render_advance config elapsed s) =
     (if crs_option s = OPTION_HOLD \<and> crs_oscillator_state s = CTCSS_STATE_TURNOFF \<and>
         fst (consume (crs_turnoff_remaining_ms s) elapsed) = 0
      then OPTION_DISABLE else OPTION_HOLD)"
  by (simp add: ctcss_render_advance_def Let_def)

text \<open>With a validated configuration the render state keeps its type invariant (option
  and oscillator words in range, a nonnegative tail timer, finite phase and tail tone) and
  the one-shot option is consumed by the call, except that an expired tail asks for the
  next call to disable the oscillator.\<close>

theorem ctcss_render_advance_invariant:
  assumes "ctcss_render_validate_config config = Inr ()" and "crs_wf s" and "0 \<le> elapsed"
  shows "crs_wf (ctcss_render_advance config elapsed s) \<and>
    (crs_option (ctcss_render_advance config elapsed s) = OPTION_HOLD \<or>
     (crs_option (ctcss_render_advance config elapsed s) = OPTION_DISABLE \<and>
      crs_oscillator_state s = CTCSS_STATE_TURNOFF))"
  using assms by (simp add: crs_wf_advance ctcss_render_option)

definition ctcss_render_sample :: ctcss_render_config where
  "ctcss_render_sample = \<lparr>crc_turnoff_duration_ms = 200,
     crc_turnoff_phase_shift_degrees = Finite False 180, crc_turnoff_tail_tone_hz = fp_zero\<rparr>"

theorem ctcss_render_advance_invariant_witness:
  "let s = ctcss_render_default\<lparr>crs_oscillator_state := 2, crs_turnoff_remaining_ms := 20\<rparr>;
       t = ctcss_render_advance ctcss_render_sample 20 s
   in crs_wf t \<and> crs_option t = OPTION_DISABLE"
  using ctcss_render_advance_invariant [of ctcss_render_sample
      "ctcss_render_default\<lparr>crs_oscillator_state := 2, crs_turnoff_remaining_ms := 20\<rparr>" 20]
  by (simp add: ctcss_render_sample_def ctcss_render_validate_config_def crs_wf_def
      ctcss_render_default_def ctcss_render_advance_def radio_defs fp_zero_def consume_def Let_def)

end
