(* ===== verification/Tx_Primitives.thy ===== *)
theory Tx_Primitives
  imports Timer
begin

text \<open>
  The small transmitter and receiver state transitions: the DCS turn-off tail
  (\<open>src/dcs_turnoff.rs\<close>, fields \<open>dtc_\<close>, \<open>dti_\<close>, \<open>dts_\<close>), the finishing drain
  (\<open>src/tx_finish.rs\<close>, \<open>tfs_\<close>), the completion cleanup (\<open>src/tx_complete.rs\<close>, \<open>tcc_\<close>,
  \<open>tcs_\<close>) and the two CPU savers (\<open>src/tx_cpu_saver.rs\<close>, \<open>src/rx_cpu_saver.rs\<close>, \<open>txs_\<close>,
  \<open>rxs_\<close>).
\<close>

definition TX_STATE_IDLE :: int where "TX_STATE_IDLE = 0"
definition TX_STATE_ACTIVE :: int where "TX_STATE_ACTIVE = 1"
definition TX_STATE_TOC :: int where "TX_STATE_TOC = 2"
definition TX_STATE_FINISHING :: int where "TX_STATE_FINISHING = 4"
definition TX_STATE_COMPLETE :: int where "TX_STATE_COMPLETE = 5"

lemmas tx_state_defs [radio_defs] =
  TX_STATE_IDLE_def TX_STATE_ACTIVE_def TX_STATE_TOC_def TX_STATE_FINISHING_def TX_STATE_COMPLETE_def

section \<open>The DCS turn-off tail\<close>

record dcs_turnoff_config =
  dtc_turnoff_duration_ms :: int

record dcs_turnoff_input =
  dti_elapsed_ms :: int
  dti_tx_ptt_in :: nat
  dti_begin_turnoff :: nat

record dcs_turnoff_state =
  dts_tx_state :: int
  dts_dcs_turnoff_remaining_ms :: int
  dts_tx_hang_remaining_ms :: int
  dts_finish_requested :: nat
  dts_finish_elapsed_ms :: int

definition dcs_turnoff_validate_config :: "dcs_turnoff_config \<Rightarrow> unit result" where
  "dcs_turnoff_validate_config config =
     (if dtc_turnoff_duration_ms config \<le> 0 then Inl INVALID_ARGUMENT else Inr ())"

definition dcs_turnoff_validate_input :: "dcs_turnoff_input \<Rightarrow> unit result" where
  "dcs_turnoff_validate_input input =
     (if dti_elapsed_ms input < 0 \<or> 1 < dti_tx_ptt_in input \<or> 1 < dti_begin_turnoff input
      then Inl INVALID_ARGUMENT else Inr ())"

definition dcs_turnoff_validate :: "dcs_turnoff_config \<Rightarrow> dcs_turnoff_input \<Rightarrow> unit result" where
  "dcs_turnoff_validate config input =
     bind_result (dcs_turnoff_validate_config config) (\<lambda>_. dcs_turnoff_validate_input input)"

definition dcs_turnoff_begin :: "dcs_turnoff_config \<Rightarrow> int \<Rightarrow> dcs_turnoff_state \<Rightarrow> dcs_turnoff_state" where
  "dcs_turnoff_begin config elapsed state =
     (let next = state\<lparr>dts_finish_requested := 0, dts_finish_elapsed_ms := 0,
                       dts_tx_state := TX_STATE_TOC,
                       dts_dcs_turnoff_remaining_ms := dtc_turnoff_duration_ms config,
                       dts_tx_hang_remaining_ms := 0\<rparr>;
          (remaining, residual) = consume (dts_dcs_turnoff_remaining_ms next) elapsed;
          next = next\<lparr>dts_dcs_turnoff_remaining_ms := remaining\<rparr>
      in if remaining = 0
         then next\<lparr>dts_finish_requested := 1, dts_finish_elapsed_ms := residual\<rparr> else next)"

definition dcs_turnoff_advance ::
  "dcs_turnoff_config \<Rightarrow> dcs_turnoff_input \<Rightarrow> dcs_turnoff_state \<Rightarrow> dcs_turnoff_state result" where
  "dcs_turnoff_advance config input state =
     bind_result (dcs_turnoff_validate config input) (\<lambda>_.
       let next = state\<lparr>dts_finish_requested := 0, dts_finish_elapsed_ms := 0\<rparr>
       in if dts_tx_state next = TX_STATE_ACTIVE then
            if dti_tx_ptt_in input \<noteq> 0 \<or> dti_begin_turnoff input = 0 then Inl INVALID_ARGUMENT
            else Inr (dcs_turnoff_begin config (dti_elapsed_ms input) next)
          else if dts_tx_state next = TX_STATE_TOC then
            if dti_begin_turnoff input \<noteq> 0 \<or> dts_dcs_turnoff_remaining_ms next \<le> 0
            then Inl INVALID_ARGUMENT
            else if dti_tx_ptt_in input \<noteq> 0 then
              Inr (next\<lparr>dts_dcs_turnoff_remaining_ms := 0, dts_tx_state := TX_STATE_ACTIVE\<rparr>)
            else
              let (remaining, residual) = consume (dts_dcs_turnoff_remaining_ms next) (dti_elapsed_ms input);
                  next = next\<lparr>dts_dcs_turnoff_remaining_ms := remaining\<rparr>
              in Inr (if remaining = 0
                      then next\<lparr>dts_finish_requested := 1, dts_finish_elapsed_ms := residual\<rparr>
                      else next)
          else Inl INVALID_ARGUMENT)"

section \<open>The finishing drain\<close>

definition NORMAL_BUFFER_CLEAR_FRAMES :: int where "NORMAL_BUFFER_CLEAR_FRAMES = 3"
definition LEGACY_FRAME_MS :: int where "LEGACY_FRAME_MS = 20"

record tx_finish_state =
  tfs_buffer_clear_frames :: int
  tfs_finish_remaining_ms :: int
  tfs_tx_state :: int

definition tx_finish_advance :: "int \<Rightarrow> tx_finish_state \<Rightarrow> tx_finish_state" where
  "tx_finish_advance elapsed state =
     (let next = state\<lparr>tfs_buffer_clear_frames := NORMAL_BUFFER_CLEAR_FRAMES,
                       tfs_finish_remaining_ms := (NORMAL_BUFFER_CLEAR_FRAMES + 1) * LEGACY_FRAME_MS,
                       tfs_tx_state := TX_STATE_FINISHING\<rparr>;
          next = next\<lparr>tfs_finish_remaining_ms := fst (consume (tfs_finish_remaining_ms next) elapsed)\<rparr>
      in if tfs_finish_remaining_ms next = 0
         then next\<lparr>tfs_buffer_clear_frames := 0, tfs_tx_state := TX_STATE_COMPLETE\<rparr> else next)"

section \<open>The completion cleanup\<close>

record tx_complete_config =
  tcc_txrx_blanking_time_ms :: int

record tx_complete_state =
  tcs_tx_state :: int
  tcs_tx_ptt_out :: nat
  tcs_tx_ctcss_option :: nat
  tcs_txrx_blanking_timer_ms :: int
  tcs_txrx_blanking_sample_remainder :: nat
  tcs_tx_ctcss_ready :: nat

definition tx_complete_validate_config :: "tx_complete_config \<Rightarrow> unit result" where
  "tx_complete_validate_config config = Inr ()"

definition tx_complete :: "tx_complete_config \<Rightarrow> tx_complete_state \<Rightarrow> tx_complete_state result" where
  "tx_complete config state =
     bind_result (tx_complete_validate_config config) (\<lambda>_.
       Inr (state\<lparr>tcs_tx_ptt_out := 0,
                  tcs_tx_ctcss_option := 3,
                  tcs_txrx_blanking_timer_ms := tcc_txrx_blanking_time_ms config,
                  tcs_txrx_blanking_sample_remainder := 0,
                  tcs_tx_state := TX_STATE_IDLE,
                  tcs_tx_ctcss_ready := 1\<rparr>))"

section \<open>The CPU savers\<close>

record tx_cpu_saver_input =
  txs_enabled :: nat
  txs_tx_ptt_in :: nat
  txs_tx_ptt_out :: nat
  txs_tx_idle :: nat

definition tx_cpu_saver_advance :: "tx_cpu_saver_input \<Rightarrow> nat" where
  "tx_cpu_saver_advance input =
     of_flag (txs_enabled input \<noteq> 0 \<and> txs_tx_ptt_in input = 0 \<and> txs_tx_ptt_out input = 0 \<and>
              txs_tx_idle input \<noteq> 0)"

record rx_cpu_saver_input =
  rxs_enabled :: nat
  rxs_carrier_detect :: nat
  rxs_signal_mode_null :: nat
  rxs_tx_ptt_in :: nat
  rxs_tx_ptt_out :: nat

record rx_cpu_saver_state =
  rxs_halted :: nat
  rxs_action :: nat

definition ACTION_NONE :: nat where "ACTION_NONE = 0"
definition ACTION_ENTER :: nat where "ACTION_ENTER = 1"
definition ACTION_LEAVE :: nat where "ACTION_LEAVE = 2"

definition rx_cpu_saver_advance ::
  "rx_cpu_saver_input \<Rightarrow> rx_cpu_saver_state \<Rightarrow> rx_cpu_saver_state result" where
  "rx_cpu_saver_advance input state =
     (if 1 < rxs_enabled input \<or> 1 < rxs_carrier_detect input \<or> 1 < rxs_signal_mode_null input \<or>
         1 < rxs_tx_ptt_in input \<or> 1 < rxs_tx_ptt_out input \<or> 1 < rxs_halted state
      then Inl INVALID_ARGUMENT
      else
        let halted = of_flag (rxs_enabled input \<noteq> 0 \<and> rxs_carrier_detect input = 0 \<and>
                       rxs_signal_mode_null input \<noteq> 0 \<and> rxs_tx_ptt_in input = 0 \<and>
                       rxs_tx_ptt_out input = 0);
            action = (if halted = rxs_halted state then ACTION_NONE
                      else if halted \<noteq> 0 then ACTION_ENTER else ACTION_LEAVE)
        in Inr \<lparr>rxs_halted = halted, rxs_action = action\<rparr>)"

section \<open>Facts the owners use\<close>

lemma dcs_turnoff_begin_zero:
  "0 < dtc_turnoff_duration_ms config \<Longrightarrow>
   dcs_turnoff_begin config 0 state =
     state\<lparr>dts_finish_requested := 0, dts_finish_elapsed_ms := 0, dts_tx_state := TX_STATE_TOC,
           dts_dcs_turnoff_remaining_ms := dtc_turnoff_duration_ms config,
           dts_tx_hang_remaining_ms := 0\<rparr>"
  by (simp add: dcs_turnoff_begin_def Let_def)

lemma tx_finish_advance_zero:
  "tx_finish_advance 0 state =
     state\<lparr>tfs_buffer_clear_frames := 3, tfs_finish_remaining_ms := 80, tfs_tx_state := TX_STATE_FINISHING\<rparr>"
  by (simp add: tx_finish_advance_def NORMAL_BUFFER_CLEAR_FRAMES_def LEGACY_FRAME_MS_def Let_def)

text \<open>A DCS tail ends exactly when its duration has been spent.  From a running tail with
  PTT released, an update keeps the tail with the elapsed time taken off while some of it is
  left, and otherwise asks for the finishing drain with the unspent part of the callback.\<close>

theorem dcs_tail_countdown:
  assumes "dts_tx_state s = TX_STATE_TOC" and "0 < dts_dcs_turnoff_remaining_ms s"
    and "0 < dtc_turnoff_duration_ms config" and "0 \<le> ms"
  shows "\<exists>t. dcs_turnoff_advance config \<lparr>dti_elapsed_ms = ms, dti_tx_ptt_in = 0, dti_begin_turnoff = 0\<rparr> s
      = Inr t \<and> dts_tx_state t = TX_STATE_TOC \<and>
    (if ms < dts_dcs_turnoff_remaining_ms s
     then dts_finish_requested t = 0 \<and>
       dts_dcs_turnoff_remaining_ms t = dts_dcs_turnoff_remaining_ms s - ms
     else dts_finish_requested t = 1 \<and> dts_dcs_turnoff_remaining_ms t = 0 \<and>
       dts_finish_elapsed_ms t = ms - dts_dcs_turnoff_remaining_ms s)"
  using assms
  by (auto simp: dcs_turnoff_advance_def dcs_turnoff_validate_def dcs_turnoff_validate_config_def
      dcs_turnoff_validate_input_def bind_result_def consume_def radio_defs Let_def)

theorem dcs_tail_countdown_witness:
  "let s = \<lparr>dts_tx_state = TX_STATE_TOC, dts_dcs_turnoff_remaining_ms = 15, dts_tx_hang_remaining_ms = 0,
            dts_finish_requested = 0, dts_finish_elapsed_ms = 0\<rparr>
   in \<exists>t. dcs_turnoff_advance \<lparr>dtc_turnoff_duration_ms = 180\<rparr>
        \<lparr>dti_elapsed_ms = 20, dti_tx_ptt_in = 0, dti_begin_turnoff = 0\<rparr> s = Inr t \<and>
        dts_finish_requested t = 1 \<and> dts_finish_elapsed_ms t = 5"
  using dcs_tail_countdown [of "\<lparr>dts_tx_state = TX_STATE_TOC, dts_dcs_turnoff_remaining_ms = 15,
      dts_tx_hang_remaining_ms = 0, dts_finish_requested = 0, dts_finish_elapsed_ms = 0\<rparr>"
      "\<lparr>dtc_turnoff_duration_ms = 180\<rparr>" 20]
  by (auto simp: Let_def)

text \<open>The receiver CPU saver accepts exactly the boolean snapshots, halts exactly while it
  is enabled and every activity indicator is quiet, and labels the update enter or leave
  exactly when the halt flag changes.\<close>

theorem rx_cpu_saver_decision:
  "(case rx_cpu_saver_advance input s of
      Inl e \<Rightarrow> e = INVALID_ARGUMENT \<and>
        (\<exists>v \<in> {rxs_enabled input, rxs_carrier_detect input, rxs_signal_mode_null input,
               rxs_tx_ptt_in input, rxs_tx_ptt_out input, rxs_halted s}. 1 < v)
    | Inr t \<Rightarrow> (rxs_halted t = 1) = (rxs_enabled input = 1 \<and> rxs_carrier_detect input = 0 \<and>
          rxs_signal_mode_null input = 1 \<and> rxs_tx_ptt_in input = 0 \<and> rxs_tx_ptt_out input = 0) \<and>
        rxs_halted t \<le> 1 \<and>
        (rxs_action t = ACTION_ENTER) = (rxs_halted s = 0 \<and> rxs_halted t = 1) \<and>
        (rxs_action t = ACTION_LEAVE) = (rxs_halted s = 1 \<and> rxs_halted t = 0))"
  by (auto simp: rx_cpu_saver_advance_def of_flag_def ACTION_NONE_def ACTION_ENTER_def
      ACTION_LEAVE_def Let_def)

end
