(* ===== verification/Transmit_Signaling.thy ===== *)
theory Transmit_Signaling
  imports Signal_Mode Ctcss_Render_State Tx_Primitives
begin

text \<open>
  The transmitter signaling state machine (\<open>src/transmit_signaling.rs\<close>): tone selection,
  CTCSS and DCS turn-off, the finishing drain, logical PTT, and the bounded list of
  renderer spans of one native callback.  \<open>tsc_\<close>, \<open>tsi_\<close>, \<open>ts_\<close>, \<open>rs_\<close> and \<open>tso_\<close> are the
  fields of the configuration, the input, the state, a render span and the output.  A
  rejected call is an \<open>Inl\<close>; the caller then keeps the state it passed in.
\<close>

definition LEGACY_BUFFER_MS :: int where "LEGACY_BUFFER_MS = 20"
definition TAIL_TONE_BUFFER_CLEAR_FRAMES :: int where "TAIL_TONE_BUFFER_CLEAR_FRAMES = 8"
definition LEGACY_SIGNAL_INTERVAL_FRAMES :: nat where
  "LEGACY_SIGNAL_INTERVAL_FRAMES = nat LEGACY_BUFFER_MS * FRAMES_PER_MILLISECOND"
definition INITIAL_CTCSS_FREQUENCY_TENTHS_HZ :: int where
  "INITIAL_CTCSS_FREQUENCY_TENTHS_HZ = 1000"
definition MAX_RENDER_SPANS :: nat where "MAX_RENDER_SPANS = 4"

datatype tone_off_mode = ToneOffNone | PhaseShift | ToneRemove | TailTone

record ts_config =
  tsc_external_ctcss :: bool
  tsc_signal_mode :: signal_mode_config
  tsc_dcs_turnoff :: dcs_turnoff_config
  tsc_ctcss_render :: ctcss_render_config
  tsc_tx_complete :: tx_complete_config
  tsc_tone_off_mode :: tone_off_mode
  tsc_dcs_transmit_enabled :: bool
  tsc_dcs_turnoff_enabled :: bool
  tsc_tx_settle_time_ms :: int
  tsc_tx_cpu_saver_enabled :: bool

record ts_input =
  tsi_native_frame_count :: nat
  tsi_tx_render_admitted :: bool
  tsi_external_ptt_request :: bool
  tsi_physical_ptt_applied :: bool
  tsi_decoded_ctcss :: int
  tsi_dcs_valid :: bool
  tsi_ctcss_inhibit :: bool
  tsi_forced_ctcss_tenths_hz :: int

datatype ts_error = InvalidInput | InvalidConfigurationOrState

record render_span =
  rs_frame_offset :: nat
  rs_frame_count :: nat
  rs_logical_ptt :: bool
  rs_ctcss_render :: ctcss_render_state
  rs_ctcss_frequency_tenths_hz :: int
  rs_dcs_turnoff_active :: bool

text \<open>The fixed array of spans and its count are the list of its first \<open>count\<close> entries.\<close>

type_synonym render_timeline = "render_span list"

definition same_intent :: "render_span \<Rightarrow> render_span \<Rightarrow> bool" where
  "same_intent previous intent \<longleftrightarrow>
     rs_logical_ptt previous = rs_logical_ptt intent \<and>
     crs_eq (rs_ctcss_render previous) (rs_ctcss_render intent) \<and>
     rs_ctcss_frequency_tenths_hz previous = rs_ctcss_frequency_tenths_hz intent \<and>
     rs_dcs_turnoff_active previous = rs_dcs_turnoff_active intent"

definition timeline_append :: "render_timeline \<Rightarrow> nat \<Rightarrow> render_span \<Rightarrow> ts_error + render_timeline" where
  "timeline_append spans frame_count intent =
     (if frame_count = 0 then Inr spans
      else if spans \<noteq> [] \<and> same_intent (last spans) intent then
        (case checked_u32 (rs_frame_count (last spans) + frame_count) of
           None \<Rightarrow> Inl InvalidConfigurationOrState
         | Some n \<Rightarrow> Inr (butlast spans @ [(last spans)\<lparr>rs_frame_count := n\<rparr>]))
      else if length spans = MAX_RENDER_SPANS then Inl InvalidConfigurationOrState
      else
        (case (if spans = [] then Some 0
               else checked_u32 (rs_frame_offset (last spans) + rs_frame_count (last spans))) of
           None \<Rightarrow> Inl InvalidConfigurationOrState
         | Some frame_offset \<Rightarrow>
             Inr (spans @ [intent\<lparr>rs_frame_offset := frame_offset, rs_frame_count := frame_count\<rparr>])))"

datatype turnoff_phase = PhaseNone | CtcssTail | CtcssGap | DcsTail | NoTone

record tick_actions =
  ta_ctcss_status_event :: bool
  ta_receiver_blanking_arm :: "int option"

definition no_actions :: tick_actions where
  "no_actions = \<lparr>ta_ctcss_status_event = False, ta_receiver_blanking_arm = None\<rparr>"

record ts_state =
  ts_signal_mode :: signal_mode_state
  ts_transmitter_state :: int
  ts_logical_ptt :: bool
  ts_ctcss_render :: ctcss_render_state
  ts_dcs_turnoff_remaining_ms :: int
  ts_tx_hang_remaining_ms :: int
  ts_finish_remaining_ms :: int
  ts_buffer_clear_frames :: int
  ts_settle_remaining_ms :: int
  ts_cpu_halted :: bool
  ts_turnoff_phase :: turnoff_phase
  ts_turnoff_remaining_frames :: nat
  ts_ctcss_legacy_remaining_frames :: nat
  ts_finish_remaining_frames :: nat
  ts_rx_timer_remainder_frames :: nat
  ts_tx_timer_remainder_frames :: nat

definition ts_default :: ts_state where
  "ts_default = \<lparr>
     ts_signal_mode = signal_mode_default\<lparr>
       sms_tx_ctcss_frequency_tenths_hz := INITIAL_CTCSS_FREQUENCY_TENTHS_HZ\<rparr>,
     ts_transmitter_state = TX_STATE_IDLE,
     ts_logical_ptt = False,
     ts_ctcss_render = ctcss_render_default,
     ts_dcs_turnoff_remaining_ms = 0,
     ts_tx_hang_remaining_ms = 0,
     ts_finish_remaining_ms = 0,
     ts_buffer_clear_frames = 0,
     ts_settle_remaining_ms = 0,
     ts_cpu_halted = False,
     ts_turnoff_phase = PhaseNone,
     ts_turnoff_remaining_frames = 0,
     ts_ctcss_legacy_remaining_frames = 0,
     ts_finish_remaining_frames = 0,
     ts_rx_timer_remainder_frames = 0,
     ts_tx_timer_remainder_frames = 0\<rparr>"

record ts_output =
  tso_signal_mode :: signal_mode_state
  tso_transmitter_state :: int
  tso_logical_ptt :: bool
  tso_logical_ptt_raised :: bool
  tso_logical_ptt_released :: bool
  tso_ctcss_render :: ctcss_render_state
  tso_render_spans :: render_timeline
  tso_dcs_turnoff_remaining_ms :: int
  tso_tx_hang_remaining_ms :: int
  tso_finish_remaining_ms :: int
  tso_buffer_clear_frames :: int
  tso_settle_remaining_ms :: int
  tso_ctcss_status_event :: bool
  tso_receiver_blanking_arm :: "int option"
  tso_cpu_halted :: bool
  tso_rx_timer_remainder_frames :: nat
  tso_tx_timer_remainder_frames :: nat

section \<open>Durations\<close>

definition duration_frames :: "int \<Rightarrow> ts_error + nat" where
  "duration_frames milliseconds =
     (if milliseconds < 0 then Inl InvalidConfigurationOrState
      else case checked_u32 (nat milliseconds * FRAMES_PER_MILLISECOND) of
             None \<Rightarrow> Inl InvalidConfigurationOrState
           | Some frames \<Rightarrow> Inr frames)"

definition remaining_milliseconds :: "nat \<Rightarrow> int" where
  "remaining_milliseconds frames = int (div_ceil frames FRAMES_PER_MILLISECOND)"

definition ctcss_tail_frames :: "int \<Rightarrow> ts_error + nat" where
  "ctcss_tail_frames milliseconds =
     bind_result (duration_frames milliseconds) (\<lambda>requested.
       let intervals = max (div_ceil requested LEGACY_SIGNAL_INTERVAL_FRAMES) 1
       in case checked_u32 (intervals * LEGACY_SIGNAL_INTERVAL_FRAMES) of
            None \<Rightarrow> Inl InvalidConfigurationOrState
          | Some frames \<Rightarrow> Inr frames)"

definition no_tone_output_frames :: "int \<Rightarrow> ts_error + nat" where
  "no_tone_output_frames milliseconds = duration_frames milliseconds"

text \<open>\<open>consume_phase remaining requested\<close> is the new remainder and the consumed count.\<close>

definition consume_phase :: "nat \<Rightarrow> nat \<Rightarrow> nat \<times> nat" where
  "consume_phase remaining requested =
     (let consumed = min remaining requested in (remaining - consumed, consumed))"

section \<open>Configuration\<close>

definition component :: "'a result \<Rightarrow> ts_error + 'a" where
  "component r = (case r of Inl _ \<Rightarrow> Inl InvalidConfigurationOrState | Inr a \<Rightarrow> Inr a)"

definition ts_validate_config :: "ts_config \<Rightarrow> ts_error + unit" where
  "ts_validate_config config =
     bind_result (component (signal_mode_validate_config (tsc_signal_mode config))) (\<lambda>_.
     bind_result (component (ctcss_render_validate_config (tsc_ctcss_render config))) (\<lambda>_.
     bind_result (component (tx_complete_validate_config (tsc_tx_complete config))) (\<lambda>_.
     if tsc_tx_settle_time_ms config < 0 then Inl InvalidConfigurationOrState
     else
     bind_result
       (if tsc_dcs_transmit_enabled config \<and> tsc_dcs_turnoff_enabled config then
          bind_result (component (dcs_turnoff_validate_config (tsc_dcs_turnoff config))) (\<lambda>_.
          bind_result (duration_frames (dtc_turnoff_duration_ms (tsc_dcs_turnoff config))) (\<lambda>_. Inr ()))
        else Inr ()) (\<lambda>_.
     if tsc_tone_off_mode config \<noteq> ToneOffNone then
       bind_result (duration_frames (crc_turnoff_duration_ms (tsc_ctcss_render config))) (\<lambda>_. Inr ())
     else Inr ()))))"

definition ts_new :: "ts_config \<Rightarrow> ts_error + ts_config \<times> ts_state" where
  "ts_new config = bind_result (ts_validate_config config) (\<lambda>_. Inr (config, ts_default))"

definition use_external_encoder :: "ts_config \<Rightarrow> ts_config" where
  "use_external_encoder config = config\<lparr>tsc_external_ctcss := True\<rparr>"

definition update_config_from :: "ts_config \<times> ts_state \<Rightarrow> ts_config \<times> ts_state \<Rightarrow> ts_config \<times> ts_state" where
  "update_config_from live prepared = (fst prepared, snd live)"

definition ctcss_transmit_enabled :: "ts_config \<Rightarrow> bool" where
  "ctcss_transmit_enabled config \<longleftrightarrow>
     tsc_external_ctcss config \<or> smc_ctcss_tx_enabled (tsc_signal_mode config) \<noteq> 0"

section \<open>The shared CTCSS option\<close>

definition sync_ctcss_option :: "ts_state \<Rightarrow> ts_state" where
  "sync_ctcss_option state = state\<lparr>ts_ctcss_render :=
     (ts_ctcss_render state)\<lparr>crs_option := sms_tx_ctcss_option (ts_signal_mode state)\<rparr>\<rparr>"

definition sync_signal_mode_option :: "ts_state \<Rightarrow> ts_state" where
  "sync_signal_mode_option state = state\<lparr>ts_signal_mode :=
     (ts_signal_mode state)\<lparr>sms_tx_ctcss_option := crs_option (ts_ctcss_render state)\<rparr>\<rparr>"

definition set_ctcss_option :: "nat \<Rightarrow> ts_state \<Rightarrow> ts_state" where
  "set_ctcss_option option state = state\<lparr>
     ts_signal_mode := (ts_signal_mode state)\<lparr>sms_tx_ctcss_option := option\<rparr>,
     ts_ctcss_render := (ts_ctcss_render state)\<lparr>crs_option := option\<rparr>\<rparr>"

definition select_start_ctcss :: "ts_config \<Rightarrow> ts_input \<Rightarrow> ts_state \<Rightarrow> ts_state" where
  "select_start_ctcss config input state =
     (let state = state\<lparr>ts_signal_mode :=
                    (ts_signal_mode state)\<lparr>sms_tx_ctcss_frequency_tenths_hz := 0\<rparr>\<rparr>
      in if \<not> ctcss_transmit_enabled config \<or> tsi_ctcss_inhibit input then state
         else
           let selected =
                 (if tsi_forced_ctcss_tenths_hz input \<noteq> 0 then tsi_forced_ctcss_tenths_hz input
                  else if sms_smode (ts_signal_mode state) = MODE_CTCSS \<and>
                          tsi_decoded_ctcss input \<noteq> CTCSS_NONE
                  then smc_mapped_tx_ctcss_frequency_tenths_hz (tsc_signal_mode config)
                         ! nat (tsi_decoded_ctcss input)
                  else smc_default_tx_ctcss_frequency_tenths_hz (tsc_signal_mode config))
           in if selected \<noteq> 0 \<or> tsc_external_ctcss config then
                let state = state\<lparr>ts_signal_mode :=
                      (ts_signal_mode state)\<lparr>sms_tx_ctcss_frequency_tenths_hz := selected\<rparr>\<rparr>;
                    state = set_ctcss_option OPTION_START state
                in state\<lparr>ts_ctcss_render :=
                      (ts_ctcss_render state)\<lparr>crs_enabled := 1, crs_turnoff_remaining_ms := 0\<rparr>\<rparr>
              else state)"

definition render_config :: "ts_config \<Rightarrow> ctcss_render_config" where
  "render_config config =
     (case tsc_tone_off_mode config of
        TailTone \<Rightarrow> (tsc_ctcss_render config)\<lparr>crc_turnoff_phase_shift_degrees := fp_zero\<rparr>
      | PhaseShift \<Rightarrow> (tsc_ctcss_render config)\<lparr>crc_turnoff_tail_tone_hz := fp_zero\<rparr>
      | _ \<Rightarrow> tsc_ctcss_render config)"

definition apply_ctcss_option :: "ts_config \<Rightarrow> nat \<Rightarrow> ts_state \<Rightarrow> ts_state" where
  "apply_ctcss_option config option state =
     (let state = (if option = OPTION_START
                   then state\<lparr>ts_ctcss_render := (ts_ctcss_render state)\<lparr>crs_enabled := 1\<rparr>\<rparr>
                   else state);
          state = set_ctcss_option option state;
          state = state\<lparr>ts_ctcss_render :=
                    ctcss_render_advance (render_config config) 0 (ts_ctcss_render state)\<rparr>
      in sync_signal_mode_option state)"

definition apply_pending_ctcss_option :: "ts_config \<Rightarrow> ts_state \<Rightarrow> ts_state" where
  "apply_pending_ctcss_option config state =
     (if crs_option (ts_ctcss_render state) = OPTION_HOLD then state
      else apply_ctcss_option config (crs_option (ts_ctcss_render state)) state)"

section \<open>Turn-off, finishing and completion\<close>

definition complete_transmission :: "ts_config \<Rightarrow> ts_state \<Rightarrow> ts_error + ts_state \<times> tick_actions" where
  "complete_transmission config state =
     bind_result
       (component (tx_complete (tsc_tx_complete config)
         \<lparr>tcs_tx_state = ts_transmitter_state state,
          tcs_tx_ptt_out = of_flag (ts_logical_ptt state),
          tcs_tx_ctcss_option = crs_option (ts_ctcss_render state),
          tcs_txrx_blanking_timer_ms = 0,
          tcs_txrx_blanking_sample_remainder = 0,
          tcs_tx_ctcss_ready = 0\<rparr>)) (\<lambda>complete.
     Inr (set_ctcss_option (tcs_tx_ctcss_option complete)
            (state\<lparr>ts_transmitter_state := tcs_tx_state complete,
                   ts_logical_ptt := tcs_tx_ptt_out complete \<noteq> 0\<rparr>),
          \<lparr>ta_ctcss_status_event = tcs_tx_ctcss_ready complete \<noteq> 0,
           ta_receiver_blanking_arm = Some (tcs_txrx_blanking_timer_ms complete)\<rparr>))"

definition start_ctcss_tail :: "ts_config \<Rightarrow> ts_state \<Rightarrow> ts_error + ts_state" where
  "start_ctcss_tail config state =
     (let duration = crc_turnoff_duration_ms (tsc_ctcss_render config) in
      bind_result (ctcss_tail_frames duration) (\<lambda>tail.
      bind_result (duration_frames duration) (\<lambda>legacy.
      Inr (apply_ctcss_option config OPTION_TURNOFF
             (state\<lparr>ts_transmitter_state := TX_STATE_TOC,
                    ts_turnoff_phase := CtcssTail,
                    ts_turnoff_remaining_frames := tail,
                    ts_ctcss_legacy_remaining_frames := legacy,
                    ts_tx_hang_remaining_ms := 0\<rparr>)))))"

definition start_no_tone :: "ts_config \<Rightarrow> ts_state \<Rightarrow> ts_error + ts_state" where
  "start_no_tone config state =
     bind_result (no_tone_output_frames (crc_turnoff_duration_ms (tsc_ctcss_render config))) (\<lambda>frames.
     Inr (apply_ctcss_option config OPTION_DISABLE
            (state\<lparr>ts_transmitter_state := TX_STATE_TOC,
                   ts_turnoff_phase := NoTone,
                   ts_turnoff_remaining_frames := frames,
                   ts_tx_hang_remaining_ms := remaining_milliseconds frames\<rparr>)))"

definition dcs_snapshot :: "ts_state \<Rightarrow> dcs_turnoff_state" where
  "dcs_snapshot state =
     \<lparr>dts_tx_state = ts_transmitter_state state,
      dts_dcs_turnoff_remaining_ms = ts_dcs_turnoff_remaining_ms state,
      dts_tx_hang_remaining_ms = ts_tx_hang_remaining_ms state,
      dts_finish_requested = 0,
      dts_finish_elapsed_ms = 0\<rparr>"

definition start_dcs_tail :: "ts_config \<Rightarrow> ts_state \<Rightarrow> ts_error + ts_state" where
  "start_dcs_tail config state =
     (let dcs = dcs_turnoff_begin (tsc_dcs_turnoff config) 0 (dcs_snapshot state) in
      bind_result (duration_frames (dtc_turnoff_duration_ms (tsc_dcs_turnoff config))) (\<lambda>frames.
      Inr (state\<lparr>ts_transmitter_state := dts_tx_state dcs,
                 ts_dcs_turnoff_remaining_ms := dts_dcs_turnoff_remaining_ms dcs,
                 ts_tx_hang_remaining_ms := dts_tx_hang_remaining_ms dcs,
                 ts_turnoff_phase := DcsTail,
                 ts_turnoff_remaining_frames := frames\<rparr>)))"

definition rekey_dcs_tail :: "ts_config \<Rightarrow> ts_state \<Rightarrow> ts_error + ts_state" where
  "rekey_dcs_tail config state =
     bind_result
       (component (dcs_turnoff_advance (tsc_dcs_turnoff config)
          \<lparr>dti_elapsed_ms = 0, dti_tx_ptt_in = 1, dti_begin_turnoff = 0\<rparr> (dcs_snapshot state))) (\<lambda>dcs.
     Inr (state\<lparr>ts_transmitter_state := dts_tx_state dcs,
                ts_dcs_turnoff_remaining_ms := dts_dcs_turnoff_remaining_ms dcs,
                ts_tx_hang_remaining_ms := dts_tx_hang_remaining_ms dcs,
                ts_turnoff_phase := PhaseNone,
                ts_turnoff_remaining_frames := 0,
                ts_ctcss_legacy_remaining_frames := 0\<rparr>))"

definition start_finishing :: "bool \<Rightarrow> ts_state \<Rightarrow> ts_error + ts_state" where
  "start_finishing tail_tone state =
     (let finish = tx_finish_advance 0
                     \<lparr>tfs_buffer_clear_frames = ts_buffer_clear_frames state,
                      tfs_finish_remaining_ms = ts_finish_remaining_ms state,
                      tfs_tx_state = ts_transmitter_state state\<rparr>;
          buffers = (if tail_tone then TAIL_TONE_BUFFER_CLEAR_FRAMES else tfs_buffer_clear_frames finish);
          finish_ms = (buffers + 1) * LEGACY_BUFFER_MS in
      bind_result (duration_frames finish_ms) (\<lambda>frames.
      Inr (state\<lparr>ts_buffer_clear_frames := buffers,
                 ts_finish_remaining_ms := finish_ms,
                 ts_finish_remaining_frames := frames,
                 ts_transmitter_state := TX_STATE_FINISHING,
                 ts_turnoff_phase := PhaseNone,
                 ts_turnoff_remaining_frames := 0,
                 ts_ctcss_legacy_remaining_frames := 0\<rparr>)))"

section \<open>Rendering intents\<close>

definition current_render_span :: "ts_state \<Rightarrow> render_span" where
  "current_render_span state =
     \<lparr>rs_frame_offset = 0,
      rs_frame_count = 0,
      rs_logical_ptt = ts_logical_ptt state,
      rs_ctcss_render = ts_ctcss_render state,
      rs_ctcss_frequency_tenths_hz = sms_tx_ctcss_frequency_tenths_hz (ts_signal_mode state),
      rs_dcs_turnoff_active = (ts_turnoff_phase state = DcsTail)\<rparr>"

definition append_current_span ::
  "render_timeline \<Rightarrow> ts_state \<Rightarrow> nat \<Rightarrow> ts_error + render_timeline \<times> ts_state" where
  "append_current_span timeline state frame_count =
     bind_result (timeline_append timeline frame_count (current_render_span state)) (\<lambda>timeline.
     Inr (timeline,
          if frame_count \<noteq> 0
          then state\<lparr>ts_ctcss_render := (ts_ctcss_render state)\<lparr>crs_phase_shift_degrees := fp_zero\<rparr>\<rparr>
          else state))"

section \<open>Keying, unkeying and rekeying before the span\<close>

definition set_mode_timer :: "ts_config \<Rightarrow> ts_state \<Rightarrow> ts_state" where
  "set_mode_timer config state = state\<lparr>ts_signal_mode :=
     (ts_signal_mode state)\<lparr>sms_smode_timer_ms := smc_hold_ms (tsc_signal_mode config)\<rparr>\<rparr>"

definition key_up :: "ts_config \<Rightarrow> ts_input \<Rightarrow> ts_state \<Rightarrow> ts_state" where
  "key_up config input state =
     (let state = apply_pending_ctcss_option config (select_start_ctcss config input state);
          state = (if tsc_dcs_transmit_enabled config
                   then state\<lparr>ts_dcs_turnoff_remaining_ms := 0\<rparr> else state);
          state = state\<lparr>ts_turnoff_phase := PhaseNone,
                        ts_turnoff_remaining_frames := 0,
                        ts_ctcss_legacy_remaining_frames := 0,
                        ts_finish_remaining_frames := 0,
                        ts_tx_hang_remaining_ms := 0,
                        ts_transmitter_state := TX_STATE_ACTIVE,
                        ts_logical_ptt := True\<rparr>
      in (set_mode_timer config state)\<lparr>ts_settle_remaining_ms := tsc_tx_settle_time_ms config\<rparr>)"

definition keep_active :: "ts_config \<Rightarrow> ts_input \<Rightarrow> ts_state \<Rightarrow> ts_state" where
  "keep_active config input state =
     (let state = set_mode_timer config state;
          state = (if \<not> tsi_ctcss_inhibit input \<and> crs_enabled (ts_ctcss_render state) = 0
                   then select_start_ctcss config input state else state)
      in apply_pending_ctcss_option config state)"

definition unkey :: "ts_config \<Rightarrow> ts_input \<Rightarrow> ts_state \<Rightarrow> ts_error + ts_state" where
  "unkey config input state =
     (if tsc_dcs_transmit_enabled config \<and> tsc_dcs_turnoff_enabled config then
        start_dcs_tail config state
      else if crs_enabled (ts_ctcss_render state) \<noteq> 0 \<and> \<not> tsi_ctcss_inhibit input then
        if tsc_tone_off_mode config = ToneOffNone \<or> \<not> ctcss_transmit_enabled config then
          start_finishing False (apply_ctcss_option config OPTION_DISABLE state)
        else if tsc_tone_off_mode config = ToneRemove then start_no_tone config state
        else start_ctcss_tail config state
      else start_finishing False (apply_ctcss_option config OPTION_DISABLE state))"

definition rekey :: "ts_config \<Rightarrow> ts_input \<Rightarrow> ts_state \<Rightarrow> ts_error + ts_state" where
  "rekey config input state =
     (if tsi_external_ptt_request input \<and> ts_turnoff_phase state = DcsTail then
        bind_result (rekey_dcs_tail config state) (\<lambda>state. Inr (set_mode_timer config state))
      else if tsi_external_ptt_request input \<and> ctcss_transmit_enabled config then
        Inr (set_mode_timer config (apply_ctcss_option config OPTION_START
          (state\<lparr>ts_transmitter_state := TX_STATE_ACTIVE,
                 ts_turnoff_phase := PhaseNone,
                 ts_turnoff_remaining_frames := 0,
                 ts_ctcss_legacy_remaining_frames := 0\<rparr>)))
      else Inr state)"

definition prepare_transmitter ::
  "ts_config \<Rightarrow> ts_input \<Rightarrow> ts_state \<Rightarrow> tick_actions \<Rightarrow> ts_error + ts_state \<times> tick_actions" where
  "prepare_transmitter config input state actions =
     bind_result
       (if tsi_external_ptt_request input \<and> ts_transmitter_state state = TX_STATE_IDLE then
          Inr (key_up config input state, actions\<lparr>ta_ctcss_status_event := True\<rparr>)
        else if tsi_external_ptt_request input \<and> ts_transmitter_state state = TX_STATE_ACTIVE then
          Inr (keep_active config input state, actions)
        else if \<not> tsi_external_ptt_request input \<and> ts_transmitter_state state = TX_STATE_ACTIVE then
          bind_result (unkey config input state) (\<lambda>state. Inr (state, actions))
        else if ts_transmitter_state state = TX_STATE_TOC then
          bind_result (rekey config input state) (\<lambda>state. Inr (state, actions))
        else Inr (state, actions)) (\<lambda>(state, actions).
     Inr (if tsi_ctcss_inhibit input then apply_ctcss_option config OPTION_DISABLE state else state,
          actions))"

section \<open>What the operations leave alone\<close>

lemma apply_ctcss_option_fields [simp]:
  "ts_transmitter_state (apply_ctcss_option config option s) = ts_transmitter_state s"
  "ts_logical_ptt (apply_ctcss_option config option s) = ts_logical_ptt s"
  "ts_dcs_turnoff_remaining_ms (apply_ctcss_option config option s) = ts_dcs_turnoff_remaining_ms s"
  "ts_tx_hang_remaining_ms (apply_ctcss_option config option s) = ts_tx_hang_remaining_ms s"
  "ts_finish_remaining_ms (apply_ctcss_option config option s) = ts_finish_remaining_ms s"
  "ts_buffer_clear_frames (apply_ctcss_option config option s) = ts_buffer_clear_frames s"
  "ts_settle_remaining_ms (apply_ctcss_option config option s) = ts_settle_remaining_ms s"
  "ts_cpu_halted (apply_ctcss_option config option s) = ts_cpu_halted s"
  "ts_turnoff_phase (apply_ctcss_option config option s) = ts_turnoff_phase s"
  "ts_turnoff_remaining_frames (apply_ctcss_option config option s) = ts_turnoff_remaining_frames s"
  "ts_ctcss_legacy_remaining_frames (apply_ctcss_option config option s) = ts_ctcss_legacy_remaining_frames s"
  "ts_finish_remaining_frames (apply_ctcss_option config option s) = ts_finish_remaining_frames s"
  "ts_rx_timer_remainder_frames (apply_ctcss_option config option s) = ts_rx_timer_remainder_frames s"
  "ts_tx_timer_remainder_frames (apply_ctcss_option config option s) = ts_tx_timer_remainder_frames s"
  by (simp_all add: apply_ctcss_option_def set_ctcss_option_def sync_signal_mode_option_def Let_def)

definition shifted :: "ts_state \<Rightarrow> ts_state" where
  "shifted s = s\<lparr>ts_ctcss_render := (ts_ctcss_render s)\<lparr>crs_phase_shift_degrees := fp_zero\<rparr>\<rparr>"

lemma shifted_fields [simp]:
  "ts_signal_mode (shifted s) = ts_signal_mode s"
  "ts_transmitter_state (shifted s) = ts_transmitter_state s"
  "ts_logical_ptt (shifted s) = ts_logical_ptt s"
  "ts_dcs_turnoff_remaining_ms (shifted s) = ts_dcs_turnoff_remaining_ms s"
  "ts_tx_hang_remaining_ms (shifted s) = ts_tx_hang_remaining_ms s"
  "ts_finish_remaining_ms (shifted s) = ts_finish_remaining_ms s"
  "ts_buffer_clear_frames (shifted s) = ts_buffer_clear_frames s"
  "ts_settle_remaining_ms (shifted s) = ts_settle_remaining_ms s"
  "ts_cpu_halted (shifted s) = ts_cpu_halted s"
  "ts_turnoff_phase (shifted s) = ts_turnoff_phase s"
  "ts_turnoff_remaining_frames (shifted s) = ts_turnoff_remaining_frames s"
  "ts_ctcss_legacy_remaining_frames (shifted s) = ts_ctcss_legacy_remaining_frames s"
  "ts_finish_remaining_frames (shifted s) = ts_finish_remaining_frames s"
  "ts_rx_timer_remainder_frames (shifted s) = ts_rx_timer_remainder_frames s"
  "ts_tx_timer_remainder_frames (shifted s) = ts_tx_timer_remainder_frames s"
  by (simp_all add: shifted_def)

lemma start_finishing_Inr:
  "start_finishing tail_tone s = Inr
     (s\<lparr>ts_buffer_clear_frames := if tail_tone then 8 else 3,
        ts_finish_remaining_ms := if tail_tone then 180 else 80,
        ts_finish_remaining_frames := if tail_tone then 8640 else 3840,
        ts_transmitter_state := TX_STATE_FINISHING,
        ts_turnoff_phase := PhaseNone,
        ts_turnoff_remaining_frames := 0,
        ts_ctcss_legacy_remaining_frames := 0\<rparr>)"
  by (simp add: start_finishing_def tx_finish_advance_zero duration_frames_def checked_u32_def u32_max_def
      TAIL_TONE_BUFFER_CLEAR_FRAMES_def LEGACY_BUFFER_MS_def Let_def)

lemma complete_transmission_Inr:
  "complete_transmission config s = Inr
     (set_ctcss_option OPTION_DISABLE (s\<lparr>ts_transmitter_state := TX_STATE_IDLE, ts_logical_ptt := False\<rparr>),
      \<lparr>ta_ctcss_status_event = True,
       ta_receiver_blanking_arm = Some (tcc_txrx_blanking_time_ms (tsc_tx_complete config))\<rparr>)"
  by (simp add: complete_transmission_def tx_complete_def tx_complete_validate_config_def component_def
      OPTION_DISABLE_def Let_def)

end
