(* ===== verification/Signaling_Timeline.thy ===== *)
theory Signaling_Timeline
  imports Transmit_Signaling
begin

text \<open>
  The sample-clocked half of \<open>src/transmit_signaling.rs\<close>: the loop that spends one native
  callback on the transmitter phases (\<open>advance_render_timeline\<close>), and \<open>tick\<close>, the call the
  session makes once per callback.
\<close>

section \<open>One phase of the loop\<close>

text \<open>What the loop of \<open>advance_render_timeline\<close> carries from one iteration to the next.\<close>

record cursor =
  cu_state :: ts_state
  cu_actions :: tick_actions
  cu_timeline :: render_timeline
  cu_remaining :: nat

text \<open>Every phase appends its consumed frames with the current intent and takes them off
  the frames of the callback.\<close>

definition emit :: "nat \<Rightarrow> cursor \<Rightarrow> ts_error + cursor" where
  "emit consumed c =
     bind_result (append_current_span (cu_timeline c) (cu_state c) consumed) (\<lambda>(timeline, state).
       Inr (c\<lparr>cu_timeline := timeline, cu_state := state, cu_remaining := cu_remaining c - consumed\<rparr>))"

definition spend_turnoff :: "cursor \<Rightarrow> ts_error + nat \<times> cursor" where
  "spend_turnoff c =
     (let (left, consumed) = consume_phase (ts_turnoff_remaining_frames (cu_state c)) (cu_remaining c)
      in bind_result (emit consumed (c\<lparr>cu_state := (cu_state c)\<lparr>ts_turnoff_remaining_frames := left\<rparr>\<rparr>))
           (\<lambda>c. Inr (consumed, c)))"

definition spend_finish :: "cursor \<Rightarrow> ts_error + nat \<times> cursor" where
  "spend_finish c =
     (let (left, consumed) = consume_phase (ts_finish_remaining_frames (cu_state c)) (cu_remaining c)
      in bind_result (emit consumed (c\<lparr>cu_state := (cu_state c)\<lparr>ts_finish_remaining_frames := left\<rparr>\<rparr>))
           (\<lambda>c. Inr (consumed, c)))"

definition ctcss_tail_step :: "ts_config \<Rightarrow> cursor \<Rightarrow> ts_error + cursor" where
  "ctcss_tail_step config c =
     bind_result (spend_turnoff c) (\<lambda>(consumed, c).
        let state = cu_state c;
            legacy = fst (consume_phase (ts_ctcss_legacy_remaining_frames state) consumed);
            state = state\<lparr>ts_ctcss_legacy_remaining_frames := legacy,
                          ts_ctcss_render := (ts_ctcss_render state)\<lparr>
                            crs_turnoff_remaining_ms := remaining_milliseconds legacy\<rparr>\<rparr>;
            state = (if ts_turnoff_remaining_frames state = 0
                     then (apply_ctcss_option config OPTION_DISABLE state)\<lparr>
                            ts_turnoff_phase := CtcssGap,
                            ts_turnoff_remaining_frames := LEGACY_SIGNAL_INTERVAL_FRAMES\<rparr>
                     else state)
        in Inr (c\<lparr>cu_state := state\<rparr>))"

definition ctcss_gap_step :: "ts_config \<Rightarrow> cursor \<Rightarrow> ts_error + cursor" where
  "ctcss_gap_step config c =
     bind_result (spend_turnoff c) (\<lambda>(consumed, c).
        if ts_turnoff_remaining_frames (cu_state c) = 0
        then bind_result (start_finishing (tsc_tone_off_mode config = TailTone) (cu_state c)) (\<lambda>state.
               Inr (c\<lparr>cu_state := state\<rparr>))
        else Inr c)"

definition dcs_tail_step :: "cursor \<Rightarrow> ts_error + cursor" where
  "dcs_tail_step c =
     bind_result (spend_turnoff c) (\<lambda>(consumed, c).
        let state = (cu_state c)\<lparr>ts_dcs_turnoff_remaining_ms :=
                      remaining_milliseconds (ts_turnoff_remaining_frames (cu_state c))\<rparr>
        in if ts_turnoff_remaining_frames state = 0
           then bind_result (start_finishing False (state\<lparr>ts_dcs_turnoff_remaining_ms := 0\<rparr>)) (\<lambda>state.
                  Inr (c\<lparr>cu_state := state\<rparr>))
           else Inr (c\<lparr>cu_state := state\<rparr>))"

definition no_tone_step :: "cursor \<Rightarrow> ts_error + cursor" where
  "no_tone_step c =
     (if ts_turnoff_remaining_frames (cu_state c) = 0
      then Inr (c\<lparr>cu_state := (cu_state c)\<lparr>ts_tx_hang_remaining_ms := 0,
                                          ts_transmitter_state := TX_STATE_COMPLETE\<rparr>\<rparr>)
      else
        bind_result (spend_turnoff c) (\<lambda>(consumed, c).
          let state = (cu_state c)\<lparr>ts_tx_hang_remaining_ms :=
                        remaining_milliseconds (ts_turnoff_remaining_frames (cu_state c))\<rparr>
          in Inr (c\<lparr>cu_state := if ts_turnoff_remaining_frames state = 0
                                then state\<lparr>ts_transmitter_state := TX_STATE_COMPLETE\<rparr>
                                else state\<rparr>)))"

definition finishing_step :: "cursor \<Rightarrow> ts_error + cursor" where
  "finishing_step c =
     (if ts_finish_remaining_frames (cu_state c) = 0
      then Inr (c\<lparr>cu_state := (cu_state c)\<lparr>ts_transmitter_state := TX_STATE_COMPLETE\<rparr>\<rparr>)
      else
        bind_result (spend_finish c) (\<lambda>(consumed, c).
          let state = (cu_state c)\<lparr>ts_finish_remaining_ms :=
                        remaining_milliseconds (ts_finish_remaining_frames (cu_state c))\<rparr>
          in Inr (c\<lparr>cu_state := if ts_finish_remaining_frames state = 0
                                then state\<lparr>ts_finish_remaining_ms := 0,
                                           ts_buffer_clear_frames := 0,
                                           ts_transmitter_state := TX_STATE_COMPLETE\<rparr>
                                else state\<rparr>)))"

definition complete_step :: "ts_config \<Rightarrow> cursor \<Rightarrow> ts_error + cursor" where
  "complete_step config c =
     bind_result (complete_transmission config (cu_state c)) (\<lambda>(state, actions).
       Inr (c\<lparr>cu_actions := actions,
              cu_state := state\<lparr>ts_turnoff_phase := PhaseNone,
                                ts_turnoff_remaining_frames := 0,
                                ts_ctcss_legacy_remaining_frames := 0,
                                ts_finish_remaining_frames := 0\<rparr>\<rparr>))"

text \<open>The \<open>match\<close> of one iteration; the IDLE and ACTIVE arms, which return, stand in the
  loop itself.\<close>

definition timeline_step :: "ts_config \<Rightarrow> cursor \<Rightarrow> ts_error + cursor" where
  "timeline_step config c =
     (let transmitter = ts_transmitter_state (cu_state c) in
      if transmitter = TX_STATE_TOC then
        (case ts_turnoff_phase (cu_state c) of
           CtcssTail \<Rightarrow> ctcss_tail_step config c
         | CtcssGap \<Rightarrow> ctcss_gap_step config c
         | DcsTail \<Rightarrow> dcs_tail_step c
         | NoTone \<Rightarrow> no_tone_step c
         | PhaseNone \<Rightarrow> Inl InvalidConfigurationOrState)
      else if transmitter = TX_STATE_FINISHING then finishing_step c
      else if transmitter = TX_STATE_COMPLETE then complete_step config c
      else Inl InvalidConfigurationOrState)"

section \<open>The loop ends\<close>

text \<open>Phases still ahead of the transmitter; an iteration that leaves frames of the callback
  unspent moves to a later phase.\<close>

definition phase_rank :: "ts_state \<Rightarrow> nat" where
  "phase_rank s =
     (if ts_transmitter_state s = TX_STATE_TOC
      then if ts_turnoff_phase s = CtcssTail then 4 else 3
      else if ts_transmitter_state s = TX_STATE_FINISHING then 2
      else if ts_transmitter_state s = TX_STATE_COMPLETE then 1 else 0)"

definition cursor_measure :: "cursor \<Rightarrow> nat" where
  "cursor_measure c = (if cu_remaining c = 0 then 0 else 1 + phase_rank (cu_state c))"

lemma emit_eq:
  "emit n c = bind_result (timeline_append (cu_timeline c) n (current_render_span (cu_state c)))
     (\<lambda>timeline. Inr (c\<lparr>cu_timeline := timeline,
        cu_state := (if n = 0 then cu_state c else shifted (cu_state c)),
        cu_remaining := cu_remaining c - n\<rparr>))"
  by (cases "timeline_append (cu_timeline c) n (current_render_span (cu_state c))")
    (simp_all add: emit_def append_current_span_def shifted_def)

text \<open>The frames the transmitter still has to send before PTT drops.\<close>

definition finish_frames :: "ts_config \<Rightarrow> nat" where
  "finish_frames config = (if tsc_tone_off_mode config = TailTone then 8640 else 3840)"

definition tail_frames :: "ts_config \<Rightarrow> ts_state \<Rightarrow> nat" where
  "tail_frames config s =
     (if ts_transmitter_state s = TX_STATE_TOC then
        (case ts_turnoff_phase s of
           CtcssTail \<Rightarrow> ts_turnoff_remaining_frames s + 960 + finish_frames config
         | CtcssGap \<Rightarrow> ts_turnoff_remaining_frames s + finish_frames config
         | DcsTail \<Rightarrow> ts_turnoff_remaining_frames s + 3840
         | _ \<Rightarrow> ts_turnoff_remaining_frames s)
      else if ts_transmitter_state s = TX_STATE_FINISHING then ts_finish_remaining_frames s
      else 0)"

text \<open>What one iteration does, seen from outside: it appends the frames it spends with the
  intent it started from, and either spends the callback or moves to a later phase.\<close>

definition advances :: "ts_config \<Rightarrow> cursor \<Rightarrow> cursor \<Rightarrow> bool" where
  "advances config c c' \<longleftrightarrow>
     cu_remaining c' \<le> cu_remaining c \<and>
     (cu_remaining c' = 0 \<or> phase_rank (cu_state c') < phase_rank (cu_state c)) \<and>
     phase_rank (cu_state c') \<le> phase_rank (cu_state c) \<and>
     tail_frames config (cu_state c') + (cu_remaining c - cu_remaining c') = tail_frames config (cu_state c) \<and>
     timeline_append (cu_timeline c) (cu_remaining c - cu_remaining c') (current_render_span (cu_state c))
       = Inr (cu_timeline c') \<and>
     ts_settle_remaining_ms (cu_state c') = ts_settle_remaining_ms (cu_state c) \<and>
     ts_cpu_halted (cu_state c') = ts_cpu_halted (cu_state c) \<and>
     ts_rx_timer_remainder_frames (cu_state c') = ts_rx_timer_remainder_frames (cu_state c) \<and>
     ts_tx_timer_remainder_frames (cu_state c') = ts_tx_timer_remainder_frames (cu_state c)"

lemma spend_turnoff_Inr:
  assumes "spend_turnoff c = Inr (n, c')"
  shows "n = min (ts_turnoff_remaining_frames (cu_state c)) (cu_remaining c)"
    and "cu_remaining c' = cu_remaining c - n" and "cu_actions c' = cu_actions c"
    and "timeline_append (cu_timeline c) n (current_render_span (cu_state c)) = Inr (cu_timeline c')"
    and "cu_state c' = (if n = 0 then cu_state c else shifted
      ((cu_state c)\<lparr>ts_turnoff_remaining_frames := ts_turnoff_remaining_frames (cu_state c) - n\<rparr>))"
  using assms
  by (auto simp: spend_turnoff_def consume_phase_def emit_eq bind_result_Inr Let_def current_render_span_def)

lemma spend_finish_Inr:
  assumes "spend_finish c = Inr (n, c')"
  shows "n = min (ts_finish_remaining_frames (cu_state c)) (cu_remaining c)"
    and "cu_remaining c' = cu_remaining c - n" and "cu_actions c' = cu_actions c"
    and "timeline_append (cu_timeline c) n (current_render_span (cu_state c)) = Inr (cu_timeline c')"
    and "cu_state c' = (if n = 0 then cu_state c else shifted
      ((cu_state c)\<lparr>ts_finish_remaining_frames := ts_finish_remaining_frames (cu_state c) - n\<rparr>))"
  using assms
  by (auto simp: spend_finish_def consume_phase_def emit_eq bind_result_Inr Let_def current_render_span_def)

lemma tail_frames_simps:
  "ts_transmitter_state s = TX_STATE_TOC \<Longrightarrow> ts_turnoff_phase s = CtcssTail \<Longrightarrow>
     tail_frames config s = ts_turnoff_remaining_frames s + 960 + finish_frames config"
  "ts_transmitter_state s = TX_STATE_TOC \<Longrightarrow> ts_turnoff_phase s = CtcssGap \<Longrightarrow>
     tail_frames config s = ts_turnoff_remaining_frames s + finish_frames config"
  "ts_transmitter_state s = TX_STATE_TOC \<Longrightarrow> ts_turnoff_phase s = DcsTail \<Longrightarrow>
     tail_frames config s = ts_turnoff_remaining_frames s + 3840"
  "ts_transmitter_state s = TX_STATE_TOC \<Longrightarrow> ts_turnoff_phase s = NoTone \<Longrightarrow>
     tail_frames config s = ts_turnoff_remaining_frames s"
  "ts_transmitter_state s = TX_STATE_FINISHING \<Longrightarrow> tail_frames config s = ts_finish_remaining_frames s"
  "ts_transmitter_state s = TX_STATE_COMPLETE \<Longrightarrow> tail_frames config s = 0"
  "ts_transmitter_state s = TX_STATE_IDLE \<Longrightarrow> tail_frames config s = 0"
  "ts_transmitter_state s = TX_STATE_ACTIVE \<Longrightarrow> tail_frames config s = 0"
  by (simp_all add: tail_frames_def tx_state_defs)

lemma phase_rank_simps:
  "ts_transmitter_state s = TX_STATE_TOC \<Longrightarrow>
     phase_rank s = (if ts_turnoff_phase s = CtcssTail then 4 else 3)"
  "ts_transmitter_state s = TX_STATE_FINISHING \<Longrightarrow> phase_rank s = 2"
  "ts_transmitter_state s = TX_STATE_COMPLETE \<Longrightarrow> phase_rank s = 1"
  "ts_transmitter_state s = TX_STATE_IDLE \<Longrightarrow> phase_rank s = 0"
  "ts_transmitter_state s = TX_STATE_ACTIVE \<Longrightarrow> phase_rank s = 0"
  by (simp_all add: phase_rank_def tx_state_defs)

lemma legacy_interval: "LEGACY_SIGNAL_INTERVAL_FRAMES = 960"
  by (simp add: LEGACY_SIGNAL_INTERVAL_FRAMES_def LEGACY_BUFFER_MS_def)

lemma ctcss_tail_step_advances:
  assumes "ctcss_tail_step config c = Inr c'"
    and st: "ts_transmitter_state (cu_state c) = TX_STATE_TOC" "ts_turnoff_phase (cu_state c) = CtcssTail"
  shows "advances config c c'"
proof -
  from assms(1) obtain n d where d: "spend_turnoff c = Inr (n, d)"
    by (auto simp: ctcss_tail_step_def bind_result_Inr)
  note f = spend_turnoff_Inr [OF d]
  show ?thesis
    using assms(1) d st f
    by (auto simp: ctcss_tail_step_def advances_def tail_frames_simps phase_rank_simps Let_def
        legacy_interval min_def split: if_splits)
qed


lemma ctcss_gap_step_advances:
  assumes "ctcss_gap_step config c = Inr c'"
    and st: "ts_transmitter_state (cu_state c) = TX_STATE_TOC" "ts_turnoff_phase (cu_state c) = CtcssGap"
  shows "advances config c c'"
proof -
  from assms(1) obtain n d where d: "spend_turnoff c = Inr (n, d)"
    by (auto simp: ctcss_gap_step_def bind_result_Inr)
  note f = spend_turnoff_Inr [OF d]
  show ?thesis
    using assms(1) d st f
    by (auto simp: ctcss_gap_step_def advances_def tail_frames_simps phase_rank_simps
        start_finishing_Inr finish_frames_def min_def split: if_splits)
qed

lemma dcs_tail_step_advances:
  assumes "dcs_tail_step c = Inr c'"
    and st: "ts_transmitter_state (cu_state c) = TX_STATE_TOC" "ts_turnoff_phase (cu_state c) = DcsTail"
  shows "advances config c c'"
proof -
  from assms(1) obtain n d where d: "spend_turnoff c = Inr (n, d)"
    by (auto simp: dcs_tail_step_def bind_result_Inr)
  note f = spend_turnoff_Inr [OF d]
  show ?thesis
    using assms(1) d st f
    by (auto simp: dcs_tail_step_def advances_def tail_frames_simps phase_rank_simps Let_def
        start_finishing_Inr min_def split: if_splits)
qed

lemma no_tone_step_advances:
  assumes "no_tone_step c = Inr c'"
    and st: "ts_transmitter_state (cu_state c) = TX_STATE_TOC" "ts_turnoff_phase (cu_state c) = NoTone"
  shows "advances config c c'"
proof (cases "ts_turnoff_remaining_frames (cu_state c) = 0")
  case True
  with assms show ?thesis
    by (auto simp: no_tone_step_def advances_def tail_frames_simps phase_rank_simps timeline_append_def)
next
  case False
  with assms(1) obtain n d where d: "spend_turnoff c = Inr (n, d)"
    by (auto simp: no_tone_step_def bind_result_Inr)
  note f = spend_turnoff_Inr [OF d]
  show ?thesis
    using assms(1) d st f False
    by (auto simp: no_tone_step_def advances_def tail_frames_simps phase_rank_simps Let_def
        min_def split: if_splits)
qed

lemma finishing_step_advances:
  assumes "finishing_step c = Inr c'"
    and st: "ts_transmitter_state (cu_state c) = TX_STATE_FINISHING"
  shows "advances config c c'"
proof (cases "ts_finish_remaining_frames (cu_state c) = 0")
  case True
  with assms show ?thesis
    by (auto simp: finishing_step_def advances_def tail_frames_simps phase_rank_simps timeline_append_def)
next
  case False
  with assms(1) obtain n d where d: "spend_finish c = Inr (n, d)"
    by (auto simp: finishing_step_def bind_result_Inr)
  note f = spend_finish_Inr [OF d]
  show ?thesis
    using assms(1) d st f False
    by (auto simp: finishing_step_def advances_def tail_frames_simps phase_rank_simps Let_def
        min_def split: if_splits)
qed

lemma complete_step_eq:
  "complete_step config c = Inr (c\<lparr>
     cu_actions := \<lparr>ta_ctcss_status_event = True,
       ta_receiver_blanking_arm = Some (tcc_txrx_blanking_time_ms (tsc_tx_complete config))\<rparr>,
     cu_state := set_ctcss_option OPTION_DISABLE ((cu_state c)\<lparr>
       ts_transmitter_state := TX_STATE_IDLE, ts_logical_ptt := False, ts_turnoff_phase := PhaseNone,
       ts_turnoff_remaining_frames := 0, ts_ctcss_legacy_remaining_frames := 0,
       ts_finish_remaining_frames := 0\<rparr>)\<rparr>)"
  by (simp add: complete_step_def complete_transmission_Inr set_ctcss_option_def)

lemma set_ctcss_option_fields [simp]:
  "ts_transmitter_state (set_ctcss_option option s) = ts_transmitter_state s"
  "ts_logical_ptt (set_ctcss_option option s) = ts_logical_ptt s"
  "ts_settle_remaining_ms (set_ctcss_option option s) = ts_settle_remaining_ms s"
  "ts_cpu_halted (set_ctcss_option option s) = ts_cpu_halted s"
  "ts_turnoff_phase (set_ctcss_option option s) = ts_turnoff_phase s"
  "ts_turnoff_remaining_frames (set_ctcss_option option s) = ts_turnoff_remaining_frames s"
  "ts_finish_remaining_frames (set_ctcss_option option s) = ts_finish_remaining_frames s"
  "ts_rx_timer_remainder_frames (set_ctcss_option option s) = ts_rx_timer_remainder_frames s"
  "ts_tx_timer_remainder_frames (set_ctcss_option option s) = ts_tx_timer_remainder_frames s"
  by (simp_all add: set_ctcss_option_def)

lemma complete_step_advances:
  assumes "complete_step config c = Inr c'"
    and st: "ts_transmitter_state (cu_state c) = TX_STATE_COMPLETE"
  shows "advances config c c'"
  using assms
  by (auto simp: complete_step_eq advances_def tail_frames_simps phase_rank_simps timeline_append_def)

lemma timeline_step_advances:
  assumes "timeline_step config c = Inr c'"
  shows "advances config c c'"
  using assms
  by (auto simp: timeline_step_def Let_def
      intro: ctcss_tail_step_advances ctcss_gap_step_advances dcs_tail_step_advances
        no_tone_step_advances finishing_step_advances complete_step_advances
      split: if_splits turnoff_phase.splits)

text \<open>The loop with its early return and the completion check after it.\<close>

function advance_render_timeline :: "ts_config \<Rightarrow> cursor \<Rightarrow> ts_error + cursor" where
  "advance_render_timeline config c =
     (if cu_remaining c \<noteq> 0 then
        (if ts_transmitter_state (cu_state c) = TX_STATE_IDLE \<or>
            ts_transmitter_state (cu_state c) = TX_STATE_ACTIVE
         then emit (cu_remaining c) c
         else case timeline_step config c of
                Inl e \<Rightarrow> Inl e
              | Inr c \<Rightarrow> advance_render_timeline config c)
      else if ts_transmitter_state (cu_state c) = TX_STATE_COMPLETE then
        bind_result (complete_transmission config (cu_state c)) (\<lambda>(state, actions).
          Inr (c\<lparr>cu_actions := actions, cu_state := state\<lparr>ts_turnoff_phase := PhaseNone\<rparr>\<rparr>))
      else Inr c)"
  by auto

termination advance_render_timeline
proof (relation "measure (\<lambda>(config, c). cursor_measure c)")
  fix config :: ts_config and c c' :: cursor
  assume "cu_remaining c \<noteq> 0" and "timeline_step config c = Inr c'"
  then show "((config, c'), config, c) \<in> measure (\<lambda>(config, c). cursor_measure c)"
    using timeline_step_advances [of config c c'] by (auto simp: advances_def cursor_measure_def)
qed simp

declare advance_render_timeline.simps [simp del]

section \<open>One native callback\<close>

definition output_from_state ::
  "ts_state \<Rightarrow> bool \<Rightarrow> bool \<Rightarrow> tick_actions \<Rightarrow> render_timeline \<Rightarrow> ts_output" where
  "output_from_state state raised released actions timeline = \<lparr>
     tso_signal_mode = ts_signal_mode state,
     tso_transmitter_state = ts_transmitter_state state,
     tso_logical_ptt = ts_logical_ptt state,
     tso_logical_ptt_raised = raised,
     tso_logical_ptt_released = released,
     tso_ctcss_render = ts_ctcss_render state,
     tso_render_spans = timeline,
     tso_dcs_turnoff_remaining_ms = ts_dcs_turnoff_remaining_ms state,
     tso_tx_hang_remaining_ms = ts_tx_hang_remaining_ms state,
     tso_finish_remaining_ms = ts_finish_remaining_ms state,
     tso_buffer_clear_frames = ts_buffer_clear_frames state,
     tso_settle_remaining_ms = ts_settle_remaining_ms state,
     tso_ctcss_status_event = ta_ctcss_status_event actions,
     tso_receiver_blanking_arm = ta_receiver_blanking_arm actions,
     tso_cpu_halted = ts_cpu_halted state,
     tso_rx_timer_remainder_frames = ts_rx_timer_remainder_frames state,
     tso_tx_timer_remainder_frames = ts_tx_timer_remainder_frames state\<rparr>"

text \<open>The input check of \<open>tick\<close>.\<close>

definition tick_input_rejected :: "ts_input \<Rightarrow> bool" where
  "tick_input_rejected input \<longleftrightarrow>
     tsi_native_frame_count input = 0 \<or>
     tsi_decoded_ctcss input < CTCSS_NONE \<or>
     tsi_decoded_ctcss input \<ge> int TONE_COUNT \<or>
     (tsi_forced_ctcss_tenths_hz input \<noteq> 0 \<and>
        \<not> (500 \<le> tsi_forced_ctcss_tenths_hz input \<and> tsi_forced_ctcss_tenths_hz input \<le> 3000))"

text \<open>The part every callback runs, admitted or held.\<close>

definition receive_side :: "ts_config \<Rightarrow> ts_input \<Rightarrow> ts_state \<Rightarrow> ts_state" where
  "receive_side config input next =
     (let (rx_ms, remainder) =
            elapsed_ms (ts_rx_timer_remainder_frames next) (tsi_native_frame_count input);
          next = next\<lparr>ts_rx_timer_remainder_frames := remainder,
                      ts_signal_mode := signal_mode_advance (tsc_signal_mode config)
                        \<lparr>smi_elapsed_ms = rx_ms,
                         smi_decoded_ctcss = tsi_decoded_ctcss input,
                         smi_dcs_valid = of_flag (tsi_dcs_valid input),
                         smi_tx_ptt_in = of_flag (tsi_external_ptt_request input)\<rparr>
                        (ts_signal_mode next)\<rparr>
      in if ts_turnoff_phase next = PhaseNone then sync_ctcss_option next else next)"

definition consume_settle :: "ts_input \<Rightarrow> int \<Rightarrow> ts_state \<Rightarrow> ts_state" where
  "consume_settle input tx_ms next =
     (if ts_settle_remaining_ms next \<noteq> 0 \<and> tsi_physical_ptt_applied input
      then next\<lparr>ts_settle_remaining_ms := fst (consume (ts_settle_remaining_ms next) tx_ms)\<rparr>
      else next)"

definition select_cpu_saver :: "ts_config \<Rightarrow> ts_input \<Rightarrow> ts_state \<Rightarrow> ts_state" where
  "select_cpu_saver config input next =
     next\<lparr>ts_cpu_halted := tx_cpu_saver_advance
       \<lparr>txs_enabled = of_flag (tsc_tx_cpu_saver_enabled config),
        txs_tx_ptt_in = of_flag (tsi_external_ptt_request input),
        txs_tx_ptt_out = of_flag (ts_logical_ptt next),
        txs_tx_idle = of_flag (ts_transmitter_state next = TX_STATE_IDLE)\<rparr> \<noteq> 0\<rparr>"

definition disable_queued :: "ts_config \<Rightarrow> ts_state \<Rightarrow> ts_state" where
  "disable_queued config next =
     (if \<not> ts_cpu_halted next \<and> crs_option (ts_ctcss_render next) = OPTION_DISABLE
      then apply_ctcss_option config OPTION_DISABLE next else next)"

definition tick :: "ts_config \<Rightarrow> ts_state \<Rightarrow> ts_input \<Rightarrow> ts_error + ts_state \<times> ts_output" where
  "tick config state input =
     (if tick_input_rejected input then Inl InvalidInput
      else
        let next = receive_side config input state in
        if \<not> tsi_tx_render_admitted input
        then Inr (next, output_from_state next False False no_actions [])
        else
          let (tx_ms, remainder) =
                elapsed_ms (ts_tx_timer_remainder_frames next) (tsi_native_frame_count input);
              next = next\<lparr>ts_tx_timer_remainder_frames := remainder\<rparr>;
              previous_ptt = ts_logical_ptt next in
          bind_result (prepare_transmitter config input next no_actions) (\<lambda>(next, actions).
          bind_result (advance_render_timeline config
            \<lparr>cu_state = next, cu_actions = actions, cu_timeline = [],
             cu_remaining = tsi_native_frame_count input\<rparr>) (\<lambda>c.
          let next = disable_queued config (select_cpu_saver config input
                       (consume_settle input tx_ms (cu_state c)));
              raised = (\<not> previous_ptt \<and> ts_logical_ptt next);
              released = (previous_ptt \<and> \<not> ts_logical_ptt next)
          in Inr (next, output_from_state next raised released (cu_actions c) (cu_timeline c)))))"

end
