(* ===== verification/Signaling_Loop.thy ===== *)
theory Signaling_Loop imports Signaling_Timeline begin

text \<open>
  What the render loop of \<open>src/transmit_signaling.rs\<close> keeps: the spans tile the callback,
  the phase and the state word agree, and an iteration cannot fail.
\<close>

section \<open>The span list\<close>

text \<open>The spans cover the frames from \<open>a\<close> up to \<open>b\<close>, each non-empty and starting where the
  previous one ends.\<close>

fun tiles :: "nat \<Rightarrow> render_timeline \<Rightarrow> nat \<Rightarrow> bool" where
  "tiles a [] b = (a = b)"
| "tiles a (x # xs) b =
     (rs_frame_offset x = a \<and> 0 < rs_frame_count x \<and> tiles (a + rs_frame_count x) xs b)"

lemma tiles_append: "tiles a (xs @ ys) b \<longleftrightarrow> (\<exists>m. tiles a xs m \<and> tiles m ys b)"
  by (induction xs arbitrary: a) auto

lemma tiles_snoc:
  "tiles a (xs @ [x]) b \<longleftrightarrow>
     tiles a xs (rs_frame_offset x) \<and> 0 < rs_frame_count x \<and> b = rs_frame_offset x + rs_frame_count x"
  by (auto simp: tiles_append)

lemma timeline_append_tiles:
  assumes "tiles 0 spans k" and "k + n \<le> u32_max" and "0 < n \<Longrightarrow> length spans < 4"
  shows "\<exists>spans'. timeline_append spans n intent = Inr spans' \<and> tiles 0 spans' (k + n) \<and>
    length spans' \<le> length spans + (if n = 0 then 0 else 1)"
proof (cases "n = 0")
  case True
  with assms show ?thesis by (simp add: timeline_append_def)
next
  case False
  show ?thesis
  proof (cases spans rule: rev_cases)
    case Nil
    with assms False show ?thesis
      by (simp add: timeline_append_def MAX_RENDER_SPANS_def)
  next
    case (snoc xs x)
    with assms False show ?thesis
      by (auto simp: timeline_append_def MAX_RENDER_SPANS_def tiles_append checked_u32_def)
  qed
qed

lemma tiles_bound: "tiles a spans b \<Longrightarrow> a \<le> b"
  by (induction spans arbitrary: a) (simp, force)

section \<open>The invariant\<close>

definition render_config_ok :: "ts_config \<Rightarrow> bool" where
  "render_config_ok config \<longleftrightarrow> ctcss_render_validate_config (tsc_ctcss_render config) = Inr ()"

definition tones_wf :: "ts_state \<Rightarrow> bool" where
  "tones_wf s \<longleftrightarrow> crs_wf (ts_ctcss_render s) \<and> mode_wf (ts_signal_mode s)"

lemma apply_ctcss_option_mode [simp]:
  "sms_smode (ts_signal_mode (apply_ctcss_option config option s)) = sms_smode (ts_signal_mode s)"
  "sms_smode_timer_ms (ts_signal_mode (apply_ctcss_option config option s)) = sms_smode_timer_ms (ts_signal_mode s)"
  "sms_tx_ctcss_frequency_tenths_hz (ts_signal_mode (apply_ctcss_option config option s)) =
     sms_tx_ctcss_frequency_tenths_hz (ts_signal_mode s)"
  "sms_tx_ctcss_option (ts_signal_mode (apply_ctcss_option config option s)) =
     crs_option (ts_ctcss_render (apply_ctcss_option config option s))"
  by (simp_all add: apply_ctcss_option_def set_ctcss_option_def sync_signal_mode_option_def Let_def)

lemma tones_wf_apply:
  assumes "render_config_ok config" and "tones_wf s" and "option \<le> 3"
  shows "tones_wf (apply_ctcss_option config option s)"
proof -
  have "crs_wf ((ts_ctcss_render s)\<lparr>crs_enabled := 1, crs_option := option\<rparr>)"
    "crs_wf ((ts_ctcss_render s)\<lparr>crs_option := option\<rparr>)"
    using assms by (simp_all add: tones_wf_def crs_wf_def radio_defs)
  moreover have "ctcss_render_validate_config (render_config config) = Inr ()"
    using assms(1) by (simp add: render_config_ok_def render_config_def ctcss_render_validate_config_def
        fp_zero_def split: tone_off_mode.splits if_splits)
  ultimately have c: "crs_wf (ts_ctcss_render (apply_ctcss_option config option s))"
    by (auto simp: apply_ctcss_option_def set_ctcss_option_def sync_signal_mode_option_def crs_wf_advance Let_def)
  then have "crs_option (ts_ctcss_render (apply_ctcss_option config option s)) \<le> 3"
    by (simp add: crs_wf_def OPTION_DISABLE_def)
  with c assms(2) show ?thesis
    by (simp add: tones_wf_def mode_wf_def)
qed

text \<open>A state the loop accepts, and what its steps keep of it.\<close>

definition phase_ok :: "ts_state \<Rightarrow> bool" where
  "phase_ok s \<longleftrightarrow>
     ts_transmitter_state s \<in> {TX_STATE_IDLE, TX_STATE_ACTIVE, TX_STATE_TOC, TX_STATE_FINISHING, TX_STATE_COMPLETE} \<and>
     (ts_transmitter_state s = TX_STATE_TOC \<longrightarrow> ts_turnoff_phase s \<noteq> PhaseNone) \<and>
     (ts_transmitter_state s \<in> {TX_STATE_IDLE, TX_STATE_ACTIVE, TX_STATE_FINISHING} \<longrightarrow>
        ts_turnoff_phase s = PhaseNone)"

definition dcs_clock_ok :: "ts_state \<Rightarrow> bool" where
  "dcs_clock_ok s \<longleftrightarrow> (ts_transmitter_state s = TX_STATE_TOC \<and> ts_turnoff_phase s = DcsTail \<longrightarrow>
     0 < ts_turnoff_remaining_frames s \<and>
     ts_dcs_turnoff_remaining_ms s = remaining_milliseconds (ts_turnoff_remaining_frames s))"

definition step_keeps :: "ts_config \<Rightarrow> ts_state \<Rightarrow> ts_state \<Rightarrow> bool" where
  "step_keeps config s s' \<longleftrightarrow>
     phase_ok s' \<and> dcs_clock_ok s' \<and>
     ts_transmitter_state s' \<noteq> TX_STATE_ACTIVE \<and>
     (ts_transmitter_state s' = TX_STATE_IDLE \<longleftrightarrow> ts_transmitter_state s = TX_STATE_COMPLETE) \<and>
     (ts_transmitter_state s' \<in> {TX_STATE_TOC, TX_STATE_FINISHING} \<longrightarrow> 0 < tail_frames config s') \<and>
     ts_logical_ptt s' = (ts_logical_ptt s \<and> ts_transmitter_state s \<noteq> TX_STATE_COMPLETE) \<and>
     (ts_turnoff_phase s' = DcsTail \<longrightarrow> ts_turnoff_phase s = DcsTail) \<and>
     (render_config_ok config \<and> tones_wf s \<longrightarrow> tones_wf s') \<and>
     sms_smode (ts_signal_mode s') = sms_smode (ts_signal_mode s) \<and>
     sms_smode_timer_ms (ts_signal_mode s') = sms_smode_timer_ms (ts_signal_mode s)"

lemma tones_wf_shifted: "tones_wf s \<Longrightarrow> tones_wf (shifted s)"
  by (simp add: tones_wf_def shifted_def crs_wf_def fp_zero_def)

lemma remaining_milliseconds_nonneg [simp]: "0 \<le> remaining_milliseconds n"
  by (simp add: remaining_milliseconds_def)

lemma tones_wf_updates [simp]:
  "tones_wf (s\<lparr>ts_transmitter_state := a\<rparr>) = tones_wf s"
  "tones_wf (s\<lparr>ts_logical_ptt := b\<rparr>) = tones_wf s"
  "tones_wf (s\<lparr>ts_dcs_turnoff_remaining_ms := a\<rparr>) = tones_wf s"
  "tones_wf (s\<lparr>ts_tx_hang_remaining_ms := a\<rparr>) = tones_wf s"
  "tones_wf (s\<lparr>ts_finish_remaining_ms := a\<rparr>) = tones_wf s"
  "tones_wf (s\<lparr>ts_buffer_clear_frames := a\<rparr>) = tones_wf s"
  "tones_wf (s\<lparr>ts_settle_remaining_ms := a\<rparr>) = tones_wf s"
  "tones_wf (s\<lparr>ts_cpu_halted := b\<rparr>) = tones_wf s"
  "tones_wf (s\<lparr>ts_turnoff_phase := p\<rparr>) = tones_wf s"
  "tones_wf (s\<lparr>ts_turnoff_remaining_frames := n\<rparr>) = tones_wf s"
  "tones_wf (s\<lparr>ts_ctcss_legacy_remaining_frames := n\<rparr>) = tones_wf s"
  "tones_wf (s\<lparr>ts_finish_remaining_frames := n\<rparr>) = tones_wf s"
  "tones_wf (s\<lparr>ts_rx_timer_remainder_frames := n\<rparr>) = tones_wf s"
  "tones_wf (s\<lparr>ts_tx_timer_remainder_frames := n\<rparr>) = tones_wf s"
  by (simp_all add: tones_wf_def)

lemma tones_wf_timer:
  "tones_wf s \<Longrightarrow> tones_wf (s\<lparr>ts_ctcss_legacy_remaining_frames := m, ts_ctcss_render := (ts_ctcss_render s)\<lparr>
     crs_turnoff_remaining_ms := remaining_milliseconds n\<rparr>\<rparr>)"
  by (simp add: tones_wf_def crs_wf_def)

lemma tones_wf_after_tail:
  assumes "render_config_ok config" and "tones_wf s"
  shows "tones_wf (apply_ctcss_option config OPTION_DISABLE
    (s\<lparr>ts_ctcss_legacy_remaining_frames := m, ts_ctcss_render := (ts_ctcss_render s)\<lparr>
       crs_turnoff_remaining_ms := remaining_milliseconds n\<rparr>\<rparr>))"
  by (rule tones_wf_apply) (use assms in \<open>simp_all add: tones_wf_def crs_wf_def OPTION_DISABLE_def\<close>)

lemma ctcss_tail_step_keeps:
  assumes "ctcss_tail_step config c = Inr c'"
    and st: "ts_transmitter_state (cu_state c) = TX_STATE_TOC" "ts_turnoff_phase (cu_state c) = CtcssTail"
  shows "step_keeps config (cu_state c) (cu_state c')"
proof -
  from assms(1) obtain n d where d: "spend_turnoff c = Inr (n, d)"
    by (auto simp: ctcss_tail_step_def bind_result_Inr)
  have ds: "ts_transmitter_state (cu_state d) = TX_STATE_TOC" "ts_turnoff_phase (cu_state d) = CtcssTail"
    "ts_logical_ptt (cu_state d) = ts_logical_ptt (cu_state c)"
    "ts_signal_mode (cu_state d) = ts_signal_mode (cu_state c)"
    "tones_wf (cu_state c) \<Longrightarrow> tones_wf (cu_state d)"
    using spend_turnoff_Inr(5) [OF d] st by (auto simp: tones_wf_shifted)
  show ?thesis
    using assms(1) d st ds
    by (auto simp: ctcss_tail_step_def step_keeps_def phase_ok_def dcs_clock_ok_def tail_frames_def legacy_interval Let_def tx_state_defs
        tones_wf_timer tones_wf_after_tail tones_wf_shifted split: if_splits)
qed


lemma spent_turnoff_fields:
  assumes "spend_turnoff c = Inr (n, d)"
  shows "ts_transmitter_state (cu_state d) = ts_transmitter_state (cu_state c)"
    and "ts_turnoff_phase (cu_state d) = ts_turnoff_phase (cu_state c)"
    and "ts_logical_ptt (cu_state d) = ts_logical_ptt (cu_state c)"
    and "ts_signal_mode (cu_state d) = ts_signal_mode (cu_state c)"
    and "tones_wf (cu_state c) \<Longrightarrow> tones_wf (cu_state d)"
  using spend_turnoff_Inr(5) [OF assms] by (auto simp: tones_wf_shifted)

lemma spent_finish_fields:
  assumes "spend_finish c = Inr (n, d)"
  shows "ts_transmitter_state (cu_state d) = ts_transmitter_state (cu_state c)"
    and "ts_turnoff_phase (cu_state d) = ts_turnoff_phase (cu_state c)"
    and "ts_logical_ptt (cu_state d) = ts_logical_ptt (cu_state c)"
    and "ts_signal_mode (cu_state d) = ts_signal_mode (cu_state c)"
    and "tones_wf (cu_state c) \<Longrightarrow> tones_wf (cu_state d)"
  using spend_finish_Inr(5) [OF assms] by (auto simp: tones_wf_shifted)

lemmas keeps_defs = step_keeps_def phase_ok_def dcs_clock_ok_def tx_state_defs tail_frames_def Let_def

lemma ctcss_gap_step_keeps:
  assumes "ctcss_gap_step config c = Inr c'"
    and st: "ts_transmitter_state (cu_state c) = TX_STATE_TOC" "ts_turnoff_phase (cu_state c) = CtcssGap"
  shows "step_keeps config (cu_state c) (cu_state c')"
proof -
  from assms(1) obtain n d where d: "spend_turnoff c = Inr (n, d)"
    by (auto simp: ctcss_gap_step_def bind_result_Inr)
  show ?thesis
    using assms(1) d st spent_turnoff_fields [OF d]
    by (auto simp: ctcss_gap_step_def start_finishing_Inr keeps_defs finish_frames_def split: if_splits)
qed

lemma dcs_tail_step_keeps:
  assumes "dcs_tail_step c = Inr c'"
    and st: "ts_transmitter_state (cu_state c) = TX_STATE_TOC" "ts_turnoff_phase (cu_state c) = DcsTail"
  shows "step_keeps config (cu_state c) (cu_state c')"
proof -
  from assms(1) obtain n d where d: "spend_turnoff c = Inr (n, d)"
    by (auto simp: dcs_tail_step_def bind_result_Inr)
  show ?thesis
    using assms(1) d st spent_turnoff_fields [OF d]
    by (auto simp: dcs_tail_step_def start_finishing_Inr keeps_defs split: if_splits)
qed

lemma no_tone_step_keeps:
  assumes "no_tone_step c = Inr c'"
    and st: "ts_transmitter_state (cu_state c) = TX_STATE_TOC" "ts_turnoff_phase (cu_state c) = NoTone"
  shows "step_keeps config (cu_state c) (cu_state c')"
proof (cases "ts_turnoff_remaining_frames (cu_state c) = 0")
  case True
  with assms show ?thesis by (auto simp: no_tone_step_def keeps_defs)
next
  case False
  with assms(1) obtain n d where d: "spend_turnoff c = Inr (n, d)"
    by (auto simp: no_tone_step_def bind_result_Inr)
  show ?thesis
    using assms(1) d st False spent_turnoff_fields [OF d]
    by (auto simp: no_tone_step_def keeps_defs split: if_splits)
qed

lemma finishing_step_keeps:
  assumes "finishing_step c = Inr c'"
    and st: "ts_transmitter_state (cu_state c) = TX_STATE_FINISHING" "ts_turnoff_phase (cu_state c) = PhaseNone"
  shows "step_keeps config (cu_state c) (cu_state c')"
proof (cases "ts_finish_remaining_frames (cu_state c) = 0")
  case True
  with assms show ?thesis by (auto simp: finishing_step_def keeps_defs)
next
  case False
  with assms(1) obtain n d where d: "spend_finish c = Inr (n, d)"
    by (auto simp: finishing_step_def bind_result_Inr)
  show ?thesis
    using assms(1) d st False spent_finish_fields [OF d]
    by (auto simp: finishing_step_def keeps_defs split: if_splits)
qed

lemma complete_step_keeps:
  assumes "complete_step config c = Inr c'"
    and st: "ts_transmitter_state (cu_state c) = TX_STATE_COMPLETE"
  shows "step_keeps config (cu_state c) (cu_state c')"
  using assms
  by (auto simp: complete_step_eq keeps_defs set_ctcss_option_def tones_wf_def mode_wf_def crs_wf_def OPTION_DISABLE_def)

lemma timeline_step_keeps:
  assumes "timeline_step config c = Inr c'" and "phase_ok (cu_state c)"
  shows "step_keeps config (cu_state c) (cu_state c')"
proof -
  have "ts_transmitter_state (cu_state c) = TX_STATE_FINISHING \<Longrightarrow> ts_turnoff_phase (cu_state c) = PhaseNone"
    using assms(2) by (simp add: phase_ok_def tx_state_defs)
  with assms(1) show ?thesis
    by (auto simp: timeline_step_def Let_def
        intro: ctcss_tail_step_keeps ctcss_gap_step_keeps dcs_tail_step_keeps
          no_tone_step_keeps finishing_step_keeps complete_step_keeps
        split: if_splits turnoff_phase.splits)
qed

text \<open>An iteration fails only when the span list does.\<close>

lemma spend_turnoff_ok:
  assumes "timeline_append (cu_timeline c) (min (ts_turnoff_remaining_frames (cu_state c)) (cu_remaining c))
    (current_render_span (cu_state c)) = Inr timeline"
  shows "\<exists>n d. spend_turnoff c = Inr (n, d)"
  using assms by (auto simp: spend_turnoff_def consume_phase_def emit_eq current_render_span_def Let_def)

lemma spend_finish_ok:
  assumes "timeline_append (cu_timeline c) (min (ts_finish_remaining_frames (cu_state c)) (cu_remaining c))
    (current_render_span (cu_state c)) = Inr timeline"
  shows "\<exists>n d. spend_finish c = Inr (n, d)"
  using assms by (auto simp: spend_finish_def consume_phase_def emit_eq current_render_span_def Let_def)

lemma timeline_step_ok:
  assumes ok: "phase_ok (cu_state c)" and rank: "0 < phase_rank (cu_state c)"
    and space: "\<And>n. 1 < phase_rank (cu_state c) \<Longrightarrow> n \<le> cu_remaining c \<Longrightarrow>
      \<exists>timeline. timeline_append (cu_timeline c) n (current_render_span (cu_state c)) = Inr timeline"
  shows "\<exists>c'. timeline_step config c = Inr c'"
proof (cases "ts_transmitter_state (cu_state c) = TX_STATE_COMPLETE")
  case True
  then show ?thesis by (simp add: timeline_step_def complete_step_eq tx_state_defs)
next
  case False
  then have "1 < phase_rank (cu_state c)"
    using ok rank by (auto simp: phase_ok_def phase_rank_def split: if_splits)
  with space have t: "\<exists>n d. spend_turnoff c = Inr (n, d)" and f: "\<exists>n d. spend_finish c = Inr (n, d)"
    by (meson spend_turnoff_ok spend_finish_ok min.cobounded2)+
  then obtain n d m e where "spend_turnoff c = Inr (n, d)" "spend_finish c = Inr (m, e)"
    by blast
  moreover have "ts_transmitter_state (cu_state c) \<in> {TX_STATE_TOC, TX_STATE_FINISHING}"
    using False ok rank by (auto simp: phase_ok_def phase_rank_def split: if_splits)
  ultimately show ?thesis
    using ok
    by (auto simp: timeline_step_def ctcss_tail_step_def ctcss_gap_step_def dcs_tail_step_def no_tone_step_def
        finishing_step_def start_finishing_Inr phase_ok_def Let_def tx_state_defs split: turnoff_phase.splits)
qed

section \<open>The whole loop\<close>

text \<open>Only a completed transmission reports actions, and it overwrites the earlier ones.\<close>

definition completed_actions :: "ts_config \<Rightarrow> tick_actions" where
  "completed_actions config =
     \<lparr>ta_ctcss_status_event = True,
      ta_receiver_blanking_arm = Some (tcc_txrx_blanking_time_ms (tsc_tx_complete config))\<rparr>"

lemma step_actions:
  "ctcss_tail_step config c = Inr c' \<Longrightarrow> cu_actions c' = cu_actions c"
  "ctcss_gap_step config c = Inr c' \<Longrightarrow> cu_actions c' = cu_actions c"
  "dcs_tail_step c = Inr c' \<Longrightarrow> cu_actions c' = cu_actions c"
  "no_tone_step c = Inr c' \<Longrightarrow> cu_actions c' = cu_actions c"
  "finishing_step c = Inr c' \<Longrightarrow> cu_actions c' = cu_actions c"
  by (auto simp: ctcss_tail_step_def ctcss_gap_step_def dcs_tail_step_def no_tone_step_def
      finishing_step_def bind_result_Inr start_finishing_Inr Let_def
      dest: spend_turnoff_Inr(3) spend_finish_Inr(3) split: if_splits)

lemma timeline_step_actions:
  assumes "timeline_step config c = Inr c'"
  shows "cu_actions c' = (if ts_transmitter_state (cu_state c) = TX_STATE_COMPLETE
    then completed_actions config else cu_actions c)"
proof (cases "ts_transmitter_state (cu_state c) = TX_STATE_COMPLETE")
  case True
  with assms show ?thesis
    by (auto simp: timeline_step_def complete_step_eq completed_actions_def tx_state_defs)
next
  case False
  with assms show ?thesis
    by (auto simp: timeline_step_def Let_def dest: step_actions split: if_splits turnoff_phase.splits)
qed

definition loop_invariant :: "ts_config \<Rightarrow> nat \<Rightarrow> cursor \<Rightarrow> bool" where
  "loop_invariant config n c \<longleftrightarrow>
     phase_ok (cu_state c) \<and> dcs_clock_ok (cu_state c) \<and>
     n \<le> u32_max \<and> cu_remaining c \<le> n \<and> tiles 0 (cu_timeline c) (n - cu_remaining c) \<and>
     length (cu_timeline c) \<le> 4 \<and>
     (cu_remaining c \<noteq> 0 \<longrightarrow> length (cu_timeline c) + max (phase_rank (cu_state c)) 1 \<le> 4) \<and>
     (cu_remaining c = 0 \<and> ts_transmitter_state (cu_state c) \<in> {TX_STATE_TOC, TX_STATE_FINISHING} \<longrightarrow>
        0 < tail_frames config (cu_state c))"

text \<open>What becomes of the transmitter in \<open>k\<close> frames: it stays idle or active, it drops PTT
  when its tail fits in them, or the tail is that much shorter.\<close>

definition tail_fate :: "ts_config \<Rightarrow> nat \<Rightarrow> ts_state \<Rightarrow> ts_state \<Rightarrow> bool" where
  "tail_fate config k s s' \<longleftrightarrow>
     (if ts_transmitter_state s \<in> {TX_STATE_IDLE, TX_STATE_ACTIVE}
      then ts_transmitter_state s' = ts_transmitter_state s \<and> ts_logical_ptt s' = ts_logical_ptt s
      else if tail_frames config s \<le> k
      then ts_transmitter_state s' = TX_STATE_IDLE \<and> \<not> ts_logical_ptt s'
      else ts_transmitter_state s' \<in> {TX_STATE_TOC, TX_STATE_FINISHING} \<and>
        ts_logical_ptt s' = ts_logical_ptt s \<and>
        tail_frames config s' = tail_frames config s - k)"

lemma tail_fate_step:
  assumes "tail_fate config k' d s'" and "tail_frames config d + (k - k') = tail_frames config s"
    and "k' \<le> k" and "ts_transmitter_state d \<noteq> TX_STATE_ACTIVE"
    and "ts_transmitter_state d = TX_STATE_IDLE \<longleftrightarrow> ts_transmitter_state s = TX_STATE_COMPLETE"
    and "ts_logical_ptt d = (ts_logical_ptt s \<and> ts_transmitter_state s \<noteq> TX_STATE_COMPLETE)"
    and "ts_transmitter_state s \<notin> {TX_STATE_IDLE, TX_STATE_ACTIVE}"
  shows "tail_fate config k s s'"
proof (cases "ts_transmitter_state s = TX_STATE_COMPLETE")
  case True
  with assms show ?thesis
    by (simp add: tail_fate_def tail_frames_simps)
next
  case False
  have "(tail_frames config d \<le> k') = (tail_frames config s \<le> k)"
    "tail_frames config d - k' = tail_frames config s - k"
    using assms(2,3) by linarith+
  then show ?thesis
    using False assms(1,4-7) by (auto simp: tail_fate_def split: if_splits)
qed

text \<open>The result of the loop in terms of the state it starts from.\<close>

definition loop_result :: "ts_config \<Rightarrow> nat \<Rightarrow> cursor \<Rightarrow> cursor \<Rightarrow> bool" where
  "loop_result config n c c' \<longleftrightarrow>
     (let s = cu_state c; s' = cu_state c' in
      tiles 0 (cu_timeline c') n \<and> length (cu_timeline c') \<le> 4 \<and>
      phase_ok s' \<and> dcs_clock_ok s' \<and> ts_transmitter_state s' \<noteq> TX_STATE_COMPLETE \<and>
      tail_fate config (cu_remaining c) s s' \<and>
      cu_actions c' = (if ts_transmitter_state s \<notin> {TX_STATE_IDLE, TX_STATE_ACTIVE} \<and>
        ts_transmitter_state s' = TX_STATE_IDLE then completed_actions config else cu_actions c) \<and>
      ts_settle_remaining_ms s' = ts_settle_remaining_ms s \<and>
      ts_cpu_halted s' = ts_cpu_halted s \<and>
      ts_rx_timer_remainder_frames s' = ts_rx_timer_remainder_frames s \<and>
      ts_tx_timer_remainder_frames s' = ts_tx_timer_remainder_frames s \<and>
      (ts_turnoff_phase s' = DcsTail \<longrightarrow> ts_turnoff_phase s = DcsTail) \<and>
      (render_config_ok config \<and> tones_wf s \<longrightarrow> tones_wf s') \<and>
      sms_smode (ts_signal_mode s') = sms_smode (ts_signal_mode s) \<and>
      sms_smode_timer_ms (ts_signal_mode s') = sms_smode_timer_ms (ts_signal_mode s))"

lemma loop_invariant_step:
  assumes "loop_invariant config n c" and "timeline_step config c = Inr c'"
  shows "loop_invariant config n c'"
proof -
  note a = timeline_step_advances [OF assms(2), unfolded advances_def]
  have ok: "phase_ok (cu_state c)"
    using assms(1) by (simp add: loop_invariant_def)
  note k = timeline_step_keeps [OF assms(2) ok, unfolded step_keeps_def]
  let ?d = "cu_remaining c - cu_remaining c'"
  have rank: "0 < phase_rank (cu_state c)"
    using assms(2) ok by (auto simp: timeline_step_def phase_rank_def Let_def split: if_splits)
  have tl: "timeline_append (cu_timeline c) ?d (current_render_span (cu_state c)) = Inr (cu_timeline c')"
    using a by blast
  have bounds: "cu_remaining c \<le> n" "cu_remaining c' \<le> cu_remaining c" "n \<le> u32_max"
    using a assms(1) by (auto simp: loop_invariant_def)
  have total: "n - cu_remaining c + ?d = n - cu_remaining c'"
    using bounds by auto
  have short: "0 < ?d \<Longrightarrow> length (cu_timeline c) < 4"
    using assms(1) by (auto simp: loop_invariant_def)
  have tiled: "tiles 0 (cu_timeline c) (n - cu_remaining c)"
    using assms(1) by (simp add: loop_invariant_def)
  have fits: "n - cu_remaining c + ?d \<le> u32_max"
    using bounds by linarith
  from timeline_append_tiles [OF tiled fits short, of "current_render_span (cu_state c)"]
  obtain tl' where tl': "timeline_append (cu_timeline c) ?d (current_render_span (cu_state c)) = Inr tl'"
    "tiles 0 tl' (n - cu_remaining c + ?d)" "length tl' \<le> length (cu_timeline c) + (if ?d = 0 then 0 else 1)"
    by blast
  with tl total have t: "tiles 0 (cu_timeline c') (n - cu_remaining c')"
    "length (cu_timeline c') \<le> length (cu_timeline c) + (if ?d = 0 then 0 else 1)"
    by auto
  have room: "cu_remaining c \<noteq> 0 \<Longrightarrow> length (cu_timeline c) + max (phase_rank (cu_state c)) 1 \<le> 4"
    "length (cu_timeline c) \<le> 4"
    using assms(1) by (simp_all add: loop_invariant_def)
  have space: "cu_remaining c' \<noteq> 0 \<longrightarrow> length (cu_timeline c') + max (phase_rank (cu_state c')) 1 \<le> 4"
  proof
    assume "cu_remaining c' \<noteq> 0"
    with a have "phase_rank (cu_state c') < phase_rank (cu_state c)" "cu_remaining c \<noteq> 0"
      by auto
    moreover have "?d \<noteq> 0 \<Longrightarrow> 1 < phase_rank (cu_state c)"
      using assms(2) a k rank by (auto simp: phase_rank_def tail_frames_def tx_state_defs split: if_splits)
    ultimately show "length (cu_timeline c') + max (phase_rank (cu_state c')) 1 \<le> 4"
      using t(2) room by (auto split: if_splits)
  qed
  have "length (cu_timeline c') \<le> 4"
    using t(2) room by (auto split: if_splits)
  with k t(1) space bounds show ?thesis
    by (auto simp: loop_invariant_def)
qed


lemma loop_result_stop:
  assumes "loop_invariant config n c" and "cu_remaining c = 0"
  shows "\<exists>c'. advance_render_timeline config c = Inr c' \<and> loop_result config n c c'"
proof (cases "ts_transmitter_state (cu_state c) = TX_STATE_COMPLETE")
  case True
  then show ?thesis
    using assms
    by (auto simp: advance_render_timeline.simps [of config c] complete_transmission_Inr loop_result_def tail_fate_def
        completed_actions_def
        loop_invariant_def phase_ok_def dcs_clock_ok_def tail_frames_def tx_state_defs set_ctcss_option_def
        tones_wf_def mode_wf_def crs_wf_def OPTION_DISABLE_def)
next
  case False
  then show ?thesis
    using assms
    by (auto simp: advance_render_timeline.simps [of config c] loop_result_def loop_invariant_def phase_ok_def
        tail_fate_def tx_state_defs)
qed

lemma loop_result_quiet:
  assumes "loop_invariant config n c" and "cu_remaining c \<noteq> 0"
    and "ts_transmitter_state (cu_state c) \<in> {TX_STATE_IDLE, TX_STATE_ACTIVE}"
  shows "\<exists>c'. advance_render_timeline config c = Inr c' \<and> loop_result config n c c'"
proof -
  have "tiles 0 (cu_timeline c) (n - cu_remaining c)" "n - cu_remaining c + cu_remaining c \<le> u32_max"
    "length (cu_timeline c) < 4"
    using assms(1,2) by (auto simp: loop_invariant_def)
  from timeline_append_tiles [OF this, of "current_render_span (cu_state c)"]
  obtain tl where "timeline_append (cu_timeline c) (cu_remaining c) (current_render_span (cu_state c)) = Inr tl"
    "tiles 0 tl (n - cu_remaining c + cu_remaining c)" "length tl \<le> length (cu_timeline c) + 1"
    using assms(2) by auto
  then show ?thesis
    using assms
    by (auto simp: advance_render_timeline.simps [of config c] emit_eq loop_result_def loop_invariant_def tail_fate_def
        phase_ok_def dcs_clock_ok_def tx_state_defs tones_wf_shifted)
qed

lemma loop_result_trans:
  assumes inv: "loop_invariant config n c" and "timeline_step config c = Inr d" and "loop_result config n d c'"
    and st: "ts_transmitter_state (cu_state c) \<notin> {TX_STATE_IDLE, TX_STATE_ACTIVE}"
  shows "loop_result config n c c'"
proof -
  have ok: "phase_ok (cu_state c)" using inv by (simp add: loop_invariant_def)
  note a = timeline_step_advances [OF assms(2), unfolded advances_def]
  note k = timeline_step_keeps [OF assms(2) ok, unfolded step_keeps_def]
  have f: "tail_fate config (cu_remaining d) (cu_state d) (cu_state c')"
    using assms(3) by (simp add: loop_result_def Let_def)
  have "tail_fate config (cu_remaining c) (cu_state c) (cu_state c')"
    by (rule tail_fate_step [OF f]) (use a k st in auto)
  moreover have "cu_actions c' = (if ts_transmitter_state (cu_state c') = TX_STATE_IDLE
    then completed_actions config else cu_actions c)"
    using timeline_step_actions [OF assms(2)] assms(3) k f
    by (auto simp: loop_result_def tail_fate_def tx_state_defs Let_def split: if_splits)
  ultimately show ?thesis
    using a k st assms(3) by (simp add: loop_result_def Let_def)
qed

lemma loop_result_exists:
  assumes "loop_invariant config n c"
  shows "\<exists>c'. advance_render_timeline config c = Inr c' \<and> loop_result config n c c'"
  using assms
proof (induction config c rule: advance_render_timeline.induct)
  case (1 config c)
  show ?case
  proof (cases "cu_remaining c = 0 \<or> ts_transmitter_state (cu_state c) \<in> {TX_STATE_IDLE, TX_STATE_ACTIVE}")
    case True
    with 1(2) show ?thesis using loop_result_stop loop_result_quiet by blast
  next
    case False
    have ok: "phase_ok (cu_state c)" using 1(2) by (simp add: loop_invariant_def)
    then have rank: "0 < phase_rank (cu_state c)"
      using False by (auto simp: phase_ok_def phase_rank_def)
    have "\<exists>tl. timeline_append (cu_timeline c) k (current_render_span (cu_state c)) = Inr tl"
      if "1 < phase_rank (cu_state c)" "k \<le> cu_remaining c" for k
    proof -
      have "tiles 0 (cu_timeline c) (n - cu_remaining c)" "n - cu_remaining c + k \<le> u32_max"
        "length (cu_timeline c) < 4"
        using that False 1(2) by (auto simp: loop_invariant_def)
      from timeline_append_tiles [OF this] show ?thesis by blast
    qed
    with timeline_step_ok [OF ok rank] obtain d where d: "timeline_step config c = Inr d"
      by blast
    have "loop_invariant config n d" by (rule loop_invariant_step [OF 1(2) d])
    with 1(1) False d obtain c' where "advance_render_timeline config d = Inr c'" "loop_result config n d c'"
      by blast
    moreover have "loop_result config n c c'"
      using loop_result_trans [OF 1(2) d calculation(2)] False by blast
    ultimately show ?thesis
      using False d by (auto simp: advance_render_timeline.simps [of config c])
  qed
qed

end
