(* ===== verification/Signaling.thy ===== *)
theory Signaling
  imports Signaling_Loop
begin

text \<open>
  The properties of \<open>tick\<close> in \<open>src/transmit_signaling.rs\<close>: the invariant a validated
  configuration keeps from one callback to the next, the exact number of frames between
  the release of PTT and its drop, and what a held callback leaves alone.
\<close>

section \<open>The invariant between callbacks\<close>

definition ts_wf :: "ts_config \<Rightarrow> ts_state \<Rightarrow> bool" where
  "ts_wf config s \<longleftrightarrow>
     phase_ok s \<and> ts_transmitter_state s \<noteq> TX_STATE_COMPLETE \<and> dcs_clock_ok s \<and>
     (ts_logical_ptt s \<longleftrightarrow> ts_transmitter_state s \<noteq> TX_STATE_IDLE) \<and>
     (ts_transmitter_state s \<in> {TX_STATE_TOC, TX_STATE_FINISHING} \<longrightarrow> 0 < tail_frames config s) \<and>
     (ts_turnoff_phase s = DcsTail \<longrightarrow> 0 < dtc_turnoff_duration_ms (tsc_dcs_turnoff config)) \<and>
     tones_wf s \<and> 0 \<le> ts_settle_remaining_ms s \<and>
     ts_rx_timer_remainder_frames s < 48 \<and> ts_tx_timer_remainder_frames s < 48"

text \<open>A validated configuration whose CTCSS tail still fits in \<open>u32\<close> frames once it is
  rounded up to whole 20 ms intervals.\<close>

definition tail_fits :: "ts_config \<Rightarrow> bool" where
  "tail_fits config \<longleftrightarrow>
     (tsc_tone_off_mode config \<noteq> ToneOffNone \<longrightarrow>
        crc_turnoff_duration_ms (tsc_ctcss_render config) \<le> 89478480)"

definition config_ok :: "ts_config \<Rightarrow> bool" where
  "config_ok config \<longleftrightarrow> ts_validate_config config = Inr () \<and> tail_fits config"

lemma config_okD:
  assumes "config_ok config"
  shows "render_config_ok config" and "0 \<le> crc_turnoff_duration_ms (tsc_ctcss_render config)"
    and "0 \<le> tsc_tx_settle_time_ms config"
    and "tsc_dcs_transmit_enabled config \<and> tsc_dcs_turnoff_enabled config \<Longrightarrow>
      0 < dtc_turnoff_duration_ms (tsc_dcs_turnoff config) \<and>
      duration_frames (dtc_turnoff_duration_ms (tsc_dcs_turnoff config)) =
        Inr (nat (dtc_turnoff_duration_ms (tsc_dcs_turnoff config)) * 48)"
    and "tsc_tone_off_mode config \<noteq> ToneOffNone \<Longrightarrow>
      crc_turnoff_duration_ms (tsc_ctcss_render config) \<le> 89478480"
proof -
  have v: "ts_validate_config config = Inr ()" using assms by (simp add: config_ok_def)
  show "render_config_ok config" "0 \<le> tsc_tx_settle_time_ms config"
    using v by (auto simp: ts_validate_config_def bind_result_Inr component_def render_config_ok_def
        split: sum.splits if_splits)
  then show "0 \<le> crc_turnoff_duration_ms (tsc_ctcss_render config)"
    by (auto simp: render_config_ok_def ctcss_render_validate_config_def split: if_splits)
  show "0 < dtc_turnoff_duration_ms (tsc_dcs_turnoff config) \<and>
      duration_frames (dtc_turnoff_duration_ms (tsc_dcs_turnoff config)) =
        Inr (nat (dtc_turnoff_duration_ms (tsc_dcs_turnoff config)) * 48)"
    if "tsc_dcs_transmit_enabled config \<and> tsc_dcs_turnoff_enabled config"
    using v that
    by (auto simp: ts_validate_config_def bind_result_Inr component_def dcs_turnoff_validate_config_def
        duration_frames_def checked_u32_def split: sum.splits if_splits)
  show "crc_turnoff_duration_ms (tsc_ctcss_render config) \<le> 89478480"
    if "tsc_tone_off_mode config \<noteq> ToneOffNone"
    using assms that by (simp add: config_ok_def tail_fits_def)
qed

lemma duration_frames_Inr:
  "0 \<le> d \<Longrightarrow> d \<le> 89478485 \<Longrightarrow> duration_frames d = Inr (nat d * 48)"
  by (simp add: duration_frames_def checked_u32_def u32_max_def)

text \<open>The CTCSS tail in frames: at least one 20 ms interval, and otherwise rounded up.\<close>

lemma ctcss_tail_frames_Inr:
  assumes "0 \<le> d" and "d \<le> 89478480"
  shows "ctcss_tail_frames d = Inr (max (div_ceil (nat d * 48) 960) 1 * 960)"
proof -
  have "nat d * 48 \<le> 4473924 * 960" using assms(2) by simp
  then have "div_ceil (nat d * 48) 960 \<le> 4473924"
    by (rule div_ceil_least) simp
  then have "max (div_ceil (nat d * 48) 960) 1 * 960 \<le> u32_max"
    by (simp add: u32_max_def)
  then show ?thesis
    using assms by (simp add: ctcss_tail_frames_def duration_frames_Inr legacy_interval checked_u32_def Let_def)
qed

section \<open>Before the loop\<close>

lemma select_start_ctcss_fields [simp]:
  "ts_transmitter_state (select_start_ctcss config input s) = ts_transmitter_state s"
  "ts_logical_ptt (select_start_ctcss config input s) = ts_logical_ptt s"
  "ts_dcs_turnoff_remaining_ms (select_start_ctcss config input s) = ts_dcs_turnoff_remaining_ms s"
  "ts_settle_remaining_ms (select_start_ctcss config input s) = ts_settle_remaining_ms s"
  "ts_turnoff_phase (select_start_ctcss config input s) = ts_turnoff_phase s"
  "ts_turnoff_remaining_frames (select_start_ctcss config input s) = ts_turnoff_remaining_frames s"
  "ts_finish_remaining_frames (select_start_ctcss config input s) = ts_finish_remaining_frames s"
  "ts_rx_timer_remainder_frames (select_start_ctcss config input s) = ts_rx_timer_remainder_frames s"
  "ts_tx_timer_remainder_frames (select_start_ctcss config input s) = ts_tx_timer_remainder_frames s"
  by (simp_all add: select_start_ctcss_def set_ctcss_option_def Let_def)

lemma tones_wf_select: "tones_wf s \<Longrightarrow> tones_wf (select_start_ctcss config input s)"
  by (auto simp: select_start_ctcss_def set_ctcss_option_def tones_wf_def mode_wf_def crs_wf_def
      OPTION_START_def OPTION_DISABLE_def Let_def)

lemma tones_wf_pending:
  "render_config_ok config \<Longrightarrow> tones_wf s \<Longrightarrow> tones_wf (apply_pending_ctcss_option config s)"
  using tones_wf_apply [of config s "crs_option (ts_ctcss_render s)"]
  by (simp add: apply_pending_ctcss_option_def) (simp add: tones_wf_def crs_wf_def OPTION_DISABLE_def)


lemma apply_pending_fields [simp]:
  "ts_transmitter_state (apply_pending_ctcss_option config s) = ts_transmitter_state s"
  "ts_logical_ptt (apply_pending_ctcss_option config s) = ts_logical_ptt s"
  "ts_settle_remaining_ms (apply_pending_ctcss_option config s) = ts_settle_remaining_ms s"
  "ts_turnoff_phase (apply_pending_ctcss_option config s) = ts_turnoff_phase s"
  "ts_turnoff_remaining_frames (apply_pending_ctcss_option config s) = ts_turnoff_remaining_frames s"
  "ts_finish_remaining_frames (apply_pending_ctcss_option config s) = ts_finish_remaining_frames s"
  "ts_rx_timer_remainder_frames (apply_pending_ctcss_option config s) = ts_rx_timer_remainder_frames s"
  "ts_tx_timer_remainder_frames (apply_pending_ctcss_option config s) = ts_tx_timer_remainder_frames s"
  by (simp_all add: apply_pending_ctcss_option_def)

lemma set_mode_timer_fields [simp]:
  "ts_transmitter_state (set_mode_timer config s) = ts_transmitter_state s"
  "ts_logical_ptt (set_mode_timer config s) = ts_logical_ptt s"
  "ts_ctcss_render (set_mode_timer config s) = ts_ctcss_render s"
  "ts_settle_remaining_ms (set_mode_timer config s) = ts_settle_remaining_ms s"
  "ts_turnoff_phase (set_mode_timer config s) = ts_turnoff_phase s"
  "ts_turnoff_remaining_frames (set_mode_timer config s) = ts_turnoff_remaining_frames s"
  "ts_finish_remaining_frames (set_mode_timer config s) = ts_finish_remaining_frames s"
  "ts_rx_timer_remainder_frames (set_mode_timer config s) = ts_rx_timer_remainder_frames s"
  "ts_tx_timer_remainder_frames (set_mode_timer config s) = ts_tx_timer_remainder_frames s"
  "tones_wf (set_mode_timer config s) = tones_wf s"
  by (simp_all add: set_mode_timer_def tones_wf_def mode_wf_def)

text \<open>What every branch of \<open>prepare_transmitter\<close> hands to the loop.\<close>

definition ready :: "ts_config \<Rightarrow> ts_state \<Rightarrow> ts_state \<Rightarrow> bool" where
  "ready config s s' \<longleftrightarrow>
     phase_ok s' \<and> ts_transmitter_state s' \<noteq> TX_STATE_COMPLETE \<and> dcs_clock_ok s' \<and>
     (ts_logical_ptt s' \<longleftrightarrow> ts_transmitter_state s' \<noteq> TX_STATE_IDLE) \<and>
     (ts_turnoff_phase s' = DcsTail \<longrightarrow> 0 < dtc_turnoff_duration_ms (tsc_dcs_turnoff config)) \<and>
     tones_wf s' \<and> 0 \<le> ts_settle_remaining_ms s' \<and>
     ts_rx_timer_remainder_frames s' = ts_rx_timer_remainder_frames s \<and>
     ts_tx_timer_remainder_frames s' = ts_tx_timer_remainder_frames s"

lemmas ready_defs = ready_def phase_ok_def dcs_clock_ok_def tx_state_defs

lemma ready_key_up:
  assumes "config_ok config" and "ts_wf config s"
  shows "ready config s (key_up config input s)" "ts_transmitter_state (key_up config input s) = TX_STATE_ACTIVE"
  using assms(2) config_okD(1,3) [OF assms(1)]
  by (auto simp: key_up_def ready_defs Let_def ts_wf_def tones_wf_pending tones_wf_select)

lemma ready_keep_active:
  assumes "config_ok config" and "ts_wf config s" and "ts_transmitter_state s = TX_STATE_ACTIVE"
  shows "ready config s (keep_active config input s)"
    "ts_transmitter_state (keep_active config input s) = TX_STATE_ACTIVE"
  using assms(2,3) config_okD(1) [OF assms(1)]
  by (auto simp: keep_active_def ready_defs Let_def ts_wf_def tones_wf_pending tones_wf_select)

lemma ready_apply:
  assumes "config_ok config" and "ready config s s'" and "option \<le> 3"
  shows "ready config s (apply_ctcss_option config option s')"
  using assms config_okD(1) [OF assms(1)] by (auto simp: ready_defs tones_wf_apply)

text \<open>The frames between the release of PTT by the caller and its drop by the code.\<close>

definition release_frames :: "ts_config \<Rightarrow> ts_input \<Rightarrow> ts_state \<Rightarrow> nat" where
  "release_frames config input s =
     (if tsc_dcs_transmit_enabled config \<and> tsc_dcs_turnoff_enabled config
      then nat (dtc_turnoff_duration_ms (tsc_dcs_turnoff config)) * 48 + 3840
      else if crs_enabled (ts_ctcss_render s) = 0 \<or> tsi_ctcss_inhibit input \<or>
        tsc_tone_off_mode config = ToneOffNone \<or> \<not> ctcss_transmit_enabled config
      then 3840
      else if tsc_tone_off_mode config = ToneRemove
      then nat (crc_turnoff_duration_ms (tsc_ctcss_render config)) * 48
      else max (div_ceil (nat (crc_turnoff_duration_ms (tsc_ctcss_render config)) * 48) 960) 1 * 960
        + 960 + finish_frames config)"

lemma remaining_milliseconds_whole: "remaining_milliseconds (n * 48) = int n"
  by (simp add: remaining_milliseconds_def div_ceil_def)

lemma ready_start_dcs_tail:
  assumes "config_ok config" and "ts_wf config s" and "ts_transmitter_state s = TX_STATE_ACTIVE"
    and "tsc_dcs_transmit_enabled config \<and> tsc_dcs_turnoff_enabled config"
  shows "\<exists>s'. start_dcs_tail config s = Inr s' \<and> ready config s s' \<and>
    ts_transmitter_state s' = TX_STATE_TOC \<and>
    tail_frames config s' = nat (dtc_turnoff_duration_ms (tsc_dcs_turnoff config)) * 48 + 3840"
  using assms(2,3) config_okD(4) [OF assms(1,4)]
  by (auto simp: start_dcs_tail_def dcs_turnoff_begin_zero dcs_snapshot_def ready_defs ts_wf_def
      remaining_milliseconds_whole tail_frames_def Let_def)


lemma ready_start_ctcss_tail:
  assumes "config_ok config" and "ts_wf config s" and "ts_transmitter_state s = TX_STATE_ACTIVE"
    and "tsc_tone_off_mode config \<noteq> ToneOffNone"
  shows "\<exists>s'. start_ctcss_tail config s = Inr s' \<and> ready config s s' \<and>
    ts_transmitter_state s' = TX_STATE_TOC \<and>
    tail_frames config s' =
      max (div_ceil (nat (crc_turnoff_duration_ms (tsc_ctcss_render config)) * 48) 960) 1 * 960
        + 960 + finish_frames config"
  using assms(2,3) config_okD(1,2) [OF assms(1)] config_okD(5) [OF assms(1,4)]
  by (auto simp: start_ctcss_tail_def ctcss_tail_frames_Inr duration_frames_Inr ready_defs ts_wf_def
      tail_frames_def OPTION_TURNOFF_def tones_wf_apply Let_def)

lemma ready_start_no_tone:
  assumes "config_ok config" and "ts_wf config s" and "ts_transmitter_state s = TX_STATE_ACTIVE"
    and "tsc_tone_off_mode config \<noteq> ToneOffNone"
  shows "\<exists>s'. start_no_tone config s = Inr s' \<and> ready config s s' \<and>
    ts_transmitter_state s' = TX_STATE_TOC \<and>
    tail_frames config s' = nat (crc_turnoff_duration_ms (tsc_ctcss_render config)) * 48"
  using assms(2,3) config_okD(1,2) [OF assms(1)] config_okD(5) [OF assms(1,4)]
  by (auto simp: start_no_tone_def no_tone_output_frames_def duration_frames_Inr ready_defs ts_wf_def
      tail_frames_def OPTION_DISABLE_def tones_wf_apply)

lemma ready_start_finishing:
  assumes "config_ok config" and "ts_wf config s" and "ts_transmitter_state s = TX_STATE_ACTIVE"
  shows "\<exists>s'. start_finishing False (apply_ctcss_option config OPTION_DISABLE s) = Inr s' \<and>
    ready config s s' \<and> ts_transmitter_state s' = TX_STATE_FINISHING \<and> tail_frames config s' = 3840"
  using assms(2,3) config_okD(1) [OF assms(1)]
  by (auto simp: start_finishing_Inr ready_defs ts_wf_def tail_frames_def OPTION_DISABLE_def tones_wf_apply)

lemma ready_unkey:
  assumes "config_ok config" and "ts_wf config s" and "ts_transmitter_state s = TX_STATE_ACTIVE"
  shows "\<exists>s'. unkey config input s = Inr s' \<and> ready config s s' \<and>
    ts_transmitter_state s' \<in> {TX_STATE_TOC, TX_STATE_FINISHING} \<and>
    tail_frames config s' = release_frames config input s"
  using ready_start_dcs_tail [OF assms] ready_start_ctcss_tail [OF assms] ready_start_no_tone [OF assms]
    ready_start_finishing [OF assms]
  by (auto simp: unkey_def release_frames_def)

text \<open>When a keyed tail goes back on the air.\<close>

definition rekeys :: "ts_config \<Rightarrow> ts_input \<Rightarrow> ts_state \<Rightarrow> bool" where
  "rekeys config input s \<longleftrightarrow> tsi_external_ptt_request input \<and> ts_transmitter_state s = TX_STATE_TOC \<and>
     (ts_turnoff_phase s = DcsTail \<or> ctcss_transmit_enabled config)"

lemma remaining_milliseconds_pos: "0 < n \<Longrightarrow> 0 < remaining_milliseconds n"
  using div_ceil_le [of 48 n] by (simp add: remaining_milliseconds_def)

lemma ready_rekey_dcs:
  assumes "config_ok config" and "ts_wf config s" and "ts_transmitter_state s = TX_STATE_TOC"
    and "ts_turnoff_phase s = DcsTail"
  shows "\<exists>s'. rekey_dcs_tail config s = Inr s' \<and> ready config s s' \<and> ts_transmitter_state s' = TX_STATE_ACTIVE"
proof -
  have d: "0 < dtc_turnoff_duration_ms (tsc_dcs_turnoff config)" "0 < ts_dcs_turnoff_remaining_ms s"
    using assms(2-4) by (auto simp: ts_wf_def dcs_clock_ok_def remaining_milliseconds_pos)
  then have "dcs_turnoff_advance (tsc_dcs_turnoff config)
      \<lparr>dti_elapsed_ms = 0, dti_tx_ptt_in = 1, dti_begin_turnoff = 0\<rparr> (dcs_snapshot s) =
    Inr ((dcs_snapshot s)\<lparr>dts_dcs_turnoff_remaining_ms := 0, dts_tx_state := TX_STATE_ACTIVE\<rparr>)"
    using assms(3) by (simp add: dcs_turnoff_advance_def dcs_turnoff_validate_def dcs_turnoff_validate_config_def
        dcs_turnoff_validate_input_def dcs_snapshot_def tx_state_defs Let_def)
  then show ?thesis
    using assms(2,3) by (auto simp: rekey_dcs_tail_def component_def dcs_snapshot_def ready_defs ts_wf_def)
qed

lemma ready_rekey:
  assumes "config_ok config" and "ts_wf config s" and "ts_transmitter_state s = TX_STATE_TOC"
  shows "\<exists>s'. rekey config input s = Inr s' \<and> ready config s s' \<and>
    (if rekeys config input s then ts_transmitter_state s' = TX_STATE_ACTIVE
     else ts_transmitter_state s' = TX_STATE_TOC \<and> tail_frames config s' = tail_frames config s)"
proof (cases "tsi_external_ptt_request input \<and> ts_turnoff_phase s = DcsTail")
  case True
  with ready_rekey_dcs [OF assms] assms(3) show ?thesis
    by (auto simp: rekey_def rekeys_def ready_defs)
next
  case False
  then show ?thesis
    using assms(2,3) config_okD(1) [OF assms(1)]
    by (auto simp: rekey_def rekeys_def ready_defs ts_wf_def OPTION_START_def tones_wf_apply)
qed

text \<open>The state the callback's request selects before any frame is spent.\<close>

definition request_fate :: "ts_config \<Rightarrow> ts_input \<Rightarrow> ts_state \<Rightarrow> ts_state \<Rightarrow> bool" where
  "request_fate config input s s' \<longleftrightarrow>
     (if tsi_external_ptt_request input \<and> ts_transmitter_state s \<in> {TX_STATE_IDLE, TX_STATE_ACTIVE} \<or>
         rekeys config input s
      then ts_transmitter_state s' = TX_STATE_ACTIVE
      else if ts_transmitter_state s = TX_STATE_ACTIVE
      then ts_transmitter_state s' \<in> {TX_STATE_TOC, TX_STATE_FINISHING} \<and>
        tail_frames config s' = release_frames config input s
      else ts_transmitter_state s' = ts_transmitter_state s \<and> tail_frames config s' = tail_frames config s)"

lemma tail_frames_apply [simp]: "tail_frames config (apply_ctcss_option config option s) = tail_frames config s"
  by (simp add: tail_frames_def tx_state_defs split: turnoff_phase.split)

lemma prepare_ok:
  assumes "config_ok config" and "ts_wf config s"
  shows "\<exists>s' actions'. prepare_transmitter config input s actions = Inr (s', actions') \<and>
    ready config s s' \<and> request_fate config input s s'"
proof -
  let ?after = "\<lambda>t. if tsi_ctcss_inhibit input then apply_ctcss_option config OPTION_DISABLE t else t"
  have inhibit: "ready config s (?after t) \<and> request_fate config input s (?after t)"
    if "ready config s t" "request_fate config input s t" for t
    using that ready_apply [OF assms(1) that(1), of OPTION_DISABLE]
    by (auto simp: request_fate_def OPTION_DISABLE_def)
  have idle: "ready config s s" using assms(2) by (simp add: ready_def ts_wf_def)
  have "\<exists>t actions'. prepare_transmitter config input s actions = Inr (?after t, actions') \<and>
    ready config s t \<and> request_fate config input s t"
  proof (cases "ts_transmitter_state s = TX_STATE_ACTIVE")
    case True
    with ready_keep_active [OF assms True, of input] ready_unkey [OF assms True, of input] show ?thesis
      by (auto simp: prepare_transmitter_def request_fate_def rekeys_def tx_state_defs)
  next
    case False
    show ?thesis
    proof (cases "ts_transmitter_state s = TX_STATE_TOC")
      case True
      with ready_rekey [OF assms True, of input] show ?thesis
        by (auto simp: prepare_transmitter_def request_fate_def rekeys_def tx_state_defs)
    next
      case no_toc: False
      with False ready_key_up [OF assms, of input] idle show ?thesis
        by (auto simp: prepare_transmitter_def request_fate_def rekeys_def tx_state_defs)
    qed
  qed
  with inhibit show ?thesis by blast
qed

section \<open>One callback\<close>

lemma sync_ctcss_option_fields [simp]:
  "ts_transmitter_state (sync_ctcss_option s) = ts_transmitter_state s"
  "ts_signal_mode (sync_ctcss_option s) = ts_signal_mode s"
  "ts_logical_ptt (sync_ctcss_option s) = ts_logical_ptt s"
  "ts_dcs_turnoff_remaining_ms (sync_ctcss_option s) = ts_dcs_turnoff_remaining_ms s"
  "ts_settle_remaining_ms (sync_ctcss_option s) = ts_settle_remaining_ms s"
  "ts_turnoff_phase (sync_ctcss_option s) = ts_turnoff_phase s"
  "ts_turnoff_remaining_frames (sync_ctcss_option s) = ts_turnoff_remaining_frames s"
  "ts_finish_remaining_frames (sync_ctcss_option s) = ts_finish_remaining_frames s"
  "ts_rx_timer_remainder_frames (sync_ctcss_option s) = ts_rx_timer_remainder_frames s"
  "ts_tx_timer_remainder_frames (sync_ctcss_option s) = ts_tx_timer_remainder_frames s"
  "crs_enabled (ts_ctcss_render (sync_ctcss_option s)) = crs_enabled (ts_ctcss_render s)"
  by (simp_all add: sync_ctcss_option_def)

lemma tail_frames_update [simp]:
  "tail_frames config (s\<lparr>ts_tx_timer_remainder_frames := n\<rparr>) = tail_frames config s"
  "release_frames config input (s\<lparr>ts_tx_timer_remainder_frames := n\<rparr>) = release_frames config input s"
  "rekeys config input (s\<lparr>ts_tx_timer_remainder_frames := n\<rparr>) = rekeys config input s"
  by (simp_all add: tail_frames_def release_frames_def rekeys_def split: turnoff_phase.split)

lemma tail_frames_cong:
  assumes "ts_transmitter_state a = ts_transmitter_state b" and "ts_turnoff_phase a = ts_turnoff_phase b"
    and "ts_turnoff_remaining_frames a = ts_turnoff_remaining_frames b"
    and "ts_finish_remaining_frames a = ts_finish_remaining_frames b"
  shows "tail_frames config a = tail_frames config b"
  using assms by (simp add: tail_frames_def split: turnoff_phase.split)

lemma receive_side_fields [simp]:
  "ts_transmitter_state (receive_side config input s) = ts_transmitter_state s"
  "ts_logical_ptt (receive_side config input s) = ts_logical_ptt s"
  "ts_dcs_turnoff_remaining_ms (receive_side config input s) = ts_dcs_turnoff_remaining_ms s"
  "ts_settle_remaining_ms (receive_side config input s) = ts_settle_remaining_ms s"
  "ts_turnoff_phase (receive_side config input s) = ts_turnoff_phase s"
  "ts_turnoff_remaining_frames (receive_side config input s) = ts_turnoff_remaining_frames s"
  "ts_finish_remaining_frames (receive_side config input s) = ts_finish_remaining_frames s"
  "ts_tx_timer_remainder_frames (receive_side config input s) = ts_tx_timer_remainder_frames s"
  "crs_enabled (ts_ctcss_render (receive_side config input s)) = crs_enabled (ts_ctcss_render s)"
  by (simp_all add: receive_side_def Let_def case_prod_beta)

lemma tail_frames_receive_side [simp]: "tail_frames config (receive_side config input s) = tail_frames config s"
  by (rule tail_frames_cong) simp_all

lemma request_receive_side [simp]:
  "release_frames config input (receive_side config input s) = release_frames config input s"
  "rekeys config input (receive_side config input s) = rekeys config input s"
  by (simp_all add: release_frames_def rekeys_def)

lemma tones_wf_sync: "tones_wf s \<Longrightarrow> tones_wf (sync_ctcss_option s)"
  by (simp add: tones_wf_def sync_ctcss_option_def crs_wf_def mode_wf_def OPTION_DISABLE_def)

lemma tones_wf_mode: "tones_wf s \<Longrightarrow> tones_wf (s\<lparr>ts_signal_mode := signal_mode_advance c i (ts_signal_mode s)\<rparr>)"
  by (simp add: tones_wf_def mode_wf_advance)

lemma ts_wf_receive_side:
  assumes "ts_wf config s"
  shows "ts_wf config (receive_side config input s)"
proof -
  have "tones_wf (receive_side config input s)"
    using assms tones_wf_mode [of "s\<lparr>ts_rx_timer_remainder_frames := n\<rparr>" for n]
    by (simp add: receive_side_def ts_wf_def Let_def case_prod_beta tones_wf_sync)
  moreover have "ts_rx_timer_remainder_frames (receive_side config input s) < 48"
    using elapsed_ms_remainder [of "ts_rx_timer_remainder_frames s" "tsi_native_frame_count input"]
    by (simp add: receive_side_def Let_def case_prod_beta)
  ultimately show ?thesis
    using assms by (auto simp: ts_wf_def phase_ok_def dcs_clock_ok_def)
qed

text \<open>The steps after the loop keep the phase, PTT and the timers' remainders.\<close>

definition after_loop :: "ts_config \<Rightarrow> ts_input \<Rightarrow> int \<Rightarrow> ts_state \<Rightarrow> ts_state" where
  "after_loop config input tx_ms s =
     disable_queued config (select_cpu_saver config input (consume_settle input tx_ms s))"

lemma after_loop_fields [simp]:
  "ts_transmitter_state (after_loop config input ms s) = ts_transmitter_state s"
  "ts_logical_ptt (after_loop config input ms s) = ts_logical_ptt s"
  "ts_dcs_turnoff_remaining_ms (after_loop config input ms s) = ts_dcs_turnoff_remaining_ms s"
  "ts_turnoff_phase (after_loop config input ms s) = ts_turnoff_phase s"
  "ts_turnoff_remaining_frames (after_loop config input ms s) = ts_turnoff_remaining_frames s"
  "ts_finish_remaining_frames (after_loop config input ms s) = ts_finish_remaining_frames s"
  "ts_rx_timer_remainder_frames (after_loop config input ms s) = ts_rx_timer_remainder_frames s"
  "ts_tx_timer_remainder_frames (after_loop config input ms s) = ts_tx_timer_remainder_frames s"
  by (simp_all add: after_loop_def disable_queued_def select_cpu_saver_def consume_settle_def
      Let_def)

lemma tail_frames_after_loop [simp]: "tail_frames config (after_loop config input ms s) = tail_frames config s"
  by (rule tail_frames_cong) simp_all

lemma after_loop_halted:
  "ts_cpu_halted (after_loop config input ms s) =
     (tsc_tx_cpu_saver_enabled config \<and> \<not> tsi_external_ptt_request input \<and> \<not> ts_logical_ptt s \<and>
      ts_transmitter_state s = TX_STATE_IDLE)"
  by (simp add: after_loop_def disable_queued_def select_cpu_saver_def consume_settle_def
      tx_cpu_saver_advance_def)

lemma after_loop_tones:
  "render_config_ok config \<Longrightarrow> tones_wf s \<Longrightarrow> tones_wf (after_loop config input ms s)"
  by (auto simp: after_loop_def disable_queued_def select_cpu_saver_def consume_settle_def OPTION_DISABLE_def
      intro: tones_wf_apply)

lemma after_loop_settle:
  "0 \<le> ts_settle_remaining_ms s \<Longrightarrow> 0 \<le> ts_settle_remaining_ms (after_loop config input ms s)"
  by (auto simp: after_loop_def disable_queued_def select_cpu_saver_def consume_settle_def consume_def)

text \<open>An admitted, accepted callback: the state the loop starts from and the one it ends in.\<close>

lemma tick_admitted:
  assumes "config_ok config" and "ts_wf config s" and "\<not> tick_input_rejected input"
    and "tsi_native_frame_count input \<le> u32_max" and "tsi_tx_render_admitted input"
  shows "\<exists>r actions c out ms. tick config s input = Inr (after_loop config input ms (cu_state c), out) \<and>
    out = output_from_state (after_loop config input ms (cu_state c))
      (\<not> ts_logical_ptt s \<and> ts_logical_ptt (cu_state c)) (ts_logical_ptt s \<and> \<not> ts_logical_ptt (cu_state c))
      (cu_actions c) (cu_timeline c) \<and>
    prepare_transmitter config input ((receive_side config input s)\<lparr>ts_tx_timer_remainder_frames :=
        snd (elapsed_ms (ts_tx_timer_remainder_frames s) (tsi_native_frame_count input))\<rparr>) no_actions
      = Inr (r, actions) \<and>
    ready config ((receive_side config input s)\<lparr>ts_tx_timer_remainder_frames :=
        snd (elapsed_ms (ts_tx_timer_remainder_frames s) (tsi_native_frame_count input))\<rparr>) r \<and>
    request_fate config input (receive_side config input s) r \<and>
    loop_result config (tsi_native_frame_count input) \<lparr>cu_state = r, cu_actions = actions, cu_timeline = [],
      cu_remaining = tsi_native_frame_count input\<rparr> c"
proof -
  let ?n = "tsi_native_frame_count input"
  let ?s = "(receive_side config input s)\<lparr>ts_tx_timer_remainder_frames :=
        snd (elapsed_ms (ts_tx_timer_remainder_frames s) ?n)\<rparr>"
  have "ts_wf config ?s"
    using ts_wf_receive_side [OF assms(2), of input] elapsed_ms_remainder [of "ts_tx_timer_remainder_frames s" ?n]
    by (auto simp: ts_wf_def phase_ok_def dcs_clock_ok_def)
  from prepare_ok [OF assms(1) this, of input no_actions] obtain r actions where
    p: "prepare_transmitter config input ?s no_actions = Inr (r, actions)" "ready config ?s r"
      "request_fate config input ?s r" by blast
  let ?c = "\<lparr>cu_state = r, cu_actions = actions, cu_timeline = [], cu_remaining = ?n\<rparr>"
  have "loop_invariant config ?n ?c"
    using p(2) assms(3,4) by (auto simp: loop_invariant_def ready_def phase_rank_def tick_input_rejected_def)
  from loop_result_exists [OF this] obtain c where
    c: "advance_render_timeline config ?c = Inr c" "loop_result config ?n ?c c" by blast
  have "request_fate config input (receive_side config input s) r"
    using p(3) by (simp add: request_fate_def cong: if_cong)
  with p c assms(3,5) show ?thesis
    by (auto simp: tick_def Let_def after_loop_def [symmetric] case_prod_beta)
qed


section \<open>The transmitter as seen from outside\<close>

text \<open>The abstract transmitter: off, keyed, or draining a number of frames.\<close>

datatype ptt_phase = PttOff | PttKeyed | PttDraining nat

definition drain :: "nat \<Rightarrow> nat \<Rightarrow> ptt_phase" where
  "drain left n = (if left \<le> n then PttOff else PttDraining (left - n))"

text \<open>One callback of \<open>n\<close> frames of the abstract transmitter.  \<open>release\<close> is the tail an unkey
  starts, \<open>again\<close> says whether a request takes a draining transmitter back.\<close>

fun ptt_after :: "bool \<Rightarrow> bool \<Rightarrow> nat \<Rightarrow> nat \<Rightarrow> ptt_phase \<Rightarrow> ptt_phase" where
  "ptt_after request again release n PttOff = (if request then PttKeyed else PttOff)"
| "ptt_after request again release n PttKeyed = (if request then PttKeyed else drain release n)"
| "ptt_after request again release n (PttDraining left) = (if again then PttKeyed else drain left n)"

definition ptt_of :: "ts_config \<Rightarrow> ts_state \<Rightarrow> ptt_phase" where
  "ptt_of config s =
     (if ts_transmitter_state s = TX_STATE_IDLE then PttOff
      else if ts_transmitter_state s = TX_STATE_ACTIVE then PttKeyed
      else PttDraining (tail_frames config s))"

lemma fate_refines:
  assumes r: "request_fate config input s r" and f: "tail_fate config n r s'" and wf: "ts_wf config s"
    and "ready config t r"
  shows "ptt_of config s' =
    ptt_after (tsi_external_ptt_request input) (rekeys config input s) (release_frames config input s) n (ptt_of config s)"
proof -
  have st: "ts_transmitter_state s \<in> {TX_STATE_IDLE, TX_STATE_ACTIVE, TX_STATE_TOC, TX_STATE_FINISHING}"
    using wf by (auto simp: ts_wf_def phase_ok_def)
  have rk: "rekeys config input s \<Longrightarrow> ts_transmitter_state s = TX_STATE_TOC"
    by (simp add: rekeys_def)
  have drained: "ptt_of config s' = drain (tail_frames config r) n"
    if "ts_transmitter_state r \<in> {TX_STATE_TOC, TX_STATE_FINISHING}"
    using f that by (auto simp: tail_fate_def ptt_of_def drain_def tx_state_defs split: if_splits)
  have kept: "ptt_of config s' = ptt_of config r" if "ts_transmitter_state r \<in> {TX_STATE_IDLE, TX_STATE_ACTIVE}"
    using f that by (auto simp: tail_fate_def ptt_of_def tx_state_defs split: if_splits)
  show ?thesis
    using st r rk drained kept
    by (auto simp: request_fate_def ptt_of_def tx_state_defs split: if_splits)
qed

lemma prepare_actions:
  assumes "prepare_transmitter config input s actions = Inr (s', actions')"
  shows "actions' = (if tsi_external_ptt_request input \<and> ts_transmitter_state s = TX_STATE_IDLE
    then actions\<lparr>ta_ctcss_status_event := True\<rparr> else actions)"
  using assms by (auto simp: prepare_transmitter_def bind_result_Inr split: if_splits)

lemma tail_fate_wf:
  assumes "tail_fate config n r s'" and "ready config t r"
  shows "ts_logical_ptt s' \<longleftrightarrow> ts_transmitter_state s' \<noteq> TX_STATE_IDLE"
    and "ts_transmitter_state s' \<in> {TX_STATE_TOC, TX_STATE_FINISHING} \<Longrightarrow> 0 < tail_frames config s'"
  using assms by (auto simp: tail_fate_def ready_defs split: if_splits)

lemma ts_wf_after_loop:
  assumes "config_ok config" and "ready config t r" and "loop_result config n
      \<lparr>cu_state = r, cu_actions = actions, cu_timeline = [], cu_remaining = n\<rparr> c"
    and "ts_rx_timer_remainder_frames t < 48" "ts_tx_timer_remainder_frames t < 48"
  shows "ts_wf config (after_loop config input ms (cu_state c))"
proof -
  note l = assms(3) [unfolded loop_result_def Let_def, simplified]
  have f: "tail_fate config n r (cu_state c)" using l by blast
  have "tones_wf (after_loop config input ms (cu_state c))"
    using l assms(2) config_okD(1) [OF assms(1)] by (simp add: after_loop_tones ready_def)
  moreover have "0 \<le> ts_settle_remaining_ms (after_loop config input ms (cu_state c))"
    using l assms(2) by (simp add: after_loop_settle ready_def)
  moreover have "phase_ok (after_loop config input ms (cu_state c))"
    "dcs_clock_ok (after_loop config input ms (cu_state c))"
    using l by (auto simp: phase_ok_def dcs_clock_ok_def)
  ultimately show ?thesis
    using l assms(2,4,5) tail_fate_wf [OF f assms(2)] by (auto simp: ts_wf_def ready_def)
qed

lemma tick_result:
  assumes "config_ok config" and "ts_wf config s" and "\<not> tick_input_rejected input"
    and "tsi_native_frame_count input \<le> u32_max" and "tsi_tx_render_admitted input"
  shows "\<exists>s' out. tick config s input = Inr (s', out) \<and> ts_wf config s' \<and>
    tiles 0 (tso_render_spans out) (tsi_native_frame_count input) \<and> length (tso_render_spans out) \<le> 4 \<and>
    ptt_of config s' = ptt_after (tsi_external_ptt_request input) (rekeys config input s)
      (release_frames config input s) (tsi_native_frame_count input) (ptt_of config s)"
proof -
  from tick_admitted [OF assms] obtain r actions c out ms t where
    t: "tick config s input = Inr (after_loop config input ms (cu_state c), out)"
    "tso_render_spans out = cu_timeline c" "ready config t r"
    "ts_rx_timer_remainder_frames t < 48" "ts_tx_timer_remainder_frames t < 48"
    "request_fate config input (receive_side config input s) r"
    "loop_result config (tsi_native_frame_count input) \<lparr>cu_state = r, cu_actions = actions, cu_timeline = [],
      cu_remaining = tsi_native_frame_count input\<rparr> c"
    using ts_wf_receive_side [OF assms(2), of input] elapsed_ms_remainder
    by (fastforce simp: output_from_state_def ts_wf_def)
  note l = t(7) [unfolded loop_result_def Let_def, simplified]
  have f: "tail_fate config (tsi_native_frame_count input) r (cu_state c)" using l by blast
  have "ptt_of config (cu_state c) = ptt_after (tsi_external_ptt_request input) (rekeys config input s)
      (release_frames config input s) (tsi_native_frame_count input) (ptt_of config s)"
    using fate_refines [OF t(6) f ts_wf_receive_side [OF assms(2)] t(3)] by (simp add: ptt_of_def)
  moreover have "ptt_of config (after_loop config input ms (cu_state c)) = ptt_of config (cu_state c)"
    by (simp add: ptt_of_def)
  moreover have "ts_wf config (after_loop config input ms (cu_state c))"
    using ts_wf_after_loop [OF assms(1) t(3) t(7) t(4,5)] .
  ultimately show ?thesis using t(1,2) l by auto
qed

lemma tick_edges_admitted:
  assumes "config_ok config" and "ts_wf config s" and "\<not> tick_input_rejected input"
    and "tsi_native_frame_count input \<le> u32_max" and "tsi_tx_render_admitted input"
    and "tick config s input = Inr (s', out)"
  shows "tso_logical_ptt out = ts_logical_ptt s' \<and>
    tso_logical_ptt_raised out = (\<not> ts_logical_ptt s \<and> ts_logical_ptt s') \<and>
    tso_logical_ptt_released out = (ts_logical_ptt s \<and> \<not> ts_logical_ptt s') \<and>
    tso_ctcss_status_event out = (tso_logical_ptt_raised out \<or> tso_logical_ptt_released out) \<and>
    tso_receiver_blanking_arm out = (if tso_logical_ptt_released out
      then Some (tcc_txrx_blanking_time_ms (tsc_tx_complete config)) else None)"
proof -
  from tick_admitted [OF assms(1-5)] obtain r actions c ms t where
    t: "s' = after_loop config input ms (cu_state c)"
    "out = output_from_state s' (\<not> ts_logical_ptt s \<and> ts_logical_ptt (cu_state c))
      (ts_logical_ptt s \<and> \<not> ts_logical_ptt (cu_state c)) (cu_actions c) (cu_timeline c)"
    "prepare_transmitter config input t no_actions = Inr (r, actions)" "ready config t r"
    "ts_transmitter_state t = ts_transmitter_state s"
    "request_fate config input (receive_side config input s) r"
    "loop_result config (tsi_native_frame_count input) \<lparr>cu_state = r, cu_actions = actions, cu_timeline = [],
      cu_remaining = tsi_native_frame_count input\<rparr> c"
    using assms(6) by fastforce
  note l = t(7) [unfolded loop_result_def Let_def, simplified]
  have f: "tail_fate config (tsi_native_frame_count input) r (cu_state c)" using l by blast
  have wf: "ts_logical_ptt s \<longleftrightarrow> ts_transmitter_state s \<noteq> TX_STATE_IDLE"
    "ts_transmitter_state s \<in> {TX_STATE_IDLE, TX_STATE_ACTIVE, TX_STATE_TOC, TX_STATE_FINISHING}"
    using assms(2) by (auto simp: ts_wf_def phase_ok_def)
  have fin: "cu_actions c = (if ts_transmitter_state r \<notin> {TX_STATE_IDLE, TX_STATE_ACTIVE} \<and>
      ts_transmitter_state (cu_state c) = TX_STATE_IDLE then completed_actions config else actions)"
    using l by simp
  have on: "ts_logical_ptt (cu_state c) \<longleftrightarrow> ts_transmitter_state (cu_state c) \<noteq> TX_STATE_IDLE"
    by (rule tail_fate_wf(1) [OF f t(4)])
  show ?thesis
    using wf fin on f t(6) prepare_actions [OF t(3)] t(5)
    by (simp add: t(1,2) output_from_state_def)
      (auto simp: completed_actions_def no_actions_def request_fate_def tail_fate_def rekeys_def
        tx_state_defs split: if_splits)
qed

lemma tick_held:
  assumes "\<not> tick_input_rejected input" and "\<not> tsi_tx_render_admitted input"
  shows "tick config s input = Inr (receive_side config input s,
    output_from_state (receive_side config input s) False False no_actions [])"
  using assms by (simp add: tick_def Let_def)

lemma receive_side_frozen:
  "(receive_side config input s)\<lparr>ts_rx_timer_remainder_frames := ts_rx_timer_remainder_frames s,
     ts_signal_mode := ts_signal_mode s, ts_ctcss_render := ts_ctcss_render s\<rparr> = s"
  by (cases s) (simp add: receive_side_def sync_ctcss_option_def Let_def case_prod_beta)

section \<open>A live CTCSS inhibit\<close>

definition muted :: "render_timeline \<Rightarrow> ts_state \<Rightarrow> bool" where
  "muted timeline s \<longleftrightarrow> crs_enabled (ts_ctcss_render s) = 0 \<and>
     (\<forall>x \<in> set timeline. crs_enabled (rs_ctcss_render x) = 0)"

lemma disabled_apply [simp]:
  "crs_enabled (ts_ctcss_render (apply_ctcss_option config OPTION_DISABLE s)) = 0"
  by (simp add: apply_ctcss_option_def set_ctcss_option_def sync_signal_mode_option_def
      ctcss_render_advance_def radio_defs Let_def)

lemma timeline_append_muted:
  assumes "timeline_append timeline n (current_render_span s) = Inr timeline'" and "muted timeline s"
  shows "muted timeline' s"
proof -
  have old: "x \<in> set (butlast timeline) \<Longrightarrow> crs_enabled (rs_ctcss_render x) = 0" for x
    using assms(2) in_set_butlastD [of x timeline] by (auto simp: muted_def)
  have final: "timeline \<noteq> [] \<Longrightarrow> crs_enabled (rs_ctcss_render (last timeline)) = 0"
    using assms(2) last_in_set [of timeline] by (auto simp: muted_def)
  show ?thesis
    using assms final
    by (auto simp: timeline_append_def muted_def current_render_span_def
        split: if_splits option.splits dest: old)
qed

lemma spent_enabled:
  "spend_turnoff c = Inr (n, d) \<Longrightarrow> crs_enabled (ts_ctcss_render (cu_state d)) = crs_enabled (ts_ctcss_render (cu_state c))"
  "spend_finish c = Inr (n, d) \<Longrightarrow> crs_enabled (ts_ctcss_render (cu_state d)) = crs_enabled (ts_ctcss_render (cu_state c))"
  by (simp_all add: spend_turnoff_Inr(5) spend_finish_Inr(5) shifted_def)

lemma step_enabled:
  assumes "crs_enabled (ts_ctcss_render (cu_state c)) = 0"
  shows "ctcss_tail_step config c = Inr c' \<Longrightarrow> crs_enabled (ts_ctcss_render (cu_state c')) = 0"
    and "ctcss_gap_step config c = Inr c' \<Longrightarrow> crs_enabled (ts_ctcss_render (cu_state c')) = 0"
    and "dcs_tail_step c = Inr c' \<Longrightarrow> crs_enabled (ts_ctcss_render (cu_state c')) = 0"
    and "no_tone_step c = Inr c' \<Longrightarrow> crs_enabled (ts_ctcss_render (cu_state c')) = 0"
    and "finishing_step c = Inr c' \<Longrightarrow> crs_enabled (ts_ctcss_render (cu_state c')) = 0"
    and "complete_step config c = Inr c' \<Longrightarrow> crs_enabled (ts_ctcss_render (cu_state c')) = 0"
proof -
  note e = spent_enabled [of c, unfolded assms]
  show "ctcss_tail_step config c = Inr c' \<Longrightarrow> crs_enabled (ts_ctcss_render (cu_state c')) = 0"
    by (auto simp: ctcss_tail_step_def bind_result_Inr Let_def dest: e split: if_splits)
  show "ctcss_gap_step config c = Inr c' \<Longrightarrow> crs_enabled (ts_ctcss_render (cu_state c')) = 0"
    by (auto simp: ctcss_gap_step_def bind_result_Inr start_finishing_Inr dest: e split: if_splits)
  show "dcs_tail_step c = Inr c' \<Longrightarrow> crs_enabled (ts_ctcss_render (cu_state c')) = 0"
    by (auto simp: dcs_tail_step_def bind_result_Inr start_finishing_Inr Let_def dest: e split: if_splits)
  show "no_tone_step c = Inr c' \<Longrightarrow> crs_enabled (ts_ctcss_render (cu_state c')) = 0"
    using assms by (auto simp: no_tone_step_def bind_result_Inr Let_def dest: e split: if_splits)
  show "finishing_step c = Inr c' \<Longrightarrow> crs_enabled (ts_ctcss_render (cu_state c')) = 0"
    using assms by (auto simp: finishing_step_def bind_result_Inr Let_def dest: e split: if_splits)
  show "complete_step config c = Inr c' \<Longrightarrow> crs_enabled (ts_ctcss_render (cu_state c')) = 0"
    using assms by (auto simp: complete_step_eq set_ctcss_option_def)
qed

lemma timeline_step_muted:
  assumes "timeline_step config c = Inr c'" and "muted (cu_timeline c) (cu_state c)"
  shows "muted (cu_timeline c') (cu_state c')"
proof -
  have "muted (cu_timeline c') (cu_state c)"
    using timeline_step_advances [OF assms(1)] assms(2) timeline_append_muted
    unfolding advances_def by blast
  moreover have "crs_enabled (ts_ctcss_render (cu_state c')) = 0"
  proof -
    have e: "crs_enabled (ts_ctcss_render (cu_state c)) = 0"
      using assms(2) by (simp add: muted_def)
    show ?thesis
      using assms(1)
      by (auto simp: timeline_step_def Let_def dest: step_enabled [OF e] split: if_splits turnoff_phase.splits)
  qed
  ultimately show ?thesis by (simp add: muted_def)
qed

lemma loop_muted:
  assumes "advance_render_timeline config c = Inr c'" and "muted (cu_timeline c) (cu_state c)"
  shows "muted (cu_timeline c') (cu_state c')"
  using assms
proof (induction config c arbitrary: c' rule: advance_render_timeline.induct)
  case (1 config c)
  show ?case
  proof (cases "cu_remaining c \<noteq> 0 \<and> ts_transmitter_state (cu_state c) \<notin> {TX_STATE_IDLE, TX_STATE_ACTIVE}")
    case True
    with 1(2) obtain d where "timeline_step config c = Inr d" "advance_render_timeline config d = Inr c'"
      by (auto simp: advance_render_timeline.simps [of config c] split: sum.splits)
    with True 1(1,3) timeline_step_muted show ?thesis by auto
  next
    case False
    then show ?thesis
      using 1(2,3)
      by (auto simp: advance_render_timeline.simps [of config c] emit_eq bind_result_Inr shifted_def
          complete_transmission_Inr set_ctcss_option_def muted_def split: if_splits
          dest!: timeline_append_muted)
  qed
qed

section \<open>The callbacks of a release\<close>

text \<open>The states of a list of callbacks, and the first error if there is one.\<close>

fun run_ticks :: "ts_config \<Rightarrow> ts_state \<Rightarrow> ts_input list \<Rightarrow> ts_error + ts_state" where
  "run_ticks config s [] = Inr s"
| "run_ticks config s (input # inputs) =
     bind_result (tick config s input) (\<lambda>(s', _). run_ticks config s' inputs)"

definition unrequested :: "ts_input \<Rightarrow> bool" where
  "unrequested input \<longleftrightarrow> \<not> tick_input_rejected input \<and> tsi_native_frame_count input \<le> u32_max \<and>
     tsi_tx_render_admitted input \<and> \<not> tsi_external_ptt_request input"

interpretation tail_clock: frame_clock "\<lambda>p n. ptt_after False False 0 n p"
  "\<lambda>p. p \<noteq> PttKeyed \<and> p \<noteq> PttDraining 0" limit for limit
proof
  fix s :: ptt_phase and m n :: nat
  show "ptt_after False False 0 n s \<noteq> PttKeyed \<and> ptt_after False False 0 n s \<noteq> PttDraining 0"
    if "s \<noteq> PttKeyed \<and> s \<noteq> PttDraining 0"
    using that by (cases s) (auto simp: drain_def)
  show "ptt_after False False 0 n (ptt_after False False 0 m s) = ptt_after False False 0 (m + n) s"
    if "s \<noteq> PttKeyed \<and> s \<noteq> PttDraining 0"
    using that by (cases s) (auto simp: drain_def)
qed

lemma drain_run:
  assumes "config_ok config" and "\<forall>i \<in> set inputs. unrequested i" and "ts_wf config s"
    and "ptt_of config s \<noteq> PttKeyed"
  shows "\<exists>s'. run_ticks config s inputs = Inr s' \<and> ts_wf config s' \<and>
    ptt_of config s' = foldl (\<lambda>p n. ptt_after False False 0 n p) (ptt_of config s)
      (List.map tsi_native_frame_count inputs)"
  using assms(2-4)
proof (induction inputs arbitrary: s)
  case Nil
  then show ?case by simp
next
  case (Cons i inputs)
  have i: "unrequested i" using Cons.prems(1) by simp
  then obtain t out where t: "tick config s i = Inr (t, out)" "ts_wf config t"
    "ptt_of config t = ptt_after False False (release_frames config i s) (tsi_native_frame_count i) (ptt_of config s)"
    using tick_result [OF assms(1) Cons.prems(2), of i] by (auto simp: unrequested_def rekeys_def)
  have p: "ptt_of config t = ptt_after False False 0 (tsi_native_frame_count i) (ptt_of config s)"
    "ptt_of config t \<noteq> PttKeyed"
    using t(3) Cons.prems(3) by (cases "ptt_of config s"; simp add: drain_def)+
  from Cons.IH [OF _ t(2) p(2)] Cons.prems(1) obtain s' where
    "run_ticks config t inputs = Inr s'" "ts_wf config s'"
    "ptt_of config s' = foldl (\<lambda>p n. ptt_after False False 0 n p) (ptt_of config t)
      (List.map tsi_native_frame_count inputs)" by auto
  with t(1) p(1) show ?case by simp
qed

lemma ptt_of_steady:
  "ts_wf config s \<Longrightarrow> ptt_of config s \<noteq> PttDraining 0"
  by (auto simp: ts_wf_def phase_ok_def ptt_of_def split: if_splits)

lemma release_run:
  assumes "config_ok config" and "ts_wf config s" and "ts_transmitter_state s = TX_STATE_ACTIVE"
    and "\<forall>j \<in> set (i # inputs). unrequested j"
  shows "\<exists>s'. run_ticks config s (i # inputs) = Inr s' \<and> ts_wf config s' \<and>
    ptt_of config s' = drain (release_frames config i s)
      (sum_list (List.map tsi_native_frame_count (i # inputs)))"
proof -
  have i: "unrequested i" using assms(4) by simp
  have k: "ptt_of config s = PttKeyed" using assms(3) by (simp add: ptt_of_def tx_state_defs)
  from i obtain t out where t: "tick config s i = Inr (t, out)" "ts_wf config t"
    "ptt_of config t = drain (release_frames config i s) (tsi_native_frame_count i)"
    using tick_result [OF assms(1,2), of i] by (auto simp: unrequested_def rekeys_def k)
  have nk: "ptt_of config t \<noteq> PttKeyed" using t(3) by (simp add: drain_def)
  from drain_run [OF assms(1) _ t(2) nk, of inputs] assms(4) obtain s' where
    s': "run_ticks config t inputs = Inr s'" "ts_wf config s'"
    "ptt_of config s' = foldl (\<lambda>p n. ptt_after False False 0 n p) (ptt_of config t)
      (List.map tsi_native_frame_count inputs)" by auto
  let ?ns = "List.map tsi_native_frame_count inputs"
  have "foldl (\<lambda>p n. ptt_after False False 0 n p) (ptt_of config t) ?ns =
    ptt_after False False 0 (sum_list ?ns) (ptt_of config t)" if "inputs \<noteq> []"
  proof (rule tail_clock.partition_sum)
    show "ptt_of config t \<noteq> PttKeyed \<and> ptt_of config t \<noteq> PttDraining 0"
      using nk ptt_of_steady [OF t(2)] by blast
    show "\<forall>n \<in> set ?ns. 0 < n"
      using assms(4) by (auto simp: unrequested_def tick_input_rejected_def)
  qed (use that in auto)
  then have "ptt_of config s' = drain (release_frames config i s)
      (sum_list (List.map tsi_native_frame_count (i # inputs)))"
    using s'(3) t(3) by (cases "inputs = []") (auto simp: drain_def)
  with s' t(1) show ?thesis by simp
qed

end
