(* ===== verification/Signaling_Properties.thy ===== *)
theory Signaling_Properties
  imports Signaling
begin

text \<open>
  The properties of the signaling machine that the session relies on, each with a run on a
  sample configuration.
\<close>

section \<open>Properties\<close>

text \<open>A validated 55 Hz tail configuration and the callbacks the witnesses run on it.\<close>

definition ts_sample :: ts_config where
  "ts_sample = \<lparr>
     tsc_external_ctcss = False,
     tsc_signal_mode = signal_mode_sample,
     tsc_dcs_turnoff = \<lparr>dtc_turnoff_duration_ms = 180\<rparr>,
     tsc_ctcss_render = ctcss_render_sample,
     tsc_tx_complete = \<lparr>tcc_txrx_blanking_time_ms = 100\<rparr>,
     tsc_tone_off_mode = TailTone,
     tsc_dcs_transmit_enabled = False,
     tsc_dcs_turnoff_enabled = False,
     tsc_tx_settle_time_ms = 5,
     tsc_tx_cpu_saver_enabled = True\<rparr>"

definition ts_call :: "bool \<Rightarrow> bool \<Rightarrow> bool \<Rightarrow> ts_input" where
  "ts_call admitted request inhibit = \<lparr>
     tsi_native_frame_count = 960,
     tsi_tx_render_admitted = admitted,
     tsi_external_ptt_request = request,
     tsi_physical_ptt_applied = request,
     tsi_decoded_ctcss = -1,
     tsi_dcs_valid = False,
     tsi_ctcss_inhibit = inhibit,
     tsi_forced_ctcss_tenths_hz = 0\<rparr>"

definition ts_keyed :: ts_state where
  "ts_keyed = ts_default\<lparr>ts_transmitter_state := TX_STATE_ACTIVE, ts_logical_ptt := True,
     ts_ctcss_render := ctcss_render_default\<lparr>crs_enabled := 1, crs_oscillator_state := 1\<rparr>\<rparr>"

lemma ts_sample_ok: "config_ok ts_sample"
  by (simp add: config_ok_def tail_fits_def ts_sample_def ts_validate_config_def component_def
      signal_mode_sample_def signal_mode_validate_config_def ctcss_render_sample_def
      ctcss_render_validate_config_def tx_complete_validate_config_def duration_frames_def
      checked_u32_def u32_max_def fp_zero_def TONE_COUNT_def list_ex_iff)

lemma ts_default_wf: "ts_wf config ts_default"
  by (simp add: ts_wf_def ts_default_def phase_ok_def dcs_clock_ok_def tones_wf_def crs_wf_default
      mode_wf_def signal_mode_default_def tx_state_defs)

lemma ts_keyed_wf: "ts_wf config ts_keyed"
  using ts_default_wf [of config]
  by (simp add: ts_keyed_def ts_wf_def ts_default_def phase_ok_def dcs_clock_ok_def tones_wf_def
      crs_wf_def ctcss_render_default_def radio_defs)

lemma ts_call_ok:
  "\<not> tick_input_rejected (ts_call admitted request inhibit)"
  "tsi_native_frame_count (ts_call admitted request inhibit) = 960"
  "tsi_tx_render_admitted (ts_call admitted request inhibit) = admitted"
  "tsi_external_ptt_request (ts_call admitted request inhibit) = request"
  "tsi_ctcss_inhibit (ts_call admitted request inhibit) = inhibit"
  by (simp_all add: ts_call_def tick_input_rejected_def CTCSS_NONE_def TONE_COUNT_def)

text \<open>C18: a validated stream never fails inside its callback.  With a validated configuration
  whose rounded tail fits in \<open>u32\<close> frames, a callback in a reachable state is rejected exactly
  when its input is malformed, and otherwise returns a state that keeps the invariant.\<close>

theorem tick_total:
  assumes "config_ok config" and "ts_wf config s" and "tsi_native_frame_count input \<le> u32_max"
  shows "if tick_input_rejected input then tick config s input = Inl InvalidInput
    else \<exists>s' out. tick config s input = Inr (s', out) \<and> ts_wf config s'"
  using tick_result [OF assms(1,2) _ assms(3)] tick_held [of input config s] ts_wf_receive_side [OF assms(2)]
  by (cases "tsi_tx_render_admitted input") (auto simp: tick_def)

theorem tick_total_witness:
  "\<exists>s' out. tick ts_sample ts_keyed (ts_call True False False) = Inr (s', out) \<and> ts_wf ts_sample s'"
  using tick_total [OF ts_sample_ok ts_keyed_wf, of "ts_call True False False"]
  by (simp add: ts_call_ok u32_max_def)

text \<open>C20: the spans of an admitted callback partition its frames.  There are at most four, each
  is non-empty, the first starts at frame 0, each next one starts where the previous ends, and
  the last ends at the frame count of the callback.\<close>

theorem render_spans_tile:
  assumes "config_ok config" and "ts_wf config s" and "tsi_native_frame_count input \<le> u32_max"
    and "tsi_tx_render_admitted input" and "tick config s input = Inr (s', out)"
  shows "tiles 0 (tso_render_spans out) (tsi_native_frame_count input) \<and>
    length (tso_render_spans out) \<le> MAX_RENDER_SPANS"
proof -
  have "\<not> tick_input_rejected input" using assms(5) by (auto simp: tick_def)
  then show ?thesis
    using tick_result [OF assms(1,2) _ assms(3,4)] assms(5) by (auto simp: MAX_RENDER_SPANS_def)
qed

theorem render_spans_tile_witness:
  "\<exists>s' out. tick ts_sample ts_keyed (ts_call True False False) = Inr (s', out) \<and>
    tiles 0 (tso_render_spans out) 960"
proof -
  obtain s' out where t: "tick ts_sample ts_keyed (ts_call True False False) = Inr (s', out)"
    using tick_result [OF ts_sample_ok ts_keyed_wf, of "ts_call True False False"]
    by (auto simp: ts_call_ok u32_max_def)
  from render_spans_tile [OF ts_sample_ok ts_keyed_wf _ _ t] t show ?thesis
    by (simp add: ts_call_ok u32_max_def)
qed

text \<open>C19: the signaling machine implements the abstract transmitter.  Read as off, keyed, or
  draining a number of frames, the state after an admitted callback is the abstract
  transmitter's: a request keys it or takes a rekeyable tail back, an unkey starts the tail of
  the configured turn-off, and a tail loses exactly the frames of the callback.\<close>

theorem tick_refines_ptt:
  assumes "config_ok config" and "ts_wf config s" and "\<not> tick_input_rejected input"
    and "tsi_native_frame_count input \<le> u32_max" and "tsi_tx_render_admitted input"
  shows "\<exists>s' out. tick config s input = Inr (s', out) \<and>
    ptt_of config s' = ptt_after (tsi_external_ptt_request input) (rekeys config input s)
      (release_frames config input s) (tsi_native_frame_count input) (ptt_of config s) \<and>
    (tso_logical_ptt out \<longleftrightarrow> ptt_of config s' \<noteq> PttOff)"
proof -
  from tick_result [OF assms] obtain s' out where t: "tick config s input = Inr (s', out)" "ts_wf config s'"
    "ptt_of config s' = ptt_after (tsi_external_ptt_request input) (rekeys config input s)
      (release_frames config input s) (tsi_native_frame_count input) (ptt_of config s)" by blast
  have "tso_logical_ptt out \<longleftrightarrow> ptt_of config s' \<noteq> PttOff"
    using tick_edges_admitted [OF assms t(1)] t(2) by (auto simp: ts_wf_def ptt_of_def)
  with t show ?thesis by blast
qed

theorem tick_refines_ptt_witness:
  "\<exists>s' out. tick ts_sample ts_keyed (ts_call True False False) = Inr (s', out) \<and>
    ptt_of ts_sample s' = PttDraining (9600 + 960 + 8640 - 960)"
proof -
  have "ptt_of ts_sample ts_keyed = PttKeyed"
    by (simp add: ptt_of_def ts_keyed_def tx_state_defs)
  moreover have "release_frames ts_sample (ts_call True False False) ts_keyed = 9600 + 960 + 8640"
    by (simp add: release_frames_def ts_sample_def ts_keyed_def ts_call_def ctcss_transmit_enabled_def
        signal_mode_sample_def ctcss_render_sample_def finish_frames_def div_ceil_def)
  ultimately show ?thesis
    using tick_refines_ptt [OF ts_sample_ok ts_keyed_wf, of "ts_call True False False"]
    by (auto simp: ts_call_ok u32_max_def drain_def)
qed

text \<open>C21: the hang time is exact and the callback size is invisible to it.  Over any list of
  admitted callbacks without a request that starts in the keyed state, PTT drops in the callback
  in which the total of frames reaches the tail of the configured turn-off, and not before.\<close>

theorem ptt_release_time:
  assumes "config_ok config" and "ts_wf config s" and "ts_transmitter_state s = TX_STATE_ACTIVE"
    and "\<forall>j \<in> set (i # inputs). unrequested j"
  shows "\<exists>s'. run_ticks config s (i # inputs) = Inr s' \<and>
    (ts_logical_ptt s' \<longleftrightarrow>
       sum_list (List.map tsi_native_frame_count (i # inputs)) < release_frames config i s)"
proof -
  from release_run [OF assms] obtain s' where s': "run_ticks config s (i # inputs) = Inr s'"
    "ts_wf config s'" "ptt_of config s' = drain (release_frames config i s)
      (sum_list (List.map tsi_native_frame_count (i # inputs)))" by blast
  have "ts_logical_ptt s' \<longleftrightarrow> ptt_of config s' \<noteq> PttOff"
    using s'(2) by (auto simp: ts_wf_def ptt_of_def)
  with s'(1,3) show ?thesis by (auto simp: drain_def)
qed

theorem ptt_release_time_witness:
  "(\<exists>s'. run_ticks ts_sample ts_keyed (replicate 19 (ts_call True False False)) = Inr s' \<and> ts_logical_ptt s') \<and>
   (\<exists>s'. run_ticks ts_sample ts_keyed (replicate 20 (ts_call True False False)) = Inr s' \<and> \<not> ts_logical_ptt s')"
proof -
  have r: "release_frames ts_sample (ts_call True False False) ts_keyed = 9600 + 960 + 8640"
    by (simp add: release_frames_def ts_sample_def ts_keyed_def ts_call_def ctcss_transmit_enabled_def
        signal_mode_sample_def ctcss_render_sample_def finish_frames_def div_ceil_def)
  have a: "ts_transmitter_state ts_keyed = TX_STATE_ACTIVE" by (simp add: ts_keyed_def)
  have u: "unrequested (ts_call True False False)" by (simp add: unrequested_def ts_call_ok u32_max_def)
  have n: "sum_list (List.map tsi_native_frame_count (replicate k (ts_call True False False))) = k * 960" for k
    by (simp add: sum_list_replicate ts_call_ok)
  show ?thesis
    using ptt_release_time [OF ts_sample_ok ts_keyed_wf a, of "ts_call True False False" "replicate 18 (ts_call True False False)"]
      ptt_release_time [OF ts_sample_ok ts_keyed_wf a, of "ts_call True False False" "replicate 19 (ts_call True False False)"] u r
    by (simp add: n ts_call_ok sum_list_replicate replicate_Suc [symmetric] del: replicate_Suc)
qed

text \<open>The events of a callback are the edges of logical PTT.  PTT is reported raised or
  released exactly when it changes, a CTCSS status event goes with either edge and with nothing
  else, and the receiver is blanked, for the configured time, exactly at the release.\<close>

theorem tick_edge_events:
  assumes "config_ok config" and "ts_wf config s" and "tsi_native_frame_count input \<le> u32_max"
    and "tick config s input = Inr (s', out)"
  shows "tso_logical_ptt out = ts_logical_ptt s' \<and>
    tso_logical_ptt_raised out = (\<not> ts_logical_ptt s \<and> ts_logical_ptt s') \<and>
    tso_logical_ptt_released out = (ts_logical_ptt s \<and> \<not> ts_logical_ptt s') \<and>
    tso_ctcss_status_event out = (ts_logical_ptt s \<noteq> ts_logical_ptt s') \<and>
    tso_receiver_blanking_arm out = (if ts_logical_ptt s \<and> \<not> ts_logical_ptt s'
      then Some (tcc_txrx_blanking_time_ms (tsc_tx_complete config)) else None)"
proof -
  have r: "\<not> tick_input_rejected input" using assms(4) by (auto simp: tick_def)
  show ?thesis
  proof (cases "tsi_tx_render_admitted input")
    case True
    show ?thesis
      using tick_edges_admitted [OF assms(1,2) r assms(3) True assms(4)] by auto
  next
    case False
    show ?thesis
      using tick_held [OF r False, of config s] assms(4) by (auto simp: output_from_state_def no_actions_def)
  qed
qed

theorem tick_edge_events_witness:
  "\<exists>s' out. tick ts_sample ts_default (ts_call True True False) = Inr (s', out) \<and>
    tso_ctcss_status_event out \<and> tso_logical_ptt_raised out"
proof -
  obtain s' out where t: "tick ts_sample ts_default (ts_call True True False) = Inr (s', out)"
    "ptt_of ts_sample s' = PttKeyed" "ts_wf ts_sample s'"
    using tick_result [OF ts_sample_ok ts_default_wf, of "ts_call True True False"]
    by (auto simp: ts_call_ok u32_max_def ptt_of_def ts_default_def tx_state_defs)
  have "ts_logical_ptt s'" "\<not> ts_logical_ptt ts_default"
    using t(2,3) by (auto simp: ts_wf_def ptt_of_def ts_default_def split: if_splits)
  with tick_edge_events [OF ts_sample_ok ts_default_wf _ t(1)] t(1) show ?thesis
    by (auto simp: ts_call_ok u32_max_def)
qed

text \<open>A held callback does not advance the transmitter.  Whatever the caller requests, the
  only parts of the state that change are the receive timer's remainder, the signaling mode, and
  outside a tail the queued CTCSS option; no span, edge or action is reported.\<close>

theorem held_tick_freezes_transmitter:
  assumes "\<not> tick_input_rejected input" and "\<not> tsi_tx_render_admitted input"
  shows "\<exists>s'. tick config s input = Inr (s', output_from_state s' False False no_actions []) \<and>
    s'\<lparr>ts_rx_timer_remainder_frames := ts_rx_timer_remainder_frames s,
       ts_signal_mode := ts_signal_mode s, ts_ctcss_render := ts_ctcss_render s\<rparr> = s \<and>
    (ts_ctcss_render s')\<lparr>crs_option := crs_option (ts_ctcss_render s)\<rparr> = ts_ctcss_render s \<and>
    (ts_turnoff_phase s \<noteq> PhaseNone \<longrightarrow> ts_ctcss_render s' = ts_ctcss_render s)"
  by (intro exI [of _ "receive_side config input s"] conjI)
    (simp_all add: tick_held [OF assms] receive_side_frozen,
     simp_all add: receive_side_def sync_ctcss_option_def Let_def case_prod_beta)

theorem held_tick_freezes_transmitter_witness:
  "\<exists>s'. tick ts_sample ts_keyed (ts_call False False False) = Inr (s', output_from_state s' False False no_actions []) \<and>
    s'\<lparr>ts_rx_timer_remainder_frames := 0, ts_signal_mode := ts_signal_mode ts_keyed,
      ts_ctcss_render := ts_ctcss_render ts_keyed\<rparr> = ts_keyed"
proof -
  have "ts_rx_timer_remainder_frames ts_keyed = 0"
    by (simp add: ts_keyed_def ts_default_def)
  then show ?thesis
    using held_tick_freezes_transmitter [of "ts_call False False False" ts_sample ts_keyed]
    by (auto simp: ts_call_ok)
qed

text \<open>A CTCSS inhibit is live.  In every admitted callback that carries it, whatever the
  phase, no span renders CTCSS and the renderer is left disabled.\<close>

theorem inhibit_mutes_every_span:
  assumes "tsi_ctcss_inhibit input" and "tsi_tx_render_admitted input"
    and "tick config s input = Inr (s', out)"
  shows "crs_enabled (ts_ctcss_render s') = 0 \<and>
    (\<forall>x \<in> set (tso_render_spans out). crs_enabled (rs_ctcss_render x) = 0)"
proof -
  from assms obtain t r actions c ms where
    p: "prepare_transmitter config input t no_actions = Inr (r, actions)" and
    l: "advance_render_timeline config \<lparr>cu_state = r, cu_actions = actions, cu_timeline = [],
      cu_remaining = tsi_native_frame_count input\<rparr> = Inr c" and
    o: "s' = after_loop config input ms (cu_state c)" "tso_render_spans out = cu_timeline c"
    by (auto simp: tick_def bind_result_Inr Let_def case_prod_beta output_from_state_def after_loop_def
        split: if_splits)
  have "crs_enabled (ts_ctcss_render r) = 0"
    using p assms(1) by (auto simp: prepare_transmitter_def bind_result_Inr)
  then have "muted (cu_timeline c) (cu_state c)"
    using loop_muted [OF l] by (simp add: muted_def)
  then show ?thesis
    by (auto simp: o muted_def after_loop_def disable_queued_def select_cpu_saver_def consume_settle_def)
qed

theorem inhibit_mutes_every_span_witness:
  "\<exists>s' out. tick ts_sample ts_keyed (ts_call True True True) = Inr (s', out) \<and>
    crs_enabled (ts_ctcss_render s') = 0"
proof -
  obtain s' out where t: "tick ts_sample ts_keyed (ts_call True True True) = Inr (s', out)"
    using tick_result [OF ts_sample_ok ts_keyed_wf, of "ts_call True True True"]
    by (auto simp: ts_call_ok u32_max_def)
  from inhibit_mutes_every_span [OF _ _ t] t show ?thesis by (simp add: ts_call_ok)
qed

definition long_tail :: "int \<Rightarrow> ts_config" where
  "long_tail duration = ts_sample\<lparr>tsc_ctcss_render := ctcss_render_sample\<lparr>
     crc_turnoff_duration_ms := duration\<rparr>\<rparr>"

text \<open>C22: validation misses the last five tail durations.  A configuration with a CTCSS tail of
  89478481 to 89478485 ms is accepted, but the first unkey of the keyed transmitter fails, and
  because the state is kept PTT stays keyed.\<close>

theorem long_tail_fails_at_unkey:
  assumes "duration \<in> {89478481..89478485}"
  shows "ts_new (long_tail duration) = Inr (long_tail duration, ts_default) \<and>
    tick (long_tail duration) ts_keyed (ts_call True False False) = Inl InvalidConfigurationOrState"
proof
  have d: "0 \<le> duration" "duration \<le> 89478485" "89478481 \<le> duration" using assms by auto
  have "ts_validate_config ts_sample = Inr ()"
    using ts_sample_ok by (simp add: config_ok_def)
  then show "ts_new (long_tail duration) = Inr (long_tail duration, ts_default)"
    using d by (auto simp: ts_new_def ts_validate_config_def long_tail_def ts_sample_def bind_result_Inr
        component_def ctcss_render_sample_def ctcss_render_validate_config_def duration_frames_Inr
        split: sum.splits if_splits)
  have "4473924 * 960 < nat duration * 48" using d by linarith
  then have "4473925 \<le> div_ceil (nat duration * 48) 960"
    using div_ceil_le [of 960 "nat duration * 48"] by linarith
  then have "ctcss_tail_frames duration = Inl InvalidConfigurationOrState"
    using d by (simp add: ctcss_tail_frames_def duration_frames_Inr legacy_interval checked_u32_def
        u32_max_def Let_def)
  then show "tick (long_tail duration) ts_keyed (ts_call True False False) = Inl InvalidConfigurationOrState"
    by (simp add: tick_def ts_call_ok prepare_transmitter_def unkey_def start_ctcss_tail_def Let_def
        case_prod_beta tx_state_defs)
      (simp add: long_tail_def ts_sample_def ts_call_def ts_keyed_def ctcss_transmit_enabled_def
        signal_mode_sample_def ctcss_render_sample_def tx_state_defs)
qed

theorem long_tail_fails_at_unkey_witness:
  "tick (long_tail 89478481) ts_keyed (ts_call True False False) = Inl InvalidConfigurationOrState"
  using long_tail_fails_at_unkey [of 89478481] by simp

end
