(* ===== verification/Receive_Qualification.thy ===== *)
theory Receive_Qualification
  imports Timer
begin

text \<open>
  Receiver qualification (\<open>src/receive_qualification.rs\<close>): the carrier and subaudible
  indications of one snapshot, the post-transmit guard and the receive admission delay, both
  counted in native frames.  \<open>qc_\<close>, \<open>qi_\<close> and \<open>qs_\<close> are the fields of \<open>Config\<close>, \<open>Inputs\<close>
  and \<open>State\<close>; \<open>qo_\<close> those of \<open>Output\<close>.
\<close>

definition QUALIFICATION_INTERVAL_FRAMES :: nat where
  "QUALIFICATION_INTERVAL_FRAMES = 960"

definition MAX_TX_OFF_DELAY_FRAMES :: nat where
  "MAX_TX_OFF_DELAY_FRAMES = 3000 * QUALIFICATION_INTERVAL_FRAMES"

datatype carrier_source =
    CarrierIgnore | CarrierHardware | CarrierHardwareInverted | CarrierDspNoise | CarrierDspVox
  | CarrierParallel | CarrierParallelInverted | CarrierExternal | CarrierOpen

datatype subaudible_source =
    SubaudibleIgnore | SubaudibleDsp | SubaudibleHardware | SubaudibleHardwareInverted
  | SubaudibleParallel | SubaudibleParallelInverted

datatype qualification_mode = QualifyNone | QualifyCtcss | QualifyDcs

record qualification_config =
  qc_carrier_source :: carrier_source
  qc_subaudible_source :: subaudible_source
  qc_subaudible_override :: bool
  qc_advanced_transport :: bool
  qc_radio_duplex :: bool
  qc_rx_on_delay_frames :: nat
  qc_tx_off_delay_frames :: nat

record qualification_inputs =
  qi_external_carrier :: "bool option"
  qi_hardware_carrier :: bool
  qi_parallel_carrier :: bool
  qi_dsp_carrier :: bool
  qi_hardware_subaudible :: bool
  qi_parallel_subaudible :: bool
  qi_dcs_receive_enabled :: bool
  qi_dcs_valid :: bool
  qi_ctcss_receive_enabled :: bool
  qi_ctcss_decoder_available :: bool
  qi_ctcss_decoded :: bool
  qi_signal_mode :: qualification_mode
  qi_tx_ptt_out :: bool
  qi_txrx_blanking_active :: bool

record qualification_state =
  qs_external_carrier_detect :: bool
  qs_carrier_active :: bool
  qs_subaudible_active :: bool
  qs_rx_keyed :: bool
  qs_rx_admission_elapsed_frames :: nat
  qs_tx_release_elapsed_frames :: nat

record qualification_output =
  qo_carrier_active :: bool
  qo_subaudible_active :: bool
  qo_rx_keyed :: bool

definition qualification_default :: qualification_state where
  "qualification_default = \<lparr>
     qs_external_carrier_detect = False, qs_carrier_active = False, qs_subaudible_active = False,
     qs_rx_keyed = False, qs_rx_admission_elapsed_frames = 0, qs_tx_release_elapsed_frames = 0\<rparr>"

definition dsp_subaudible_active :: "qualification_inputs \<Rightarrow> bool" where
  "dsp_subaudible_active inputs =
     (if qi_dcs_receive_enabled inputs
      then qi_dcs_valid inputs \<and> qi_signal_mode inputs = QualifyDcs
      else if \<not> qi_ctcss_receive_enabled inputs then True
      else qi_ctcss_decoder_available inputs \<and> qi_ctcss_decoded inputs \<and>
        qi_signal_mode inputs = QualifyCtcss)"

fun external_carrier :: "carrier_source \<Rightarrow> bool \<Rightarrow> bool \<Rightarrow> bool option \<Rightarrow> bool option" where
  "external_carrier CarrierIgnore hardware parallel external = Some False"
| "external_carrier CarrierOpen hardware parallel external = Some True"
| "external_carrier CarrierHardware hardware parallel external = Some hardware"
| "external_carrier CarrierHardwareInverted hardware parallel external = Some (\<not> hardware)"
| "external_carrier CarrierParallel hardware parallel external = Some parallel"
| "external_carrier CarrierParallelInverted hardware parallel external = Some (\<not> parallel)"
| "external_carrier CarrierExternal hardware parallel external =
     Some (case external of None \<Rightarrow> False | Some c \<Rightarrow> c)"
| "external_carrier CarrierDspNoise hardware parallel external = None"
| "external_carrier CarrierDspVox hardware parallel external = None"

fun select_subaudible :: "subaudible_source \<Rightarrow> qualification_inputs \<Rightarrow> bool \<Rightarrow> bool" where
  "select_subaudible SubaudibleIgnore inputs dsp = dsp"
| "select_subaudible SubaudibleDsp inputs dsp = dsp"
| "select_subaudible SubaudibleHardware inputs dsp = qi_hardware_subaudible inputs"
| "select_subaudible SubaudibleHardwareInverted inputs dsp = (\<not> qi_hardware_subaudible inputs)"
| "select_subaudible SubaudibleParallel inputs dsp = qi_parallel_subaudible inputs"
| "select_subaudible SubaudibleParallelInverted inputs dsp = (\<not> qi_parallel_subaudible inputs)"

definition resolve_indications ::
  "qualification_config \<Rightarrow> qualification_inputs \<Rightarrow> qualification_state \<Rightarrow> qualification_state" where
  "resolve_indications config inputs state =
     (let raw_carrier = (case external_carrier (qc_carrier_source config) (qi_hardware_carrier inputs)
                              (qi_parallel_carrier inputs) (qi_external_carrier inputs) of
                           None \<Rightarrow> qi_dsp_carrier inputs
                         | Some c \<Rightarrow> c);
          state = (if qc_carrier_source config \<in> {CarrierHardware, CarrierHardwareInverted}
                   then state\<lparr>qs_external_carrier_detect := raw_carrier\<rparr> else state);
          carrier = (raw_carrier \<and>
            (\<not> qi_tx_ptt_out inputs \<or> qc_advanced_transport config \<or> qc_radio_duplex config));
          carrier = (if qi_txrx_blanking_active inputs then False else carrier);
          subaudible = select_subaudible (qc_subaudible_source config) inputs (dsp_subaudible_active inputs);
          subaudible = (if qc_subaudible_override config then True else subaudible);
          ignored = (qc_carrier_source config = CarrierIgnore \<and>
                     qc_subaudible_source config = SubaudibleIgnore)
      in state\<lparr>qs_carrier_active := (if ignored then False else carrier),
               qs_subaudible_active := (if ignored then False else subaudible)\<rparr>)"

definition qualification_duration_frames :: "nat \<Rightarrow> nat" where
  "qualification_duration_frames interval_count = interval_count * QUALIFICATION_INTERVAL_FRAMES"

definition advance_tx_release ::
  "qualification_config \<Rightarrow> qualification_inputs \<Rightarrow> nat \<Rightarrow> qualification_state \<Rightarrow> qualification_state" where
  "advance_tx_release config inputs native_frame_count state =
     (if qi_tx_ptt_out inputs \<or> qc_tx_off_delay_frames config = 0
      then state\<lparr>qs_tx_release_elapsed_frames := 0\<rparr>
      else state\<lparr>qs_tx_release_elapsed_frames :=
        min (saturating_add_u64 (qs_tx_release_elapsed_frames state) native_frame_count)
          MAX_TX_OFF_DELAY_FRAMES\<rparr>)"

definition tx_release_qualified :: "qualification_config \<Rightarrow> qualification_state \<Rightarrow> bool" where
  "tx_release_qualified config state \<longleftrightarrow>
     (let required_frames = qualification_duration_frames (qc_tx_off_delay_frames config)
      in required_frames = 0 \<or> qs_tx_release_elapsed_frames state \<ge> required_frames)"

definition qualify_receive :: "qualification_config \<Rightarrow> nat \<Rightarrow> qualification_state \<Rightarrow> qualification_state" where
  "qualify_receive config native_frame_count state =
     (if \<not> (qs_carrier_active state \<and> qs_subaudible_active state)
      then state\<lparr>qs_rx_keyed := False, qs_rx_admission_elapsed_frames := 0\<rparr>
      else if qs_rx_keyed state then state
      else
        let required_frames = qualification_duration_frames (qc_rx_on_delay_frames config);
            state = state\<lparr>qs_rx_admission_elapsed_frames :=
              (if required_frames \<noteq> 0
               then min (saturating_add_u64 (qs_rx_admission_elapsed_frames state) native_frame_count)
                      required_frames
               else 0)\<rparr>
        in if (required_frames = 0 \<or> qs_rx_admission_elapsed_frames state \<ge> required_frames) \<and>
              tx_release_qualified config state
           then state\<lparr>qs_rx_keyed := True\<rparr> else state)"

definition qualification_advance ::
  "qualification_config \<Rightarrow> qualification_inputs \<Rightarrow> nat \<Rightarrow> qualification_state \<Rightarrow>
     qualification_state \<times> qualification_output" where
  "qualification_advance config inputs native_frame_count state =
     (let state = resolve_indications config inputs state;
          state = advance_tx_release config inputs native_frame_count state;
          state = qualify_receive config native_frame_count state
      in (state, \<lparr>qo_carrier_active = qs_carrier_active state,
                  qo_subaudible_active = qs_subaudible_active state,
                  qo_rx_keyed = qs_rx_keyed state\<rparr>))"

section \<open>The partition of a stable span is invisible\<close>

lemma resolve_fields [simp]:
  "qs_rx_keyed (resolve_indications config inputs s) = qs_rx_keyed s"
  "qs_rx_admission_elapsed_frames (resolve_indications config inputs s) = qs_rx_admission_elapsed_frames s"
  "qs_tx_release_elapsed_frames (resolve_indications config inputs s) = qs_tx_release_elapsed_frames s"
  by (simp_all add: resolve_indications_def Let_def)

text \<open>A state whose indications are those of this snapshot.\<close>

definition resolved :: "qualification_config \<Rightarrow> qualification_inputs \<Rightarrow> qualification_state \<Rightarrow> bool" where
  "resolved config inputs s \<longleftrightarrow> resolve_indications config inputs s = s"

lemma resolved_resolve: "resolved config inputs (resolve_indications config inputs s)"
  by (cases s) (simp add: resolved_def resolve_indications_def Let_def)

lemma resolved_cong:
  assumes "resolved config inputs s"
    and "qs_external_carrier_detect t = qs_external_carrier_detect s"
    and "qs_carrier_active t = qs_carrier_active s" and "qs_subaudible_active t = qs_subaudible_active s"
  shows "resolved config inputs t"
  using assms unfolding resolved_def resolve_indications_def Let_def
  by (cases s; cases t) (auto split: if_splits)

lemma saturating_min:
  "min (saturating_add_u64 (min (saturating_add_u64 a m) r) n) r = min (saturating_add_u64 a (m + n)) r"
  by (auto simp: saturating_add_u64_def min_def)

lemma qualify_fields [simp]:
  "qs_external_carrier_detect (qualify_receive config n s) = qs_external_carrier_detect s"
  "qs_carrier_active (qualify_receive config n s) = qs_carrier_active s"
  "qs_subaudible_active (qualify_receive config n s) = qs_subaudible_active s"
  "qs_tx_release_elapsed_frames (qualify_receive config n s) = qs_tx_release_elapsed_frames s"
  by (simp_all add: qualify_receive_def Let_def)

lemma release_fields [simp]:
  "qs_external_carrier_detect (advance_tx_release config inputs n s) = qs_external_carrier_detect s"
  "qs_carrier_active (advance_tx_release config inputs n s) = qs_carrier_active s"
  "qs_subaudible_active (advance_tx_release config inputs n s) = qs_subaudible_active s"
  "qs_rx_keyed (advance_tx_release config inputs n s) = qs_rx_keyed s"
  "qs_rx_admission_elapsed_frames (advance_tx_release config inputs n s) = qs_rx_admission_elapsed_frames s"
  by (simp_all add: advance_tx_release_def)

definition qualified_state ::
  "qualification_config \<Rightarrow> qualification_inputs \<Rightarrow> qualification_state \<Rightarrow> nat \<Rightarrow> qualification_state" where
  "qualified_state config inputs s n = fst (qualification_advance config inputs n s)"

lemma qualified_state_eq:
  "qualified_state config inputs s n =
     qualify_receive config n (advance_tx_release config inputs n (resolve_indications config inputs s))"
  by (simp add: qualified_state_def qualification_advance_def Let_def)

lemma qualified_fields:
  fixes config inputs s n
  defines "t \<equiv> advance_tx_release config inputs n (resolve_indications config inputs s)"
    and "required \<equiv> qualification_duration_frames (qc_rx_on_delay_frames config)"
  shows "qs_rx_keyed (qualified_state config inputs s n) =
      (qs_carrier_active t \<and> qs_subaudible_active t \<and>
       (qs_rx_keyed s \<or>
        required \<le> saturating_add_u64 (qs_rx_admission_elapsed_frames s) n \<and> tx_release_qualified config t))"
    and "qs_rx_admission_elapsed_frames (qualified_state config inputs s n) =
      (if \<not> (qs_carrier_active t \<and> qs_subaudible_active t) then 0
       else if qs_rx_keyed s then qs_rx_admission_elapsed_frames s
       else min (saturating_add_u64 (qs_rx_admission_elapsed_frames s) n) required)"
    and "qs_tx_release_elapsed_frames (qualified_state config inputs s n) = qs_tx_release_elapsed_frames t"
    and "qs_carrier_active (qualified_state config inputs s n) = qs_carrier_active (resolve_indications config inputs s)"
    and "qs_subaudible_active (qualified_state config inputs s n) = qs_subaudible_active (resolve_indications config inputs s)"
    and "qs_external_carrier_detect (qualified_state config inputs s n) =
      qs_external_carrier_detect (resolve_indications config inputs s)"
  unfolding assms
  by (auto simp: qualified_state_eq qualify_receive_def tx_release_qualified_def Let_def min_def)

lemma resolve_qualified:
  "resolve_indications config inputs (qualified_state config inputs s m) = qualified_state config inputs s m"
proof -
  have "resolved config inputs (qualified_state config inputs s m)"
    by (rule resolved_cong [OF resolved_resolve]) (simp_all add: qualified_fields)
  then show ?thesis by (simp add: resolved_def)
qed

lemma release_elapsed:
  "qs_tx_release_elapsed_frames (advance_tx_release config inputs n s) =
     (if qi_tx_ptt_out inputs \<or> qc_tx_off_delay_frames config = 0 then 0
      else min (saturating_add_u64 (qs_tx_release_elapsed_frames s) n) MAX_TX_OFF_DELAY_FRAMES)"
  by (simp add: advance_tx_release_def)

lemma saturating_add_mono: "a \<le> b \<Longrightarrow> m \<le> n \<Longrightarrow> saturating_add_u64 a m \<le> saturating_add_u64 b n"
  by (simp add: saturating_add_u64_def)

lemma required_bound:
  "k \<le> u32_max \<Longrightarrow> qualification_duration_frames k \<le> u64_max"
  by (simp add: qualification_duration_frames_def QUALIFICATION_INTERVAL_FRAMES_def u32_max_def u64_max_def)

lemma qualified_state_add:
  assumes "qc_rx_on_delay_frames config \<le> u32_max"
  shows "qualified_state config inputs (qualified_state config inputs s m) n =
    qualified_state config inputs s (m + n)"
proof -
  let ?q = "qualified_state config inputs s m"
  let ?r = "resolve_indications config inputs s"
  let ?required = "qualification_duration_frames (qc_rx_on_delay_frames config)"
  let ?a = "qs_rx_admission_elapsed_frames s"
  have rel: "qs_tx_release_elapsed_frames (advance_tx_release config inputs n ?q) =
      qs_tx_release_elapsed_frames (advance_tx_release config inputs (m + n) ?r)"
    by (simp add: release_elapsed qualified_fields(3) saturating_min)
  have guard: "tx_release_qualified config (advance_tx_release config inputs n ?q) =
      tx_release_qualified config (advance_tx_release config inputs (m + n) ?r)"
    by (simp add: tx_release_qualified_def rel)
  have early: "tx_release_qualified config (advance_tx_release config inputs m ?r) \<Longrightarrow>
      tx_release_qualified config (advance_tx_release config inputs (m + n) ?r)"
    using saturating_add_mono [of "qs_tx_release_elapsed_frames s" "qs_tx_release_elapsed_frames s" m "m + n"]
    by (auto simp: tx_release_qualified_def release_elapsed Let_def)
  have grow: "saturating_add_u64 ?a m \<le> saturating_add_u64 ?a (m + n)"
    by (rule saturating_add_mono) simp_all
  have reach: "?required \<le> saturating_add_u64 (min (saturating_add_u64 ?a m) ?required) n \<longleftrightarrow>
      ?required \<le> saturating_add_u64 ?a (m + n)"
    using required_bound [OF assms] by (auto simp: saturating_add_u64_def min_def)
  show ?thesis
  proof (rule qualification_state.equality)
    show "qs_rx_keyed (qualified_state config inputs ?q n) = qs_rx_keyed (qualified_state config inputs s (m + n))"
      using early grow reach
      by (auto simp: qualified_fields(1,2) [of config inputs ?q] qualified_fields(1,2) [of config inputs s]
          resolve_qualified guard qualified_fields(4,5))
    show "qs_rx_admission_elapsed_frames (qualified_state config inputs ?q n) =
        qs_rx_admission_elapsed_frames (qualified_state config inputs s (m + n))"
      using grow
      by (auto simp: qualified_fields(1,2) [of config inputs ?q] qualified_fields(1,2) [of config inputs s]
          resolve_qualified saturating_min qualified_fields(4,5))
  qed (simp_all add: qualified_fields resolve_qualified rel)
qed

interpretation qualification_clock: frame_clock "\<lambda>s n. qualified_state config inputs s n"
  "\<lambda>s. qc_rx_on_delay_frames config \<le> u32_max" limit for config inputs limit
  by unfold_locales (simp_all add: qualified_state_add)

text \<open>The qualification delays do not depend on the callback size.  Feeding one snapshot
  for any list of non-empty callbacks ends in the state one callback of their total length gives:
  the qualified receiver, both timers and the indications.\<close>

theorem qualification_partition:
  assumes "qc_rx_on_delay_frames config \<le> u32_max" and "ns \<noteq> []" and "\<forall>n \<in> set ns. 0 < n"
  shows "foldl (\<lambda>s n. fst (qualification_advance config inputs n s)) s ns =
    fst (qualification_advance config inputs (sum_list ns) s)"
  using qualification_clock.partition_sum [of config ns "sum_list ns" inputs s] assms
  by (simp add: qualified_state_def)

definition qualification_sample :: qualification_config where
  "qualification_sample = \<lparr>
     qc_carrier_source = CarrierHardware, qc_subaudible_source = SubaudibleDsp,
     qc_subaudible_override = False, qc_advanced_transport = False, qc_radio_duplex = False,
     qc_rx_on_delay_frames = 2, qc_tx_off_delay_frames = 1\<rparr>"

definition qualification_call :: "bool \<Rightarrow> qualification_inputs" where
  "qualification_call carrier = \<lparr>
     qi_external_carrier = None, qi_hardware_carrier = carrier, qi_parallel_carrier = False,
     qi_dsp_carrier = False, qi_hardware_subaudible = False, qi_parallel_subaudible = False,
     qi_dcs_receive_enabled = False, qi_dcs_valid = False, qi_ctcss_receive_enabled = False,
     qi_ctcss_decoder_available = False, qi_ctcss_decoded = False, qi_signal_mode = QualifyNone,
     qi_tx_ptt_out = False, qi_txrx_blanking_active = False\<rparr>"

theorem qualification_partition_witness:
  "foldl (\<lambda>s n. fst (qualification_advance qualification_sample (qualification_call True) n s))
     qualification_default [960, 1, 959] =
   fst (qualification_advance qualification_sample (qualification_call True) 1920 qualification_default)"
  using qualification_partition [of qualification_sample "[960, 1, 959]" "qualification_call True" qualification_default]
  by (simp add: qualification_sample_def u32_max_def)

section \<open>The delays over a stream of callbacks\<close>

text \<open>The receiver after a list of callbacks, each with its own snapshot and frame count.\<close>

definition qualification_run ::
  "qualification_config \<Rightarrow> (qualification_inputs \<times> nat) list \<Rightarrow> qualification_state" where
  "qualification_run config calls =
     foldl (\<lambda>s (inputs, n). fst (qualification_advance config inputs n s)) qualification_default calls"

text \<open>What the delays are about, read off the callbacks alone: whether a snapshot shows both
  indications, how many frames the latest callbacks of one kind have, and whether the stream so far
  ends with enough frames of both indications and, where the guard is configured, of released PTT.\<close>

definition indications_present :: "qualification_config \<Rightarrow> qualification_inputs \<Rightarrow> bool" where
  "indications_present config inputs \<longleftrightarrow>
     (let s = resolve_indications config inputs qualification_default in qs_carrier_active s \<and> qs_subaudible_active s)"

definition trailing_frames :: "(qualification_inputs \<Rightarrow> bool) \<Rightarrow> (qualification_inputs \<times> nat) list \<Rightarrow> nat" where
  "trailing_frames P calls = sum_list (List.map snd (takeWhile (\<lambda>c. P (fst c)) (rev calls)))"

definition delays_met :: "qualification_config \<Rightarrow> (qualification_inputs \<times> nat) list \<Rightarrow> bool" where
  "delays_met config calls \<longleftrightarrow>
     qc_rx_on_delay_frames config * 960 \<le> trailing_frames (indications_present config) calls \<and>
     (qc_tx_off_delay_frames config = 0 \<or>
      qc_tx_off_delay_frames config \<le> 3000 \<and>
      qc_tx_off_delay_frames config * 960 \<le> trailing_frames (\<lambda>inputs. \<not> qi_tx_ptt_out inputs) calls)"

text \<open>Keyed: at some callback the delays were met, and both indications were there from it on.\<close>

definition keyed_by :: "qualification_config \<Rightarrow> (qualification_inputs \<times> nat) list \<Rightarrow> bool" where
  "keyed_by config calls \<longleftrightarrow>
     (\<exists>k < length calls. delays_met config (take (Suc k) calls) \<and>
        list_all (\<lambda>c. indications_present config (fst c)) (drop k calls))"

lemma trailing_frames_simps [simp]:
  "trailing_frames P [] = 0"
  "trailing_frames P (calls @ [(inputs, n)]) = (if P inputs then trailing_frames P calls + n else 0)"
  by (simp_all add: trailing_frames_def)

lemma keyed_by_simps [simp]:
  "\<not> keyed_by config []"
  "keyed_by config (calls @ [(inputs, n)]) \<longleftrightarrow>
     indications_present config inputs \<and> (keyed_by config calls \<or> delays_met config (calls @ [(inputs, n)]))"
  by (auto simp: keyed_by_def less_Suc_eq)

lemma qualification_run_simps [simp]:
  "qualification_run config [] = qualification_default"
  "qualification_run config (calls @ [(inputs, n)]) = qualified_state config inputs (qualification_run config calls) n"
  by (simp_all add: qualification_run_def qualified_state_def)

lemma resolve_indicates:
  "qs_carrier_active (resolve_indications config inputs s) \<and> qs_subaudible_active (resolve_indications config inputs s) \<longleftrightarrow>
     indications_present config inputs"
  by (simp add: indications_present_def resolve_indications_def Let_def)

lemma saturating_capped: "r \<le> u64_max \<Longrightarrow> min (saturating_add_u64 (min a r) n) r = min (a + n) r"
  by (auto simp: saturating_add_u64_def min_def)

lemma saturating_reaches: "r \<le> u64_max \<Longrightarrow> r \<le> saturating_add_u64 (min a r) n \<longleftrightarrow> r \<le> a + n"
  by (auto simp: saturating_add_u64_def min_def)

lemma qualification_run_state:
  assumes "qc_rx_on_delay_frames config \<le> u32_max"
  defines "s \<equiv> \<lambda>calls. qualification_run config calls"
  shows "(qs_rx_keyed (s calls) \<longleftrightarrow> keyed_by config calls) \<and>
    (\<not> keyed_by config calls \<longrightarrow> qs_rx_admission_elapsed_frames (s calls) =
      min (trailing_frames (indications_present config) calls) (qc_rx_on_delay_frames config * 960)) \<and>
    qs_tx_release_elapsed_frames (s calls) =
      (if qc_tx_off_delay_frames config = 0 then 0
       else min (trailing_frames (\<lambda>inputs. \<not> qi_tx_ptt_out inputs) calls) MAX_TX_OFF_DELAY_FRAMES)"
proof (induction calls rule: rev_induct)
  case Nil
  show ?case by (simp add: s_def qualification_default_def)
next
  case (snoc c calls)
  obtain inputs n where c: "c = (inputs, n)" by fastforce
  let ?r = "resolve_indications config inputs (s calls)"
  let ?t = "advance_tx_release config inputs n ?r"
  let ?required = "qc_rx_on_delay_frames config * 960"
  have cap: "MAX_TX_OFF_DELAY_FRAMES \<le> u64_max" "?required \<le> u64_max"
    using required_bound [OF assms(1)]
    by (simp_all add: MAX_TX_OFF_DELAY_FRAMES_def QUALIFICATION_INTERVAL_FRAMES_def u64_max_def
        qualification_duration_frames_def)
  have dur: "qualification_duration_frames k = k * 960" for k
    by (simp add: qualification_duration_frames_def QUALIFICATION_INTERVAL_FRAMES_def)
  have shown: "qs_carrier_active ?r \<and> qs_subaudible_active ?r \<longleftrightarrow> indications_present config inputs"
    by (rule resolve_indicates)
  have released: "qs_tx_release_elapsed_frames ?t =
      (if qc_tx_off_delay_frames config = 0 then 0
       else min (trailing_frames (\<lambda>inputs. \<not> qi_tx_ptt_out inputs) (calls @ [c])) MAX_TX_OFF_DELAY_FRAMES)"
    using snoc by (simp add: c release_elapsed saturating_capped [OF cap(1)])
  have guard: "tx_release_qualified config ?t \<longleftrightarrow> qc_tx_off_delay_frames config = 0 \<or>
      qc_tx_off_delay_frames config \<le> 3000 \<and>
      qc_tx_off_delay_frames config * 960 \<le> trailing_frames (\<lambda>inputs. \<not> qi_tx_ptt_out inputs) (calls @ [c])"
    by (auto simp: tx_release_qualified_def released dur MAX_TX_OFF_DELAY_FRAMES_def
        QUALIFICATION_INTERVAL_FRAMES_def Let_def)
  have keyed: "qs_rx_keyed (s (calls @ [c])) \<longleftrightarrow> keyed_by config (calls @ [c])"
    using shown snoc guard
    by (cases "keyed_by config calls")
      (auto simp: s_def c qualified_fields dur delays_met_def saturating_reaches [OF cap(2)])
  have "\<not> keyed_by config (calls @ [c]) \<longrightarrow> qs_rx_admission_elapsed_frames (s (calls @ [c])) =
      min (trailing_frames (indications_present config) (calls @ [c])) ?required"
    using shown snoc by (auto simp: s_def c qualified_fields dur saturating_capped [OF cap(2)])
  moreover have "qs_tx_release_elapsed_frames (s (calls @ [c])) = qs_tx_release_elapsed_frames ?t"
    by (simp add: s_def c qualified_fields)
  ultimately show ?case using keyed released by simp
qed

text \<open>C24: when the receiver is keyed, over any stream of callbacks from the initial state, each with
  its own snapshot and its own number of frames.  It reports a keyed receiver exactly when at some
  callback both delays were met and both indications have been present in every callback from that
  one on.  The delays are met when the latest callbacks in a row that showed both indications have at
  least the admission delay in frames, 960 per interval, and, when the post-transmit guard is
  configured, the latest callbacks in a row without PTT have its frames; a guard of more than 3000
  intervals is never met.\<close>

theorem qualification_keying_time:
  assumes "qc_rx_on_delay_frames config \<le> u32_max"
  shows "qo_rx_keyed (snd (qualification_advance config inputs n (qualification_run config calls))) \<longleftrightarrow>
    (\<exists>k \<le> length calls.
       (\<forall>c \<in> set (drop k (calls @ [(inputs, n)])). indications_present config (fst c)) \<and>
       qc_rx_on_delay_frames config * 960 \<le>
         trailing_frames (indications_present config) (take (Suc k) (calls @ [(inputs, n)])) \<and>
       (qc_tx_off_delay_frames config = 0 \<or>
        qc_tx_off_delay_frames config \<le> 3000 \<and>
        qc_tx_off_delay_frames config * 960 \<le>
          trailing_frames (\<lambda>i. \<not> qi_tx_ptt_out i) (take (Suc k) (calls @ [(inputs, n)]))))"
proof -
  have "qo_rx_keyed (snd (qualification_advance config inputs n (qualification_run config calls))) \<longleftrightarrow>
      qs_rx_keyed (qualification_run config (calls @ [(inputs, n)]))"
    by (simp add: qualified_state_def qualification_advance_def Let_def)
  also have "\<dots> \<longleftrightarrow> keyed_by config (calls @ [(inputs, n)])" using qualification_run_state [OF assms] by blast
  finally show ?thesis by (auto simp: keyed_by_def delays_met_def list_all_iff less_Suc_eq_le)
qed

theorem qualification_keying_time_witness:
  "\<not> qo_rx_keyed (snd (qualification_advance qualification_sample (qualification_call True) 959
     (qualification_run qualification_sample [(qualification_call True, 960)]))) \<and>
   qo_rx_keyed (snd (qualification_advance qualification_sample (qualification_call True) 1
     (qualification_run qualification_sample [(qualification_call True, 960), (qualification_call True, 959)])))"
proof -
  have p: "indications_present qualification_sample (qualification_call b) = b" for b
    by (simp add: indications_present_def resolve_indications_def qualification_sample_def qualification_call_def
        dsp_subaudible_active_def Let_def)
  have q: "\<not> qi_tx_ptt_out (qualification_call True)" by (simp add: qualification_call_def)
  have c: "qc_rx_on_delay_frames qualification_sample = 2" "qc_tx_off_delay_frames qualification_sample = 1"
    by (simp_all add: qualification_sample_def)
  have small: "k = 0 \<or> k = 1 \<or> 2 \<le> k" for k :: nat by auto
  have bound: "qc_rx_on_delay_frames qualification_sample \<le> u32_max" by (simp add: c u32_max_def)
  show ?thesis
    unfolding qualification_keying_time [OF bound]
    by (auto simp: trailing_frames_def c p q numeral_2_eq_2 le_Suc_eq
        intro!: exI [of _ 2])
qed

text \<open>Losing an indication closes the receiver at once, whatever the delays are, and the
  admission delay starts over.\<close>

theorem qualification_drop:
  assumes "\<not> qo_carrier_active (snd (qualification_advance config inputs n s)) \<or>
    \<not> qo_subaudible_active (snd (qualification_advance config inputs n s))"
  shows "\<not> qo_rx_keyed (snd (qualification_advance config inputs n s)) \<and>
    \<not> qs_rx_keyed (fst (qualification_advance config inputs n s)) \<and>
    qs_rx_admission_elapsed_frames (fst (qualification_advance config inputs n s)) = 0"
proof -
  let ?t = "advance_tx_release config inputs n (resolve_indications config inputs s)"
  have "\<not> (qs_carrier_active ?t \<and> qs_subaudible_active ?t)"
    using assms by (auto simp: qualification_advance_def Let_def)
  then show ?thesis
    by (simp add: qualification_advance_def Let_def qualify_receive_def [of config n ?t])
qed

theorem qualification_drop_witness:
  "\<not> qo_rx_keyed (snd (qualification_advance qualification_sample (qualification_call False) 48
     (qualification_default\<lparr>qs_rx_keyed := True\<rparr>)))"
proof -
  have "\<not> qo_carrier_active (snd (qualification_advance qualification_sample (qualification_call False) 48
     (qualification_default\<lparr>qs_rx_keyed := True\<rparr>)))"
    by (simp add: qualification_advance_def resolve_indications_def qualification_sample_def
        qualification_call_def Let_def)
  with qualification_drop show ?thesis by blast
qed

end
