(* ===== verification/Rx_Blanking.thy ===== *)
theory Rx_Blanking
  imports Timer Soft_Float
begin

text \<open>
  Post-transmit receive blanking: the timer arithmetic of \<open>src/rx_blanking.rs\<close> (\<open>rbi_\<close>, \<open>rbs_\<close>)
  and its owner in \<open>src/receive_path.rs\<close>, which arms it and mutes the left channel of the
  protected frames (\<open>blk_\<close> are its two fields of \<open>ReceivePath\<close>).
\<close>

record rx_blanking_input =
  rbi_elapsed_ms :: int
  rbi_native_frame_count :: nat
  rbi_sample_remainder_before :: nat

record rx_blanking_state =
  rbs_remaining_ms :: int
  rbs_blanked_frame_count :: nat

definition rx_blanking_advance :: "rx_blanking_input \<Rightarrow> rx_blanking_state \<Rightarrow> rx_blanking_state" where
  "rx_blanking_advance input state =
     (let protected_frames = nat (rbs_remaining_ms state) * FRAMES_PER_MILLISECOND;
          after_remainder = protected_frames - rbi_sample_remainder_before input
      in state\<lparr>rbs_blanked_frame_count := min after_remainder (rbi_native_frame_count input),
               rbs_remaining_ms :=
                 (if rbi_elapsed_ms input \<ge> rbs_remaining_ms state then 0
                  else rbs_remaining_ms state - rbi_elapsed_ms input)\<rparr>)"

section \<open>The owner of the timer\<close>

record blanking =
  blk_remaining_ms :: int
  blk_remainder :: nat

definition arm_receive_blanking :: "int \<Rightarrow> blanking \<Rightarrow> blanking" where
  "arm_receive_blanking duration_ms b = b\<lparr>blk_remaining_ms := max duration_ms 0, blk_remainder := 0\<rparr>"

text \<open>The interleaved span with the left sample of the first \<open>k\<close> frames set to zero.\<close>

fun mute_left :: "nat \<Rightarrow> f32 list \<Rightarrow> f32 list" where
  "mute_left (Suc k) (left # right # rest) = fp_zero # right # mute_left k rest"
| "mute_left k samples = samples"

definition apply_receive_blanking :: "blanking \<Rightarrow> f32 list \<Rightarrow> blanking \<times> f32 list \<times> nat" where
  "apply_receive_blanking b native_input =
     (if blk_remaining_ms b \<le> 0 then (b, native_input, 0)
      else
        let native_frame_count = length native_input div 2;
            remainder_before = blk_remainder b;
            (elapsed, remainder) = elapsed_ms (blk_remainder b) native_frame_count;
            state = rx_blanking_advance
              \<lparr>rbi_elapsed_ms = elapsed, rbi_native_frame_count = native_frame_count,
               rbi_sample_remainder_before = remainder_before\<rparr>
              \<lparr>rbs_remaining_ms = blk_remaining_ms b, rbs_blanked_frame_count = 0\<rparr>
        in (b\<lparr>blk_remaining_ms := rbs_remaining_ms state, blk_remainder := remainder\<rparr>,
            mute_left (rbs_blanked_frame_count state) native_input,
            rbs_blanked_frame_count state))"

section \<open>A countdown in frames\<close>

text \<open>The frames still protected: the milliseconds left less the frames of the current one.\<close>

definition blank_left :: "blanking \<Rightarrow> nat" where
  "blank_left b = (if blk_remaining_ms b \<le> 0 then 0
     else nat (blk_remaining_ms b) * 48 - blk_remainder b)"

definition blanking_wf :: "blanking \<Rightarrow> bool" where
  "blanking_wf b \<longleftrightarrow> blk_remainder b < 48 \<and> 0 \<le> blk_remaining_ms b"

lemma arm_blank_left:
  "blank_left (arm_receive_blanking d b) = nat d * 48" "blanking_wf (arm_receive_blanking d b)"
  by (auto simp: blank_left_def arm_receive_blanking_def blanking_wf_def)

lemma countdown_arith:
  fixes ms r n :: nat
  assumes "r < 48" and "0 < ms"
  shows "ms \<le> (r + n) div 48 \<Longrightarrow> ms * 48 - r \<le> n"
    and "(r + n) div 48 < ms \<Longrightarrow> n \<le> ms * 48 - r \<and>
      (ms - (r + n) div 48) * 48 - (r + n) mod 48 = ms * 48 - r - n"
proof -
  have split: "(r + n) div 48 * 48 + (r + n) mod 48 = r + n" by (rule div_mult_mod_eq)
  have small: "(r + n) mod 48 < 48" by simp
  show "ms * 48 - r \<le> n" if "ms \<le> (r + n) div 48"
  proof -
    have "ms * 48 \<le> (r + n) div 48 * 48" using that by (rule mult_le_mono1)
    with split show ?thesis by linarith
  qed
  obtain q m where q: "(r + n) div 48 = q" "(r + n) mod 48 = m" by blast
  show "n \<le> ms * 48 - r \<and> (ms - (r + n) div 48) * 48 - (r + n) mod 48 = ms * 48 - r - n"
    if "(r + n) div 48 < ms"
  proof -
    from that obtain k where k: "ms = q + 1 + k" using q less_imp_Suc_add [of q ms] by auto
    have "q * 48 + m = r + n" "m < 48" using split small q by simp_all
    then have "n \<le> q * 48 + 48 + k * 48 - r" "48 + k * 48 - m = q * 48 + 48 + k * 48 - r - n"
      by arith+
    moreover have "(q + 1 + k) * 48 = q * 48 + 48 + k * 48" by simp
    ultimately show ?thesis using k q by (simp add: ac_simps)
  qed
qed

lemma blanking_step:
  assumes "blanking_wf b" and "length native_input div 2 \<le> u32_max"
  shows "\<exists>b' muted. apply_receive_blanking b native_input =
      (b', muted, min (blank_left b) (length native_input div 2)) \<and>
    muted = mute_left (min (blank_left b) (length native_input div 2)) native_input \<and>
    blanking_wf b' \<and> blank_left b' = blank_left b - length native_input div 2"
proof (cases "blk_remaining_ms b \<le> 0")
  case True
  with assms(1) show ?thesis
    by (cases native_input) (auto simp: apply_receive_blanking_def blank_left_def)
next
  case False
  define n where "n = length native_input div 2"
  define r where "r = blk_remainder b"
  define ms where "ms = nat (blk_remaining_ms b)"
  have r: "r < 48" "r \<le> u32_max" and ms: "0 < ms" "blk_remaining_ms b = int ms"
    using assms(1) False by (simp_all add: r_def ms_def blanking_wf_def u32_max_def)
  have e: "elapsed_ms r n = (int ((r + n) div 48), (r + n) mod 48)"
    using r assms(2) by (intro elapsed_ms_eq) (simp_all add: n_def)
  note a = countdown_arith [OF r(1) ms(1), of n]
  have le: "int ms \<le> int ((r + n) div 48) \<longleftrightarrow> ms \<le> (r + n) div 48" by (rule of_nat_le_iff)
  show ?thesis
  proof (cases "ms \<le> (r + n) div 48")
    case True
    then show ?thesis
      using a(1) False e ms le
      by (simp add: apply_receive_blanking_def rx_blanking_advance_def blank_left_def blanking_wf_def
          n_def [symmetric] r_def [symmetric] Let_def min_def)
  next
    case short: False
    then have "n \<le> ms * 48 - r \<and> (ms - (r + n) div 48) * 48 - (r + n) mod 48 = ms * 48 - r - n"
      using a(2) by simp
    moreover have "nat (int ms - int ((r + n) div 48)) = ms - (r + n) div 48"
      by (simp only: of_nat_diff [symmetric] nat_int nat_diff_distrib)
    ultimately show ?thesis
      using short False e ms le
      by (simp add: apply_receive_blanking_def rx_blanking_advance_def blank_left_def blanking_wf_def
          n_def [symmetric] r_def [symmetric] Let_def min_def)
  qed
qed

section \<open>Properties\<close>

lemma mute_left_nth:
  "length (mute_left k xs) = length xs"
  "i < length xs \<Longrightarrow> even (length xs) \<Longrightarrow>
     mute_left k xs ! i = (if even i \<and> i div 2 < k then fp_zero else xs ! i)"
proof -
  show "length (mute_left k xs) = length xs"
    by (induction k xs rule: mute_left.induct) auto
  show "i < length xs \<Longrightarrow> even (length xs) \<Longrightarrow>
     mute_left k xs ! i = (if even i \<and> i div 2 < k then fp_zero else xs ! i)"
  proof (induction k xs arbitrary: i rule: mute_left.induct)
    case (1 k l r rest)
    show ?case
    proof (cases "i < 2")
      case True
      then have "i = 0 \<or> i = 1" by auto
      then show ?thesis by auto
    next
      case False
      then obtain j where j: "i = Suc (Suc j)" by (metis Suc_1 Suc_lessI less_2_cases_iff not0_implies_Suc)
      with 1 show ?thesis by simp
    qed
  qed auto
qed

text \<open>Blanking is a countdown in native frames.  A span mutes the left channel of exactly the
  frames that are still protected and in the span, leaves the right channel and the later frames
  alone, and shortens the protection by its length.\<close>

theorem blanking_is_countdown:
  assumes "blanking_wf b" and "even (length native_input)" and "length native_input div 2 \<le> u32_max"
  shows "\<exists>b' muted. apply_receive_blanking b native_input =
      (b', muted, min (blank_left b) (length native_input div 2)) \<and>
    length muted = length native_input \<and>
    (\<forall>i < length native_input. muted ! i =
       (if even i \<and> i div 2 < min (blank_left b) (length native_input div 2) then fp_zero
        else native_input ! i)) \<and>
    blanking_wf b' \<and> blank_left b' = blank_left b - length native_input div 2"
  using blanking_step [OF assms(1,3)] by (auto simp: mute_left_nth assms(2))

theorem blanking_is_countdown_witness:
  "\<exists>b' muted. apply_receive_blanking (arm_receive_blanking 1 \<lparr>blk_remaining_ms = 0, blk_remainder = 7\<rparr>)
      (replicate 100 (Finite False (1/2))) = (b', muted, 48) \<and> muted ! 94 = fp_zero \<and> blank_left b' = 0"
proof -
  have w: "blanking_wf (arm_receive_blanking 1 \<lparr>blk_remaining_ms = 0, blk_remainder = 7\<rparr>)"
    by (rule arm_blank_left)
  from blanking_is_countdown [OF w, of "replicate 100 (Finite False (1/2))"]
  obtain b' muted where "apply_receive_blanking (arm_receive_blanking 1 \<lparr>blk_remaining_ms = 0, blk_remainder = 7\<rparr>)
      (replicate 100 (Finite False (1/2))) = (b', muted, 48)"
    "\<forall>i < 100. muted ! i = (if even i \<and> i div 2 < 48 then fp_zero else replicate 100 (Finite False (1/2)) ! i)"
    "blank_left b' = 0"
    by (auto simp: arm_blank_left u32_max_def)
  moreover from this(2) have "muted ! 94 = fp_zero" by (rule allE [of _ 94]) simp
  ultimately show ?thesis by blast
qed

text \<open>The spans of a stream, with the blanking state carried from one to the next: the state after
  them, the samples of all spans as they leave the stage and the frames reported as blanked.\<close>

fun blank_spans :: "blanking \<Rightarrow> f32 list list \<Rightarrow> blanking \<times> f32 list \<times> nat" where
  "blank_spans b [] = (b, [], 0)"
| "blank_spans b (x # xs) =
     (let (b1, muted, k) = apply_receive_blanking b x; (b2, rest, m) = blank_spans b1 xs
      in (b2, muted @ rest, k + m))"

lemma mute_left_zero [simp]: "mute_left 0 xs = xs"
  by (cases xs) simp_all

lemma mute_left_append:
  "even (length xs) \<Longrightarrow> mute_left k xs @ mute_left (k - length xs div 2) ys = mute_left k (xs @ ys)"
  by (induction k xs rule: mute_left.induct) auto

lemma blank_spans_muted:
  assumes "blanking_wf b" and "\<forall>x \<in> set xs. even (length x) \<and> length x div 2 \<le> u32_max"
  shows "\<exists>b'. blank_spans b xs =
    (b', mute_left (blank_left b) (concat xs), min (blank_left b) (length (concat xs) div 2))"
  using assms
proof (induction xs arbitrary: b)
  case Nil
  then show ?case by (cases "blank_left b") simp_all
next
  case (Cons x xs)
  have x: "even (length x)" "length x div 2 \<le> u32_max" using Cons.prems(2) by simp_all
  from blanking_step [OF Cons.prems(1) x(2)] obtain b' where b':
    "apply_receive_blanking b x = (b', mute_left (min (blank_left b) (length x div 2)) x, min (blank_left b) (length x div 2))"
    "blanking_wf b'" "blank_left b' = blank_left b - length x div 2" by auto
  from Cons.IH [OF b'(2)] Cons.prems(2) obtain c where c: "blank_spans b' xs =
      (c, mute_left (blank_left b') (concat xs), min (blank_left b') (length (concat xs) div 2))" by auto
  have "mute_left (min (blank_left b) (length x div 2)) x = mute_left (blank_left b) x"
    using x(1) by (intro nth_equalityI) (auto simp: mute_left_nth elim!: evenE)
  then have "mute_left (min (blank_left b) (length x div 2)) x @ mute_left (blank_left b') (concat xs) =
      mute_left (blank_left b) (x @ concat xs)"
    using mute_left_append [OF x(1), of "blank_left b" "concat xs"] by (simp add: b'(3))
  moreover have "min (blank_left b) (length x div 2) + min (blank_left b') (length (concat xs) div 2) =
      min (blank_left b) (length (x @ concat xs) div 2)"
    using x(1) by (auto simp: b'(3) min_def)
  ultimately show ?case by (simp add: b'(1) c Let_def)
qed

lemma even_concat: "\<forall>x \<in> set xs. even (length x) \<Longrightarrow> even (length (concat xs))"
  by (induction xs) auto

text \<open>C25: an armed blanking mutes exactly its duration.  After arming for \<open>d\<close> milliseconds, over any list
  of interleaved spans, the left sample of each of the first \<open>48 * d\<close> frames of the stream is zero,
  every right sample and every later left sample passes unchanged, and the frames reported as
  blanked add up to \<open>48 * d\<close>, or to all frames when fewer arrive.\<close>

theorem blanking_total:
  assumes "\<forall>x \<in> set xs. even (length x) \<and> length x div 2 \<le> u32_max"
  shows "\<exists>b' out. blank_spans (arm_receive_blanking d b) xs =
      (b', out, min (nat d * 48) (length (concat xs) div 2)) \<and>
    length out = length (concat xs) \<and>
    (\<forall>i < length (concat xs). out ! i =
      (if even i \<and> i div 2 < nat d * 48 then fp_zero else concat xs ! i))"
proof -
  have "even (length (concat xs))" using assms by (intro even_concat) blast
  then show ?thesis
    using blank_spans_muted [OF arm_blank_left(2) assms, of d b] by (auto simp: arm_blank_left mute_left_nth)
qed

theorem blanking_total_witness:
  "\<exists>b' out. blank_spans (arm_receive_blanking 1 \<lparr>blk_remaining_ms = 5, blk_remainder = 7\<rparr>)
      [replicate 60 (Finite False 1), replicate 80 (Finite False 1)] = (b', out, 48) \<and>
    out ! 94 = fp_zero \<and> out ! 95 = Finite False 1 \<and> out ! 96 = Finite False 1"
proof -
  let ?spans = "[replicate 60 (Finite False 1), replicate 80 (Finite False 1)]"
  have "\<forall>x \<in> set ?spans. even (length x) \<and> length x div 2 \<le> u32_max" by (simp add: u32_max_def)
  from blanking_total [OF this, of 1 "\<lparr>blk_remaining_ms = 5, blk_remainder = 7\<rparr>"] obtain b' out where
    "blank_spans (arm_receive_blanking 1 \<lparr>blk_remaining_ms = 5, blk_remainder = 7\<rparr>) ?spans = (b', out, 48)"
    and "\<forall>i < 140. out ! i = (if even i \<and> i div 2 < 48 then fp_zero else concat ?spans ! i)"
    by auto
  moreover from this(2) have "out ! 94 = fp_zero" "out ! 95 = Finite False 1" "out ! 96 = Finite False 1"
    by (simp_all add: nth_append)
  ultimately show ?thesis by blast
qed

end
