(* ===== verification/Event_Queue.thy ===== *)
theory Event_Queue
  imports Radio_Prelude
begin

text \<open>
  The event queues of \<open>src/session.rs\<close>: a ring of 64 slots with free-running 64-bit indices,
  one producer and one consumer.  \<open>event_push\<close> and \<open>event_pop\<close> are the two operations run
  alone; \<open>queue_step\<close> interleaves their loads, slot accesses and publications.
\<close>

datatype event_kind =
    EventNone | EventCarrier | EventSubaudible | EventReceiverKeyed | EventCtcssDecode
  | EventDcsDecode | EventPtt | EventCtcssTransmit | EventReceiverBlanking | EventProviderFailure

fun event_kind_code :: "event_kind \<Rightarrow> nat" where
  "event_kind_code EventNone = 0"
| "event_kind_code EventCarrier = 1"
| "event_kind_code EventSubaudible = 2"
| "event_kind_code EventReceiverKeyed = 3"
| "event_kind_code EventCtcssDecode = 4"
| "event_kind_code EventDcsDecode = 5"
| "event_kind_code EventPtt = 6"
| "event_kind_code EventCtcssTransmit = 7"
| "event_kind_code EventReceiverBlanking = 8"
| "event_kind_code EventProviderFailure = 9"

record event =
  ev_generation_id :: nat
  ev_sample_index :: nat
  ev_kind :: nat
  ev_value :: int

definition event_default :: event where
  "event_default = \<lparr>ev_generation_id = 0, ev_sample_index = 0,
     ev_kind = event_kind_code EventNone, ev_value = 0\<rparr>"

definition EVENT_CAPACITY :: nat where "EVENT_CAPACITY = 64"

record event_queue =
  eq_storage :: "event list"
  eq_write :: "64 word"
  eq_read :: "64 word"
  eq_drops :: "64 word"

definition event_queue_new :: event_queue where
  "event_queue_new = \<lparr>eq_storage = replicate EVENT_CAPACITY event_default,
     eq_write = 0, eq_read = 0, eq_drops = 0\<rparr>"

definition queue_slot :: "64 word \<Rightarrow> nat" where
  "queue_slot index = unat index mod EVENT_CAPACITY"

definition queue_full :: "64 word \<Rightarrow> 64 word \<Rightarrow> bool" where
  "queue_full write read \<longleftrightarrow> EVENT_CAPACITY \<le> unat (write - read)"

definition event_push :: "event \<Rightarrow> event_queue \<Rightarrow> event_queue" where
  "event_push event q =
     (if queue_full (eq_write q) (eq_read q) then q\<lparr>eq_drops := eq_drops q + 1\<rparr>
      else q\<lparr>eq_storage := (eq_storage q)[queue_slot (eq_write q) := event],
             eq_write := eq_write q + 1\<rparr>)"

definition event_pop :: "event_queue \<Rightarrow> (event \<times> event_queue) option" where
  "event_pop q =
     (if eq_read q = eq_write q then None
      else Some (eq_storage q ! queue_slot (eq_read q), q\<lparr>eq_read := eq_read q + 1\<rparr>))"

section \<open>What the ring holds\<close>

definition queue_count :: "event_queue \<Rightarrow> nat" where
  "queue_count q = unat (eq_write q - eq_read q)"

definition queue_items :: "event_queue \<Rightarrow> event list" where
  "queue_items q = List.map (\<lambda>i. eq_storage q ! ((unat (eq_read q) + i) mod 64)) [0..<queue_count q]"

definition queue_wf :: "event_queue \<Rightarrow> bool" where
  "queue_wf q \<longleftrightarrow> length (eq_storage q) = EVENT_CAPACITY \<and> queue_count q \<le> EVENT_CAPACITY"

lemma length_queue_items [simp]: "length (queue_items q) = queue_count q"
  by (simp add: queue_items_def)

lemma index_mod: "unat (index + of_nat n :: 64 word) mod 64 = (unat index + n) mod 64"
proof -
  have "unat (index + of_nat n :: 64 word) = (unat index + n) mod 2 ^ 64"
    by (simp add: unat_word_ariths unat_of_nat mod_simps)
  then show ?thesis by (simp add: mod_mod_cancel)
qed

lemma write_mod: "queue_slot (eq_write q) = (unat (eq_read q) + queue_count q) mod 64"
proof -
  have "eq_write q = eq_read q + of_nat (queue_count q)"
    by (simp add: queue_count_def)
  then show ?thesis using index_mod [of "eq_read q" "queue_count q"]
    by (simp add: queue_slot_def EVENT_CAPACITY_def)
qed

lemma slots_differ:
  fixes r i d :: nat
  assumes "i < d" and "d < 64"
  shows "(r + i) mod 64 \<noteq> (r + d) mod 64"
proof
  assume "(r + i) mod 64 = (r + d) mod 64"
  then have "(r + d - (r + i)) mod 64 = 0"
    using mod_eq_dvd_iff_nat [of "r + i" "r + d" 64] assms(1) by simp
  then have "(d - i) mod 64 = 0" by simp
  with assms show False by simp
qed

lemma count_succ_write:
  assumes "unat (w - r :: 64 word) < 64"
  shows "unat (w + 1 - r) = unat (w - r) + 1"
proof -
  have e: "w + 1 - r = (w - r) + 1" by simp
  show ?thesis unfolding e using assms by (simp add: unat_word_ariths)
qed

lemma count_succ_read:
  assumes "w \<noteq> (r :: 64 word)"
  shows "unat (w - (r + 1)) = unat (w - r) - 1"
proof -
  have e: "w - (r + 1) = (w - r) - 1" by simp
  show ?thesis unfolding e by (rule unat_minus_one) (use assms in simp)
qed

lemma count_zero_iff: "unat (w - r :: 64 word) = 0 \<longleftrightarrow> r = w"
  by (auto simp: unat_eq_0)

text \<open>Writing the slot at the write index does not disturb the items, and publishing it
  appends it.\<close>

lemma items_write_slot:
  assumes "length (eq_storage q) = 64" and "queue_count q < 64"
  shows "queue_items (q\<lparr>eq_storage := (eq_storage q)[queue_slot (eq_write q) := e]\<rparr>) = queue_items q"
proof -
  have "(eq_storage q)[queue_slot (eq_write q) := e] ! ((unat (eq_read q) + i) mod 64) =
      eq_storage q ! ((unat (eq_read q) + i) mod 64)" if "i < queue_count q" for i
    using slots_differ [OF that assms(2), of "unat (eq_read q)"]
    by (intro nth_list_update_neq) (simp add: write_mod)
  then show ?thesis by (simp add: queue_items_def queue_count_def)
qed

lemma items_publish:
  assumes "queue_count q < 64"
  shows "queue_items (q\<lparr>eq_write := eq_write q + 1\<rparr>) =
    queue_items q @ [eq_storage q ! queue_slot (eq_write q)]"
proof -
  have "queue_count (q\<lparr>eq_write := eq_write q + 1\<rparr>) = queue_count q + 1"
    using assms by (simp add: queue_count_def count_succ_write)
  then show ?thesis
    by (simp add: queue_items_def write_mod)
qed

lemma items_consume:
  assumes "eq_read q \<noteq> eq_write q"
  shows "queue_items q = eq_storage q ! queue_slot (eq_read q) # queue_items (q\<lparr>eq_read := eq_read q + 1\<rparr>)"
proof -
  let ?f = "\<lambda>i. eq_storage q ! ((unat (eq_read q) + i) mod 64)"
  have d: "queue_count q = Suc (queue_count (q\<lparr>eq_read := eq_read q + 1\<rparr>))"
    using assms count_succ_read [of "eq_write q" "eq_read q"] count_zero_iff [of "eq_write q" "eq_read q"]
    by (auto simp: queue_count_def)
  have step: "(unat (eq_read q + 1) + i) mod 64 = (unat (eq_read q) + Suc i) mod 64" for i
  proof -
    have "unat (eq_read q + 1) mod 64 = (unat (eq_read q) + 1) mod 64"
      using index_mod [of "eq_read q" 1] by simp
    from mod_add_cong [OF this, of i i] show ?thesis by simp
  qed
  have "queue_items q = List.map ?f (0 # List.map Suc [0..<queue_count (q\<lparr>eq_read := eq_read q + 1\<rparr>)])"
    by (simp only: queue_items_def d upt_conv_Cons map_Suc_upt zero_less_Suc)
  also have "\<dots> = ?f 0 # queue_items (q\<lparr>eq_read := eq_read q + 1\<rparr>)"
    by (simp add: queue_items_def step o_def)
  finally show ?thesis by (simp add: queue_slot_def EVENT_CAPACITY_def)
qed

lemma push_items:
  assumes "queue_wf q"
  shows "queue_wf (event_push e q)"
    and "queue_items (event_push e q) =
      (if length (queue_items q) < 64 then queue_items q @ [e] else queue_items q)"
    and "eq_drops (event_push e q) = (if length (queue_items q) < 64 then eq_drops q else eq_drops q + 1)"
proof -
  have len: "length (eq_storage q) = 64" and c: "queue_count q \<le> 64"
    using assms by (simp_all add: queue_wf_def EVENT_CAPACITY_def)
  have full: "queue_full (eq_write q) (eq_read q) \<longleftrightarrow> \<not> queue_count q < 64"
    by (auto simp: queue_full_def queue_count_def EVENT_CAPACITY_def)
  show "eq_drops (event_push e q) = (if length (queue_items q) < 64 then eq_drops q else eq_drops q + 1)"
    by (simp add: event_push_def full)
  show "queue_wf (event_push e q)"
    using len c by (auto simp: event_push_def full queue_wf_def queue_count_def count_succ_write EVENT_CAPACITY_def)
  let ?w = "q\<lparr>eq_storage := (eq_storage q)[queue_slot (eq_write q) := e]\<rparr>"
  have w: "queue_count ?w = queue_count q" "queue_slot (eq_write ?w) < 64"
    by (simp_all add: queue_count_def queue_slot_def EVENT_CAPACITY_def)
  have "queue_items (?w\<lparr>eq_write := eq_write ?w + 1\<rparr>) = queue_items q @ [e]" if "queue_count q < 64"
    using items_publish [of ?w] items_write_slot [OF len that, of e] that w len by simp
  then show "queue_items (event_push e q) =
      (if length (queue_items q) < 64 then queue_items q @ [e] else queue_items q)"
    by (simp add: event_push_def full queue_items_def queue_count_def)
qed

lemma pop_items:
  assumes "queue_wf q"
  shows "event_pop q = None \<longleftrightarrow> queue_items q = []"
    and "event_pop q = Some (e, q') \<Longrightarrow> queue_items q = e # queue_items q' \<and> queue_wf q' \<and>
      eq_drops q' = eq_drops q"
proof -
  have "queue_items q = [] \<longleftrightarrow> queue_count q = 0" by (simp add: queue_items_def)
  then show "event_pop q = None \<longleftrightarrow> queue_items q = []"
    by (simp add: event_pop_def queue_count_def count_zero_iff)
  show "queue_items q = e # queue_items q' \<and> queue_wf q' \<and> eq_drops q' = eq_drops q"
    if p: "event_pop q = Some (e, q')"
  proof -
    have ne: "eq_read q \<noteq> eq_write q" and q': "e = eq_storage q ! queue_slot (eq_read q)"
      "q' = q\<lparr>eq_read := eq_read q + 1\<rparr>"
      using p by (auto simp: event_pop_def split: if_splits)
    have "queue_count q' \<le> queue_count q"
      using ne by (simp add: q' queue_count_def count_succ_read)
    with items_consume [OF ne] assms show ?thesis by (simp add: q' queue_wf_def)
  qed
qed

section \<open>A bounded queue and its clients\<close>

text \<open>What the callbacks and the application rely on: a push that fits is appended, one that does
  not fit is counted, and a pop takes the oldest event.  Drops are a 64-bit counter.\<close>

locale bounded_queue =
  fixes push :: "'e \<Rightarrow> 'q \<Rightarrow> 'q"
    and pop :: "'q \<Rightarrow> ('e \<times> 'q) option"
    and items :: "'q \<Rightarrow> 'e list"
    and drops :: "'q \<Rightarrow> 64 word"
    and valid :: "'q \<Rightarrow> bool"
    and capacity :: nat
  assumes push_valid: "valid q \<Longrightarrow> valid (push e q)"
    and push_fits: "valid q \<Longrightarrow> length (items q) < capacity \<Longrightarrow>
      items (push e q) = items q @ [e] \<and> drops (push e q) = drops q"
    and push_full: "valid q \<Longrightarrow> \<not> length (items q) < capacity \<Longrightarrow>
      items (push e q) = items q \<and> drops (push e q) = drops q + 1"
    and pop_none: "valid q \<Longrightarrow> pop q = None \<longleftrightarrow> items q = []"
    and pop_some: "valid q \<Longrightarrow> pop q = Some (e, q') \<Longrightarrow>
      items q = e # items q' \<and> valid q' \<and> drops q' = drops q"

datatype 'e queue_op = Push 'e | Pop

text \<open>A run of operations: the queue at its end, the pushed events it accepted, and the popped
  events.\<close>

fun queue_run :: "('e \<Rightarrow> 'q \<Rightarrow> 'q) \<Rightarrow> ('q \<Rightarrow> ('e \<times> 'q) option) \<Rightarrow> ('q \<Rightarrow> 'e list) \<Rightarrow> nat \<Rightarrow>
    'e queue_op list \<Rightarrow> 'q \<Rightarrow> 'q \<times> 'e list \<times> 'e list" where
  "queue_run push pop items capacity [] q = (q, [], [])"
| "queue_run push pop items capacity (Push e # ops) q =
     (let (q', accepted, popped) = queue_run push pop items capacity ops (push e q)
      in (q', if length (items q) < capacity then e # accepted else accepted, popped))"
| "queue_run push pop items capacity (Pop # ops) q =
     (case pop q of
        None \<Rightarrow> queue_run push pop items capacity ops q
      | Some (e, q1) \<Rightarrow>
          let (q', accepted, popped) = queue_run push pop items capacity ops q1
          in (q', accepted, e # popped))"

fun pushes :: "'e queue_op list \<Rightarrow> 'e list" where
  "pushes [] = []"
| "pushes (Push e # ops) = e # pushes ops"
| "pushes (Pop # ops) = pushes ops"

context bounded_queue
begin

lemma fifo:
  assumes "valid q" and "queue_run push pop items capacity ops q = (q', accepted, popped)"
  shows "valid q' \<and> items q @ accepted = popped @ items q' \<and>
    drops q' = drops q + of_nat (length (pushes ops) - length accepted) \<and>
    length accepted \<le> length (pushes ops)"
  using assms
proof (induction ops arbitrary: q q' accepted popped)
  case Nil
  then show ?case by simp
next
  case (Cons op ops)
  show ?case
  proof (cases op)
    case (Push e)
    with Cons.prems(2) obtain a where r: "queue_run push pop items capacity ops (push e q) = (q', a, popped)"
      "accepted = (if length (items q) < capacity then e # a else a)"
      by (auto simp: case_prod_beta Let_def prod_eq_iff)
    have IH: "valid q' \<and> items (push e q) @ a = popped @ items q' \<and>
        drops q' = drops (push e q) + of_nat (length (pushes ops) - length a) \<and> length a \<le> length (pushes ops)"
      by (rule Cons.IH [OF push_valid [OF Cons.prems(1)] r(1)])
    show ?thesis
    proof (cases "length (items q) < capacity")
      case True
      with IH r(2) push_fits [OF Cons.prems(1) True, of e] Push show ?thesis by simp
    next
      case False
      have "of_nat (Suc (length (pushes ops)) - length a) = (1 :: 64 word) + of_nat (length (pushes ops) - length a)"
        using IH by (simp add: Suc_diff_le)
      with False IH r(2) push_full [OF Cons.prems(1) False, of e] Push show ?thesis by simp
    qed
  next
    case Pop
    show ?thesis
    proof (cases "pop q")
      case None
      with Pop Cons.prems Cons.IH [of q] show ?thesis by simp
    next
      case (Some r)
      then obtain e q1 where q1: "pop q = Some (e, q1)" by (cases r) simp
      with Pop Cons.prems(2) obtain p where "queue_run push pop items capacity ops q1 = (q', accepted, p)"
        "popped = e # p"
        by (auto simp: case_prod_beta Let_def prod_eq_iff)
      with Cons.IH [of q1] pop_some [OF Cons.prems(1) q1] Pop show ?thesis by simp
    qed
  qed
qed

end

interpretation events: bounded_queue event_push event_pop queue_items eq_drops queue_wf EVENT_CAPACITY
proof
  fix q :: event_queue and e :: event
  assume wf: "queue_wf q"
  show "queue_wf (event_push e q)" by (rule push_items(1) [OF wf])
  show "length (queue_items q) < EVENT_CAPACITY \<Longrightarrow>
      queue_items (event_push e q) = queue_items q @ [e] \<and> eq_drops (event_push e q) = eq_drops q"
    using push_items [OF wf, of e] by (simp add: EVENT_CAPACITY_def)
  show "\<not> length (queue_items q) < EVENT_CAPACITY \<Longrightarrow>
      queue_items (event_push e q) = queue_items q \<and> eq_drops (event_push e q) = eq_drops q + 1"
    using push_items [OF wf, of e] by (simp add: EVENT_CAPACITY_def)
  show "(event_pop q = None) = (queue_items q = [])" by (rule pop_items(1) [OF wf])
  show "event_pop q = Some (e, q') \<Longrightarrow> queue_items q = e # queue_items q' \<and> queue_wf q' \<and> eq_drops q' = eq_drops q"
    for q' by (rule pop_items(2) [OF wf])
qed

lemma queue_wf_new: "queue_wf event_queue_new" "queue_items event_queue_new = []" "eq_drops event_queue_new = 0"
  by (simp_all add: queue_wf_def event_queue_new_def queue_count_def queue_items_def)

section \<open>One producer and one consumer\<close>

text \<open>The shared queue, where each side is in its operation, and the history: the events
  published so far and the events handed out.  A side holds the index values it has loaded.\<close>

datatype producer =
    Producer_Idle
  | Producer_Write_Loaded event "64 word"
  | Producer_Loaded event "64 word" "64 word"
  | Producer_Stored event "64 word"

datatype consumer =
    Consumer_Idle
  | Consumer_Read_Loaded "64 word"
  | Consumer_Loaded "64 word" "64 word"
  | Consumer_Copied event "64 word"

record shared_queue =
  sq_queue :: event_queue
  sq_producer :: producer
  sq_consumer :: consumer
  sq_published :: "event list"
  sq_taken :: "event list"

definition shared_new :: shared_queue where
  "shared_new = \<lparr>sq_queue = event_queue_new, sq_producer = Producer_Idle,
     sq_consumer = Consumer_Idle, sq_published = [], sq_taken = []\<rparr>"

text \<open>One atomic access of either side.  An acquire load of the other side's index may return
  a stale value: any read index that is not ahead of the true one, and any write index that is
  not ahead of the published one.\<close>

inductive queue_step :: "shared_queue \<Rightarrow> shared_queue \<Rightarrow> bool" where
  push_load_write: "sq_producer s = Producer_Idle \<Longrightarrow>
     queue_step s (s\<lparr>sq_producer := Producer_Write_Loaded e (eq_write (sq_queue s))\<rparr>)"
| push_load_read: "sq_producer s = Producer_Write_Loaded e w \<Longrightarrow>
     queue_count (sq_queue s) \<le> unat (w - r) \<Longrightarrow> unat (w - r) \<le> EVENT_CAPACITY \<Longrightarrow>
     queue_step s (s\<lparr>sq_producer := Producer_Loaded e w r\<rparr>)"
| push_drop: "sq_producer s = Producer_Loaded e w r \<Longrightarrow> queue_full w r \<Longrightarrow>
     queue_step s (s\<lparr>sq_queue := (sq_queue s)\<lparr>eq_drops := eq_drops (sq_queue s) + 1\<rparr>,
       sq_producer := Producer_Idle\<rparr>)"
| push_store: "sq_producer s = Producer_Loaded e w r \<Longrightarrow> \<not> queue_full w r \<Longrightarrow>
     queue_step s (s\<lparr>sq_queue := (sq_queue s)\<lparr>eq_storage := (eq_storage (sq_queue s))[queue_slot w := e]\<rparr>,
       sq_producer := Producer_Stored e w\<rparr>)"
| push_publish: "sq_producer s = Producer_Stored e w \<Longrightarrow>
     queue_step s (s\<lparr>sq_queue := (sq_queue s)\<lparr>eq_write := w + 1\<rparr>, sq_producer := Producer_Idle,
       sq_published := sq_published s @ [e]\<rparr>)"
| pop_load_read: "sq_consumer s = Consumer_Idle \<Longrightarrow>
     queue_step s (s\<lparr>sq_consumer := Consumer_Read_Loaded (eq_read (sq_queue s))\<rparr>)"
| pop_load_write: "sq_consumer s = Consumer_Read_Loaded r \<Longrightarrow>
     unat (w - r) \<le> queue_count (sq_queue s) \<Longrightarrow>
     queue_step s (s\<lparr>sq_consumer := Consumer_Loaded r w\<rparr>)"
| pop_empty: "sq_consumer s = Consumer_Loaded r w \<Longrightarrow> r = w \<Longrightarrow>
     queue_step s (s\<lparr>sq_consumer := Consumer_Idle\<rparr>)"
| pop_copy: "sq_consumer s = Consumer_Loaded r w \<Longrightarrow> r \<noteq> w \<Longrightarrow>
     queue_step s (s\<lparr>sq_consumer := Consumer_Copied (eq_storage (sq_queue s) ! queue_slot r) r\<rparr>)"
| pop_publish: "sq_consumer s = Consumer_Copied e r \<Longrightarrow>
     queue_step s (s\<lparr>sq_queue := (sq_queue s)\<lparr>eq_read := r + 1\<rparr>, sq_consumer := Consumer_Idle,
       sq_taken := sq_taken s @ [e]\<rparr>)"

inductive queue_reachable :: "shared_queue \<Rightarrow> bool" where
  queue_start: "queue_reachable shared_new"
| queue_next: "queue_reachable s \<Longrightarrow> queue_step s s' \<Longrightarrow> queue_reachable s'"

fun producer_ok :: "event_queue \<Rightarrow> producer \<Rightarrow> bool" where
  "producer_ok q Producer_Idle = True"
| "producer_ok q (Producer_Write_Loaded e w) = (w = eq_write q)"
| "producer_ok q (Producer_Loaded e w r) = (w = eq_write q \<and> queue_count q \<le> unat (w - r))"
| "producer_ok q (Producer_Stored e w) =
     (w = eq_write q \<and> queue_count q < 64 \<and> eq_storage q ! queue_slot w = e)"

fun consumer_ok :: "event_queue \<Rightarrow> consumer \<Rightarrow> bool" where
  "consumer_ok q Consumer_Idle = True"
| "consumer_ok q (Consumer_Read_Loaded r) = (r = eq_read q)"
| "consumer_ok q (Consumer_Loaded r w) = (r = eq_read q \<and> (r \<noteq> w \<longrightarrow> eq_read q \<noteq> eq_write q))"
| "consumer_ok q (Consumer_Copied e r) =
     (r = eq_read q \<and> eq_read q \<noteq> eq_write q \<and> e = eq_storage q ! queue_slot r)"

definition shared_ok :: "shared_queue \<Rightarrow> bool" where
  "shared_ok s \<longleftrightarrow> queue_wf (sq_queue s) \<and> producer_ok (sq_queue s) (sq_producer s) \<and>
     consumer_ok (sq_queue s) (sq_consumer s) \<and>
     sq_published s = sq_taken s @ queue_items (sq_queue s)"

lemma shared_ok_new: "shared_ok shared_new"
  using queue_wf_new by (simp add: shared_ok_def shared_new_def)

lemma read_slot_not_write:
  assumes "eq_read q \<noteq> eq_write q" and "queue_count q < 64"
  shows "queue_slot (eq_read q) \<noteq> queue_slot (eq_write q)"
proof -
  have "0 < queue_count q"
    using assms(1) count_zero_iff [of "eq_write q" "eq_read q"] by (simp add: queue_count_def)
  from slots_differ [OF this assms(2), of "unat (eq_read q)"] show ?thesis
    by (simp add: write_mod) (simp add: queue_slot_def EVENT_CAPACITY_def)
qed

lemma shared_ok_store:
  assumes "shared_ok s" and "sq_producer s = Producer_Loaded e w r" and "\<not> queue_full w r"
  shows "shared_ok (s\<lparr>sq_queue := (sq_queue s)\<lparr>eq_storage := (eq_storage (sq_queue s))[queue_slot w := e]\<rparr>,
     sq_producer := Producer_Stored e w\<rparr>)"
proof -
  let ?q = "sq_queue s"
  let ?q' = "?q\<lparr>eq_storage := (eq_storage ?q)[queue_slot w := e]\<rparr>"
  have w: "w = eq_write ?q" and c: "queue_count ?q < 64" and len: "length (eq_storage ?q) = 64"
    using assms by (auto simp: shared_ok_def queue_full_def queue_wf_def EVENT_CAPACITY_def)
  have same: "queue_count ?q' = queue_count ?q" "queue_items ?q' = queue_items ?q"
    using items_write_slot [OF len c, of e] by (simp_all add: queue_count_def w)
  have "queue_slot w < 64" by (simp add: queue_slot_def EVENT_CAPACITY_def)
  moreover have "consumer_ok ?q' (sq_consumer s)"
    using assms(1) read_slot_not_write [of ?q] c
    by (cases "sq_consumer s") (auto simp: shared_ok_def w)
  ultimately show ?thesis
    using assms(1) same c len by (simp add: shared_ok_def queue_wf_def w)
qed

lemma shared_ok_push_publish:
  assumes "shared_ok s" and "sq_producer s = Producer_Stored e w"
  shows "shared_ok (s\<lparr>sq_queue := (sq_queue s)\<lparr>eq_write := w + 1\<rparr>, sq_producer := Producer_Idle,
     sq_published := sq_published s @ [e]\<rparr>)"
proof -
  let ?q = "sq_queue s"
  have w: "w = eq_write ?q" and c: "queue_count ?q < 64" and e: "eq_storage ?q ! queue_slot w = e"
    using assms by (auto simp: shared_ok_def)
  have cnt: "queue_count (?q\<lparr>eq_write := w + 1\<rparr>) = queue_count ?q + 1"
    using c by (simp add: queue_count_def w count_succ_write)
  then have ne: "eq_read ?q \<noteq> w + 1"
    using count_zero_iff [of "w + 1" "eq_read ?q"] by (auto simp: queue_count_def)
  have "consumer_ok (?q\<lparr>eq_write := w + 1\<rparr>) (sq_consumer s)"
    using assms(1) ne by (cases "sq_consumer s") (auto simp: shared_ok_def)
  with items_publish [OF c] cnt c e assms(1) show ?thesis
    by (simp add: shared_ok_def queue_wf_def EVENT_CAPACITY_def w)
qed

lemma shared_ok_pop_publish:
  assumes "shared_ok s" and "sq_consumer s = Consumer_Copied e r"
  shows "shared_ok (s\<lparr>sq_queue := (sq_queue s)\<lparr>eq_read := r + 1\<rparr>, sq_consumer := Consumer_Idle,
     sq_taken := sq_taken s @ [e]\<rparr>)"
proof -
  let ?q = "sq_queue s"
  have r: "r = eq_read ?q" and ne: "eq_read ?q \<noteq> eq_write ?q" and e: "e = eq_storage ?q ! queue_slot r"
    using assms by (auto simp: shared_ok_def)
  have cnt: "queue_count (?q\<lparr>eq_read := r + 1\<rparr>) \<le> queue_count ?q"
    using ne by (simp add: queue_count_def r count_succ_read)
  have "producer_ok (?q\<lparr>eq_read := r + 1\<rparr>) (sq_producer s)"
    using assms(1) cnt by (cases "sq_producer s") (auto simp: shared_ok_def)
  with items_consume [OF ne] cnt e assms(1) show ?thesis
    by (simp add: shared_ok_def queue_wf_def r)
qed

lemma shared_ok_step:
  assumes "queue_step s s'" and "shared_ok s"
  shows "shared_ok s'"
  using assms
proof (cases rule: queue_step.cases)
  case (push_drop e w r)
  have "queue_items ((sq_queue s)\<lparr>eq_drops := x\<rparr>) = queue_items (sq_queue s)" for x
    by (simp add: queue_items_def queue_count_def)
  moreover have "consumer_ok ((sq_queue s)\<lparr>eq_drops := x\<rparr>) (sq_consumer s)" for x
    using assms(2) by (cases "sq_consumer s") (auto simp: shared_ok_def)
  ultimately show ?thesis
    using push_drop assms(2) by (simp add: shared_ok_def queue_wf_def queue_count_def)
next
  case (push_store e w r)
  with shared_ok_store assms(2) show ?thesis by blast
next
  case (push_publish e w)
  with shared_ok_push_publish assms(2) show ?thesis by blast
next
  case (pop_publish e r)
  with shared_ok_pop_publish assms(2) show ?thesis by blast
next
  case (pop_load_write r w)
  have "r \<noteq> w \<Longrightarrow> eq_read (sq_queue s) \<noteq> eq_write (sq_queue s)"
    using pop_load_write(3) count_zero_iff [of w r]
      count_zero_iff [of "eq_write (sq_queue s)" "eq_read (sq_queue s)"]
    by (auto simp: queue_count_def)
  with pop_load_write assms(2) show ?thesis by (auto simp: shared_ok_def)
qed (auto simp: shared_ok_def)

lemma reachable_ok: "queue_reachable s \<Longrightarrow> shared_ok s"
  by (induction rule: queue_reachable.induct) (auto intro: shared_ok_new shared_ok_step)

section \<open>Properties\<close>

text \<open>C26: the ring is a bounded FIFO.  Over any sequence of pushes and pops on a new queue the
  events taken out are a prefix of the accepted ones in order, the rest is still in the queue, and
  every push is either accepted or counted as a drop.\<close>

theorem event_queue_fifo:
  assumes "queue_run event_push event_pop queue_items EVENT_CAPACITY ops event_queue_new = (q, accepted, popped)"
  shows "accepted = popped @ queue_items q \<and> length (queue_items q) \<le> EVENT_CAPACITY \<and>
    eq_drops q = of_nat (length (pushes ops) - length accepted)"
  using events.fifo [OF queue_wf_new(1) assms] queue_wf_new(2,3) by (simp add: queue_wf_def)

theorem event_queue_fifo_witness:
  "\<exists>q. queue_run event_push event_pop queue_items EVENT_CAPACITY [Push (event_default\<lparr>ev_kind := 6\<rparr>), Pop]
      event_queue_new = (q, [event_default\<lparr>ev_kind := 6\<rparr>], [event_default\<lparr>ev_kind := 6\<rparr>]) \<and> queue_items q = []"
proof -
  let ?e = "event_default\<lparr>ev_kind := 6\<rparr>"
  obtain q a p where r: "queue_run event_push event_pop queue_items EVENT_CAPACITY [Push ?e, Pop] event_queue_new = (q, a, p)"
    by (metis prod_cases3)
  have "a = [?e]" "p = [?e]"
    using r queue_wf_new(2)
    by (auto simp: event_push_def event_pop_def queue_full_def event_queue_new_def queue_slot_def queue_count_def
        EVENT_CAPACITY_def split: option.splits)
  with event_queue_fifo [OF r] r show ?thesis by auto
qed

text \<open>C27: the lock-free protocol is safe in every interleaving.  In each reachable state of one
  producer and one consumer, stale index loads included, the events taken are a prefix of the
  events published, in order, and nothing between them is lost; the queue never holds more than
  its capacity; and when the producer is about to store while the consumer is about to copy, they
  access different slots.\<close>

theorem event_queue_interleaving:
  assumes "queue_reachable s"
  shows "sq_published s = sq_taken s @ queue_items (sq_queue s) \<and>
    length (queue_items (sq_queue s)) \<le> EVENT_CAPACITY \<and>
    (\<forall>e w r r' w'. sq_producer s = Producer_Loaded e w r \<and> \<not> queue_full w r \<and>
       sq_consumer s = Consumer_Loaded r' w' \<and> r' \<noteq> w' \<longrightarrow> queue_slot w \<noteq> queue_slot r')"
proof -
  note ok = reachable_ok [OF assms, unfolded shared_ok_def]
  have "queue_slot w \<noteq> queue_slot r'"
    if "sq_producer s = Producer_Loaded e w r" "\<not> queue_full w r"
      "sq_consumer s = Consumer_Loaded r' w'" "r' \<noteq> w'" for e w r r' w'
    using ok that read_slot_not_write [of "sq_queue s"] by (auto simp: queue_full_def EVENT_CAPACITY_def)
  with ok show ?thesis by (auto simp: queue_wf_def)
qed

theorem event_queue_interleaving_witness:
  "sq_published (shared_new\<lparr>sq_producer := Producer_Write_Loaded event_default 0\<rparr>) =
   sq_taken (shared_new\<lparr>sq_producer := Producer_Write_Loaded event_default 0\<rparr>) @
   queue_items (sq_queue (shared_new\<lparr>sq_producer := Producer_Write_Loaded event_default 0\<rparr>))"
proof -
  have "queue_step shared_new (shared_new\<lparr>sq_producer := Producer_Write_Loaded event_default 0\<rparr>)"
    using push_load_write [of shared_new event_default] by (simp add: shared_new_def event_queue_new_def)
  then have "queue_reachable (shared_new\<lparr>sq_producer := Producer_Write_Loaded event_default 0\<rparr>)"
    by (rule queue_next [OF queue_start])
  from event_queue_interleaving [OF this] show ?thesis by blast
qed

end
