(* ===== verification/Fixed_Stage.thy ===== *)
theory Fixed_Stage
  imports Audio_Meter
begin

text \<open>
  What the fixed-point receiver stages share.  Each of them quantizes the whole span first, which
  rejects a non-finite sample before anything is changed, and then runs its per-sample arithmetic
  on the codes.
\<close>

fun pcm_codes :: "f32 list \<Rightarrow> int list result" where
  "pcm_codes [] = Inr []"
| "pcm_codes (x # xs) =
     bind_result (f32_to_pcm_code x) (\<lambda>c. bind_result (pcm_codes xs) (\<lambda>cs. Inr (c # cs)))"

definition coded_span :: "('s \<Rightarrow> int \<Rightarrow> 's \<times> 'y) \<Rightarrow> 's \<Rightarrow> f32 list \<Rightarrow> ('s \<times> 'y list) result" where
  "coded_span step state input =
     bind_result (pcm_codes input) (\<lambda>codes. Inr (step_samples step state codes))"

definition pcm_code :: "f32 \<Rightarrow> int" where
  "pcm_code x = (case f32_to_pcm_code x of Inl _ \<Rightarrow> 0 | Inr c \<Rightarrow> c)"

lemma f32_to_pcm_code_cases:
  "f32_to_pcm_code x = (if is_finite x then Inr (pcm_code x) else Inl INVALID_ARGUMENT)"
  by (simp add: pcm_code_def f32_to_pcm_code_def)

lemma pcm_code_i16: "is_finite x \<Longrightarrow> in_i16 (pcm_code x)"
  using f32_to_pcm_code_i16(2) [of x "pcm_code x"] by (simp add: f32_to_pcm_code_cases)

lemma pcm_codes_eq:
  "pcm_codes xs = (if list_all is_finite xs then Inr (List.map pcm_code xs) else Inl INVALID_ARGUMENT)"
  by (induction xs) (auto simp: f32_to_pcm_code_cases)

lemma coded_span_eq:
  "coded_span step s xs = (if list_all is_finite xs
     then Inr (step_samples step s (List.map pcm_code xs)) else Inl INVALID_ARGUMENT)"
  by (simp add: coded_span_def pcm_codes_eq)

lemma coded_span_append:
  assumes "coded_span step s xs = Inr (s1, ys)" and "coded_span step s1 zs = Inr (s2, ws)"
  shows "coded_span step s (xs @ zs) = Inr (s2, ys @ ws)"
  using assms by (auto simp: coded_span_eq step_samples_append Let_def split: if_splits)

text \<open>A stage that agrees with a coded span on its valid states and non-empty spans satisfies the
  contract.\<close>

lemma coded_span_stage:
  assumes keep: "\<And>s c. valid s \<Longrightarrow> in_i16 c \<Longrightarrow> valid (fst (step s c))"
    and agree: "\<And>s xs. valid s \<Longrightarrow> xs \<noteq> [] \<Longrightarrow> process s xs = coded_span step s xs"
    and empty: "\<And>s. valid s \<Longrightarrow> \<exists>s'. process s [] = Inr (s', []) \<and> valid s'"
    and reject: "\<And>s xs. \<not> list_all is_finite xs \<Longrightarrow> \<exists>e. process s xs = Inl e"
  shows "span_stage process is_finite valid"
proof
  fix s xs
  assume v: "valid s" and xs: "list_all is_finite xs"
  show "\<exists>s' ys. process s xs = Inr (s', ys) \<and> length ys = length xs \<and> valid s'"
  proof (cases "xs = []")
    case True
    with empty [OF v] show ?thesis by auto
  next
    case False
    have "valid (fst (step_samples step s (List.map pcm_code xs)))"
      by (rule step_samples_invariant [of valid]) (use keep v xs pcm_code_i16 in \<open>auto simp: list_all_iff\<close>)
    with xs show ?thesis
      using length_step_samples [of step s "List.map pcm_code xs"]
      by (cases "step_samples step s (List.map pcm_code xs)") (simp add: coded_span_eq agree [OF v False])
  qed
next
  show "valid s \<Longrightarrow> \<not> list_all is_finite xs \<Longrightarrow> \<exists>e. process s xs = Inl e" for s xs
    by (rule reject)
next
  fix s xs s1 ys zs s2 ws
  assume v: "valid s" and ne: "xs \<noteq> []" "zs \<noteq> []"
    and p: "process s xs = Inr (s1, ys)" "process s1 zs = Inr (s2, ws)"
  have xs: "list_all is_finite xs" and s1: "s1 = fst (step_samples step s (List.map pcm_code xs))"
    using p(1) agree [OF v ne(1)] by (auto simp: coded_span_eq split: if_splits)
  have "valid s1"
    unfolding s1 by (rule step_samples_invariant [of valid]) (use keep v xs pcm_code_i16 in \<open>auto simp: list_all_iff\<close>)
  then have "coded_span step s1 zs = Inr (s2, ws)" using agree ne p(2) by metis
  moreover have "coded_span step s xs = Inr (s1, ys)" using agree [OF v ne(1)] p(1) by simp
  ultimately show "process s (xs @ zs) = Inr (s2, ys @ ws)"
    using coded_span_append agree [OF v, of "xs @ zs"] ne by simp
qed

end
