(* ===== verification/Fir.thy ===== *)
theory Fir
  imports Fixed_Stage
begin

text \<open>
  The fixed-point FIR filter of the receiver (\<open>src/fir.rs\<close>).  \<open>fc_\<close> are the fields of its
  \<open>Controls\<close>.  The history is the list of the caller's \<open>i16\<close> slots, newest first.
\<close>

definition LEGACY_GAIN_DIVISOR :: int where "LEGACY_GAIN_DIVISOR = 256"

record fir_controls =
  fc_nx :: nat
  fc_input_gain :: int
  fc_output_gain :: int
  fc_calc_adjust :: int

definition fir_rejected :: "fir_controls \<Rightarrow> int list \<Rightarrow> int list \<Rightarrow> bool" where
  "fir_rejected controls history coefficients \<longleftrightarrow>
     fc_nx controls = 0 \<or> length history < fc_nx controls \<or> length coefficients < fc_nx controls \<or>
     fc_calc_adjust controls = 0"

text \<open>\<open>copy_within(0..nx - 1, 1)\<close>, then the new head.\<close>

definition shift_history :: "nat \<Rightarrow> int \<Rightarrow> int list \<Rightarrow> int list" where
  "shift_history nx head history = head # take (nx - 1) history @ drop nx history"

fun fir_accumulate :: "int list \<Rightarrow> int list \<Rightarrow> nat \<Rightarrow> nat \<Rightarrow> int \<Rightarrow> int" where
  "fir_accumulate coefficients history tap 0 accumulator = accumulator"
| "fir_accumulate coefficients history tap (Suc n) accumulator =
     fir_accumulate coefficients history (tap + 1) n
       (wrap_i64 (accumulator + wrap_i64 (coefficients ! tap * history ! tap)))"

definition fir_scale :: "fir_controls \<Rightarrow> int \<Rightarrow> int" where
  "fir_scale controls input = wrap_i16 (wrap_i32 (input * fc_input_gain controls) sdiv LEGACY_GAIN_DIVISOR)"

definition fir_process_code ::
  "int list \<Rightarrow> fir_controls \<Rightarrow> int list \<Rightarrow> int \<Rightarrow> (int list \<times> int) result" where
  "fir_process_code coefficients controls history input =
     (if fir_rejected controls history coefficients then Inl INVALID_ARGUMENT
      else
        let history = shift_history (fc_nx controls) (fir_scale controls input) history;
            accumulator = fir_accumulate coefficients history 0 (fc_nx controls) 0;
            sample = wrap_i64 (accumulator sdiv fc_calc_adjust controls * fc_output_gain controls)
                       sdiv LEGACY_GAIN_DIVISOR
        in Inr (history, wrap_i16 (max (-32767) (min 32767 sample))))"

fun fir_codes ::
  "int list \<Rightarrow> fir_controls \<Rightarrow> int list \<Rightarrow> int list \<Rightarrow> (int list \<times> f32 list) result" where
  "fir_codes coefficients controls history [] = Inr (history, [])"
| "fir_codes coefficients controls history (c # cs) =
     bind_result (fir_process_code coefficients controls history c) (\<lambda>(history, sample).
     bind_result (fir_codes coefficients controls history cs) (\<lambda>(history, samples).
     Inr (history, pcm_to_f32 sample # samples)))"

definition fir_process_normalized ::
  "int list \<Rightarrow> fir_controls \<Rightarrow> int list \<Rightarrow> f32 list \<Rightarrow> (int list \<times> f32 list) result" where
  "fir_process_normalized coefficients controls history input =
     (if fir_rejected controls history coefficients then Inl INVALID_ARGUMENT
      else bind_result (pcm_codes input) (fir_codes coefficients controls history))"

text \<open>The entry point: the whole history is active, and an empty span returns at once.\<close>

definition fir_process ::
  "int list \<Rightarrow> int \<Rightarrow> int \<Rightarrow> int \<Rightarrow> int list \<Rightarrow> f32 list \<Rightarrow> (int list \<times> f32 list) result" where
  "fir_process coefficients input_gain output_gain calc_adjust history input =
     (if input = [] then Inr (history, [])
      else if history = [] \<or> calc_adjust = 0 then Inl INVALID_ARGUMENT
      else fir_process_normalized coefficients
             \<lparr>fc_nx = length history, fc_input_gain = input_gain, fc_output_gain = output_gain,
              fc_calc_adjust = calc_adjust\<rparr> history input)"

section \<open>The stage\<close>

definition fir_valid :: "int list \<Rightarrow> fir_controls \<Rightarrow> int list \<Rightarrow> bool" where
  "fir_valid coefficients controls history \<longleftrightarrow>
     \<not> fir_rejected controls history coefficients \<and> length history = fc_nx controls"

definition fir_step :: "int list \<Rightarrow> fir_controls \<Rightarrow> int list \<Rightarrow> int \<Rightarrow> int list \<times> f32" where
  "fir_step coefficients controls history c =
     (case fir_process_code coefficients controls history c of
        Inl _ \<Rightarrow> (history, fp_zero) | Inr (h, sample) \<Rightarrow> (h, pcm_to_f32 sample))"

lemma length_shift_history [simp]: "0 < nx \<Longrightarrow> nx \<le> length h \<Longrightarrow> length (shift_history nx x h) = length h"
  by (simp add: shift_history_def)

lemma fir_step_valid:
  "fir_valid coefficients controls h \<Longrightarrow> fir_valid coefficients controls (fst (fir_step coefficients controls h c))"
  by (auto simp: fir_step_def fir_process_code_def fir_valid_def fir_rejected_def Let_def)

lemma fir_codes_steps:
  assumes "fir_valid coefficients controls h"
  shows "fir_codes coefficients controls h cs = Inr (step_samples (fir_step coefficients controls) h cs)"
  using assms
proof (induction cs arbitrary: h)
  case Nil
  then show ?case by simp
next
  case (Cons c cs)
  from Cons.prems obtain h' y where p: "fir_process_code coefficients controls h c = Inr (h', y)"
    by (auto simp: fir_process_code_def fir_valid_def Let_def)
  then have s: "fir_step coefficients controls h c = (h', pcm_to_f32 y)"
    by (simp add: fir_step_def)
  have "fir_valid coefficients controls h'"
    using fir_step_valid [OF Cons.prems, of c] s by simp
  with Cons.IH p s show ?case by (simp add: case_prod_beta Let_def)
qed

lemma fir_normalized_eq:
  assumes "fir_valid coefficients controls h"
  shows "fir_process_normalized coefficients controls h xs = coded_span (fir_step coefficients controls) h xs"
  using assms
  by (simp add: fir_process_normalized_def pcm_codes_eq coded_span_eq fir_codes_steps) (simp add: fir_valid_def)

interpretation fir_stage: span_stage "fir_process_normalized coefficients controls" is_finite
  "fir_valid coefficients controls" for coefficients controls
  by (rule coded_span_stage [where step = "fir_step coefficients controls"])
    (auto simp: fir_step_valid fir_normalized_eq coded_span_eq,
     auto simp: fir_process_normalized_def pcm_codes_eq)

lemma fir_history_step:
  "fir_valid coefficients controls h \<Longrightarrow> fst (fir_step coefficients controls h c) =
     take (length h) (fir_scale controls c # h)"
  by (cases "length h")
    (auto simp: fir_step_def fir_process_code_def fir_valid_def fir_rejected_def shift_history_def take_Cons' Let_def)

lemma fir_history_steps:
  assumes "fir_valid coefficients controls h"
  shows "fst (step_samples (fir_step coefficients controls) h cs) =
    take (length h) (rev (List.map (fir_scale controls) cs) @ h)"
  using assms
proof (induction cs arbitrary: h)
  case Nil
  then show ?case by simp
next
  case (Cons c cs)
  let ?h = "fst (fir_step coefficients controls h c)"
  have h: "?h = take (length h) (fir_scale controls c # h)" by (rule fir_history_step [OF Cons.prems])
  have len: "length ?h = length h" by (simp add: h)
  have "fst (step_samples (fir_step coefficients controls) h (c # cs)) =
      take (length h) (rev (List.map (fir_scale controls) cs) @ take (length h) (fir_scale controls c # h))"
    using Cons.IH [OF fir_step_valid [OF Cons.prems, of c]] len
    by (simp add: case_prod_beta Let_def h)
  also have "\<dots> = take (length h) (rev (List.map (fir_scale controls) cs) @ fir_scale controls c # h)"
    by (simp add: take_append min_def)
  finally show ?case by simp
qed

text \<open>A product of two 16-bit values, and the sum of at most 1024 of them, fit easily.\<close>

lemma i16_product: "in_i16 a \<Longrightarrow> in_i16 b \<Longrightarrow> \<bar>a * b\<bar> \<le> 1073741824"
proof -
  assume "in_i16 a" "in_i16 b"
  then have "\<bar>a\<bar> \<le> 32768" "\<bar>b\<bar> \<le> 32768" by (auto simp: in_i16_def)
  then have "\<bar>a\<bar> * \<bar>b\<bar> \<le> 32768 * 32768" by (intro mult_mono) auto
  then show ?thesis by (simp add: abs_mult)
qed

lemma fir_accumulate_exact:
  assumes "\<forall>i < tap + n. in_i16 (coefficients ! i) \<and> in_i16 (history ! i)"
    and "\<bar>accumulator\<bar> \<le> int tap * 1073741824" and "tap + n \<le> 1024"
  shows "fir_accumulate coefficients history tap n accumulator =
      accumulator + (\<Sum>i = tap..<tap + n. coefficients ! i * history ! i)
    \<and> \<bar>fir_accumulate coefficients history tap n accumulator\<bar> \<le> int (tap + n) * 1073741824"
  using assms
proof (induction n arbitrary: tap accumulator)
  case 0
  then show ?case by simp
next
  case (Suc n)
  let ?p = "coefficients ! tap * history ! tap"
  have p: "\<bar>?p\<bar> \<le> 1073741824" using Suc.prems(1) by (intro i16_product) auto
  have t: "int tap * 1073741824 \<le> 1023 * 1073741824"
    using Suc.prems(3) by (intro mult_right_mono) auto
  have a: "\<bar>accumulator + ?p\<bar> \<le> int (tap + 1) * 1073741824"
    using p Suc.prems(2) by (simp add: algebra_simps)
  have "wrap_i64 ?p = ?p" by (rule wrap_i64_id) (use p in \<open>auto simp: in_i64_def\<close>)
  moreover have "wrap_i64 (accumulator + ?p) = accumulator + ?p"
    by (rule wrap_i64_id) (use p t Suc.prems(2) in \<open>auto simp: in_i64_def\<close>)
  ultimately have eq1: "fir_accumulate coefficients history tap (Suc n) accumulator =
      fir_accumulate coefficients history (tap + 1) n (accumulator + ?p)" by simp
  have sum1: "(\<Sum>i = tap..<tap + Suc n. coefficients ! i * history ! i) =
      ?p + (\<Sum>i = tap + 1..<tap + 1 + n. coefficients ! i * history ! i)"
    by (subst sum.atLeast_Suc_lessThan) auto
  have IH: "fir_accumulate coefficients history (tap + 1) n (accumulator + ?p) =
      accumulator + ?p + (\<Sum>i = tap + 1..<tap + 1 + n. coefficients ! i * history ! i)
    \<and> \<bar>fir_accumulate coefficients history (tap + 1) n (accumulator + ?p)\<bar> \<le> int (tap + 1 + n) * 1073741824"
    by (rule Suc.IH) (use a Suc.prems(1,3) in auto)
  show ?case
  proof
    show "fir_accumulate coefficients history tap (Suc n) accumulator =
        accumulator + (\<Sum>i = tap..<tap + Suc n. coefficients ! i * history ! i)"
      unfolding eq1 sum1 using IH by (simp only: add.assoc)
    show "\<bar>fir_accumulate coefficients history tap (Suc n) accumulator\<bar> \<le> int (tap + Suc n) * 1073741824"
      unfolding eq1 using conjunct2 [OF IH] by (simp only: add_Suc_right Suc_eq_plus1 add.commute add.left_commute)
  qed
qed

lemma fir_process_eq:
  assumes "length coefficients = length history" and "input \<noteq> []"
    and "history \<noteq> []" and "calc_adjust \<noteq> 0"
  shows "fir_process coefficients input_gain output_gain calc_adjust history input =
    fir_process_normalized coefficients
      \<lparr>fc_nx = length history, fc_input_gain = input_gain, fc_output_gain = output_gain,
       fc_calc_adjust = calc_adjust\<rparr> history input"
    and "fir_valid coefficients \<lparr>fc_nx = length history, fc_input_gain = input_gain,
      fc_output_gain = output_gain, fc_calc_adjust = calc_adjust\<rparr> history"
  using assms by (simp_all add: fir_process_def fir_valid_def fir_rejected_def)

section \<open>Properties\<close>

text \<open>The callback partition is invisible to the filter.  On a span of finite samples, any
  division into non-empty blocks gives the history and the output of the whole span.\<close>

theorem fir_partition:
  assumes "length coefficients = length history" and "history \<noteq> []" and "calc_adjust \<noteq> 0"
    and "bs \<noteq> []" and "\<forall>b \<in> set bs. b \<noteq> []" and "list_all is_finite (concat bs)"
  shows "process_blocks (fir_process coefficients input_gain output_gain calc_adjust) history bs =
    fir_process coefficients input_gain output_gain calc_adjust history (concat bs)"
proof -
  have "concat bs \<noteq> []" using assms(4,5) by (cases bs) auto
  note eq = fir_process_eq [OF assms(1) this assms(2,3), of input_gain output_gain]
  let ?controls = "\<lparr>fc_nx = length history, fc_input_gain = input_gain, fc_output_gain = output_gain,
      fc_calc_adjust = calc_adjust\<rparr>"
  have "process_blocks (fir_process coefficients input_gain output_gain calc_adjust) history bs =
      process_blocks (fir_process_normalized coefficients ?controls) history bs"
    by (rule fir_stage.blocks_cong [OF _ eq(2) assms(5)]) (auto simp: fir_process_def fir_valid_def fir_rejected_def)
  then show ?thesis
    using fir_stage.blocks_partition [OF eq(2) assms(5,4,6)] by (simp add: eq(1))
qed

text \<open>The history is the most recent scaled inputs.  After a span of finite samples the slots
  hold the scaled codes of the span, newest first, followed by what they held before, cut to the
  number of taps.\<close>

theorem fir_history:
  assumes "length coefficients = length history" and "history \<noteq> []" and "calc_adjust \<noteq> 0"
    and "list_all is_finite input"
  shows "\<exists>history' outputs.
    fir_process coefficients input_gain output_gain calc_adjust history input = Inr (history', outputs) \<and>
    length outputs = length input \<and>
    history' = take (length history) (rev (List.map (\<lambda>x.
      wrap_i16 (wrap_i32 (pcm_code x * input_gain) sdiv 256)) input) @ history)"
proof (cases "input = []")
  case True
  then show ?thesis by (simp add: fir_process_def)
next
  case False
  note eq = fir_process_eq [OF assms(1) False assms(2,3), of input_gain output_gain]
  show ?thesis
    using assms(4) fir_history_steps [OF eq(2), of "List.map pcm_code input"]
    by (auto simp: eq(1) fir_normalized_eq [OF eq(2)] coded_span_eq fir_scale_def LEGACY_GAIN_DIVISOR_def
        o_def prod_eq_iff intro!: exI)
qed

text \<open>C28: with up to 1024 taps and an output gain of at most 4194304 the 64-bit arithmetic is
  exact.  One output code is the inner product of the coefficients and the shifted history, divided
  by the normalization, scaled by the Q8 gain with truncating divisions, and clamped to the rails.\<close>

theorem fir_output_exact:
  assumes "fir_valid coefficients controls history" and "fc_nx controls \<le> 1024"
    and "\<forall>a \<in> set coefficients \<union> set history. in_i16 a" and "\<bar>fc_output_gain controls\<bar> \<le> 4194304"
  shows "\<exists>history' y. fir_process_code coefficients controls history input = Inr (history', y) \<and>
    history' = take (length history) (fir_scale controls input # history) \<and>
    y = max (-32767) (min 32767
      ((\<Sum>i < fc_nx controls. coefficients ! i * history' ! i) sdiv fc_calc_adjust controls
        * fc_output_gain controls sdiv 256))"
proof -
  let ?h = "shift_history (fc_nx controls) (fir_scale controls input) history"
  let ?n = "fc_nx controls"
  let ?sum = "\<Sum>i < ?n. coefficients ! i * ?h ! i"
  have nx: "length history = ?n" "0 < ?n" "?n \<le> length coefficients" "fc_calc_adjust controls \<noteq> 0"
    using assms(1) by (auto simp: fir_valid_def fir_rejected_def)
  have h: "?h = take (length history) (fir_scale controls input # history)"
    using nx by (cases ?n) (auto simp: shift_history_def)
  have "in_i16 (?h ! i)" if "i < ?n" for i
  proof -
    have "?h ! i \<in> insert (fir_scale controls input) (set history)"
      using that nx set_take_subset [of "length history" "fir_scale controls input # history"]
        nth_mem [of i ?h] by (auto simp: h)
    then show ?thesis using assms(3) by (auto simp: fir_scale_def)
  qed
  moreover have "in_i16 (coefficients ! i)" if "i < ?n" for i
    using that nx assms(3) by auto
  ultimately have raw: "fir_accumulate coefficients ?h 0 ?n 0 = 0 + (\<Sum>i = 0..<0 + ?n. coefficients ! i * ?h ! i)
    \<and> \<bar>fir_accumulate coefficients ?h 0 ?n 0\<bar> \<le> int (0 + ?n) * 1073741824"
    by (intro fir_accumulate_exact) (use assms(2) in simp_all)
  then have acc: "fir_accumulate coefficients ?h 0 ?n 0 = ?sum"
    by (simp add: atLeast0LessThan)
  have bound: "\<bar>?sum\<bar> \<le> int ?n * 1073741824"
    using conjunct2 [OF raw] by (simp only: acc add_0)
  have "\<bar>?sum\<bar> \<le> 1099511627776"
  proof -
    have "int ?n \<le> 1024" using assms(2) by simp
    with bound show ?thesis by linarith
  qed
  then have "\<bar>?sum sdiv fc_calc_adjust controls\<bar> \<le> 1099511627776"
    using abs_sdiv_le [of ?sum "fc_calc_adjust controls"] by linarith
  then have "\<bar>?sum sdiv fc_calc_adjust controls * fc_output_gain controls\<bar> \<le> 1099511627776 * 4194304"
    unfolding abs_mult using assms(4) by (intro mult_mono) auto
  then have w64: "wrap_i64 (?sum sdiv fc_calc_adjust controls * fc_output_gain controls) =
      ?sum sdiv fc_calc_adjust controls * fc_output_gain controls"
    by (intro wrap_i64_id) (auto simp: in_i64_def)
  have w16: "wrap_i16 (max (-32767) (min 32767 z)) = max (-32767) (min 32767 z)" for z
    by (rule wrap_i16_id) (auto simp: in_i16_def)
  have "fir_process_code coefficients controls history input = Inr (?h, max (-32767) (min 32767
      (?sum sdiv fc_calc_adjust controls * fc_output_gain controls sdiv 256)))"
    using assms(1) acc by (simp only: fir_process_code_def fir_valid_def LEGACY_GAIN_DIVISOR_def Let_def
        if_False w64 w16)
  with h show ?thesis by blast
qed

definition fir_sample :: "int list" where "fir_sample = [256, -128, 64]"

theorem fir_partition_witness:
  "process_blocks (fir_process fir_sample 256 256 256) [0, 0, 0] [[pcm_to_f32 100], [pcm_to_f32 200, pcm_to_f32 3]] =
   fir_process fir_sample 256 256 256 [0, 0, 0] [pcm_to_f32 100, pcm_to_f32 200, pcm_to_f32 3]"
  using fir_partition [of fir_sample "[0, 0, 0]" 256 "[[pcm_to_f32 100], [pcm_to_f32 200, pcm_to_f32 3]]" 256 256]
  by (simp add: fir_sample_def in_i16_def)

theorem fir_history_witness:
  "\<exists>outputs. fir_process fir_sample 512 256 256 [7, 8, 9] [pcm_to_f32 100, pcm_to_f32 200] = Inr ([400, 200, 7], outputs)"
proof -
  have "pcm_code (pcm_to_f32 100) = 100" "pcm_code (pcm_to_f32 200) = 200"
    by (simp_all add: pcm_code_def f32_to_pcm_code_of_code in_i16_def)
  then show ?thesis
    using fir_history [of fir_sample "[7, 8, 9]" 256 "[pcm_to_f32 100, pcm_to_f32 200]" 512 256]
    by (auto simp: fir_sample_def in_i16_def wrap_i16_def wrap_i32_def signed_take_bit_int_eq_self)
qed

theorem fir_output_exact_witness:
  "\<exists>h y. fir_process_code fir_sample \<lparr>fc_nx = 3, fc_input_gain = 256, fc_output_gain = 256, fc_calc_adjust = 256\<rparr>
      [4, 8, 9] 100 = Inr (h, y) \<and> h = [100, 4, 8] \<and> y = 100"
proof -
  have "fir_scale \<lparr>fc_nx = 3, fc_input_gain = 256, fc_output_gain = 256, fc_calc_adjust = 256\<rparr> 100 = 100"
    by (simp add: fir_scale_def LEGACY_GAIN_DIVISOR_def wrap_i16_def wrap_i32_def signed_take_bit_int_eq_self)
  then show ?thesis
    using fir_output_exact [of fir_sample "\<lparr>fc_nx = 3, fc_input_gain = 256, fc_output_gain = 256, fc_calc_adjust = 256\<rparr>"
        "[4, 8, 9]" 100]
    by (auto simp: fir_sample_def fir_valid_def fir_rejected_def in_i16_def numeral_3_eq_3 lessThan_Suc)
qed

end
