(* ===== verification/Deemphasis.thy ===== *)
theory Deemphasis
  imports Fixed_Stage
begin

text \<open>
  The one-pole receiver deemphasis (\<open>src/deemphasis_integrator.rs\<close>): a wrapping 32-bit recursive
  accumulator with truncating divisions.
\<close>

definition LEGACY_FEEDBACK_DIVISOR :: int where "LEGACY_FEEDBACK_DIVISOR = 32768"
definition LEGACY_OUTPUT_DIVISOR :: int where "LEGACY_OUTPUT_DIVISOR = 8192"
definition DEEMPHASIS_GAIN_DIVISOR :: int where "DEEMPHASIS_GAIN_DIVISOR = 256"

record deemphasis_state =
  dem_accumulator :: int

record deemphasis_controls =
  dec_output_coefficient :: int
  dec_feedback_coefficient :: int
  dec_output_gain :: int

definition deemphasis_step ::
  "deemphasis_controls \<Rightarrow> deemphasis_state \<Rightarrow> int \<Rightarrow> deemphasis_state \<times> f32" where
  "deemphasis_step controls next input_code =
     (let feedback = wrap_i32 (dem_accumulator next * dec_feedback_coefficient controls)
                       sdiv LEGACY_FEEDBACK_DIVISOR;
          next = next\<lparr>dem_accumulator := wrap_i32 (input_code + feedback)\<rparr>;
          filtered = wrap_i32 (dem_accumulator next * dec_output_coefficient controls)
                       sdiv LEGACY_OUTPUT_DIVISOR;
          scaled = wrap_i32 (filtered * dec_output_gain controls) sdiv DEEMPHASIS_GAIN_DIVISOR;
          output_code = wrap_i16 scaled
      in (next, pcm_to_f32 output_code))"

definition deemphasis_process ::
  "deemphasis_controls \<Rightarrow> deemphasis_state \<Rightarrow> f32 list \<Rightarrow> (deemphasis_state \<times> f32 list) result" where
  "deemphasis_process controls state input =
     bind_result (pcm_codes input) (\<lambda>codes. Inr (step_samples (deemphasis_step controls) state codes))"

lemma deemphasis_eq: "deemphasis_process controls = coded_span (deemphasis_step controls)"
  by (simp add: fun_eq_iff deemphasis_process_def coded_span_def)

interpretation deemphasis: span_stage "deemphasis_process controls" is_finite "\<lambda>_. True" for controls
  by (rule coded_span_stage [where step = "deemphasis_step controls"])
    (auto simp: deemphasis_eq coded_span_eq)

section \<open>A stable filter never wraps\<close>

text \<open>With a feedback coefficient of at most one half the accumulator stays below twice the
  full scale, so neither the feedback product nor the sum wraps.\<close>

definition deemphasis_stable :: "deemphasis_controls \<Rightarrow> deemphasis_state \<Rightarrow> bool" where
  "deemphasis_stable controls s \<longleftrightarrow>
     \<bar>dec_feedback_coefficient controls\<bar> \<le> 16384 \<and> \<bar>dem_accumulator s\<bar> \<le> 65536"

lemma sdiv_bound:
  fixes a :: int
  assumes "\<bar>a\<bar> \<le> k * d" and "0 < d"
  shows "\<bar>a sdiv d\<bar> \<le> k"
proof -
  have "\<bar>a\<bar> div d \<le> k * d div d" using assms by (intro zdiv_mono1) auto
  moreover have "0 \<le> \<bar>a\<bar> div d" using assms by (simp add: pos_imp_zdiv_nonneg_iff)
  ultimately show ?thesis
    using assms by (simp add: signed_divide_int_def abs_mult abs_sgn_eq)
qed

lemma deemphasis_step_exact:
  assumes "deemphasis_stable controls s" and "in_i16 c"
  shows "dem_accumulator (fst (deemphasis_step controls s c)) =
      c + dem_accumulator s * dec_feedback_coefficient controls sdiv 32768"
    and "deemphasis_stable controls (fst (deemphasis_step controls s c))"
proof -
  let ?p = "dem_accumulator s * dec_feedback_coefficient controls"
  have "\<bar>dem_accumulator s\<bar> * \<bar>dec_feedback_coefficient controls\<bar> \<le> 65536 * 16384"
    using assms(1) by (intro mult_mono) (auto simp: deemphasis_stable_def)
  then have p: "\<bar>?p\<bar> \<le> 32768 * 32768" by (simp add: abs_mult)
  then have w: "wrap_i32 ?p = ?p" by (intro wrap_i32_id) (auto simp: in_i32_def)
  have b: "\<bar>?p sdiv 32768\<bar> \<le> 32768" by (rule sdiv_bound [OF p]) simp
  have "\<bar>c + ?p sdiv 32768\<bar> \<le> 65536" using b assms(2) by (auto simp: in_i16_def)
  moreover from this have "wrap_i32 (c + ?p sdiv 32768) = c + ?p sdiv 32768"
    by (intro wrap_i32_id) (auto simp: in_i32_def)
  ultimately show "dem_accumulator (fst (deemphasis_step controls s c)) = c + ?p sdiv 32768"
    "deemphasis_stable controls (fst (deemphasis_step controls s c))"
    using assms(1) by (simp_all add: deemphasis_step_def deemphasis_stable_def LEGACY_FEEDBACK_DIVISOR_def w Let_def)
qed

fun deemphasis_reference :: "int \<Rightarrow> int \<Rightarrow> int list \<Rightarrow> int" where
  "deemphasis_reference feedback a [] = a"
| "deemphasis_reference feedback a (c # cs) = deemphasis_reference feedback (c + a * feedback sdiv 32768) cs"

lemma deemphasis_run:
  assumes "deemphasis_stable controls s" and "\<forall>c \<in> set cs. in_i16 c"
  shows "deemphasis_stable controls (fst (step_samples (deemphasis_step controls) s cs)) \<and>
    dem_accumulator (fst (step_samples (deemphasis_step controls) s cs)) =
      deemphasis_reference (dec_feedback_coefficient controls) (dem_accumulator s) cs"
  using assms
proof (induction cs arbitrary: s)
  case Nil
  then show ?case by simp
next
  case (Cons c cs)
  have c: "in_i16 c" using Cons.prems(2) by simp
  show ?case
    using Cons.IH [OF deemphasis_step_exact(2) [OF Cons.prems(1) c]] Cons.prems(2)
      deemphasis_step_exact(1) [OF Cons.prems(1) c]
    by (simp add: case_prod_beta Let_def)
qed

text \<open>A stable deemphasis filter computes its recurrence exactly.  With a feedback coefficient
  of at most 16384 and an accumulator within 65536, a span of finite samples leaves the value of
  the recurrence over the integers, within the same bound, and the callback partition does not
  matter; a span with a non-finite sample is rejected.\<close>

theorem deemphasis_exact:
  assumes "deemphasis_stable controls s" and "bs \<noteq> []" and "\<forall>b \<in> set bs. b \<noteq> []"
  shows "if list_all is_finite (concat bs)
    then \<exists>s' ys. process_blocks (deemphasis_process controls) s bs = Inr (s', ys) \<and>
      deemphasis_process controls s (concat bs) = Inr (s', ys) \<and> length ys = length (concat bs) \<and>
      dem_accumulator s' = deemphasis_reference (dec_feedback_coefficient controls) (dem_accumulator s)
        (List.map pcm_code (concat bs)) \<and>
      \<bar>dem_accumulator s'\<bar> \<le> 65536
    else deemphasis_process controls s (concat bs) = Inl INVALID_ARGUMENT"
proof (cases "list_all is_finite (concat bs)")
  case True
  let ?cs = "List.map pcm_code (concat bs)"
  have "\<forall>c \<in> set ?cs. in_i16 c"
    using True pcm_code_i16 by (auto simp: list_all_iff)
  note run = deemphasis_run [OF assms(1) this]
  have whole: "deemphasis_process controls s (concat bs) = Inr (step_samples (deemphasis_step controls) s ?cs)"
    using True by (simp add: deemphasis_eq coded_span_eq)
  have blocks: "process_blocks (deemphasis_process controls) s bs = deemphasis_process controls s (concat bs)"
    using deemphasis.blocks_partition [of bs controls s] assms(2,3) True by simp
  show ?thesis
    using True run blocks length_step_samples [of "deemphasis_step controls" s ?cs]
    by (cases "step_samples (deemphasis_step controls) s ?cs") (simp add: whole deemphasis_stable_def, linarith)
next
  case False
  then show ?thesis unfolding deemphasis_eq by (subst coded_span_eq) simp
qed

theorem deemphasis_exact_witness:
  "\<exists>s' ys. process_blocks (deemphasis_process \<lparr>dec_output_coefficient = 8192, dec_feedback_coefficient = 16384,
      dec_output_gain = 256\<rparr>) \<lparr>dem_accumulator = 0\<rparr> [[pcm_to_f32 1000], [pcm_to_f32 100]] = Inr (s', ys) \<and>
    dem_accumulator s' = 600"
proof -
  have c: "pcm_code (pcm_to_f32 1000) = 1000" "pcm_code (pcm_to_f32 100) = 100"
    by (simp_all add: pcm_code_def f32_to_pcm_code_of_code in_i16_def)
  show ?thesis
    using deemphasis_exact [of "\<lparr>dec_output_coefficient = 8192, dec_feedback_coefficient = 16384,
      dec_output_gain = 256\<rparr>" "\<lparr>dem_accumulator = 0\<rparr>" "[[pcm_to_f32 1000], [pcm_to_f32 100]]"]
    by (auto simp: deemphasis_stable_def in_i16_def c signed_divide_int_def)
qed

end
