(* ===== verification/Envelope_Meter.thy ===== *)
theory Envelope_Meter
  imports Fixed_Stage
begin

text \<open>
  The decaying peak envelope of the VOX and tuning detectors (\<open>src/envelope_meter.rs\<close>); \<open>env_\<close> are
  the fields of its state.  The peak is a local of the call that starts at zero and is stored at
  its end.
\<close>

definition ENVELOPE_DECAY_NUMERATOR :: int where "ENVELOPE_DECAY_NUMERATOR = 32700"
definition ENVELOPE_DECAY_DENOMINATOR :: int where "ENVELOPE_DECAY_DENOMINATOR = 32768"

record envelope_state =
  env_maximum :: int
  env_minimum :: int
  env_peak :: int
  env_upper_decay_counter :: int
  env_lower_decay_counter :: int

definition envelope_default :: envelope_state where
  "envelope_default = \<lparr>env_maximum = 0, env_minimum = 0, env_peak = 0,
     env_upper_decay_counter = 0, env_lower_decay_counter = 0\<rparr>"

definition envelope_decayed :: "int \<Rightarrow> int" where
  "envelope_decayed x = wrap_i16 (x * ENVELOPE_DECAY_NUMERATOR sdiv ENVELOPE_DECAY_DENOMINATOR)"

definition track_upper :: "int \<Rightarrow> int \<Rightarrow> envelope_state \<Rightarrow> envelope_state" where
  "track_upper decay_factor sample next =
     (if env_maximum next < sample
      then next\<lparr>env_maximum := sample, env_upper_decay_counter := decay_factor\<rparr>
      else
        let next = next\<lparr>env_upper_decay_counter := wrap_i32 (env_upper_decay_counter next - 1)\<rparr>
        in if env_upper_decay_counter next \<le> 0
           then next\<lparr>env_upper_decay_counter := decay_factor,
                     env_maximum := envelope_decayed (env_maximum next)\<rparr>
           else next)"

definition track_lower :: "int \<Rightarrow> int \<Rightarrow> envelope_state \<Rightarrow> envelope_state" where
  "track_lower decay_factor sample next =
     (if sample < env_minimum next
      then next\<lparr>env_minimum := sample, env_lower_decay_counter := decay_factor\<rparr>
      else
        let next = next\<lparr>env_lower_decay_counter := wrap_i32 (env_lower_decay_counter next - 1)\<rparr>
        in if env_lower_decay_counter next \<le> 0
           then next\<lparr>env_lower_decay_counter := decay_factor,
                     env_minimum := envelope_decayed (env_minimum next)\<rparr>
           else next)"

definition envelope_step ::
  "int \<Rightarrow> envelope_state \<times> int \<Rightarrow> int \<Rightarrow> (envelope_state \<times> int) \<times> f32" where
  "envelope_step decay_factor locals sample =
     (let next = track_lower decay_factor sample (track_upper decay_factor sample (fst locals));
          peak = wrap_i16 ((env_maximum next - env_minimum next) sdiv 2)
      in ((next, peak), pcm_to_f32 peak))"

definition envelope_measure ::
  "int \<Rightarrow> int \<Rightarrow> envelope_state \<Rightarrow> f32 list \<Rightarrow> (envelope_state \<times> f32 list \<times> bool) result" where
  "envelope_measure decay_factor threshold state input =
     bind_result (pcm_codes input) (\<lambda>codes.
       let ((next, peak), outputs) = step_samples (envelope_step decay_factor) (state, 0) codes
       in Inr (next\<lparr>env_peak := peak\<rparr>, outputs, threshold \<le> peak))"

text \<open>The same call without the comparator, which reads the stored peak.\<close>

definition envelope_process :: "int \<Rightarrow> envelope_state \<Rightarrow> f32 list \<Rightarrow> (envelope_state \<times> f32 list) result" where
  "envelope_process decay_factor state input =
     bind_result (envelope_measure decay_factor 0 state input) (\<lambda>(s, outputs, _). Inr (s, outputs))"

section \<open>The peak is a function of the samples\<close>

definition envelope_stored ::
  "int \<Rightarrow> envelope_state \<Rightarrow> int \<Rightarrow> envelope_state \<times> f32" where
  "envelope_stored decay_factor s c =
     (let ((next, peak), y) = envelope_step decay_factor (s, 0) c in (next\<lparr>env_peak := peak\<rparr>, y))"

lemma track_upper_peak: "track_upper d c (s\<lparr>env_peak := x\<rparr>) = (track_upper d c s)\<lparr>env_peak := x\<rparr>"
  by (simp add: track_upper_def Let_def)

lemma track_lower_peak: "track_lower d c (s\<lparr>env_peak := x\<rparr>) = (track_lower d c s)\<lparr>env_peak := x\<rparr>"
  by (simp add: track_lower_def Let_def)

lemma envelope_stored_peak: "envelope_stored d (s\<lparr>env_peak := x\<rparr>) c = envelope_stored d s c"
  by (simp add: envelope_stored_def envelope_step_def track_upper_peak track_lower_peak Let_def)

lemma envelope_steps_stored:
  "codes \<noteq> [] \<Longrightarrow>
   (let ((next, peak), ys) = step_samples (envelope_step d) (s, p) codes in (next\<lparr>env_peak := peak\<rparr>, ys)) =
   step_samples (envelope_stored d) s codes"
proof (induction codes arbitrary: s p)
  case Nil
  then show ?case by simp
next
  case (Cons c cs)
  obtain nx peak y where e: "envelope_step d (s, p) c = ((nx, peak), y)" by (metis prod.exhaust)
  have e0: "envelope_stored d s c = (nx\<lparr>env_peak := peak\<rparr>, y)"
    using e by (auto simp: envelope_stored_def envelope_step_def Let_def)
  show ?case
  proof (cases "cs = []")
    case True
    then show ?thesis by (simp add: e e0)
  next
    case False
    have "step_samples (envelope_stored d) (nx\<lparr>env_peak := peak\<rparr>) cs = step_samples (envelope_stored d) nx cs"
      using False by (cases cs) (simp_all add: envelope_stored_peak)
    with Cons.IH [OF False, of nx peak] show ?thesis
      by (simp add: e e0 case_prod_beta Let_def prod_eq_iff)
  qed
qed

lemma envelope_process_eq:
  "xs \<noteq> [] \<Longrightarrow> envelope_process d s xs = coded_span (envelope_stored d) s xs"
  using envelope_steps_stored [of "List.map pcm_code xs" d s 0]
  by (simp add: envelope_process_def envelope_measure_def pcm_codes_eq coded_span_eq case_prod_beta Let_def)

lemma envelope_process_empty: "envelope_process d s [] = Inr (s\<lparr>env_peak := 0\<rparr>, [])"
  by (simp add: envelope_process_def envelope_measure_def)

text \<open>The extrema bracket zero and fit their 16 bits.\<close>

definition envelope_wf :: "envelope_state \<Rightarrow> bool" where
  "envelope_wf s \<longleftrightarrow> 0 \<le> env_maximum s \<and> env_maximum s \<le> 32767 \<and> -32768 \<le> env_minimum s \<and> env_minimum s \<le> 0"

lemma envelope_decayed_bounds:
  "0 \<le> x \<Longrightarrow> x \<le> 32767 \<Longrightarrow> 0 \<le> envelope_decayed x \<and> envelope_decayed x \<le> x"
  "-32768 \<le> x \<Longrightarrow> x \<le> 0 \<Longrightarrow> x \<le> envelope_decayed x \<and> envelope_decayed x \<le> 0"
proof -
  have pos: "0 \<le> y * 32700 div 32768 \<and> y * 32700 div 32768 \<le> y" if "0 \<le> y" for y :: int
  proof -
    have "y * 32700 div 32768 \<le> y * 32768 div 32768" by (intro zdiv_mono1) (use that in auto)
    then show ?thesis using that by (simp add: pos_imp_zdiv_nonneg_iff)
  qed
  have sd: "x * 32700 sdiv 32768 = (if 0 \<le> x then x * 32700 div 32768 else - (- x * 32700 div 32768))" for x :: int
    by (auto simp: signed_divide_int_def abs_if sgn_if)
  show "0 \<le> x \<Longrightarrow> x \<le> 32767 \<Longrightarrow> 0 \<le> envelope_decayed x \<and> envelope_decayed x \<le> x"
    using pos [of x] sd [of x] wrap_i16_id [of "x * 32700 div 32768"]
    by (simp add: envelope_decayed_def ENVELOPE_DECAY_NUMERATOR_def ENVELOPE_DECAY_DENOMINATOR_def in_i16_def)
  show "-32768 \<le> x \<Longrightarrow> x \<le> 0 \<Longrightarrow> x \<le> envelope_decayed x \<and> envelope_decayed x \<le> 0"
    using pos [of "-x"] sd [of x] wrap_i16_id [of "- (- x * 32700 div 32768)"]
    by (cases "x = 0") (simp_all add: envelope_decayed_def ENVELOPE_DECAY_NUMERATOR_def
        ENVELOPE_DECAY_DENOMINATOR_def in_i16_def)
qed

lemma track_bounds:
  assumes "envelope_wf s" and "in_i16 c"
  shows "envelope_wf (track_lower d c (track_upper d c s))"
proof -
  have u: "envelope_wf (track_upper d c s)"
    using assms envelope_decayed_bounds(1) [of "env_maximum s"]
    by (auto simp: envelope_wf_def track_upper_def in_i16_def Let_def)
  show ?thesis
    using u assms(2) envelope_decayed_bounds(2) [of "env_minimum (track_upper d c s)"]
    by (auto simp: envelope_wf_def track_lower_def in_i16_def Let_def)
qed

lemma half_span:
  fixes a b :: int
  assumes "0 \<le> a" and "a \<le> 32767" and "-32768 \<le> b" and "b \<le> 0"
  shows "0 \<le> (a - b) sdiv 2 \<and> (a - b) sdiv 2 \<le> 32767"
proof -
  have "(a - b) sdiv 2 = (a - b) div 2"
    using assms by (auto simp: signed_divide_int_def sgn_if)
  then show ?thesis using assms by linarith
qed

definition envelope_valid :: "envelope_state \<Rightarrow> bool" where
  "envelope_valid s \<longleftrightarrow> envelope_wf s \<and> 0 \<le> env_peak s \<and> env_peak s \<le> 32767"

lemma envelope_stored_valid:
  assumes "envelope_wf s" and "in_i16 c"
  shows "envelope_valid (fst (envelope_stored d s c))"
    and "env_peak (fst (envelope_stored d s c)) =
      (env_maximum (fst (envelope_stored d s c)) - env_minimum (fst (envelope_stored d s c))) sdiv 2"
proof -
  let ?t = "track_lower d c (track_upper d c s)"
  note t = track_bounds [OF assms, of d]
  have h: "0 \<le> (env_maximum ?t - env_minimum ?t) sdiv 2 \<and> (env_maximum ?t - env_minimum ?t) sdiv 2 \<le> 32767"
    by (rule half_span) (use t in \<open>auto simp: envelope_wf_def\<close>)
  then have "wrap_i16 ((env_maximum ?t - env_minimum ?t) sdiv 2) = (env_maximum ?t - env_minimum ?t) sdiv 2"
    by (intro wrap_i16_id) (auto simp: in_i16_def)
  with h t show "envelope_valid (fst (envelope_stored d s c))"
    "env_peak (fst (envelope_stored d s c)) =
      (env_maximum (fst (envelope_stored d s c)) - env_minimum (fst (envelope_stored d s c))) sdiv 2"
    by (simp_all add: envelope_stored_def envelope_step_def envelope_valid_def envelope_wf_def Let_def)
qed

interpretation envelope: span_stage "envelope_process d" is_finite envelope_valid for d
proof (rule coded_span_stage [where step = "envelope_stored d"])
  show "envelope_valid (fst (envelope_stored d s c))" if "envelope_valid s" "in_i16 c" for s c
    using that envelope_stored_valid(1) by (simp add: envelope_valid_def)
  show "envelope_process d s xs = coded_span (envelope_stored d) s xs" if "xs \<noteq> []" for s xs
    by (rule envelope_process_eq [OF that])
  show "\<exists>s'. envelope_process d s [] = Inr (s', []) \<and> envelope_valid s'" if "envelope_valid s" for s
    using that by (simp add: envelope_process_empty envelope_valid_def envelope_wf_def)
  show "\<exists>e. envelope_process d s xs = Inl e" if "\<not> list_all is_finite xs" for s xs
    using that by (simp add: envelope_process_def envelope_measure_def pcm_codes_eq)
qed

text \<open>The envelope comparator is bounded and independent of the callback size.  From a state
  whose extrema bracket zero, a non-empty division of finite samples gives the state and outputs of
  the whole span; the stored peak is half the distance of the extrema, never negative, and the
  result of the call is its comparison with the threshold.\<close>

theorem envelope_peak:
  assumes "envelope_valid s" and "bs \<noteq> []" and "\<forall>b \<in> set bs. b \<noteq> []"
    and "list_all is_finite (concat bs)"
  shows "\<exists>s' ys. process_blocks (envelope_process d) s bs = Inr (s', ys) \<and>
    envelope_measure d threshold s (concat bs) = Inr (s', ys, threshold \<le> env_peak s') \<and>
    env_peak s' = (env_maximum s' - env_minimum s') sdiv 2 \<and> 0 \<le> env_peak s' \<and> env_peak s' \<le> 32767"
proof -
  let ?xs = "concat bs"
  have ne: "?xs \<noteq> []" using assms(2,3) by (cases bs) auto
  from envelope.process_ok [OF assms(1,4), of d] obtain s' ys where
    p: "envelope_process d s ?xs = Inr (s', ys)" "envelope_valid s'" by blast
  have m: "envelope_measure d threshold s ?xs = Inr (s', ys, threshold \<le> env_peak s')"
    using p(1) by (auto simp: envelope_process_def envelope_measure_def bind_result_Inr case_prod_beta Let_def
        split: prod.splits)
  have "s' = fst (step_samples (envelope_stored d) s (List.map pcm_code ?xs))"
    using p(1) envelope_process_eq [OF ne, of d s] assms(4) by (simp add: coded_span_eq)
  moreover obtain cs c where cs: "List.map pcm_code ?xs = cs @ [c]"
    using ne by (metis map_is_Nil_conv rev_exhaust)
  moreover have codes: "\<forall>k \<in> set (cs @ [c]). in_i16 k"
    unfolding cs [symmetric] using assms(4) pcm_code_i16 by (auto simp: list_all_iff)
  moreover have "envelope_wf (fst (step_samples (envelope_stored d) s cs))"
    by (rule step_samples_invariant [of envelope_wf])
      (use codes assms(1) envelope_stored_valid(1) in \<open>auto simp: envelope_valid_def\<close>)
  ultimately have "env_peak s' = (env_maximum s' - env_minimum s') sdiv 2"
    using envelope_stored_valid(2) by (simp add: step_samples_append case_prod_beta Let_def)
  then show ?thesis
    using envelope.blocks_partition [OF assms(1,3,2,4), of d] p m by (auto simp: envelope_valid_def)
qed

theorem envelope_peak_witness:
  "\<exists>s' ys. process_blocks (envelope_process 10) envelope_default
      [[pcm_to_f32 1000], [pcm_to_f32 (-500)]] = Inr (s', ys) \<and> 0 \<le> env_peak s'"
  using envelope_peak [of envelope_default "[[pcm_to_f32 1000], [pcm_to_f32 (-500)]]" 10 0]
  by (auto simp: envelope_valid_def envelope_wf_def envelope_default_def in_i16_def)

end
