(* ===== verification/Center_Slicer.thy ===== *)
theory Center_Slicer
  imports Fixed_Stage
begin

text \<open>
  The CTCSS center slicer (\<open>src/center_slicer.rs\<close>): a discharging minimum and maximum tracker whose
  midpoint is subtracted from the signal, and the same signal limited; \<open>sl_\<close> are the fields of its
  state.  The extrema are locals of the call, stored back through \<open>as i16\<close>.  The trace of the
  diagnostic path is a counter that is present only when a trace is asked for.
\<close>

unbundle bit_operations_syntax

record slicer_state =
  sl_maximum :: int
  sl_minimum :: int
  sl_peak :: int
  sl_upper_decay_counter :: int
  sl_lower_decay_counter :: int

record slicer_request =
  slr_limit :: int
  slr_setpoint :: int
  slr_decay_factor :: int

type_synonym slicer_locals = "(int \<times> int \<times> int) \<times> 32 word option"

definition slicer_track :: "int \<Rightarrow> int \<Rightarrow> int \<Rightarrow> int \<Rightarrow> int \<times> int" where
  "slicer_track setpoint accumulator maximum minimum =
     (if maximum < accumulator
      then let maximum = accumulator
        in (maximum, if minimum < wrap_i32 (maximum - setpoint)
                     then wrap_i32 (maximum - setpoint) else minimum)
      else if accumulator < minimum
      then let minimum = accumulator
        in (if wrap_i32 (minimum + setpoint) < maximum
            then wrap_i32 (minimum + setpoint) else maximum, minimum)
      else (maximum, minimum))"

definition slicer_discharge :: "int \<Rightarrow> int \<Rightarrow> int \<Rightarrow> int \<times> int" where
  "slicer_discharge decay_factor maximum minimum =
     (let maximum = wrap_i32 (maximum - decay_factor);
          maximum = (if maximum < minimum then minimum else maximum);
          minimum = wrap_i32 (minimum + decay_factor);
          minimum = (if maximum < minimum then maximum else minimum)
      in (maximum, minimum))"

definition slicer_limit :: "int \<Rightarrow> int \<Rightarrow> int" where
  "slicer_limit limit accumulator =
     (if limit < accumulator then limit
      else if accumulator < wrap_i32 (- limit) then wrap_i32 (- limit)
      else accumulator)"

definition slicer_step ::
  "slicer_request \<Rightarrow> slicer_locals \<Rightarrow> int \<Rightarrow> slicer_locals \<times> f32 \<times> f32 \<times> f32 option" where
  "slicer_step request locals accumulator =
     (let ((maximum, minimum, peak), phase) = locals;
          (maximum, minimum) = slicer_track (slr_setpoint request) accumulator maximum minimum;
          (maximum, minimum) = slicer_discharge (slr_decay_factor request) maximum minimum;
          peak = wrap_i32 (maximum - minimum) sdiv 2;
          center = wrap_i32 (maximum + minimum) sdiv 2;
          accumulator = wrap_i32 (accumulator - center);
          centered = wrap_i16 accumulator;
          accumulator = slicer_limit (slr_limit request) accumulator;
          limited = wrap_i16 accumulator;
          trace = (case phase of None \<Rightarrow> None
            | Some p \<Rightarrow> Some (pcm_to_f32 (wrap_i16 (if (p div 8) AND 1 \<noteq> 0 then maximum else minimum))))
      in (((maximum, minimum, peak), map_option (\<lambda>p. p + 1) phase),
          pcm_to_f32 centered, pcm_to_f32 limited, trace))"

definition slicer_process_with_trace ::
  "slicer_request \<Rightarrow> slicer_state \<times> 32 word option \<Rightarrow> f32 list \<Rightarrow>
     ((slicer_state \<times> 32 word option) \<times> (f32 \<times> f32 \<times> f32 option) list) result" where
  "slicer_process_with_trace request state input =
     bind_result (pcm_codes input) (\<lambda>codes.
       let next = fst state;
           (((maximum, minimum, peak), phase), outputs) = step_samples (slicer_step request)
             ((sl_maximum next, sl_minimum next, sl_peak next), snd state) codes
       in Inr ((next\<lparr>sl_maximum := wrap_i16 maximum, sl_minimum := wrap_i16 minimum,
                    sl_peak := wrap_i16 peak\<rparr>, phase), outputs))"

definition slicer_process ::
  "slicer_request \<Rightarrow> slicer_state \<Rightarrow> f32 list \<Rightarrow> (slicer_state \<times> (f32 \<times> f32 \<times> f32 option) list) result" where
  "slicer_process request state input =
     bind_result (slicer_process_with_trace request (state, None) input)
       (\<lambda>((next, _), outputs). Inr (next, outputs))"

section \<open>The tracker on integers\<close>

text \<open>Both extrema are pulled to within the set point of the sample, then discharged toward each
  other without crossing.\<close>

definition slicer_reference :: "slicer_request \<Rightarrow> int \<times> int \<Rightarrow> int \<Rightarrow> int \<times> int" where
  "slicer_reference request extrema c =
     (let (upper, lower) = extrema;
          upper = max c (min upper (c + slr_setpoint request));
          lower = min c (max lower (c - slr_setpoint request));
          upper' = max (upper - slr_decay_factor request) lower
      in (upper', min (lower + slr_decay_factor request) upper'))"

definition slicer_request_ok :: "slicer_request \<Rightarrow> bool" where
  "slicer_request_ok request \<longleftrightarrow>
     0 \<le> slr_setpoint request \<and> slr_setpoint request \<le> 32767 \<and>
     0 \<le> slr_decay_factor request \<and> slr_decay_factor request \<le> 1073741824 \<and>
     0 \<le> slr_limit request \<and> slr_limit request \<le> 32767"

definition extrema_ok :: "slicer_request \<Rightarrow> int \<times> int \<Rightarrow> bool" where
  "extrema_ok request extrema \<longleftrightarrow>
     in_i16 (fst extrema) \<and> in_i16 (snd extrema) \<and> snd extrema \<le> fst extrema \<and>
     fst extrema - snd extrema \<le> slr_setpoint request"

lemma slicer_track_exact:
  assumes "slicer_request_ok request" and "extrema_ok request (upper, lower)" and "in_i16 c"
  shows "slicer_track (slr_setpoint request) c upper lower =
    (max c (min upper (c + slr_setpoint request)), min c (max lower (c - slr_setpoint request)))"
proof -
  have "wrap_i32 (c - slr_setpoint request) = c - slr_setpoint request"
    "wrap_i32 (c + slr_setpoint request) = c + slr_setpoint request"
    using assms by (auto intro!: wrap_i32_id simp: slicer_request_ok_def in_i16_def in_i32_def)
  then show ?thesis
    using assms by (auto simp: slicer_track_def slicer_request_ok_def extrema_ok_def in_i16_def Let_def)
qed

lemma slicer_discharge_exact:
  assumes "slicer_request_ok request" and "in_i16 upper" and "in_i16 lower"
  shows "slicer_discharge (slr_decay_factor request) upper lower =
    (let upper' = max (upper - slr_decay_factor request) lower
     in (upper', min (lower + slr_decay_factor request) upper'))"
proof -
  have "wrap_i32 (upper - slr_decay_factor request) = upper - slr_decay_factor request"
    "wrap_i32 (lower + slr_decay_factor request) = lower + slr_decay_factor request"
    using assms by (auto intro!: wrap_i32_id simp: slicer_request_ok_def in_i16_def in_i32_def)
  then show ?thesis by (auto simp: slicer_discharge_def Let_def max_def min_def)
qed

lemma slicer_reference_ok:
  assumes "slicer_request_ok request" and "extrema_ok request e" and "in_i16 c"
  shows "extrema_ok request (slicer_reference request e c)"
  using assms
  by (auto simp: slicer_reference_def slicer_request_ok_def extrema_ok_def in_i16_def Let_def
      case_prod_beta max_def min_def)

text \<open>The midpoint of the new extrema lies between the old ones widened by the sample, so the
  centered code is at most the set point away from zero.\<close>

definition slicer_center :: "int \<times> int \<Rightarrow> int" where
  "slicer_center extrema = (fst extrema + snd extrema) sdiv 2"

lemma sdiv2_between:
  fixes a b :: int
  assumes "b \<le> a"
  shows "b \<le> (a + b) sdiv 2 \<and> (a + b) sdiv 2 \<le> a"
proof (cases "0 \<le> a + b")
  case True
  then have "(a + b) sdiv 2 = (a + b) div 2" by (auto simp: signed_divide_int_def sgn_if)
  with assms show ?thesis by linarith
next
  case False
  then have "(a + b) sdiv 2 = - (- (a + b) div 2)" by (simp add: signed_divide_int_def sgn_if)
  with assms show ?thesis by linarith
qed

lemma slicer_center_near:
  assumes "slicer_request_ok request" and "extrema_ok request e" and "in_i16 c"
  shows "\<bar>c - slicer_center (slicer_reference request e c)\<bar> \<le> slr_setpoint request"
proof -
  let ?r = "slicer_reference request e c"
  have "snd ?r \<le> slicer_center ?r \<and> slicer_center ?r \<le> fst ?r"
    using slicer_reference_ok [OF assms] sdiv2_between by (simp add: slicer_center_def extrema_ok_def)
  moreover have "fst ?r \<le> c + slr_setpoint request \<and> c - slr_setpoint request \<le> snd ?r"
    using assms
    by (auto simp: slicer_reference_def slicer_request_ok_def extrema_ok_def in_i16_def Let_def
        case_prod_beta max_def min_def)
  ultimately show ?thesis by linarith
qed

lemma slicer_step_exact:
  assumes "slicer_request_ok request" and "extrema_ok request (upper, lower)" and "in_i16 c"
    and r: "slicer_reference request (upper, lower) c = (upper', lower')"
  shows "slicer_step request ((upper, lower, p), phase) c =
    (((upper', lower', (upper' - lower') sdiv 2), map_option (\<lambda>p. p + 1) phase),
     pcm_to_f32 (c - slicer_center (upper', lower')),
     pcm_to_f32 (max (- slr_limit request) (min (slr_limit request) (c - slicer_center (upper', lower')))),
     map_option (\<lambda>p. pcm_to_f32 (if (p div 8) AND 1 \<noteq> 0 then upper' else lower')) phase)"
proof -
  let ?upper = "max c (min upper (c + slr_setpoint request))"
  let ?lower = "min c (max lower (c - slr_setpoint request))"
  let ?k = "c - slicer_center (upper', lower')"
  have i: "in_i16 ?upper" "in_i16 ?lower"
    using assms(1-3) by (auto simp: slicer_request_ok_def extrema_ok_def in_i16_def)
  have d: "slicer_discharge (slr_decay_factor request) ?upper ?lower = (upper', lower')"
    unfolding r [symmetric] slicer_discharge_exact [OF assms(1) i] by (simp add: slicer_reference_def Let_def)
  have ok: "extrema_ok request (upper', lower')" using slicer_reference_ok [OF assms(1-3)] r by simp
  have k: "\<bar>?k\<bar> \<le> 32767"
    using slicer_center_near [OF assms(1-3)] assms(1) r by (simp add: slicer_request_ok_def)
  have w: "wrap_i32 (upper' - lower') = upper' - lower'" "wrap_i32 (upper' + lower') = upper' + lower'"
    "wrap_i32 ?k = ?k" "wrap_i16 ?k = ?k" "wrap_i32 (- slr_limit request) = - slr_limit request"
    "wrap_i16 upper' = upper'" "wrap_i16 lower' = lower'"
    using ok k assms(1)
    by (auto intro!: wrap_i32_id wrap_i16_id simp: extrema_ok_def in_i16_def in_i32_def slicer_request_ok_def)
  have l: "slicer_limit (slr_limit request) ?k = max (- slr_limit request) (min (slr_limit request) ?k)"
    using assms(1) w by (auto simp: slicer_limit_def slicer_request_ok_def)
  have wl: "wrap_i16 (max (- slr_limit request) (min (slr_limit request) ?k)) =
      max (- slr_limit request) (min (slr_limit request) ?k)"
    using assms(1) k by (intro wrap_i16_id) (auto simp: in_i16_def slicer_request_ok_def)
  show ?thesis
    using w l wl
    by (auto simp: slicer_step_def slicer_track_exact [OF assms(1-3)] d slicer_center_def Let_def
        split: option.splits)
qed

section \<open>Streams\<close>

fun slicer_centered :: "slicer_request \<Rightarrow> int \<times> int \<Rightarrow> int list \<Rightarrow> int list" where
  "slicer_centered request e [] = []"
| "slicer_centered request e (c # cs) =
     (let e' = slicer_reference request e c in (c - slicer_center e') # slicer_centered request e' cs)"

definition slicer_stored ::
  "slicer_request \<Rightarrow> slicer_state \<times> 32 word option \<Rightarrow> int \<Rightarrow>
     (slicer_state \<times> 32 word option) \<times> f32 \<times> f32 \<times> f32 option" where
  "slicer_stored request state c =
     (let (((maximum, minimum, peak), phase), y) = slicer_step request
            ((sl_maximum (fst state), sl_minimum (fst state), sl_peak (fst state)), snd state) c
      in (((fst state)\<lparr>sl_maximum := wrap_i16 maximum, sl_minimum := wrap_i16 minimum,
             sl_peak := wrap_i16 peak\<rparr>, phase), y))"

definition slicer_state_ok :: "slicer_request \<Rightarrow> slicer_state \<times> 32 word option \<Rightarrow> bool" where
  "slicer_state_ok request state \<longleftrightarrow> slicer_request_ok request \<and>
     extrema_ok request (sl_maximum (fst state), sl_minimum (fst state)) \<and> in_i16 (sl_peak (fst state))"

definition locals_ok :: "slicer_request \<Rightarrow> slicer_locals \<Rightarrow> bool" where
  "locals_ok request l \<longleftrightarrow> slicer_request_ok request \<and>
     extrema_ok request (fst (fst l), fst (snd (fst l))) \<and> in_i16 (snd (snd (fst l)))"

definition slicer_store :: "slicer_state \<Rightarrow> slicer_locals \<Rightarrow> slicer_state \<times> 32 word option" where
  "slicer_store s l = (s\<lparr>sl_maximum := wrap_i16 (fst (fst l)), sl_minimum := wrap_i16 (fst (snd (fst l))),
     sl_peak := wrap_i16 (snd (snd (fst l)))\<rparr>, snd l)"

lemma half_width:
  assumes "slicer_request_ok request" and "extrema_ok request (upper, lower)"
  shows "in_i16 ((upper - lower) sdiv 2)"
proof -
  have "\<bar>(upper - lower) sdiv 2\<bar> \<le> \<bar>upper - lower\<bar>" by (rule abs_sdiv_le)
  with assms show ?thesis by (auto simp: slicer_request_ok_def extrema_ok_def in_i16_def)
qed

lemma locals_ok_step:
  assumes "locals_ok request l" and "in_i16 c"
  shows "locals_ok request (fst (slicer_step request l c))"
proof -
  obtain upper lower p phase where l: "l = ((upper, lower, p), phase)" by (metis prod.exhaust)
  obtain upper' lower' where r: "slicer_reference request (upper, lower) c = (upper', lower')" by fastforce
  have ok: "slicer_request_ok request" "extrema_ok request (upper, lower)"
    using assms(1) by (simp_all add: l locals_ok_def)
  have "extrema_ok request (upper', lower')" using slicer_reference_ok [OF ok assms(2)] r by simp
  with ok half_width show ?thesis by (simp add: l slicer_step_exact [OF ok assms(2) r] locals_ok_def)
qed

lemma slicer_stored_store:
  assumes "locals_ok request l"
  shows "slicer_stored request (slicer_store s l) c =
    (slicer_store s (fst (slicer_step request l c)), snd (slicer_step request l c))"
proof -
  obtain upper lower p phase where l: "l = ((upper, lower, p), phase)" by (metis prod.exhaust)
  have "wrap_i16 upper = upper" "wrap_i16 lower = lower" "wrap_i16 p = p"
    using assms by (auto intro!: wrap_i16_id simp: l locals_ok_def extrema_ok_def)
  then show ?thesis
    by (simp add: l slicer_stored_def slicer_store_def case_prod_beta Let_def)
qed

lemma slicer_process_eq:
  assumes "slicer_state_ok request state"
  shows "slicer_process_with_trace request state xs = coded_span (slicer_stored request) state xs"
proof (cases "list_all is_finite xs")
  case True
  let ?s = "fst state"
  let ?l = "((sl_maximum ?s, sl_minimum ?s, sl_peak ?s), snd state)"
  have l: "locals_ok request ?l" using assms by (simp add: slicer_state_ok_def locals_ok_def)
  have s: "slicer_store ?s ?l = state"
    using assms by (simp add: slicer_state_ok_def slicer_store_def extrema_ok_def wrap_i16_id)
  have "step_samples (slicer_stored request) (slicer_store ?s ?l) (List.map pcm_code xs) =
      (slicer_store ?s (fst (step_samples (slicer_step request) ?l (List.map pcm_code xs))),
       snd (step_samples (slicer_step request) ?l (List.map pcm_code xs)))"
    by (rule step_samples_map [where P = "locals_ok request"])
      (use True l locals_ok_step slicer_stored_store pcm_code_i16 in \<open>auto simp: list_all_iff\<close>)
  then show ?thesis
    using True s by (simp add: slicer_process_with_trace_def coded_span_eq pcm_codes_eq slicer_store_def
        case_prod_beta Let_def)
next
  case False
  then show ?thesis by (simp add: slicer_process_with_trace_def coded_span_eq pcm_codes_eq)
qed

lemma slicer_stored_exact:
  assumes "slicer_state_ok request state" and "in_i16 c"
    and "e = (sl_maximum (fst state), sl_minimum (fst state))"
  shows "slicer_state_ok request (fst (slicer_stored request state c))"
    and "(sl_maximum (fst (fst (slicer_stored request state c))),
       sl_minimum (fst (fst (slicer_stored request state c)))) = slicer_reference request e c"
    and "(let k = c - slicer_center (slicer_reference request e c) in
      fst (snd (slicer_stored request state c)) = pcm_to_f32 k \<and>
      fst (snd (snd (slicer_stored request state c))) =
        pcm_to_f32 (max (- slr_limit request) (min (slr_limit request) k)))"
proof -
  obtain upper' lower' where r: "slicer_reference request e c = (upper', lower')" by fastforce
  have ok: "slicer_request_ok request" "extrema_ok request (sl_maximum (fst state), sl_minimum (fst state))"
    using assms(1) by (simp_all add: slicer_state_ok_def)
  have e: "extrema_ok request (upper', lower')"
    using slicer_reference_ok [OF ok assms(2)] r assms(3) by simp
  note h = half_width [OF ok(1) e]
  note step = slicer_step_exact [OF ok assms(2) r [unfolded assms(3)],
      where p = "sl_peak (fst state)" and phase = "snd state"]
  have w: "wrap_i16 upper' = upper'" "wrap_i16 lower' = lower'"
    "wrap_i16 ((upper' - lower') sdiv 2) = (upper' - lower') sdiv 2"
    using e h by (auto intro!: wrap_i16_id simp: extrema_ok_def)
  show "slicer_state_ok request (fst (slicer_stored request state c))"
    using ok e h by (simp add: slicer_stored_def step w slicer_state_ok_def)
  show "(sl_maximum (fst (fst (slicer_stored request state c))),
       sl_minimum (fst (fst (slicer_stored request state c)))) = slicer_reference request e c"
    by (simp add: slicer_stored_def step w r)
  show "(let k = c - slicer_center (slicer_reference request e c) in
      fst (snd (slicer_stored request state c)) = pcm_to_f32 k \<and>
      fst (snd (snd (slicer_stored request state c))) =
        pcm_to_f32 (max (- slr_limit request) (min (slr_limit request) k)))"
    by (simp add: slicer_stored_def step r Let_def)
qed

interpretation slicer: span_stage "slicer_process_with_trace request" is_finite "slicer_state_ok request"
  for request
proof (rule coded_span_stage [where step = "slicer_stored request"])
  show "slicer_state_ok request (fst (slicer_stored request s c))" if "slicer_state_ok request s" "in_i16 c" for s c
    using that by (rule slicer_stored_exact(1)) simp
  show "slicer_process_with_trace request s xs = coded_span (slicer_stored request) s xs"
    if "slicer_state_ok request s" for s xs
    using that by (rule slicer_process_eq)
  show "\<exists>s'. slicer_process_with_trace request s [] = Inr (s', []) \<and> slicer_state_ok request s'"
    if "slicer_state_ok request s" for s
    using that by (simp add: slicer_process_eq coded_span_eq)
  show "\<exists>e. slicer_process_with_trace request s xs = Inl e" if "\<not> list_all is_finite xs" for s xs
    using that by (simp add: slicer_process_with_trace_def pcm_codes_eq)
qed

lemma slicer_run:
  assumes "slicer_state_ok request state" and "\<forall>c \<in> set cs. in_i16 c"
    and "e = (sl_maximum (fst state), sl_minimum (fst state))"
  shows "(sl_maximum (fst (fst (step_samples (slicer_stored request) state cs))),
      sl_minimum (fst (fst (step_samples (slicer_stored request) state cs)))) = foldl (slicer_reference request) e cs \<and>
    List.map (\<lambda>y. (fst y, fst (snd y))) (snd (step_samples (slicer_stored request) state cs)) =
      List.map (\<lambda>k. (pcm_to_f32 k, pcm_to_f32 (max (- slr_limit request) (min (slr_limit request) k))))
        (slicer_centered request e cs)"
  using assms
proof (induction cs arbitrary: state e)
  case Nil
  then show ?case by simp
next
  case (Cons c cs)
  have c: "in_i16 c" using Cons.prems(2) by simp
  note step = slicer_stored_exact [OF Cons.prems(1) c Cons.prems(3)]
  show ?case
    using Cons.IH [OF step(1) _ step(2) [symmetric]] Cons.prems(2) step(3)
    by (simp add: case_prod_beta Let_def)
qed

lemma slicer_centered_near:
  assumes "slicer_request_ok request" and "extrema_ok request e" and "\<forall>c \<in> set cs. in_i16 c"
  shows "\<forall>k \<in> set (slicer_centered request e cs). \<bar>k\<bar> \<le> slr_setpoint request"
  using assms
proof (induction cs arbitrary: e)
  case Nil
  then show ?case by simp
next
  case (Cons c cs)
  then show ?case
    using slicer_center_near [of request e c] slicer_reference_ok [of request e c] by (simp add: Let_def)
qed

text \<open>C29: the center slicer computes its integer tracker exactly.  For a set point and limit
  within 16 bits and extrema no further apart than the set point, any non-empty division of finite
  samples leaves the extrema of the tracker over the integers; every centered output is the sample
  minus the midpoint, at most the set point away from zero, and every limited output is that value
  clamped to the limit, whether or not a trace is taken.\<close>

theorem center_slicer_exact:
  assumes "slicer_state_ok request (s, phase)" and "bs \<noteq> []" and "\<forall>b \<in> set bs. b \<noteq> []"
    and "list_all is_finite (concat bs)"
  shows "\<exists>s' phase' ys. process_blocks (slicer_process_with_trace request) (s, phase) bs = Inr ((s', phase'), ys) \<and>
    slicer_process_with_trace request (s, phase) (concat bs) = Inr ((s', phase'), ys) \<and>
    (sl_maximum s', sl_minimum s') = foldl (slicer_reference request) (sl_maximum s, sl_minimum s)
      (List.map pcm_code (concat bs)) \<and>
    List.map (\<lambda>y. (fst y, fst (snd y))) ys =
      List.map (\<lambda>k. (pcm_to_f32 k, pcm_to_f32 (max (- slr_limit request) (min (slr_limit request) k))))
        (slicer_centered request (sl_maximum s, sl_minimum s) (List.map pcm_code (concat bs))) \<and>
    (\<forall>k \<in> set (slicer_centered request (sl_maximum s, sl_minimum s) (List.map pcm_code (concat bs))).
      \<bar>k\<bar> \<le> slr_setpoint request)"
proof -
  let ?cs = "List.map pcm_code (concat bs)"
  have codes: "\<forall>c \<in> set ?cs. in_i16 c" using assms(4) pcm_code_i16 by (auto simp: list_all_iff)
  have ok: "slicer_request_ok request" "extrema_ok request (sl_maximum s, sl_minimum s)"
    using assms(1) by (simp_all add: slicer_state_ok_def)
  have whole: "slicer_process_with_trace request (s, phase) (concat bs) =
      Inr (step_samples (slicer_stored request) (s, phase) ?cs)"
    using assms(4) by (simp add: slicer_process_eq [OF assms(1)] coded_span_eq)
  obtain s' phase' ys where p: "step_samples (slicer_stored request) (s, phase) ?cs = ((s', phase'), ys)"
    by (metis prod.exhaust)
  show ?thesis
    using slicer_run [OF assms(1) codes refl] slicer_centered_near [OF ok codes] whole
      slicer.blocks_partition [OF assms(1,3,2,4)] by (simp add: p)
qed

theorem center_slicer_exact_witness:
  "\<exists>s' phase' ys. process_blocks (slicer_process_with_trace \<lparr>slr_limit = 100, slr_setpoint = 1000, slr_decay_factor = 2\<rparr>)
      (\<lparr>sl_maximum = 0, sl_minimum = 0, sl_peak = 0, sl_upper_decay_counter = 0, sl_lower_decay_counter = 0\<rparr>, Some 0)
      [[pcm_to_f32 600], [pcm_to_f32 (-600)]] = Inr ((s', phase'), ys) \<and>
    (sl_maximum s', sl_minimum s') = (398, -598)"
proof -
  have c: "pcm_code (pcm_to_f32 600) = 600" "pcm_code (pcm_to_f32 (-600)) = -600"
    by (simp_all add: pcm_code_def f32_to_pcm_code_of_code in_i16_def)
  show ?thesis
    using center_slicer_exact [of "\<lparr>slr_limit = 100, slr_setpoint = 1000, slr_decay_factor = 2\<rparr>"
      "\<lparr>sl_maximum = 0, sl_minimum = 0, sl_peak = 0, sl_upper_decay_counter = 0, sl_lower_decay_counter = 0\<rparr>"
      "Some 0" "[[pcm_to_f32 600], [pcm_to_f32 (-600)]]"]
    by (auto simp: slicer_state_ok_def slicer_request_ok_def extrema_ok_def in_i16_def c slicer_reference_def)
qed

end
