(* ===== verification/Delay_Line.thy ===== *)
theory Delay_Line
  imports Soft_Float
begin

text \<open>
  The circular delay that holds receiver audio back until the carrier is qualified
  (\<open>src/delay_line.rs\<close>).  The storage and the output span belong to the caller and are explicit;
  the pointers are taken to be valid, so an operation is a function of their contents.
\<close>

record delay_state =
  dl_input_index :: nat
  dl_dirty :: nat

record delay_request =
  dlr_lead :: nat
  dlr_enabled :: bool
  dlr_outzero :: bool

fun delay_samples :: "nat \<Rightarrow> nat \<Rightarrow> f32 list \<Rightarrow> f32 list \<Rightarrow> nat \<times> f32 list \<times> f32 list" where
  "delay_samples input_index output_index storage [] = (input_index, storage, [])"
| "delay_samples input_index output_index storage (sample # input) =
     (let capacity = length storage;
          input_index = input_index mod capacity;
          output_index = output_index mod capacity;
          storage = storage[input_index := sample];
          delayed = storage ! output_index;
          (input_index, storage, delayed_rest) =
            delay_samples (input_index + 1) (output_index + 1) storage input
      in (input_index, storage, delayed # delayed_rest))"

definition delay_process ::
  "delay_request \<Rightarrow> delay_state \<times> f32 list \<Rightarrow> f32 list \<Rightarrow> f32 list \<Rightarrow>
     ((delay_state \<times> f32 list) \<times> f32 list) result" where
  "delay_process request caller output_span input =
     (let (state, storage) = caller; capacity = length storage
      in if capacity = 0 \<or> capacity < dlr_lead request then Inl INVALID_ARGUMENT
         else if \<not> dlr_enabled request \<or> dlr_outzero request
         then if dl_dirty state = 0 then Inr ((state, storage), output_span)
              else Inr ((state\<lparr>dl_input_index := 0, dl_dirty := 0\<rparr>, replicate capacity (Finite False 0)),
                        replicate (length input) (Finite False 0))
         else if \<not> list_all is_finite input then Inl INVALID_ARGUMENT
         else
           let input_index = dl_input_index state;
               output_index = (input_index + capacity - dlr_lead request) mod capacity;
               (input_index, storage, delayed) = delay_samples input_index output_index storage input
           in Inr ((state\<lparr>dl_input_index := as_u32 input_index, dl_dirty := 1\<rparr>, storage), delayed))"

section \<open>The delay line as a queue\<close>

text \<open>The samples held, oldest first.\<close>

definition delay_history :: "nat \<Rightarrow> f32 list \<Rightarrow> f32 list" where
  "delay_history input_index storage =
     (let i = input_index mod length storage in drop i storage @ take i storage)"

lemma length_delay_history [simp]: "length (delay_history i storage) = length storage"
  by (cases "storage = []") (simp_all add: delay_history_def Let_def)

lemma delay_history_write:
  assumes "storage \<noteq> []"
  shows "delay_history (Suc (i mod length storage)) (storage[i mod length storage := x]) =
    tl (delay_history i storage) @ [x]"
proof -
  let ?n = "length storage"
  let ?i = "i mod ?n"
  have i: "?i < ?n" using assms by simp
  have t: "take (Suc ?i) (storage[?i := x]) = take ?i storage @ [x]"
    using i by (simp add: take_Suc_conv_app_nth)
  have d: "tl (drop ?i storage @ take ?i storage) = drop (Suc ?i) storage @ take ?i storage"
    using Cons_nth_drop_Suc [OF i, symmetric] by simp
  show ?thesis
  proof (cases "Suc ?i = ?n")
    case True
    then have "storage[?i := x] = take ?i storage @ [x]" using t by simp
    with True show ?thesis unfolding delay_history_def Let_def length_list_update d by simp
  next
    case False
    then have "Suc ?i < ?n" using i by simp
    with t show ?thesis unfolding delay_history_def Let_def length_list_update d by simp
  qed
qed

lemma delay_history_nth:
  assumes "k < length storage"
  shows "delay_history i storage ! k = storage ! ((i + k) mod length storage)"
proof -
  let ?n = "length storage"
  have i: "i mod ?n < ?n" using assms by (intro mod_less_divisor) linarith
  have "(i + k) mod ?n = (i mod ?n + k) mod ?n" by (simp add: mod_add_left_eq)
  also have "\<dots> = (if i mod ?n + k < ?n then i mod ?n + k else i mod ?n + k - ?n)"
    using i assms by (simp add: mod_if [of "_ + k"])
  finally show ?thesis
    using i assms by (auto simp: delay_history_def nth_append Let_def add.commute)
qed

lemma take_Suc_drop: "k < length xs \<Longrightarrow> take (Suc m) (drop k xs) = xs ! k # take m (drop k (tl xs))"
  using Cons_nth_drop_Suc [of k xs, symmetric] by (simp add: drop_Suc)

lemma delay_samples_queue:
  assumes "storage \<noteq> []" and "back < length storage"
    and "output_index mod length storage = (input_index + length storage - back) mod length storage"
    and "delay_samples input_index output_index storage xs = (i, storage', ys)"
  shows "length storage' = length storage \<and>
    delay_history i storage' = drop (length xs) (delay_history input_index storage @ xs) \<and>
    ys = take (length xs) (drop (length storage - back) (delay_history input_index storage @ xs))"
  using assms
proof (induction xs arbitrary: input_index output_index storage i storage' ys)
  case Nil
  then show ?case by simp
next
  case (Cons x xs)
  let ?n = "length storage"
  let ?st = "storage[input_index mod ?n := x]"
  let ?h = "delay_history input_index storage"
  obtain ys' where r: "delay_samples (Suc (input_index mod ?n)) (Suc (output_index mod ?n)) ?st xs = (i, storage', ys')"
    and ys: "ys = ?st ! (output_index mod ?n) # ys'"
    using Cons.prems(4) by (auto simp: Let_def split: prod.splits)
  have o1: "Suc (output_index mod ?n) mod ?n = (Suc (input_index mod ?n) + ?n - back) mod ?n"
  proof -
    have "Suc (output_index mod ?n) mod ?n = Suc (input_index + ?n - back) mod ?n"
      unfolding Cons.prems(3) by (simp add: mod_Suc_eq)
    also have "\<dots> = (input_index + Suc (?n - back)) mod ?n" using Cons.prems(2) by simp
    also have "\<dots> = (input_index mod ?n + Suc (?n - back)) mod ?n" by (simp only: mod_add_left_eq)
    also have "input_index mod ?n + Suc (?n - back) = Suc (input_index mod ?n) + ?n - back"
      using Cons.prems(2) by simp
    finally show ?thesis by simp
  qed
  have IH: "length storage' = ?n \<and>
    delay_history i storage' = drop (length xs) (delay_history (Suc (input_index mod ?n)) ?st @ xs) \<and>
    ys' = take (length xs) (drop (?n - back) (delay_history (Suc (input_index mod ?n)) ?st @ xs))"
    using Cons.IH [OF _ _ _ r] Cons.prems(1,2) o1 by simp
  have h1: "delay_history (Suc (input_index mod ?n)) ?st @ xs = tl (?h @ x # xs)"
    using delay_history_write [OF Cons.prems(1), of input_index x] Cons.prems(1)
    by (simp add: length_greater_0_conv [symmetric] del: length_greater_0_conv)
  have "?st ! (output_index mod ?n) = (tl ?h @ [x]) ! (?n - 1 - back)"
  proof -
    have "(Suc (input_index mod ?n) + (?n - 1 - back)) mod ?n = (input_index mod ?n + (?n - back)) mod ?n"
      using Cons.prems(2) by (intro arg_cong2 [where f = "(mod)"]) auto
    also have "\<dots> = (input_index + (?n - back)) mod ?n" by (simp add: mod_add_left_eq)
    also have "\<dots> = output_index mod ?n" using Cons.prems(2,3) by simp
    finally show ?thesis
      using delay_history_nth [of "?n - 1 - back" ?st "Suc (input_index mod ?n)"] Cons.prems(1,2)
        delay_history_write [OF Cons.prems(1), of input_index x] by simp
  qed
  also have "\<dots> = tl (?h @ x # xs) ! (?n - 1 - back)"
    using Cons.prems(1,2) length_delay_history [of input_index storage]
    by (cases ?h) (auto simp: nth_append simp del: length_delay_history)
  also have "\<dots> = (?h @ x # xs) ! (?n - back)"
    using Cons.prems(1,2) by (simp add: nth_tl Suc_diff_Suc)
  finally have y: "?st ! (output_index mod ?n) = (?h @ x # xs) ! (?n - back)" .
  have "take (Suc (length xs)) (drop (?n - back) (?h @ x # xs)) =
      (?h @ x # xs) ! (?n - back) # take (length xs) (drop (?n - back) (tl (?h @ x # xs)))"
    by (rule take_Suc_drop) (use Cons.prems(1,2) in simp)
  moreover have "drop (length (x # xs)) (?h @ x # xs) = drop (length xs) (tl (?h @ x # xs))"
    by (simp only: list.size add_Suc_right add_0_right drop_Suc)
  ultimately show ?case using IH y unfolding h1 ys by simp
qed

section \<open>Calls\<close>

definition delay_ok :: "delay_request \<Rightarrow> delay_state \<times> f32 list \<Rightarrow> bool" where
  "delay_ok request caller \<longleftrightarrow> dlr_enabled request \<and> \<not> dlr_outzero request \<and>
     0 < length (snd caller) \<and> length (snd caller) \<le> u32_max \<and> dlr_lead request \<le> length (snd caller) \<and>
     dl_input_index (fst caller) \<le> u32_max"

definition delay_held :: "delay_state \<times> f32 list \<Rightarrow> f32 list" where
  "delay_held caller = delay_history (dl_input_index (fst caller)) (snd caller)"

definition delay_span ::
  "delay_request \<Rightarrow> delay_state \<times> f32 list \<Rightarrow> f32 list \<Rightarrow> ((delay_state \<times> f32 list) \<times> f32 list) result" where
  "delay_span request caller input = delay_process request caller input input"

lemma delay_samples_index:
  "storage \<noteq> [] \<Longrightarrow> delay_samples i o' storage xs = (j, storage', ys) \<Longrightarrow>
   length storage' = length storage \<and> length ys = length xs \<and> (j = i \<and> xs = [] \<or> j \<le> length storage)"
proof (induction xs arbitrary: i o' storage j storage' ys)
  case Nil
  then show ?case by simp
next
  case (Cons x xs)
  let ?st = "storage[i mod length storage := x]"
  obtain ys' where r: "delay_samples (Suc (i mod length storage)) (Suc (o' mod length storage)) ?st xs = (j, storage', ys')"
    and ys: "ys = ?st ! (o' mod length storage) # ys'"
    using Cons.prems(2) by (auto simp: Let_def split: prod.splits)
  have "i mod length storage < length storage" using Cons.prems(1) by simp
  then have "Suc (i mod length storage) \<le> length storage" by (rule Suc_leI)
  then show ?case using Cons.IH [OF _ r] Cons.prems(1) ys by auto
qed

lemma delay_samples_append:
  assumes "storage \<noteq> []" and "zs \<noteq> []" and "back \<le> length storage"
    and "o' mod length storage = (i + length storage - back) mod length storage"
    and "delay_samples i o' storage xs = (j, storage1, ys)"
    and "delay_samples j ((j + length storage - back) mod length storage) storage1 zs = (k, storage2, ws)"
  shows "delay_samples i o' storage (xs @ zs) = (k, storage2, ys @ ws)"
  using assms
proof (induction xs arbitrary: i o' storage j storage1 ys)
  case Nil
  have "delay_samples i o' storage zs = delay_samples i ((i + length storage - back) mod length storage) storage zs"
    using Nil.prems(2,4) by (cases zs) simp_all
  with Nil.prems show ?case by simp
next
  case (Cons x xs)
  let ?n = "length storage"
  let ?st = "storage[i mod ?n := x]"
  obtain ys' where r: "delay_samples (Suc (i mod ?n)) (Suc (o' mod ?n)) ?st xs = (j, storage1, ys')"
    and ys: "ys = ?st ! (o' mod ?n) # ys'"
    using Cons.prems(5) by (auto simp: Let_def split: prod.splits)
  have "Suc (o' mod ?n) mod ?n = Suc (i + ?n - back) mod ?n"
    unfolding Cons.prems(4) by (simp add: mod_Suc_eq)
  also have "\<dots> = (i + Suc (?n - back)) mod ?n" using Cons.prems(3) by simp
  also have "\<dots> = (i mod ?n + Suc (?n - back)) mod ?n" by (simp only: mod_add_left_eq)
  also have "i mod ?n + Suc (?n - back) = Suc (i mod ?n) + ?n - back" using Cons.prems(3) by simp
  finally have "delay_samples (Suc (i mod ?n)) (Suc (o' mod ?n)) ?st (xs @ zs) = (k, storage2, ys' @ ws)"
    using Cons.prems(1-3,6) by (intro Cons.IH [OF _ _ _ _ r]) simp_all
  then show ?case by (simp add: ys Let_def)
qed

lemma delay_process_queue:
  assumes "delay_ok request caller" and "list_all is_finite xs"
    and "back = (if dlr_lead request = length (snd caller) then 0 else dlr_lead request)"
  shows "\<exists>caller' ys. delay_process request caller out xs = Inr (caller', ys) \<and>
    length (snd caller') = length (snd caller) \<and>
    delay_held caller' = drop (length xs) (delay_held caller @ xs) \<and>
    ys = take (length xs) (drop (length (snd caller) - back) (delay_held caller @ xs))"
proof -
  obtain s storage where caller: "caller = (s, storage)" by fastforce
  let ?n = "length storage"
  let ?i = "dl_input_index s"
  let ?o = "(?i + ?n - dlr_lead request) mod ?n"
  obtain j storage' ys where r: "delay_samples ?i ?o storage xs = (j, storage', ys)" by (metis prod.exhaust)
  have ok: "storage \<noteq> []" "?n \<le> u32_max" "dlr_lead request \<le> ?n" "?i \<le> u32_max"
    using assms(1) by (auto simp: delay_ok_def caller)
  have near: "back < ?n" using ok assms(3) by (simp add: caller le_neq_implies_less)
  have "?o mod ?n = (?i + ?n - back) mod ?n"
    using assms(3) by (simp add: caller)
  note q = delay_samples_queue [OF ok(1) near this r]
  have "j \<le> u32_max" using delay_samples_index [OF ok(1) r] ok by auto
  then have "as_u32 j = j" by (simp add: as_u32_def u32_max_def)
  with q r assms(1,2) show ?thesis
    by (auto simp: caller delay_process_def delay_ok_def delay_held_def Let_def)
qed

lemma delay_process_ok:
  assumes "delay_ok request caller" and "list_all is_finite xs"
  shows "\<exists>caller' ys. delay_process request caller out xs = Inr (caller', ys) \<and> length ys = length xs \<and>
    delay_ok request caller'"
proof -
  obtain s storage where caller: "caller = (s, storage)" by fastforce
  let ?i = "dl_input_index s"
  let ?o = "(?i + length storage - dlr_lead request) mod length storage"
  obtain j storage' ys where r: "delay_samples ?i ?o storage xs = (j, storage', ys)" by (metis prod.exhaust)
  have "storage \<noteq> []" using assms(1) by (auto simp: delay_ok_def caller)
  from delay_samples_index [OF this r] assms r show ?thesis
    by (auto simp: caller delay_process_def delay_ok_def as_u32_def Let_def u32_max_def)
qed

lemma delay_span_append:
  assumes "delay_ok request caller" and "xs \<noteq> []" and "zs \<noteq> []"
    and "delay_span request caller xs = Inr (caller1, ys)"
    and "delay_span request caller1 zs = Inr (caller2, ws)"
  shows "delay_span request caller (xs @ zs) = Inr (caller2, ys @ ws)"
proof -
  obtain s storage s1 storage1 where caller: "caller = (s, storage)" "caller1 = (s1, storage1)" by fastforce
  let ?n = "length storage"
  let ?o = "\<lambda>i. (i + ?n - dlr_lead request) mod ?n"
  obtain j storage' ys' where r: "delay_samples (dl_input_index s) (?o (dl_input_index s)) storage xs = (j, storage', ys')"
    by (metis prod.exhaust)
  have ok: "storage \<noteq> []" "?n \<le> u32_max" "dlr_lead request \<le> ?n"
    using assms(1) by (auto simp: delay_ok_def caller)
  note ix = delay_samples_index [OF ok(1) r]
  have j: "as_u32 j = j" using ix ok assms(2) by (simp add: as_u32_def u32_max_def)
  have first: "s1 = s\<lparr>dl_input_index := j, dl_dirty := 1\<rparr>" "storage1 = storage'" "ys = ys'"
    and fin: "list_all is_finite xs"
    using assms(1,4) r j by (auto simp: delay_span_def delay_process_def delay_ok_def caller Let_def split: if_splits)
  obtain k storage2 ws' where r2: "delay_samples j (?o j) storage' zs = (k, storage2, ws')"
    by (metis prod.exhaust)
  have second: "caller2 = (s\<lparr>dl_input_index := as_u32 k, dl_dirty := 1\<rparr>, storage2)" "ws = ws'"
    "list_all is_finite zs"
    using assms(1,5) r2 ix by (auto simp: delay_span_def delay_process_def delay_ok_def caller first Let_def split: if_splits)
  have "delay_samples (dl_input_index s) (?o (dl_input_index s)) storage (xs @ zs) = (k, storage2, ys' @ ws')"
    by (rule delay_samples_append [OF ok(1) assms(3) ok(3) _ r r2]) simp
  with first fin second assms(1) show ?thesis
    by (simp add: delay_span_def delay_process_def delay_ok_def caller Let_def)
qed

interpretation delay: span_stage "delay_span request" is_finite "delay_ok request" for request
proof
  show "\<exists>s' ys. delay_span request s xs = Inr (s', ys) \<and> length ys = length xs \<and> delay_ok request s'"
    if "delay_ok request s" "list_all is_finite xs" for s xs
    unfolding delay_span_def using that by (rule delay_process_ok)
  show "\<exists>e. delay_span request s xs = Inl e" if "delay_ok request s" "\<not> list_all is_finite xs" for s xs
    using that by (auto simp: delay_span_def delay_process_def delay_ok_def case_prod_beta Let_def)
  show "delay_span request s (xs @ zs) = Inr (s2, ys @ ws)"
    if "delay_ok request s" "xs \<noteq> []" "zs \<noteq> []" "delay_span request s xs = Inr (s1, ys)"
      "delay_span request s1 zs = Inr (s2, ws)" for s xs zs s1 ys s2 ws
    using that by (rule delay_span_append)
qed

text \<open>An enabled delay line is a queue of fixed length, however the stream is cut.  With a lead
  \<open>L\<close> below the capacity \<open>n\<close>, the samples held, oldest first, followed by the stream, are shifted by
  the length of the stream: the output starts \<open>n - L\<close> samples into that sequence, and the last \<open>n\<close>
  of it stay held.  A lead equal to the capacity delays nothing.\<close>

theorem delay_is_queue:
  assumes "delay_ok request caller" and "bs \<noteq> []" and "\<forall>b \<in> set bs. b \<noteq> []"
    and "list_all is_finite (concat bs)"
  shows "\<exists>caller' ys. process_blocks (delay_span request) caller bs = Inr (caller', ys) \<and>
    length (snd caller') = length (snd caller) \<and>
    delay_held caller' = drop (length (concat bs)) (delay_held caller @ concat bs) \<and>
    (let back = (if dlr_lead request = length (snd caller) then 0 else dlr_lead request)
     in ys = take (length (concat bs)) (drop (length (snd caller) - back) (delay_held caller @ concat bs)))"
  using delay_process_queue [OF assms(1,4) refl, of "concat bs"] delay.blocks_partition [OF assms(1,3,2,4)]
  by (auto simp: delay_span_def Let_def)

theorem delay_is_queue_witness:
  "\<exists>caller' ys. process_blocks (delay_span \<lparr>dlr_lead = 1, dlr_enabled = True, dlr_outzero = False\<rparr>)
      (\<lparr>dl_input_index = 1, dl_dirty = 1\<rparr>, [Finite False 1, Finite False 2]) [[Finite False 3], [Finite True 1]] =
        Inr (caller', ys) \<and> ys = [Finite False 1, Finite False 3]"
  using delay_is_queue [of "\<lparr>dlr_lead = 1, dlr_enabled = True, dlr_outzero = False\<rparr>"
    "(\<lparr>dl_input_index = 1, dl_dirty = 1\<rparr>, [Finite False 1, Finite False 2])"
    "[[Finite False 3], [Finite True 1]]"]
  by (auto simp: delay_ok_def u32_max_def delay_held_def delay_history_def Let_def)

text \<open>Switching the delay line off forgets the audio once.  While it is off, or the output is to
  be silent, a dirty line clears its storage and the whole output span, and the next enabled stream
  comes out behind exactly \<open>lead\<close> zero samples; a line that is already clean touches neither its
  storage nor the output span.\<close>

theorem delay_reset:
  assumes "\<not> dlr_enabled off \<or> dlr_outzero off" and "storage \<noteq> []" and "length storage \<le> u32_max"
    and "dlr_lead off \<le> length storage" and "list_all is_finite xs"
    and "dlr_enabled on" and "\<not> dlr_outzero on" and "dlr_lead on < length storage"
  shows "if dl_dirty s = 0 then delay_process off (s, storage) output_span input = Inr ((s, storage), output_span)
    else \<exists>caller caller'. delay_process off (s, storage) output_span input =
        Inr (caller, replicate (length input) (Finite False 0)) \<and> dl_dirty (fst caller) = 0 \<and>
      delay_process on caller output_span2 xs =
        Inr (caller', take (length xs) (replicate (dlr_lead on) (Finite False 0) @ xs))"
proof (cases "dl_dirty s = 0")
  case True
  with assms(1,2,4) show ?thesis by (auto simp: delay_process_def Let_def)
next
  case False
  let ?n = "length storage"
  let ?c = "(s\<lparr>dl_input_index := 0, dl_dirty := 0\<rparr>, replicate ?n (Finite False 0 :: f32))"
  have off: "delay_process off (s, storage) output_span input = Inr (?c, replicate (length input) (Finite False 0))"
    using assms(1,2,4) False by (auto simp: delay_process_def Let_def)
  have ok: "delay_ok on ?c" using assms by (simp add: delay_ok_def u32_max_def)
  have held: "delay_held ?c = replicate ?n (Finite False 0)"
    by (simp add: delay_held_def delay_history_def)
  show ?thesis
    using delay_process_queue [OF ok assms(5) refl, of output_span2] off held assms(8) False by auto
qed

theorem delay_reset_witness:
  "\<exists>caller caller'. delay_process \<lparr>dlr_lead = 0, dlr_enabled = False, dlr_outzero = False\<rparr>
      (\<lparr>dl_input_index = 2, dl_dirty = 1\<rparr>, [Finite False 1, Finite False 2]) [Finite True 5] [Finite True 7] =
        Inr (caller, [Finite False 0]) \<and>
    delay_process \<lparr>dlr_lead = 1, dlr_enabled = True, dlr_outzero = False\<rparr> caller [] [Finite False 3, Finite False 4] =
      Inr (caller', [Finite False 0, Finite False 3])"
  using delay_reset [of "\<lparr>dlr_lead = 0, dlr_enabled = False, dlr_outzero = False\<rparr>"
    "[Finite False 1, Finite False 2]" "[Finite False 3, Finite False 4]"
    "\<lparr>dlr_lead = 1, dlr_enabled = True, dlr_outzero = False\<rparr>" "\<lparr>dl_input_index = 2, dl_dirty = 1\<rparr>"
    "[Finite True 5]" "[Finite True 7]" "[]"]
  by (auto simp: u32_max_def)

end
