(* ===== verification/Provider_Clients.thy ===== *)
theory Provider_Clients
  imports Soft_Float "HOL-Library.Monad_Syntax"
begin

text \<open>
  The clients of the three provider libraries: squelch (\<open>src/squelch_client.rs\<close>), CTCSS
  (\<open>src/ctcss_client.rs\<close>) and DCS (\<open>src/dcs_client.rs\<close>).  The libraries themselves are not part of
  the repository: a descriptor is a parameter, a table of optional functions over opaque handle
  states, and every lemma holds for any of them.  A null pointer is \<open>None\<close>; \<open>create\<close> gives its
  status and the handle it stored.  \<open>expect\<close> on a missing entry is a panic, the outer \<open>None\<close>.
\<close>

fun provider_status :: "int \<Rightarrow> unit result" where
  "provider_status value = (if value = 0 then Inr () else Inl PROVIDER_FAILED)"

type_synonym 'a fallible = "'a result option"

definition bind_setup :: "'a result \<Rightarrow> ('a \<Rightarrow> 'b fallible) \<Rightarrow> 'b fallible" where
  "bind_setup r f = (case r of Inl e \<Rightarrow> Some (Inl e) | Inr a \<Rightarrow> f a)"

lemma bind_setup_simps [simp]:
  "bind_setup (Inl e) f = Some (Inl e)" "bind_setup (Inr a) f = f a"
  by (simp_all add: bind_setup_def)

definition bind_fallible :: "'a fallible \<Rightarrow> ('a \<Rightarrow> 'b fallible) \<Rightarrow> 'b fallible" where
  "bind_fallible m f = (case m of None \<Rightarrow> None | Some r \<Rightarrow> bind_setup r f)"

definition created :: "int \<times> 'h option \<Rightarrow> 'h result" where
  "created c = (if fst c \<noteq> 0 then Inl PROVIDER_FAILED
     else case snd c of None \<Rightarrow> Inl PROVIDER_FAILED | Some h \<Rightarrow> Inr h)"

record descriptor_prefix =
  dp_struct_size :: nat
  dp_abi_version :: nat
  dp_capability_name :: "string option"

definition prefix_supported :: "nat \<Rightarrow> nat \<Rightarrow> string \<Rightarrow> descriptor_prefix \<Rightarrow> bool" where
  "prefix_supported abi_version full_size name p \<longleftrightarrow>
     \<not> (dp_abi_version p \<noteq> abi_version \<or> dp_struct_size p < full_size \<or>
        dp_capability_name p = None \<or> dp_capability_name p \<noteq> Some name)"

section \<open>Squelch\<close>

definition SQUELCH_ABI_VERSION :: nat where "SQUELCH_ABI_VERSION = 2"
definition SQUELCH_CAPABILITY_NAME :: string where "SQUELCH_CAPABILITY_NAME = ''rptadv.squelch''"
definition SQUELCH_DESCRIPTOR_SIZE :: nat where "SQUELCH_DESCRIPTOR_SIZE = 56"

record 's squelch_descriptor =
  sd_prefix :: descriptor_prefix
  sd_create :: "(int \<times> 's option) option"
  sd_destroy :: "('s \<Rightarrow> unit) option"
  sd_noise_update :: "('s \<Rightarrow> nat \<Rightarrow> f64 \<Rightarrow> nat \<Rightarrow> nat \<Rightarrow> 's \<times> nat) option"
  sd_vox_advance :: "('s \<Rightarrow> nat \<Rightarrow> nat \<Rightarrow> nat \<Rightarrow> 's) option"
  sd_vox_finish :: "('s \<Rightarrow> nat \<Rightarrow> 's \<times> nat) option"

record 's squelch_client =
  sc_handle :: 's
  sc_noise_update :: "'s \<Rightarrow> nat \<Rightarrow> f64 \<Rightarrow> nat \<Rightarrow> nat \<Rightarrow> 's \<times> nat"
  sc_vox_advance :: "'s \<Rightarrow> nat \<Rightarrow> nat \<Rightarrow> nat \<Rightarrow> 's"
  sc_vox_finish :: "'s \<Rightarrow> nat \<Rightarrow> 's \<times> nat"

definition squelch_from_descriptor :: "'s squelch_descriptor option \<Rightarrow> 's squelch_client result" where
  "squelch_from_descriptor pointer =
     (case pointer of None \<Rightarrow> Inl UNSUPPORTED
      | Some d \<Rightarrow>
        if \<not> prefix_supported SQUELCH_ABI_VERSION SQUELCH_DESCRIPTOR_SIZE SQUELCH_CAPABILITY_NAME (sd_prefix d)
        then Inl UNSUPPORTED
        else
          (case (sd_create d, sd_destroy d, sd_noise_update d, sd_vox_advance d, sd_vox_finish d) of
             (Some create, Some destroy, Some noise_update, Some vox_advance, Some vox_finish) \<Rightarrow>
               bind_result (created create) (\<lambda>handle.
               Inr \<lparr>sc_handle = handle, sc_noise_update = noise_update, sc_vox_advance = vox_advance,
                    sc_vox_finish = vox_finish\<rparr>)
           | _ \<Rightarrow> Inl UNSUPPORTED))"

definition squelch_noise_update ::
  "'s squelch_client \<Rightarrow> bool \<Rightarrow> f64 \<Rightarrow> nat \<Rightarrow> nat \<Rightarrow> 's squelch_client \<times> bool" where
  "squelch_noise_update c previous_closed noise_power level hysteresis =
     (let (h, r) = sc_noise_update c (sc_handle c) (of_flag previous_closed) noise_power level hysteresis
      in (c\<lparr>sc_handle := h\<rparr>, r \<noteq> 0))"

definition squelch_vox_advance :: "'s squelch_client \<Rightarrow> nat \<Rightarrow> bool \<Rightarrow> nat \<Rightarrow> 's squelch_client" where
  "squelch_vox_advance c native_offset qualified hang_frames =
     c\<lparr>sc_handle := sc_vox_advance c (sc_handle c) native_offset (of_flag qualified) hang_frames\<rparr>"

definition squelch_vox_finish :: "'s squelch_client \<Rightarrow> nat \<Rightarrow> 's squelch_client \<times> bool" where
  "squelch_vox_finish c native_frames =
     (let (h, r) = sc_vox_finish c (sc_handle c) native_frames in (c\<lparr>sc_handle := h\<rparr>, r \<noteq> 0))"

section \<open>CTCSS\<close>

definition CTCSS_ABI_VERSION :: nat where "CTCSS_ABI_VERSION = 2"
definition CTCSS_CAPABILITY_NAME :: string where "CTCSS_CAPABILITY_NAME = ''rptadv.ctcss''"
definition CTCSS_DESCRIPTOR_SIZE :: nat where "CTCSS_DESCRIPTOR_SIZE = 112"

record ('r, 't) ctcss_descriptor =
  cd_prefix :: descriptor_prefix
  cd_rx_create :: "(int \<times> 'r option) option"
  cd_rx_destroy :: "('r \<Rightarrow> unit) option"
  cd_rx_configure :: "('r \<Rightarrow> 64 word \<Rightarrow> nat \<Rightarrow> 'r) option"
  cd_rx_enabled :: "('r \<Rightarrow> nat) option"
  cd_rx_decoded :: "('r \<Rightarrow> int) option"
  cd_rx_tail_tone_active :: "('r \<Rightarrow> nat) option"
  cd_rx_clear_tail_on_carrier_loss :: "('r \<Rightarrow> nat \<Rightarrow> 'r) option"
  cd_rx_process :: "('r \<Rightarrow> f32 list \<Rightarrow> nat \<Rightarrow> 'r \<times> int) option"
  cd_tx_create :: "(int \<times> 't option) option"
  cd_tx_destroy :: "('t \<Rightarrow> unit) option"
  cd_legacy_frequency :: "(f64 \<Rightarrow> f64) option"
  cd_tx_generate :: "('t \<Rightarrow> nat \<Rightarrow> f64 \<Rightarrow> f32 \<Rightarrow> nat \<Rightarrow> f64 \<Rightarrow> 't \<times> f32 list) option"

definition ctcss_descriptor_valid :: "('r, 't) ctcss_descriptor option \<Rightarrow> ('r, 't) ctcss_descriptor result" where
  "ctcss_descriptor_valid pointer =
     (case pointer of None \<Rightarrow> Inl UNSUPPORTED
      | Some d \<Rightarrow>
        if \<not> prefix_supported CTCSS_ABI_VERSION CTCSS_DESCRIPTOR_SIZE CTCSS_CAPABILITY_NAME (cd_prefix d)
        then Inl UNSUPPORTED
        else if cd_rx_create d = None \<or> cd_rx_destroy d = None \<or> cd_rx_configure d = None \<or>
          cd_rx_enabled d = None \<or> cd_rx_decoded d = None \<or> cd_rx_tail_tone_active d = None \<or>
          cd_rx_clear_tail_on_carrier_loss d = None \<or> cd_rx_process d = None \<or>
          cd_tx_create d = None \<or> cd_tx_destroy d = None \<or> cd_legacy_frequency d = None \<or>
          cd_tx_generate d = None
        then Inl UNSUPPORTED
        else Inr d)"

record 'r ctcss_receive =
  cr_handle :: 'r
  cr_configure :: "'r \<Rightarrow> 64 word \<Rightarrow> nat \<Rightarrow> 'r"
  cr_enabled :: "'r \<Rightarrow> nat"
  cr_decoded :: "'r \<Rightarrow> int"
  cr_tail_tone_active :: "'r \<Rightarrow> nat"
  cr_clear_tail_on_carrier_loss :: "'r \<Rightarrow> nat \<Rightarrow> 'r"
  cr_process :: "'r \<Rightarrow> f32 list \<Rightarrow> nat \<Rightarrow> 'r \<times> int"

definition ctcss_receive_from_descriptor :: "('r, 't) ctcss_descriptor option \<Rightarrow> 'r ctcss_receive fallible" where
  "ctcss_receive_from_descriptor pointer =
     bind_setup (ctcss_descriptor_valid pointer) (\<lambda>table.
     do {
       create \<leftarrow> cd_rx_create table;
       bind_setup (created create) (\<lambda>handle.
       do {
         _ \<leftarrow> cd_rx_destroy table;
         configure \<leftarrow> cd_rx_configure table;
         enabled \<leftarrow> cd_rx_enabled table;
         decoded \<leftarrow> cd_rx_decoded table;
         tail_tone_active \<leftarrow> cd_rx_tail_tone_active table;
         clear_tail \<leftarrow> cd_rx_clear_tail_on_carrier_loss table;
         process \<leftarrow> cd_rx_process table;
         Some (Inr \<lparr>cr_handle = handle, cr_configure = configure, cr_enabled = enabled,
           cr_decoded = decoded, cr_tail_tone_active = tail_tone_active,
           cr_clear_tail_on_carrier_loss = clear_tail, cr_process = process\<rparr>)
       })
     })"

definition ctcss_configure :: "'r ctcss_receive \<Rightarrow> 64 word \<Rightarrow> bool \<Rightarrow> 'r ctcss_receive" where
  "ctcss_configure c tone_mask relax = c\<lparr>cr_handle := cr_configure c (cr_handle c) tone_mask (of_flag relax)\<rparr>"

definition ctcss_enabled :: "'r ctcss_receive \<Rightarrow> bool" where
  "ctcss_enabled c \<longleftrightarrow> cr_enabled c (cr_handle c) \<noteq> 0"

definition ctcss_decoded :: "'r ctcss_receive \<Rightarrow> int" where
  "ctcss_decoded c = cr_decoded c (cr_handle c)"

definition ctcss_tail_tone_active :: "'r ctcss_receive \<Rightarrow> bool" where
  "ctcss_tail_tone_active c \<longleftrightarrow> cr_tail_tone_active c (cr_handle c) \<noteq> 0"

definition ctcss_clear_tail_on_carrier_loss :: "'r ctcss_receive \<Rightarrow> bool \<Rightarrow> 'r ctcss_receive" where
  "ctcss_clear_tail_on_carrier_loss c carrier =
     c\<lparr>cr_handle := cr_clear_tail_on_carrier_loss c (cr_handle c) (of_flag carrier)\<rparr>"

definition ctcss_process :: "'r ctcss_receive \<Rightarrow> f32 list \<Rightarrow> bool \<Rightarrow> 'r ctcss_receive \<times> int" where
  "ctcss_process c samples carrier =
     (let (h, r) = cr_process c (cr_handle c) samples (of_flag carrier) in (c\<lparr>cr_handle := h\<rparr>, r))"

record 't ctcss_transmit =
  ct_handle :: 't
  ct_legacy_frequency :: "f64 \<Rightarrow> f64"
  ct_generate :: "'t \<Rightarrow> nat \<Rightarrow> f64 \<Rightarrow> f32 \<Rightarrow> nat \<Rightarrow> f64 \<Rightarrow> 't \<times> f32 list"

definition ctcss_transmit_from_descriptor :: "('r, 't) ctcss_descriptor option \<Rightarrow> 't ctcss_transmit fallible" where
  "ctcss_transmit_from_descriptor pointer =
     bind_setup (ctcss_descriptor_valid pointer) (\<lambda>table.
     do {
       create \<leftarrow> cd_tx_create table;
       bind_setup (created create) (\<lambda>handle.
       do {
         _ \<leftarrow> cd_tx_destroy table;
         legacy_frequency \<leftarrow> cd_legacy_frequency table;
         generate \<leftarrow> cd_tx_generate table;
         Some (Inr \<lparr>ct_handle = handle, ct_legacy_frequency = legacy_frequency, ct_generate = generate\<rparr>)
       })
     })"

definition ctcss_generate ::
  "'t ctcss_transmit \<Rightarrow> nat \<Rightarrow> f64 \<Rightarrow> f32 \<Rightarrow> nat \<Rightarrow> f64 \<Rightarrow> 't ctcss_transmit \<times> f32 list" where
  "ctcss_generate c frames frequency_hz peak enabled phase_shift_degrees =
     (let (h, samples) = ct_generate c (ct_handle c) frames frequency_hz peak enabled phase_shift_degrees
      in (c\<lparr>ct_handle := h\<rparr>, samples))"

section \<open>DCS\<close>

definition DCS_ABI_VERSION :: nat where "DCS_ABI_VERSION = 1"
definition DCS_CAPABILITY_NAME :: string where "DCS_CAPABILITY_NAME = ''rptadv.dcs''"
definition DCS_DESCRIPTOR_SIZE :: nat where "DCS_DESCRIPTOR_SIZE = 120"

record ('r, 't) dcs_descriptor =
  dd_prefix :: descriptor_prefix
  dd_code_supported :: "(int \<Rightarrow> nat) option"
  dd_configured_code :: "(int \<Rightarrow> int) option"
  dd_receive_create :: "(int \<times> 'r option) option"
  dd_receive_destroy :: "('r \<Rightarrow> unit) option"
  dd_receive_configure :: "('r \<Rightarrow> int \<Rightarrow> nat \<Rightarrow> 'r \<times> int) option"
  dd_receive_valid :: "('r \<Rightarrow> nat) option"
  dd_receive_enabled :: "('r \<Rightarrow> nat) option"
  dd_receive_process :: "('r \<Rightarrow> f32 list \<Rightarrow> 'r \<times> nat \<times> int) option"
  dd_transmit_create :: "(int \<times> 't option) option"
  dd_transmit_destroy :: "('t \<Rightarrow> unit) option"
  dd_transmit_configure :: "('t \<Rightarrow> int \<Rightarrow> nat \<Rightarrow> 't \<times> int) option"
  dd_transmit_update_config_from :: "('t \<Rightarrow> 't \<Rightarrow> 't \<times> int) option"
  dd_transmit_generate :: "('t \<Rightarrow> nat \<Rightarrow> f32 \<Rightarrow> nat \<Rightarrow> nat \<Rightarrow> ('t \<times> f32 list) \<times> int) option"

definition dcs_descriptor_valid :: "('r, 't) dcs_descriptor option \<Rightarrow> ('r, 't) dcs_descriptor result" where
  "dcs_descriptor_valid pointer =
     (case pointer of None \<Rightarrow> Inl UNSUPPORTED
      | Some d \<Rightarrow>
        if \<not> prefix_supported DCS_ABI_VERSION DCS_DESCRIPTOR_SIZE DCS_CAPABILITY_NAME (dd_prefix d)
        then Inl UNSUPPORTED
        else if dd_code_supported d = None \<or> dd_configured_code d = None \<or> dd_receive_create d = None \<or>
          dd_receive_destroy d = None \<or> dd_receive_configure d = None \<or> dd_receive_valid d = None \<or>
          dd_receive_enabled d = None \<or> dd_receive_process d = None \<or> dd_transmit_create d = None \<or>
          dd_transmit_destroy d = None \<or> dd_transmit_configure d = None \<or>
          dd_transmit_update_config_from d = None \<or> dd_transmit_generate d = None
        then Inl UNSUPPORTED
        else Inr d)"

definition code_supported :: "('r, 't) dcs_descriptor option \<Rightarrow> int \<Rightarrow> bool fallible" where
  "code_supported pointer code =
     bind_setup (dcs_descriptor_valid pointer) (\<lambda>table.
     do { supported \<leftarrow> dd_code_supported table; Some (Inr (supported code \<noteq> 0)) })"

record 'r dcs_receive =
  dr_handle :: 'r
  dr_configure :: "'r \<Rightarrow> int \<Rightarrow> nat \<Rightarrow> 'r \<times> int"
  dr_valid :: "'r \<Rightarrow> nat"
  dr_enabled :: "'r \<Rightarrow> nat"
  dr_process :: "'r \<Rightarrow> f32 list \<Rightarrow> 'r \<times> nat \<times> int"

definition dcs_receive_from_descriptor :: "('r, 't) dcs_descriptor option \<Rightarrow> 'r dcs_receive fallible" where
  "dcs_receive_from_descriptor pointer =
     bind_setup (dcs_descriptor_valid pointer) (\<lambda>table.
     do {
       create \<leftarrow> dd_receive_create table;
       bind_setup (created create) (\<lambda>handle.
       do {
         _ \<leftarrow> dd_receive_destroy table;
         configure \<leftarrow> dd_receive_configure table;
         valid \<leftarrow> dd_receive_valid table;
         enabled \<leftarrow> dd_receive_enabled table;
         process \<leftarrow> dd_receive_process table;
         Some (Inr \<lparr>dr_handle = handle, dr_configure = configure, dr_valid = valid,
           dr_enabled = enabled, dr_process = process\<rparr>)
       })
     })"

text \<open>The operations run on the provider's state whatever status they return, so they give the
  state beside the status.\<close>

definition dcs_receive_configure :: "'r dcs_receive \<Rightarrow> int \<Rightarrow> nat \<Rightarrow> 'r dcs_receive \<times> unit result" where
  "dcs_receive_configure c code inverted =
     (let (h, value) = dr_configure c (dr_handle c) code inverted
      in (c\<lparr>dr_handle := h\<rparr>, provider_status value))"

definition dcs_valid :: "'r dcs_receive \<Rightarrow> bool" where
  "dcs_valid c \<longleftrightarrow> dr_valid c (dr_handle c) \<noteq> 0"

definition dcs_enabled :: "'r dcs_receive \<Rightarrow> bool" where
  "dcs_enabled c \<longleftrightarrow> dr_enabled c (dr_handle c) \<noteq> 0"

definition dcs_receive_process :: "'r dcs_receive \<Rightarrow> f32 list \<Rightarrow> 'r dcs_receive \<times> bool result" where
  "dcs_receive_process c stereo =
     (let (h, valid, value) = dr_process c (dr_handle c) stereo
      in (c\<lparr>dr_handle := h\<rparr>, bind_result (provider_status value) (\<lambda>_. Inr (valid \<noteq> 0))))"

record 't dcs_transmit =
  dt_handle :: 't
  dt_configure :: "'t \<Rightarrow> int \<Rightarrow> nat \<Rightarrow> 't \<times> int"
  dt_update_config_from :: "'t \<Rightarrow> 't \<Rightarrow> 't \<times> int"
  dt_generate :: "'t \<Rightarrow> nat \<Rightarrow> f32 \<Rightarrow> nat \<Rightarrow> nat \<Rightarrow> ('t \<times> f32 list) \<times> int"

definition dcs_transmit_from_descriptor :: "('r, 't) dcs_descriptor option \<Rightarrow> 't dcs_transmit fallible" where
  "dcs_transmit_from_descriptor pointer =
     bind_setup (dcs_descriptor_valid pointer) (\<lambda>table.
     do {
       create \<leftarrow> dd_transmit_create table;
       bind_setup (created create) (\<lambda>handle.
       do {
         _ \<leftarrow> dd_transmit_destroy table;
         configure \<leftarrow> dd_transmit_configure table;
         update_config_from \<leftarrow> dd_transmit_update_config_from table;
         generate \<leftarrow> dd_transmit_generate table;
         Some (Inr \<lparr>dt_handle = handle, dt_configure = configure,
           dt_update_config_from = update_config_from, dt_generate = generate\<rparr>)
       })
     })"

definition dcs_transmit_configure :: "'t dcs_transmit \<Rightarrow> int \<Rightarrow> nat \<Rightarrow> 't dcs_transmit \<times> unit result" where
  "dcs_transmit_configure c code inverted =
     (let (h, value) = dt_configure c (dt_handle c) code inverted
      in (c\<lparr>dt_handle := h\<rparr>, provider_status value))"

definition dcs_update_config_from :: "'t dcs_transmit \<Rightarrow> 't dcs_transmit \<Rightarrow> 't dcs_transmit \<times> unit result" where
  "dcs_update_config_from c prepared =
     (let (h, value) = dt_update_config_from c (dt_handle c) (dt_handle prepared)
      in (c\<lparr>dt_handle := h\<rparr>, provider_status value))"

definition dcs_generate ::
  "'t dcs_transmit \<Rightarrow> nat \<Rightarrow> f32 \<Rightarrow> nat \<Rightarrow> nat \<Rightarrow> ('t dcs_transmit \<times> f32 list) \<times> unit result" where
  "dcs_generate c frames peak enabled turnoff =
     (let ((h, samples), value) = dt_generate c (dt_handle c) frames peak enabled turnoff
      in ((c\<lparr>dt_handle := h\<rparr>, samples), provider_status value))"

section \<open>Validation\<close>

text \<open>When the provider's \<open>create\<close> gave a handle.\<close>

definition handle_created :: "(int \<times> 'h option) option \<Rightarrow> bool" where
  "handle_created c = (case c of None \<Rightarrow> False | Some (status, h) \<Rightarrow> status = 0 \<and> h \<noteq> None)"

lemma ctcss_descriptor_cases:
  obtains "ctcss_descriptor_valid p = Inl UNSUPPORTED"
  | d where "p = Some d" "ctcss_descriptor_valid p = Inr d"
      "prefix_supported CTCSS_ABI_VERSION CTCSS_DESCRIPTOR_SIZE CTCSS_CAPABILITY_NAME (cd_prefix d)"
      "\<exists>a b c e f g h i. cd_rx_create d = Some a \<and> cd_rx_destroy d = Some b \<and> cd_rx_configure d = Some c \<and>
        cd_rx_enabled d = Some e \<and> cd_rx_decoded d = Some f \<and> cd_rx_tail_tone_active d = Some g \<and>
        cd_rx_clear_tail_on_carrier_loss d = Some h \<and> cd_rx_process d = Some i"
      "\<exists>a b c e. cd_tx_create d = Some a \<and> cd_tx_destroy d = Some b \<and> cd_legacy_frequency d = Some c \<and>
        cd_tx_generate d = Some e"
proof (cases "ctcss_descriptor_valid p")
  case (Inl e)
  then have "e = UNSUPPORTED" by (cases p) (auto simp: ctcss_descriptor_valid_def split: if_splits)
  with Inl show ?thesis by (intro that(1)) simp
next
  case (Inr d)
  then have d: "p = Some d" by (cases p) (auto simp: ctcss_descriptor_valid_def split: if_splits)
  show ?thesis
    by (rule that(2) [OF d Inr]) (use Inr in \<open>auto simp: d ctcss_descriptor_valid_def split: if_splits\<close>)
qed

lemma dcs_descriptor_cases:
  obtains "dcs_descriptor_valid p = Inl UNSUPPORTED"
  | d where "p = Some d" "dcs_descriptor_valid p = Inr d"
      "prefix_supported DCS_ABI_VERSION DCS_DESCRIPTOR_SIZE DCS_CAPABILITY_NAME (dd_prefix d)"
      "\<exists>a b c e f g. dd_receive_create d = Some a \<and> dd_receive_destroy d = Some b \<and>
        dd_receive_configure d = Some c \<and> dd_receive_valid d = Some e \<and> dd_receive_enabled d = Some f \<and>
        dd_receive_process d = Some g"
      "\<exists>a b c e f. dd_transmit_create d = Some a \<and> dd_transmit_destroy d = Some b \<and>
        dd_transmit_configure d = Some c \<and> dd_transmit_update_config_from d = Some e \<and>
        dd_transmit_generate d = Some f"
      "\<exists>a. dd_code_supported d = Some a"
proof (cases "dcs_descriptor_valid p")
  case (Inl e)
  then have "e = UNSUPPORTED" by (cases p) (auto simp: dcs_descriptor_valid_def split: if_splits)
  with Inl show ?thesis by (intro that(1)) simp
next
  case (Inr d)
  then have d: "p = Some d" by (cases p) (auto simp: dcs_descriptor_valid_def split: if_splits)
  show ?thesis
    by (rule that(2) [OF d Inr]) (use Inr in \<open>auto simp: d dcs_descriptor_valid_def split: if_splits\<close>)
qed

lemma created_cases:
  "created c = (if handle_created (Some c) then Inr (the (snd c)) else Inl PROVIDER_FAILED)"
  by (cases c) (auto simp: created_def handle_created_def split: option.splits)

text \<open>The contract of the three provider tables, written out: the version, the least size and the
  name of the capability, and every entry, those a constructor does not use included.\<close>

definition squelch_complete :: "'s squelch_descriptor \<Rightarrow> bool" where
  "squelch_complete d \<longleftrightarrow>
     dp_abi_version (sd_prefix d) = 2 \<and> 56 \<le> dp_struct_size (sd_prefix d) \<and>
     dp_capability_name (sd_prefix d) = Some ''rptadv.squelch'' \<and>
     sd_create d \<noteq> None \<and> sd_destroy d \<noteq> None \<and>
     sd_noise_update d \<noteq> None \<and> sd_vox_advance d \<noteq> None \<and>
     sd_vox_finish d \<noteq> None"

definition ctcss_complete :: "('r, 't) ctcss_descriptor \<Rightarrow> bool" where
  "ctcss_complete d \<longleftrightarrow>
     dp_abi_version (cd_prefix d) = 2 \<and> 112 \<le> dp_struct_size (cd_prefix d) \<and>
     dp_capability_name (cd_prefix d) = Some ''rptadv.ctcss'' \<and>
     cd_rx_create d \<noteq> None \<and> cd_rx_destroy d \<noteq> None \<and>
     cd_rx_configure d \<noteq> None \<and> cd_rx_enabled d \<noteq> None \<and>
     cd_rx_decoded d \<noteq> None \<and> cd_rx_tail_tone_active d \<noteq> None \<and>
     cd_rx_clear_tail_on_carrier_loss d \<noteq> None \<and> cd_rx_process d \<noteq> None \<and>
     cd_tx_create d \<noteq> None \<and> cd_tx_destroy d \<noteq> None \<and>
     cd_legacy_frequency d \<noteq> None \<and> cd_tx_generate d \<noteq> None"

definition dcs_complete :: "('r, 't) dcs_descriptor \<Rightarrow> bool" where
  "dcs_complete d \<longleftrightarrow>
     dp_abi_version (dd_prefix d) = 1 \<and> 120 \<le> dp_struct_size (dd_prefix d) \<and>
     dp_capability_name (dd_prefix d) = Some ''rptadv.dcs'' \<and>
     dd_code_supported d \<noteq> None \<and> dd_configured_code d \<noteq> None \<and>
     dd_receive_create d \<noteq> None \<and> dd_receive_destroy d \<noteq> None \<and>
     dd_receive_configure d \<noteq> None \<and> dd_receive_valid d \<noteq> None \<and>
     dd_receive_enabled d \<noteq> None \<and> dd_receive_process d \<noteq> None \<and>
     dd_transmit_create d \<noteq> None \<and> dd_transmit_destroy d \<noteq> None \<and>
     dd_transmit_configure d \<noteq> None \<and> dd_transmit_update_config_from d \<noteq> None \<and>
     dd_transmit_generate d \<noteq> None"

lemma ctcss_descriptor_null: "ctcss_descriptor_valid None = Inl UNSUPPORTED"
  by (simp add: ctcss_descriptor_valid_def)

lemma dcs_descriptor_null: "dcs_descriptor_valid None = Inl UNSUPPORTED"
  by (simp add: dcs_descriptor_valid_def)

lemma ctcss_valid_iff:
  "ctcss_descriptor_valid (Some d) = (if ctcss_complete d then Inr d else Inl UNSUPPORTED)"
  by (simp add: ctcss_descriptor_valid_def ctcss_complete_def prefix_supported_def CTCSS_ABI_VERSION_def
      CTCSS_DESCRIPTOR_SIZE_def CTCSS_CAPABILITY_NAME_def not_le)

lemma dcs_valid_iff:
  "dcs_descriptor_valid (Some d) = (if dcs_complete d then Inr d else Inl UNSUPPORTED)"
  by (simp add: dcs_descriptor_valid_def dcs_complete_def prefix_supported_def DCS_ABI_VERSION_def
      DCS_DESCRIPTOR_SIZE_def DCS_CAPABILITY_NAME_def not_le)

text \<open>What a constructor is to return: UNSUPPORTED for a null pointer or an incomplete table,
  otherwise the client of the handle the provider created, and PROVIDER_FAILED when it created none.\<close>

definition setup_outcome ::
  "('d \<Rightarrow> bool) \<Rightarrow> ('d \<Rightarrow> (int \<times> 'h option) option) \<Rightarrow> ('d \<Rightarrow> 'h \<Rightarrow> 'c) \<Rightarrow> 'd option \<Rightarrow> 'c result" where
  "setup_outcome checked create client pointer =
     (case pointer of None \<Rightarrow> Inl UNSUPPORTED
      | Some d \<Rightarrow>
        if \<not> checked d then Inl UNSUPPORTED
        else (case create d of
            Some (status, Some handle) \<Rightarrow> if status = 0 then Inr (client d handle) else Inl PROVIDER_FAILED
          | _ \<Rightarrow> Inl PROVIDER_FAILED))"

lemma squelch_setup:
  "squelch_from_descriptor s = setup_outcome squelch_complete sd_create (\<lambda>d h. \<lparr>sc_handle = h,
     sc_noise_update = the (sd_noise_update d), sc_vox_advance = the (sd_vox_advance d),
     sc_vox_finish = the (sd_vox_finish d)\<rparr>) s"
  by (cases s) (auto simp: squelch_from_descriptor_def setup_outcome_def squelch_complete_def prefix_supported_def
      SQUELCH_ABI_VERSION_def SQUELCH_DESCRIPTOR_SIZE_def SQUELCH_CAPABILITY_NAME_def created_def
      split: option.splits prod.splits)

text \<open>C30: a client is created exactly from a descriptor that was checked completely.  A null pointer,
  another version, a short table, another capability or any missing entry, used or not, is
  UNSUPPORTED; from a complete table the outcome is decided by the provider's own handle creation, and
  the client carries that handle and the entries of the table.  No constructor, nor the DCS code check,
  panics on a missing entry.\<close>

theorem provider_setup_total:
  "squelch_from_descriptor s = setup_outcome squelch_complete sd_create (\<lambda>d h. \<lparr>sc_handle = h,
     sc_noise_update = the (sd_noise_update d), sc_vox_advance = the (sd_vox_advance d),
     sc_vox_finish = the (sd_vox_finish d)\<rparr>) s \<and>
   ctcss_receive_from_descriptor c = Some (setup_outcome ctcss_complete cd_rx_create (\<lambda>d h. \<lparr>cr_handle = h,
     cr_configure = the (cd_rx_configure d), cr_enabled = the (cd_rx_enabled d), cr_decoded = the (cd_rx_decoded d),
     cr_tail_tone_active = the (cd_rx_tail_tone_active d),
     cr_clear_tail_on_carrier_loss = the (cd_rx_clear_tail_on_carrier_loss d), cr_process = the (cd_rx_process d)\<rparr>) c) \<and>
   ctcss_transmit_from_descriptor c = Some (setup_outcome ctcss_complete cd_tx_create (\<lambda>d h. \<lparr>ct_handle = h,
     ct_legacy_frequency = the (cd_legacy_frequency d), ct_generate = the (cd_tx_generate d)\<rparr>) c) \<and>
   dcs_receive_from_descriptor d = Some (setup_outcome dcs_complete dd_receive_create (\<lambda>d h. \<lparr>dr_handle = h,
     dr_configure = the (dd_receive_configure d), dr_valid = the (dd_receive_valid d),
     dr_enabled = the (dd_receive_enabled d), dr_process = the (dd_receive_process d)\<rparr>) d) \<and>
   dcs_transmit_from_descriptor d = Some (setup_outcome dcs_complete dd_transmit_create (\<lambda>d h. \<lparr>dt_handle = h,
     dt_configure = the (dd_transmit_configure d), dt_update_config_from = the (dd_transmit_update_config_from d),
     dt_generate = the (dd_transmit_generate d)\<rparr>) d) \<and>
   code_supported d code = Some (case d of None \<Rightarrow> Inl UNSUPPORTED
     | Some t \<Rightarrow> if dcs_complete t then Inr (the (dd_code_supported t) code \<noteq> 0) else Inl UNSUPPORTED)"
proof (intro conjI, goal_cases)
  case 1
  show ?case by (rule squelch_setup)
next
  case 2
  show ?case
    by (cases c rule: ctcss_descriptor_cases; cases c)
      (auto simp: setup_outcome_def ctcss_receive_from_descriptor_def created_def ctcss_valid_iff
        ctcss_descriptor_null split: option.splits if_splits)
next
  case 3
  show ?case
    by (cases c rule: ctcss_descriptor_cases; cases c)
      (auto simp: setup_outcome_def ctcss_transmit_from_descriptor_def created_def ctcss_valid_iff
        ctcss_descriptor_null split: option.splits if_splits)
next
  case 4
  show ?case
    by (cases d rule: dcs_descriptor_cases; cases d)
      (auto simp: setup_outcome_def dcs_receive_from_descriptor_def created_def dcs_valid_iff
        dcs_descriptor_null split: option.splits if_splits)
next
  case 5
  show ?case
    by (cases d rule: dcs_descriptor_cases; cases d)
      (auto simp: setup_outcome_def dcs_transmit_from_descriptor_def created_def dcs_valid_iff
        dcs_descriptor_null split: option.splits if_splits)
next
  case 6
  show ?case
    by (cases d rule: dcs_descriptor_cases; cases d)
      (auto simp: code_supported_def dcs_valid_iff dcs_descriptor_null split: if_splits)
qed

text \<open>A complete CTCSS table, up to its version and the entry only the transmitter uses.\<close>

definition ctcss_table_sample :: "nat \<Rightarrow> (f64 \<Rightarrow> f64) option \<Rightarrow> (nat, unit) ctcss_descriptor" where
  "ctcss_table_sample abi frequency = \<lparr>
     cd_prefix = \<lparr>dp_struct_size = 120, dp_abi_version = abi, dp_capability_name = Some ''rptadv.ctcss''\<rparr>,
     cd_rx_create = Some (0, Some 7), cd_rx_destroy = Some (\<lambda>h. ()), cd_rx_configure = Some (\<lambda>h mask relax. h + relax),
     cd_rx_enabled = Some (\<lambda>h. 1), cd_rx_decoded = Some (\<lambda>h. int h), cd_rx_tail_tone_active = Some (\<lambda>h. 0),
     cd_rx_clear_tail_on_carrier_loss = Some (\<lambda>h carrier. h), cd_rx_process = Some (\<lambda>h samples carrier. (h, 0)),
     cd_tx_create = Some (-1, Some ()), cd_tx_destroy = Some (\<lambda>h. ()), cd_legacy_frequency = frequency,
     cd_tx_generate = Some (\<lambda>h frames hz peak enabled shift. (h, replicate frames peak))\<rparr>"

theorem provider_setup_total_witness:
  "(\<exists>c. ctcss_receive_from_descriptor (Some (ctcss_table_sample 2 (Some id))) = Some (Inr c) \<and> ctcss_decoded c = 7) \<and>
   ctcss_transmit_from_descriptor (Some (ctcss_table_sample 2 (Some id))) = Some (Inl PROVIDER_FAILED) \<and>
   ctcss_receive_from_descriptor (Some (ctcss_table_sample 2 None)) = Some (Inl UNSUPPORTED) \<and>
   ctcss_receive_from_descriptor (Some (ctcss_table_sample 1 (Some id))) = Some (Inl UNSUPPORTED)"
proof -
  note outcome = provider_setup_total [where s = None and d = None, THEN conjunct2]
  have "ctcss_complete (ctcss_table_sample 2 (Some id))" "\<not> ctcss_complete (ctcss_table_sample 2 None)"
    "\<not> ctcss_complete (ctcss_table_sample 1 (Some id))"
    by (simp_all add: ctcss_complete_def ctcss_table_sample_def)
  then show ?thesis
    using outcome [THEN conjunct1, of "Some (ctcss_table_sample 2 (Some id))"]
      outcome [THEN conjunct2, THEN conjunct1, of "Some (ctcss_table_sample 2 (Some id))"]
      outcome [THEN conjunct1, of "Some (ctcss_table_sample 2 None)"]
      outcome [THEN conjunct1, of "Some (ctcss_table_sample 1 (Some id))"]
    by (simp add: setup_outcome_def ctcss_table_sample_def ctcss_decoded_def)
qed

end
