(* ===== verification/Receive_Frontend.thy ===== *)
theory Receive_Frontend
  imports Fir Provider_Clients
begin

text \<open>
  The native discriminator frontend (\<open>src/receive_frontend.rs\<close>): the byte-wise history shift, the
  noise filter with its RSSI window and squelch gate, and the decimating low-pass filter.  \<open>fe_\<close> are
  the fields of \<open>State\<close>, \<open>fr_\<close> the scalar and table fields of \<open>Request\<close>; the squelch handle is the
  client of Provider_Clients, over any provider.
\<close>

definition RSSI_DIVISOR :: f64 where "RSSI_DIVISOR = fp_of_int binary64 16"

definition NOISE_GAIN :: f64 where "NOISE_GAIN = fp_div binary64 (fp_of_int binary64 15) (fp_of_int binary64 4)"

record frontend_state =
  fe_decimator :: int
  fe_comparator_output :: int
  fe_rssi_peak :: int
  fe_rssi_power :: int
  fe_rssi_samples :: nat

definition frontend_default :: frontend_state where
  "frontend_default = \<lparr>fe_decimator = 0, fe_comparator_output = 0, fe_rssi_peak = 0,
     fe_rssi_power = 0, fe_rssi_samples = 0\<rparr>"

record frontend_request =
  fr_baseband_output_capacity :: nat
  fr_carrier_gate_capacity :: nat
  fr_baseband_coefficients :: "int list"
  fr_baseband_calc_adjust :: int
  fr_baseband_output_gain :: int
  fr_noise_coefficients :: "int list"
  fr_noise_divisor :: int
  fr_noise_squelch :: bool
  fr_decimate :: nat
  fr_calibration_window :: nat
  fr_open_level :: nat
  fr_hysteresis :: nat

definition maximum_baseband_output_count :: "nat \<Rightarrow> nat \<Rightarrow> nat" where
  "maximum_baseband_output_count native_frame_count decimate =
     saturating_add_u64 native_frame_count (decimate - 1) div decimate"

section \<open>The byte-wise history shift\<close>

text \<open>The \<open>i16\<close> slots as little-endian bytes, and back.\<close>

fun le_bytes :: "int list \<Rightarrow> int list" where
  "le_bytes [] = []"
| "le_bytes (x # xs) = x mod 256 # x div 256 mod 256 # le_bytes xs"

fun le_codes :: "int list \<Rightarrow> int list" where
  "le_codes (lo # hi # bs) = wrap_i16 (lo + 256 * hi) # le_codes bs"
| "le_codes _ = []"

text \<open>\<open>ptr::copy(bytes, bytes + 2, history_count - 1)\<close>.\<close>

definition legacy_history_shift :: "int list \<Rightarrow> int list" where
  "legacy_history_shift history =
     (if 1 < length history
      then let bytes = le_bytes history; count = length history - 1
        in le_codes (take 2 bytes @ take count bytes @ drop (2 + count) bytes)
      else history)"

section \<open>One native frame\<close>

fun noise_accumulate :: "int list \<Rightarrow> int list \<Rightarrow> int \<Rightarrow> int" where
  "noise_accumulate (coefficient # coefficients) (sample # history) noise_accumulator =
     noise_accumulate coefficients history
       (wrap_i32 (noise_accumulator + wrap_i32 (coefficient * sample)))"
| "noise_accumulate _ _ noise_accumulator = noise_accumulator"

definition rssi_advance :: "nat \<Rightarrow> int \<Rightarrow> frontend_state \<Rightarrow> frontend_state \<times> bool" where
  "rssi_advance calibration_window noise next =
     (let next = next\<lparr>fe_rssi_power := wrap_i64 (fe_rssi_power next + noise * noise),
                      fe_rssi_samples := as_u32 (fe_rssi_samples next + 1)\<rparr>
      in if fe_rssi_samples next = calibration_window
         then (next\<lparr>fe_rssi_peak := fp_to_int (-32768) 32767
                      (fp_div binary64 (fp_sqrt binary64 (fp_of_int binary64 (fe_rssi_power next))) RSSI_DIVISOR),
                    fe_rssi_power := 0, fe_rssi_samples := 0\<rparr>, True)
         else (next, False))"

definition noise_power :: "int \<Rightarrow> f64" where
  "noise_power noise =
     fp_mul binary64 (fp_mul binary64 (fp_of_int binary64 noise) (fp_of_int binary64 noise)) NOISE_GAIN"

text \<open>The division of two \<open>i32\<close> values panics on a zero divisor and on \<open>i32::MIN / -1\<close>.\<close>

definition noise_divide :: "int \<Rightarrow> int \<Rightarrow> int option" where
  "noise_divide accumulator divisor =
     (if divisor = 0 \<or> accumulator = -2147483648 \<and> divisor = -1 then None else Some (accumulator sdiv divisor))"

definition noise_step ::
  "frontend_request \<Rightarrow> int list \<Rightarrow> frontend_state \<times> 's squelch_client \<Rightarrow>
     ((frontend_state \<times> 's squelch_client) \<times> nat \<times> bool) option" where
  "noise_step request history owner =
     Option.bind (noise_divide (noise_accumulate (fr_noise_coefficients request) history 0) (fr_noise_divisor request))
       (\<lambda>noise.
     let (next, squelch) = owner;
          (next, rssi_updated) = rssi_advance (fr_calibration_window request) noise next;
          (squelch, closed) = squelch_noise_update squelch (fe_comparator_output next \<noteq> 0)
            (noise_power noise) (fr_open_level request) (fr_hysteresis request)
      in Some ((next\<lparr>fe_comparator_output := (if closed then 1 else 0)\<rparr>, squelch), of_flag (\<not> closed), rssi_updated))"

definition baseband_sample :: "frontend_request \<Rightarrow> int list \<Rightarrow> f32" where
  "baseband_sample request history =
     (let accumulator = fir_accumulate (fr_baseband_coefficients request) history 0 (length history) 0;
          sample = wrap_i64 (accumulator sdiv fr_baseband_calc_adjust request * fr_baseband_output_gain request)
                     sdiv LEGACY_GAIN_DIVISOR
      in pcm_to_f32 (wrap_i16 (max (-32767) (min 32767 sample))))"

text \<open>The decimator of one frame: its next value and whether this frame emits a sample.\<close>

definition decimator_step :: "nat \<Rightarrow> int \<Rightarrow> int \<times> bool" where
  "decimator_step decimate decimator =
     (let decimator = wrap_i32 (decimator - 1)
      in if decimator \<le> 0 then (wrap_i32 (int decimate), True) else (decimator, False))"

type_synonym 's frontend_owner = "frontend_state \<times> int list \<times> 's squelch_client"

text \<open>The outputs of one frame: a baseband sample, a carrier gate, and whether an RSSI window
  closed.\<close>

type_synonym frame_output = "f32 option \<times> nat option \<times> bool"

definition frontend_step ::
  "frontend_request \<Rightarrow> 's frontend_owner \<Rightarrow> int \<Rightarrow> ('s frontend_owner \<times> frame_output) option" where
  "frontend_step request owner input_code =
     (let (next, history, squelch) = owner;
          history = (legacy_history_shift history)[0 := wrap_i16 input_code]
      in Option.bind
           (if fr_noise_squelch request
            then map_option (\<lambda>(o', gate, updated). (o', Some gate, updated)) (noise_step request history (next, squelch))
            else Some ((next, squelch), None, False))
           (\<lambda>((next, squelch), gate, rssi_updated).
         let (decimator, emit) = decimator_step (fr_decimate request) (fe_decimator next);
             sample = (if emit then Some (baseband_sample request history) else None)
         in Some ((next\<lparr>fe_decimator := wrap_i16 decimator\<rparr>, history, squelch), sample, gate, rssi_updated)))"

section \<open>One call\<close>

definition frontend_rejected :: "frontend_request \<Rightarrow> nat \<Rightarrow> nat \<Rightarrow> bool" where
  "frontend_rejected request history_count native_frame_count \<longleftrightarrow>
     history_count = 0 \<or>
     fr_noise_squelch request \<and>
       (length (fr_noise_coefficients request) = 0 \<or> history_count < length (fr_noise_coefficients request)) \<or>
     fr_baseband_calc_adjust request = 0 \<or>
     fr_noise_squelch request \<and> fr_noise_divisor request = 0 \<or>
     fr_decimate request = 0 \<or> 2147483647 < fr_decimate request \<or>
     fr_calibration_window request = 0 \<or>
     fr_baseband_output_capacity request < maximum_baseband_output_count native_frame_count (fr_decimate request) \<or>
     fr_carrier_gate_capacity request < native_frame_count"

fun left_channel :: "f32 list \<Rightarrow> f32 list" where
  "left_channel (left # right # rest) = left # left_channel rest"
| "left_channel _ = []"

record frontend_result =
  fo_baseband :: "f32 list"
  fo_carrier_gate :: "nat list"
  fo_rssi_updated :: bool

fun collect_frames :: "frame_output list \<Rightarrow> frontend_result" where
  "collect_frames [] = \<lparr>fo_baseband = [], fo_carrier_gate = [], fo_rssi_updated = False\<rparr>"
| "collect_frames ((sample, gate, updated) # rest) =
     (let r = collect_frames rest
      in \<lparr>fo_baseband = (case sample of None \<Rightarrow> [] | Some y \<Rightarrow> [y]) @ fo_baseband r,
          fo_carrier_gate = (case gate of None \<Rightarrow> [] | Some g \<Rightarrow> [g]) @ fo_carrier_gate r,
          fo_rssi_updated = (updated \<or> fo_rssi_updated r)\<rparr>)"

definition frontend_frames ::
  "frontend_request \<Rightarrow> 's frontend_owner \<Rightarrow> f32 list \<Rightarrow> ('s frontend_owner \<times> frame_output list) fallible" where
  "frontend_frames request owner lefts =
     bind_setup (pcm_codes lefts) (\<lambda>codes. map_option Inr (fallible_steps (frontend_step request) owner codes))"

definition frontend_process ::
  "frontend_request \<Rightarrow> 's frontend_owner \<Rightarrow> f32 list \<Rightarrow> ('s frontend_owner \<times> frontend_result) fallible" where
  "frontend_process request owner input =
     (let native_frame_count = length input div 2
      in if frontend_rejected request (length (fst (snd owner))) native_frame_count
         then Some (Inl INVALID_ARGUMENT)
         else bind_fallible (frontend_frames request owner (left_channel input))
           (\<lambda>(owner, frames). Some (Inr (owner, collect_frames frames))))"

section \<open>The history\<close>

lemma length_le_bytes [simp]: "length (le_bytes h) = 2 * length h"
  by (induction h) auto

lemma le_bytes_nth:
  "j < length h \<Longrightarrow> le_bytes h ! (2 * j) = h ! j mod 256 \<and> le_bytes h ! Suc (2 * j) = h ! j div 256 mod 256"
proof (induction h arbitrary: j)
  case Nil
  then show ?case by simp
next
  case (Cons x xs)
  then show ?case by (cases j) auto
qed

lemma length_le_codes [simp]: "length (le_codes bs) = length bs div 2"
  by (induction bs rule: le_codes.induct) auto

lemma le_codes_nth:
  "j < length bs div 2 \<Longrightarrow> le_codes bs ! j = wrap_i16 (bs ! (2 * j) + 256 * bs ! Suc (2 * j))"
proof (induction bs arbitrary: j rule: le_codes.induct)
  case (1 lo hi bs)
  then show ?case by (cases j) auto
qed auto

lemma le_code_roundtrip: "in_i16 x \<Longrightarrow> wrap_i16 (x mod 256 + 256 * (x div 256 mod 256)) = x"
proof -
  assume x: "in_i16 x"
  have "x mod 256 + 256 * (x div 256 mod 256) = x mod 65536"
    using zmod_zmult2_eq [of 256 x 256] by simp
  also have "\<dots> = take_bit 16 x" by (simp add: take_bit_eq_mod)
  finally have "wrap_i16 (x mod 256 + 256 * (x div 256 mod 256)) = signed_take_bit 15 (take_bit 16 x)"
    by (simp add: wrap_i16_def)
  also have "\<dots> = signed_take_bit 15 x" by (simp add: signed_take_bit_take_bit)
  also have "\<dots> = x" using wrap_i16_id [OF x] by (simp add: wrap_i16_def)
  finally show ?thesis .
qed

lemma length_history_shift [simp]: "length (legacy_history_shift h) = length h"
  by (auto simp: legacy_history_shift_def Let_def min_def)

lemma history_shift_moved:
  assumes "\<forall>x \<in> set h. in_i16 x" and "0 < j" and "j \<le> (length h - 1) div 2"
  shows "legacy_history_shift h ! j = h ! (j - 1)"
proof -
  obtain k where k: "j = Suc k" using assms(2) by (cases j) auto
  let ?b = "take 2 (le_bytes h) @ take (length h - 1) (le_bytes h) @ drop (2 + (length h - 1)) (le_bytes h)"
  have len: "2 * j < length h" "1 < length h" using assms(2,3) by auto
  have "?b ! (2 * j) = le_bytes h ! (2 * k)" "?b ! Suc (2 * j) = le_bytes h ! Suc (2 * k)"
    using len k by (auto simp: nth_append)
  then have "le_codes ?b ! j = wrap_i16 (le_bytes h ! (2 * k) + 256 * le_bytes h ! Suc (2 * k))"
    using len by (subst le_codes_nth) auto
  also have "\<dots> = h ! k"
    using le_bytes_nth [of k h] le_code_roundtrip [of "h ! k"] assms(1) len k by simp
  finally show ?thesis using len k by (simp add: legacy_history_shift_def Let_def)
qed

lemma history_shift_kept:
  assumes "\<forall>x \<in> set h. in_i16 x" and "length h div 2 < j" and "j < length h"
  shows "legacy_history_shift h ! j = h ! j"
proof -
  let ?b = "take 2 (le_bytes h) @ take (length h - 1) (le_bytes h) @ drop (2 + (length h - 1)) (le_bytes h)"
  have len: "1 < length h" "length h < 2 * j" using assms(2,3) by auto
  have at: "?b ! i = le_bytes h ! i" if "length h < i" "i < 2 * length h" for i
  proof -
    have "\<not> i - 2 < length h - 1" "2 + (length h - 1) + (i - 2 - (length h - 1)) = i"
      using that len by linarith+
    then show ?thesis using that len by (simp add: nth_append)
  qed
  have "?b ! (2 * j) = le_bytes h ! (2 * j)" "?b ! Suc (2 * j) = le_bytes h ! Suc (2 * j)"
    using len assms(3) by (intro at; linarith)+
  then have "le_codes ?b ! j = wrap_i16 (le_bytes h ! (2 * j) + 256 * le_bytes h ! Suc (2 * j))"
    using len assms(3) by (subst le_codes_nth) auto
  also have "\<dots> = h ! j"
    using le_bytes_nth [of j h] le_code_roundtrip [of "h ! j"] assms(1,3) by simp
  finally show ?thesis using len by (simp add: legacy_history_shift_def Let_def)
qed

section \<open>The decimator\<close>

fun decimator_run :: "nat \<Rightarrow> int \<Rightarrow> nat \<Rightarrow> int \<times> nat" where
  "decimator_run decimate d 0 = (d, 0)"
| "decimator_run decimate d (Suc n) =
     (let (d1, emit) = decimator_step decimate d; (d2, k) = decimator_run decimate (wrap_i16 d1) n
      in (d2, of_flag emit + k))"

lemma decimator_step_cases:
  assumes "in_i16 d" and "decimate \<le> 2147483647"
  shows "decimator_step decimate d = (if d \<le> 1 then (int decimate, True) else (d - 1, False))"
proof -
  have "wrap_i32 (d - 1) = d - 1" "wrap_i32 (int decimate) = int decimate"
    using assms by (auto intro!: wrap_i32_id simp: in_i16_def in_i32_def)
  then show ?thesis by (simp add: decimator_step_def)
qed

lemma decimator_run_exact:
  assumes "1 \<le> d" and "d \<le> int decimate" and "decimate \<le> 32767"
  shows "decimator_run decimate d n =
    (int decimate - int ((n + decimate - nat d) mod decimate), (n + decimate - nat d) div decimate)"
  using assms
proof (induction n arbitrary: d)
  case 0
  have "decimate - nat d < decimate" using 0 by linarith
  then show ?case using 0 by (simp add: nat_diff_distrib)
next
  case (Suc n)
  have i: "in_i16 d" "decimate \<le> 2147483647" "0 < decimate" using Suc.prems by (auto simp: in_i16_def)
  show ?case
  proof (cases "d = 1")
    case True
    have "wrap_i16 (int decimate) = int decimate" using Suc.prems by (intro wrap_i16_id) (simp add: in_i16_def)
    with True i Suc.prems Suc.IH [of "int decimate"] show ?thesis
      by (simp add: decimator_step_cases Let_def)
  next
    case False
    have "wrap_i16 (d - 1) = d - 1" using Suc.prems by (intro wrap_i16_id) (auto simp: in_i16_def)
    moreover have "n + decimate - nat (d - 1) = Suc n + decimate - nat d" using Suc.prems False by linarith
    ultimately show ?thesis
      using False i Suc.prems Suc.IH [of "d - 1"] by (simp add: decimator_step_cases Let_def)
  qed
qed

lemma decimator_run_early:
  assumes "in_i16 d" and "d \<le> 1" and "0 < decimate" and "decimate \<le> 32767"
  shows "decimator_run decimate d n = (case n of 0 \<Rightarrow> (d, 0) | Suc _ \<Rightarrow> decimator_run decimate 1 n)"
  using assms by (cases n) (simp_all add: decimator_step_cases in_i16_def)

lemma decimator_run_count:
  assumes "in_i16 d" and "0 < decimate" and "decimate \<le> 32767" and "d \<le> int decimate"
  shows "snd (decimator_run decimate d n) \<le> (n + (decimate - 1)) div decimate"
proof (cases "1 \<le> d")
  case True
  then have "n + decimate - nat d \<le> n + (decimate - 1)" using assms(2) by linarith
  with True assms show ?thesis by (simp add: decimator_run_exact div_le_mono)
next
  case False
  with assms show ?thesis
    by (cases n) (simp_all add: decimator_run_early decimator_run_exact del: decimator_run.simps(2))
qed

lemma decimator_run_wide:
  assumes "in_i16 d" and "d \<le> 1" and "32768 \<le> decimate" and "decimate \<le> 65536"
  shows "snd (decimator_run decimate d n) = n"
  using assms(1,2)
proof (induction n arbitrary: d)
  case 0
  then show ?case by simp
next
  case (Suc n)
  have "take_bit 16 (int decimate) = take_bit 16 (int decimate - 65536)"
    by (simp add: take_bit_eq_mod mod_diff_right_eq [symmetric])
  then have "wrap_i16 (int decimate) = wrap_i16 (int decimate - 65536)"
    by (simp add: wrap_i16_def signed_take_bit_eq_iff_take_bit_eq)
  also have "\<dots> = int decimate - 65536"
    using assms(3,4) by (intro wrap_i16_id) (auto simp: in_i16_def)
  finally have "wrap_i16 (int decimate) \<le> 1" using assms(4) by simp
  moreover have "decimator_step decimate d = (int decimate, True)"
    using Suc.prems assms(4) by (simp add: decimator_step_cases)
  ultimately show ?case using Suc.IH [of "wrap_i16 (int decimate)"] by (simp add: case_prod_beta Let_def)
qed

text \<open>What a frame that does not panic leaves.\<close>

lemma frontend_step_Some:
  assumes "frontend_step request owner c = Some (owner', y, g, u)"
  shows "fe_decimator (fst owner') = wrap_i16 (fst (decimator_step (fr_decimate request) (fe_decimator (fst owner))))"
    and "y \<noteq> None \<longleftrightarrow> snd (decimator_step (fr_decimate request) (fe_decimator (fst owner)))"
    and "fst (snd owner') = (legacy_history_shift (fst (snd owner)))[0 := wrap_i16 c]"
    and "g \<noteq> None \<longleftrightarrow> fr_noise_squelch request"
    and "y = Some x \<Longrightarrow> is_finite x"
  using assms
  by (auto simp: frontend_step_def noise_step_def rssi_advance_def baseband_sample_def Let_def
      split: prod.splits if_splits Option.bind_splits)

lemma frontend_step_length:
  assumes "frontend_step request owner c = Some (owner', out)"
  shows "length (fst (snd owner')) = length (fst (snd owner))"
proof (cases out)
  case (fields y g u)
  show ?thesis using frontend_step_Some(3) [OF assms [unfolded fields]] by simp
qed

text \<open>A frame panics exactly when its noise accumulator is \<open>i32::MIN\<close> and the divisor is -1.\<close>

lemma frontend_step_None:
  assumes "fr_noise_squelch request \<longrightarrow> fr_noise_divisor request \<noteq> 0"
  shows "frontend_step request owner c = None \<longleftrightarrow> fr_noise_squelch request \<and> fr_noise_divisor request = -1 \<and>
    noise_accumulate (fr_noise_coefficients request) ((legacy_history_shift (fst (snd owner)))[0 := wrap_i16 c]) 0 =
      -2147483648"
  using assms
  by (cases owner) (auto simp: frontend_step_def noise_step_def noise_divide_def Let_def
      split: prod.splits if_splits Option.bind_splits)

lemma frontend_frames_total:
  assumes "fr_noise_squelch request \<longrightarrow> fr_noise_divisor request \<noteq> 0 \<and> fr_noise_divisor request \<noteq> -1"
  shows "\<exists>owner' fs. fallible_steps (frontend_step request) owner cs = Some (owner', fs)"
proof (rule fallible_steps_total)
  fix o' c
  show "\<exists>o1 y. frontend_step request o' c = Some (o1, y)"
    using frontend_step_None [of request o' c] assms by auto
qed

lemma frontend_frames_decimator:
  assumes "fallible_steps (frontend_step request) owner cs = Some (owner', fs)"
  shows "decimator_run (fr_decimate request) (fe_decimator (fst owner)) (length cs) =
    (fe_decimator (fst owner'), length (fo_baseband (collect_frames fs)))"
  using assms
proof (induction cs arbitrary: owner fs)
  case Nil
  then show ?case by simp
next
  case (Cons c cs)
  then obtain owner1 y g u gs where s: "frontend_step request owner c = Some (owner1, y, g, u)"
      "fallible_steps (frontend_step request) owner1 cs = Some (owner', gs)" "fs = (y, g, u) # gs"
    unfolding fallible_steps_Cons by auto
  obtain d1 emit where d: "decimator_step (fr_decimate request) (fe_decimator (fst owner)) = (d1, emit)"
    by fastforce
  have "fe_decimator (fst owner1) = wrap_i16 d1" "y \<noteq> None \<longleftrightarrow> emit"
    using frontend_step_Some(1,2) [OF s(1)] by (simp_all add: d)
  with Cons.IH [OF s(2)] show ?case
    by (auto simp: s(3) d case_prod_beta Let_def of_flag_def split: option.splits)
qed

lemma frontend_frames_gates:
  assumes "fallible_steps (frontend_step request) owner cs = Some (owner', fs)"
  shows "length (fo_carrier_gate (collect_frames fs)) = (if fr_noise_squelch request then length cs else 0)"
  using assms
proof (induction cs arbitrary: owner fs)
  case Nil
  then show ?case by simp
next
  case (Cons c cs)
  then obtain owner1 y g u gs where s: "frontend_step request owner c = Some (owner1, y, g, u)"
      "fallible_steps (frontend_step request) owner1 cs = Some (owner', gs)" "fs = (y, g, u) # gs"
    unfolding fallible_steps_Cons by auto
  with Cons.IH [OF s(2)] frontend_step_Some(4) [OF s(1)] show ?case
    by (auto simp: case_prod_beta Let_def split: option.splits)
qed

lemma length_left_channel [simp]: "length (left_channel xs) = length xs div 2"
  by (induction xs rule: left_channel.induct) auto

text \<open>What an accepted call returns.\<close>

lemma frontend_process_Inr:
  "frontend_process request owner input = Some (Inr (owner', r)) \<longleftrightarrow>
     \<not> frontend_rejected request (length (fst (snd owner))) (length input div 2) \<and>
     list_all is_finite (left_channel input) \<and>
     (\<exists>fs. fallible_steps (frontend_step request) owner (List.map pcm_code (left_channel input)) = Some (owner', fs) \<and>
       r = collect_frames fs)"
  by (auto simp: frontend_process_def frontend_frames_def pcm_codes_eq bind_fallible_def case_prod_beta Let_def
      split: option.splits)

text \<open>An accepted call panics exactly when some frame does.\<close>

lemma frontend_process_None:
  "frontend_process request owner input = None \<longleftrightarrow>
     \<not> frontend_rejected request (length (fst (snd owner))) (length input div 2) \<and>
     list_all is_finite (left_channel input) \<and>
     fallible_steps (frontend_step request) owner (List.map pcm_code (left_channel input)) = None"
  by (auto simp: frontend_process_def frontend_frames_def pcm_codes_eq bind_fallible_def case_prod_beta Let_def
      split: option.splits)

lemma frontend_process_runs:
  assumes "\<not> frontend_rejected request (length (fst (snd owner))) (length input div 2)"
    and "list_all is_finite (left_channel input)" and "fr_noise_squelch request \<longrightarrow> fr_noise_divisor request \<noteq> -1"
  obtains owner' r where "frontend_process request owner input = Some (Inr (owner', r))"
proof -
  have "fr_noise_squelch request \<longrightarrow> fr_noise_divisor request \<noteq> 0 \<and> fr_noise_divisor request \<noteq> -1"
    using assms(1,3) by (auto simp: frontend_rejected_def)
  from frontend_frames_total [OF this] show ?thesis using that assms(1,2) unfolding frontend_process_Inr by blast
qed

text \<open>A small frontend over a provider that closes above a noise level.\<close>

definition frontend_sample :: "nat \<Rightarrow> frontend_request" where
  "frontend_sample decimate = \<lparr>fr_baseband_output_capacity = 2, fr_carrier_gate_capacity = 8,
     fr_baseband_coefficients = [100, 200, 100], fr_baseband_calc_adjust = 256, fr_baseband_output_gain = 256,
     fr_noise_coefficients = [5, -5], fr_noise_divisor = 16, fr_noise_squelch = True, fr_decimate = decimate,
     fr_calibration_window = 4, fr_open_level = 1000, fr_hysteresis = 10\<rparr>"

definition squelch_sample :: "unit squelch_client" where
  "squelch_sample = \<lparr>sc_handle = (),
     sc_noise_update = (\<lambda>h was p level hysteresis. (h, of_flag (fp_lt (fp_of_int binary64 (int level)) p))),
     sc_vox_advance = (\<lambda>h offset qualified hang. h), sc_vox_finish = (\<lambda>h frames. (h, 0))\<rparr>"

definition frontend_owner_sample :: "int \<Rightarrow> unit frontend_owner" where
  "frontend_owner_sample d = (frontend_default\<lparr>fe_decimator := d, fe_comparator_output := 1\<rparr>, [0, 0, 0], squelch_sample)"

definition frontend_input :: "f32 list" where
  "frontend_input = [pcm_to_f32 100, pcm_to_f32 1, pcm_to_f32 200, pcm_to_f32 2, pcm_to_f32 300, pcm_to_f32 3]"

lemmas frontend_sample_defs = frontend_sample_def squelch_sample_def frontend_owner_sample_def
  frontend_input_def frontend_default_def frontend_rejected_def maximum_baseband_output_count_def
  saturating_add_u64_def u64_max_def u32_max_def in_i16_def

text \<open>C31: with a decimation that fits the 16-bit phase, the frontend writes inside its buffers.  For
  at most \<open>u32::MAX\<close> frames an accepted call emits no more baseband samples than the capacity it
  checked, and one carrier gate per frame, or none in VOX mode.\<close>

theorem frontend_writes_fit:
  assumes "fr_decimate request \<le> 32767" and "in_i16 (fe_decimator (fst owner))"
    and "fe_decimator (fst owner) \<le> int (fr_decimate request)" and "length input div 2 \<le> u32_max"
    and "frontend_process request owner input = Some (Inr (owner', r))"
  shows "length (fo_baseband r) \<le> fr_baseband_output_capacity request \<and>
    length (fo_carrier_gate r) = (if fr_noise_squelch request then length input div 2 else 0) \<and>
    length (fo_carrier_gate r) \<le> fr_carrier_gate_capacity request"
proof -
  let ?cs = "List.map pcm_code (left_channel input)"
  obtain fs where r: "\<not> frontend_rejected request (length (fst (snd owner))) (length input div 2)"
    "fallible_steps (frontend_step request) owner ?cs = Some (owner', fs)" "r = collect_frames fs"
    using assms(5) by (auto simp: frontend_process_Inr)
  have D: "0 < fr_decimate request" using r(1) by (auto simp: frontend_rejected_def)
  have "maximum_baseband_output_count (length input div 2) (fr_decimate request) =
      (length input div 2 + (fr_decimate request - 1)) div fr_decimate request"
    using assms(1,4) by (simp add: maximum_baseband_output_count_def saturating_add_u64_def u64_max_def u32_max_def)
  moreover have "length (fo_baseband r) \<le> (length input div 2 + (fr_decimate request - 1)) div fr_decimate request"
    using decimator_run_count [OF assms(2) D assms(1,3), of "length input div 2"]
      frontend_frames_decimator [OF r(2)] r(3) by (simp add: prod_eq_iff)
  ultimately have "length (fo_baseband r) \<le> fr_baseband_output_capacity request"
    using r(1) by (auto simp: frontend_rejected_def)
  moreover have "length (fo_carrier_gate r) = (if fr_noise_squelch request then length input div 2 else 0)"
    using frontend_frames_gates [OF r(2)] r(3) by simp
  moreover have "length input div 2 \<le> fr_carrier_gate_capacity request"
    using r(1) by (auto simp: frontend_rejected_def)
  ultimately show ?thesis by simp
qed

theorem frontend_writes_fit_witness:
  "\<exists>owner' r. frontend_process (frontend_sample 6) (frontend_owner_sample 6) frontend_input = Some (Inr (owner', r)) \<and>
    length (fo_baseband r) \<le> 2 \<and> length (fo_carrier_gate r) = 3"
proof -
  obtain owner' r where p: "frontend_process (frontend_sample 6) (frontend_owner_sample 6) frontend_input = Some (Inr (owner', r))"
    by (rule frontend_process_runs [of "frontend_sample 6" "frontend_owner_sample 6" frontend_input])
      (auto simp: frontend_sample_defs)
  have "length (fo_baseband r) \<le> 2 \<and> length (fo_carrier_gate r) = 3"
    using frontend_writes_fit [OF _ _ _ _ p] by (simp add: frontend_sample_defs)
  with p show ?thesis by blast
qed

text \<open>C32: the validation accepts decimations the 16-bit phase cannot hold, and then the capacity
  check does not bound the output.  For a decimation from 32768 to 65536 the stored phase is never
  positive, so every frame emits a sample, while the capacity asked of the caller is that of the
  decimated stream.\<close>

theorem frontend_wide_decimation_overruns:
  assumes "32768 \<le> fr_decimate request" and "fr_decimate request \<le> 65536"
    and "in_i16 (fe_decimator (fst owner))" and "fe_decimator (fst owner) \<le> 1"
    and "frontend_process request owner input = Some (Inr (owner', r))"
  shows "length (fo_baseband r) = length input div 2 \<and>
    (1 < length input div 2 \<longrightarrow> maximum_baseband_output_count (length input div 2) (fr_decimate request) <
      length (fo_baseband r))"
proof -
  let ?n = "length input div 2"
  let ?D = "fr_decimate request"
  let ?cs = "List.map pcm_code (left_channel input)"
  obtain fs where r: "fallible_steps (frontend_step request) owner ?cs = Some (owner', fs)" "r = collect_frames fs"
    using assms(5) by (auto simp: frontend_process_Inr)
  then have n: "length (fo_baseband r) = ?n"
    using frontend_frames_decimator [OF r(1)] decimator_run_wide [OF assms(3,4,1,2), of ?n]
    by (simp add: prod_eq_iff)
  moreover have "maximum_baseband_output_count ?n ?D < ?n" if n1: "1 < ?n"
  proof -
    obtain m where m: "?n = Suc m" using n1 by (cases ?n) auto
    obtain k where k: "?D = Suc k" "0 < k" using assms(1) by (cases ?D) auto
    have "?n + (?D - 1) < ?n * ?D" using n1 k by (simp add: m)
    then have "(?n + (?D - 1)) div ?D < ?n" by (rule less_mult_imp_div_less)
    moreover have "maximum_baseband_output_count ?n ?D \<le> (?n + (?D - 1)) div ?D"
      by (simp add: maximum_baseband_output_count_def saturating_add_u64_def div_le_mono)
    ultimately show ?thesis by simp
  qed
  ultimately show ?thesis by simp
qed

theorem frontend_wide_decimation_overruns_witness:
  "\<exists>owner' r. frontend_process ((frontend_sample 40000)\<lparr>fr_baseband_output_capacity := 1\<rparr>)
      (frontend_owner_sample 1) frontend_input = Some (Inr (owner', r)) \<and> length (fo_baseband r) = 3"
proof -
  obtain owner' r where p: "frontend_process ((frontend_sample 40000)\<lparr>fr_baseband_output_capacity := 1\<rparr>)
      (frontend_owner_sample 1) frontend_input = Some (Inr (owner', r))"
    by (rule frontend_process_runs [of "(frontend_sample 40000)\<lparr>fr_baseband_output_capacity := 1\<rparr>"
        "frontend_owner_sample 1" frontend_input]) (auto simp: frontend_sample_defs)
  have "length (fo_baseband r) = 3"
    using frontend_wide_decimation_overruns [OF _ _ _ _ p] by (simp add: frontend_sample_defs)
  with p show ?thesis by blast
qed

text \<open>The history of a stream: one shift and one new head per frame.\<close>

definition history_step :: "int list \<Rightarrow> int \<Rightarrow> int list" where
  "history_step history c = (legacy_history_shift history)[0 := c]"

lemma frontend_history_fold:
  assumes "\<forall>c \<in> set cs. in_i16 c" and "fallible_steps (frontend_step request) owner cs = Some (owner', fs)"
  shows "fst (snd owner') = foldl history_step (fst (snd owner)) cs"
  using assms
proof (induction cs arbitrary: owner fs)
  case Nil
  then show ?case by simp
next
  case (Cons c cs)
  then obtain owner1 y g u gs where s: "frontend_step request owner c = Some (owner1, y, g, u)"
      "fallible_steps (frontend_step request) owner1 cs = Some (owner', gs)"
    unfolding fallible_steps_Cons by auto
  have "fst (snd owner1) = history_step (fst (snd owner)) c"
    using Cons.prems(1) frontend_step_Some(3) [OF s(1)] by (simp add: history_step_def wrap_i16_id)
  with Cons.IH [OF _ s(2)] Cons.prems(1) show ?case by simp
qed

lemma history_step_i16:
  assumes "in_i16 c" and "\<forall>x \<in> set h. in_i16 x"
  shows "\<forall>x \<in> set (history_step h c). in_i16 x"
proof -
  have "set (le_codes bs) \<subseteq> Collect in_i16" for bs by (induction bs rule: le_codes.induct) auto
  then have "set (legacy_history_shift h) \<subseteq> Collect in_i16"
    using assms(2) by (auto simp: legacy_history_shift_def Let_def)
  then show ?thesis
    using assms(1) set_update_subset_insert [of "legacy_history_shift h" 0 c] by (auto simp: history_step_def)
qed

lemma length_history_step [simp]: "length (history_step h c) = length h"
  by (simp add: history_step_def)

lemma history_step_nth:
  "j < length h \<Longrightarrow> history_step h c ! j = (if j = 0 then c else legacy_history_shift h ! j)"
  by (cases h) (auto simp: history_step_def nth_list_update)

lemma history_fold_i16:
  assumes "\<forall>c \<in> set cs. in_i16 c" and "\<forall>x \<in> set h. in_i16 x"
  shows "length (foldl history_step h cs) = length h \<and> (\<forall>x \<in> set (foldl history_step h cs). in_i16 x)"
  using assms(1)
proof (induction cs rule: rev_induct)
  case Nil
  then show ?case using assms(2) by simp
next
  case (snoc c cs)
  then have f: "length (foldl history_step h cs) = length h" "\<forall>x \<in> set (foldl history_step h cs). in_i16 x"
    and c: "in_i16 c" by simp_all
  have "\<forall>x \<in> set (history_step (foldl history_step h cs) c). in_i16 x" by (rule history_step_i16 [OF c f(2)])
  then show ?case using f(1) by simp
qed

lemma history_fold_latest:
  assumes "\<forall>c \<in> set cs. in_i16 c" and "\<forall>x \<in> set h. in_i16 x"
    and "j \<le> (length h - 1) div 2" and "j < length h"
  shows "foldl history_step h cs ! j = (rev cs @ h) ! j"
  using assms(1,3,4)
proof (induction cs arbitrary: j rule: rev_induct)
  case Nil
  then show ?case by simp
next
  case (snoc c cs)
  note f = history_fold_i16 [of cs, OF _ assms(2)]
  show ?case
  proof (cases j)
    case 0
    then show ?thesis using snoc.prems f by (simp add: history_step_nth)
  next
    case (Suc k)
    then show ?thesis
      using history_shift_moved [of "foldl history_step h cs" j] snoc.IH [of k] snoc.prems f
      by (simp add: history_step_nth)
  qed
qed

lemma history_fold_kept:
  assumes "\<forall>c \<in> set cs. in_i16 c" and "\<forall>x \<in> set h. in_i16 x"
    and "length h div 2 < j" and "j < length h"
  shows "foldl history_step h cs ! j = h ! j"
  using assms(1)
proof (induction cs rule: rev_induct)
  case Nil
  then show ?case by simp
next
  case (snoc c cs)
  then show ?case
    using history_shift_kept [of "foldl history_step h cs" j] history_fold_i16 [of cs, OF _ assms(2)] assms(3,4)
    by (simp add: history_step_nth)
qed

text \<open>The byte count of the history shift keeps half of the history.  After any accepted span
  the first half of the history holds the latest codes, newest first, while the entries above the
  middle keep the values they had, so they stay zero after construction and the taps over them
  contribute nothing.\<close>

theorem frontend_history_half:
  assumes "frontend_process request owner input = Some (Inr (owner', r))"
    and "\<forall>x \<in> set (fst (snd owner)). in_i16 x"
    and "j < length (fst (snd owner))"
  shows "if j \<le> (length (fst (snd owner)) - 1) div 2
    then fst (snd owner') ! j = (rev (List.map pcm_code (left_channel input)) @ fst (snd owner)) ! j
    else length (fst (snd owner)) div 2 < j \<longrightarrow> fst (snd owner') ! j = fst (snd owner) ! j"
proof -
  let ?cs = "List.map pcm_code (left_channel input)"
  have cs: "\<forall>c \<in> set ?cs. in_i16 c"
    using assms(1) pcm_code_i16 by (auto simp: frontend_process_Inr list_all_iff)
  obtain fs where "fallible_steps (frontend_step request) owner ?cs = Some (owner', fs)"
    using assms(1) unfolding frontend_process_Inr by blast
  from frontend_history_fold [OF cs this]
  have "fst (snd owner') = foldl history_step (fst (snd owner)) ?cs" .
  with history_fold_latest [OF cs assms(2) _ assms(3)] history_fold_kept [OF cs assms(2) _ assms(3)] show ?thesis by simp
qed

theorem frontend_history_half_witness:
  "\<exists>owner' r. frontend_process (frontend_sample 6) (frontend_owner_sample 6) frontend_input = Some (Inr (owner', r)) \<and>
    fst (snd owner') ! 0 = 300 \<and> fst (snd owner') ! 1 = 200 \<and> fst (snd owner') ! 2 = 0"
proof -
  obtain owner' r where p: "frontend_process (frontend_sample 6) (frontend_owner_sample 6) frontend_input = Some (Inr (owner', r))"
    by (rule frontend_process_runs [of "frontend_sample 6" "frontend_owner_sample 6" frontend_input])
      (auto simp: frontend_sample_defs)
  have c: "pcm_code (pcm_to_f32 k) = k" if "in_i16 k" for k
    using that by (simp add: pcm_code_def f32_to_pcm_code_of_code)
  have "fst (snd owner') ! 0 = 300 \<and> fst (snd owner') ! 1 = 200 \<and> fst (snd owner') ! 2 = 0"
    using frontend_history_half [OF p, of 0] frontend_history_half [OF p, of 1] frontend_history_half [OF p, of 2]
    by (simp add: frontend_sample_defs c)
  with p show ?thesis by blast
qed

text \<open>The callback partition.\<close>

fun merge_results :: "frontend_result list \<Rightarrow> frontend_result" where
  "merge_results [] = \<lparr>fo_baseband = [], fo_carrier_gate = [], fo_rssi_updated = False\<rparr>"
| "merge_results (r # rs) =
     (let m = merge_results rs
      in \<lparr>fo_baseband = fo_baseband r @ fo_baseband m, fo_carrier_gate = fo_carrier_gate r @ fo_carrier_gate m,
          fo_rssi_updated = (fo_rssi_updated r \<or> fo_rssi_updated m)\<rparr>)"

fun frontend_calls ::
  "frontend_request \<Rightarrow> 's frontend_owner \<Rightarrow> f32 list list \<Rightarrow> ('s frontend_owner \<times> frontend_result list) fallible" where
  "frontend_calls request owner [] = Some (Inr (owner, []))"
| "frontend_calls request owner (b # bs) =
     bind_fallible (frontend_process request owner b) (\<lambda>(owner, r).
     bind_fallible (frontend_calls request owner bs) (\<lambda>(owner, rs). Some (Inr (owner, r # rs))))"

lemma collect_frames_append:
  "collect_frames (xs @ ys) = merge_results [collect_frames xs, collect_frames ys]"
  by (induction xs rule: collect_frames.induct) (auto simp: Let_def)

lemma left_channel_append: "even (length xs) \<Longrightarrow> left_channel (xs @ ys) = left_channel xs @ left_channel ys"
  by (induction xs rule: left_channel.induct) auto

lemma frontend_rejected_mono:
  assumes "frontend_rejected request h m" and "m \<le> n"
  shows "frontend_rejected request h n"
proof -
  have "maximum_baseband_output_count m d \<le> maximum_baseband_output_count n d" for d
    unfolding maximum_baseband_output_count_def saturating_add_u64_def using assms(2)
    by (intro div_le_mono) auto
  then show ?thesis using assms by (auto simp: frontend_rejected_def intro: le_less_trans less_le_trans)
qed

lemma frontend_steps_length:
  assumes "fallible_steps (frontend_step request) owner cs = Some (owner', fs)"
  shows "length (fst (snd owner')) = length (fst (snd owner))"
  using assms
proof (induction cs arbitrary: owner fs)
  case (Cons c cs)
  then show ?case unfolding fallible_steps_Cons using frontend_step_length by metis
qed simp

text \<open>The callback partition is invisible to the frontend.  When a whole span succeeds, so does any
  division of it into spans of whole frames; it leaves the state, history and squelch handle of the
  whole span, and its outputs, in order, are those of the whole span.\<close>

theorem frontend_partition:
  assumes "\<forall>b \<in> set bs. even (length b)" and "bs \<noteq> []"
    and "frontend_process request owner (concat bs) = Some (Inr (owner', r))"
  shows "\<exists>rs. frontend_calls request owner bs = Some (Inr (owner', rs)) \<and> r = merge_results rs"
  using assms
proof (induction bs arbitrary: owner r)
  case Nil
  then show ?case by simp
next
  case (Cons b bs)
  let ?steps = "fallible_steps (frontend_step request)"
  let ?c1 = "List.map pcm_code (left_channel b)"
  let ?c2 = "List.map pcm_code (left_channel (concat bs))"
  have len: "length (concat (b # bs)) div 2 = length b div 2 + length (concat bs) div 2"
    using Cons.prems(1) by auto
  have left: "left_channel (concat (b # bs)) = left_channel b @ left_channel (concat bs)"
    using Cons.prems(1) by (simp add: left_channel_append)
  obtain fs where f: "\<not> frontend_rejected request (length (fst (snd owner))) (length (concat (b # bs)) div 2)"
      "list_all is_finite (left_channel b @ left_channel (concat bs))" "?steps owner (?c1 @ ?c2) = Some (owner', fs)"
      "r = collect_frames fs"
    using Cons.prems(3) unfolding frontend_process_Inr left map_append by blast
  obtain o1 us ws where s: "?steps owner ?c1 = Some (o1, us)" "?steps o1 ?c2 = Some (owner', ws)" "fs = us @ ws"
    using f(3) unfolding fallible_steps_append by blast
  have acc: "\<not> frontend_rejected request (length (fst (snd owner))) (length b div 2)"
    "\<not> frontend_rejected request (length (fst (snd o1))) (length (concat bs) div 2)"
    using f(1) frontend_rejected_mono unfolding len frontend_steps_length [OF s(1)] by (metis le_add1, metis le_add2)
  have b: "frontend_process request owner b = Some (Inr (o1, collect_frames us))"
    using acc(1) f(2) s(1) unfolding frontend_process_Inr by simp
  have r: "r = merge_results [collect_frames us, collect_frames ws]"
    using f(4) s(3) by (simp add: collect_frames_append)
  show ?case
  proof (cases "bs = []")
    case True
    then have "owner' = o1" "ws = []" using s(2) by simp_all
    then show ?thesis using True b r by (simp add: bind_fallible_def)
  next
    case False
    have "frontend_process request o1 (concat bs) = Some (Inr (owner', collect_frames ws))"
      using acc(2) f(2) s(2) unfolding frontend_process_Inr by simp
    then obtain rs where rs: "frontend_calls request o1 bs = Some (Inr (owner', rs))" "collect_frames ws = merge_results rs"
      using Cons.IH [of o1] Cons.prems(1) False by auto
    then have "frontend_calls request owner (b # bs) = Some (Inr (owner', collect_frames us # rs))"
      using b by (simp add: bind_fallible_def)
    moreover have "r = merge_results (collect_frames us # rs)"
      unfolding r rs(2) [symmetric] merge_results.simps Let_def by (simp add: rs(2) [symmetric])
    ultimately show ?thesis by blast
  qed
qed

theorem frontend_partition_witness:
  "\<exists>owner' rs. frontend_calls (frontend_sample 6) (frontend_owner_sample 6) [frontend_input, [], frontend_input] =
      Some (Inr (owner', rs)) \<and>
    frontend_process (frontend_sample 6) (frontend_owner_sample 6) (frontend_input @ frontend_input) =
      Some (Inr (owner', merge_results rs))"
proof -
  obtain owner' r where p: "frontend_process (frontend_sample 6) (frontend_owner_sample 6)
      (concat [frontend_input, [], frontend_input]) = Some (Inr (owner', r))"
    by (rule frontend_process_runs [of "frontend_sample 6" "frontend_owner_sample 6"
        "concat [frontend_input, [], frontend_input]"]) (auto simp: frontend_sample_defs)
  have "\<forall>b \<in> set [frontend_input, [], frontend_input]. even (length b)" by (simp add: frontend_input_def)
  from frontend_partition [OF this _ p] obtain rs where
    "frontend_calls (frontend_sample 6) (frontend_owner_sample 6) [frontend_input, [], frontend_input] = Some (Inr (owner', rs))"
    "r = merge_results rs" by blast
  then show ?thesis using p by (intro exI [of _ owner'] exI [of _ rs]) simp
qed

section \<open>A divisor of -1\<close>

lemma frames_panic:
  assumes "\<forall>c \<in> set cs. in_i16 c" and "fr_noise_squelch request \<longrightarrow> fr_noise_divisor request \<noteq> 0"
  shows "fallible_steps (frontend_step request) owner cs = None \<longleftrightarrow>
    fr_noise_squelch request \<and> fr_noise_divisor request = -1 \<and>
    (\<exists>k < length cs. noise_accumulate (fr_noise_coefficients request)
       (foldl history_step (fst (snd owner)) (take (Suc k) cs)) 0 = -2147483648)"
  using assms(1)
proof (induction cs arbitrary: owner)
  case Nil
  then show ?case by simp
next
  case (Cons c cs)
  let ?hit = "\<lambda>h. noise_accumulate (fr_noise_coefficients request) h 0 = -2147483648"
  have first: "frontend_step request owner c = None \<longleftrightarrow>
      fr_noise_squelch request \<and> fr_noise_divisor request = -1 \<and> ?hit (history_step (fst (snd owner)) c)"
    using frontend_step_None [OF assms(2), of owner c] Cons.prems by (simp add: history_step_def wrap_i16_id)
  have split: "(\<exists>k < length (c # cs). ?hit (foldl history_step h (take (Suc k) (c # cs)))) \<longleftrightarrow>
      ?hit (history_step h c) \<or> (\<exists>k < length cs. ?hit (foldl history_step (history_step h c) (take (Suc k) cs)))" for h
    by (simp add: Ex_less_Suc2)
  show ?case
  proof (cases "frontend_step request owner c")
    case None
    then show ?thesis using first split by auto
  next
    case (Some out)
    then obtain o1 y g u where s: "frontend_step request owner c = Some (o1, y, g, u)" by (metis prod.exhaust)
    have "fst (snd o1) = history_step (fst (snd owner)) c"
      using frontend_step_Some(3) [OF s] Cons.prems by (simp add: history_step_def wrap_i16_id)
    then show ?thesis unfolding split using Cons.IH [of o1] Cons.prems first s by auto
  qed
qed

text \<open>The validation accepts a noise divisor of -1, and then a call panics exactly when the accumulator of
  some frame is \<open>i32::MIN\<close>.  With four taps of \<open>i16::MIN\<close> and half-scale input the fourth frame's is.\<close>

lemma frontend_panics_exactly:
  assumes "\<not> frontend_rejected request (length (fst (snd owner))) (length input div 2)"
    and "list_all is_finite (left_channel input)"
  shows "frontend_process request owner input = None \<longleftrightarrow>
    fr_noise_squelch request \<and> fr_noise_divisor request = -1 \<and>
    (\<exists>k < length input div 2. noise_accumulate (fr_noise_coefficients request)
       (foldl history_step (fst (snd owner)) (take (Suc k) (List.map pcm_code (left_channel input)))) 0 = -2147483648)"
proof -
  have "\<forall>c \<in> set (List.map pcm_code (left_channel input)). in_i16 c"
    using assms(2) pcm_code_i16 by (auto simp: list_all_iff)
  moreover have "fr_noise_squelch request \<longrightarrow> fr_noise_divisor request \<noteq> 0"
    using assms(1) by (auto simp: frontend_rejected_def)
  ultimately show ?thesis using frames_panic [of "List.map pcm_code (left_channel input)" request owner] assms
    by (simp add: frontend_process_None)
qed

definition frontend_minus_one :: frontend_request where
  "frontend_minus_one = (frontend_sample 6)\<lparr>fr_baseband_coefficients := replicate 8 1,
     fr_noise_coefficients := replicate 4 (-32768), fr_noise_divisor := -1\<rparr>"

lemma noise_divisor_minus_one_panics:
  "\<not> frontend_rejected frontend_minus_one 8 4 \<and>
   frontend_process frontend_minus_one (frontend_default, replicate 8 0, squelch_sample)
     (replicate 8 (pcm_to_f32 16384)) = None"
proof -
  let ?owner = "(frontend_default, replicate 8 0, squelch_sample)"
  let ?input = "replicate 8 (pcm_to_f32 16384)"
  have input: "left_channel ?input = replicate 4 (pcm_to_f32 16384)" by (simp add: numeral_eq_Suc)
  have code: "pcm_code (pcm_to_f32 16384) = 16384" by (simp add: pcm_code_def f32_to_pcm_code_of_code in_i16_def)
  have sum: "noise_accumulate (replicate 4 (-32768)) (foldl history_step (replicate 8 0) (replicate 4 16384)) 0 =
      -2147483648"
    by code_simp
  have acc: "\<not> frontend_rejected frontend_minus_one (length (fst (snd ?owner))) (length ?input div 2)"
    by (simp add: frontend_minus_one_def frontend_sample_defs)
  have fin: "list_all is_finite (left_channel ?input)" unfolding input by code_simp
  have four: "length ?input div 2 = 4" "take (Suc 3) (List.map pcm_code (left_channel ?input)) = replicate 4 16384"
    unfolding input by (simp_all add: code)
  have fields: "fr_noise_squelch frontend_minus_one" "fr_noise_divisor frontend_minus_one = -1"
    "fr_noise_coefficients frontend_minus_one = replicate 4 (-32768)"
    by (simp_all add: frontend_minus_one_def frontend_sample_def)
  have "frontend_process frontend_minus_one ?owner ?input = None"
    unfolding frontend_panics_exactly [OF acc fin]
    using fields sum four by (intro conjI exI [of _ 3]) (simp_all only: fst_conv snd_conv)
  then show ?thesis using acc by simp
qed

end
