(* ===== verification/Receive_Profiles.thy ===== *)
theory Receive_Profiles
  imports Receive_Frontend
begin

text \<open>
  The fixed detector tables behind the session ABI (\<open>src/receive_profiles.rs\<close>) and their selection;
  \<open>fp_\<close> are the fields of \<open>FilterProfile\<close>.
\<close>

unbundle bit_operations_syntax

record filter_profile =
  fp_coefficients :: "int list"
  fp_divisor :: int

definition BASEBAND_3KHZ :: "int list" where
  "BASEBAND_3KHZ = [
    259, 58, -185, -437, -654, -793, -815, -696, -434, -48, 414, 886, 1284, 1523, 1529, 1254, 691,
    -117, -1078, -2049, -2854, -3303, -3220, -2472, -995, 1187, 3952, 7086, 10300, 13270, 15672,
    17236, 17778, 17236, 15672, 13270, 10300, 7086, 3952, 1187, -995, -2472, -3220, -3303, -2854,
    -2049, -1078, -117, 691, 1254, 1529, 1523, 1284, 886, 414, -48, -434, -696, -815, -793, -654,
    -437, -185, 58, 259, 393]"

definition NOISE_STANDARD :: "int list" where
  "NOISE_STANDARD = [
    139, -182, -269, -66, 56, 59, 250, 395, -80, -775, -557, 437, 779, 210, -17, 123, -692, -1664,
    -256, 2495, 2237, -1018, -2133, -478, -1134, -2711, 2642, 10453, 4010, -14385, -16488, 6954,
    23030, 6954, -16488, -14385, 4010, 10453, 2642, -2711, -1134, -478, -2133, -1018, 2237, 2495,
    -256, -1664, -692, 123, -17, 210, 779, 437, -557, -775, -80, 395, 250, 59, 56, -66, -269,
    -182, 139, 257]"

definition NOISE_ALTERNATE :: "int list" where
  "NOISE_ALTERNATE = [
    581, -251, -1027, -766, 63, 346, 148, 459, 1165, 847, -824, -1994, -1147, 462, 704, 32, 651,
    2277, 1790, -1635, -4071, -2240, 1060, 1127, -502, 1963, 7399, 5862, -6693, -17483, -10387,
    10549, 22110, 10549, -10387, -17483, -6693, 5862, 7399, 1963, -502, 1127, 1060, -2240, -4071,
    -1635, 1790, 2277, 651, 32, 704, 462, -1147, -1994, -824, 847, 1165, 459, 148, 346, 63, -766,
    -1027, -251, 581, 537]"

definition CTCSS_215HZ :: "int list" where
  "CTCSS_215HZ = [
    2038, 2049, 1991, 1859, 1650, 1363, 999, 562, 58, -502, -1106, -1739, -2382, -3014, -3612,
    -4153, -4610, -4959, -5172, -5226, -5098, -4769, -4222, -3444, -2430, -1176, 310, 2021, 3937,
    6035, 8284, 10648, 13086, 15550, 17993, 20363, 22608, 24677, 26522, 28099, 29369, 30299,
    30867, 31058, 30867, 30299, 29369, 28099, 26522, 24677, 22608, 20363, 17993, 15550, 13086,
    10648, 8284, 6035, 3937, 2021, 310, -1176, -2430, -3444, -4222, -4769, -5098, -5226, -5172,
    -4959, -4610, -4153, -3612, -3014, -2382, -1739, -1106, -502, 58, 562, 999, 1363, 1650, 1859,
    1991, 2049, 2038, 1966]"

definition CTCSS_250HZ :: "int list" where
  "CTCSS_250HZ = [
    676, 364, -3, -415, -860, -1320, -1777, -2209, -2593, -2904, -3119, -3212, -3162, -2949,
    -2557, -1975, -1198, -226, 932, 2263, 3744, 5346, 7034, 8767, 10499, 12184, 13770, 15211,
    16462, 17480, 18234, 18696, 18852, 18696, 18234, 17480, 16462, 15211, 13770, 12184, 10499,
    8767, 7034, 5346, 3744, 2263, 932, -226, -1198, -1975, -2557, -2949, -3162, -3212, -3119,
    -2904, -2593, -2209, -1777, -1320, -860, -415, -3, 364, 676, 927]"

definition BASEBAND :: filter_profile where
  "BASEBAND = \<lparr>fp_coefficients = BASEBAND_3KHZ, fp_divisor = 131072\<rparr>"

definition noise_profile :: "nat \<Rightarrow> filter_profile option" where
  "noise_profile profile =
     (if profile = 0 then Some \<lparr>fp_coefficients = NOISE_STANDARD, fp_divisor = 65536\<rparr>
      else if profile = 1 then Some \<lparr>fp_coefficients = NOISE_ALTERNATE, fp_divisor = 65536\<rparr>
      else None)"

definition ctcss_profile :: "64 word \<Rightarrow> filter_profile" where
  "ctcss_profile tone_mask =
     (if tone_mask AND push_bit 31 (- 1) = 0
      then \<lparr>fp_coefficients = CTCSS_215HZ, fp_divisor = 524288\<rparr>
      else \<lparr>fp_coefficients = CTCSS_250HZ, fp_divisor = 262144\<rparr>)"

section \<open>The tables suit the fixed-point stages\<close>

text \<open>A table the stages take: 16-bit coefficients, at least one of them and at most 1024, and a
  positive divisor that fits \<open>i32\<close>.\<close>

definition profile_ok :: "filter_profile \<Rightarrow> bool" where
  "profile_ok p \<longleftrightarrow> list_all in_i16 (fp_coefficients p) \<and> 0 < length (fp_coefficients p) \<and>
     length (fp_coefficients p) \<le> 1024 \<and> 0 < fp_divisor p \<and> fp_divisor p \<le> 2147483647"

definition tap_weight :: "filter_profile \<Rightarrow> int" where
  "tap_weight p = sum_list (List.map abs (fp_coefficients p))"

lemmas profile_tables = BASEBAND_3KHZ_def NOISE_STANDARD_def NOISE_ALTERNATE_def CTCSS_215HZ_def CTCSS_250HZ_def

lemma BASEBAND_ok: "profile_ok BASEBAND \<and> length (fp_coefficients BASEBAND) = 66"
  by (simp add: profile_ok_def BASEBAND_def profile_tables in_i16_def)

lemma noise_profile_ok:
  "noise_profile n = Some p \<Longrightarrow> profile_ok p \<and> length (fp_coefficients p) = 66 \<and> tap_weight p \<le> 195657"
  by (auto simp: profile_ok_def noise_profile_def tap_weight_def profile_tables in_i16_def split: if_splits)

lemma ctcss_profile_ok: "profile_ok (ctcss_profile m)"
  by (simp add: profile_ok_def ctcss_profile_def profile_tables in_i16_def)

lemma low_mask: "m AND push_bit 31 (- 1) = 0 \<longleftrightarrow> unat (m :: 64 word) < 2147483648"
proof -
  have "m AND push_bit 31 (- 1) = 0 \<longleftrightarrow> take_bit 31 m = m"
    by (auto simp: bit_eq_iff bit_simps)
  also have "\<dots> \<longleftrightarrow> unat m < 2147483648"
  proof -
    have u: "unat (take_bit 31 m) = unat m mod 2147483648"
      by (simp only: unsigned_take_bit_eq) (simp add: take_bit_eq_mod)
    show ?thesis unfolding word_unat_eq_iff u by (metis mod_less mod_less_divisor zero_less_numeral)
  qed
  finally show ?thesis .
qed

text \<open>The noise accumulator is 32 bits wide, so it is exact only for samples below a level that the
  weight of the table decides.\<close>

lemma noise_accumulate_exact:
  assumes "\<forall>x \<in> set h. \<bar>x\<bar> \<le> level" and "0 \<le> level"
    and "\<bar>a\<bar> + sum_list (List.map abs cs) * level \<le> 2147483647" and "length cs \<le> length h"
  shows "noise_accumulate cs h a = a + (\<Sum>(c, x) \<leftarrow> zip cs h. c * x)"
  using assms
proof (induction cs arbitrary: h a)
  case Nil
  then show ?case by simp
next
  case (Cons c cs)
  from Cons.prems(4) obtain x xs where h: "h = x # xs" by (cases h) auto
  have cx: "\<bar>c * x\<bar> \<le> \<bar>c\<bar> * level"
    using Cons.prems(1) unfolding abs_mult h by (intro mult_left_mono) auto
  have rest: "0 \<le> sum_list (List.map abs cs) * level"
    using Cons.prems(2) by (intro mult_nonneg_nonneg sum_list_nonneg) auto
  have tot: "\<bar>a\<bar> + \<bar>c\<bar> * level + sum_list (List.map abs cs) * level \<le> 2147483647"
    using Cons.prems(3) by (simp add: algebra_simps)
  have "wrap_i32 (c * x) = c * x" "wrap_i32 (a + c * x) = a + c * x"
    using cx rest tot by (auto intro!: wrap_i32_id simp: in_i32_def)
  moreover have "noise_accumulate cs xs (a + c * x) = a + c * x + (\<Sum>(c, x) \<leftarrow> zip cs xs. c * x)"
    by (rule Cons.IH) (use Cons.prems cx tot in \<open>auto simp: h\<close>)
  ultimately show ?case by (simp add: h)
qed

text \<open>Every profile a configuration can select suits the stages.  The low-pass, noise and CTCSS
  tables have 16-bit coefficients and positive divisors, the noise tables are no longer than the
  low-pass one, the CTCSS table switches exactly at tone index 31, and with a history of codes up to
  10975 the 32-bit noise accumulator is the exact convolution.\<close>

theorem profiles_suit_stages:
  assumes "noise_profile n = Some p" and "length h = 66" and "\<forall>x \<in> set h. \<bar>x\<bar> \<le> 10975"
  shows "profile_ok BASEBAND \<and> profile_ok p \<and> profile_ok (ctcss_profile m) \<and>
    length (fp_coefficients p) \<le> length (fp_coefficients BASEBAND) \<and>
    fp_divisor (ctcss_profile m) = (if unat m < 2147483648 then 524288 else 262144) \<and>
    noise_accumulate (fp_coefficients p) h 0 = (\<Sum>(c, x) \<leftarrow> zip (fp_coefficients p) h. c * x)"
proof -
  note ok = noise_profile_ok [OF assms(1)]
  have "noise_accumulate (fp_coefficients p) h 0 = 0 + (\<Sum>(c, x) \<leftarrow> zip (fp_coefficients p) h. c * x)"
  proof (rule noise_accumulate_exact [OF assms(3)])
    have "tap_weight p * 10975 \<le> 195657 * 10975" using ok by (intro mult_right_mono) auto
    then show "\<bar>0\<bar> + sum_list (List.map abs (fp_coefficients p)) * 10975 \<le> 2147483647"
      by (simp add: tap_weight_def)
  qed (use ok assms(2) in auto)
  moreover have "fp_divisor (ctcss_profile m) = (if unat m < 2147483648 then 524288 else 262144)"
    by (simp only: ctcss_profile_def low_mask split: if_split) simp
  ultimately show ?thesis using ok BASEBAND_ok ctcss_profile_ok [of m] by simp
qed

theorem profiles_suit_stages_witness:
  "\<exists>p. noise_profile 1 = Some p \<and> profile_ok p \<and>
    noise_accumulate (fp_coefficients p) (replicate 66 10000) 0 = -4230000"
proof -
  obtain p where p: "noise_profile 1 = Some p" by (simp add: noise_profile_def)
  have z: "zip (fp_coefficients p) (replicate 66 10000) = List.map (\<lambda>c. (c, 10000)) (fp_coefficients p)"
    using noise_profile_ok [OF p] by (simp add: zip_replicate2)
  have "(\<Sum>(c, x) \<leftarrow> zip (fp_coefficients p) (replicate 66 10000). c * x) = -4230000"
    unfolding z using p by (auto simp: noise_profile_def NOISE_ALTERNATE_def)
  then show ?thesis using profiles_suit_stages [OF p, of "replicate 66 10000" 0] p by auto
qed

end
