(* ===== verification/Receive_Path.thy ===== *)
theory Receive_Path
  imports Timer Rx_Blanking Receive_Frontend Deemphasis Envelope_Meter Center_Slicer Delay_Line
begin

text \<open>
  The owned receive path (\<open>src/receive_path.rs\<close>), which composes the frontend, the CTCSS filter and
  slicer, the voice filter, deemphasis, the squelch delay and the envelope meters with the squelch,
  CTCSS and DCS clients.  \<open>pc_\<close> are the fields of its \<open>Config\<close>, \<open>pr_\<close> those of \<open>ProcessResult\<close>; the
  fields of \<open>ReceivePath\<close> are grouped into its fixed setup (\<open>ps_\<close>), its preallocated buffers (\<open>pb_\<close>)
  and its stream state (\<open>rp_\<close>).  The buffers keep what earlier calls wrote beyond the current span.
\<close>

definition BASE_SAMPLE_RATE_HZ :: nat where "BASE_SAMPLE_RATE_HZ = 8000"

definition LEGACY_DELAY_GATE_FRAMES :: nat where
  "LEGACY_DELAY_GATE_FRAMES = NATIVE_SAMPLE_RATE_HZ div 50"

section \<open>Configuration\<close>

record filter_config =
  flt_coefficients :: "int list"
  flt_input_gain :: int
  flt_output_gain :: int
  flt_calc_adjust :: int

record frontend_config =
  fec_baseband_coefficients :: "int list"
  fec_baseband_calc_adjust :: int
  fec_baseband_output_gain :: int
  fec_noise_coefficients :: "int list"
  fec_noise_divisor :: int
  fec_decimate :: nat
  fec_calibration_window :: nat
  fec_open_level :: nat
  fec_hysteresis :: nat
  fec_noise_squelch :: bool

record center_slicer_config =
  csc_limit :: int
  csc_setpoint :: int
  csc_decay_factor :: int
  csc_trace :: bool

record delay_config =
  dlc_storage_capacity :: nat
  dlc_lead :: nat

record envelope_config =
  evc_decay_factor :: int
  evc_threshold :: int

record vox_config =
  vxc_envelope :: envelope_config
  vxc_hang_time_ms :: int

record ctcss_config =
  ctc_tone_mask :: "64 word"
  ctc_relax :: bool

record dcs_config =
  dcc_code :: int
  dcc_inverted :: bool

record path_config =
  pc_native_sample_rate_hz :: nat
  pc_maximum_native_frames :: nat
  pc_frontend :: frontend_config
  pc_lsd_filter :: filter_config
  pc_hpf_filter :: "filter_config option"
  pc_center_slicer :: "center_slicer_config option"
  pc_deemphasis :: "deemphasis_controls option"
  pc_delay :: "delay_config option"
  pc_vox :: "vox_config option"
  pc_measurement :: "envelope_config option"
  pc_ctcss :: "ctcss_config option"
  pc_dcs :: "dcs_config option"

record process_result =
  pr_native_frame_count :: nat
  pr_baseband_frame_count :: nat
  pr_blanked_native_frames :: nat
  pr_carrier_detect :: bool
  pr_vox_detect :: bool
  pr_ctcss_decoded :: int
  pr_ctcss_tail_tone_active :: bool
  pr_dcs_valid :: bool
  pr_ctcss_decoder_peak :: f32
  pr_rssi_peak :: int
  pr_rssi_updated :: bool

definition process_result_default :: process_result where
  "process_result_default = \<lparr>pr_native_frame_count = 0, pr_baseband_frame_count = 0,
     pr_blanked_native_frames = 0, pr_carrier_detect = False, pr_vox_detect = False, pr_ctcss_decoded = 0,
     pr_ctcss_tail_tone_active = False, pr_dcs_valid = False, pr_ctcss_decoder_peak = fp_zero,
     pr_rssi_peak = 0, pr_rssi_updated = False\<rparr>"

section \<open>State\<close>

record filter_controls =
  flc_input_gain :: int
  flc_output_gain :: int
  flc_calc_adjust :: int

record frontend_controls =
  fct_baseband_calc_adjust :: int
  fct_baseband_output_gain :: int
  fct_noise_divisor :: int
  fct_decimate :: nat
  fct_calibration_window :: nat
  fct_open_level :: nat
  fct_hysteresis :: nat
  fct_noise_squelch :: bool

record path_setup =
  ps_maximum_native_frames :: nat
  ps_baseband_capacity :: nat
  ps_frontend_controls :: frontend_controls
  ps_lsd_controls :: filter_controls
  ps_hpf_controls :: "filter_controls option"
  ps_center_config :: "center_slicer_config option"
  ps_deemphasis_config :: "deemphasis_controls option"
  ps_delay_config :: "delay_config option"
  ps_vox_config :: "vox_config option"
  ps_measurement_config :: "envelope_config option"
  ps_baseband_coefficients :: "int list"
  ps_noise_coefficients :: "int list"
  ps_lsd_coefficients :: "int list"
  ps_hpf_coefficients :: "int list"
  ps_vox_hang_frames :: nat

record path_buffers =
  pb_baseband :: "f32 list"
  pb_carrier_gate :: "nat list"
  pb_lsd :: "f32 list"
  pb_centered :: "f32 list"
  pb_limited :: "f32 list"
  pb_hpf :: "f32 list"
  pb_voice :: "f32 list"
  pb_delayed :: "f32 list"
  pb_vox_envelope :: "f32 list"
  pb_measurement :: "f32 list"
  pb_center_trace :: "f32 list"

record ('s, 'r, 'd) receive_path =
  rp_setup :: path_setup
  rp_buffers :: path_buffers
  rp_frontend_history :: "int list"
  rp_lsd_history :: "int list"
  rp_hpf_history :: "int list"
  rp_frontend_state :: frontend_state
  rp_squelch :: "'s squelch_client"
  rp_center_state :: slicer_state
  rp_deemphasis_state :: deemphasis_state
  rp_delay_state :: delay_state
  rp_vox_envelope_state :: envelope_state
  rp_measurement_state :: envelope_state
  rp_ctcss_state :: "'r ctcss_receive"
  rp_dcs_state :: "'d dcs_receive"
  rp_delay_storage :: "f32 list"
  rp_emission_offsets :: "nat list"
  rp_blanking :: blanking
  rp_delay_gate_native_remainder :: nat
  rp_delay_outzero :: bool
  rp_voice_processing_active :: bool
  rp_center_trace_phase :: "32 word"
  rp_last_baseband_count :: nat
  rp_last_native_count :: nat
  rp_last_result :: process_result

text \<open>Writing a span into a buffer.\<close>

definition write_span :: "nat \<Rightarrow> 'a list \<Rightarrow> 'a list \<Rightarrow> 'a list" where
  "write_span start xs buffer = take start buffer @ xs @ drop (start + length xs) buffer"

definition read_span :: "nat \<Rightarrow> nat \<Rightarrow> 'a list \<Rightarrow> 'a list" where
  "read_span start count buffer = take count (drop start buffer)"

section \<open>Operations that can fail\<close>

text \<open>A method takes the path, changes it, and returns or fails with the path as it then is; \<open>None\<close> is
  a call that never returns.\<close>

type_synonym ('p, 'a) path_call = "('p \<times> 'a result) option"

definition path_bind :: "('p, 'a) path_call \<Rightarrow> ('p \<Rightarrow> 'a \<Rightarrow> ('p, 'b) path_call) \<Rightarrow> ('p, 'b) path_call" where
  "path_bind m f =
     (case m of
        None \<Rightarrow> None
      | Some (p, Inl e) \<Rightarrow> Some (p, Inl e)
      | Some (p, Inr a) \<Rightarrow> f p a)"

text \<open>Running a stage that commits its result only on success.\<close>

definition path_stage :: "'p \<Rightarrow> 'a result \<Rightarrow> ('a \<Rightarrow> 'p \<times> 'b) \<Rightarrow> ('p, 'b) path_call" where
  "path_stage p r f = (case r of Inl e \<Rightarrow> Some (p, Inl e) | Inr a \<Rightarrow> (let (p', b) = f a in Some (p', Inr b)))"

section \<open>Construction\<close>

definition valid_filter :: "filter_config \<Rightarrow> bool" where
  "valid_filter config \<longleftrightarrow> flt_coefficients config \<noteq> [] \<and> flt_calc_adjust config \<noteq> 0"

definition filter_controls_of :: "filter_config \<Rightarrow> filter_controls" where
  "filter_controls_of config = \<lparr>flc_input_gain = flt_input_gain config,
     flc_output_gain = flt_output_gain config, flc_calc_adjust = flt_calc_adjust config\<rparr>"

definition path_config_rejected :: "path_config \<Rightarrow> bool" where
  "path_config_rejected config \<longleftrightarrow>
     (let frontend = pc_frontend config in
      pc_native_sample_rate_hz config \<noteq> NATIVE_SAMPLE_RATE_HZ \<or>
      fec_decimate frontend = 0 \<or>
      pc_native_sample_rate_hz config mod fec_decimate frontend \<noteq> 0 \<or>
      pc_native_sample_rate_hz config div fec_decimate frontend \<noteq> BASE_SAMPLE_RATE_HZ \<or>
      pc_maximum_native_frames config = 0 \<or>
      fec_baseband_coefficients frontend = [] \<or>
      fec_noise_squelch frontend \<and>
        (fec_noise_coefficients frontend = [] \<or>
         length (fec_baseband_coefficients frontend) < length (fec_noise_coefficients frontend)) \<or>
      fec_baseband_calc_adjust frontend = 0 \<or>
      fec_noise_squelch frontend \<and> fec_noise_divisor frontend = 0 \<or>
      fec_calibration_window frontend = 0 \<or>
      \<not> valid_filter (pc_lsd_filter config) \<or>
      (case pc_hpf_filter config of None \<Rightarrow> False | Some f \<Rightarrow> \<not> valid_filter f) \<or>
      (pc_ctcss config \<noteq> None) \<noteq> (pc_center_slicer config \<noteq> None) \<or>
      pc_hpf_filter config = None \<and> (pc_deemphasis config \<noteq> None \<or> pc_delay config \<noteq> None) \<or>
      (case pc_delay config of None \<Rightarrow> False
       | Some delay \<Rightarrow> dlc_storage_capacity delay = 0 \<or> dlc_storage_capacity delay < dlc_lead delay))"

definition vox_hang_frames :: "vox_config option \<Rightarrow> nat result" where
  "vox_hang_frames vox =
     (case vox of
        Some vox \<Rightarrow>
          if 0 < vxc_hang_time_ms vox
          then (case checked_u32 (nat (vxc_hang_time_ms vox) * FRAMES_PER_MILLISECOND) of
                  None \<Rightarrow> Inl INVALID_ARGUMENT | Some frames \<Rightarrow> Inr frames)
          else Inr 0
      | None \<Rightarrow> Inr 0)"

definition path_setup_of :: "path_config \<Rightarrow> nat \<Rightarrow> path_setup" where
  "path_setup_of config hang_frames =
     (let frontend = pc_frontend config; decimate = fec_decimate frontend in
      \<lparr>ps_maximum_native_frames = pc_maximum_native_frames config,
       ps_baseband_capacity = (pc_maximum_native_frames config + decimate * 2 - 2) div decimate,
       ps_frontend_controls = \<lparr>fct_baseband_calc_adjust = fec_baseband_calc_adjust frontend,
         fct_baseband_output_gain = fec_baseband_output_gain frontend,
         fct_noise_divisor = fec_noise_divisor frontend, fct_decimate = decimate,
         fct_calibration_window = fec_calibration_window frontend, fct_open_level = fec_open_level frontend,
         fct_hysteresis = fec_hysteresis frontend, fct_noise_squelch = fec_noise_squelch frontend\<rparr>,
       ps_lsd_controls = filter_controls_of (pc_lsd_filter config),
       ps_hpf_controls = map_option filter_controls_of (pc_hpf_filter config),
       ps_center_config = pc_center_slicer config,
       ps_deemphasis_config = pc_deemphasis config,
       ps_delay_config = pc_delay config,
       ps_vox_config = pc_vox config,
       ps_measurement_config = pc_measurement config,
       ps_baseband_coefficients = fec_baseband_coefficients frontend,
       ps_noise_coefficients = fec_noise_coefficients frontend,
       ps_lsd_coefficients = flt_coefficients (pc_lsd_filter config),
       ps_hpf_coefficients = (case pc_hpf_filter config of None \<Rightarrow> [] | Some f \<Rightarrow> flt_coefficients f),
       ps_vox_hang_frames = hang_frames\<rparr>)"

definition path_buffers_new :: "nat \<Rightarrow> nat \<Rightarrow> path_buffers" where
  "path_buffers_new baseband_capacity maximum_native_frames =
     (let b = replicate baseband_capacity fp_zero in
      \<lparr>pb_baseband = b, pb_carrier_gate = replicate maximum_native_frames 0, pb_lsd = b, pb_centered = b,
       pb_limited = b, pb_hpf = b, pb_voice = b, pb_delayed = b, pb_vox_envelope = b, pb_measurement = b,
       pb_center_trace = b\<rparr>)"

definition slicer_default :: slicer_state where
  "slicer_default = \<lparr>sl_maximum = 0, sl_minimum = 0, sl_peak = 0, sl_upper_decay_counter = 0,
     sl_lower_decay_counter = 0\<rparr>"

definition receive_path_of ::
  "path_config \<Rightarrow> nat \<Rightarrow> 's squelch_client \<Rightarrow> 'r ctcss_receive \<Rightarrow> 'd dcs_receive \<Rightarrow>
     ('s, 'r, 'd) receive_path" where
  "receive_path_of config hang_frames squelch ctcss_state dcs_state =
     (let setup = path_setup_of config hang_frames in
      \<lparr>rp_setup = setup,
       rp_buffers = path_buffers_new (ps_baseband_capacity setup) (ps_maximum_native_frames setup),
       rp_frontend_history = replicate (length (ps_baseband_coefficients setup)) 0,
       rp_lsd_history = replicate (length (ps_lsd_coefficients setup)) 0,
       rp_hpf_history = replicate (length (ps_hpf_coefficients setup)) 0,
       rp_frontend_state = frontend_default\<lparr>fe_decimator := wrap_i16 (int (fec_decimate (pc_frontend config))),
         fe_comparator_output := 1\<rparr>,
       rp_squelch = squelch,
       rp_center_state = slicer_default,
       rp_deemphasis_state = \<lparr>dem_accumulator = 0\<rparr>,
       rp_delay_state = \<lparr>dl_input_index = 0, dl_dirty = 0\<rparr>,
       rp_vox_envelope_state = envelope_default,
       rp_measurement_state = envelope_default,
       rp_ctcss_state = ctcss_state,
       rp_dcs_state = dcs_state,
       rp_delay_storage = replicate (case pc_delay config of None \<Rightarrow> 0 | Some d \<Rightarrow> dlc_storage_capacity d) fp_zero,
       rp_emission_offsets = [],
       rp_blanking = \<lparr>blk_remaining_ms = 0, blk_remainder = 0\<rparr>,
       rp_delay_gate_native_remainder = 0,
       rp_delay_outzero = False,
       rp_voice_processing_active = True,
       rp_center_trace_phase = 0,
       rp_last_baseband_count = 0,
       rp_last_native_count = 0,
       rp_last_result = process_result_default\<rparr>)"

definition configure_dcs :: "dcs_config option \<Rightarrow> 'd dcs_receive \<Rightarrow> 'd dcs_receive result" where
  "configure_dcs config dcs_state =
     (case config of None \<Rightarrow> Inr dcs_state
      | Some dcs \<Rightarrow>
        (let (dcs_state, status) = dcs_receive_configure dcs_state (dcc_code dcs) (of_flag (dcc_inverted dcs))
         in bind_result status (\<lambda>_. Inr dcs_state)))"

definition receive_path_new ::
  "path_config \<Rightarrow> 's squelch_descriptor option \<Rightarrow> ('r, 't) ctcss_descriptor option \<Rightarrow>
     ('d, 'u) dcs_descriptor option \<Rightarrow> ('s, 'r, 'd) receive_path fallible" where
  "receive_path_new config squelch_pointer ctcss_pointer dcs_pointer =
     (if path_config_rejected config then Some (Inl INVALID_ARGUMENT)
      else bind_setup (vox_hang_frames (pc_vox config)) (\<lambda>hang_frames.
        bind_fallible (ctcss_receive_from_descriptor ctcss_pointer) (\<lambda>ctcss_state.
        let ctcss_state = (case pc_ctcss config of None \<Rightarrow> ctcss_state
              | Some ctcss \<Rightarrow> ctcss_configure ctcss_state (ctc_tone_mask ctcss) (ctc_relax ctcss))
        in bind_fallible (dcs_receive_from_descriptor dcs_pointer) (\<lambda>dcs_state.
        bind_setup (configure_dcs (pc_dcs config) dcs_state) (\<lambda>dcs_state.
        bind_setup (squelch_from_descriptor squelch_pointer) (\<lambda>squelch.
        Some (Inr (receive_path_of config hang_frames squelch ctcss_state dcs_state))))))))"

text \<open>The hot update copies the scalar controls of a prepared path.\<close>

definition path_update_controls_from ::
  "('s, 'r, 'd) receive_path \<Rightarrow> ('s, 'r, 'd) receive_path \<Rightarrow> ('s, 'r, 'd) receive_path" where
  "path_update_controls_from prepared p =
     p\<lparr>rp_setup := (rp_setup p)\<lparr>
       ps_frontend_controls := ps_frontend_controls (rp_setup prepared),
       ps_lsd_controls := ps_lsd_controls (rp_setup prepared),
       ps_center_config := ps_center_config (rp_setup prepared),
       ps_vox_config := ps_vox_config (rp_setup prepared),
       ps_vox_hang_frames := ps_vox_hang_frames (rp_setup prepared)\<rparr>\<rparr>"

definition path_arm_receive_blanking :: "int \<Rightarrow> ('s, 'r, 'd) receive_path \<Rightarrow> ('s, 'r, 'd) receive_path" where
  "path_arm_receive_blanking duration_ms p = p\<lparr>rp_blanking := arm_receive_blanking duration_ms (rp_blanking p)\<rparr>"

definition set_voice_processing_active :: "bool \<Rightarrow> ('s, 'r, 'd) receive_path \<Rightarrow> ('s, 'r, 'd) receive_path" where
  "set_voice_processing_active active p = p\<lparr>rp_voice_processing_active := active\<rparr>"

definition carrier_gates :: "('s, 'r, 'd) receive_path \<Rightarrow> nat list" where
  "carrier_gates p = take (rp_last_native_count p) (pb_carrier_gate (rp_buffers p))"

section \<open>Baseband stages\<close>

definition process_center_slicer ::
  "('s, 'r, 'd) receive_path \<Rightarrow> center_slicer_config \<Rightarrow> nat \<Rightarrow> (('s, 'r, 'd) receive_path, unit) path_call" where
  "process_center_slicer p center sample_count =
     path_stage p
       (slicer_process_with_trace
          \<lparr>slr_limit = csc_limit center, slr_setpoint = csc_setpoint center,
           slr_decay_factor = csc_decay_factor center\<rparr>
          (rp_center_state p, if csc_trace center then Some (rp_center_trace_phase p) else None)
          (take sample_count (pb_lsd (rp_buffers p))))
       (\<lambda>((state, phase), outputs).
         (p\<lparr>rp_center_state := state,
            rp_center_trace_phase := (case phase of None \<Rightarrow> rp_center_trace_phase p | Some ph \<Rightarrow> ph),
            rp_buffers := (rp_buffers p)\<lparr>
              pb_centered := write_span 0 (List.map fst outputs) (pb_centered (rp_buffers p)),
              pb_limited := write_span 0 (List.map (fst \<circ> snd) outputs) (pb_limited (rp_buffers p)),
              pb_center_trace := (if csc_trace center
                then write_span 0 (List.map (\<lambda>y. case snd (snd y) of None \<Rightarrow> fp_zero | Some v \<Rightarrow> v) outputs)
                       (pb_center_trace (rp_buffers p))
                else pb_center_trace (rp_buffers p))\<rparr>\<rparr>, ()))"

definition process_lsd ::
  "('s, 'r, 'd) receive_path \<Rightarrow> nat \<Rightarrow> (('s, 'r, 'd) receive_path, unit) path_call" where
  "process_lsd p sample_count =
     path_bind
       (path_stage p
          (fir_process (ps_lsd_coefficients (rp_setup p)) (flc_input_gain (ps_lsd_controls (rp_setup p)))
             (flc_output_gain (ps_lsd_controls (rp_setup p))) (flc_calc_adjust (ps_lsd_controls (rp_setup p)))
             (rp_lsd_history p) (take sample_count (pb_baseband (rp_buffers p))))
          (\<lambda>(history, outputs).
            (p\<lparr>rp_lsd_history := history,
               rp_buffers := (rp_buffers p)\<lparr>pb_lsd := write_span 0 outputs (pb_lsd (rp_buffers p))\<rparr>\<rparr>, ())))
       (\<lambda>p _.
          case ps_center_config (rp_setup p) of
            None \<Rightarrow> Some (p, Inl INVALID_ARGUMENT)
          | Some center \<Rightarrow> process_center_slicer p center sample_count)"

definition process_voice ::
  "('s, 'r, 'd) receive_path \<Rightarrow> filter_controls \<Rightarrow> nat \<Rightarrow> (('s, 'r, 'd) receive_path, unit) path_call" where
  "process_voice p hpf_controls sample_count =
     path_bind
       (path_stage p
          (fir_process (ps_hpf_coefficients (rp_setup p)) (flc_input_gain hpf_controls)
             (flc_output_gain hpf_controls) (flc_calc_adjust hpf_controls)
             (rp_hpf_history p) (take sample_count (pb_baseband (rp_buffers p))))
          (\<lambda>(history, outputs).
            (p\<lparr>rp_hpf_history := history,
               rp_buffers := (rp_buffers p)\<lparr>pb_hpf := write_span 0 outputs (pb_hpf (rp_buffers p))\<rparr>\<rparr>, ())))
       (\<lambda>p _.
          case ps_deemphasis_config (rp_setup p) of
            Some deemphasis \<Rightarrow>
              path_stage p
                (deemphasis_process deemphasis (rp_deemphasis_state p) (take sample_count (pb_hpf (rp_buffers p))))
                (\<lambda>(state, outputs).
                  (p\<lparr>rp_deemphasis_state := state,
                     rp_buffers := (rp_buffers p)\<lparr>pb_voice := write_span 0 outputs (pb_voice (rp_buffers p))\<rparr>\<rparr>, ()))
          | None \<Rightarrow>
              Some (p\<lparr>rp_buffers := (rp_buffers p)\<lparr>pb_voice :=
                write_span 0 (take sample_count (pb_hpf (rp_buffers p))) (pb_voice (rp_buffers p))\<rparr>\<rparr>, Inr ()))"

definition process_baseband ::
  "('s, 'r, 'd) receive_path \<Rightarrow> nat \<Rightarrow> (('s, 'r, 'd) receive_path, unit) path_call" where
  "process_baseband p sample_count =
     path_bind (if ctcss_enabled (rp_ctcss_state p) then process_lsd p sample_count else Some (p, Inr ()))
       (\<lambda>p _.
          case (if rp_voice_processing_active p then ps_hpf_controls (rp_setup p) else None) of
            Some hpf_controls \<Rightarrow> process_voice p hpf_controls sample_count
          | None \<Rightarrow> Some (p, Inr ()))"

section \<open>The squelch delay\<close>

fun emission_offsets_from :: "nat \<Rightarrow> int \<Rightarrow> nat \<Rightarrow> nat \<Rightarrow> nat list" where
  "emission_offsets_from decimate decimator offset 0 = []"
| "emission_offsets_from decimate decimator offset (Suc frames) =
     (let (decimator, emit) = decimator_step decimate decimator;
          rest = emission_offsets_from decimate decimator (offset + 1) frames
      in if emit then offset # rest else rest)"

definition record_emission_offsets ::
  "('s, 'r, 'd) receive_path \<Rightarrow> int \<Rightarrow> nat \<Rightarrow> ('s, 'r, 'd) receive_path" where
  "record_emission_offsets p initial_decimator native_frame_count =
     p\<lparr>rp_emission_offsets := emission_offsets_from (fct_decimate (ps_frontend_controls (rp_setup p)))
        initial_decimator 1 native_frame_count\<rparr>"

definition process_delay_segment ::
  "('s, 'r, 'd) receive_path \<Rightarrow> delay_config \<Rightarrow> nat \<Rightarrow> nat \<Rightarrow> (('s, 'r, 'd) receive_path, unit) path_call" where
  "process_delay_segment p delay start finish =
     (let sample_count = finish - start in
      if sample_count = 0 then Some (p, Inr ())
      else
        let delay_input = (if ps_deemphasis_config (rp_setup p) \<noteq> None
                           then pb_voice (rp_buffers p) else pb_hpf (rp_buffers p))
        in path_stage p
          (delay_process \<lparr>dlr_lead = dlc_lead delay, dlr_enabled = True, dlr_outzero = rp_delay_outzero p\<rparr>
             (rp_delay_state p, rp_delay_storage p)
             (read_span start sample_count (pb_delayed (rp_buffers p)))
             (read_span start sample_count delay_input))
          (\<lambda>((state, storage), outputs).
            (p\<lparr>rp_delay_state := state, rp_delay_storage := storage,
               rp_buffers := (rp_buffers p)\<lparr>pb_delayed := write_span start outputs (pb_delayed (rp_buffers p))\<rparr>\<rparr>, ())))"

definition saturating_add_u32 :: "nat \<Rightarrow> nat \<Rightarrow> nat" where
  "saturating_add_u32 a b = min u32_max (a + b)"

text \<open>The gate boundaries inside a span, in native frames; the loop does not return when the
  boundary saturates at or below the frame count.\<close>

partial_function (option) gate_boundaries :: "nat \<Rightarrow> nat \<Rightarrow> nat list option" where
  "gate_boundaries boundary native_frame_count =
     (if boundary \<le> native_frame_count
      then Option.bind
        (gate_boundaries (saturating_add_u32 boundary LEGACY_DELAY_GATE_FRAMES) native_frame_count)
        (\<lambda>boundaries. Some (boundary # boundaries))
      else Some [])"

fun process_delay_boundaries ::
  "('s, 'r, 'd) receive_path \<Rightarrow> delay_config \<Rightarrow> nat \<Rightarrow> nat list \<Rightarrow>
     (('s, 'r, 'd) receive_path, nat) path_call" where
  "process_delay_boundaries p delay sample_start [] = Some (p, Inr sample_start)"
| "process_delay_boundaries p delay sample_start (boundary # boundaries) =
     (let sample_end = length (takeWhile (\<lambda>offset. offset \<le> boundary) (rp_emission_offsets p))
      in path_bind (process_delay_segment p delay sample_start sample_end) (\<lambda>p _.
         process_delay_boundaries
           (p\<lparr>rp_delay_outzero := (pb_carrier_gate (rp_buffers p) ! (boundary - 1) = 0)\<rparr>)
           delay sample_end boundaries))"

definition process_delay ::
  "('s, 'r, 'd) receive_path \<Rightarrow> delay_config \<Rightarrow> nat \<Rightarrow> nat \<Rightarrow> (('s, 'r, 'd) receive_path, unit) path_call" where
  "process_delay p delay sample_count native_frame_count =
     (if ps_vox_config (rp_setup p) \<noteq> None then process_delay_segment p delay 0 sample_count
      else
        case gate_boundaries (LEGACY_DELAY_GATE_FRAMES - rp_delay_gate_native_remainder p) native_frame_count of
          None \<Rightarrow> None
        | Some boundaries \<Rightarrow>
            path_bind (process_delay_boundaries p delay 0 boundaries) (\<lambda>p sample_start.
            path_bind (process_delay_segment p delay sample_start sample_count) (\<lambda>p _.
            Some (p\<lparr>rp_delay_gate_native_remainder :=
              as_u32 (rp_delay_gate_native_remainder p + native_frame_count) mod LEGACY_DELAY_GATE_FRAMES\<rparr>, Inr ()))))"

section \<open>Detectors\<close>

definition measure_vox ::
  "('s, 'r, 'd) receive_path \<Rightarrow> nat \<Rightarrow> (('s, 'r, 'd) receive_path, bool) path_call" where
  "measure_vox p sample_count =
     (case ps_vox_config (rp_setup p) of
        None \<Rightarrow> Some (p, Inr False)
      | Some vox \<Rightarrow>
          path_stage p
            (envelope_measure (evc_decay_factor (vxc_envelope vox)) (evc_threshold (vxc_envelope vox))
               (rp_vox_envelope_state p) (take sample_count (pb_baseband (rp_buffers p))))
            (\<lambda>(state, outputs, detect).
              (p\<lparr>rp_vox_envelope_state := state,
                 rp_buffers := (rp_buffers p)\<lparr>pb_vox_envelope :=
                   write_span 0 outputs (pb_vox_envelope (rp_buffers p))\<rparr>\<rparr>, detect)))"

definition measure_tuning ::
  "('s, 'r, 'd) receive_path \<Rightarrow> nat \<Rightarrow> (('s, 'r, 'd) receive_path, unit) path_call" where
  "measure_tuning p sample_count =
     (case ps_measurement_config (rp_setup p) of
        None \<Rightarrow> Some (p, Inr ())
      | Some measurement \<Rightarrow>
          path_stage p
            (envelope_measure (evc_decay_factor measurement) (evc_threshold measurement)
               (rp_measurement_state p) (take sample_count (pb_baseband (rp_buffers p))))
            (\<lambda>(state, outputs, _).
              (p\<lparr>rp_measurement_state := state,
                 rp_buffers := (rp_buffers p)\<lparr>pb_measurement :=
                   write_span 0 outputs (pb_measurement (rp_buffers p))\<rparr>\<rparr>, ())))"

text \<open>One VOX step per emitted sample, at its native offset.\<close>

fun vox_samples :: "int \<Rightarrow> nat \<Rightarrow> 's squelch_client \<Rightarrow> (nat \<times> f32) list \<Rightarrow> 's squelch_client \<times> unit result" where
  "vox_samples threshold hang_frames squelch [] = (squelch, Inr ())"
| "vox_samples threshold hang_frames squelch ((offset, envelope) # samples) =
     (case f32_to_pcm_code envelope of
        Inl e \<Rightarrow> (squelch, Inl e)
      | Inr peak \<Rightarrow>
          vox_samples threshold hang_frames
            (squelch_vox_advance squelch offset (threshold \<le> peak) hang_frames) samples)"

definition advance_vox_hold ::
  "('s, 'r, 'd) receive_path \<Rightarrow> vox_config \<Rightarrow> nat \<Rightarrow> nat \<Rightarrow> (('s, 'r, 'd) receive_path, bool) path_call" where
  "advance_vox_hold p vox sample_count native_frame_count =
     (let (squelch, status) = vox_samples (evc_threshold (vxc_envelope vox)) (ps_vox_hang_frames (rp_setup p))
            (rp_squelch p) (List.map (\<lambda>i. (rp_emission_offsets p ! i, pb_vox_envelope (rp_buffers p) ! i)) [0..<sample_count])
      in case status of
           Inl e \<Rightarrow> Some (p\<lparr>rp_squelch := squelch\<rparr>, Inl e)
         | Inr _ \<Rightarrow>
             (let (squelch, detect) = squelch_vox_finish squelch native_frame_count
              in Some (p\<lparr>rp_squelch := squelch\<rparr>, Inr detect)))"

definition path_carrier ::
  "('s, 'r, 'd) receive_path \<Rightarrow> nat \<Rightarrow> nat \<Rightarrow> (('s, 'r, 'd) receive_path, bool) path_call" where
  "path_carrier p sample_count native_frame_count =
     (case ps_vox_config (rp_setup p) of
        Some vox \<Rightarrow> advance_vox_hold p vox sample_count native_frame_count
      | None \<Rightarrow> Some (p, Inr (fe_comparator_output (rp_frontend_state p) = 0)))"

definition path_dcs ::
  "('s, 'r, 'd) receive_path \<Rightarrow> f32 list \<Rightarrow> (('s, 'r, 'd) receive_path, unit) path_call" where
  "path_dcs p input =
     (if dcs_enabled (rp_dcs_state p)
      then (let (dcs_state, status) = dcs_receive_process (rp_dcs_state p) input
            in Some (p\<lparr>rp_dcs_state := dcs_state\<rparr>, bind_result status (\<lambda>_. Inr ())))
      else Some (p, Inr ()))"

definition path_ctcss ::
  "('s, 'r, 'd) receive_path \<Rightarrow> nat \<Rightarrow> bool \<Rightarrow> ('s, 'r, 'd) receive_path \<times> int" where
  "path_ctcss p sample_count carrier =
     (let ctcss_state = ctcss_clear_tail_on_carrier_loss (rp_ctcss_state p) carrier
      in if sample_count \<noteq> 0 \<and> ctcss_enabled ctcss_state \<and>
            (rp_voice_processing_active p \<or> ctcss_decoded ctcss_state \<noteq> -1)
         then (let (ctcss_state, decoded) = ctcss_process ctcss_state (take sample_count (pb_limited (rp_buffers p))) carrier
               in (p\<lparr>rp_ctcss_state := ctcss_state\<rparr>, decoded))
         else (p\<lparr>rp_ctcss_state := ctcss_state\<rparr>, ctcss_decoded ctcss_state))"

section \<open>One native span\<close>

definition path_apply_blanking ::
  "('s, 'r, 'd) receive_path \<Rightarrow> f32 list \<Rightarrow> ('s, 'r, 'd) receive_path \<times> f32 list \<times> nat" where
  "path_apply_blanking p native_input =
     (let (b, input, blanked) = apply_receive_blanking (rp_blanking p) native_input
      in (p\<lparr>rp_blanking := b\<rparr>, input, blanked))"

definition path_frontend_request :: "('s, 'r, 'd) receive_path \<Rightarrow> frontend_request" where
  "path_frontend_request p =
     (let s = rp_setup p; c = ps_frontend_controls s in
      \<lparr>fr_baseband_output_capacity = as_u32 (ps_baseband_capacity s),
       fr_carrier_gate_capacity = as_u32 (length (pb_carrier_gate (rp_buffers p))),
       fr_baseband_coefficients = ps_baseband_coefficients s,
       fr_baseband_calc_adjust = fct_baseband_calc_adjust c,
       fr_baseband_output_gain = fct_baseband_output_gain c,
       fr_noise_coefficients = ps_noise_coefficients s,
       fr_noise_divisor = fct_noise_divisor c,
       fr_noise_squelch = fct_noise_squelch c,
       fr_decimate = fct_decimate c,
       fr_calibration_window = fct_calibration_window c,
       fr_open_level = fct_open_level c,
       fr_hysteresis = fct_hysteresis c\<rparr>)"

definition path_frontend ::
  "('s, 'r, 'd) receive_path \<Rightarrow> f32 list \<Rightarrow> (('s, 'r, 'd) receive_path, nat \<times> bool) path_call" where
  "path_frontend p input =
     Option.bind
       (frontend_process (path_frontend_request p) (rp_frontend_state p, rp_frontend_history p, rp_squelch p) input)
       (\<lambda>result. path_stage p result (\<lambda>((state, history, squelch), r).
         (p\<lparr>rp_frontend_state := state, rp_frontend_history := history, rp_squelch := squelch,
            rp_buffers := (rp_buffers p)\<lparr>
              pb_baseband := write_span 0 (fo_baseband r) (pb_baseband (rp_buffers p)),
              pb_carrier_gate := write_span 0 (fo_carrier_gate r) (pb_carrier_gate (rp_buffers p))\<rparr>\<rparr>,
          length (fo_baseband r), fo_rssi_updated r)))"

definition path_decoder_peak :: "('s, 'r, 'd) receive_path \<Rightarrow> f32" where
  "path_decoder_peak p = pcm_to_f32 (sl_peak (rp_center_state p))"

definition path_idle :: "('s, 'r, 'd) receive_path \<Rightarrow> ('s, 'r, 'd) receive_path \<times> process_result" where
  "path_idle p =
     (let r = process_result_default\<lparr>
            pr_ctcss_decoded := ctcss_decoded (rp_ctcss_state p),
            pr_ctcss_tail_tone_active := ctcss_tail_tone_active (rp_ctcss_state p),
            pr_ctcss_decoder_peak := path_decoder_peak p,
            pr_dcs_valid := dcs_valid (rp_dcs_state p),
            pr_rssi_peak := fe_rssi_peak (rp_frontend_state p)\<rparr>
      in (p\<lparr>rp_last_baseband_count := 0, rp_last_native_count := 0, rp_last_result := r\<rparr>, r))"

definition path_stages ::
  "('s, 'r, 'd) receive_path \<Rightarrow> nat \<Rightarrow> nat \<Rightarrow> (('s, 'r, 'd) receive_path, bool) path_call" where
  "path_stages p baseband_count native_frame_count =
     path_bind (if baseband_count \<noteq> 0 then process_baseband p baseband_count else Some (p, Inr ())) (\<lambda>p _.
     path_bind (case ps_delay_config (rp_setup p) of
                  None \<Rightarrow> Some (p, Inr ())
                | Some delay \<Rightarrow> process_delay p delay baseband_count native_frame_count) (\<lambda>p _.
     if baseband_count \<noteq> 0
     then path_bind (measure_vox p baseband_count) (\<lambda>p vox_detect.
          path_bind (measure_tuning p baseband_count) (\<lambda>p _. Some (p, Inr vox_detect)))
     else Some (p, Inr False)))"

definition path_publish ::
  "('s, 'r, 'd) receive_path \<Rightarrow> nat \<Rightarrow> nat \<Rightarrow> nat \<Rightarrow> bool \<Rightarrow> bool \<Rightarrow> int \<Rightarrow> bool \<Rightarrow>
     ('s, 'r, 'd) receive_path \<times> process_result" where
  "path_publish p native_frame_count baseband_count blanked carrier_detect vox_detect decoded rssi_updated =
     (let r = \<lparr>pr_native_frame_count = native_frame_count, pr_baseband_frame_count = baseband_count,
            pr_blanked_native_frames = blanked, pr_carrier_detect = carrier_detect,
            pr_vox_detect = vox_detect, pr_ctcss_decoded = decoded,
            pr_ctcss_tail_tone_active = ctcss_tail_tone_active (rp_ctcss_state p),
            pr_dcs_valid = dcs_valid (rp_dcs_state p), pr_ctcss_decoder_peak = path_decoder_peak p,
            pr_rssi_peak = fe_rssi_peak (rp_frontend_state p), pr_rssi_updated = rssi_updated\<rparr>
      in (p\<lparr>rp_last_result := r\<rparr>, r))"

definition path_span ::
  "('s, 'r, 'd) receive_path \<Rightarrow> f32 list \<Rightarrow> bool option \<Rightarrow> (('s, 'r, 'd) receive_path, process_result) path_call" where
  "path_span p native_input external_carrier =
     (let native_frame_count = length native_input div 2;
          (p, input, blanked) = path_apply_blanking p native_input;
          decimator_before = fe_decimator (rp_frontend_state p)
      in path_bind (path_frontend p input) (\<lambda>p (baseband_count, rssi_updated).
         let p = p\<lparr>rp_last_native_count := native_frame_count, rp_last_baseband_count := baseband_count\<rparr>;
             p = record_emission_offsets p decimator_before native_frame_count
         in path_bind (path_stages p baseband_count native_frame_count) (\<lambda>p vox_detect.
            path_bind (path_carrier p baseband_count native_frame_count) (\<lambda>p carrier_detect.
            path_bind (path_dcs p input) (\<lambda>p _.
            let (p, decoded) = path_ctcss p baseband_count
                  (case external_carrier of None \<Rightarrow> carrier_detect | Some c \<Rightarrow> c);
                (p, r) = path_publish p native_frame_count baseband_count blanked carrier_detect
                  vox_detect decoded rssi_updated
            in Some (p, Inr r))))))"

definition process_with_carrier ::
  "('s, 'r, 'd) receive_path \<Rightarrow> f32 list \<Rightarrow> bool option \<Rightarrow> (('s, 'r, 'd) receive_path, process_result) path_call" where
  "process_with_carrier p native_input external_carrier =
     (if odd (length native_input) then Some (p, Inl INVALID_ARGUMENT)
      else if ps_maximum_native_frames (rp_setup p) < length native_input div 2 then Some (p, Inl INVALID_ARGUMENT)
      else if \<not> list_all is_finite native_input then Some (p, Inl INVALID_ARGUMENT)
      else if length native_input div 2 = 0 then (let (p, r) = path_idle p in Some (p, Inr r))
      else path_span p native_input external_carrier)"

end
