(* ===== verification/Receive_Path_Properties.thy ===== *)
theory Receive_Path_Properties
  imports Receive_Path
begin

text \<open>
  The receive path as a whole: every accepted span is processed to the end, the invariant of the
  preallocated state is kept, and the squelch gate is sampled at fixed places of the stream.
\<close>

section \<open>Outcomes of a call\<close>

definition call_spec :: "('p \<Rightarrow> 'a \<Rightarrow> bool) \<Rightarrow> ('p \<Rightarrow> radio_error \<Rightarrow> bool) \<Rightarrow> ('p, 'a) path_call \<Rightarrow> bool" where
  "call_spec P E m =
     (case m of None \<Rightarrow> False | Some (p, Inl e) \<Rightarrow> E p e | Some (p, Inr a) \<Rightarrow> P p a)"

lemma call_spec_simps [simp]:
  "call_spec P E (Some (p, Inr a)) = P p a"
  "call_spec P E (Some (p, Inl e)) = E p e"
  "\<not> call_spec P E None"
  by (simp_all add: call_spec_def)

lemma call_spec_bind:
  assumes "call_spec Q E m" and "\<And>p a. Q p a \<Longrightarrow> call_spec P E (f p a)"
  shows "call_spec P E (path_bind m f)"
proof (cases m)
  case None
  with assms(1) show ?thesis by simp
next
  case (Some r)
  with assms show ?thesis by (cases r; cases "snd r") (auto simp: path_bind_def)
qed

lemma call_spec_stage:
  assumes "r = Inr a" and "f a = (p', b)" and "P p' b"
  shows "call_spec P E (path_stage p r f)"
  using assms by (simp add: path_stage_def)

lemma call_spec_mono:
  "call_spec P E m \<Longrightarrow> (\<And>p a. P p a \<Longrightarrow> P' p a) \<Longrightarrow> (\<And>p e. E p e \<Longrightarrow> E' p e) \<Longrightarrow> call_spec P' E' m"
  by (auto simp: call_spec_def split: option.splits sum.splits)

section \<open>The invariant\<close>

definition setup_ok :: "path_setup \<Rightarrow> bool" where
  "setup_ok s \<longleftrightarrow>
     0 < ps_maximum_native_frames s \<and> ps_maximum_native_frames s + 960 \<le> u32_max \<and>
     ps_baseband_capacity s = (ps_maximum_native_frames s + 10) div 6 \<and>
     fct_decimate (ps_frontend_controls s) = 6 \<and>
     fct_baseband_calc_adjust (ps_frontend_controls s) \<noteq> 0 \<and>
     0 < fct_calibration_window (ps_frontend_controls s) \<and>
     (fct_noise_squelch (ps_frontend_controls s) \<longrightarrow>
        ps_noise_coefficients s \<noteq> [] \<and>
        length (ps_noise_coefficients s) \<le> length (ps_baseband_coefficients s) \<and>
        fct_noise_divisor (ps_frontend_controls s) \<noteq> 0 \<and> fct_noise_divisor (ps_frontend_controls s) \<noteq> -1) \<and>
     ps_baseband_coefficients s \<noteq> [] \<and>
     ps_lsd_coefficients s \<noteq> [] \<and> flc_calc_adjust (ps_lsd_controls s) \<noteq> 0 \<and>
     (\<forall>c. ps_hpf_controls s = Some c \<longrightarrow> ps_hpf_coefficients s \<noteq> [] \<and> flc_calc_adjust c \<noteq> 0)"

definition buffers_ok :: "path_setup \<Rightarrow> path_buffers \<Rightarrow> bool" where
  "buffers_ok s b \<longleftrightarrow>
     length (pb_carrier_gate b) = ps_maximum_native_frames s \<and>
     (\<forall>x \<in> {pb_baseband b, pb_lsd b, pb_centered b, pb_limited b, pb_hpf b, pb_voice b, pb_delayed b,
        pb_vox_envelope b, pb_measurement b, pb_center_trace b}. length x = ps_baseband_capacity s) \<and>
     (\<forall>x \<in> {pb_baseband b, pb_lsd b, pb_hpf b, pb_voice b, pb_vox_envelope b}. list_all is_finite x)"

text \<open>What the path relies on of the CTCSS provider: whether it is enabled is decided by its
  configuration and not by the audio.\<close>

definition ctcss_configured :: "'r ctcss_receive \<Rightarrow> bool" where
  "ctcss_configured c \<longleftrightarrow>
     (\<forall>h carrier. cr_enabled c (cr_clear_tail_on_carrier_loss c h carrier) = cr_enabled c h) \<and>
     (\<forall>h samples carrier. cr_enabled c (fst (cr_process c h samples carrier)) = cr_enabled c h)"

definition path_ok :: "('s, 'r, 'd) receive_path \<Rightarrow> bool" where
  "path_ok p \<longleftrightarrow>
     setup_ok (rp_setup p) \<and> buffers_ok (rp_setup p) (rp_buffers p) \<and>
     length (rp_frontend_history p) = length (ps_baseband_coefficients (rp_setup p)) \<and>
     length (rp_lsd_history p) = length (ps_lsd_coefficients (rp_setup p)) \<and>
     length (rp_hpf_history p) = length (ps_hpf_coefficients (rp_setup p)) \<and>
     1 \<le> fe_decimator (rp_frontend_state p) \<and> fe_decimator (rp_frontend_state p) \<le> 6 \<and>
     rp_delay_gate_native_remainder p < LEGACY_DELAY_GATE_FRAMES \<and>
     (\<forall>d. ps_delay_config (rp_setup p) = Some d \<longrightarrow>
        rp_delay_storage p \<noteq> [] \<and> dlc_lead d \<le> length (rp_delay_storage p)) \<and>
     ctcss_configured (rp_ctcss_state p) \<and>
     (ps_center_config (rp_setup p) = None \<longrightarrow> \<not> ctcss_enabled (rp_ctcss_state p))"

text \<open>A stage keeps the invariant, the setup and what was recorded of the span.\<close>

definition keeps :: "('s, 'r, 'd) receive_path \<Rightarrow> ('s, 'r, 'd) receive_path \<Rightarrow> bool" where
  "keeps p p' \<longleftrightarrow> path_ok p' \<and> rp_setup p' = rp_setup p \<and>
     rp_emission_offsets p' = rp_emission_offsets p \<and> rp_last_native_count p' = rp_last_native_count p"

lemma keeps_trans: "keeps p q \<Longrightarrow> keeps q r \<Longrightarrow> keeps p r"
  by (simp add: keeps_def)

lemma keeps_refl: "path_ok p \<Longrightarrow> keeps p p"
  by (simp add: keeps_def)

lemma length_write_span: "start + length xs \<le> length b \<Longrightarrow> length (write_span start xs b) = length b"
  by (simp add: write_span_def)

lemma finite_write_span:
  "list_all is_finite xs \<Longrightarrow> list_all is_finite b \<Longrightarrow> list_all is_finite (write_span start xs b)"
  by (auto simp: write_span_def list_all_iff dest: in_set_takeD in_set_dropD)

lemma finite_take: "list_all is_finite b \<Longrightarrow> list_all is_finite (take n b)"
  by (auto simp: list_all_iff dest: in_set_takeD)

lemma finite_read_span: "list_all is_finite b \<Longrightarrow> list_all is_finite (read_span s n b)"
  by (auto simp: read_span_def list_all_iff dest: in_set_takeD in_set_dropD)

lemma length_read_span: "s + n \<le> length b \<Longrightarrow> length (read_span s n b) = n"
  by (simp add: read_span_def)

section \<open>What the stages return\<close>

lemma step_samples_finite:
  assumes "\<And>s c. is_finite (snd (step s c))"
  shows "list_all is_finite (snd (step_samples step s cs))"
  by (rule step_samples_outputs [where P = "\<lambda>_. True"]) (use assms in auto)

lemma fir_process_ok:
  assumes "length coefficients = length history" and "history \<noteq> []" and "calc_adjust \<noteq> 0"
    and "list_all is_finite input"
  shows "\<exists>h ys. fir_process coefficients ig og calc_adjust history input = Inr (h, ys) \<and>
    length ys = length input \<and> length h = length history \<and> list_all is_finite ys"
proof (cases "input = []")
  case True
  then show ?thesis by (simp add: fir_process_def)
next
  case False
  let ?c = "\<lparr>fc_nx = length history, fc_input_gain = ig, fc_output_gain = og, fc_calc_adjust = calc_adjust\<rparr>"
  note eq = fir_process_eq [OF assms(1) False assms(2,3), of ig og]
  have p: "fir_process coefficients ig og calc_adjust history input =
      Inr (step_samples (fir_step coefficients ?c) history (List.map pcm_code input))"
    using assms(4) by (simp add: eq(1) fir_normalized_eq [OF eq(2)] coded_span_eq)
  have "is_finite (snd (fir_step coefficients ?c h c))" for h c
    by (auto simp: fir_step_def fir_process_code_def fp_zero_def Let_def)
  then have "list_all is_finite (snd (step_samples (fir_step coefficients ?c) history (List.map pcm_code input)))"
    by (rule step_samples_finite)
  moreover have "length (fst (step_samples (fir_step coefficients ?c) history (List.map pcm_code input))) = length history"
    by (simp add: fir_history_steps [OF eq(2)])
  moreover have "length (snd (step_samples (fir_step coefficients ?c) history (List.map pcm_code input))) = length input"
    by simp
  ultimately show ?thesis using p by (metis prod.collapse)
qed

lemma deemphasis_process_ok:
  assumes "list_all is_finite input"
  shows "\<exists>s ys. deemphasis_process c state input = Inr (s, ys) \<and> length ys = length input \<and> list_all is_finite ys"
proof -
  let ?r = "step_samples (deemphasis_step c) state (List.map pcm_code input)"
  have "list_all is_finite (snd ?r)" by (rule step_samples_finite) (simp add: deemphasis_step_def Let_def)
  moreover have "length (snd ?r) = length input" by simp
  moreover have "deemphasis_process c state input = Inr ?r" using assms by (simp add: deemphasis_eq coded_span_eq)
  ultimately show ?thesis by (metis prod.collapse)
qed

lemma envelope_measure_ok:
  assumes "list_all is_finite input"
  shows "\<exists>s ys b. envelope_measure d t state input = Inr (s, ys, b) \<and> length ys = length input \<and> list_all is_finite ys"
proof -
  let ?r = "step_samples (envelope_step d) (state, 0) (List.map pcm_code input)"
  have "list_all is_finite (snd ?r)" by (rule step_samples_finite) (simp add: envelope_step_def Let_def)
  moreover have "length (snd ?r) = length input" by simp
  moreover have "envelope_measure d t state input =
      Inr ((fst (fst ?r))\<lparr>env_peak := snd (fst ?r)\<rparr>, snd ?r, t \<le> snd (fst ?r))"
    using assms by (simp add: envelope_measure_def pcm_codes_eq case_prod_beta Let_def)
  ultimately show ?thesis by blast
qed

lemma slicer_process_ok:
  assumes "list_all is_finite input"
  shows "\<exists>s ph ys. slicer_process_with_trace r (state, phase) input = Inr ((s, ph), ys) \<and> length ys = length input"
proof -
  let ?r = "step_samples (slicer_step r) ((sl_maximum state, sl_minimum state, sl_peak state), phase)
    (List.map pcm_code input)"
  have "length (snd ?r) = length input" by simp
  moreover have "\<exists>s. slicer_process_with_trace r (state, phase) input = Inr ((s, snd (fst ?r)), snd ?r)"
    using assms by (simp add: slicer_process_with_trace_def pcm_codes_eq case_prod_beta Let_def)
  ultimately show ?thesis by blast
qed

lemma delay_process_total:
  assumes "storage \<noteq> []" and "dlr_lead r \<le> length storage" and "list_all is_finite input"
    and "length output_span = length input"
  shows "\<exists>s st ys. delay_process r (state, storage) output_span input = Inr ((s, st), ys) \<and>
    length st = length storage \<and> length ys = length input"
proof (cases "\<not> dlr_enabled r \<or> dlr_outzero r")
  case True
  with assms show ?thesis by (auto simp: delay_process_def Let_def)
next
  case False
  obtain j storage' ys where s: "delay_samples (dl_input_index state)
      ((dl_input_index state + length storage - dlr_lead r) mod length storage) storage input = (j, storage', ys)"
    by (metis prod.exhaust)
  with False assms delay_samples_index [OF assms(1) s] show ?thesis
    by (auto simp: delay_process_def Let_def)
qed

section \<open>Every stage succeeds and keeps the invariant\<close>

lemma path_okD:
  assumes "path_ok p"
  shows "setup_ok (rp_setup p)" and "buffers_ok (rp_setup p) (rp_buffers p)"
    and "ctcss_configured (rp_ctcss_state p)"
  using assms by (simp_all add: path_ok_def)

lemma path_ok_baseband:
  assumes "path_ok p" and "n \<le> ps_baseband_capacity (rp_setup p)"
  shows "list_all is_finite (take n (pb_baseband (rp_buffers p)))"
    and "length (take n (pb_baseband (rp_buffers p))) = n"
  using path_okD(2) [OF assms(1)] assms(2) by (simp_all add: buffers_ok_def finite_take)

lemma path_ok_lsd:
  assumes "path_ok p"
  shows "length (ps_lsd_coefficients (rp_setup p)) = length (rp_lsd_history p)"
    and "rp_lsd_history p \<noteq> []" and "flc_calc_adjust (ps_lsd_controls (rp_setup p)) \<noteq> 0"
  using assms by (auto simp: path_ok_def setup_ok_def simp flip: length_greater_0_conv)

lemma path_ok_hpf:
  assumes "path_ok p" and "ps_hpf_controls (rp_setup p) = Some c"
  shows "length (ps_hpf_coefficients (rp_setup p)) = length (rp_hpf_history p)"
    and "rp_hpf_history p \<noteq> []" and "flc_calc_adjust c \<noteq> 0"
  using assms by (auto simp: path_ok_def setup_ok_def simp flip: length_greater_0_conv)

lemma path_ok_update:
  assumes "path_ok p"
  shows "length h = length (rp_lsd_history p) \<Longrightarrow> path_ok (p\<lparr>rp_lsd_history := h\<rparr>)"
    and "length h = length (rp_hpf_history p) \<Longrightarrow> path_ok (p\<lparr>rp_hpf_history := h\<rparr>)"
    and "path_ok (p\<lparr>rp_deemphasis_state := d\<rparr>)"
    and "path_ok (p\<lparr>rp_center_state := s\<rparr>)"
    and "path_ok (p\<lparr>rp_center_trace_phase := ph\<rparr>)"
    and "path_ok (p\<lparr>rp_vox_envelope_state := e\<rparr>)"
    and "path_ok (p\<lparr>rp_measurement_state := e\<rparr>)"
    and "path_ok (p\<lparr>rp_squelch := q\<rparr>)"
    and "path_ok (p\<lparr>rp_dcs_state := x\<rparr>)"
    and "path_ok (p\<lparr>rp_delay_outzero := z\<rparr>)"
    and "path_ok (p\<lparr>rp_delay_state := ds\<rparr>)"
    and "length st = length (rp_delay_storage p) \<Longrightarrow> path_ok (p\<lparr>rp_delay_storage := st\<rparr>)"
    and "r < LEGACY_DELAY_GATE_FRAMES \<Longrightarrow> path_ok (p\<lparr>rp_delay_gate_native_remainder := r\<rparr>)"
    and "path_ok (p\<lparr>rp_last_result := res\<rparr>)"
    and "path_ok (p\<lparr>rp_last_native_count := k\<rparr>)"
    and "path_ok (p\<lparr>rp_last_baseband_count := k\<rparr>)"
    and "path_ok (p\<lparr>rp_emission_offsets := os\<rparr>)"
    and "path_ok (p\<lparr>rp_blanking := bl\<rparr>)"
  using assms by (auto simp: path_ok_def simp flip: length_greater_0_conv)

lemma path_ok_buffers:
  assumes "path_ok p" and "buffers_ok (rp_setup p) b"
  shows "path_ok (p\<lparr>rp_buffers := b\<rparr>)"
  using assms by (simp add: path_ok_def)

lemma buffers_ok_writes:
  assumes "buffers_ok s b" and "length xs \<le> ps_baseband_capacity s"
  shows "list_all is_finite xs \<Longrightarrow> buffers_ok s (b\<lparr>pb_lsd := write_span 0 xs (pb_lsd b)\<rparr>)"
    and "list_all is_finite xs \<Longrightarrow> buffers_ok s (b\<lparr>pb_hpf := write_span 0 xs (pb_hpf b)\<rparr>)"
    and "list_all is_finite xs \<Longrightarrow> buffers_ok s (b\<lparr>pb_voice := write_span 0 xs (pb_voice b)\<rparr>)"
    and "list_all is_finite xs \<Longrightarrow> buffers_ok s (b\<lparr>pb_vox_envelope := write_span 0 xs (pb_vox_envelope b)\<rparr>)"
    and "buffers_ok s (b\<lparr>pb_measurement := write_span 0 xs (pb_measurement b)\<rparr>)"
  using assms by (simp_all add: buffers_ok_def length_write_span finite_write_span)

lemma lsd_spec:
  assumes "path_ok p" and "n \<le> ps_baseband_capacity (rp_setup p)" and "ctcss_enabled (rp_ctcss_state p)"
  shows "call_spec (\<lambda>p' _. keeps p p') E (process_lsd p n)"
  unfolding process_lsd_def
proof (rule call_spec_bind [where Q = "\<lambda>p' _. keeps p p' \<and> ctcss_enabled (rp_ctcss_state p')"])
  let ?b = "rp_buffers p"
  note fin = path_ok_baseband [OF assms(1,2)]
  obtain h ys where f: "fir_process (ps_lsd_coefficients (rp_setup p)) (flc_input_gain (ps_lsd_controls (rp_setup p)))
      (flc_output_gain (ps_lsd_controls (rp_setup p))) (flc_calc_adjust (ps_lsd_controls (rp_setup p)))
      (rp_lsd_history p) (take n (pb_baseband ?b)) = Inr (h, ys)"
    "length ys = length (take n (pb_baseband ?b))" "length h = length (rp_lsd_history p)" "list_all is_finite ys"
    using fir_process_ok [OF path_ok_lsd [OF assms(1)] fin(1)] by blast
  have "buffers_ok (rp_setup p) (?b\<lparr>pb_lsd := write_span 0 ys (pb_lsd ?b)\<rparr>)"
    by (rule buffers_ok_writes(1) [OF path_okD(2) [OF assms(1)] _ f(4)]) (use f(2) fin(2) assms(2) in simp)
  with path_ok_buffers [OF path_ok_update(1) [OF assms(1) f(3)]]
  have "keeps p (p\<lparr>rp_lsd_history := h, rp_buffers := ?b\<lparr>pb_lsd := write_span 0 ys (pb_lsd ?b)\<rparr>\<rparr>)"
    by (simp add: keeps_def)
  then show "call_spec (\<lambda>p' _. keeps p p' \<and> ctcss_enabled (rp_ctcss_state p')) E
      (path_stage p (fir_process (ps_lsd_coefficients (rp_setup p)) (flc_input_gain (ps_lsd_controls (rp_setup p)))
        (flc_output_gain (ps_lsd_controls (rp_setup p))) (flc_calc_adjust (ps_lsd_controls (rp_setup p)))
        (rp_lsd_history p) (take n (pb_baseband ?b)))
      (\<lambda>(history, outputs). (p\<lparr>rp_lsd_history := history,
         rp_buffers := ?b\<lparr>pb_lsd := write_span 0 outputs (pb_lsd ?b)\<rparr>\<rparr>, ())))"
    using assms(3) by (simp add: path_stage_def f(1))
next
  fix q a
  assume q: "keeps p q \<and> ctcss_enabled (rp_ctcss_state q)"
  then obtain center where c: "ps_center_config (rp_setup q) = Some center"
    by (cases "ps_center_config (rp_setup q)") (auto simp: keeps_def path_ok_def)
  let ?b = "rp_buffers q"
  have ok: "buffers_ok (rp_setup q) ?b" using q path_okD(2) [of q] by (simp add: keeps_def)
  have fin: "list_all is_finite (take n (pb_lsd ?b))" using ok by (auto simp: buffers_ok_def intro: finite_take)
  obtain s ph ys where r: "slicer_process_with_trace
      \<lparr>slr_limit = csc_limit center, slr_setpoint = csc_setpoint center, slr_decay_factor = csc_decay_factor center\<rparr>
      (rp_center_state q, if csc_trace center then Some (rp_center_trace_phase q) else None)
      (take n (pb_lsd ?b)) = Inr ((s, ph), ys)" "length ys = length (take n (pb_lsd ?b))"
    using slicer_process_ok [OF fin] by blast
  have len: "length ys \<le> ps_baseband_capacity (rp_setup q)" using ok r(2) by (auto simp: buffers_ok_def)
  have written: "buffers_ok (rp_setup q) (?b\<lparr>pb_centered := write_span 0 (List.map fst ys) (pb_centered ?b),
      pb_limited := write_span 0 (List.map (fst \<circ> snd) ys) (pb_limited ?b), pb_center_trace := tr\<rparr>)"
    if "length tr = ps_baseband_capacity (rp_setup q)" for tr
    using ok len that by (simp add: buffers_ok_def length_write_span)
  have tr: "length (if csc_trace center then write_span 0 zs (pb_center_trace ?b) else pb_center_trace ?b) =
      ps_baseband_capacity (rp_setup q)" if "length zs = length ys" for zs
    using ok len that by (simp add: buffers_ok_def length_write_span)
  have "path_ok q" using q by (simp add: keeps_def)
  note upd = path_ok_buffers [OF path_ok_update(5) [OF path_ok_update(4) [OF this]]]
  have K: "path_ok (q\<lparr>rp_center_state := s, rp_center_trace_phase := ph', rp_buffers :=
      ?b\<lparr>pb_centered := write_span 0 (List.map fst ys) (pb_centered ?b),
      pb_limited := write_span 0 (List.map (fst \<circ> snd) ys) (pb_limited ?b), pb_center_trace :=
        if csc_trace center then write_span 0 (List.map f ys) (pb_center_trace ?b) else pb_center_trace ?b\<rparr>\<rparr>)" for ph' f
    by (rule upd) (use written [OF tr [of "List.map f ys"]] in \<open>simp split del: if_split\<close>)
  have "call_spec (\<lambda>p' _. keeps p p') E (process_center_slicer q center n)"
    unfolding process_center_slicer_def path_stage_def r(1)
    using q K by (simp add: keeps_def split del: if_split)
  then show "call_spec (\<lambda>p' _. keeps p p') E (case ps_center_config (rp_setup q) of
      None \<Rightarrow> Some (q, Inl INVALID_ARGUMENT) | Some center \<Rightarrow> process_center_slicer q center n)"
    by (simp add: c)
qed

lemma voice_spec:
  assumes "path_ok p" and "n \<le> ps_baseband_capacity (rp_setup p)" and "ps_hpf_controls (rp_setup p) = Some c"
  shows "call_spec (\<lambda>p' _. keeps p p') E (process_voice p c n)"
  unfolding process_voice_def
proof (rule call_spec_bind [where Q = "\<lambda>p' _. keeps p p'"])
  let ?b = "rp_buffers p"
  note fin = path_ok_baseband [OF assms(1,2)]
  obtain h ys where f: "fir_process (ps_hpf_coefficients (rp_setup p)) (flc_input_gain c)
      (flc_output_gain c) (flc_calc_adjust c) (rp_hpf_history p) (take n (pb_baseband ?b)) = Inr (h, ys)"
    "length ys = length (take n (pb_baseband ?b))" "length h = length (rp_hpf_history p)" "list_all is_finite ys"
    using fir_process_ok [OF path_ok_hpf [OF assms(1,3)] fin(1)] by blast
  have "buffers_ok (rp_setup p) (?b\<lparr>pb_hpf := write_span 0 ys (pb_hpf ?b)\<rparr>)"
    by (rule buffers_ok_writes(2) [OF path_okD(2) [OF assms(1)] _ f(4)]) (use f(2) fin(2) assms(2) in simp)
  with path_ok_buffers [OF path_ok_update(2) [OF assms(1) f(3)]]
  have "keeps p (p\<lparr>rp_hpf_history := h, rp_buffers := ?b\<lparr>pb_hpf := write_span 0 ys (pb_hpf ?b)\<rparr>\<rparr>)"
    by (simp add: keeps_def)
  then show "call_spec (\<lambda>p' _. keeps p p') E
      (path_stage p (fir_process (ps_hpf_coefficients (rp_setup p)) (flc_input_gain c)
        (flc_output_gain c) (flc_calc_adjust c) (rp_hpf_history p) (take n (pb_baseband ?b)))
      (\<lambda>(history, outputs). (p\<lparr>rp_hpf_history := history,
         rp_buffers := ?b\<lparr>pb_hpf := write_span 0 outputs (pb_hpf ?b)\<rparr>\<rparr>, ())))"
    by (simp add: path_stage_def f(1))
next
  fix q a
  assume q: "keeps p q"
  let ?b = "rp_buffers q"
  have ok: "buffers_ok (rp_setup q) ?b" "path_ok q" using q path_okD(2) [of q] by (simp_all add: keeps_def)
  have fin: "list_all is_finite (take n (pb_hpf ?b))" using ok by (auto simp: buffers_ok_def intro: finite_take)
  have written: "keeps p (q\<lparr>rp_deemphasis_state := s, rp_buffers := ?b\<lparr>pb_voice := write_span 0 ys (pb_voice ?b)\<rparr>\<rparr>)"
    "keeps p (q\<lparr>rp_buffers := ?b\<lparr>pb_voice := write_span 0 ys (pb_voice ?b)\<rparr>\<rparr>)"
    if "length ys = length (take n (pb_hpf ?b))" "list_all is_finite ys" for ys s
  proof -
    have "buffers_ok (rp_setup q) (?b\<lparr>pb_voice := write_span 0 ys (pb_voice ?b)\<rparr>)"
      using ok(1) that by (intro buffers_ok_writes(3)) (auto simp: buffers_ok_def)
    then show "keeps p (q\<lparr>rp_deemphasis_state := s, rp_buffers := ?b\<lparr>pb_voice := write_span 0 ys (pb_voice ?b)\<rparr>\<rparr>)"
      "keeps p (q\<lparr>rp_buffers := ?b\<lparr>pb_voice := write_span 0 ys (pb_voice ?b)\<rparr>\<rparr>)"
      using q path_ok_buffers [OF ok(2)] path_ok_buffers [OF path_ok_update(3) [OF ok(2)]] by (simp_all add: keeps_def)
  qed
  show "call_spec (\<lambda>p' _. keeps p p') E (case ps_deemphasis_config (rp_setup q) of
      Some deemphasis \<Rightarrow> path_stage q
        (deemphasis_process deemphasis (rp_deemphasis_state q) (take n (pb_hpf ?b)))
        (\<lambda>(state, outputs). (q\<lparr>rp_deemphasis_state := state,
           rp_buffers := ?b\<lparr>pb_voice := write_span 0 outputs (pb_voice ?b)\<rparr>\<rparr>, ()))
    | None \<Rightarrow> Some (q\<lparr>rp_buffers := ?b\<lparr>pb_voice := write_span 0 (take n (pb_hpf ?b)) (pb_voice ?b)\<rparr>\<rparr>, Inr ()))"
  proof (cases "ps_deemphasis_config (rp_setup q)")
    case None
    then show ?thesis using written(2) fin by simp
  next
    case (Some d)
    obtain s ys where r: "deemphasis_process d (rp_deemphasis_state q) (take n (pb_hpf ?b)) = Inr (s, ys)"
      "length ys = length (take n (pb_hpf ?b))" "list_all is_finite ys"
      using deemphasis_process_ok [OF fin] by blast
    show ?thesis using written(1) [OF r(2,3), of s] by (simp add: Some path_stage_def r(1))
  qed
qed

lemma baseband_spec:
  assumes "path_ok p" and "n \<le> ps_baseband_capacity (rp_setup p)"
  shows "call_spec (\<lambda>p' _. keeps p p') E (process_baseband p n)"
  unfolding process_baseband_def
proof (rule call_spec_bind [where Q = "\<lambda>p' _. keeps p p'"])
  show "call_spec (\<lambda>p' _. keeps p p') E
      (if ctcss_enabled (rp_ctcss_state p) then process_lsd p n else Some (p, Inr ()))"
    using lsd_spec [OF assms] keeps_refl [OF assms(1)] by simp
next
  fix q :: "('a, 'b, 'c) receive_path" and a
  assume q: "keeps p q"
  then have ok: "path_ok q" "n \<le> ps_baseband_capacity (rp_setup q)"
    using assms(2) by (simp_all add: keeps_def)
  show "call_spec (\<lambda>p' _. keeps p p') E
      (case (if rp_voice_processing_active q then ps_hpf_controls (rp_setup q) else None) of
        None \<Rightarrow> Some (q, Inr ()) | Some hpf_controls \<Rightarrow> process_voice q hpf_controls n)"
    using q voice_spec [OF ok, THEN call_spec_mono, of _ "\<lambda>p' _. keeps p p'" E] keeps_trans [OF q]
    by (auto split: option.splits)
qed

section \<open>The delay and its gate\<close>

lemma delay_segment_spec:
  assumes "path_ok p" and "ps_delay_config (rp_setup p) = Some d" and "finish \<le> ps_baseband_capacity (rp_setup p)"
  shows "call_spec (\<lambda>p' _. keeps p p') E (process_delay_segment p d start finish)"
proof (cases "finish - start = 0")
  case True
  then show ?thesis using keeps_refl [OF assms(1)] by (simp add: process_delay_segment_def)
next
  case False
  let ?b = "rp_buffers p"
  let ?n = "finish - start"
  let ?r = "\<lparr>dlr_lead = dlc_lead d, dlr_enabled = True, dlr_outzero = rp_delay_outzero p\<rparr>"
  let ?in = "if ps_deemphasis_config (rp_setup p) \<noteq> None then pb_voice ?b else pb_hpf ?b"
  note ok = path_okD(2) [OF assms(1)]
  have b: "list_all is_finite ?in" "length ?in = ps_baseband_capacity (rp_setup p)"
    "length (pb_delayed ?b) = ps_baseband_capacity (rp_setup p)"
    using ok by (auto simp: buffers_ok_def)
  have fit: "start + ?n \<le> ps_baseband_capacity (rp_setup p)" using False assms(3) by simp
  have st: "rp_delay_storage p \<noteq> []" "dlr_lead ?r \<le> length (rp_delay_storage p)"
    using assms(1,2) by (simp_all add: path_ok_def)
  have len: "length (read_span start ?n (pb_delayed ?b)) = length (read_span start ?n ?in)"
    using fit b by (simp only: length_read_span)
  obtain s st' ys where r: "delay_process ?r (rp_delay_state p, rp_delay_storage p)
      (read_span start ?n (pb_delayed ?b)) (read_span start ?n ?in) = Inr ((s, st'), ys)"
    "length st' = length (rp_delay_storage p)" "length ys = length (read_span start ?n ?in)"
    using delay_process_total [OF st finite_read_span [OF b(1)] len] by blast
  have "length ys = ?n" using r(3) fit b(2) by (simp only: length_read_span)
  then have "length (write_span start ys (pb_delayed ?b)) = ps_baseband_capacity (rp_setup p)"
    using fit b(3) by (simp only: length_write_span)
  then have "buffers_ok (rp_setup p) (?b\<lparr>pb_delayed := write_span start ys (pb_delayed ?b)\<rparr>)"
    using ok by (simp add: buffers_ok_def)
  then have "keeps p (p\<lparr>rp_delay_state := s, rp_delay_storage := st',
      rp_buffers := ?b\<lparr>pb_delayed := write_span start ys (pb_delayed ?b)\<rparr>\<rparr>)"
    using path_ok_buffers [OF path_ok_update(12) [OF path_ok_update(11) [OF assms(1), of s], of st']] r(2)
    by (simp add: keeps_def)
  then show ?thesis
    using False unfolding process_delay_segment_def Let_def path_stage_def r(1) by simp
qed

text \<open>The boundaries of a span are the frames where the stream position is a multiple of the gate
  interval, and the loop over them returns.\<close>

definition gate_frames :: "nat \<Rightarrow> nat \<Rightarrow> nat list" where
  "gate_frames remainder n = [b \<leftarrow> [1..<n + 1]. (remainder + b) mod 960 = 0]"

lemma gate_interval: "LEGACY_DELAY_GATE_FRAMES = 960"
  by (simp add: LEGACY_DELAY_GATE_FRAMES_def NATIVE_SAMPLE_RATE_HZ_def)

lemma filter_upt_none:
  assumes "\<And>b. lo \<le> b \<Longrightarrow> b < hi \<Longrightarrow> \<not> P b"
  shows "[b \<leftarrow> [lo..<hi]. P b] = []"
  using assms by (auto simp: filter_empty_conv)

lemma gate_boundaries_from:
  assumes "0 < b" and "n < u32_max" and "(r + b) mod 960 = 0"
  shows "gate_boundaries b n = Some [c \<leftarrow> [b..<n + 1]. (r + c) mod 960 = 0]"
  using assms
proof (induction "n + 1 - b" arbitrary: b rule: less_induct)
  case less
  show ?case
  proof (cases "b \<le> n")
    case False
    then show ?thesis by (subst gate_boundaries.simps) simp
  next
    case True
    let ?m = "saturating_add_u32 b 960"
    let ?P = "\<lambda>c. (r + c) mod 960 = 0"
    have step: "gate_boundaries b n = Option.bind (gate_boundaries ?m n) (\<lambda>bs. Some (b # bs))"
      using True by (subst gate_boundaries.simps) (simp add: gate_interval)
    have split1: "[c \<leftarrow> [b..<n + 1]. ?P c] = b # [c \<leftarrow> [b + 1..<n + 1]. ?P c]"
    proof -
      have "[b..<n + 1] = b # [b + 1..<n + 1]" using True by (subst upt_conv_Cons) simp_all
      then show ?thesis using less.prems(3) by simp
    qed
    have gap: "\<not> ?P c" if "b + 1 \<le> c" "c < b + 960" for c
    proof
      assume "?P c"
      then have "r + c = 960 * ((r + c) div 960)" "r + b = 960 * ((r + b) div 960)"
        using less.prems(3) by (simp_all only: mult_div_mod_eq [symmetric, of "r + c" 960, THEN sym]
            minus_mod_eq_mult_div [symmetric] diff_zero)
      then obtain k j where "r + c = 960 * k" "r + b = 960 * j" by blast
      with that have "960 * j < 960 * k" "960 * k < 960 * j + 960" by linarith+
      then have "Suc j \<le> k" by simp
      then have "960 * Suc j \<le> 960 * k" by (rule mult_le_mono2)
      with \<open>960 * k < 960 * j + 960\<close> show False by simp
    qed
    show ?thesis
    proof (cases "b + 960 \<le> n")
      case True
      then have m: "?m = b + 960" using less.prems(2) by (simp add: saturating_add_u32_def)
      have "gate_boundaries (b + 960) n = Some [c \<leftarrow> [b + 960..<n + 1]. ?P c]"
        by (rule less.hyps) (use True less.prems in \<open>auto simp: add.assoc [symmetric]\<close>)
      moreover have "[b + 1..<n + 1] = [b + 1..<b + 960] @ [b + 960..<n + 1]"
        using True upt_add_eq_append [of "b + 1" "b + 960" "n + 1 - (b + 960)"] by simp
      moreover have "[c \<leftarrow> [b + 1..<b + 960]. ?P c] = []" by (rule filter_upt_none) (use gap in auto)
      ultimately show ?thesis using step split1 m by simp
    next
      case False
      then have "\<not> ?m \<le> n" using less.prems(2) by (auto simp: saturating_add_u32_def)
      then have "gate_boundaries ?m n = Some []" by (subst gate_boundaries.simps) simp
      moreover have "[c \<leftarrow> [b + 1..<n + 1]. ?P c] = []" by (rule filter_upt_none) (use gap False in auto)
      ultimately show ?thesis using step split1 by simp
    qed
  qed
qed

lemma gate_boundaries_frames:
  assumes "r < 960" and "n < u32_max"
  shows "gate_boundaries (LEGACY_DELAY_GATE_FRAMES - r) n = Some (gate_frames r n)"
proof -
  have none: "[b \<leftarrow> [1..<k]. (r + b) mod 960 = 0] = []" if "k \<le> 960 - r" for k
  proof (rule filter_upt_none)
    fix b assume "1 \<le> b" "b < k"
    then have "0 < r + b" "r + b < 960" using that assms(1) by auto
    then show "(r + b) mod 960 \<noteq> 0" by simp
  qed
  have g: "gate_boundaries (960 - r) n = Some [c \<leftarrow> [960 - r..<n + 1]. (r + c) mod 960 = 0]"
    using assms by (intro gate_boundaries_from) auto
  show ?thesis
  proof (cases "960 - r \<le> n + 1")
    case True
    then have "[1..<n + 1] = [1..<960 - r] @ [960 - r..<n + 1]"
      using assms(1) upt_add_eq_append [of 1 "960 - r" "n + 1 - (960 - r)"] by simp
    with none [of "960 - r"] g show ?thesis by (simp add: gate_frames_def gate_interval)
  next
    case False
    with none [of "n + 1"] g show ?thesis by (simp add: gate_frames_def gate_interval)
  qed
qed

lemma gate_frames_append:
  assumes "r < 960"
  shows "gate_frames r (m + n) = gate_frames r m @ List.map ((+) m) (gate_frames ((r + m) mod 960) n)"
proof -
  have "[m + 1..<m + 1 + n] = List.map ((+) m) [1..<n + 1]"
    by (rule nth_equalityI) (simp_all del: upt_Suc)
  then have "[1..<m + n + 1] = [1..<m + 1] @ List.map ((+) m) [1..<n + 1]"
    using upt_add_eq_append [of 1 "m + 1" n] by (simp add: add.commute add.left_commute del: upt_Suc)
  moreover have "((r + m) mod 960 + b) mod 960 = (r + (m + b)) mod 960" for b
    by (simp add: mod_add_left_eq add.assoc)
  ultimately show ?thesis
    by (simp add: gate_frames_def filter_map comp_def del: upt_Suc)
qed

text \<open>The carrier gate the delay obeys after a span.\<close>

fun gate_after :: "nat list \<Rightarrow> bool \<Rightarrow> nat list \<Rightarrow> bool" where
  "gate_after gates outzero [] = outzero"
| "gate_after gates outzero (b # bs) = gate_after gates (gates ! (b - 1) = 0) bs"

lemma gate_after_last: "gate_after gates z bs = (if bs = [] then z else gates ! (last bs - 1) = 0)"
  by (induction bs arbitrary: z) auto

definition same_gates :: "('s, 'r, 'd) receive_path \<Rightarrow> ('s, 'r, 'd) receive_path \<Rightarrow> bool" where
  "same_gates p p' \<longleftrightarrow> keeps p p' \<and> rp_delay_gate_native_remainder p' = rp_delay_gate_native_remainder p \<and>
     pb_carrier_gate (rp_buffers p') = pb_carrier_gate (rp_buffers p) \<and> rp_dcs_state p' = rp_dcs_state p"

lemma call_spec_conj:
  assumes "call_spec Q (\<lambda>_ _. True) m" and "call_spec R (\<lambda>_ _. False) m"
    and "\<And>p a. Q p a \<Longrightarrow> R p a \<Longrightarrow> P p a"
  shows "call_spec P E m"
  using assms by (auto simp: call_spec_def split: option.splits sum.splits)

lemma delay_segment_gates:
  assumes "path_ok p" and "ps_delay_config (rp_setup p) = Some d" and "finish \<le> ps_baseband_capacity (rp_setup p)"
  shows "call_spec (\<lambda>p' _. same_gates p p' \<and> rp_delay_outzero p' = rp_delay_outzero p) E
    (process_delay_segment p d start finish)"
proof -
  have frame: "call_spec (\<lambda>p' _. rp_delay_gate_native_remainder p' = rp_delay_gate_native_remainder p \<and>
      pb_carrier_gate (rp_buffers p') = pb_carrier_gate (rp_buffers p) \<and> rp_dcs_state p' = rp_dcs_state p \<and>
      rp_delay_outzero p' = rp_delay_outzero p) (\<lambda>_ _. True) (process_delay_segment p d start finish)"
    by (auto simp: process_delay_segment_def path_stage_def Let_def call_spec_def split: sum.splits prod.splits)
  show ?thesis
    by (rule call_spec_conj [OF frame delay_segment_spec [OF assms]]) (simp add: same_gates_def)
qed

lemma delay_boundaries_spec:
  assumes "path_ok p" and "ps_delay_config (rp_setup p) = Some d"
    and "length (rp_emission_offsets p) \<le> ps_baseband_capacity (rp_setup p)"
  shows "call_spec (\<lambda>p' start'. same_gates p p' \<and>
      rp_delay_outzero p' = gate_after (pb_carrier_gate (rp_buffers p)) (rp_delay_outzero p) bs) E
    (process_delay_boundaries p d start bs)"
  using assms
proof (induction bs arbitrary: p start)
  case Nil
  then show ?case by (simp add: same_gates_def keeps_refl)
next
  case (Cons b bs)
  let ?finish = "length (takeWhile (\<lambda>offset. offset \<le> b) (rp_emission_offsets p))"
  have "?finish \<le> ps_baseband_capacity (rp_setup p)"
    using length_takeWhile_le [of _ "rp_emission_offsets p"] Cons.prems(3) by (rule le_trans)
  note seg = delay_segment_gates [OF Cons.prems(1,2) this]
  show ?case
    unfolding process_delay_boundaries.simps Let_def
  proof (rule call_spec_bind [OF seg])
    fix q and a
    assume q: "same_gates p q \<and> rp_delay_outzero q = rp_delay_outzero p"
    let ?q = "q\<lparr>rp_delay_outzero := (pb_carrier_gate (rp_buffers q) ! (b - 1) = 0)\<rparr>"
    have ok: "path_ok ?q" "ps_delay_config (rp_setup ?q) = Some d"
      "length (rp_emission_offsets ?q) \<le> ps_baseband_capacity (rp_setup ?q)"
      using q Cons.prems(2,3) path_ok_update(10) by (auto simp: same_gates_def keeps_def)
    show "call_spec (\<lambda>p' start'. same_gates p p' \<and>
        rp_delay_outzero p' = gate_after (pb_carrier_gate (rp_buffers p)) (rp_delay_outzero p) (b # bs)) E
      (process_delay_boundaries ?q d ?finish bs)"
      by (rule call_spec_mono [OF Cons.IH [OF ok]]) (use q in \<open>auto simp: same_gates_def keeps_def\<close>)
  qed
qed

lemma delay_spec:
  assumes "path_ok p" and "ps_delay_config (rp_setup p) = Some d"
    and "length (rp_emission_offsets p) = count" and "count \<le> ps_baseband_capacity (rp_setup p)"
    and "n \<le> ps_maximum_native_frames (rp_setup p)"
  shows "call_spec (\<lambda>p' _. keeps p p' \<and>
      (ps_vox_config (rp_setup p) = None \<longrightarrow>
        rp_delay_gate_native_remainder p' = (rp_delay_gate_native_remainder p + n) mod 960 \<and>
        rp_delay_outzero p' = gate_after (pb_carrier_gate (rp_buffers p)) (rp_delay_outzero p)
          (gate_frames (rp_delay_gate_native_remainder p) n))) E
    (process_delay p d count n)"
proof (cases "ps_vox_config (rp_setup p)")
  case (Some v)
  then show ?thesis
    using delay_segment_spec [OF assms(1,2,4)] by (simp add: process_delay_def)
next
  case None
  let ?r = "rp_delay_gate_native_remainder p"
  have r: "?r < 960" and n: "n + 960 \<le> u32_max"
    using assms(1,5) by (auto simp: path_ok_def setup_ok_def gate_interval)
  have off: "length (rp_emission_offsets p) \<le> ps_baseband_capacity (rp_setup p)" using assms(3,4) by simp
  have m: "as_u32 (?r + n) = ?r + n" using r n by (simp add: as_u32_def u32_max_def)
  have "gate_boundaries (LEGACY_DELAY_GATE_FRAMES - ?r) n = Some (gate_frames ?r n)"
    by (rule gate_boundaries_frames) (use r n in auto)
  then have eq: "process_delay p d count n = path_bind (process_delay_boundaries p d 0 (gate_frames ?r n)) (\<lambda>p sample_start.
      path_bind (process_delay_segment p d sample_start count) (\<lambda>p _.
      Some (p\<lparr>rp_delay_gate_native_remainder :=
        as_u32 (rp_delay_gate_native_remainder p + n) mod LEGACY_DELAY_GATE_FRAMES\<rparr>, Inr ())))"
    using None by (simp add: process_delay_def)
  show ?thesis
    unfolding eq
  proof (rule call_spec_bind [OF delay_boundaries_spec [OF assms(1,2) off]])
    fix q start
    assume q: "same_gates p q \<and>
      rp_delay_outzero q = gate_after (pb_carrier_gate (rp_buffers p)) (rp_delay_outzero p) (gate_frames ?r n)"
    then have ok: "path_ok q" "ps_delay_config (rp_setup q) = Some d" "count \<le> ps_baseband_capacity (rp_setup q)"
      using assms(2,4) by (auto simp: same_gates_def keeps_def)
    show "call_spec (\<lambda>p' _. keeps p p' \<and>
      (ps_vox_config (rp_setup p) = None \<longrightarrow>
        rp_delay_gate_native_remainder p' = (?r + n) mod 960 \<and>
        rp_delay_outzero p' = gate_after (pb_carrier_gate (rp_buffers p)) (rp_delay_outzero p) (gate_frames ?r n))) E
      (path_bind (process_delay_segment q d start count) (\<lambda>p _. Some (p\<lparr>rp_delay_gate_native_remainder :=
        as_u32 (rp_delay_gate_native_remainder p + n) mod LEGACY_DELAY_GATE_FRAMES\<rparr>, Inr ())))"
    proof (rule call_spec_bind [OF delay_segment_gates [OF ok]])
      fix s and u :: unit
      assume s: "same_gates q s \<and> rp_delay_outzero s = rp_delay_outzero q"
      have "rp_delay_gate_native_remainder s = ?r" using q s by (simp add: same_gates_def)
      moreover have "path_ok (s\<lparr>rp_delay_gate_native_remainder := (?r + n) mod 960\<rparr>)"
        using s by (intro path_ok_update(13)) (simp_all add: same_gates_def keeps_def gate_interval)
      ultimately show "call_spec (\<lambda>p' _. keeps p p' \<and>
        (ps_vox_config (rp_setup p) = None \<longrightarrow>
          rp_delay_gate_native_remainder p' = (?r + n) mod 960 \<and>
          rp_delay_outzero p' = gate_after (pb_carrier_gate (rp_buffers p)) (rp_delay_outzero p) (gate_frames ?r n))) E
        (Some (s\<lparr>rp_delay_gate_native_remainder :=
          as_u32 (rp_delay_gate_native_remainder s + n) mod LEGACY_DELAY_GATE_FRAMES\<rparr>, Inr ()))"
        using q s by (simp add: m gate_interval same_gates_def keeps_def)
    qed
  qed
qed

text \<open>The gate of the delay, the carrier gates and the DCS decoder belong to their own stages.\<close>

definition front_view :: "('s, 'r, 'd) receive_path \<Rightarrow> nat list \<times> 'd dcs_receive" where
  "front_view p = (pb_carrier_gate (rp_buffers p), rp_dcs_state p)"

definition gate_view :: "('s, 'r, 'd) receive_path \<Rightarrow> nat \<times> bool \<times> nat list" where
  "gate_view p = (rp_delay_gate_native_remainder p, rp_delay_outzero p, pb_carrier_gate (rp_buffers p))"

lemmas view_defs = gate_view_def front_view_def

section \<open>The detectors\<close>

lemma measure_vox_spec:
  assumes "path_ok p" and "n \<le> ps_baseband_capacity (rp_setup p)"
  shows "call_spec (\<lambda>p' _. same_gates p p' \<and> rp_delay_outzero p' = rp_delay_outzero p) E (measure_vox p n)"
proof (cases "ps_vox_config (rp_setup p)")
  case None
  then show ?thesis using keeps_refl [OF assms(1)] by (simp add: measure_vox_def same_gates_def)
next
  case (Some v)
  let ?b = "rp_buffers p"
  note fin = path_ok_baseband [OF assms]
  obtain s ys b where r: "envelope_measure (evc_decay_factor (vxc_envelope v)) (evc_threshold (vxc_envelope v))
      (rp_vox_envelope_state p) (take n (pb_baseband ?b)) = Inr (s, ys, b)"
    "length ys = length (take n (pb_baseband ?b))" "list_all is_finite ys"
    using envelope_measure_ok [OF fin(1)] by blast
  have "buffers_ok (rp_setup p) (?b\<lparr>pb_vox_envelope := write_span 0 ys (pb_vox_envelope ?b)\<rparr>)"
    by (rule buffers_ok_writes(4) [OF path_okD(2) [OF assms(1)] _ r(3)]) (use r(2) fin(2) assms(2) in simp)
  with path_ok_buffers [OF path_ok_update(6) [OF assms(1)]]
  have "path_ok (p\<lparr>rp_vox_envelope_state := s,
      rp_buffers := ?b\<lparr>pb_vox_envelope := write_span 0 ys (pb_vox_envelope ?b)\<rparr>\<rparr>)" by simp
  then show ?thesis by (simp add: measure_vox_def Some path_stage_def r(1) same_gates_def keeps_def)
qed

lemma measure_tuning_spec:
  assumes "path_ok p" and "n \<le> ps_baseband_capacity (rp_setup p)"
  shows "call_spec (\<lambda>p' _. same_gates p p' \<and> rp_delay_outzero p' = rp_delay_outzero p) E (measure_tuning p n)"
proof (cases "ps_measurement_config (rp_setup p)")
  case None
  then show ?thesis using keeps_refl [OF assms(1)] by (simp add: measure_tuning_def same_gates_def)
next
  case (Some v)
  let ?b = "rp_buffers p"
  note fin = path_ok_baseband [OF assms]
  obtain s ys b where r: "envelope_measure (evc_decay_factor v) (evc_threshold v)
      (rp_measurement_state p) (take n (pb_baseband ?b)) = Inr (s, ys, b)"
    "length ys = length (take n (pb_baseband ?b))"
    using envelope_measure_ok [OF fin(1)] by blast
  have "buffers_ok (rp_setup p) (?b\<lparr>pb_measurement := write_span 0 ys (pb_measurement ?b)\<rparr>)"
    by (rule buffers_ok_writes(5) [OF path_okD(2) [OF assms(1)]]) (use r(2) fin(2) assms(2) in simp)
  with path_ok_buffers [OF path_ok_update(7) [OF assms(1)]]
  have "path_ok (p\<lparr>rp_measurement_state := s,
      rp_buffers := ?b\<lparr>pb_measurement := write_span 0 ys (pb_measurement ?b)\<rparr>\<rparr>)" by simp
  then show ?thesis by (simp add: measure_tuning_def Some path_stage_def r(1) same_gates_def keeps_def)
qed

lemma vox_samples_total:
  "list_all (\<lambda>s. is_finite (snd s)) samples \<Longrightarrow> \<exists>squelch'. vox_samples t h squelch samples = (squelch', Inr ())"
proof (induction samples arbitrary: squelch)
  case (Cons s samples)
  then obtain c where "f32_to_pcm_code (snd s) = Inr c"
    by (auto simp: f32_to_pcm_code_def fp_mul_scale_not_nan)
  with Cons show ?case by (cases s) simp
qed simp

lemma path_carrier_spec:
  assumes "path_ok p" and "n \<le> ps_baseband_capacity (rp_setup p)"
  shows "call_spec (\<lambda>p' _. same_gates p p' \<and> rp_delay_outzero p' = rp_delay_outzero p) E (path_carrier p n frames)"
proof (cases "ps_vox_config (rp_setup p)")
  case None
  then show ?thesis using keeps_refl [OF assms(1)] by (simp add: path_carrier_def same_gates_def)
next
  case (Some v)
  have "list_all is_finite (pb_vox_envelope (rp_buffers p))"
    "length (pb_vox_envelope (rp_buffers p)) = ps_baseband_capacity (rp_setup p)"
    using path_okD(2) [OF assms(1)] by (simp_all add: buffers_ok_def)
  then have "list_all (\<lambda>s. is_finite (snd s))
      (List.map (\<lambda>i. (rp_emission_offsets p ! i, pb_vox_envelope (rp_buffers p) ! i)) [0..<n])"
    using assms(2) by (auto simp: list_all_iff)
  then obtain q where q: "vox_samples (evc_threshold (vxc_envelope v)) (ps_vox_hang_frames (rp_setup p)) (rp_squelch p)
      (List.map (\<lambda>i. (rp_emission_offsets p ! i, pb_vox_envelope (rp_buffers p) ! i)) [0..<n]) = (q, Inr ())"
    using vox_samples_total by blast
  obtain q' d where "squelch_vox_finish q frames = (q', d)" by fastforce
  with q path_ok_update(8) [OF assms(1), of q'] show ?thesis
    by (simp add: path_carrier_def Some advance_vox_hold_def same_gates_def keeps_def)
qed

text \<open>The only failure left is a DCS provider that reports one.\<close>

definition dcs_may_fail :: "'d dcs_receive \<Rightarrow> bool" where
  "dcs_may_fail c \<longleftrightarrow> dcs_enabled c \<and> (\<exists>input. snd (snd (dr_process c (dr_handle c) input)) \<noteq> 0)"

definition dcs_failure :: "('s, 'r, 'd) receive_path \<Rightarrow> ('s, 'r, 'd) receive_path \<Rightarrow> radio_error \<Rightarrow> bool" where
  "dcs_failure p p' e \<longleftrightarrow> keeps p p' \<and> e = PROVIDER_FAILED \<and> dcs_may_fail (rp_dcs_state p)"

lemma path_dcs_spec:
  assumes "path_ok p"
  shows "call_spec (\<lambda>p' _. keeps p p' \<and> gate_view p' = gate_view p) (dcs_failure p) (path_dcs p input)"
proof (cases "dcs_enabled (rp_dcs_state p)")
  case False
  then show ?thesis using keeps_refl [OF assms] by (simp add: path_dcs_def)
next
  case True
  obtain c r where d: "dcs_receive_process (rp_dcs_state p) input = (c, r)" by fastforce
  have "r = Inl e \<Longrightarrow> e = PROVIDER_FAILED \<and> dcs_may_fail (rp_dcs_state p)" for e
    using d True by (auto simp: dcs_receive_process_def dcs_may_fail_def split: prod.splits if_splits)
      (metis snd_conv)
  with path_ok_update(9) [OF assms, of c] show ?thesis
    by (cases r) (auto simp: path_dcs_def True d gate_view_def keeps_def dcs_failure_def)
qed

lemma path_ok_ctcss:
  assumes "path_ok p" and "ctcss_configured c" and "ctcss_enabled c = ctcss_enabled (rp_ctcss_state p)"
  shows "path_ok (p\<lparr>rp_ctcss_state := c\<rparr>)"
  using assms by (simp add: path_ok_def)

lemma ctcss_configured_step:
  assumes "ctcss_configured c"
  shows "ctcss_configured (ctcss_clear_tail_on_carrier_loss c carrier)"
    and "ctcss_enabled (ctcss_clear_tail_on_carrier_loss c carrier) = ctcss_enabled c"
    and "ctcss_configured (fst (ctcss_process c samples carrier))"
    and "ctcss_enabled (fst (ctcss_process c samples carrier)) = ctcss_enabled c"
  using assms
  by (simp_all add: ctcss_configured_def ctcss_enabled_def ctcss_clear_tail_on_carrier_loss_def
      ctcss_process_def case_prod_beta)

lemma path_ctcss_keeps:
  assumes "path_ok p"
  shows "same_gates p (fst (path_ctcss p n carrier)) \<and>
    rp_delay_outzero (fst (path_ctcss p n carrier)) = rp_delay_outzero p"
proof -
  note step = ctcss_configured_step
  let ?c = "ctcss_clear_tail_on_carrier_loss (rp_ctcss_state p) carrier"
  note ok = step(1,2) [OF path_okD(3) [OF assms], of carrier]
  have "path_ok (p\<lparr>rp_ctcss_state := ?c\<rparr>)"
    "path_ok (p\<lparr>rp_ctcss_state := fst (ctcss_process ?c samples carrier)\<rparr>)" for samples
    using path_ok_ctcss [OF assms] ok step(3,4) [OF ok(1)] by simp_all
  then show ?thesis
    by (auto simp: path_ctcss_def same_gates_def keeps_def case_prod_beta Let_def)
qed

section \<open>The frontend and the emission offsets\<close>

text \<open>The native frames of a span that emit a baseband sample, from one, when the decimator enters it
  with \<open>d\<close> frames to go.\<close>

definition emission_frames :: "nat \<Rightarrow> nat \<Rightarrow> nat \<Rightarrow> nat list" where
  "emission_frames decimate d n = [k \<leftarrow> [1..<n + 1]. d \<le> k \<and> (k - d) mod decimate = 0]"

lemma emission_offsets_length:
  assumes "1 \<le> d" and "d \<le> int decimate" and "decimate \<le> 32767"
  shows "length (emission_offsets_from decimate d offset n) = snd (decimator_run decimate d n)"
  using assms(1,2)
proof (induction n arbitrary: d offset)
  case 0
  then show ?case by simp
next
  case (Suc n)
  have i: "in_i16 d" "decimate \<le> 2147483647" using Suc.prems assms(3) by (auto simp: in_i16_def)
  have w: "wrap_i16 (int decimate) = int decimate" "wrap_i16 (d - 1) = d - 1"
    using Suc.prems assms(3) by (auto intro!: wrap_i16_id simp: in_i16_def)
  show ?case
    using Suc.IH [of "int decimate" "offset + 1"] Suc.IH [of "d - 1" "offset + 1"] Suc.prems w
    by (simp add: decimator_step_cases [OF i] case_prod_beta Let_def)
qed

lemma emission_offsets_filter:
  assumes "1 \<le> d" and "d \<le> decimate" and "decimate \<le> 32767"
  shows "emission_offsets_from decimate (int d) offset n =
    [k \<leftarrow> [offset..<offset + n]. offset + d \<le> k + 1 \<and> (k + 1 - (offset + d)) mod decimate = 0]"
  using assms(1,2)
proof (induction n arbitrary: d offset)
  case 0
  then show ?case by simp
next
  case (Suc n)
  have i: "in_i16 (int d)" "decimate \<le> 2147483647" using Suc.prems assms(3) by (auto simp: in_i16_def)
  have up: "[offset..<offset + Suc n] = offset # [offset + 1..<offset + 1 + n]" by (simp add: upt_rec)
  show ?case
  proof (cases "d = 1")
    case True
    have "(offset + 1 + decimate \<le> k + 1 \<and> (k + 1 - (offset + 1 + decimate)) mod decimate = 0) =
        (offset + 1 \<le> k + 1 \<and> (k + 1 - (offset + 1)) mod decimate = 0)" if "offset + 1 \<le> k" for k
    proof (cases "offset + decimate \<le> k")
      case True
      then show ?thesis using le_mod_geq [of decimate "k - offset"] that by (simp add: le_diff_conv2)
    next
      case False
      then show ?thesis using that by simp
    qed
    then have "[k \<leftarrow> [offset + 1..<offset + 1 + n]. offset + 1 + decimate \<le> k + 1 \<and>
          (k + 1 - (offset + 1 + decimate)) mod decimate = 0] =
        [k \<leftarrow> [offset + 1..<offset + 1 + n]. offset + 1 \<le> k + 1 \<and> (k + 1 - (offset + 1)) mod decimate = 0]"
      by (intro filter_cong [OF refl]) (simp only: set_upt atLeastLessThan_iff)
    moreover have "emission_offsets_from decimate (int d) offset (Suc n) =
        offset # emission_offsets_from decimate (int decimate) (offset + 1) n"
      using True decimator_step_cases [OF i] by simp
    ultimately show ?thesis
      using Suc.IH [of decimate "offset + 1"] Suc.prems True by (simp only: up filter.simps) simp
  next
    case False
    then have "emission_offsets_from decimate (int d) offset (Suc n) =
        emission_offsets_from decimate (int (d - 1)) (offset + 1) n"
      using Suc.prems by (simp add: decimator_step_cases [OF i] of_nat_diff)
    moreover have "offset + 1 + (d - 1) = offset + d" "\<not> offset + d \<le> offset + 1" using False Suc.prems by auto
    ultimately show ?thesis
      using Suc.IH [of "d - 1" "offset + 1"] Suc.prems False by (simp only: up filter.simps) simp
  qed
qed

lemma emission_offsets_frames:
  assumes "1 \<le> d" and "d \<le> decimate" and "decimate \<le> 32767"
  shows "emission_offsets_from decimate (int d) 1 n = emission_frames decimate d n"
  by (simp add: emission_offsets_filter [OF assms] emission_frames_def del: upt_Suc)

lemma frontend_samples_finite:
  assumes "fallible_steps (frontend_step request) owner cs = Some (owner', fs)"
  shows "list_all is_finite (fo_baseband (collect_frames fs))"
  using assms
proof (induction cs arbitrary: owner fs)
  case Nil
  then show ?case by simp
next
  case (Cons c cs)
  then obtain owner1 y g u gs where s: "frontend_step request owner c = Some (owner1, y, g, u)"
      "fallible_steps (frontend_step request) owner1 cs = Some (owner', gs)" "fs = (y, g, u) # gs"
    unfolding fallible_steps_Cons by auto
  with Cons.IH [OF s(2)] frontend_step_Some(5) [OF s(1)] show ?case
    by (auto simp: case_prod_beta Let_def split: option.splits)
qed

lemma finite_left_channel: "list_all is_finite xs \<Longrightarrow> list_all is_finite (left_channel xs)"
  by (induction xs rule: left_channel.induct) auto

lemma length_mute_left [simp]: "length (mute_left k xs) = length xs"
  by (induction k xs rule: mute_left.induct) auto

lemma finite_mute_left: "list_all is_finite xs \<Longrightarrow> list_all is_finite (mute_left k xs)"
  by (induction k xs rule: mute_left.induct) (auto simp: fp_zero_def)

lemma frontend_accepts:
  assumes "path_ok p" and "n \<le> ps_maximum_native_frames (rp_setup p)"
  shows "\<not> frontend_rejected (path_frontend_request p) (length (rp_frontend_history p)) n"
    and "(n + 5) div 6 \<le> ps_baseband_capacity (rp_setup p)"
proof -
  let ?s = "rp_setup p"
  have ok: "setup_ok ?s" "length (rp_frontend_history p) = length (ps_baseband_coefficients ?s)"
    "length (pb_carrier_gate (rp_buffers p)) = ps_maximum_native_frames ?s"
    using assms(1) by (simp_all add: path_ok_def buffers_ok_def)
  have cap: "ps_baseband_capacity ?s = (ps_maximum_native_frames ?s + 10) div 6"
    "ps_maximum_native_frames ?s + 960 \<le> u32_max" using ok(1) by (simp_all add: setup_ok_def)
  have "ps_maximum_native_frames ?s \<le> u32_max" "(ps_maximum_native_frames ?s + 10) div 6 \<le> u32_max"
    using cap(2) by linarith+
  then have w: "as_u32 (ps_maximum_native_frames ?s) = ps_maximum_native_frames ?s"
    "as_u32 (ps_baseband_capacity ?s) = ps_baseband_capacity ?s"
    unfolding cap(1) by (auto simp: as_u32_def u32_max_def)
  show c: "(n + 5) div 6 \<le> ps_baseband_capacity ?s"
    unfolding cap(1) using assms(2) by (intro div_le_mono) simp
  have "maximum_baseband_output_count n 6 \<le> (n + 5) div 6"
    unfolding maximum_baseband_output_count_def saturating_add_u64_def by (intro div_le_mono) simp
  with c have "maximum_baseband_output_count n 6 \<le> ps_baseband_capacity ?s" by simp
  with ok w assms(2) show "\<not> frontend_rejected (path_frontend_request p) (length (rp_frontend_history p)) n"
    by (auto simp: frontend_rejected_def path_frontend_request_def setup_ok_def Let_def)
qed

section \<open>What a call leaves alone\<close>

definition call_frame :: "('p \<Rightarrow> 'v) \<Rightarrow> 'p \<Rightarrow> ('p, 'a) path_call \<Rightarrow> bool" where
  "call_frame f p m \<longleftrightarrow> (\<forall>p' r. m = Some (p', r) \<longrightarrow> f p' = f p)"

lemma call_frame_simps [simp]:
  "call_frame f p (Some (p', r)) \<longleftrightarrow> f p' = f p"
  "call_frame f p None"
  by (auto simp: call_frame_def)

lemma call_frame_bind:
  assumes "call_frame f p m" and "\<And>p' a. f p' = f p \<Longrightarrow> call_frame f p' (g p' a)"
  shows "call_frame f p (path_bind m g)"
proof (cases m)
  case None
  then show ?thesis by (simp add: path_bind_def)
next
  case (Some s)
  obtain q r where s: "s = (q, r)" by fastforce
  have q: "f q = f p" using assms(1) by (simp add: Some s)
  show ?thesis
    using assms(2) [OF q] q by (cases r) (simp_all add: Some s path_bind_def call_frame_def)
qed

lemma call_frame_stage:
  assumes "\<And>a. f (fst (g a)) = f p"
  shows "call_frame f p (path_stage p r g)"
  using assms by (auto simp: call_frame_def path_stage_def case_prod_beta Let_def split: sum.splits)

lemma call_spec_frame:
  "call_spec Q E m \<Longrightarrow> call_frame f p m \<Longrightarrow> call_spec (\<lambda>p' a. Q p' a \<and> f p' = f p) E m"
  by (auto simp: call_spec_def call_frame_def split: option.splits sum.splits)

abbreviation both_views :: "('s, 'r, 'd) receive_path \<Rightarrow> (nat \<times> bool \<times> nat list) \<times> nat list \<times> 'd dcs_receive" where
  "both_views p \<equiv> (gate_view p, front_view p)"

lemma baseband_frame: "call_frame both_views p (process_baseband p n)"
proof -
  have slicer: "call_frame both_views q (process_center_slicer q c n)" for q :: "('a, 'b, 'c) receive_path" and c
    unfolding process_center_slicer_def by (rule call_frame_stage) (simp add: view_defs case_prod_beta)
  have lsd: "call_frame both_views p (process_lsd p n)"
    unfolding process_lsd_def
  proof (rule call_frame_bind)
    fix q :: "('a, 'b, 'c) receive_path"
    show "call_frame both_views q (case ps_center_config (rp_setup q) of None \<Rightarrow> Some (q, Inl INVALID_ARGUMENT)
        | Some center \<Rightarrow> process_center_slicer q center n)"
      using slicer by (simp split: option.splits)
  qed (rule call_frame_stage, simp add: view_defs case_prod_beta)
  have voice: "call_frame both_views q (process_voice q c n)" for q :: "('a, 'b, 'c) receive_path" and c
    unfolding process_voice_def
  proof (rule call_frame_bind)
    fix s :: "('a, 'b, 'c) receive_path"
    show "call_frame both_views s (case ps_deemphasis_config (rp_setup s) of
        Some deemphasis \<Rightarrow> path_stage s
          (deemphasis_process deemphasis (rp_deemphasis_state s) (take n (pb_hpf (rp_buffers s))))
          (\<lambda>(state, outputs). (s\<lparr>rp_deemphasis_state := state,
             rp_buffers := (rp_buffers s)\<lparr>pb_voice := write_span 0 outputs (pb_voice (rp_buffers s))\<rparr>\<rparr>, ()))
      | None \<Rightarrow> Some (s\<lparr>rp_buffers := (rp_buffers s)\<lparr>pb_voice :=
          write_span 0 (take n (pb_hpf (rp_buffers s))) (pb_voice (rp_buffers s))\<rparr>\<rparr>, Inr ()))"
      by (auto split: option.splits intro: call_frame_stage simp: view_defs)
  qed (rule call_frame_stage, simp add: view_defs case_prod_beta)
  show ?thesis
    unfolding process_baseband_def
    by (rule call_frame_bind) (use lsd voice in \<open>auto split: option.splits\<close>)
qed

lemma delay_frame: "call_frame front_view p (process_delay p d n frames)"
proof -
  have segment: "call_frame front_view q (process_delay_segment q d a b)" for q :: "('a, 'b, 'c) receive_path" and a b
    unfolding process_delay_segment_def Let_def
    by (auto intro!: call_frame_stage simp: view_defs)
  have boundaries: "call_frame front_view q (process_delay_boundaries q d start bs)"
    for q :: "('a, 'b, 'c) receive_path" and start bs
  proof (induction bs arbitrary: q start)
    case (Cons b bs)
    show ?case
      unfolding process_delay_boundaries.simps Let_def
    proof (rule call_frame_bind [OF segment])
      fix s :: "('a, 'b, 'c) receive_path"
      show "call_frame front_view s (process_delay_boundaries
          (s\<lparr>rp_delay_outzero := (pb_carrier_gate (rp_buffers s) ! (b - 1) = 0)\<rparr>) d
          (length (takeWhile (\<lambda>offset. offset \<le> b) (rp_emission_offsets q))) bs)"
        using Cons.IH by (simp add: call_frame_def front_view_def)
    qed
  qed simp
  have rest: "call_frame front_view q (path_bind (process_delay_segment q d start n) (\<lambda>p _.
      Some (p\<lparr>rp_delay_gate_native_remainder :=
        as_u32 (rp_delay_gate_native_remainder p + frames) mod LEGACY_DELAY_GATE_FRAMES\<rparr>, Inr ())))"
    for q :: "('a, 'b, 'c) receive_path" and start
    by (rule call_frame_bind [OF segment]) (simp add: front_view_def)
  show ?thesis
    by (auto simp: process_delay_def segment split: option.splits intro!: call_frame_bind [OF boundaries] rest)
qed

section \<open>One span\<close>

text \<open>Where the delay and its gate stand after a span of \<open>n\<close> frames.\<close>

definition gate_advanced :: "('s, 'r, 'd) receive_path \<Rightarrow> nat \<Rightarrow> ('s, 'r, 'd) receive_path \<Rightarrow> bool" where
  "gate_advanced p n p' \<longleftrightarrow>
     (if ps_delay_config (rp_setup p) \<noteq> None \<and> ps_vox_config (rp_setup p) = None
      then rp_delay_gate_native_remainder p' = (rp_delay_gate_native_remainder p + n) mod 960 \<and>
        rp_delay_outzero p' = gate_after (pb_carrier_gate (rp_buffers p')) (rp_delay_outzero p)
          (gate_frames (rp_delay_gate_native_remainder p) n)
      else True)"

lemma detectors_spec:
  assumes "path_ok p" and "k \<le> ps_baseband_capacity (rp_setup p)"
  shows "call_spec (\<lambda>p' _. same_gates p p' \<and> rp_delay_outzero p' = rp_delay_outzero p) E
    (path_bind (measure_vox p k) (\<lambda>p vox_detect. path_bind (measure_tuning p k) (\<lambda>p _. Some (p, Inr vox_detect))))"
proof (rule call_spec_bind [OF measure_vox_spec [OF assms]])
  fix q and v :: bool
  assume q: "same_gates p q \<and> rp_delay_outzero q = rp_delay_outzero p"
  then have ok: "path_ok q" "k \<le> ps_baseband_capacity (rp_setup q)" using assms(2) by (auto simp: same_gates_def keeps_def)
  show "call_spec (\<lambda>p' _. same_gates p p' \<and> rp_delay_outzero p' = rp_delay_outzero p) E
      (path_bind (measure_tuning q k) (\<lambda>p _. Some (p, Inr v)))"
    by (rule call_spec_bind [OF measure_tuning_spec [OF ok]]) (use q in \<open>auto simp: same_gates_def keeps_def\<close>)
qed

lemma stages_spec:
  assumes "path_ok p" and "length (rp_emission_offsets p) = k" and "k \<le> ps_baseband_capacity (rp_setup p)"
    and "n \<le> ps_maximum_native_frames (rp_setup p)"
  shows "call_spec (\<lambda>p' _. keeps p p' \<and> rp_dcs_state p' = rp_dcs_state p \<and> gate_advanced p n p') E (path_stages p k n)"
  unfolding path_stages_def
proof (rule call_spec_bind [where Q = "\<lambda>p' _. keeps p p' \<and> both_views p' = both_views p"])
  show "call_spec (\<lambda>p' _. keeps p p' \<and> both_views p' = both_views p) E
      (if k \<noteq> 0 then process_baseband p k else Some (p, Inr ()))"
    using call_spec_frame [OF baseband_spec [OF assms(1,3)] baseband_frame] keeps_refl [OF assms(1)] by simp
next
  fix q :: "('a, 'b, 'c) receive_path" and u :: unit
  assume q: "keeps p q \<and> both_views q = both_views p"
  have ok: "path_ok q" "length (rp_emission_offsets q) = k" "k \<le> ps_baseband_capacity (rp_setup q)"
    "n \<le> ps_maximum_native_frames (rp_setup q)"
    using q assms by (auto simp: keeps_def)
  show "call_spec (\<lambda>p' _. keeps p p' \<and> rp_dcs_state p' = rp_dcs_state p \<and> gate_advanced p n p') E
      (path_bind (case ps_delay_config (rp_setup q) of None \<Rightarrow> Some (q, Inr ())
          | Some delay \<Rightarrow> process_delay q delay k n) (\<lambda>p _.
        if k \<noteq> 0 then path_bind (measure_vox p k) (\<lambda>p vox_detect.
          path_bind (measure_tuning p k) (\<lambda>p _. Some (p, Inr vox_detect)))
        else Some (p, Inr False)))"
  proof (rule call_spec_bind [where Q = "\<lambda>p' _. keeps p p' \<and> rp_dcs_state p' = rp_dcs_state p \<and> gate_advanced p n p'"])
    show "call_spec (\<lambda>p' _. keeps p p' \<and> rp_dcs_state p' = rp_dcs_state p \<and> gate_advanced p n p') E
        (case ps_delay_config (rp_setup q) of None \<Rightarrow> Some (q, Inr ()) | Some delay \<Rightarrow> process_delay q delay k n)"
    proof (cases "ps_delay_config (rp_setup q)")
      case None
      then show ?thesis using q by (simp add: gate_advanced_def keeps_def view_defs)
    next
      case (Some d)
      show ?thesis
        unfolding Some option.case
        by (rule call_spec_mono [OF call_spec_frame [OF delay_spec [OF ok(1) Some ok(2-4)] delay_frame]])
          (use q in \<open>auto simp: keeps_def gate_advanced_def view_defs\<close>)
    qed
  next
    fix s :: "('a, 'b, 'c) receive_path" and u :: unit
    assume s: "keeps p s \<and> rp_dcs_state s = rp_dcs_state p \<and> gate_advanced p n s"
    then have sk: "path_ok s" "k \<le> ps_baseband_capacity (rp_setup s)" using assms(3) by (auto simp: keeps_def)
    show "call_spec (\<lambda>p' _. keeps p p' \<and> rp_dcs_state p' = rp_dcs_state p \<and> gate_advanced p n p') E
        (if k \<noteq> 0 then path_bind (measure_vox s k) (\<lambda>p vox_detect.
          path_bind (measure_tuning p k) (\<lambda>p _. Some (p, Inr vox_detect)))
         else Some (s, Inr False))"
      using s call_spec_mono [OF detectors_spec [OF sk], of "\<lambda>p' _. keeps p p' \<and> rp_dcs_state p' = rp_dcs_state p \<and> gate_advanced p n p'" E E]
      by (auto simp: same_gates_def keeps_def gate_advanced_def)
  qed
qed

text \<open>The frontend of a span.\<close>

lemma path_frontend_spec:
  assumes "path_ok p" and "list_all is_finite input" and "length input div 2 = n"
    and "n \<le> ps_maximum_native_frames (rp_setup p)"
  shows "call_spec (\<lambda>p' (k, _). path_ok p' \<and> rp_setup p' = rp_setup p \<and> k \<le> ps_baseband_capacity (rp_setup p) \<and>
      rp_dcs_state p' = rp_dcs_state p \<and>
      rp_delay_gate_native_remainder p' = rp_delay_gate_native_remainder p \<and> rp_delay_outzero p' = rp_delay_outzero p \<and>
      (fe_decimator (rp_frontend_state p'), k) = decimator_run 6 (fe_decimator (rp_frontend_state p)) n) E
    (path_frontend p input)"
proof -
  let ?owner = "(rp_frontend_state p, rp_frontend_history p, rp_squelch p)"
  let ?req = "path_frontend_request p"
  let ?b = "rp_buffers p"
  note acc = frontend_accepts [OF assms(1,4)]
  have D: "fr_decimate ?req = 6" "1 \<le> fe_decimator (rp_frontend_state p)" "fe_decimator (rp_frontend_state p) \<le> 6"
    "fr_noise_squelch ?req \<longrightarrow> fr_noise_divisor ?req \<noteq> -1"
    using assms(1) by (simp_all add: path_ok_def setup_ok_def path_frontend_request_def Let_def)
  obtain owner' r where process: "frontend_process ?req ?owner input = Some (Inr (owner', r))"
    by (rule frontend_process_runs [of ?req ?owner input]) (use acc(1) assms(2,3) D(4) finite_left_channel in simp_all)
  obtain st hist sq where o': "owner' = (st, hist, sq)" by (metis prod.exhaust)
  obtain fs where run: "fallible_steps (frontend_step ?req) ?owner (List.map pcm_code (left_channel input)) = Some (owner', fs)"
    and r: "r = collect_frames fs"
    using process unfolding frontend_process_Inr by blast
  have dec: "decimator_run 6 (fe_decimator (rp_frontend_state p)) n = (fe_decimator st, length (fo_baseband r))"
    using frontend_frames_decimator [OF run] D(1) assms(3) r o' by simp
  have k: "length (fo_baseband r) \<le> ps_baseband_capacity (rp_setup p)"
    using decimator_run_count [of "fe_decimator (rp_frontend_state p)" 6 n] D dec acc(2) by (simp add: in_i16_def)
  have d': "1 \<le> fe_decimator st" "fe_decimator st \<le> 6"
  proof -
    have "(n + 6 - nat (fe_decimator (rp_frontend_state p))) mod 6 < 6" by simp
    moreover have "fe_decimator st = 6 - int ((n + 6 - nat (fe_decimator (rp_frontend_state p))) mod 6)"
      using decimator_run_exact [of "fe_decimator (rp_frontend_state p)" 6 n] D dec by simp
    ultimately show "1 \<le> fe_decimator st" "fe_decimator st \<le> 6" by linarith+
  qed
  have gates: "length (fo_carrier_gate r) \<le> ps_maximum_native_frames (rp_setup p)"
    using frontend_frames_gates [OF run] r assms(3,4) by simp
  note b = path_okD(2) [OF assms(1)]
  have ok: "buffers_ok (rp_setup p) (?b\<lparr>pb_baseband := write_span 0 (fo_baseband r) (pb_baseband ?b),
      pb_carrier_gate := write_span 0 (fo_carrier_gate r) (pb_carrier_gate ?b)\<rparr>)"
    using b k gates frontend_samples_finite [OF run] r by (simp add: buffers_ok_def length_write_span finite_write_span)
  have "length hist = length (rp_frontend_history p)" using frontend_steps_length [OF run] o' by simp
  then have "path_ok (p\<lparr>rp_frontend_state := st, rp_frontend_history := hist, rp_squelch := sq,
      rp_buffers := ?b\<lparr>pb_baseband := write_span 0 (fo_baseband r) (pb_baseband ?b),
        pb_carrier_gate := write_span 0 (fo_carrier_gate r) (pb_carrier_gate ?b)\<rparr>\<rparr>)"
    using assms(1) ok d' by (simp add: path_ok_def)
  then show ?thesis
    by (simp add: path_frontend_def process o' path_stage_def dec k)
qed

text \<open>A whole span.\<close>

definition accepted_span :: "('s, 'r, 'd) receive_path \<Rightarrow> f32 list \<Rightarrow> bool" where
  "accepted_span p native_input \<longleftrightarrow>
     even (length native_input) \<and> length native_input div 2 \<le> ps_maximum_native_frames (rp_setup p) \<and>
     list_all is_finite native_input"

definition frames_to_go :: "('s, 'r, 'd) receive_path \<Rightarrow> nat" where
  "frames_to_go p = nat (fe_decimator (rp_frontend_state p))"

lemma frames_to_go:
  assumes "path_ok p"
  shows "1 \<le> frames_to_go p" and "frames_to_go p \<le> 6" and "fe_decimator (rp_frontend_state p) = int (frames_to_go p)"
  using assms by (auto simp: path_ok_def frames_to_go_def)

definition span_done :: "('s, 'r, 'd) receive_path \<Rightarrow> nat \<Rightarrow> ('s, 'r, 'd) receive_path \<Rightarrow> nat \<Rightarrow> bool" where
  "span_done p n p' k \<longleftrightarrow> path_ok p' \<and> rp_setup p' = rp_setup p \<and>
     rp_emission_offsets p' = emission_frames 6 (frames_to_go p) n \<and>
     k = length (emission_frames 6 (frames_to_go p) n) \<and> gate_advanced p n p' \<and>
     rp_last_native_count p' = n"

lemma gate_advanced_result: "gate_advanced p n (p'\<lparr>rp_last_result := r\<rparr>) = gate_advanced p n p'"
  by (simp add: gate_advanced_def)

lemma apply_blanking_span:
  "\<exists>b input blanked. path_apply_blanking p native = (p\<lparr>rp_blanking := b\<rparr>, input, blanked) \<and>
    length input = length native \<and> (list_all is_finite native \<longrightarrow> list_all is_finite input)"
proof -
  obtain b input blanked where b: "apply_receive_blanking (rp_blanking p) native = (b, input, blanked)"
    by (metis prod.exhaust)
  then have "input = native \<or> (\<exists>k. input = mute_left k native)"
    by (auto simp: apply_receive_blanking_def Let_def split: if_splits prod.splits)
  then have "length input = length native \<and> (list_all is_finite native \<longrightarrow> list_all is_finite input)"
    by (auto simp: finite_mute_left)
  with b show ?thesis by (auto simp: path_apply_blanking_def)
qed

lemma call_spec_obtain:
  assumes "call_spec Q (\<lambda>_ _. False) m"
  obtains p a where "m = Some (p, Inr a)" and "Q p a"
proof (cases m)
  case None
  with assms show ?thesis by simp
next
  case (Some r)
  with assms that show ?thesis by (cases r; cases "snd r") auto
qed

lemma path_bind_Inr: "m = Some (p, Inr a) \<Longrightarrow> path_bind m f = f p a"
  by (simp add: path_bind_def)

text \<open>What a span does up to the DCS decoder, none of which can fail.\<close>

definition span_finish ::
  "nat \<Rightarrow> nat \<Rightarrow> nat \<Rightarrow> bool option \<Rightarrow> bool \<Rightarrow> bool \<Rightarrow> bool \<Rightarrow> ('s, 'r, 'd) receive_path \<Rightarrow>
     ('s, 'r, 'd) receive_path \<times> process_result" where
  "span_finish n k blanked carrier detect vox rssi p =
     (let (p, decoded) = path_ctcss p k (case carrier of None \<Rightarrow> detect | Some c \<Rightarrow> c)
      in path_publish p n k blanked detect vox decoded rssi)"

lemma path_span_detected:
  assumes "path_ok p" and "accepted_span p native"
  obtains w k vox blanked detect rssi input where
    "path_span p native carrier = path_bind (path_dcs w input)
      (\<lambda>p _. let (p, r) = span_finish (length native div 2) k blanked carrier detect vox rssi p in Some (p, Inr r))"
    and "path_ok w" and "rp_setup w = rp_setup p" and "rp_dcs_state w = rp_dcs_state p"
    and "rp_emission_offsets w = emission_frames 6 (frames_to_go p) (length native div 2)"
    and "rp_last_native_count w = length native div 2" and "k = length (rp_emission_offsets w)"
    and "gate_advanced p (length native div 2) w"
proof -
  let ?n = "length native div 2"
  obtain b input blanked where bl: "path_apply_blanking p native = (p\<lparr>rp_blanking := b\<rparr>, input, blanked)"
    "length input = length native" "list_all is_finite input"
    using apply_blanking_span [of p native] assms(2) by (auto simp: accepted_span_def)
  let ?p = "p\<lparr>rp_blanking := b\<rparr>"
  have n: "?n \<le> ps_maximum_native_frames (rp_setup ?p)" using assms(2) by (simp add: accepted_span_def)
  note go = frames_to_go [OF assms(1)]
  obtain q k u where fe: "path_frontend ?p input = Some (q, Inr (k, u))" and
    q: "path_ok q" "rp_setup q = rp_setup p" "k \<le> ps_baseband_capacity (rp_setup p)" "rp_dcs_state q = rp_dcs_state p"
      "rp_delay_gate_native_remainder q = rp_delay_gate_native_remainder p" "rp_delay_outzero q = rp_delay_outzero p"
      "(fe_decimator (rp_frontend_state q), k) = decimator_run 6 (fe_decimator (rp_frontend_state p)) ?n"
    by (rule call_spec_obtain [OF path_frontend_spec [OF path_ok_update(18) [OF assms(1), of b] bl(3) _ n]])
      (use bl(2) in auto)
  let ?os = "emission_frames 6 (frames_to_go p) ?n"
  let ?q = "q\<lparr>rp_last_native_count := ?n, rp_last_baseband_count := k, rp_emission_offsets := ?os\<rparr>"
  have D: "fct_decimate (ps_frontend_controls (rp_setup q)) = 6"
    using path_okD(1) [OF q(1)] by (simp add: setup_ok_def)
  have os: "emission_offsets_from 6 (fe_decimator (rp_frontend_state p)) 1 ?n = ?os"
    unfolding go(3) by (rule emission_offsets_frames) (use go in auto)
  have "length ?os = snd (decimator_run 6 (fe_decimator (rp_frontend_state p)) ?n)"
    unfolding os [symmetric] by (rule emission_offsets_length) (use go in auto)
  then have k: "k = length ?os" unfolding q(7) [symmetric] by simp
  have rec: "record_emission_offsets (q\<lparr>rp_last_native_count := ?n, rp_last_baseband_count := k\<rparr>)
      (fe_decimator (rp_frontend_state p)) ?n = ?q"
    by (simp add: record_emission_offsets_def D os [simplified])
  have ok: "path_ok ?q" "length (rp_emission_offsets ?q) = k" "k \<le> ps_baseband_capacity (rp_setup ?q)"
    "?n \<le> ps_maximum_native_frames (rp_setup ?q)"
    using path_ok_update(17) [OF path_ok_update(16) [OF path_ok_update(15) [OF q(1)]]] q(2,3) n k by simp_all
  obtain s vox where st: "path_stages ?q k ?n = Some (s, Inr vox)"
    and s: "keeps ?q s" "rp_dcs_state s = rp_dcs_state ?q" "gate_advanced ?q ?n s"
    using call_spec_obtain [OF stages_spec [OF ok]] by blast
  have sk: "path_ok s" "k \<le> ps_baseband_capacity (rp_setup s)" using s q(2,3) by (auto simp: keeps_def)
  obtain w detect where ca: "path_carrier s k ?n = Some (w, Inr detect)"
    and w: "same_gates s w" "rp_delay_outzero w = rp_delay_outzero s"
    using call_spec_obtain [OF path_carrier_spec [OF sk]] by blast
  have "rp_delay_gate_native_remainder w = rp_delay_gate_native_remainder s"
    "pb_carrier_gate (rp_buffers w) = pb_carrier_gate (rp_buffers s)"
    using w by (simp_all add: same_gates_def gate_view_def)
  then have gates: "gate_advanced p ?n w" using q(2,5,6) s(3) w(2) by (simp add: gate_advanced_def)
  have "path_span p native carrier = path_bind (path_dcs w input)
      (\<lambda>p _. let (p, r) = span_finish ?n k blanked carrier detect vox u p in Some (p, Inr r))"
    by (simp add: path_span_def bl(1) path_bind_Inr [OF fe] rec path_bind_Inr [OF st] path_bind_Inr [OF ca]
        span_finish_def case_prod_beta Let_def)
  moreover have "path_ok w" "rp_setup w = rp_setup p" "rp_dcs_state w = rp_dcs_state p"
    "rp_emission_offsets w = ?os" "rp_last_native_count w = ?n"
    using s w q(2,4) by (simp_all add: same_gates_def keeps_def gate_view_def)
  ultimately show ?thesis using k gates by (intro that) simp_all
qed

lemma path_span_spec:
  assumes "path_ok p" and "accepted_span p native"
  shows "call_spec (\<lambda>p' r. span_done p (length native div 2) p' (pr_baseband_frame_count r) \<and>
      pr_native_frame_count r = length native div 2 \<and> rp_last_result p' = r)
    (\<lambda>p' e. path_ok p' \<and> rp_setup p' = rp_setup p \<and> e = PROVIDER_FAILED \<and> dcs_may_fail (rp_dcs_state p))
    (path_span p native carrier)"
    (is "call_spec ?Q ?E _")
proof -
  let ?n = "length native div 2"
  obtain w k vox blanked detect rssi input where sp: "path_span p native carrier = path_bind (path_dcs w input)
      (\<lambda>p _. let (p, r) = span_finish ?n k blanked carrier detect vox rssi p in Some (p, Inr r))"
    and w: "path_ok w" "rp_setup w = rp_setup p" "rp_dcs_state w = rp_dcs_state p"
      "rp_emission_offsets w = emission_frames 6 (frames_to_go p) ?n" "rp_last_native_count w = ?n"
      "k = length (rp_emission_offsets w)" "gate_advanced p ?n w"
    using path_span_detected [OF assms] by metis
  show ?thesis
    unfolding sp
  proof (rule call_spec_bind [OF call_spec_mono [OF path_dcs_spec [OF w(1)]]])
    fix p' e
    assume "dcs_failure w p' e"
    then show "?E p' e" using w(2,3) by (simp add: dcs_failure_def keeps_def)
  next
    fix x and v :: unit
    assume x: "keeps w x \<and> gate_view x = gate_view w"
    let ?c = "path_ctcss x k (case carrier of None \<Rightarrow> detect | Some c \<Rightarrow> c)"
    have c: "same_gates x (fst ?c)" "rp_delay_outzero (fst ?c) = rp_delay_outzero x"
      using path_ctcss_keeps [of x] x by (simp_all add: keeps_def)
    have "rp_delay_gate_native_remainder (fst ?c) = rp_delay_gate_native_remainder w"
      "pb_carrier_gate (rp_buffers (fst ?c)) = pb_carrier_gate (rp_buffers w)"
      "rp_delay_outzero (fst ?c) = rp_delay_outzero w"
      using x c by (simp_all add: same_gates_def gate_view_def)
    with w(7) have "gate_advanced p ?n (fst ?c)" by (simp add: gate_advanced_def)
    moreover have "path_ok (fst ?c)" "rp_setup (fst ?c) = rp_setup p"
      "rp_emission_offsets (fst ?c) = emission_frames 6 (frames_to_go p) ?n" "rp_last_native_count (fst ?c) = ?n"
      using x c w(2,4,5) by (simp_all add: same_gates_def keeps_def)
    ultimately have "span_done p ?n ((fst ?c)\<lparr>rp_last_result := r\<rparr>) k" for r
      using path_ok_update(14) w(4,6) by (simp add: span_done_def gate_advanced_result)
    then show "call_spec ?Q ?E (let (p, r) = span_finish ?n k blanked carrier detect vox rssi x in Some (p, Inr r))"
      by (simp add: span_finish_def case_prod_beta path_publish_def Let_def)
  qed
qed

text \<open>An enabled DCS provider that reports an error on whatever it is given fails the span.\<close>

definition dcs_fails :: "'d dcs_receive \<Rightarrow> bool" where
  "dcs_fails c \<longleftrightarrow> dcs_enabled c \<and> (\<forall>input. snd (snd (dr_process c (dr_handle c) input)) \<noteq> 0)"

lemma path_span_dcs_fails:
  assumes "path_ok p" and "accepted_span p native" and "dcs_fails (rp_dcs_state p)"
  shows "\<exists>p'. path_span p native carrier = Some (p', Inl PROVIDER_FAILED)"
proof -
  obtain w k vox blanked detect rssi input where sp: "path_span p native carrier = path_bind (path_dcs w input)
      (\<lambda>p _. let (p, r) = span_finish (length native div 2) k blanked carrier detect vox rssi p in Some (p, Inr r))"
    and w: "rp_dcs_state w = rp_dcs_state p"
    using path_span_detected [OF assms(1,2)] by metis
  have "\<exists>p'. path_dcs w input = Some (p', Inl PROVIDER_FAILED)"
    using assms(3) by (auto simp: path_dcs_def w dcs_fails_def dcs_receive_process_def Let_def split: prod.splits)
      (metis snd_conv)+
  then show ?thesis by (auto simp: sp path_bind_def)
qed

section \<open>Construction\<close>

lemma ctcss_receive_no_panic: "ctcss_receive_from_descriptor c \<noteq> None"
  by (cases c rule: ctcss_descriptor_cases) (auto simp: ctcss_receive_from_descriptor_def created_cases)

lemma dcs_receive_no_panic: "dcs_receive_from_descriptor d \<noteq> None"
  by (cases d rule: dcs_descriptor_cases) (auto simp: dcs_receive_from_descriptor_def created_cases)

lemma bind_setup_no_panic: "(\<And>a. f a \<noteq> None) \<Longrightarrow> bind_setup r f \<noteq> None"
  by (cases r) simp_all

lemma bind_fallible_no_panic: "m \<noteq> None \<Longrightarrow> (\<And>a. f a \<noteq> None) \<Longrightarrow> bind_fallible m f \<noteq> None"
  unfolding bind_fallible_def using bind_setup_no_panic [of f] by (cases m) (simp_all del: not_None_eq)

lemma bind_setup_Inr: "bind_setup r f = Some (Inr b) \<longleftrightarrow> (\<exists>a. r = Inr a \<and> f a = Some (Inr b))"
  by (cases r) auto

lemma bind_fallible_Inr: "bind_fallible m f = Some (Inr b) \<longleftrightarrow> (\<exists>a. m = Some (Inr a) \<and> f a = Some (Inr b))"
  by (auto simp: bind_fallible_def bind_setup_Inr split: option.splits)

lemma receive_path_new_built:
  assumes "receive_path_new config sq ct dc = Some (Inr p)"
  obtains hang squelch ctcss dcs where "\<not> path_config_rejected config"
    and "p = receive_path_of config hang squelch ctcss dcs"
  using assms by (auto simp: receive_path_new_def bind_setup_Inr bind_fallible_Inr Let_def split: if_splits)

lemma receive_path_new_no_panic: "receive_path_new config sq ct dc \<noteq> None"
proof (cases "path_config_rejected config")
  case True
  then show ?thesis by (simp add: receive_path_new_def)
next
  case False
  show ?thesis
    unfolding receive_path_new_def Let_def if_not_P [OF False]
    by (intro bind_setup_no_panic bind_fallible_no_panic ctcss_receive_no_panic dcs_receive_no_panic) simp
qed

lemma accepted_decimation:
  assumes "\<not> path_config_rejected config"
  shows "fec_decimate (pc_frontend config) = 6"
proof -
  let ?d = "fec_decimate (pc_frontend config)"
  have "48000 mod ?d = 0" "48000 div ?d = 8000"
    using assms by (auto simp: path_config_rejected_def NATIVE_SAMPLE_RATE_HZ_def BASE_SAMPLE_RATE_HZ_def Let_def)
  then have "?d * 8000 = (48000 :: nat)" by (metis add_0_right mult_div_mod_eq)
  then show ?thesis by simp
qed

lemma setup_ok_of_config:
  assumes "\<not> path_config_rejected config" and "pc_maximum_native_frames config + 960 \<le> u32_max"
    and "fec_noise_divisor (pc_frontend config) \<noteq> -1"
  shows "setup_ok (path_setup_of config hang)"
proof -
  have "0 < pc_maximum_native_frames config" "fec_baseband_calc_adjust (pc_frontend config) \<noteq> 0"
    "0 < fec_calibration_window (pc_frontend config)" "fec_baseband_coefficients (pc_frontend config) \<noteq> []"
    "valid_filter (pc_lsd_filter config)" "\<And>f. pc_hpf_filter config = Some f \<Longrightarrow> valid_filter f"
    "fec_noise_squelch (pc_frontend config) \<Longrightarrow> fec_noise_coefficients (pc_frontend config) \<noteq> [] \<and>
      length (fec_noise_coefficients (pc_frontend config)) \<le> length (fec_baseband_coefficients (pc_frontend config)) \<and>
      fec_noise_divisor (pc_frontend config) \<noteq> 0"
    using assms(1) by (auto simp: path_config_rejected_def Let_def not_less)
  then show ?thesis
    using accepted_decimation [OF assms(1)] assms(2,3)
    by (auto simp: setup_ok_def path_setup_of_def valid_filter_def filter_controls_of_def Let_def)
qed

lemma path_ok_of_config:
  assumes "\<not> path_config_rejected config" and "pc_maximum_native_frames config + 960 \<le> u32_max"
    and "fec_noise_divisor (pc_frontend config) \<noteq> -1" and "ctcss_configured ctcss" and "pc_ctcss config = None \<longrightarrow> \<not> ctcss_enabled ctcss"
  shows "path_ok (receive_path_of config hang squelch ctcss dcs)"
proof -
  let ?s = "path_setup_of config hang"
  have "buffers_ok ?s (path_buffers_new (ps_baseband_capacity ?s) (ps_maximum_native_frames ?s))"
    by (auto simp: buffers_ok_def path_buffers_new_def fp_zero_def list_all_iff Let_def)
  moreover have "pc_center_slicer config = None \<Longrightarrow> pc_ctcss config = None"
    "\<And>d. pc_delay config = Some d \<Longrightarrow> 0 < dlc_storage_capacity d \<and> dlc_lead d \<le> dlc_storage_capacity d"
    using assms(1) by (auto simp: path_config_rejected_def Let_def)
  ultimately show ?thesis
    using setup_ok_of_config [OF assms(1-3), of hang] accepted_decimation [OF assms(1)] assms(4,5)
    by (auto simp: path_ok_def receive_path_of_def path_setup_of_def frontend_default_def wrap_i16_id in_i16_def
        gate_interval Let_def)
qed

section \<open>The properties\<close>

text \<open>A small receive path: a three-tap frontend and CTCSS filter, a voice filter with the squelch
  delay, and decoders that stay off.\<close>

definition ctcss_off :: "unit ctcss_receive" where
  "ctcss_off = \<lparr>cr_handle = (), cr_configure = (\<lambda>h mask relax. h), cr_enabled = (\<lambda>h. 0), cr_decoded = (\<lambda>h. -1),
     cr_tail_tone_active = (\<lambda>h. 0), cr_clear_tail_on_carrier_loss = (\<lambda>h carrier. h),
     cr_process = (\<lambda>h samples carrier. (h, -1))\<rparr>"

definition dcs_off :: "unit dcs_receive" where
  "dcs_off = \<lparr>dr_handle = (), dr_configure = (\<lambda>h code inverted. (h, 0)), dr_valid = (\<lambda>h. 0),
     dr_enabled = (\<lambda>h. 0), dr_process = (\<lambda>h samples. (h, 0, 0))\<rparr>"

definition path_config_sample :: path_config where
  "path_config_sample = \<lparr>pc_native_sample_rate_hz = 48000, pc_maximum_native_frames = 2000,
     pc_frontend = \<lparr>fec_baseband_coefficients = [100, 200, 100], fec_baseband_calc_adjust = 256,
       fec_baseband_output_gain = 256, fec_noise_coefficients = [5, -5], fec_noise_divisor = 16, fec_decimate = 6,
       fec_calibration_window = 4, fec_open_level = 1000, fec_hysteresis = 10, fec_noise_squelch = True\<rparr>,
     pc_lsd_filter = \<lparr>flt_coefficients = [1, 2, 1], flt_input_gain = 256, flt_output_gain = 256, flt_calc_adjust = 4\<rparr>,
     pc_hpf_filter = Some \<lparr>flt_coefficients = [1, -1], flt_input_gain = 256, flt_output_gain = 256, flt_calc_adjust = 2\<rparr>,
     pc_center_slicer = None, pc_deemphasis = None, pc_delay = Some \<lparr>dlc_storage_capacity = 8, dlc_lead = 4\<rparr>,
     pc_vox = None, pc_measurement = None, pc_ctcss = None, pc_dcs = None\<rparr>"

definition path_sample :: "(unit, unit, unit) receive_path" where
  "path_sample = receive_path_of path_config_sample 0 squelch_sample ctcss_off dcs_off"

lemma path_config_sample_accepted:
  "\<not> path_config_rejected path_config_sample" "pc_maximum_native_frames path_config_sample = 2000"
  by (simp_all add: path_config_rejected_def path_config_sample_def valid_filter_def NATIVE_SAMPLE_RATE_HZ_def
      BASE_SAMPLE_RATE_HZ_def Let_def)

lemma path_ok_sample: "path_ok path_sample"
proof -
  have "fec_noise_divisor (pc_frontend path_config_sample) \<noteq> -1" by (simp add: path_config_sample_def)
  then show ?thesis
    unfolding path_sample_def
    by (intro path_ok_of_config path_config_sample_accepted(1))
      (simp_all add: path_config_sample_accepted(2) u32_max_def ctcss_configured_def ctcss_off_def ctcss_enabled_def)
qed

lemma path_sample_simps:
  "ps_maximum_native_frames (rp_setup path_sample) = 2000"
  "ps_delay_config (rp_setup path_sample) = Some \<lparr>dlc_storage_capacity = 8, dlc_lead = 4\<rparr>"
  "ps_vox_config (rp_setup path_sample) = None" "rp_delay_gate_native_remainder path_sample = 0"
  "\<not> dcs_enabled (rp_dcs_state path_sample)" "frames_to_go path_sample = 6"
  by (simp_all add: path_sample_def receive_path_of_def path_setup_of_def path_config_sample_def dcs_off_def
      dcs_enabled_def frames_to_go_def wrap_i16_id in_i16_def Let_def)

lemma sample_span:
  "accepted_span path_sample (replicate (2 * n) (Finite False 0)) \<longleftrightarrow> n \<le> 2000"
  by (simp add: accepted_span_def path_sample_simps list_all_iff)

lemma sample_call:
  assumes "0 < n" and "n \<le> 2000"
  shows "\<exists>p' res. process_with_carrier path_sample (replicate (2 * n) (Finite False 0)) None = Some (p', Inr res)"
proof -
  have acc: "accepted_span path_sample (replicate (2 * n) (Finite False 0))" using assms(2) by (simp add: sample_span)
  then have "process_with_carrier path_sample (replicate (2 * n) (Finite False 0)) None =
      path_span path_sample (replicate (2 * n) (Finite False 0)) None"
    using assms(1) by (auto simp: process_with_carrier_def accepted_span_def)
  moreover obtain p' r where "path_span path_sample (replicate (2 * n) (Finite False 0)) None = Some (p', r)"
    and "r = Inl e \<Longrightarrow> dcs_may_fail (rp_dcs_state path_sample)" for e
    using path_span_spec [OF path_ok_sample acc, of None]
    by (auto simp: call_spec_def split: option.splits sum.splits)
  ultimately show ?thesis by (cases r) (auto simp: path_sample_simps dcs_may_fail_def)
qed

text \<open>Construction gives a path in its invariant, or an error, and does not panic.  A rejected
  configuration is INVALID_ARGUMENT; from an accepted one with room for the gate counter and a noise
  divisor other than -1 (\<open>noise_divisor_minus_one_panics\<close>), a path that
  is built satisfies the invariant, whenever the CTCSS decoder it was given is enabled by its
  configuration alone.\<close>

theorem receive_path_new_ok:
  assumes "pc_maximum_native_frames config + 960 \<le> u32_max" and "fec_noise_divisor (pc_frontend config) \<noteq> -1"
  shows "\<exists>r. receive_path_new config sq ct dc = Some r \<and>
    (path_config_rejected config \<longrightarrow> r = Inl INVALID_ARGUMENT) \<and>
    (\<forall>p. r = Inr p \<and> ctcss_configured (rp_ctcss_state p) \<and>
        (pc_ctcss config = None \<longrightarrow> \<not> ctcss_enabled (rp_ctcss_state p)) \<longrightarrow> path_ok p)"
proof -
  obtain r where r: "receive_path_new config sq ct dc = Some r"
    using receive_path_new_no_panic [of config sq ct dc] by blast
  have "path_ok p" if "r = Inr p" "ctcss_configured (rp_ctcss_state p)"
    "pc_ctcss config = None \<longrightarrow> \<not> ctcss_enabled (rp_ctcss_state p)" for p
  proof -
    obtain hang squelch ctcss dcs where p: "\<not> path_config_rejected config"
      "p = receive_path_of config hang squelch ctcss dcs"
      using receive_path_new_built r \<open>r = Inr p\<close> by metis
    moreover have "rp_ctcss_state p = ctcss" by (simp add: p(2) receive_path_of_def Let_def)
    ultimately show ?thesis using path_ok_of_config [OF p(1) assms] that(2,3) by simp
  qed
  moreover have "path_config_rejected config \<Longrightarrow> r = Inl INVALID_ARGUMENT"
    using r by (simp add: receive_path_new_def)
  ultimately show ?thesis using r by blast
qed

theorem receive_path_new_ok_witness:
  "\<exists>r. receive_path_new (path_config_sample\<lparr>pc_maximum_native_frames := 0\<rparr>)
      (None :: unit squelch_descriptor option) (None :: (unit, unit) ctcss_descriptor option)
      (None :: (unit, unit) dcs_descriptor option) = Some r \<and> r = Inl INVALID_ARGUMENT"
proof -
  have "path_config_rejected (path_config_sample\<lparr>pc_maximum_native_frames := 0\<rparr>)"
    by (simp add: path_config_rejected_def Let_def)
  then show ?thesis
    using receive_path_new_ok [of "path_config_sample\<lparr>pc_maximum_native_frames := 0\<rparr>"
      "None :: unit squelch_descriptor option" "None :: (unit, unit) ctcss_descriptor option"
      "None :: (unit, unit) dcs_descriptor option"] by (auto simp: u32_max_def path_config_sample_def)
qed

text \<open>C33: every call on a receive path in its invariant returns and keeps the invariant.  The invariant asks
  that the noise divisor is not -1, which construction accepts too: then the frontend panics on an
  accumulator of \<open>i32::MIN\<close> (\<open>frontend_panics_exactly\<close>); the divisors of a session are positive.  A span that is not whole
  stereo frames, is longer than the prepared maximum or holds a non-finite sample is INVALID_ARGUMENT
  and changes nothing; on any other span no stage can fail, the loop over the delay gate ends, and the
  only error left is that of an enabled DCS provider.\<close>

theorem receive_path_total:
  assumes "path_ok p"
  shows "\<exists>p' r. process_with_carrier p native carrier = Some (p', r) \<and> path_ok p' \<and> rp_setup p' = rp_setup p \<and>
    (if accepted_span p native
     then (case r of Inl e \<Rightarrow> e = PROVIDER_FAILED \<and> dcs_may_fail (rp_dcs_state p)
       | Inr res \<Rightarrow> rp_last_result p' = res \<and> pr_native_frame_count res = length native div 2)
     else r = Inl INVALID_ARGUMENT \<and> p' = p)"
proof (cases "accepted_span p native")
  case False
  then show ?thesis using assms by (auto simp: process_with_carrier_def accepted_span_def)
next
  case True
  note acc = True
  show ?thesis
  proof (cases "length native div 2 = 0")
    case True
    then show ?thesis
      using acc assms path_ok_update(14) [OF path_ok_update(15) [OF path_ok_update(16) [OF assms]]]
      by (auto simp: process_with_carrier_def accepted_span_def path_idle_def process_result_default_def Let_def)
  next
    case False
    then have "process_with_carrier p native carrier = path_span p native carrier"
      using acc by (auto simp: process_with_carrier_def accepted_span_def)
    with path_span_spec [OF assms acc, of carrier] acc show ?thesis
      by (auto simp: call_spec_def span_done_def split: option.splits sum.splits)
  qed
qed

theorem receive_path_total_witness:
  "\<exists>p' res. process_with_carrier path_sample (replicate 3000 (Finite False 0)) None = Some (p', Inr res) \<and>
    path_ok p' \<and> pr_native_frame_count res = 1500"
proof -
  have "accepted_span path_sample (replicate 3000 (Finite False 0))" using sample_span [of 1500] by simp
  moreover obtain p' r where
    "process_with_carrier path_sample (replicate 3000 (Finite False 0)) None = Some (p', r) \<and> path_ok p' \<and>
    rp_setup p' = rp_setup path_sample \<and> (if accepted_span path_sample (replicate 3000 (Finite False 0))
     then (case r of Inl e \<Rightarrow> e = PROVIDER_FAILED \<and> dcs_may_fail (rp_dcs_state path_sample)
       | Inr res \<Rightarrow> rp_last_result p' = res \<and> pr_native_frame_count res = length (replicate 3000 (Finite False 0 :: f32)) div 2)
     else r = Inl INVALID_ARGUMENT \<and> p' = path_sample)"
    using receive_path_total [OF path_ok_sample, of "replicate 3000 (Finite False 0)" None] by blast
  ultimately show ?thesis by (cases r) (simp_all add: path_sample_simps dcs_may_fail_def)
qed

text \<open>The baseband samples of a span come from known native frames.  With \<open>d\<close> frames to go, a span
  of \<open>n\<close> frames emits exactly at the frames \<open>d\<close>, \<open>d + 6\<close>, \<open>d + 12\<close> and so on, these are the recorded
  offsets, and their number is the published sample count and \<open>(n + 6 - d) div 6\<close>.\<close>

theorem emission_offsets_exact:
  assumes "path_ok p" and "accepted_span p native" and "native \<noteq> []"
    and "process_with_carrier p native carrier = Some (p', Inr res)"
  shows "1 \<le> frames_to_go p \<and> frames_to_go p \<le> 6 \<and>
    rp_emission_offsets p' = [k \<leftarrow> [1..<length native div 2 + 1]. frames_to_go p \<le> k \<and> (k - frames_to_go p) mod 6 = 0] \<and>
    pr_baseband_frame_count res = length (rp_emission_offsets p') \<and>
    pr_baseband_frame_count res = (length native div 2 + 6 - frames_to_go p) div 6"
proof -
  let ?n = "length native div 2"
  have "?n \<noteq> 0" using assms(2,3) by (cases native) (auto simp: accepted_span_def)
  then have "process_with_carrier p native carrier = path_span p native carrier"
    using assms(2) by (auto simp: process_with_carrier_def accepted_span_def)
  with path_span_spec [OF assms(1,2), of carrier] assms(4)
  have "span_done p ?n p' (pr_baseband_frame_count res)" by simp
  moreover note go = frames_to_go [OF assms(1)]
  moreover have "length (emission_frames 6 (frames_to_go p) ?n) = (?n + 6 - frames_to_go p) div 6"
    using emission_offsets_length [of "int (frames_to_go p)" 6 1 ?n] emission_offsets_frames [of "frames_to_go p" 6 ?n]
      decimator_run_exact [of "int (frames_to_go p)" 6 ?n] go(1,2) by simp
  ultimately show ?thesis by (simp add: span_done_def emission_frames_def del: upt_Suc)
qed

theorem emission_offsets_exact_witness:
  "\<exists>p' res. process_with_carrier path_sample (replicate 26 (Finite False 0)) None = Some (p', Inr res) \<and>
    pr_baseband_frame_count res = 2 \<and> rp_emission_offsets p' = [6, 12]"
proof -
  obtain p' res where r: "process_with_carrier path_sample (replicate 26 (Finite False 0)) None = Some (p', Inr res)"
    using sample_call [of 13] by auto
  have "accepted_span path_sample (replicate 26 (Finite False 0))" using sample_span [of 13] by simp
  moreover have "[k \<leftarrow> [Suc 0..<14]. 6 \<le> k \<and> (k - 6) mod 6 = 0] = [6, 12 :: nat]" by (simp add: upt_rec)
  ultimately have "pr_baseband_frame_count res = 2 \<and> rp_emission_offsets p' = [6, 12]"
    using emission_offsets_exact [OF path_ok_sample _ _ r] by (simp add: path_sample_simps)
  with r show ?thesis by blast
qed

text \<open>A stream of spans, with the carrier gates each call publishes.\<close>

fun path_stream ::
  "('s, 'r, 'd) receive_path \<Rightarrow> f32 list list \<Rightarrow> (('s, 'r, 'd) receive_path \<times> nat list) option" where
  "path_stream p [] = Some (p, [])"
| "path_stream p (b # bs) =
     (case process_with_carrier p b None of
        Some (p', Inr _) \<Rightarrow>
          (case path_stream p' bs of None \<Rightarrow> None | Some (q, gates) \<Rightarrow> Some (q, carrier_gates p' @ gates))
      | _ \<Rightarrow> None)"

lemma gate_after_append: "gate_after g z (xs @ ys) = gate_after g (gate_after g z xs) ys"
  by (induction xs arbitrary: z) auto

lemma gate_after_first:
  assumes "\<forall>b \<in> set bs. 1 \<le> b \<and> b \<le> length g"
  shows "gate_after (g @ h) z bs = gate_after g z bs"
  using assms by (induction bs arbitrary: z) (auto simp: nth_append)

lemma gate_after_second:
  assumes "\<forall>b \<in> set bs. 1 \<le> b"
  shows "gate_after (g @ h) z (List.map ((+) (length g)) bs) = gate_after h z bs"
  using assms by (induction bs arbitrary: z) (auto simp: nth_append)

lemma gate_after_stream:
  assumes "r < 960"
  shows "gate_after (g @ h) z (gate_frames r (length g + length h)) =
    gate_after h (gate_after g z (gate_frames r (length g))) (gate_frames ((r + length g) mod 960) (length h))"
proof -
  have "\<forall>b \<in> set (gate_frames r n). 1 \<le> b \<and> b \<le> n" for r n by (auto simp: gate_frames_def)
  then show ?thesis
    by (simp add: gate_frames_append [OF assms] gate_after_append gate_after_first gate_after_second)
qed

lemma call_gates:
  assumes "path_ok p" and "accepted_span p b" and "ps_delay_config (rp_setup p) \<noteq> None"
    and "ps_vox_config (rp_setup p) = None" and "process_with_carrier p b None = Some (p', Inr res)"
  shows "path_ok p' \<and> rp_setup p' = rp_setup p \<and> length (carrier_gates p') = length b div 2 \<and>
    rp_delay_gate_native_remainder p' = (rp_delay_gate_native_remainder p + length b div 2) mod 960 \<and>
    rp_delay_outzero p' = gate_after (carrier_gates p') (rp_delay_outzero p)
      (gate_frames (rp_delay_gate_native_remainder p) (length b div 2))"
proof (cases "length b div 2 = 0")
  case True
  then have "process_with_carrier p b None = (let (p, r) = path_idle p in Some (p, Inr r))"
    using assms(2) by (auto simp: process_with_carrier_def accepted_span_def)
  with assms(5) have p': "p' = p\<lparr>rp_last_baseband_count := 0, rp_last_native_count := 0, rp_last_result := res\<rparr>"
    by (auto simp: path_idle_def Let_def)
  have "path_ok p'"
    unfolding p' using path_ok_update(14) [OF path_ok_update(15) [OF path_ok_update(16) [OF assms(1)]]] by simp
  moreover have "rp_delay_gate_native_remainder p < 960" using assms(1) by (simp add: path_ok_def gate_interval)
  ultimately show ?thesis using True by (simp add: p' carrier_gates_def gate_frames_def)
next
  case False
  then have "process_with_carrier p b None = path_span p b None"
    using assms(2) by (auto simp: process_with_carrier_def accepted_span_def)
  with path_span_spec [OF assms(1,2), of None] assms(5)
  have s: "span_done p (length b div 2) p' (pr_baseband_frame_count res)" by simp
  let ?r = "rp_delay_gate_native_remainder p"
  let ?n = "length b div 2"
  have "length (pb_carrier_gate (rp_buffers p')) = ps_maximum_native_frames (rp_setup p)"
    using s path_okD(2) [of p'] by (simp add: span_done_def buffers_ok_def)
  then have len: "length (carrier_gates p') = ?n"
    using s assms(2) by (simp add: carrier_gates_def span_done_def accepted_span_def)
  have buffer: "pb_carrier_gate (rp_buffers p') = carrier_gates p' @ drop ?n (pb_carrier_gate (rp_buffers p'))"
    using s by (simp add: carrier_gates_def span_done_def)
  have "gate_after (pb_carrier_gate (rp_buffers p')) z (gate_frames ?r ?n) =
      gate_after (carrier_gates p') z (gate_frames ?r ?n)" for z
    by (subst buffer, rule gate_after_first) (auto simp: gate_frames_def len)
  then show ?thesis
    using s assms(3,4) len by (simp add: span_done_def gate_advanced_def)
qed

text \<open>C34: the squelch delay samples the carrier at fixed places of the stream.  Over any number of
  accepted spans, without VOX, the line is silenced exactly by the carrier gate at the last native
  frame whose position is a multiple of 960, and the phase carried to the next span is the position
  modulo 960; both depend on the stream and not on how it was cut into callbacks, and every 960
  frames the gate is looked at again.\<close>

theorem delay_gate_stream:
  assumes "path_ok p" and "ps_delay_config (rp_setup p) \<noteq> None" and "ps_vox_config (rp_setup p) = None"
    and "\<forall>b \<in> set bs. accepted_span p b" and "path_stream p bs = Some (p', gates)"
  shows "length gates = length (concat bs) div 2 \<and>
    rp_delay_gate_native_remainder p' = (rp_delay_gate_native_remainder p + length gates) mod 960 \<and>
    (let frames = [k \<leftarrow> [1..<length gates + 1]. (rp_delay_gate_native_remainder p + k) mod 960 = 0]
     in rp_delay_outzero p' = (if frames = [] then rp_delay_outzero p else gates ! (last frames - 1) = 0))"
proof -
  have r: "rp_delay_gate_native_remainder p < 960" using assms(1) by (simp add: path_ok_def gate_interval)
  have "length gates = length (concat bs) div 2 \<and>
    rp_delay_gate_native_remainder p' = (rp_delay_gate_native_remainder p + length gates) mod 960 \<and>
    rp_delay_outzero p' = gate_after gates (rp_delay_outzero p) (gate_frames (rp_delay_gate_native_remainder p) (length gates))"
    using assms r
  proof (induction bs arbitrary: p gates)
    case Nil
    then show ?case by (simp add: gate_frames_def)
  next
    case (Cons b bs)
    from Cons.prems(5) obtain q res h where q: "process_with_carrier p b None = Some (q, Inr res)"
      "path_stream q bs = Some (p', h)" "gates = carrier_gates q @ h"
      by (auto split: option.splits prod.splits sum.splits)
    have g: "path_ok q" "rp_setup q = rp_setup p" "length (carrier_gates q) = length b div 2"
      "rp_delay_gate_native_remainder q = (rp_delay_gate_native_remainder p + length b div 2) mod 960"
      "rp_delay_outzero q = gate_after (carrier_gates q) (rp_delay_outzero p)
        (gate_frames (rp_delay_gate_native_remainder p) (length b div 2))"
      using call_gates [OF Cons.prems(1) _ Cons.prems(2,3) q(1)] Cons.prems(4) by auto
    have "length h = length (concat bs) div 2 \<and>
      rp_delay_gate_native_remainder p' = (rp_delay_gate_native_remainder q + length h) mod 960 \<and>
      rp_delay_outzero p' = gate_after h (rp_delay_outzero q) (gate_frames (rp_delay_gate_native_remainder q) (length h))"
      by (rule Cons.IH [OF g(1) _ _ _ q(2)]) (use Cons.prems(2-4) g(2,4) in \<open>auto simp: accepted_span_def\<close>)
    moreover have "length b div 2 + length (concat bs) div 2 = length (concat (b # bs)) div 2"
      using Cons.prems(4) by (auto simp: accepted_span_def)
    ultimately show ?case
      using gate_after_stream [OF Cons.prems(6), of "carrier_gates q" h] g(3-5)
      by (simp add: q(3) add.assoc mod_add_left_eq)
  qed
  then show ?thesis by (simp add: gate_frames_def gate_after_last Let_def del: upt_Suc)
qed

theorem delay_gate_stream_witness:
  "\<exists>p' gates. path_stream path_sample [replicate 3000 (Finite False 0)] = Some (p', gates) \<and>
    length gates = 1500 \<and> rp_delay_gate_native_remainder p' = 540 \<and>
    rp_delay_outzero p' = (gates ! (last [k \<leftarrow> [1..<1501]. k mod 960 = 0] - 1) = 0)"
proof -
  obtain q res where "process_with_carrier path_sample (replicate 3000 (Finite False 0)) None = Some (q, Inr res)"
    using sample_call [of 1500] by auto
  then obtain gates where s: "path_stream path_sample [replicate 3000 (Finite False 0)] = Some (q, gates)" by simp
  have "accepted_span path_sample (replicate 3000 (Finite False 0))" using sample_span [of 1500] by simp
  moreover have "[k \<leftarrow> [1..<1501]. k mod 960 = 0] \<noteq> [] " by (auto simp: filter_empty_conv intro!: bexI [of _ 960])
  ultimately show ?thesis
    using delay_gate_stream [OF path_ok_sample _ _ _ s] s by (simp add: path_sample_simps Let_def del: upt_Suc)
qed

text \<open>A segment of a muted and already clean delay writes nothing: the span of the delayed audio
  keeps the samples an earlier call left there.\<close>

lemma write_read_span: "s + n \<le> length b \<Longrightarrow> write_span s (read_span s n b) b = b"
  by (simp add: write_span_def read_span_def min_def flip: append_assoc take_add)

lemma muted_segment_keeps_output:
  assumes "path_ok p" and "ps_delay_config (rp_setup p) = Some d" and "finish \<le> ps_baseband_capacity (rp_setup p)"
    and "rp_delay_outzero p" and "dl_dirty (rp_delay_state p) = 0"
  shows "process_delay_segment p d start finish = Some (p, Inr ())"
proof (cases "finish - start = 0")
  case True
  then show ?thesis by (simp add: process_delay_segment_def)
next
  case False
  let ?b = "rp_buffers p"
  have "length (pb_delayed ?b) = ps_baseband_capacity (rp_setup p)"
    using path_okD(2) [OF assms(1)] by (simp add: buffers_ok_def)
  then have w: "write_span start (read_span start (finish - start) (pb_delayed ?b)) (pb_delayed ?b) = pb_delayed ?b"
    using False assms(3) by (intro write_read_span) simp
  have "delay_process \<lparr>dlr_lead = dlc_lead d, dlr_enabled = True, dlr_outzero = rp_delay_outzero p\<rparr>
      (rp_delay_state p, rp_delay_storage p) ys xs = Inr ((rp_delay_state p, rp_delay_storage p), ys)" for xs ys
    using assms by (auto simp: delay_process_def path_ok_def Let_def)
  then show ?thesis
    using False w by (simp add: process_delay_segment_def path_stage_def Let_def)
qed

end
