(* ===== verification/Samplerate_Client.thy ===== *)
theory Samplerate_Client
  imports Provider_Clients
begin

text \<open>
  The client of the sample-rate converter (\<open>src/samplerate_client.rs\<close>), which feeds the speech
  detector with 16 kHz audio.  The converter library is a parameter, as in Provider_Clients; \<open>src_\<close>
  are the fields of \<open>Client\<close> and \<open>stp_\<close> those of \<open>Step\<close>.  The output sample is passed to the
  converter and back, because the call may leave it unwritten.
\<close>

definition SAMPLERATE_ABI_VERSION :: nat where "SAMPLERATE_ABI_VERSION = 2"
definition SAMPLERATE_CAPABILITY_NAME :: string where "SAMPLERATE_CAPABILITY_NAME = ''rptadv.samplerate''"
definition SAMPLERATE_DESCRIPTOR_SIZE :: nat where "SAMPLERATE_DESCRIPTOR_SIZE = 72"

definition POSITION_BILLIONTHS :: int where "POSITION_BILLIONTHS = 1000000000"

record 'h samplerate_descriptor =
  rd_prefix :: descriptor_prefix
  rd_create :: "(nat \<Rightarrow> nat \<Rightarrow> nat \<Rightarrow> nat \<Rightarrow> int \<times> 'h option) option"
  rd_reset :: "('h \<Rightarrow> 'h \<times> int) option"
  rd_process :: "('h \<Rightarrow> f32 list \<Rightarrow> f32 \<Rightarrow> nat \<Rightarrow> f64 \<Rightarrow> 'h \<times> f32 \<times> nat \<times> nat \<times> int) option"
  rd_destroy :: "('h \<Rightarrow> unit) option"
  rd_input_delay :: "('h \<Rightarrow> 'h \<times> int \<times> int) option"

record 'h src_client =
  src_handle :: 'h
  src_maximum_frames :: nat
  src_accepted :: nat
  src_reset :: "'h \<Rightarrow> 'h \<times> int"
  src_process :: "'h \<Rightarrow> f32 list \<Rightarrow> f32 \<Rightarrow> nat \<Rightarrow> f64 \<Rightarrow> 'h \<times> f32 \<times> nat \<times> nat \<times> int"
  src_input_delay :: "'h \<Rightarrow> 'h \<times> int \<times> int"

record src_step =
  stp_consumed :: nat
  stp_sample :: "f32 option"
  stp_native_position_billionths :: int

definition src_from_descriptor :: "'h samplerate_descriptor option \<Rightarrow> nat \<Rightarrow> 'h src_client result" where
  "src_from_descriptor pointer maximum_frames =
     (if \<not> (1 \<le> maximum_frames \<and> maximum_frames \<le> 4096) then Inl INVALID_ARGUMENT
      else case pointer of None \<Rightarrow> Inl UNSUPPORTED
      | Some d \<Rightarrow>
        if \<not> prefix_supported SAMPLERATE_ABI_VERSION SAMPLERATE_DESCRIPTOR_SIZE SAMPLERATE_CAPABILITY_NAME (rd_prefix d)
        then Inl UNSUPPORTED
        else
          (case (rd_create d, rd_reset d, rd_process d, rd_destroy d, rd_input_delay d) of
             (Some create, Some reset, Some process, Some destroy, Some input_delay) \<Rightarrow>
               bind_result (created (create 48000 16000 maximum_frames 1)) (\<lambda>handle.
               Inr \<lparr>src_handle = handle, src_maximum_frames = maximum_frames, src_accepted = 0,
                    src_reset = reset, src_process = process, src_input_delay = input_delay\<rparr>)
           | _ \<Rightarrow> Inl UNSUPPORTED))"

definition src_client_reset :: "'h src_client \<Rightarrow> 'h src_client \<times> unit result" where
  "src_client_reset c =
     (let (h, status) = src_reset c (src_handle c); c = c\<lparr>src_handle := h\<rparr>
      in if status \<noteq> 0 then (c, Inl PROVIDER_FAILED) else (c\<lparr>src_accepted := 0\<rparr>, Inr ()))"

definition analysis_ratio :: f64 where
  "analysis_ratio = fp_div binary64 (fp_of_int binary64 1) (fp_of_int binary64 3)"

definition process_one :: "'h src_client \<Rightarrow> f32 list \<Rightarrow> 'h src_client \<times> src_step result" where
  "process_one c input =
     (if src_maximum_frames c < length input \<or> \<not> list_all is_finite input then (c, Inl INVALID_ARGUMENT)
      else
        let (h, delay, status) = src_input_delay c (src_handle c); c = c\<lparr>src_handle := h\<rparr>
        in if status \<noteq> 0 then (c, Inl PROVIDER_FAILED)
        else
          let position = int (src_accepted c) * POSITION_BILLIONTHS - delay;
              (h, output, consumed, generated, status) = src_process c (src_handle c) input fp_zero 1 analysis_ratio;
              c = c\<lparr>src_handle := h\<rparr>
          in if status \<noteq> 0 \<or> length input < consumed \<or> 1 < generated \<or> generated = 1 \<and> \<not> is_finite output
          then (c, Inl PROVIDER_FAILED)
          else
            (case checked_u64 (src_accepted c + consumed) of
               None \<Rightarrow> (c, Inl PROVIDER_FAILED)
             | Some accepted \<Rightarrow>
                 (c\<lparr>src_accepted := accepted\<rparr>,
                  Inr \<lparr>stp_consumed = consumed, stp_sample = (if generated = 1 then Some output else None),
                       stp_native_position_billionths = position\<rparr>)))"

section \<open>What one step promises\<close>

lemma process_one_ok:
  assumes "process_one c input = (c', Inr step)"
  shows "length input \<le> src_maximum_frames c" and "list_all is_finite input"
    and "stp_consumed step \<le> length input" and "src_accepted c' = src_accepted c + stp_consumed step"
    and "src_maximum_frames c' = src_maximum_frames c" and "src_accepted c' \<le> u64_max"
    and "\<And>y. stp_sample step = Some y \<Longrightarrow> is_finite y"
  using assms
  by (auto simp: process_one_def Let_def checked_u64_def split: if_splits prod.splits option.splits)

lemma process_one_frames: "src_maximum_frames (fst (process_one c input)) = src_maximum_frames c"
  by (auto simp: process_one_def Let_def split: prod.splits option.splits)

lemma process_one_error:
  assumes "process_one c input = (c', Inl e)" and "length input \<le> src_maximum_frames c" and "list_all is_finite input"
  shows "e = PROVIDER_FAILED" and "src_accepted c' = src_accepted c"
  using assms by (auto simp: process_one_def Let_def split: if_splits prod.splits option.splits)

lemma src_client_reset_simps:
  "src_maximum_frames (fst (src_client_reset c)) = src_maximum_frames c"
  "snd (src_client_reset c) = Inr () \<Longrightarrow> src_accepted (fst (src_client_reset c)) = 0"
  "snd (src_client_reset c) = Inl e \<Longrightarrow> e = PROVIDER_FAILED"
  by (auto simp: src_client_reset_def Let_def split: prod.splits if_splits)

end
