(* ===== verification/Vad.thy ===== *)
theory Vad
  imports Samplerate_Client
begin

text \<open>
  Speech analysis and admission (\<open>src/vad.rs\<close>).  \<open>vp_\<close> are the fields of \<open>Policy\<close>, \<open>ac_\<close> of \<open>Active\<close>,
  \<open>sv_\<close> of \<open>SpeechVad\<close> and \<open>vd_\<close> of \<open>Decision\<close>.  The neural classifier is a third-party crate and a
  parameter: its state with the functions \<open>predict_f32\<close> and \<open>reset\<close>, and the state \<open>default\<close> gives.
\<close>

record vad_decision =
  vd_admitted :: bool
  vd_voice_active :: bool
  vd_score :: f32
  vd_last_voice_sample_index :: "nat option"
  vd_rf_burst_id :: nat

definition vad_decision_default :: vad_decision where
  "vad_decision_default = \<lparr>vd_admitted = False, vd_voice_active = False, vd_score = fp_zero,
     vd_last_voice_sample_index = None, vd_rf_burst_id = 0\<rparr>"

record vad_policy =
  vp_mode :: nat
  vp_hang_frames :: nat
  vp_raw :: bool
  vp_latched :: bool
  vp_score :: f32
  vp_last_voice :: "nat option"
  vp_rf_burst_id :: nat

definition vad_half :: f32 where "vad_half = Finite False (1 / 2)"
definition vad_one :: f32 where "vad_one = Finite False 1"
definition vad_minus_one :: f32 where "vad_minus_one = Finite True 1"

definition vad_voiced :: "f32 \<Rightarrow> bool" where
  "vad_voiced score = fp_le vad_half score"

section \<open>Policy\<close>

definition policy_new :: "nat \<Rightarrow> nat \<Rightarrow> vad_policy" where
  "policy_new mode hang_frames = \<lparr>vp_mode = mode, vp_hang_frames = hang_frames, vp_raw = False,
     vp_latched = False, vp_score = fp_zero, vp_last_voice = None, vp_rf_burst_id = 0\<rparr>"

definition next_burst_id :: "nat \<Rightarrow> nat" where
  "next_burst_id i = max ((i + 1) mod (u64_max + 1)) 1"

definition policy_set_raw :: "bool \<Rightarrow> vad_policy \<Rightarrow> vad_policy" where
  "policy_set_raw raw p =
     (let p = (if raw \<and> \<not> vp_raw p then p\<lparr>vp_rf_burst_id := next_burst_id (vp_rf_burst_id p)\<rparr> else p);
          p = p\<lparr>vp_raw := raw\<rparr>
      in if \<not> raw then p\<lparr>vp_latched := False, vp_score := fp_zero, vp_last_voice := None\<rparr> else p)"

definition policy_observe :: "f32 \<Rightarrow> nat \<Rightarrow> vad_policy \<Rightarrow> vad_policy" where
  "policy_observe score position p =
     (if vp_raw p
      then let p = p\<lparr>vp_score := score\<rparr>
        in if vad_voiced score then p\<lparr>vp_last_voice := Some position, vp_latched := True\<rparr> else p
      else p)"

definition policy_decision :: "nat \<Rightarrow> vad_policy \<Rightarrow> vad_decision" where
  "policy_decision end_exclusive p =
     (let voice_active = vp_raw p \<and> vad_voiced (vp_score p);
          held = (case vp_last_voice p of None \<Rightarrow> False
            | Some index \<Rightarrow> end_exclusive - saturating_add_u64 index 1 < vp_hang_frames p);
          admitted = vp_raw p \<and>
            (if vp_mode p = 0 then True else if vp_mode p = 1 then vp_latched p else voice_active \<or> held)
      in \<lparr>vd_admitted = admitted, vd_voice_active = voice_active, vd_score = vp_score p,
          vd_last_voice_sample_index = vp_last_voice p, vd_rf_burst_id = vp_rf_burst_id p\<rparr>)"

section \<open>The analyser\<close>

record 'n speech_detector =
  sdt_state :: 'n
  sdt_predict :: "'n \<Rightarrow> f32 list \<Rightarrow> 'n \<times> f32"
  sdt_reset :: "'n \<Rightarrow> 'n"

definition detector_predict :: "'n speech_detector \<Rightarrow> f32 list \<Rightarrow> 'n speech_detector \<times> f32" where
  "detector_predict d frame = (let (s, score) = sdt_predict d (sdt_state d) frame in (d\<lparr>sdt_state := s\<rparr>, score))"

record ('h, 'n) vad_active =
  ac_client :: "'h src_client"
  ac_detector :: "'n speech_detector"
  ac_frame :: "f32 list"
  ac_used :: nat
  ac_input :: "f32 list"
  ac_origin :: nat

definition FRAME_SAMPLES :: nat where "FRAME_SAMPLES = 256"

definition silent_frame :: "f32 list" where "silent_frame = replicate FRAME_SAMPLES fp_zero"

definition active_rearm :: "('h, 'n) vad_active \<Rightarrow> ('h, 'n) vad_active \<times> unit result" where
  "active_rearm a =
     (let a = a\<lparr>ac_used := 0, ac_frame := replicate (length (ac_frame a)) fp_zero, ac_origin := 0\<rparr>;
          (client, status) = src_client_reset (ac_client a);
          a = a\<lparr>ac_client := client\<rparr>
      in case status of
           Inl e \<Rightarrow> (a, Inl e)
         | Inr _ \<Rightarrow>
             (let d = (ac_detector a)\<lparr>sdt_state := sdt_reset (ac_detector a) (sdt_state (ac_detector a))\<rparr>;
                  d = fst (detector_predict d silent_frame);
                  d = fst (detector_predict d silent_frame);
                  d = fst (detector_predict d silent_frame)
              in (a\<lparr>ac_detector := d\<rparr>, Inr ())))"

definition active_new ::
  "'h samplerate_descriptor option \<Rightarrow> 'n speech_detector \<Rightarrow> nat \<Rightarrow> ('h, 'n) vad_active result" where
  "active_new pointer detector maximum_frames =
     bind_result (src_from_descriptor pointer maximum_frames) (\<lambda>client.
     let (a, status) = active_rearm \<lparr>ac_client = client, ac_detector = detector, ac_frame = silent_frame,
            ac_used = 0, ac_input = replicate maximum_frames fp_zero, ac_origin = 0\<rparr>
     in bind_result status (\<lambda>_. Inr a))"

text \<open>The classifier's score and the converter's position are checked before the position is
  published.\<close>

definition record_frame ::
  "('h, 'n) vad_active \<Rightarrow> f32 \<Rightarrow> int \<Rightarrow> vad_policy \<Rightarrow> nat \<Rightarrow>
     (('h, 'n) vad_active \<times> vad_policy) \<times> unit result" where
  "record_frame a score source_position_billionths policy finish =
     (if \<not> is_finite score \<or> \<not> (fp_le fp_zero score \<and> fp_le score vad_one) then ((a, policy), Inl PROVIDER_FAILED)
      else let position = int (ac_origin a) + source_position_billionths div POSITION_BILLIONTHS
        in if position < int (ac_origin a) \<or> position \<ge> int finish then ((a, policy), Inl PROVIDER_FAILED)
        else ((a\<lparr>ac_used := 0\<rparr>, policy_observe score (nat position) policy), Inr ()))"

definition clamp_unit :: "f32 \<Rightarrow> f32" where
  "clamp_unit x = fp_clamp x vad_minus_one vad_one"

text \<open>One produced sample: it joins the frame, and a full frame is classified.\<close>

definition analyse_sample ::
  "('h, 'n) vad_active \<Rightarrow> vad_policy \<Rightarrow> f32 \<Rightarrow> int \<Rightarrow> nat \<Rightarrow>
     (('h, 'n) vad_active \<times> vad_policy) \<times> unit result" where
  "analyse_sample a policy sample position finish =
     (let a = a\<lparr>ac_frame := (ac_frame a)[ac_used a := clamp_unit sample], ac_used := ac_used a + 1\<rparr>
      in if ac_used a = FRAME_SAMPLES
         then let (d, score) = detector_predict (ac_detector a) (ac_frame a)
           in record_frame (a\<lparr>ac_detector := d\<rparr>) score position policy finish
         else ((a, policy), Inr ()))"

text \<open>The bounded loop over the converter: the first argument is the number of rounds left.\<close>

fun active_loop ::
  "nat \<Rightarrow> f32 list \<Rightarrow> nat \<Rightarrow> nat \<Rightarrow> ('h, 'n) vad_active \<times> vad_policy \<Rightarrow>
     (('h, 'n) vad_active \<times> vad_policy) \<times> unit result" where
  "active_loop 0 audio finish consumed (a, policy) = ((a, policy), Inl PROVIDER_FAILED)"
| "active_loop (Suc rounds) audio finish consumed (a, policy) =
     (let (client, r) = process_one (ac_client a) (drop consumed audio); a = a\<lparr>ac_client := client\<rparr>
      in case r of
           Inl e \<Rightarrow> ((a, policy), Inl e)
         | Inr step \<Rightarrow>
             let consumed = consumed + stp_consumed step
             in case stp_sample step of
                  Some sample \<Rightarrow>
                    (let ((a, policy), status) =
                           analyse_sample a policy sample (stp_native_position_billionths step) finish
                     in case status of
                          Inl e \<Rightarrow> ((a, policy), Inl e)
                        | Inr _ \<Rightarrow> active_loop rounds audio finish consumed (a, policy))
                | None \<Rightarrow>
                    if consumed = length audio then ((a, policy), Inr ())
                    else if stp_consumed step = 0 then ((a, policy), Inl PROVIDER_FAILED)
                    else active_loop rounds audio finish consumed (a, policy))"

definition active_process ::
  "('h, 'n) vad_active \<Rightarrow> f32 list \<Rightarrow> vad_policy \<Rightarrow> nat \<Rightarrow>
     (('h, 'n) vad_active \<times> vad_policy) \<times> unit result" where
  "active_process a native policy finish =
     (let audio = List.map clamp_unit native; a = a\<lparr>ac_input := audio @ drop (length native) (ac_input a)\<rparr>
      in active_loop (length native + 64) audio finish 0 (a, policy))"

section \<open>The speech detector of a receiver\<close>

record ('h, 'n) speech_vad =
  sv_mode :: nat
  sv_hang_ms :: nat
  sv_maximum_native_frames :: nat
  sv_policy :: vad_policy
  sv_active :: "('h, 'n) vad_active option"
  sv_expected_next :: "nat option"
  sv_needs_rearm :: bool

definition speech_vad_new ::
  "'h samplerate_descriptor option \<Rightarrow> 'n speech_detector \<Rightarrow> nat \<Rightarrow> nat \<Rightarrow> nat \<Rightarrow> ('h, 'n) speech_vad result" where
  "speech_vad_new pointer detector mode hang_ms maximum_native_frames =
     (if 2 < mode \<or> 32767 < hang_ms \<or> maximum_native_frames = 0 \<or> mode \<noteq> 0 \<and> 4096 < maximum_native_frames
      then Inl INVALID_ARGUMENT
      else
        bind_result (if mode = 0 then Inr None
           else bind_result (active_new pointer detector maximum_native_frames) (\<lambda>a. Inr (Some a))) (\<lambda>active.
        Inr \<lparr>sv_mode = mode, sv_hang_ms = hang_ms, sv_maximum_native_frames = maximum_native_frames,
             sv_policy = policy_new mode (hang_ms * 48), sv_active = active, sv_expected_next = None,
             sv_needs_rearm = False\<rparr>))"

definition vad_reset :: "('h, 'n) speech_vad \<Rightarrow> ('h, 'n) speech_vad \<times> unit result" where
  "vad_reset v =
     (let v = v\<lparr>sv_needs_rearm := True, sv_expected_next := None, sv_policy := policy_set_raw False (sv_policy v)\<rparr>
      in case sv_active v of
           None \<Rightarrow> (v\<lparr>sv_needs_rearm := False\<rparr>, Inr ())
         | Some a \<Rightarrow>
             (let (a, status) = active_rearm a; v = v\<lparr>sv_active := Some a\<rparr>
              in case status of Inl e \<Rightarrow> (v, Inl e) | Inr _ \<Rightarrow> (v\<lparr>sv_needs_rearm := False\<rparr>, Inr ())))"

definition inherit_burst_id :: "('h, 'n) speech_vad \<Rightarrow> ('h, 'n) speech_vad \<Rightarrow> ('h, 'n) speech_vad" where
  "inherit_burst_id previous v =
     v\<lparr>sv_policy := (sv_policy v)\<lparr>vp_rf_burst_id := vp_rf_burst_id (sv_policy previous)\<rparr>\<rparr>"

definition settings_equal :: "('h, 'n) speech_vad \<Rightarrow> ('h, 'n) speech_vad \<Rightarrow> bool" where
  "settings_equal v other \<longleftrightarrow>
     (sv_mode v, sv_hang_ms v, sv_maximum_native_frames v) =
     (sv_mode other, sv_hang_ms other, sv_maximum_native_frames other)"

text \<open>A span the raw qualification does not cover closes the burst.\<close>

definition vad_unqualified :: "('h, 'n) speech_vad \<Rightarrow> nat \<Rightarrow> ('h, 'n) speech_vad \<times> vad_decision result" where
  "vad_unqualified v finish =
     (let (v, status) = (if vp_raw (sv_policy v) then vad_reset v
            else (v\<lparr>sv_policy := policy_set_raw False (sv_policy v)\<rparr>, Inr ()))
      in case status of
           Inl e \<Rightarrow> (v, Inl e)
         | Inr _ \<Rightarrow> (let v = v\<lparr>sv_expected_next := Some finish\<rparr> in (v, Inr (policy_decision finish (sv_policy v)))))"

definition vad_open_burst :: "('h, 'n) speech_vad \<Rightarrow> nat \<Rightarrow> ('h, 'n) speech_vad" where
  "vad_open_burst v first_native_sample =
     (if \<not> vp_raw (sv_policy v)
      then v\<lparr>sv_policy := policy_set_raw True (sv_policy v),
             sv_active := map_option (\<lambda>a. a\<lparr>ac_origin := first_native_sample\<rparr>) (sv_active v)\<rparr>
      else v)"

definition vad_qualified ::
  "('h, 'n) speech_vad \<Rightarrow> f32 list \<Rightarrow> nat \<Rightarrow> nat \<Rightarrow> ('h, 'n) speech_vad \<times> vad_decision result" where
  "vad_qualified v native_mono first_native_sample finish =
     (let v = vad_open_burst v first_native_sample;
          (v, status) =
            (case sv_active v of
               None \<Rightarrow> (v, Inr ())
             | Some a \<Rightarrow>
                 (let ((a, policy), status) = active_process a native_mono (sv_policy v) finish
                  in (v\<lparr>sv_active := Some a, sv_policy := policy\<rparr>, status)))
      in case status of
           Inl _ \<Rightarrow> (fst (vad_reset v), Inl PROVIDER_FAILED)
         | Inr _ \<Rightarrow> (let v = v\<lparr>sv_expected_next := Some finish\<rparr> in (v, Inr (policy_decision finish (sv_policy v)))))"

definition vad_discontinuous :: "('h, 'n) speech_vad \<Rightarrow> nat \<Rightarrow> bool" where
  "vad_discontinuous v first_native_sample \<longleftrightarrow>
     (case sv_expected_next v of None \<Rightarrow> False | Some n \<Rightarrow> n \<noteq> first_native_sample) \<or> sv_needs_rearm v"

definition vad_process ::
  "('h, 'n) speech_vad \<Rightarrow> f32 list \<Rightarrow> bool \<Rightarrow> nat \<Rightarrow> ('h, 'n) speech_vad \<times> vad_decision result" where
  "vad_process v native_mono raw_qualified first_native_sample =
     (if native_mono = [] \<or> \<not> list_all is_finite native_mono then (v, Inl INVALID_ARGUMENT)
      else if sv_maximum_native_frames v < length native_mono then (v, Inl FRAME_COUNT_EXCEEDED)
      else case checked_u64 (first_native_sample + length native_mono) of
        None \<Rightarrow> (v, Inl INVALID_ARGUMENT)
      | Some finish \<Rightarrow>
          (let (v, status) = (if vad_discontinuous v first_native_sample then vad_reset v else (v, Inr ()))
           in case status of
                Inl e \<Rightarrow> (v, Inl e)
              | Inr _ \<Rightarrow>
                  if raw_qualified then vad_qualified v native_mono first_native_sample finish
                  else vad_unqualified v finish))"

section \<open>Invariants\<close>

definition policy_ok :: "vad_policy \<Rightarrow> bool" where
  "policy_ok p \<longleftrightarrow> (\<not> vp_raw p \<longrightarrow> vp_score p = fp_zero \<and> vp_last_voice p = None) \<and>
     (vp_latched p \<longleftrightarrow> vp_last_voice p \<noteq> None) \<and> (vp_raw p \<longrightarrow> 1 \<le> vp_rf_burst_id p)"

definition unit_sample :: "f32 \<Rightarrow> bool" where
  "unit_sample x \<longleftrightarrow> fp_le vad_minus_one x \<and> fp_le x vad_one"

text \<open>A set of classifier states the classifier cannot leave on frames of 256 samples between -1 and 1.\<close>

definition detector_keeps :: "('n \<Rightarrow> bool) \<Rightarrow> 'n speech_detector \<Rightarrow> bool" where
  "detector_keeps I d \<longleftrightarrow>
     (\<forall>s frame. I s \<and> length frame = FRAME_SAMPLES \<and> list_all unit_sample frame \<longrightarrow> I (fst (sdt_predict d s frame))) \<and>
     (\<forall>s. I s \<longrightarrow> I (sdt_reset d s))"

definition detector_in :: "('n \<Rightarrow> bool) \<Rightarrow> 'n speech_detector \<Rightarrow> bool" where
  "detector_in I d \<longleftrightarrow> detector_keeps I d \<and> I (sdt_state d)"

definition active_shape :: "('n \<Rightarrow> bool) \<Rightarrow> nat \<Rightarrow> ('h, 'n) vad_active \<Rightarrow> bool" where
  "active_shape I frames a \<longleftrightarrow> length (ac_frame a) = FRAME_SAMPLES \<and> list_all unit_sample (ac_frame a) \<and>
     length (ac_input a) = frames \<and> src_maximum_frames (ac_client a) = frames \<and> detector_in I (ac_detector a)"

definition active_ok :: "('n \<Rightarrow> bool) \<Rightarrow> nat \<Rightarrow> ('h, 'n) vad_active \<Rightarrow> bool" where
  "active_ok I frames a \<longleftrightarrow> active_shape I frames a \<and> ac_used a < FRAME_SAMPLES"

text \<open>A burst starts at the origin, the converter has accepted every frame from there to the next
  expected one, and the last voice lies between.\<close>

definition burst_ok :: "('h, 'n) speech_vad \<Rightarrow> nat \<Rightarrow> bool" where
  "burst_ok v finish \<longleftrightarrow>
     (\<forall>p. vp_last_voice (sv_policy v) = Some p \<longrightarrow> p < finish \<and> (\<forall>a. sv_active v = Some a \<longrightarrow> ac_origin a \<le> p)) \<and>
     (\<forall>a. sv_active v = Some a \<longrightarrow> ac_origin a \<le> finish \<and> src_accepted (ac_client a) = finish - ac_origin a)"

definition vad_ok :: "('n \<Rightarrow> bool) \<Rightarrow> ('h, 'n) speech_vad \<Rightarrow> bool" where
  "vad_ok I v \<longleftrightarrow> policy_ok (sv_policy v) \<and> vp_mode (sv_policy v) = sv_mode v \<and>
     vp_hang_frames (sv_policy v) = sv_hang_ms v * 48 \<and> (sv_active v = None \<longleftrightarrow> sv_mode v = 0) \<and>
     (\<forall>a. sv_active v = Some a \<longrightarrow> active_ok I (sv_maximum_native_frames v) a) \<and>
     (if vp_raw (sv_policy v) then \<not> sv_needs_rearm v \<and> (\<exists>n. sv_expected_next v = Some n \<and> burst_ok v n)
      else sv_needs_rearm v \<or> (\<forall>a. sv_active v = Some a \<longrightarrow> src_accepted (ac_client a) = 0))"

lemma unit_sample_constants [simp]: "unit_sample fp_zero"
  by (simp add: unit_sample_def fp_le_def vad_minus_one_def vad_one_def fp_zero_def signed_def)

lemma unit_sample_clamp: "is_finite x \<Longrightarrow> unit_sample (clamp_unit x)"
  by (cases x) (auto simp: unit_sample_def clamp_unit_def fp_clamp_def fp_le_def vad_minus_one_def vad_one_def
      signed_def Let_def)

lemma finite_clamp: "is_finite x \<Longrightarrow> is_finite (clamp_unit x)"
  by (cases x) (auto simp: clamp_unit_def fp_clamp_def vad_minus_one_def vad_one_def Let_def)

lemma detector_in_predict:
  assumes "detector_in I d" and "length frame = FRAME_SAMPLES" and "list_all unit_sample frame"
  shows "detector_in I (fst (detector_predict d frame))"
  using assms by (simp add: detector_in_def detector_keeps_def detector_predict_def case_prod_beta)

lemma silent_frame_ok: "length silent_frame = FRAME_SAMPLES" "list_all unit_sample silent_frame"
  by (auto simp: silent_frame_def list_all_iff)

lemma policy_set_raw_ok:
  assumes "policy_ok p"
  shows "policy_ok (policy_set_raw raw p)" and "vp_mode (policy_set_raw raw p) = vp_mode p"
    and "vp_hang_frames (policy_set_raw raw p) = vp_hang_frames p" and "vp_raw (policy_set_raw raw p) = raw"
    and "vp_last_voice (policy_set_raw raw p) = (if raw then vp_last_voice p else None)"
    and "vp_rf_burst_id (policy_set_raw raw p) =
      (if raw \<and> \<not> vp_raw p then next_burst_id (vp_rf_burst_id p) else vp_rf_burst_id p)"
    and "vp_latched (policy_set_raw raw p) = (raw \<and> vp_latched p)"
  using assms by (auto simp: policy_ok_def policy_set_raw_def next_burst_id_def Let_def)

text \<open>What the analysis of a span may change of the policy.\<close>

definition policy_heard :: "nat \<Rightarrow> nat \<Rightarrow> vad_policy \<Rightarrow> vad_policy \<Rightarrow> bool" where
  "policy_heard origin finish p p' \<longleftrightarrow> policy_ok p' \<and> vp_mode p' = vp_mode p \<and>
     vp_hang_frames p' = vp_hang_frames p \<and> vp_raw p' = vp_raw p \<and> vp_rf_burst_id p' = vp_rf_burst_id p \<and>
     (vp_last_voice p' = vp_last_voice p \<or> (\<exists>q. vp_last_voice p' = Some q \<and> origin \<le> q \<and> q < finish))"

lemma policy_heard_refl: "policy_ok p \<Longrightarrow> policy_heard origin finish p p"
  by (simp add: policy_heard_def)

lemma policy_heard_trans: "policy_heard o' f p q \<Longrightarrow> policy_heard o' f q r \<Longrightarrow> policy_heard o' f p r"
  by (auto simp: policy_heard_def)

lemma policy_heard_observe:
  assumes "policy_ok p" and "origin \<le> q" and "q < finish"
  shows "policy_heard origin finish p (policy_observe score q p)"
  using assms by (auto simp: policy_heard_def policy_observe_def policy_ok_def Let_def)

lemma analyse_sample_ok:
  assumes "active_ok I n a" and "policy_ok p" and "is_finite sample"
    and "analyse_sample a p sample pos finish = ((a', p'), status)"
  shows "active_shape I n a' \<and> ac_origin a' = ac_origin a \<and> ac_client a' = ac_client a \<and>
    policy_heard (ac_origin a) finish p p' \<and> (status = Inr () \<longrightarrow> ac_used a' < FRAME_SAMPLES)"
proof -
  let ?frame = "(ac_frame a)[ac_used a := clamp_unit sample]"
  have "set ?frame \<subseteq> insert (clamp_unit sample) (set (ac_frame a))" by (rule set_update_subset_insert)
  then have frame: "length ?frame = FRAME_SAMPLES" "list_all unit_sample ?frame"
    using assms(1) unit_sample_clamp [OF assms(3)] by (auto simp: active_ok_def active_shape_def list_all_iff)
  let ?a = "a\<lparr>ac_frame := ?frame, ac_used := ac_used a + 1\<rparr>"
  have shape: "active_shape I n ?a" using assms(1) frame by (simp add: active_ok_def active_shape_def)
  show ?thesis
  proof (cases "ac_used a + 1 = FRAME_SAMPLES")
    case False
    then show ?thesis
      using assms shape policy_heard_refl [OF assms(2)] by (auto simp: analyse_sample_def active_ok_def Let_def)
  next
    case True
    obtain d score where d: "detector_predict (ac_detector a) ?frame = (d, score)" by fastforce
    have "detector_in I d"
      using detector_in_predict [OF _ frame, of I "ac_detector a"] assms(1) d
      by (simp add: active_ok_def active_shape_def)
    then have shape2: "active_shape I n (?a\<lparr>ac_detector := d\<rparr>)" using shape by (simp add: active_shape_def)
    have r: "record_frame (?a\<lparr>ac_detector := d\<rparr>) score pos p finish = ((a', p'), status)"
      using assms(4) True d by (simp add: analyse_sample_def Let_def)
    let ?pos = "int (ac_origin a) + pos div POSITION_BILLIONTHS"
    show ?thesis
    proof (cases "status = Inr ()")
      case True
      then have pos: "int (ac_origin a) \<le> ?pos" "?pos < int finish"
        and a': "a' = ?a\<lparr>ac_detector := d, ac_used := 0\<rparr>" "p' = policy_observe score (nat ?pos) p"
        using r by (auto simp: record_frame_def Let_def split: if_splits)
      have "policy_heard (ac_origin a) finish p p'"
        unfolding a'(2) using assms(2) pos by (intro policy_heard_observe) auto
      moreover have "active_shape I n a'" using shape2 a'(1) by (simp add: active_shape_def)
      ultimately show ?thesis by (simp add: a'(1) FRAME_SAMPLES_def)
    next
      case False
      then have "a' = ?a\<lparr>ac_detector := d\<rparr>" "p' = p"
        using r by (auto simp: record_frame_def Let_def split: if_splits)
      then show ?thesis using shape2 policy_heard_refl [OF assms(2)] False by simp
    qed
  qed
qed

text \<open>The loop ends within its bound by construction; when it succeeds, the converter has accepted
  the rest of the span.\<close>

lemma active_loop_ok:
  assumes "active_ok I n a" and "policy_ok p" and "length audio \<le> n" and "consumed \<le> length audio"
    and "list_all is_finite audio" and "active_loop rounds audio finish consumed (a, p) = ((a', p'), status)"
  shows "active_shape I n a' \<and> ac_origin a' = ac_origin a \<and> policy_heard (ac_origin a) finish p p' \<and>
    (status = Inr () \<longrightarrow> ac_used a' < FRAME_SAMPLES \<and>
      src_accepted (ac_client a') = src_accepted (ac_client a) + (length audio - consumed))"
  using assms
proof (induction rounds arbitrary: a p consumed)
  case 0
  then show ?case by (auto simp: active_ok_def policy_heard_refl)
next
  case (Suc rounds)
  obtain client r where c: "process_one (ac_client a) (drop consumed audio) = (client, r)" by fastforce
  let ?a = "a\<lparr>ac_client := client\<rparr>"
  have frames: "src_maximum_frames client = src_maximum_frames (ac_client a)"
    using process_one_frames [of "ac_client a" "drop consumed audio"] c by simp
  then have ok: "active_ok I n ?a" using Suc.prems(1) by (simp add: active_ok_def active_shape_def)
  show ?case
  proof (cases r)
    case (Inl e)
    then show ?thesis
      using Suc.prems(6) c ok policy_heard_refl [OF Suc.prems(2)] by (auto simp: active_ok_def Let_def)
  next
    case (Inr step)
    note s = process_one_ok [OF c [unfolded Inr]]
    let ?k = "consumed + stp_consumed step"
    have k: "?k \<le> length audio" and acc: "src_accepted client = src_accepted (ac_client a) + stp_consumed step"
      using s(3,4) Suc.prems(4) by auto
    show ?thesis
    proof (cases "stp_sample step")
      case None
      show ?thesis
      proof (cases "?k = length audio \<or> stp_consumed step = 0")
        case True
        then show ?thesis
          using Suc.prems(6) c ok acc None policy_heard_refl [OF Suc.prems(2)] Inr
          by (auto simp: active_ok_def Let_def split: if_splits)
      next
        case False
        then have "active_loop rounds audio finish ?k (?a, p) = ((a', p'), status)"
          using Suc.prems(6) c None Inr by (simp add: Let_def)
        from Suc.IH [OF ok Suc.prems(2,3) k Suc.prems(5) this] acc k show ?thesis by auto
      qed
    next
      case (Some y)
      obtain b q st where an: "analyse_sample ?a p y (stp_native_position_billionths step) finish = ((b, q), st)"
        by (metis prod.exhaust)
      note h = analyse_sample_ok [OF ok Suc.prems(2) s(7) [OF Some] an]
      show ?thesis
      proof (cases st)
        case (Inl e)
        then show ?thesis using Suc.prems(6) c Inr Some an h by (auto simp: Let_def)
      next
        case (Inr u)
        have bok: "active_ok I n b" "policy_ok q" using h Inr by (auto simp: active_ok_def policy_heard_def)
        have "active_loop rounds audio finish ?k (b, q) = ((a', p'), status)"
          using Suc.prems(6) c \<open>r = Inr step\<close> Some an Inr by (simp add: Let_def)
        note ih = Suc.IH [OF bok Suc.prems(3) k Suc.prems(5) this]
        have "policy_heard (ac_origin a) finish p p'"
          by (rule policy_heard_trans [of _ _ p q p']) (use ih h in simp_all)
        with ih h acc k show ?thesis by simp
      qed
    qed
  qed
qed

lemma active_process_ok:
  assumes "active_ok I n a" and "policy_ok p" and "length native \<le> n" and "list_all is_finite native"
    and "active_process a native p finish = ((a', p'), status)"
  shows "active_shape I n a' \<and> ac_origin a' = ac_origin a \<and> policy_heard (ac_origin a) finish p p' \<and>
    (status = Inr () \<longrightarrow> active_ok I n a' \<and>
      src_accepted (ac_client a') = src_accepted (ac_client a) + length native)"
proof -
  let ?audio = "List.map clamp_unit native"
  let ?a = "a\<lparr>ac_input := ?audio @ drop (length native) (ac_input a)\<rparr>"
  have ok: "active_ok I n ?a" using assms(1,3) by (simp add: active_ok_def active_shape_def)
  have fin: "list_all is_finite ?audio" using assms(4) by (simp add: list_all_iff finite_clamp)
  show ?thesis
    using active_loop_ok [OF ok assms(2) _ _ fin, of 0 "length native + 64" finish a' p' status] assms(3,5)
    by (simp add: active_process_def active_ok_def Let_def)
qed

lemma active_rearm_ok:
  assumes "active_shape I n a" and "active_rearm a = (a', status)"
  shows "active_ok I n a' \<and> (\<forall>e. status = Inl e \<longrightarrow> e = PROVIDER_FAILED) \<and>
    (status = Inr () \<longrightarrow> src_accepted (ac_client a') = 0)"
proof -
  obtain client st where c: "src_client_reset (ac_client a) = (client, st)" by fastforce
  have frames: "src_maximum_frames client = n" "\<And>e. st = Inl e \<Longrightarrow> e = PROVIDER_FAILED"
    "st = Inr () \<Longrightarrow> src_accepted client = 0"
    using src_client_reset_simps [of "ac_client a"] c assms(1) by (auto simp: active_shape_def)
  let ?r = "(ac_detector a)\<lparr>sdt_state := sdt_reset (ac_detector a) (sdt_state (ac_detector a))\<rparr>"
  have "detector_in I ?r" using assms(1) by (simp add: active_shape_def detector_in_def detector_keeps_def)
  then have primed: "detector_in I (fst (detector_predict (fst (detector_predict (fst (detector_predict ?r
      silent_frame)) silent_frame)) silent_frame))"
    by (intro detector_in_predict silent_frame_ok)
  show ?thesis
    using assms primed frames c
    by (auto simp: active_rearm_def active_ok_def active_shape_def FRAME_SAMPLES_def list_all_iff
        Let_def split: sum.splits)
qed

section \<open>Resets and calls\<close>

text \<open>The state between two calls, without the classifier's position in its frame.\<close>

definition vad_shape :: "('n \<Rightarrow> bool) \<Rightarrow> ('h, 'n) speech_vad \<Rightarrow> bool" where
  "vad_shape I v \<longleftrightarrow> policy_ok (sv_policy v) \<and> vp_mode (sv_policy v) = sv_mode v \<and>
     vp_hang_frames (sv_policy v) = sv_hang_ms v * 48 \<and> (sv_active v = None \<longleftrightarrow> sv_mode v = 0) \<and>
     (\<forall>a. sv_active v = Some a \<longrightarrow> active_shape I (sv_maximum_native_frames v) a)"

lemma vad_ok_shape: "vad_ok I v \<Longrightarrow> vad_shape I v"
  by (auto simp: vad_ok_def vad_shape_def active_ok_def)

definition vad_closed :: "('n \<Rightarrow> bool) \<Rightarrow> ('h, 'n) speech_vad \<Rightarrow> ('h, 'n) speech_vad \<Rightarrow> bool" where
  "vad_closed I v v' \<longleftrightarrow> vad_ok I v' \<and> \<not> vp_raw (sv_policy v') \<and> settings_equal v v' \<and>
     vp_rf_burst_id (sv_policy v') = vp_rf_burst_id (sv_policy v)"

text \<open>Shut after a failure: the burst is closed, nothing is expected next, and the analyser is what
  re-arming left of it, flagged to be re-armed again unless that succeeded.\<close>

definition vad_shut :: "('h, 'n) speech_vad \<Rightarrow> bool" where
  "vad_shut v \<longleftrightarrow> \<not> vp_raw (sv_policy v) \<and> sv_expected_next v = None \<and>
     (\<exists>a b status. sv_active v = Some b \<and> active_rearm a = (b, status) \<and> (sv_needs_rearm v \<longleftrightarrow> status \<noteq> Inr ()))"

lemma vad_reset_ok:
  assumes "vad_shape I v" and "vad_reset v = (v', status)"
  shows "vad_closed I v v'" and "status = Inl e \<Longrightarrow> e = PROVIDER_FAILED \<and> sv_needs_rearm v'"
    and "status = Inr () \<Longrightarrow> \<not> sv_needs_rearm v'" and "sv_expected_next v' = None"
    and "sv_active v \<noteq> None \<Longrightarrow> vad_shut v'" and "status = Inl e \<Longrightarrow> vad_shut v'"
proof -
  note p = policy_set_raw_ok [of "sv_policy v" False]
  show "vad_closed I v v'"
  proof (cases "sv_active v")
    case None
    then show ?thesis
      using assms p by (auto simp: vad_reset_def vad_closed_def vad_ok_def vad_shape_def settings_equal_def Let_def)
  next
    case (Some a)
    obtain b st where b: "active_rearm a = (b, st)" by fastforce
    have "active_ok I (sv_maximum_native_frames v) b" "st = Inr () \<Longrightarrow> src_accepted (ac_client b) = 0"
      using active_rearm_ok [OF _ b] assms(1) Some by (auto simp: vad_shape_def)
    then show ?thesis
      using assms p Some b
      by (auto simp: vad_reset_def vad_closed_def vad_ok_def vad_shape_def settings_equal_def Let_def split: sum.splits)
  qed
  show "status = Inl e \<Longrightarrow> e = PROVIDER_FAILED \<and> sv_needs_rearm v'" "status = Inr () \<Longrightarrow> \<not> sv_needs_rearm v'"
    "sv_expected_next v' = None"
    using assms active_rearm_ok [of I "sv_maximum_native_frames v" "the (sv_active v)"]
    by (auto simp: vad_reset_def vad_shape_def Let_def split: sum.splits prod.splits option.splits)
  show shut: "vad_shut v'" if some: "sv_active v \<noteq> None"
  proof -
    obtain a where a: "sv_active v = Some a" using some by blast
    obtain b st where b: "active_rearm a = (b, st)" by fastforce
    have "sv_active v' = Some b" "sv_needs_rearm v' \<longleftrightarrow> st \<noteq> Inr ()" "sv_expected_next v' = None"
      using assms(2) a b by (auto simp: vad_reset_def Let_def split: sum.splits)
    moreover have "\<not> vp_raw (sv_policy v')" using \<open>vad_closed I v v'\<close> by (simp add: vad_closed_def)
    ultimately show ?thesis using b unfolding vad_shut_def by blast
  qed
  show "vad_shut v'" if "status = Inl e"
    using shut assms(2) that by (cases "sv_active v") (auto simp: vad_reset_def Let_def)
qed

lemma vad_open_burst_ok:
  assumes "vad_ok I v" and "vp_raw (sv_policy v) \<longrightarrow> sv_expected_next v = Some first" and "\<not> sv_needs_rearm v"
  shows "vad_shape I (vad_open_burst v first)" and "burst_ok (vad_open_burst v first) first"
    and "vp_raw (sv_policy (vad_open_burst v first))" and "settings_equal v (vad_open_burst v first)"
    and "sv_active (vad_open_burst v first) = Some a \<Longrightarrow> active_ok I (sv_maximum_native_frames v) a"
    and "\<not> sv_needs_rearm (vad_open_burst v first)"
    and "vp_rf_burst_id (sv_policy (vad_open_burst v first)) =
      (if vp_raw (sv_policy v) then vp_rf_burst_id (sv_policy v) else next_burst_id (vp_rf_burst_id (sv_policy v)))"
    and "vp_last_voice (sv_policy (vad_open_burst v first)) = vp_last_voice (sv_policy v)"
proof -
  have ok: "policy_ok (sv_policy v)" using assms(1) by (simp add: vad_ok_def)
  note p = policy_set_raw_ok [OF ok, of True]
  show "vad_shape I (vad_open_burst v first)" "settings_equal v (vad_open_burst v first)"
    "vp_raw (sv_policy (vad_open_burst v first))" "\<not> sv_needs_rearm (vad_open_burst v first)"
    "sv_active (vad_open_burst v first) = Some a \<Longrightarrow> active_ok I (sv_maximum_native_frames v) a"
    using assms p by (auto simp: vad_open_burst_def vad_shape_def vad_ok_def settings_equal_def active_ok_def
        active_shape_def split: if_splits)
  show "burst_ok (vad_open_burst v first) first"
  proof (cases "vp_raw (sv_policy v)")
    case True
    then show ?thesis using assms by (auto simp: vad_open_burst_def vad_ok_def)
  next
    case False
    then have "vp_last_voice (sv_policy v) = None" using ok by (simp add: policy_ok_def)
    then show ?thesis using assms p False by (auto simp: vad_open_burst_def vad_ok_def burst_ok_def)
  qed
  show "vp_rf_burst_id (sv_policy (vad_open_burst v first)) =
      (if vp_raw (sv_policy v) then vp_rf_burst_id (sv_policy v) else next_burst_id (vp_rf_burst_id (sv_policy v)))"
    "vp_last_voice (sv_policy (vad_open_burst v first)) = vp_last_voice (sv_policy v)"
    using p by (auto simp: vad_open_burst_def)
qed

text \<open>A qualified span.\<close>

lemma vad_qualified_ok:
  assumes "vad_ok I v" and "vp_raw (sv_policy v) \<longrightarrow> sv_expected_next v = Some first" and "\<not> sv_needs_rearm v"
    and "native \<noteq> []" and "list_all is_finite native" and "length native \<le> sv_maximum_native_frames v"
    and "vad_qualified v native first (first + length native) = (v', r)"
  shows "case r of Inl e \<Rightarrow> e = PROVIDER_FAILED \<and> vad_closed I (vad_open_burst v first) v' \<and> vad_shut v'
    | Inr d \<Rightarrow> vad_ok I v' \<and> settings_equal v v' \<and> sv_expected_next v' = Some (first + length native) \<and>
        \<not> sv_needs_rearm v' \<and>
        d = policy_decision (first + length native) (sv_policy v') \<and> vp_raw (sv_policy v') \<and>
        vp_rf_burst_id (sv_policy v') = vp_rf_burst_id (sv_policy (vad_open_burst v first)) \<and>
        (vp_last_voice (sv_policy v) \<noteq> None \<longrightarrow> vp_last_voice (sv_policy v') \<noteq> None)"
proof -
  let ?v = "vad_open_burst v first"
  let ?f = "first + length native"
  note o = vad_open_burst_ok [OF assms(1-3)]
  have settings: "sv_mode ?v = sv_mode v" "sv_hang_ms ?v = sv_hang_ms v"
    "sv_maximum_native_frames ?v = sv_maximum_native_frames v"
    using o(4) by (simp_all add: settings_equal_def)
  show ?thesis
  proof (cases "sv_active ?v")
    case None
    then have "v' = ?v\<lparr>sv_expected_next := Some ?f\<rparr>" "r = Inr (policy_decision ?f (sv_policy v'))"
      using assms(7) by (auto simp: vad_qualified_def Let_def)
    moreover have "burst_ok (?v\<lparr>sv_expected_next := Some ?f\<rparr>) ?f"
      using o(2) None by (auto simp: burst_ok_def)
    ultimately show ?thesis
      using o(1,3,4,6,8) None by (auto simp: vad_ok_def vad_shape_def settings_equal_def)
  next
    case (Some a)
    note aok = o(5) [OF Some]
    have pok: "policy_ok (sv_policy ?v)" using o(1) by (simp add: vad_shape_def)
    obtain b q st where an: "active_process a native (sv_policy ?v) ?f = ((b, q), st)" by (metis prod.exhaust)
    note h = active_process_ok [OF aok pok assms(6,5) an]
    let ?w = "?v\<lparr>sv_active := Some b, sv_policy := q\<rparr>"
    have shape: "vad_shape I ?w"
      using h o(1) Some settings by (auto simp: vad_shape_def policy_heard_def)
    show ?thesis
    proof (cases st)
      case (Inl e)
      obtain w u where w: "vad_reset ?w = (w, u)" by fastforce
      have "r = Inl PROVIDER_FAILED" "v' = w"
        using assms(7) Some an Inl w by (auto simp: vad_qualified_def Let_def)
      moreover have "vad_closed I ?v w"
        using vad_reset_ok(1) [OF shape w] h by (auto simp: vad_closed_def settings_equal_def policy_heard_def)
      moreover have "vad_shut w" using vad_reset_ok(5) [OF shape w] by simp
      ultimately show ?thesis by simp
    next
      case (Inr u)
      then have v': "v' = ?w\<lparr>sv_expected_next := Some ?f\<rparr>" "r = Inr (policy_decision ?f (sv_policy v'))"
        using assms(7) Some an by (auto simp: vad_qualified_def Let_def)
      have first: "ac_origin a \<le> first" "src_accepted (ac_client a) = first - ac_origin a"
        using o(2) Some by (auto simp: burst_ok_def)
      have heard: "vp_last_voice q = vp_last_voice (sv_policy ?v) \<or>
          (\<exists>k. vp_last_voice q = Some k \<and> ac_origin a \<le> k \<and> k < ?f)"
        using h by (simp add: policy_heard_def)
      have "burst_ok v' ?f"
        using h Inr first heard o(2) Some by (auto simp: burst_ok_def v'(1))
      moreover have "active_ok I (sv_maximum_native_frames v) b" using h Inr by simp
      ultimately have "vad_ok I v'"
        using shape h o(3,6) settings by (auto simp: vad_ok_def vad_shape_def v'(1) policy_heard_def)
      then show ?thesis
        using v' h heard o(3,6,7,8) settings by (auto simp: settings_equal_def policy_heard_def)
    qed
  qed
qed

definition vad_accepts :: "('h, 'n) speech_vad \<Rightarrow> f32 list \<Rightarrow> nat \<Rightarrow> bool" where
  "vad_accepts v native first \<longleftrightarrow> native \<noteq> [] \<and> list_all is_finite native \<and>
     length native \<le> sv_maximum_native_frames v \<and> first + length native \<le> u64_max"

text \<open>Who may be admitted: any burst in mode 0, a burst with a voice in it in mode 1, and otherwise
  while a voice is heard or its hang has not passed.\<close>

definition vad_admission :: "('h, 'n) speech_vad \<Rightarrow> nat \<Rightarrow> vad_decision \<Rightarrow> bool" where
  "vad_admission v finish d \<longleftrightarrow>
     (if sv_mode v = 0 then True
      else if sv_mode v = 1 then vd_last_voice_sample_index d \<noteq> None
      else vd_voice_active d \<or>
        (\<exists>q. vd_last_voice_sample_index d = Some q \<and> finish < q + 1 + sv_hang_ms v * 48))"

definition vad_answer :: "('h, 'n) speech_vad \<Rightarrow> bool \<Rightarrow> nat \<Rightarrow> vad_decision \<Rightarrow> bool" where
  "vad_answer v raw finish d \<longleftrightarrow>
     vd_admitted d = (raw \<and> vad_admission v finish d) \<and> (vd_voice_active d \<longrightarrow> raw) \<and>
     (\<forall>q. vd_last_voice_sample_index d = Some q \<longrightarrow> raw \<and> q < finish)"

lemma vad_decision_answer:
  assumes "vad_ok I v" and "sv_expected_next v = Some finish" and "finish \<le> u64_max"
  shows "vad_answer v (vp_raw (sv_policy v)) finish (policy_decision finish (sv_policy v))"
proof (cases "vp_last_voice (sv_policy v)")
  case None
  then show ?thesis
    using assms(1) by (auto simp: vad_answer_def vad_admission_def policy_decision_def vad_ok_def policy_ok_def Let_def)
next
  case (Some q)
  then have raw: "vp_raw (sv_policy v)" "vp_latched (sv_policy v)"
    using assms(1) by (auto simp: vad_ok_def policy_ok_def)
  then have "q < finish" using assms(1,2) Some by (auto simp: vad_ok_def burst_ok_def)
  then have "saturating_add_u64 q 1 = q + 1" "finish - (q + 1) < h \<longleftrightarrow> finish < q + 1 + h" for h
    using assms(3) by (auto simp: saturating_add_u64_def)
  then show ?thesis
    using assms(1) Some raw \<open>q < finish\<close>
    by (auto simp: vad_answer_def vad_admission_def policy_decision_def vad_ok_def Let_def)
qed

text \<open>Whether a span opens a new burst.\<close>

definition vad_continues :: "('h, 'n) speech_vad \<Rightarrow> nat \<Rightarrow> bool" where
  "vad_continues v first \<longleftrightarrow> vp_raw (sv_policy v) \<and> \<not> vad_discontinuous v first"

definition burst_id_after :: "('h, 'n) speech_vad \<Rightarrow> bool \<Rightarrow> nat \<Rightarrow> nat" where
  "burst_id_after v raw first =
     (if raw \<and> \<not> vad_continues v first then next_burst_id (vp_rf_burst_id (sv_policy v))
      else vp_rf_burst_id (sv_policy v))"

definition vad_outcome ::
  "('n \<Rightarrow> bool) \<Rightarrow> ('h, 'n) speech_vad \<Rightarrow> f32 list \<Rightarrow> bool \<Rightarrow> nat \<Rightarrow>
     ('h, 'n) speech_vad \<times> vad_decision result \<Rightarrow> bool" where
  "vad_outcome I v native raw first out \<longleftrightarrow>
     (let (v', r) = out; finish = first + length native
      in vad_ok I v' \<and> settings_equal v v' \<and>
         (case r of
            Inl e \<Rightarrow>
              if vad_accepts v native first then e = PROVIDER_FAILED \<and> vad_shut v'
              else v' = v \<and> e \<in> {INVALID_ARGUMENT, FRAME_COUNT_EXCEEDED}
          | Inr d \<Rightarrow>
              vad_accepts v native first \<and> sv_expected_next v' = Some finish \<and> vp_raw (sv_policy v') = raw \<and>
              \<not> sv_needs_rearm v' \<and> vad_answer v raw finish d \<and> vd_rf_burst_id d = burst_id_after v raw first \<and>
              vp_rf_burst_id (sv_policy v') = vd_rf_burst_id d \<and>
              vp_last_voice (sv_policy v') = vd_last_voice_sample_index d \<and>
              (raw \<and> vad_continues v first \<and> vp_last_voice (sv_policy v) \<noteq> None \<longrightarrow>
                 vd_last_voice_sample_index d \<noteq> None)))"

lemma policy_decision_simps [simp]:
  "vd_rf_burst_id (policy_decision finish p) = vp_rf_burst_id p"
  "vd_last_voice_sample_index (policy_decision finish p) = vp_last_voice p"
  by (simp_all add: policy_decision_def Let_def)

lemma vad_answer_settings: "settings_equal v w \<Longrightarrow> vad_answer w raw finish d \<longleftrightarrow> vad_answer v raw finish d"
  by (auto simp: vad_answer_def vad_admission_def settings_equal_def)

lemma vad_unqualified_ok:
  assumes "vad_ok I v" and "\<not> sv_needs_rearm v" and "vad_unqualified v finish = (v', r)" and "finish \<le> u64_max"
  shows "vad_ok I v' \<and> settings_equal v v' \<and> \<not> vp_raw (sv_policy v') \<and>
    (case r of Inl e \<Rightarrow> e = PROVIDER_FAILED \<and> vad_shut v'
     | Inr d \<Rightarrow> sv_expected_next v' = Some finish \<and> \<not> sv_needs_rearm v' \<and> d = policy_decision finish (sv_policy v') \<and>
         vp_rf_burst_id (sv_policy v') = vp_rf_burst_id (sv_policy v))"
proof (cases "vp_raw (sv_policy v)")
  case True
  obtain w st where w: "vad_reset v = (w, st)" by fastforce
  note r = vad_reset_ok [OF vad_ok_shape [OF assms(1)] w]
  show ?thesis
    using assms(3) True w r
    by (cases st) (auto simp: vad_unqualified_def vad_closed_def settings_equal_def vad_ok_def Let_def)
next
  case False
  note p = policy_set_raw_ok [of "sv_policy v" False]
  show ?thesis
    using assms(1-3) False p by (auto simp: vad_unqualified_def settings_equal_def vad_ok_def Let_def)
qed

lemma vad_process_ok:
  assumes "vad_ok I v"
  shows "vad_outcome I v native raw first (vad_process v native raw first)"
proof (cases "vad_accepts v native first")
  case False
  then have "vad_process v native raw first \<in> {(v, Inl INVALID_ARGUMENT), (v, Inl FRAME_COUNT_EXCEEDED)}"
    by (auto simp: vad_process_def vad_accepts_def checked_u64_def)
  then show ?thesis using assms False by (auto simp: vad_outcome_def settings_equal_def)
next
  case True
  let ?f = "first + length native"
  note acc = True
  obtain w st where w: "(if vad_discontinuous v first then vad_reset v else (v, Inr ())) = (w, st)" by fastforce
  have eq: "vad_process v native raw first = (case st of Inl e \<Rightarrow> (w, Inl e)
      | Inr _ \<Rightarrow> if raw then vad_qualified w native first ?f else vad_unqualified w ?f)"
    using acc w by (auto simp: vad_process_def vad_accepts_def checked_u64_def)
  have shape: "vad_shape I v" by (rule vad_ok_shape [OF assms])
  have wok: "vad_ok I w" "settings_equal v w" "vp_rf_burst_id (sv_policy w) = vp_rf_burst_id (sv_policy v)"
    using vad_reset_ok(1) [OF shape] w assms by (auto simp: vad_closed_def settings_equal_def split: if_splits)
  show ?thesis
  proof (cases st)
    case (Inl e)
    then have "vad_discontinuous v first" "vad_reset v = (w, Inl e)" using w by (auto split: if_splits)
    with vad_reset_ok(1,2,6) [OF shape] show ?thesis
      using acc eq Inl by (simp add: vad_outcome_def vad_closed_def)
  next
    case (Inr u)
    have armed: "\<not> sv_needs_rearm w"
      using vad_reset_ok(3) [OF shape] w Inr by (auto simp: vad_discontinuous_def split: if_splits)
    have cont: "vp_raw (sv_policy w) = vad_continues v first"
      "vp_raw (sv_policy w) \<longrightarrow> w = v \<and> sv_expected_next w = Some first"
      using vad_reset_ok(1) [OF shape] w assms
      by (auto simp: vad_continues_def vad_closed_def vad_discontinuous_def vad_ok_def split: if_splits option.splits)
    have fits: "?f \<le> u64_max" "native \<noteq> []" "list_all is_finite native"
      "length native \<le> sv_maximum_native_frames w"
      using acc wok(2) by (simp_all add: vad_accepts_def settings_equal_def)
    show ?thesis
    proof (cases raw)
      case True
      obtain x r where x: "vad_qualified w native first ?f = (x, r)" by fastforce
      note q = vad_qualified_ok [OF wok(1) _ armed fits(2-4) x]
      note o = vad_open_burst_ok [OF wok(1) _ armed, of first]
      show ?thesis
      proof (cases r)
        case (Inl e)
        then show ?thesis
          using q cont(2) x acc eq \<open>st = Inr u\<close> True wok(2) o(4)
          by (auto simp: vad_outcome_def vad_closed_def settings_equal_def)
      next
        case (Inr d)
        then have d: "vad_ok I x" "settings_equal w x" "sv_expected_next x = Some ?f"
          "d = policy_decision ?f (sv_policy x)" "vp_raw (sv_policy x)"
          "vp_rf_burst_id (sv_policy x) = vp_rf_burst_id (sv_policy (vad_open_burst w first))"
          "vp_last_voice (sv_policy w) \<noteq> None \<longrightarrow> vp_last_voice (sv_policy x) \<noteq> None" "\<not> sv_needs_rearm x"
          using q cont(2) by auto
        have sx: "settings_equal v x" using wok(2) d(2) by (simp add: settings_equal_def)
        have "vad_answer v True ?f d"
          using vad_decision_answer [OF d(1,3) fits(1)] d(4,5) vad_answer_settings [OF sx] by simp
        moreover have "vp_rf_burst_id (sv_policy x) = burst_id_after v True first"
          using d(6) o(7) cont wok(3) by (auto simp: burst_id_after_def)
        ultimately show ?thesis
          using acc eq \<open>st = Inr u\<close> x Inr True d sx cont by (auto simp: vad_outcome_def)
      qed
    next
      case False
      obtain x r where x: "vad_unqualified w ?f = (x, r)" by fastforce
      note q = vad_unqualified_ok [OF wok(1) armed x fits(1)]
      have sx: "settings_equal v x" using wok(2) q by (simp add: settings_equal_def)
      show ?thesis
      proof (cases r)
        case (Inl e)
        then show ?thesis using q x acc eq \<open>st = Inr u\<close> False sx by (simp add: vad_outcome_def)
      next
        case (Inr d)
        have "vad_answer v False ?f d"
          using vad_decision_answer [of I x ?f] q Inr fits(1) vad_answer_settings [OF sx] by simp
        then show ?thesis
          using q x acc eq \<open>st = Inr u\<close> Inr False sx wok(3)
          by (auto simp: vad_outcome_def burst_id_after_def)
      qed
    qed
  qed
qed

lemma speech_vad_new_ok:
  assumes "speech_vad_new pointer d mode hang_ms frames = Inr v" and "detector_in I d"
  shows "vad_ok I v"
proof -
  have policy: "policy_ok (policy_new mode h)" "vp_mode (policy_new mode h) = mode"
    "vp_hang_frames (policy_new mode h) = h" "\<not> vp_raw (policy_new mode h)" for h
    by (simp_all add: policy_new_def policy_ok_def)
  show ?thesis
  proof (cases "mode = 0")
    case True
    then show ?thesis using assms(1) policy by (auto simp: speech_vad_new_def vad_ok_def split: if_splits)
  next
    case False
    then obtain client a where c: "src_from_descriptor pointer frames = Inr client"
      "active_rearm \<lparr>ac_client = client, ac_detector = d, ac_frame = silent_frame, ac_used = 0,
        ac_input = replicate frames fp_zero, ac_origin = 0\<rparr> = (a, Inr ())"
      "v = \<lparr>sv_mode = mode, sv_hang_ms = hang_ms, sv_maximum_native_frames = frames,
        sv_policy = policy_new mode (hang_ms * 48), sv_active = Some a, sv_expected_next = None, sv_needs_rearm = False\<rparr>"
      using assms(1)
      by (auto simp: speech_vad_new_def active_new_def bind_result_def Let_def split: if_splits prod.splits sum.splits)
    have "src_maximum_frames client = frames"
      using c(1) by (auto simp: src_from_descriptor_def bind_result_Inr split: if_splits option.splits)
    then have "active_shape I frames \<lparr>ac_client = client, ac_detector = d, ac_frame = silent_frame, ac_used = 0,
        ac_input = replicate frames fp_zero, ac_origin = 0\<rparr>"
      using assms(2) silent_frame_ok by (simp add: active_shape_def)
    from active_rearm_ok [OF this c(2)] show ?thesis using c(3) policy False by (auto simp: vad_ok_def)
  qed
qed

section \<open>The properties\<close>

definition detector_sample :: "unit speech_detector" where
  "detector_sample = \<lparr>sdt_state = (), sdt_predict = (\<lambda>s frame. (s, fp_zero)), sdt_reset = (\<lambda>s. s)\<rparr>"

definition vad_sample :: "nat \<Rightarrow> (unit, unit) speech_vad" where
  "vad_sample mode = \<lparr>sv_mode = mode, sv_hang_ms = 1000, sv_maximum_native_frames = 960,
     sv_policy = policy_new mode 48000, sv_active = None, sv_expected_next = None, sv_needs_rearm = False\<rparr>"

lemma vad_sample_ok: "vad_ok (\<lambda>_. True) (vad_sample 0)"
  by (simp add: vad_sample_def vad_ok_def policy_new_def policy_ok_def)

lemma vad_sample_span:
  assumes "vad_continues v first \<or> v = vad_sample 0" and "sv_active v = None" and "sv_mode v = 0" and "vad_ok (\<lambda>_. True) v"
    and "vad_accepts v native first"
  shows "\<exists>v' d. vad_process v native True first = (v', Inr d) \<and> vad_continues v' (first + length native) \<and>
    sv_active v' = None \<and> sv_mode v' = 0 \<and> vad_ok (\<lambda>_. True) v'"
proof -
  have disc: "\<not> vad_discontinuous v first"
    using assms(1) by (auto simp: vad_continues_def vad_sample_def vad_discontinuous_def)
  then have "vad_process v native True first = vad_qualified v native first (first + length native)"
    using assms(5) by (auto simp: vad_process_def vad_accepts_def checked_u64_def)
  moreover have "sv_active (vad_open_burst v first) = None" using assms(2) by (simp add: vad_open_burst_def)
  ultimately obtain v' d where p: "vad_process v native True first = (v', Inr d)" "sv_active v' = None"
    "\<not> sv_needs_rearm v'"
    using disc by (auto simp: vad_qualified_def vad_open_burst_def vad_discontinuous_def Let_def)
  with vad_process_ok [OF assms(4), of native True first] assms(3) show ?thesis
    by (auto simp: vad_outcome_def settings_equal_def vad_continues_def vad_discontinuous_def Let_def)
qed

text \<open>C35: the speech detector fails closed.  A span that is empty, not finite, longer than the
  prepared maximum or past the end of the sample clock is refused and changes nothing.  On any other
  span the only error is PROVIDER_FAILED: then the burst is closed, no sample is expected next, and the
  analyser is what re-arming left of it, flagged for another re-arming exactly when that failed.
  A span that is answered leaves no flag behind, even when it found one, and expects the sample after
  it; if it is not raw qualified the answer admits nothing and reports no voice.  The invariant kept in
  both cases says that the converter has
  accepted exactly the frames of the burst, that the last voice lies inside it, and that the classifier
  only ever sees full frames of 256 samples between -1 and 1: any set of its states that it cannot
  leave on such frames is never left.\<close>

theorem vad_fails_closed:
  assumes "vad_ok I v"
  shows "\<exists>v' r. vad_process v native raw first = (v', r) \<and> vad_ok I v' \<and> settings_equal v v' \<and>
    (if vad_accepts v native first
     then (case r of
         Inl e \<Rightarrow> e = PROVIDER_FAILED \<and> \<not> vp_raw (sv_policy v') \<and> sv_expected_next v' = None \<and>
           (\<exists>a b status. sv_active v' = Some b \<and> active_rearm a = (b, status) \<and>
              (sv_needs_rearm v' \<longleftrightarrow> status \<noteq> Inr ()))
       | Inr d \<Rightarrow> sv_expected_next v' = Some (first + length native) \<and> vp_raw (sv_policy v') = raw \<and>
           \<not> sv_needs_rearm v' \<and> (vd_admitted d \<or> vd_voice_active d \<longrightarrow> raw))
     else v' = v \<and> (r = Inl INVALID_ARGUMENT \<or> r = Inl FRAME_COUNT_EXCEEDED))"
proof -
  obtain v' r where p: "vad_process v native raw first = (v', r)" by fastforce
  note o = vad_process_ok [OF assms, of native raw first, unfolded p vad_outcome_def vad_shut_def vad_answer_def Let_def prod.case]
  show ?thesis
  proof (cases r)
    case (Inl e)
    with o show ?thesis unfolding p by (simp split: if_splits)
  next
    case (Inr d)
    with o show ?thesis unfolding p by (simp split: if_splits)
  qed
qed

theorem vad_fails_closed_witness:
  "\<exists>v' r. vad_process (vad_sample 0) [NaN] True 5 = (v', r) \<and> v' = vad_sample 0"
  using vad_fails_closed [OF vad_sample_ok, of "[NaN]" True 5] by (auto simp: vad_accepts_def)

text \<open>C36: a span is admitted exactly when it is raw qualified and the policy of the mode holds: mode 0
  admits every burst, mode 1 a burst in which a voice was heard, mode 2 while a voice is heard or
  fewer than 48 frames per millisecond of the hang lie between the last voiced frame and the end of
  the span.  The last voice reported lies inside the stream so far, and the burst number is the
  previous one when the span continues the burst and the next one, never zero, when it opens one.\<close>

theorem vad_admits:
  assumes "vad_ok I v" and "vad_process v native raw first = (v', Inr d)"
  shows "(vd_admitted d \<longleftrightarrow> raw \<and>
      (if sv_mode v = 0 then True
       else if sv_mode v = 1 then vd_last_voice_sample_index d \<noteq> None
       else vd_voice_active d \<or> (\<exists>q. vd_last_voice_sample_index d = Some q \<and>
         first + length native < q + 1 + sv_hang_ms v * 48))) \<and>
    (case vd_last_voice_sample_index d of None \<Rightarrow> True | Some q \<Rightarrow> raw \<and> q < first + length native) \<and>
    vd_rf_burst_id d = (if raw \<and> \<not> vad_continues v first
      then (if vp_rf_burst_id (sv_policy v) mod 2 ^ 64 = 2 ^ 64 - 1 then 1 else (vp_rf_burst_id (sv_policy v) + 1) mod 2 ^ 64)
      else vp_rf_burst_id (sv_policy v))"
proof -
  have wrap: "next_burst_id i = (if i mod 2 ^ 64 = 2 ^ 64 - 1 then 1 else (i + 1) mod 2 ^ 64)" for i
    by (simp add: next_burst_id_def u64_max_def mod_Suc max_def)
  show ?thesis
    using vad_process_ok [OF assms(1), of native raw first] assms(2)
    by (auto simp: vad_outcome_def vad_answer_def vad_admission_def burst_id_after_def wrap Let_def split: option.splits)
qed

theorem vad_admits_witness:
  "\<exists>v' d. vad_process (vad_sample 0) [fp_zero] True 5 = (v', Inr d) \<and> vd_admitted d \<and> vd_rf_burst_id d = 1"
proof -
  have "vad_accepts (vad_sample 0) [fp_zero] 5" by (simp add: vad_accepts_def vad_sample_def fp_zero_def u64_max_def)
  then obtain v' d where p: "vad_process (vad_sample 0) [fp_zero] True 5 = (v', Inr d)"
    using vad_sample_span [of "vad_sample 0" 5 "[fp_zero]"] vad_sample_ok by (auto simp: vad_sample_def)
  have "vd_admitted d \<and> vd_rf_burst_id d = 1"
    using vad_admits [OF vad_sample_ok p] by (auto simp: vad_sample_def vad_continues_def policy_new_def)
  with p show ?thesis by blast
qed

text \<open>A burst: contiguous raw-qualified spans.\<close>

fun vad_burst ::
  "('h, 'n) speech_vad \<Rightarrow> nat \<Rightarrow> f32 list list \<Rightarrow> (('h, 'n) speech_vad \<times> vad_decision list) option" where
  "vad_burst v first [] = Some (v, [])"
| "vad_burst v first (native # spans) =
     (case vad_process v native True first of
        (v', Inr d) \<Rightarrow> map_option (\<lambda>(w, ds). (w, d # ds)) (vad_burst v' (first + length native) spans)
      | _ \<Rightarrow> None)"

lemma vad_burst_step:
  assumes "vad_ok I v" and "vad_process v native True first = (v', Inr d)"
  shows "vad_ok I v'" and "settings_equal v v'" and "vad_continues v' (first + length native)"
    and "vp_rf_burst_id (sv_policy v') = vd_rf_burst_id d"
    and "vp_last_voice (sv_policy v') = vd_last_voice_sample_index d"
    and "vd_admitted d \<Longrightarrow> sv_mode v \<le> 1 \<Longrightarrow> sv_mode v = 1 \<longrightarrow> vd_last_voice_sample_index d \<noteq> None"
    and "vad_continues v first \<Longrightarrow> vd_rf_burst_id d = vp_rf_burst_id (sv_policy v)"
    and "vad_continues v first \<Longrightarrow> vp_last_voice (sv_policy v) \<noteq> None \<Longrightarrow> vd_last_voice_sample_index d \<noteq> None"
    and "sv_mode v \<le> 1 \<Longrightarrow> sv_mode v = 0 \<or> vd_last_voice_sample_index d \<noteq> None \<Longrightarrow> vd_admitted d"
  using vad_process_ok [OF assms(1), of native True first] assms(2)
  by (auto simp: vad_outcome_def vad_answer_def vad_admission_def burst_id_after_def vad_continues_def
      vad_discontinuous_def vad_ok_def Let_def)

lemma vad_burst_keeps:
  assumes "vad_ok I v" and "vad_continues v first" and "vad_burst v first spans = Some (w, ds)" and "d \<in> set ds"
  shows "vd_rf_burst_id d = vp_rf_burst_id (sv_policy v) \<and>
    (sv_mode v \<le> 1 \<and> (sv_mode v = 0 \<or> vp_last_voice (sv_policy v) \<noteq> None) \<longrightarrow> vd_admitted d)"
  using assms
proof (induction spans arbitrary: v first ds)
  case Nil
  then show ?case by simp
next
  case (Cons native spans)
  then obtain v' e es where s: "vad_process v native True first = (v', Inr e)"
    "vad_burst v' (first + length native) spans = Some (w, es)" "ds = e # es"
    by (auto split: prod.splits sum.splits)
  note b = vad_burst_step [OF Cons.prems(1) s(1)]
  have mode: "sv_mode v' = sv_mode v" using b(2) by (simp add: settings_equal_def)
  show ?case
  proof (cases "d = e")
    case True
    then show ?thesis using b(7-9) Cons.prems(2) by auto
  next
    case False
    then have "d \<in> set es" using Cons.prems(4) s(3) by simp
    from Cons.IH [OF b(1,3) s(2) this] show ?thesis using b(4,5,7,8) Cons.prems(2) mode by auto
  qed
qed

text \<open>One burst carries one number, and admission latches.  Over contiguous raw-qualified spans all
  decisions carry the same burst number, and in modes 0 and 1 a span that follows an admitted one is
  admitted.\<close>

theorem vad_burst_latched:
  assumes "vad_ok I v" and "vad_burst v first spans = Some (w, ds)" and "i \<le> j" and "j < length ds"
  shows "vd_rf_burst_id (ds ! i) = vd_rf_burst_id (ds ! j) \<and>
    (sv_mode v \<le> 1 \<and> vd_admitted (ds ! i) \<longrightarrow> vd_admitted (ds ! j))"
  using assms
proof (induction spans arbitrary: v first ds i j)
  case Nil
  then show ?case by simp
next
  case (Cons native spans)
  then obtain v' e es where s: "vad_process v native True first = (v', Inr e)"
    "vad_burst v' (first + length native) spans = Some (w, es)" "ds = e # es"
    by (auto split: prod.splits sum.splits)
  note b = vad_burst_step [OF Cons.prems(1) s(1)]
  have mode: "sv_mode v' = sv_mode v" using b(2) by (simp add: settings_equal_def)
  show ?case
  proof (cases i)
    case 0
    show ?thesis
    proof (cases j)
      case 0
      with \<open>i = 0\<close> show ?thesis by simp
    next
      case (Suc m)
      then have "es ! m \<in> set es" using Cons.prems(4) s(3) by simp
      from vad_burst_keeps [OF b(1,3) s(2) this] show ?thesis
        using \<open>i = 0\<close> Suc s(3) b(4-6) mode by auto
    qed
  next
    case (Suc m)
    then obtain k where "j = Suc k" using Cons.prems(3) by (cases j) auto
    with Suc Cons.IH [OF b(1) s(2), of m k] Cons.prems(3,4) s(3) mode show ?thesis by simp
  qed
qed

theorem vad_burst_latched_witness:
  "\<exists>w ds. vad_burst (vad_sample 0) 7 [[fp_zero], [fp_zero, fp_zero]] = Some (w, ds) \<and>
    vd_rf_burst_id (ds ! 0) = vd_rf_burst_id (ds ! 1)"
proof -
  have a: "vad_accepts (vad_sample 0) [fp_zero] 7" by (simp add: vad_accepts_def vad_sample_def fp_zero_def u64_max_def)
  obtain v d where v: "vad_process (vad_sample 0) [fp_zero] True 7 = (v, Inr d)" "vad_continues v 8"
      "sv_active v = None" "sv_mode v = 0" "vad_ok (\<lambda>_. True) v"
    using vad_sample_span [of "vad_sample 0" 7 "[fp_zero]"] vad_sample_ok a by (auto simp: vad_sample_def)
  have "settings_equal (vad_sample 0) v" by (rule vad_burst_step(2) [OF vad_sample_ok v(1)])
  then have "vad_accepts v [fp_zero, fp_zero] 8"
    by (simp add: vad_accepts_def settings_equal_def vad_sample_def fp_zero_def u64_max_def)
  then obtain w e where "vad_process v [fp_zero, fp_zero] True 8 = (w, Inr e)"
    using vad_sample_span [of v 8 "[fp_zero, fp_zero]"] v by auto
  with v(1) have b: "vad_burst (vad_sample 0) 7 [[fp_zero], [fp_zero, fp_zero]] = Some (w, [d, e])" by simp
  then show ?thesis using vad_burst_latched [OF vad_sample_ok b, of 0 1] by auto
qed

end
