(* ===== verification/Test_Tone.thy ===== *)
theory Test_Tone
  imports Soft_Float
begin

text \<open>
  The calibrated transmitter test tone (\<open>src/calibrated_test_tone.rs\<close>).  The sine of the platform's
  math library is a parameter.  \<open>TONE_TAU\<close> is the double nearest to twice pi.
\<close>

definition NATIVE_RATE_HZ :: f64 where "NATIVE_RATE_HZ = Finite False 48000"
definition FREQUENCY_HZ :: f64 where "FREQUENCY_HZ = Finite False 1000"
definition PEAK_PCM_CODES :: f64 where "PEAK_PCM_CODES = Finite False 7518"
definition PCM_CODE_SCALE :: f64 where "PCM_CODE_SCALE = Finite False 32767"
definition TONE_TAU :: f64 where "TONE_TAU = Finite False (884279719003555 / 140737488355328)"

record tone_state =
  tone_phase_radians :: f64

definition tone_state_default :: tone_state where
  "tone_state_default = \<lparr>tone_phase_radians = fp_zero\<rparr>"

definition tone_step :: f64 where
  "tone_step = fp_div binary64 (fp_mul binary64 TONE_TAU FREQUENCY_HZ) NATIVE_RATE_HZ"

definition tone_sample :: "(f64 \<Rightarrow> f64) \<Rightarrow> f64 \<Rightarrow> f32" where
  "tone_sample sine phase =
     fp_narrow binary32 (fp_div binary64 (fp_mul binary64 PEAK_PCM_CODES (sine phase)) PCM_CODE_SCALE)"

definition tone_advance :: "f64 \<Rightarrow> f64" where
  "tone_advance phase =
     (let phase = fp_add binary64 phase tone_step
      in if fp_le TONE_TAU phase then fp_sub binary64 phase TONE_TAU else phase)"

fun tone_samples :: "(f64 \<Rightarrow> f64) \<Rightarrow> nat \<Rightarrow> f64 \<Rightarrow> f64 \<times> f32 list" where
  "tone_samples sine 0 phase = (phase, [])"
| "tone_samples sine (Suc frames) phase =
     (let (finish, samples) = tone_samples sine frames (tone_advance phase)
      in (finish, tone_sample sine phase # samples))"

text \<open>The span that is replaced is the beginning of the buffer.\<close>

definition tone_render ::
  "(f64 \<Rightarrow> f64) \<Rightarrow> tone_state \<Rightarrow> f32 list \<Rightarrow> nat \<Rightarrow> nat \<Rightarrow> tone_state \<times> f32 list" where
  "tone_render sine s program frame_count enabled =
     (if enabled = 0 then (s\<lparr>tone_phase_radians := fp_zero\<rparr>, program)
      else
        let (phase, samples) = tone_samples sine frame_count (tone_phase_radians s)
        in (s\<lparr>tone_phase_radians := phase\<rparr>, samples @ drop frame_count program))"

lemma length_tone_samples [simp]: "length (snd (tone_samples sine n phase)) = n"
  by (induction n arbitrary: phase) (auto simp: case_prod_beta)

lemma tone_samples_add:
  "tone_samples sine (m + n) phase =
     (let (p, xs) = tone_samples sine m phase; (q, ys) = tone_samples sine n p in (q, xs @ ys))"
  by (induction m arbitrary: phase) (auto simp: case_prod_beta Let_def)

text \<open>The test tone does not depend on how its frames are cut into callbacks, and every span that is
  rendered after the tone was switched off begins at the zero crossing.\<close>

lemma test_tone_partition:
  assumes "enabled \<noteq> 0" and "length first = m" and "length second = n"
  shows "(let (s1, out1) = tone_render sine s first m enabled; (s2, out2) = tone_render sine s1 second n enabled
      in (s2, out1 @ out2)) = tone_render sine s (first @ second) (m + n) enabled"
    and "tone_render sine (fst (tone_render sine s first m 0)) second n enabled =
      tone_render sine tone_state_default second n enabled"
  using assms
  by (simp_all add: tone_render_def tone_samples_add tone_state_default_def case_prod_beta Let_def)

end
