(* ===== verification/Session_Config.thy ===== *)
theory Session_Config
  imports Receive_Path Receive_Profiles Receive_Qualification Transmit_Signaling
begin

text \<open>
  The configuration of a session (the first part of \<open>src/session.rs\<close>) and the operator profile over it
  (\<open>src/profile.rs\<close>).  \<open>rcf_\<close>, \<open>qcf_\<close>, \<open>tcf_\<close> and \<open>scf_\<close> are the fields of \<open>ReceiveConfig\<close>,
  \<open>QualificationConfig\<close>, \<open>TransmitConfig\<close> and \<open>SessionConfig\<close>; \<open>prf_\<close>, \<open>pcp_\<close> and \<open>vpr_\<close> those of \<open>Profile\<close>,
  \<open>ProfileCapabilities\<close> and \<open>ValidatedProfile\<close>.  A null pointer is \<open>None\<close>.  The sizes are those of the
  \<open>repr(C)\<close> records on a 64-bit target.
\<close>

definition CANONICAL_CHANNELS :: nat where "CANONICAL_CHANNELS = 2"
definition ABI_VERSION :: nat where "ABI_VERSION = 5"
definition VAD_PREROLL_FRAMES :: nat where "VAD_PREROLL_FRAMES = 7680"
definition MAX_SIGNED_PCM_LEVEL :: nat where "MAX_SIGNED_PCM_LEVEL = 32767"

definition VALID_CTCSS_TONE_MASK :: "64 word" where
  "VALID_CTCSS_TONE_MASK = push_bit TONE_COUNT 1 - 1"

unbundle bit_operations_syntax

section \<open>Records\<close>

record receive_config =
  rcf_noise_filter_profile :: nat
  rcf_squelch_open_level :: nat
  rcf_squelch_hysteresis :: nat
  rcf_ctcss_decoder_gain :: f32
  rcf_vox_threshold :: int
  rcf_vox_hang_ms :: int
  rcf_ctcss_enabled :: nat
  rcf_ctcss_tone_mask :: "64 word"
  rcf_ctcss_relax :: nat
  rcf_dcs_enabled :: nat
  rcf_dcs_code :: int
  rcf_dcs_inverted :: nat
  rcf_cpu_saver_enabled :: nat
  rcf_native_squelch_delay_frames :: nat
  rcf_vad_mode :: nat
  rcf_vad_hang_ms :: nat
  rcf_vad_external_delay :: nat

definition receive_config_default :: receive_config where
  "receive_config_default = \<lparr>rcf_noise_filter_profile = 0, rcf_squelch_open_level = 0,
     rcf_squelch_hysteresis = 0, rcf_ctcss_decoder_gain = fp_zero, rcf_vox_threshold = 0, rcf_vox_hang_ms = 0,
     rcf_ctcss_enabled = 0, rcf_ctcss_tone_mask = 0, rcf_ctcss_relax = 0, rcf_dcs_enabled = 0, rcf_dcs_code = 0,
     rcf_dcs_inverted = 0, rcf_cpu_saver_enabled = 0, rcf_native_squelch_delay_frames = 0, rcf_vad_mode = 0,
     rcf_vad_hang_ms = 1000, rcf_vad_external_delay = 0\<rparr>"

record qualification_setup =
  qcf_carrier_source :: nat
  qcf_subaudible_source :: nat
  qcf_subaudible_override :: nat
  qcf_advanced_transport :: nat
  qcf_radio_duplex :: nat
  qcf_rx_on_delay_blocks :: nat
  qcf_tx_off_delay_blocks :: nat

record transmit_config =
  tcf_ctcss_transmit_enabled :: nat
  tcf_default_ctcss_frequency_tenths_hz :: int
  tcf_mapped_ctcss_frequency_tenths_hz :: "int list"
  tcf_tone_off_mode :: nat
  tcf_ctcss_turnoff_duration_ms :: int
  tcf_ctcss_turnoff_phase_shift_degrees :: f64
  tcf_ctcss_turnoff_tail_tone_hz :: f64
  tcf_dcs_transmit_enabled :: nat
  tcf_dcs_turnoff_enabled :: nat
  tcf_dcs_turnoff_duration_ms :: int
  tcf_receiver_blanking_ms :: int
  tcf_tx_settle_time_ms :: int
  tcf_cpu_saver_enabled :: nat
  tcf_dcs_code :: int
  tcf_dcs_inverted :: nat
  tcf_dcs_peak :: f32
  tcf_ctcss_peak :: f32
  tcf_output_a_route :: nat
  tcf_output_b_route :: nat
  tcf_output_a_tone_gain :: f32
  tcf_output_a_tone_bias :: f32
  tcf_output_b_tone_gain :: f32
  tcf_output_b_tone_bias :: f32

definition transmit_config_default :: transmit_config where
  "transmit_config_default = \<lparr>tcf_ctcss_transmit_enabled = 0, tcf_default_ctcss_frequency_tenths_hz = 0,
     tcf_mapped_ctcss_frequency_tenths_hz = replicate TONE_COUNT 0, tcf_tone_off_mode = 0,
     tcf_ctcss_turnoff_duration_ms = 0, tcf_ctcss_turnoff_phase_shift_degrees = fp_zero,
     tcf_ctcss_turnoff_tail_tone_hz = fp_zero, tcf_dcs_transmit_enabled = 0, tcf_dcs_turnoff_enabled = 0,
     tcf_dcs_turnoff_duration_ms = 0, tcf_receiver_blanking_ms = 0, tcf_tx_settle_time_ms = 0,
     tcf_cpu_saver_enabled = 0, tcf_dcs_code = 0, tcf_dcs_inverted = 0, tcf_dcs_peak = fp_zero,
     tcf_ctcss_peak = fp_zero, tcf_output_a_route = 0, tcf_output_b_route = 0, tcf_output_a_tone_gain = fp_zero,
     tcf_output_a_tone_bias = fp_zero, tcf_output_b_tone_gain = fp_zero, tcf_output_b_tone_bias = fp_zero\<rparr>"

record session_config =
  scf_struct_size :: nat
  scf_abi_version :: nat
  scf_generation_id :: nat
  scf_native_sample_rate_hz :: nat
  scf_interleaved_channels :: nat
  scf_maximum_receive_frame_count :: nat
  scf_maximum_transmit_frame_count :: nat
  scf_publication_interval_ms :: nat
  scf_receive_channel :: nat
  scf_receive_input_gain :: f32
  scf_receive :: receive_config
  scf_qualification :: qualification_setup
  scf_transmit :: transmit_config

definition SESSION_CONFIG_SIZE :: nat where "SESSION_CONFIG_SIZE = 408"

section \<open>Checked scalars\<close>

definition bool32 :: "nat \<Rightarrow> bool result" where
  "bool32 value = (if value = 0 then Inr False else if value = 1 then Inr True else Inl INVALID_ARGUMENT)"

definition Q8_SCALE :: f32 where "Q8_SCALE = fp_of_int binary32 256"

definition q8_gain :: "f32 \<Rightarrow> int result" where
  "q8_gain value =
     (if \<not> is_finite value \<or> fp_lt value fp_zero \<or>
         fp_lt (fp_div binary32 (fp_of_int binary32 2147483647) Q8_SCALE) value
      then Inl INVALID_ARGUMENT
      else Inr (fp_to_int (-2147483648) 2147483647 (fp_nearest (fp_mul binary32 value Q8_SCALE))))"

definition try_i16 :: "int \<Rightarrow> int result" where
  "try_i16 value = (if in_i16 value then Inr value else Inl INVALID_ARGUMENT)"

definition carrier_source_of :: "nat \<Rightarrow> carrier_source result" where
  "carrier_source_of value =
     (if value = 0 then Inr CarrierIgnore
      else if value = 1 then Inr CarrierDspNoise
      else if value = 2 then Inr CarrierDspVox
      else if value = 3 then Inr CarrierHardware
      else if value = 4 then Inr CarrierHardwareInverted
      else if value = 5 then Inr CarrierParallel
      else if value = 6 then Inr CarrierParallelInverted
      else if value = 7 then Inr CarrierExternal
      else if value = 8 then Inr CarrierOpen
      else Inl INVALID_ARGUMENT)"

definition subaudible_source_of :: "nat \<Rightarrow> subaudible_source result" where
  "subaudible_source_of value =
     (if value = 0 then Inr SubaudibleIgnore
      else if value = 1 then Inr SubaudibleHardware
      else if value = 2 then Inr SubaudibleHardwareInverted
      else if value = 3 then Inr SubaudibleDsp
      else if value = 4 then Inr SubaudibleParallel
      else if value = 5 then Inr SubaudibleParallelInverted
      else Inl INVALID_ARGUMENT)"

definition tone_off_mode_of :: "nat \<Rightarrow> tone_off_mode result" where
  "tone_off_mode_of value =
     (if value = 0 then Inr ToneOffNone
      else if value = 1 then Inr PhaseShift
      else if value = 2 then Inr ToneRemove
      else if value = 3 then Inr TailTone
      else Inl INVALID_ARGUMENT)"

datatype output_route = Disabled | Voice | Tone | Composite | AuxiliaryVoice

definition output_route_parse :: "nat \<Rightarrow> output_route result" where
  "output_route_parse value =
     (if value = 0 then Inr Disabled
      else if value = 1 then Inr Voice
      else if value = 2 then Inr Tone
      else if value = 3 then Inr Composite
      else if value = 4 then Inr AuxiliaryVoice
      else Inl INVALID_ARGUMENT)"

fun route_voice :: "output_route \<Rightarrow> bool" where
  "route_voice Voice = True"
| "route_voice Composite = True"
| "route_voice AuxiliaryVoice = True"
| "route_voice _ = False"

fun route_tone :: "output_route \<Rightarrow> bool" where
  "route_tone Tone = True"
| "route_tone Composite = True"
| "route_tone _ = False"

section \<open>The receive configuration\<close>

text \<open>The range checks in their order: the DCS code is asked of the provider last, and only when DCS is
  enabled.\<close>

definition receive_levels_rejected ::
  "('r, 't) dcs_descriptor option \<Rightarrow> receive_config \<Rightarrow> bool \<Rightarrow> bool \<Rightarrow> bool fallible" where
  "receive_levels_rejected dcs rx ctcss_on dcs_on =
     (if MAX_SIGNED_PCM_LEVEL < rcf_squelch_open_level rx \<or>
         MAX_SIGNED_PCM_LEVEL < rcf_squelch_hysteresis rx \<or>
         rcf_vox_threshold rx < 0 \<or>
         \<not> (0 \<le> rcf_vox_hang_ms rx \<and> rcf_vox_hang_ms rx \<le> 32767) \<or>
         rcf_ctcss_tone_mask rx AND NOT VALID_CTCSS_TONE_MASK \<noteq> 0 \<or>
         ctcss_on \<and> dcs_on
      then Some (Inr True)
      else if dcs_on
      then bind_fallible (code_supported dcs (rcf_dcs_code rx)) (\<lambda>supported. Some (Inr (\<not> supported)))
      else Some (Inr False))"

definition qualification_of :: "carrier_source \<Rightarrow> qualification_setup \<Rightarrow> qualification_config result" where
  "qualification_of selected_carrier q =
     bind_result (subaudible_source_of (qcf_subaudible_source q)) (\<lambda>subaudible.
     bind_result (bool32 (qcf_subaudible_override q)) (\<lambda>override.
     bind_result (bool32 (qcf_advanced_transport q)) (\<lambda>advanced_transport.
     bind_result (bool32 (qcf_radio_duplex q)) (\<lambda>radio_duplex.
     Inr \<lparr>qc_carrier_source = selected_carrier, qc_subaudible_source = subaudible,
          qc_subaudible_override = override, qc_advanced_transport = advanced_transport,
          qc_radio_duplex = radio_duplex, qc_rx_on_delay_frames = qcf_rx_on_delay_blocks q,
          qc_tx_off_delay_frames = qcf_tx_off_delay_blocks q\<rparr>))))"

definition then_some :: "bool \<Rightarrow> 'a \<Rightarrow> 'a option" where
  "then_some c x = (if c then Some x else None)"

definition session_frontend :: "receive_config \<Rightarrow> filter_profile \<Rightarrow> carrier_source \<Rightarrow> frontend_config" where
  "session_frontend rx noise selected_carrier =
     \<lparr>fec_baseband_coefficients = fp_coefficients BASEBAND, fec_baseband_calc_adjust = fp_divisor BASEBAND,
      fec_baseband_output_gain = 256, fec_noise_coefficients = fp_coefficients noise,
      fec_noise_divisor = fp_divisor noise, fec_decimate = 6, fec_calibration_window = 960,
      fec_open_level = rcf_squelch_open_level rx, fec_hysteresis = rcf_squelch_hysteresis rx,
      fec_noise_squelch = (selected_carrier = CarrierDspNoise)\<rparr>"

definition session_path_config ::
  "session_config \<Rightarrow> filter_profile \<Rightarrow> carrier_source \<Rightarrow> int \<Rightarrow> int \<Rightarrow> bool \<Rightarrow> bool \<Rightarrow> bool \<Rightarrow> bool \<Rightarrow> path_config" where
  "session_path_config config noise selected_carrier decoder_gain vox_threshold ctcss_on relax dcs_on dcs_inverted =
     (let rx = scf_receive config; ctcss = ctcss_profile (rcf_ctcss_tone_mask rx)
      in \<lparr>pc_native_sample_rate_hz = scf_native_sample_rate_hz config,
          pc_maximum_native_frames = scf_maximum_receive_frame_count config,
          pc_frontend = session_frontend rx noise selected_carrier,
          pc_lsd_filter = \<lparr>flt_coefficients = fp_coefficients ctcss, flt_input_gain = 256,
            flt_output_gain = decoder_gain, flt_calc_adjust = fp_divisor ctcss\<rparr>,
          pc_hpf_filter = None,
          pc_center_slicer = then_some ctcss_on
            \<lparr>csc_limit = 625, csc_setpoint = 4900, csc_decay_factor = 5, csc_trace = False\<rparr>,
          pc_deemphasis = None,
          pc_delay = None,
          pc_vox = then_some (selected_carrier = CarrierDspVox)
            \<lparr>vxc_envelope = \<lparr>evc_decay_factor = 3, evc_threshold = vox_threshold\<rparr>,
             vxc_hang_time_ms = rcf_vox_hang_ms rx\<rparr>,
          pc_measurement = None,
          pc_ctcss = then_some ctcss_on \<lparr>ctc_tone_mask = rcf_ctcss_tone_mask rx, ctc_relax = relax\<rparr>,
          pc_dcs = then_some dcs_on \<lparr>dcc_code = rcf_dcs_code rx, dcc_inverted = dcs_inverted\<rparr>\<rparr>)"

text \<open>\<open>then_some\<close> evaluates its argument, so the relax and polarity flags are checked even when their
  decoder is off.\<close>

definition receive_config_of ::
  "('r, 't) dcs_descriptor option \<Rightarrow> session_config \<Rightarrow>
     (path_config \<times> qualification_config \<times> bool \<times> bool \<times> bool) fallible" where
  "receive_config_of dcs config =
     (let rx = scf_receive config
      in bind_setup (case noise_profile (rcf_noise_filter_profile rx) of
             None \<Rightarrow> Inl INVALID_ARGUMENT | Some noise \<Rightarrow> Inr noise) (\<lambda>noise.
         bind_setup (bool32 (rcf_ctcss_enabled rx)) (\<lambda>ctcss_on.
         bind_setup (bool32 (rcf_dcs_enabled rx)) (\<lambda>dcs_on.
         bind_setup (bool32 (rcf_cpu_saver_enabled rx)) (\<lambda>cpu_saver_enabled.
         bind_setup (q8_gain (rcf_ctcss_decoder_gain rx)) (\<lambda>decoder_gain.
         bind_setup (try_i16 (rcf_vox_threshold rx)) (\<lambda>vox_threshold.
         bind_setup (carrier_source_of (qcf_carrier_source (scf_qualification config))) (\<lambda>selected_carrier.
         bind_fallible (receive_levels_rejected dcs rx ctcss_on dcs_on) (\<lambda>rejected.
         if rejected then Some (Inl INVALID_ARGUMENT)
         else
           bind_setup (qualification_of selected_carrier (scf_qualification config)) (\<lambda>qualification.
           bind_setup (bool32 (rcf_ctcss_relax rx)) (\<lambda>relax.
           bind_setup (bool32 (rcf_dcs_inverted rx)) (\<lambda>dcs_inverted.
           Some (Inr (session_path_config config noise selected_carrier decoder_gain vox_threshold
                        ctcss_on relax dcs_on dcs_inverted,
                      qualification, cpu_saver_enabled, ctcss_on, dcs_on))))))))))))))"

section \<open>The transmit configuration\<close>

definition unit_interval :: "f32 \<Rightarrow> bool" where
  "unit_interval x \<longleftrightarrow> is_finite x \<and> fp_le fp_zero x \<and> fp_le x (fp_of_int binary32 1)"

definition transmit_levels_rejected ::
  "('r, 't) dcs_descriptor option \<Rightarrow> transmit_config \<Rightarrow> bool \<Rightarrow> bool \<Rightarrow> bool fallible" where
  "transmit_levels_rejected dcs config ctcss_on dcs_on =
     bind_fallible
       (if dcs_on
        then if ctcss_on then Some (Inr True)
          else bind_fallible (code_supported dcs (tcf_dcs_code config)) (\<lambda>supported. Some (Inr (\<not> supported)))
        else Some (Inr False))
       (\<lambda>rejected. Some (Inr (rejected \<or> \<not> unit_interval (tcf_ctcss_peak config) \<or> \<not> unit_interval (tcf_dcs_peak config))))"

definition session_signaling :: "transmit_config \<Rightarrow> tone_off_mode \<Rightarrow> bool \<Rightarrow> bool \<Rightarrow> bool \<Rightarrow> ts_config" where
  "session_signaling config mode dcs_on dcs_turnoff_enabled cpu_saver_enabled =
     \<lparr>tsc_external_ctcss = False,
      tsc_signal_mode = \<lparr>smc_hold_ms = 2500, smc_ctcss_tx_enabled = tcf_ctcss_transmit_enabled config,
        smc_default_tx_ctcss_frequency_tenths_hz = tcf_default_ctcss_frequency_tenths_hz config,
        smc_mapped_tx_ctcss_frequency_tenths_hz = tcf_mapped_ctcss_frequency_tenths_hz config\<rparr>,
      tsc_dcs_turnoff = \<lparr>dtc_turnoff_duration_ms = tcf_dcs_turnoff_duration_ms config\<rparr>,
      tsc_ctcss_render = \<lparr>crc_turnoff_duration_ms = tcf_ctcss_turnoff_duration_ms config,
        crc_turnoff_phase_shift_degrees = tcf_ctcss_turnoff_phase_shift_degrees config,
        crc_turnoff_tail_tone_hz = tcf_ctcss_turnoff_tail_tone_hz config\<rparr>,
      tsc_tx_complete = \<lparr>tcc_txrx_blanking_time_ms = tcf_receiver_blanking_ms config\<rparr>,
      tsc_tone_off_mode = mode,
      tsc_dcs_transmit_enabled = dcs_on,
      tsc_dcs_turnoff_enabled = dcs_turnoff_enabled,
      tsc_tx_settle_time_ms = tcf_tx_settle_time_ms config,
      tsc_tx_cpu_saver_enabled = cpu_saver_enabled\<rparr>"

definition transmit_config_of ::
  "('r, 't) dcs_descriptor option \<Rightarrow> transmit_config \<Rightarrow>
     (ts_config \<times> bool \<times> output_route \<times> output_route) fallible" where
  "transmit_config_of dcs config =
     bind_setup (bool32 (tcf_ctcss_transmit_enabled config)) (\<lambda>ctcss_on.
     bind_setup (bool32 (tcf_dcs_transmit_enabled config)) (\<lambda>dcs_on.
     bind_setup (bool32 (tcf_dcs_inverted config)) (\<lambda>_.
     bind_fallible (transmit_levels_rejected dcs config ctcss_on dcs_on) (\<lambda>rejected.
     if rejected then Some (Inl INVALID_ARGUMENT)
     else
       bind_setup (tone_off_mode_of (tcf_tone_off_mode config)) (\<lambda>mode.
       bind_setup (bool32 (tcf_dcs_turnoff_enabled config)) (\<lambda>dcs_turnoff_enabled.
       bind_setup (bool32 (tcf_cpu_saver_enabled config)) (\<lambda>cpu_saver_enabled.
       bind_setup (output_route_parse (tcf_output_a_route config)) (\<lambda>output_a.
       bind_setup (output_route_parse (tcf_output_b_route config)) (\<lambda>output_b.
       Some (Inr (session_signaling config mode dcs_on dcs_turnoff_enabled cpu_saver_enabled,
                  dcs_on, output_a, output_b)))))))))))"

section \<open>Speech admission mode\<close>

definition effective_vad_mode :: "receive_config \<Rightarrow> qualification_config \<Rightarrow> nat" where
  "effective_vad_mode config qualification =
     (let carrier = qc_carrier_source qualification \<notin> {CarrierIgnore, CarrierOpen};
          tone = (\<not> qc_subaudible_override qualification \<and>
            (if qc_subaudible_source qualification \<in> {SubaudibleIgnore, SubaudibleDsp}
             then rcf_ctcss_enabled config \<noteq> 0 \<or> rcf_dcs_enabled config \<noteq> 0 else True))
      in if rcf_vad_mode config = 1 \<and> \<not> carrier \<and> \<not> tone then 2 else rcf_vad_mode config)"

section \<open>Profiles\<close>

definition PROFILE_DISABLED :: nat where "PROFILE_DISABLED = 0"
definition PROFILE_DSP :: nat where "PROFILE_DSP = 1"
definition PROFILE_EXTERNAL :: nat where "PROFILE_EXTERNAL = 2"
definition PROFILE_SIZE :: nat where "PROFILE_SIZE = 20"
definition PROFILE_CAPABILITIES_SIZE :: nat where "PROFILE_CAPABILITIES_SIZE = 20"

record profile =
  prf_struct_size :: nat
  prf_kind :: nat
  prf_carrier_source :: nat
  prf_ctcss_encode_source :: nat
  prf_ctcss_decode_source :: nat

record profile_capabilities =
  pcp_struct_size :: nat
  pcp_hardware_cor :: nat
  pcp_external_ctcss_decode :: nat
  pcp_external_ctcss_encode :: nat
  pcp_dsp_tone_audio :: nat

record validated_profile =
  vpr_kind :: nat
  vpr_carrier_source :: nat
  vpr_encode :: nat
  vpr_decode :: nat
  vpr_capabilities :: "nat list"

definition profile_malformed :: "profile \<Rightarrow> profile_capabilities \<Rightarrow> bool" where
  "profile_malformed p caps \<longleftrightarrow>
     prf_struct_size p < PROFILE_SIZE \<or> pcp_struct_size caps < PROFILE_CAPABILITIES_SIZE \<or>
     1 < prf_kind p \<or> 1 < prf_carrier_source p \<or>
     PROFILE_EXTERNAL < prf_ctcss_encode_source p \<or> PROFILE_EXTERNAL < prf_ctcss_decode_source p \<or>
     list_ex (\<lambda>value. 1 < value)
       [pcp_hardware_cor caps, pcp_external_ctcss_decode caps, pcp_external_ctcss_encode caps, pcp_dsp_tone_audio caps]"

definition profile_unavailable :: "profile \<Rightarrow> profile_capabilities \<Rightarrow> session_config \<Rightarrow> bool" where
  "profile_unavailable p caps config \<longleftrightarrow>
     (let rx = scf_receive config; tx = scf_transmit config
      in prf_carrier_source p = 0 \<and> pcp_hardware_cor caps = 0 \<or>
         prf_ctcss_decode_source p = PROFILE_EXTERNAL \<and> pcp_external_ctcss_decode caps = 0 \<or>
         prf_ctcss_encode_source p = PROFILE_EXTERNAL \<and> pcp_external_ctcss_encode caps = 0 \<or>
         (prf_ctcss_encode_source p = PROFILE_DSP \<or> tcf_dcs_transmit_enabled tx \<noteq> 0) \<and> pcp_dsp_tone_audio caps = 0 \<or>
         rcf_dcs_enabled rx \<noteq> 0 \<and> prf_ctcss_decode_source p \<noteq> PROFILE_DISABLED \<or>
         tcf_dcs_transmit_enabled tx \<noteq> 0 \<and> prf_ctcss_encode_source p \<noteq> PROFILE_DISABLED)"

definition profile_inconsistent :: "profile \<Rightarrow> session_config \<Rightarrow> bool" where
  "profile_inconsistent p config \<longleftrightarrow>
     (let rx = scf_receive config; tx = scf_transmit config
      in rcf_ctcss_enabled rx \<noteq> of_flag (prf_ctcss_decode_source p = PROFILE_DSP) \<or>
         tcf_ctcss_transmit_enabled tx \<noteq> of_flag (prf_ctcss_encode_source p = PROFILE_DSP) \<or>
         prf_ctcss_decode_source p = PROFILE_DSP \<and> rcf_ctcss_tone_mask rx = 0 \<or>
         prf_ctcss_encode_source p = PROFILE_DSP \<and> tcf_default_ctcss_frequency_tenths_hz tx \<le> 0 \<or>
         (prf_ctcss_encode_source p = PROFILE_DSP \<or> tcf_dcs_transmit_enabled tx \<noteq> 0) \<and>
           \<not> list_ex (\<lambda>v. v = 2 \<or> v = 3) [tcf_output_a_route tx, tcf_output_b_route tx])"

definition profile_external_tone :: "profile \<Rightarrow> session_config \<Rightarrow> bool" where
  "profile_external_tone p config \<longleftrightarrow>
     (let tx = scf_transmit config
      in prf_ctcss_encode_source p = PROFILE_EXTERNAL \<and>
         (tcf_default_ctcss_frequency_tenths_hz tx \<noteq> 0 \<or>
          list_ex (\<lambda>v. v \<noteq> 0) (tcf_mapped_ctcss_frequency_tenths_hz tx) \<or>
          \<not> fp_eq (tcf_ctcss_peak tx) fp_zero \<or>
          \<not> (tcf_tone_off_mode tx = 0 \<or> tcf_tone_off_mode tx = 2) \<or>
          \<not> fp_eq (tcf_ctcss_turnoff_phase_shift_degrees tx) fp_zero \<or>
          \<not> fp_eq (tcf_ctcss_turnoff_tail_tone_hz tx) fp_zero))"

definition validated_profile_new ::
  "profile \<Rightarrow> profile_capabilities \<Rightarrow> session_config \<Rightarrow> validated_profile result" where
  "validated_profile_new p caps config =
     (if profile_malformed p caps then Inl INVALID_ARGUMENT
      else if profile_unavailable p caps config then Inl UNSUPPORTED
      else if profile_inconsistent p config then Inl INVALID_ARGUMENT
      else if profile_external_tone p config then Inl UNSUPPORTED
      else Inr \<lparr>vpr_kind = prf_kind p, vpr_carrier_source = prf_carrier_source p,
                vpr_encode = prf_ctcss_encode_source p, vpr_decode = prf_ctcss_decode_source p,
                vpr_capabilities = [pcp_hardware_cor caps, pcp_external_ctcss_decode caps,
                  pcp_external_ctcss_encode caps, pcp_dsp_tone_audio caps]\<rparr>)"

definition profile_configure :: "validated_profile \<Rightarrow> session_config \<Rightarrow> session_config" where
  "profile_configure p config =
     config\<lparr>scf_qualification := (scf_qualification config)\<lparr>
       qcf_carrier_source := (if vpr_carrier_source p = 0 then 3 else 1),
       qcf_subaudible_source := (if vpr_decode p = PROFILE_EXTERNAL then 1 else 3)\<rparr>\<rparr>"

definition profile_snapshots_valid :: "validated_profile \<Rightarrow> bool \<Rightarrow> bool \<Rightarrow> bool" where
  "profile_snapshots_valid p cor_valid ctcss_valid \<longleftrightarrow>
     (vpr_carrier_source p \<noteq> 0 \<or> cor_valid) \<and> (vpr_decode p \<noteq> PROFILE_EXTERNAL \<or> ctcss_valid)"

text \<open>A sized record fits when its pointer is not null and its size prefix covers it.\<close>

definition record_fits :: "('a \<Rightarrow> nat) \<Rightarrow> nat \<Rightarrow> 'a option \<Rightarrow> bool" where
  "record_fits struct_size full_size pointer \<longleftrightarrow>
     (case pointer of None \<Rightarrow> False | Some r \<Rightarrow> full_size \<le> struct_size r)"

definition validated_profile_of ::
  "session_config option \<Rightarrow> profile option \<Rightarrow> profile_capabilities option \<Rightarrow>
     (session_config \<times> validated_profile) result" where
  "validated_profile_of config profile capabilities =
     (if \<not> (record_fits scf_struct_size SESSION_CONFIG_SIZE config \<and>
            record_fits prf_struct_size PROFILE_SIZE profile \<and>
            record_fits pcp_struct_size PROFILE_CAPABILITIES_SIZE capabilities)
      then Inl INVALID_ARGUMENT
      else case (config, profile, capabilities) of
        (Some config, Some profile, Some capabilities) \<Rightarrow>
          bind_result (validated_profile_new profile capabilities config) (\<lambda>selected.
          Inr (profile_configure selected config, selected))
      | _ \<Rightarrow> Inl INVALID_ARGUMENT)"

section \<open>What an accepted configuration gives\<close>

lemma bool32_Inr: "bool32 v = Inr b \<longleftrightarrow> v = of_flag b"
  by (auto simp: bool32_def of_flag_def)

lemma noise_profile_fits:
  assumes "noise_profile n = Some p"
  shows "fp_coefficients p \<noteq> [] \<and> length (fp_coefficients p) \<le> length (fp_coefficients BASEBAND) \<and> fp_divisor p \<noteq> 0"
  using noise_profile_ok [OF assms] BASEBAND_ok by (auto simp: profile_ok_def)

lemma stage_profile_fits:
  "fp_coefficients BASEBAND \<noteq> []" "fp_divisor BASEBAND \<noteq> 0"
  "fp_coefficients (ctcss_profile m) \<noteq> []" "fp_divisor (ctcss_profile m) \<noteq> 0"
  using BASEBAND_ok ctcss_profile_ok [of m] by (auto simp: profile_ok_def)

lemma receive_config_of_Inr:
  assumes "receive_config_of dcs config = Some (Inr (path, qualification, saver, ctcss_on, dcs_on))"
  obtains noise source gain threshold relax inverted where
    "noise_profile (rcf_noise_filter_profile (scf_receive config)) = Some noise"
    "carrier_source_of (qcf_carrier_source (scf_qualification config)) = Inr source"
    "qualification_of source (scf_qualification config) = Inr qualification"
    "rcf_ctcss_enabled (scf_receive config) = of_flag ctcss_on" "rcf_dcs_enabled (scf_receive config) = of_flag dcs_on"
    "receive_levels_rejected dcs (scf_receive config) ctcss_on dcs_on = Some (Inr False)"
    "path = session_path_config config noise source gain threshold ctcss_on relax dcs_on inverted"
    "try_i16 (rcf_vox_threshold (scf_receive config)) = Inr threshold"
    "q8_gain (rcf_ctcss_decoder_gain (scf_receive config)) = Inr gain"
  using assms
  by (auto simp: receive_config_of_def bind_setup_def bind_fallible_def bool32_Inr Let_def
      split: sum.splits option.splits if_splits)

definition rx_config_sample :: receive_config where
  "rx_config_sample = receive_config_default\<lparr>rcf_ctcss_decoder_gain := Finite False 1, rcf_ctcss_enabled := 1,
     rcf_ctcss_tone_mask := 5, rcf_squelch_open_level := 900, rcf_vad_mode := 1\<rparr>"

definition session_config_sample :: session_config where
  "session_config_sample = \<lparr>scf_struct_size = 408, scf_abi_version = 5, scf_generation_id = 1,
     scf_native_sample_rate_hz = 48000, scf_interleaved_channels = 2, scf_maximum_receive_frame_count = 960,
     scf_maximum_transmit_frame_count = 960, scf_publication_interval_ms = 20, scf_receive_channel = 0,
     scf_receive_input_gain = Finite False 1, scf_receive = rx_config_sample,
     scf_qualification = \<lparr>qcf_carrier_source = 1, qcf_subaudible_source = 3, qcf_subaudible_override = 0,
       qcf_advanced_transport = 0, qcf_radio_duplex = 0, qcf_rx_on_delay_blocks = 0, qcf_tx_off_delay_blocks = 0\<rparr>,
     scf_transmit = transmit_config_default\<rparr>"

lemma q8_gain_one: "q8_gain (Finite False 1) = Inr 256"
  by code_simp

lemma session_sample_accepted:
  "receive_config_of dcs session_config_sample =
     Some (Inr (session_path_config session_config_sample \<lparr>fp_coefficients = NOISE_STANDARD, fp_divisor = 65536\<rparr>
       CarrierDspNoise 256 0 True False False False,
       \<lparr>qc_carrier_source = CarrierDspNoise, qc_subaudible_source = SubaudibleDsp, qc_subaudible_override = False,
        qc_advanced_transport = False, qc_radio_duplex = False, qc_rx_on_delay_frames = 0, qc_tx_off_delay_frames = 0\<rparr>,
       False, True, False))"
proof -
  have mask: "5 AND NOT VALID_CTCSS_TONE_MASK = 0"
    by (simp add: VALID_CTCSS_TONE_MASK_def TONE_COUNT_def)
  show ?thesis
    by (simp add: receive_config_of_def session_config_sample_def rx_config_sample_def receive_config_default_def
        noise_profile_def bool32_def q8_gain_one try_i16_def in_i16_def carrier_source_of_def
        receive_levels_rejected_def MAX_SIGNED_PCM_LEVEL_def mask bind_fallible_def qualification_of_def
        subaudible_source_of_def Let_def)
qed

text \<open>A receive configuration that is accepted builds a detector.  At the native rate and with a
  positive maximum span, the path configuration derived from it passes the validation of the receive
  path and its VOX hang fits 32 bits, so construction can only fail in a provider; it asks for no
  squelch delay, and for at most one of the CTCSS and DCS decoders, exactly as enabled.\<close>

theorem accepted_config_builds_path:
  assumes "receive_config_of dcs config = Some (Inr (path, qualification, saver, ctcss_on, dcs_on))"
    and "scf_native_sample_rate_hz config = NATIVE_SAMPLE_RATE_HZ" and "0 < scf_maximum_receive_frame_count config"
  shows "\<not> path_config_rejected path \<and> (\<exists>hang. vox_hang_frames (pc_vox path) = Inr hang) \<and>
    pc_maximum_native_frames path = scf_maximum_receive_frame_count config \<and> pc_delay path = None \<and>
    (pc_ctcss path \<noteq> None \<longleftrightarrow> ctcss_on) \<and> (pc_dcs path \<noteq> None \<longleftrightarrow> dcs_on) \<and> \<not> (ctcss_on \<and> dcs_on)"
proof -
  obtain noise source gain threshold relax inverted where p:
    "noise_profile (rcf_noise_filter_profile (scf_receive config)) = Some noise"
    "path = session_path_config config noise source gain threshold ctcss_on relax dcs_on inverted"
    "receive_levels_rejected dcs (scf_receive config) ctcss_on dcs_on = Some (Inr False)"
    using receive_config_of_Inr [OF assms(1)] by metis
  have levels: "0 \<le> rcf_vox_hang_ms (scf_receive config)" "rcf_vox_hang_ms (scf_receive config) \<le> 32767"
    "\<not> (ctcss_on \<and> dcs_on)"
    using p(3) by (auto simp: receive_levels_rejected_def split: if_splits)
  then have "nat (rcf_vox_hang_ms (scf_receive config)) * 48 \<le> u32_max" by (simp add: u32_max_def)
  then have hang: "\<exists>hang. vox_hang_frames (pc_vox path) = Inr hang"
    by (simp add: p(2) session_path_config_def vox_hang_frames_def then_some_def checked_u32_def Let_def)
  have "\<not> path_config_rejected path"
    using noise_profile_fits [OF p(1)] stage_profile_fits assms(2,3)
    by (simp add: p(2) path_config_rejected_def session_path_config_def session_frontend_def valid_filter_def
        then_some_def NATIVE_SAMPLE_RATE_HZ_def BASE_SAMPLE_RATE_HZ_def Let_def)
  then show ?thesis
    using hang levels(3) by (simp add: p(2) session_path_config_def then_some_def Let_def)
qed

theorem accepted_config_builds_path_witness:
  "\<exists>path qualification. receive_config_of (None :: (unit, unit) dcs_descriptor option) session_config_sample =
      Some (Inr (path, qualification, False, True, False)) \<and> \<not> path_config_rejected path \<and> pc_ctcss path \<noteq> None"
proof -
  note s = session_sample_accepted [of "None :: (unit, unit) dcs_descriptor option"]
  show ?thesis
    using s accepted_config_builds_path [OF s]
    by (simp add: session_config_sample_def NATIVE_SAMPLE_RATE_HZ_def)
qed

section \<open>The speech mode and the gates\<close>

text \<open>With speech admission on, a receiver that ignores its carrier is open, and the raw gate of a quiet
  transmitter is what the indications resolve to.\<close>

definition gated_source :: "qualification_config \<Rightarrow> qualification_config" where
  "gated_source q = (if qc_carrier_source q = CarrierIgnore then q\<lparr>qc_carrier_source := CarrierOpen\<rparr> else q)"

definition raw_gate_open :: "qualification_config \<Rightarrow> qualification_inputs \<Rightarrow> bool" where
  "raw_gate_open q inputs \<longleftrightarrow>
     (let s = resolve_indications (gated_source q) inputs qualification_default
      in qs_carrier_active s \<and> qs_subaudible_active s)"

definition quiet_inputs :: "receive_config \<Rightarrow> qualification_inputs \<Rightarrow> bool" where
  "quiet_inputs rx inputs \<longleftrightarrow> \<not> qi_tx_ptt_out inputs \<and> \<not> qi_txrx_blanking_active inputs \<and>
     qi_dcs_receive_enabled inputs = (rcf_dcs_enabled rx \<noteq> 0) \<and>
     qi_ctcss_receive_enabled inputs = (rcf_ctcss_enabled rx \<noteq> 0)"

definition closed_inputs :: "receive_config \<Rightarrow> bool \<Rightarrow> qualification_inputs" where
  "closed_inputs rx b = \<lparr>qi_external_carrier = None, qi_hardware_carrier = b, qi_parallel_carrier = b,
     qi_dsp_carrier = False, qi_hardware_subaudible = b, qi_parallel_subaudible = b,
     qi_dcs_receive_enabled = (rcf_dcs_enabled rx \<noteq> 0), qi_dcs_valid = False,
     qi_ctcss_receive_enabled = (rcf_ctcss_enabled rx \<noteq> 0), qi_ctcss_decoder_available = True,
     qi_ctcss_decoded = False, qi_signal_mode = QualifyNone, qi_tx_ptt_out = False, qi_txrx_blanking_active = False\<rparr>"

lemmas gate_defs = raw_gate_open_def resolve_indications_def gated_source_def dsp_subaudible_active_def Let_def

lemma quiet_closed_inputs [simp]: "quiet_inputs rx (closed_inputs rx b)"
  by (simp add: quiet_inputs_def closed_inputs_def)

lemma carrier_gate_closes:
  assumes "qc_carrier_source q \<notin> {CarrierIgnore, CarrierOpen}"
  shows "\<exists>b. \<not> raw_gate_open q (closed_inputs rx b)"
  using assms by (cases "qc_carrier_source q") (auto simp: gate_defs closed_inputs_def)

lemma tone_gate_closes:
  assumes "\<not> qc_subaudible_override q" and "qc_subaudible_source q \<in> {SubaudibleIgnore, SubaudibleDsp} \<longrightarrow>
    rcf_ctcss_enabled rx \<noteq> 0 \<or> rcf_dcs_enabled rx \<noteq> 0"
  shows "\<exists>b. \<not> raw_gate_open q (closed_inputs rx b)"
  using assms by (cases "qc_subaudible_source q") (auto simp: gate_defs closed_inputs_def)

lemma no_gate_closes:
  assumes "qc_carrier_source q \<in> {CarrierIgnore, CarrierOpen}" and "quiet_inputs rx inputs"
    and "qc_subaudible_override q \<or> qc_subaudible_source q \<in> {SubaudibleIgnore, SubaudibleDsp} \<and>
      rcf_ctcss_enabled rx = 0 \<and> rcf_dcs_enabled rx = 0"
  shows "raw_gate_open q inputs"
  using assms by (auto simp: gate_defs quiet_inputs_def)

text \<open>Latched admission is replaced by speech with hang exactly when nothing could close a burst.
  For a configured mode 1, the effective mode is 2 if and only if the raw gate is open for every
  snapshot a receiver can see while its own transmitter is quiet; otherwise the mode stays 1.\<close>

theorem effective_vad_mode_gate:
  assumes "rcf_vad_mode rx = 1"
  shows "effective_vad_mode rx q = (if \<forall>inputs. quiet_inputs rx inputs \<longrightarrow> raw_gate_open q inputs then 2 else 1)"
proof (cases "effective_vad_mode rx q = 2")
  case True
  then have "\<forall>inputs. quiet_inputs rx inputs \<longrightarrow> raw_gate_open q inputs"
    using assms by (auto simp: effective_vad_mode_def Let_def intro!: no_gate_closes split: if_splits)
  with True show ?thesis by simp
next
  case False
  then have "\<exists>b. \<not> raw_gate_open q (closed_inputs rx b)"
    using assms carrier_gate_closes [of q rx] tone_gate_closes [of q rx]
    by (auto simp: effective_vad_mode_def Let_def split: if_splits)
  then have "\<not> (\<forall>inputs. quiet_inputs rx inputs \<longrightarrow> raw_gate_open q inputs)" using quiet_closed_inputs by blast
  moreover have "effective_vad_mode rx q = 1"
    using False assms by (auto simp: effective_vad_mode_def Let_def)
  ultimately show ?thesis by simp
qed

definition tone_gate_sample :: qualification_config where
  "tone_gate_sample = \<lparr>qc_carrier_source = CarrierOpen, qc_subaudible_source = SubaudibleDsp,
     qc_subaudible_override = False, qc_advanced_transport = False, qc_radio_duplex = False,
     qc_rx_on_delay_frames = 0, qc_tx_off_delay_frames = 0\<rparr>"

theorem effective_vad_mode_gate_witness:
  "\<not> (\<forall>inputs. quiet_inputs rx_config_sample inputs \<longrightarrow> raw_gate_open tone_gate_sample inputs)"
proof -
  have "rcf_vad_mode rx_config_sample = 1" "effective_vad_mode rx_config_sample tone_gate_sample = 1"
    by (simp_all add: rx_config_sample_def receive_config_default_def effective_vad_mode_def tone_gate_sample_def)
  then show ?thesis using effective_vad_mode_gate [of rx_config_sample tone_gate_sample] by (metis num.distinct(1) one_eq_numeral_iff)
qed

section \<open>What an accepted profile gives\<close>

definition profile_sample :: profile where
  "profile_sample = \<lparr>prf_struct_size = 20, prf_kind = 0, prf_carrier_source = 1, prf_ctcss_encode_source = 2,
     prf_ctcss_decode_source = 1\<rparr>"

definition capabilities_sample :: profile_capabilities where
  "capabilities_sample = \<lparr>pcp_struct_size = 20, pcp_hardware_cor = 0, pcp_external_ctcss_decode = 0,
     pcp_external_ctcss_encode = 1, pcp_dsp_tone_audio = 0\<rparr>"

text \<open>C37: a profile decides the sources and is honoured by the rest of the configuration.  When a profile
  is accepted, the resolved configuration takes its carrier from the hardware input or the DSP noise
  squelch and its tone from the external input or the DSP as selected, changing nothing else; the
  facilities it needs are present; the DSP CTCSS decoder and encoder are on exactly when selected, so
  an external encoder runs with the generator off and silent; and where a tone is generated, an output
  carries it.\<close>

theorem accepted_profile_honoured:
  assumes "validated_profile_of config profile capabilities = Inr (adopted, selected)"
  shows "\<exists>c p caps. config = Some c \<and> profile = Some p \<and> capabilities = Some caps \<and>
    vpr_encode selected = prf_ctcss_encode_source p \<and> vpr_decode selected = prf_ctcss_decode_source p \<and>
    scf_receive adopted = scf_receive c \<and> scf_transmit adopted = scf_transmit c \<and>
    carrier_source_of (qcf_carrier_source (scf_qualification adopted)) =
      Inr (if prf_carrier_source p = 0 then CarrierHardware else CarrierDspNoise) \<and>
    subaudible_source_of (qcf_subaudible_source (scf_qualification adopted)) =
      Inr (if prf_ctcss_decode_source p = PROFILE_EXTERNAL then SubaudibleHardware else SubaudibleDsp) \<and>
    (prf_carrier_source p = 0 \<longrightarrow> pcp_hardware_cor caps = 1) \<and>
    (prf_ctcss_decode_source p = PROFILE_EXTERNAL \<longrightarrow> pcp_external_ctcss_decode caps = 1) \<and>
    (prf_ctcss_encode_source p = PROFILE_EXTERNAL \<longrightarrow> pcp_external_ctcss_encode caps = 1 \<and>
      tcf_ctcss_transmit_enabled (scf_transmit adopted) = 0 \<and> fp_eq (tcf_ctcss_peak (scf_transmit adopted)) fp_zero \<and>
      tcf_default_ctcss_frequency_tenths_hz (scf_transmit adopted) = 0) \<and>
    bool32 (rcf_ctcss_enabled (scf_receive adopted)) = Inr (prf_ctcss_decode_source p = PROFILE_DSP) \<and>
    bool32 (tcf_ctcss_transmit_enabled (scf_transmit adopted)) = Inr (prf_ctcss_encode_source p = PROFILE_DSP) \<and>
    (prf_ctcss_encode_source p = PROFILE_DSP \<or> tcf_dcs_transmit_enabled (scf_transmit adopted) \<noteq> 0 \<longrightarrow>
      (\<exists>route \<in> {tcf_output_a_route (scf_transmit adopted), tcf_output_b_route (scf_transmit adopted)}.
        \<exists>r. output_route_parse route = Inr r \<and> route_tone r))"
proof -
  obtain c p caps where e: "config = Some c" "profile = Some p" "capabilities = Some caps"
    "validated_profile_new p caps c = Inr selected" "adopted = profile_configure selected c"
    using assms by (auto simp: validated_profile_of_def bind_result_Inr split: option.splits if_splits)
  have v: "\<not> profile_malformed p caps" "\<not> profile_unavailable p caps c" "\<not> profile_inconsistent p c"
    "\<not> profile_external_tone p c"
    and s: "vpr_encode selected = prf_ctcss_encode_source p" "vpr_decode selected = prf_ctcss_decode_source p"
      "vpr_carrier_source selected = prf_carrier_source p"
    using e(4) by (auto simp: validated_profile_new_def split: if_splits)
  have caps: "pcp_hardware_cor caps \<le> 1" "pcp_external_ctcss_decode caps \<le> 1" "pcp_external_ctcss_encode caps \<le> 1"
    using v(1) by (auto simp: profile_malformed_def)
  have routes: "prf_ctcss_encode_source p = PROFILE_DSP \<or> tcf_dcs_transmit_enabled (scf_transmit c) \<noteq> 0 \<Longrightarrow>
      tcf_output_a_route (scf_transmit c) \<in> {2, 3} \<or> tcf_output_b_route (scf_transmit c) \<in> {2, 3}"
    using v(3) by (auto simp: profile_inconsistent_def Let_def)
  have tone: "v \<in> {2, 3} \<Longrightarrow> \<exists>r. output_route_parse v = Inr r \<and> route_tone r" for v
    by (auto simp: output_route_parse_def)
  have adopted: "scf_receive adopted = scf_receive c" "scf_transmit adopted = scf_transmit c"
    "qcf_carrier_source (scf_qualification adopted) = (if prf_carrier_source p = 0 then 3 else 1)"
    "qcf_subaudible_source (scf_qualification adopted) = (if prf_ctcss_decode_source p = PROFILE_EXTERNAL then 1 else 3)"
    by (simp_all add: e(5) profile_configure_def s)
  have hardware: "prf_carrier_source p = 0 \<Longrightarrow> pcp_hardware_cor caps = 1"
    "prf_ctcss_decode_source p = PROFILE_EXTERNAL \<Longrightarrow> pcp_external_ctcss_decode caps = 1"
    "prf_ctcss_encode_source p = PROFILE_EXTERNAL \<Longrightarrow> pcp_external_ctcss_encode caps = 1"
    using v(2) caps by (auto simp: profile_unavailable_def Let_def)
  have external: "prf_ctcss_encode_source p = PROFILE_EXTERNAL \<Longrightarrow>
      tcf_ctcss_transmit_enabled (scf_transmit c) = 0 \<and> fp_eq (tcf_ctcss_peak (scf_transmit c)) fp_zero \<and>
      tcf_default_ctcss_frequency_tenths_hz (scf_transmit c) = 0"
    using v(3,4) by (auto simp: profile_external_tone_def profile_inconsistent_def PROFILE_DSP_def
        PROFILE_EXTERNAL_def Let_def)
  have flags: "rcf_ctcss_enabled (scf_receive c) = of_flag (prf_ctcss_decode_source p = PROFILE_DSP)"
    "tcf_ctcss_transmit_enabled (scf_transmit c) = of_flag (prf_ctcss_encode_source p = PROFILE_DSP)"
    using v(3) by (auto simp: profile_inconsistent_def Let_def)
  show ?thesis
    using routes tone hardware external flags
    by (intro exI [of _ c] exI [of _ p] exI [of _ caps])
      (simp add: e(1-3) s adopted carrier_source_of_def subaudible_source_of_def bool32_Inr, blast)
qed

theorem accepted_profile_honoured_witness:
  "\<exists>adopted selected. validated_profile_of (Some session_config_sample) (Some profile_sample)
      (Some capabilities_sample) = Inr (adopted, selected) \<and>
    carrier_source_of (qcf_carrier_source (scf_qualification adopted)) = Inr CarrierDspNoise"
proof -
  obtain adopted selected where p: "validated_profile_of (Some session_config_sample) (Some profile_sample)
      (Some capabilities_sample) = Inr (adopted, selected)"
    by (simp add: validated_profile_of_def record_fits_def session_config_sample_def profile_sample_def
        capabilities_sample_def SESSION_CONFIG_SIZE_def PROFILE_SIZE_def PROFILE_CAPABILITIES_SIZE_def
        validated_profile_new_def profile_malformed_def profile_unavailable_def profile_inconsistent_def
        profile_external_tone_def PROFILE_EXTERNAL_def PROFILE_DSP_def PROFILE_DISABLED_def
        rx_config_sample_def receive_config_default_def transmit_config_default_def list_ex_iff fp_zero_def)
  then show ?thesis using accepted_profile_honoured [OF p] by (auto simp: profile_sample_def)
qed

end
