(* ===== verification/Session_Ports.thy ===== *)
theory Session_Ports
  imports Receive_Path
begin

text \<open>
  What the session (\<open>src/session.rs\<close>) borrows from its owner, and its small shared helpers.  A
  processor is a table of optional functions over a context pointer; whatever state they reach is the
  parameter \<open>'w\<close>, passed to each of them and taken back.  A processing function is given the output
  buffer as it stands, and returns it as it left it.  \<open>pp_\<close> are the fields of \<open>ProcessorPort\<close>, \<open>prg_\<close>
  of \<open>ProgramRingPort\<close>, \<open>ro_\<close> of \<open>RingObservation\<close>, \<open>rr_\<close> of \<open>ProgramRingResult\<close>, \<open>po_\<close> of \<open>Ports\<close>
  and \<open>spo_\<close> of \<open>SessionPorts\<close>.
\<close>

section \<open>Ports\<close>

type_synonym 'w process_fn = "nat \<Rightarrow> f32 list \<Rightarrow> f32 list \<Rightarrow> 'w \<Rightarrow> 'w \<times> f32 list \<times> int"

type_synonym 'w warm_fn = "nat \<Rightarrow> nat \<Rightarrow> 'w \<Rightarrow> 'w \<times> int"

record 'w processor_port =
  pp_context :: nat
  pp_process_f32 :: "'w process_fn option"
  pp_bypass :: "'w warm_fn option"
  pp_warm :: "'w warm_fn option"

definition processor_port_default :: "'w processor_port" where
  "processor_port_default = \<lparr>pp_context = 0, pp_process_f32 = None, pp_bypass = None, pp_warm = None\<rparr>"

record ring_observation =
  ro_occupancy_frames :: nat
  ro_reserve_frames :: nat
  ro_target_frames :: nat
  ro_capacity_frames :: nat
  ro_ratio :: f64
  ro_underrun_samples :: nat
  ro_overrun_samples :: nat
  ro_concealment_samples :: nat

definition ring_observation_default :: ring_observation where
  "ring_observation_default = \<lparr>ro_occupancy_frames = 0, ro_reserve_frames = 0, ro_target_frames = 0,
     ro_capacity_frames = 0, ro_ratio = fp_zero, ro_underrun_samples = 0, ro_overrun_samples = 0,
     ro_concealment_samples = 0\<rparr>"

record ring_result =
  rr_observation :: ring_observation
  rr_receiver_keyed :: nat
  rr_ctcss_decoded_index :: int
  rr_dcs_valid :: nat

definition ring_result_default :: ring_result where
  "ring_result_default = \<lparr>rr_observation = ring_observation_default, rr_receiver_keyed = 0,
     rr_ctcss_decoded_index = -1, rr_dcs_valid = 0\<rparr>"

record 'w ring_port =
  prg_context :: nat
  prg_render_f32 :: "(nat \<Rightarrow> f32 list \<Rightarrow> ring_result \<Rightarrow> 'w \<Rightarrow> 'w \<times> f32 list \<times> ring_result \<times> int) option"
  prg_warm :: "'w warm_fn option"

definition ring_port_default :: "'w ring_port" where
  "ring_port_default = \<lparr>prg_context = 0, prg_render_f32 = None, prg_warm = None\<rparr>"

record 'w ports =
  po_receive_deemphasis :: "'w processor_port"
  po_receive_filter :: "'w processor_port"
  po_receive_ctcss_notch :: "'w processor_port list"
  po_receive_noise_reduction :: "'w processor_port"
  po_receive_dynamics :: "'w processor_port"
  po_transmit_program :: "'w processor_port"
  po_transmit_dcs_normal_filter :: "'w processor_port"
  po_transmit_dcs_turnoff_filter :: "'w processor_port"
  po_receive_ctcss_tail_notch :: "'w processor_port"

record 'w session_ports =
  spo_struct_size :: nat
  spo_ports :: "'w ports"
  spo_program_ring :: "'w ring_port"

definition SESSION_PORTS_SIZE :: nat where "SESSION_PORTS_SIZE = 1504"

section \<open>Running a processor\<close>

definition run_processor ::
  "'w processor_port \<Rightarrow> f32 list \<Rightarrow> f32 list \<Rightarrow> 'w \<Rightarrow> ('w \<times> f32 list) \<times> unit result" where
  "run_processor port input output w =
     (let ((w, output), status) =
        (case pp_process_f32 port of
           Some process \<Rightarrow>
             (let (w, output, value) = process (pp_context port) input output w
              in if value \<noteq> 0 then ((w, replicate (length output) fp_zero), Inl PROVIDER_FAILED)
                 else ((w, output), Inr ()))
         | None \<Rightarrow> ((w, input), Inr ()))
      in case status of
           Inl e \<Rightarrow> ((w, output), Inl e)
         | Inr _ \<Rightarrow>
             if list_ex (\<lambda>sample. \<not> is_finite sample) output
             then ((w, replicate (length output) fp_zero), Inl PROVIDER_FAILED)
             else ((w, output), Inr ()))"

definition warm_port :: "'w processor_port \<Rightarrow> nat \<Rightarrow> 'w \<Rightarrow> 'w \<times> unit result" where
  "warm_port port frames w =
     (case pp_warm port of
        None \<Rightarrow> (w, Inr ())
      | Some warm \<Rightarrow>
          (let (w, value) = warm (pp_context port) frames w
           in (w, if value \<noteq> 0 then Inl PROVIDER_FAILED else Inr ())))"

definition bypass_port :: "'w processor_port \<Rightarrow> nat \<Rightarrow> 'w \<Rightarrow> 'w \<times> unit result" where
  "bypass_port port frames w =
     (case pp_bypass port of
        None \<Rightarrow> (w, Inr ())
      | Some bypass \<Rightarrow>
          (let (w, value) = bypass (pp_context port) frames w
           in (w, if value \<noteq> 0 then Inl PROVIDER_FAILED else Inr ())))"

definition run_optional_processor ::
  "'w processor_port \<Rightarrow> f32 list \<Rightarrow> f32 list \<Rightarrow> 'w \<Rightarrow> ('w \<times> f32 list) \<times> unit result" where
  "run_optional_processor port input output w =
     (if pp_process_f32 port \<noteq> None then run_processor port input output w
      else
        let (w, status) = bypass_port port (as_u32 (length input)) w
        in case status of Inl e \<Rightarrow> ((w, output), Inl e) | Inr _ \<Rightarrow> ((w, input), Inr ()))"

text \<open>The notch a span is given: the tail notch while a tail tone is on, otherwise that of the decoded
  tone; one without a processing function is skipped.\<close>

definition select_notch :: "'w ports \<Rightarrow> int \<Rightarrow> bool \<Rightarrow> 'w processor_port option" where
  "select_notch ports decoded_ctcss tail_tone_active =
     (let notch =
        (if tail_tone_active then Some (po_receive_ctcss_tail_notch ports)
         else if decoded_ctcss < 0 then None
         else if nat decoded_ctcss < length (po_receive_ctcss_notch ports)
           then Some (po_receive_ctcss_notch ports ! nat decoded_ctcss)
         else None)
      in case notch of
           None \<Rightarrow> None
         | Some port \<Rightarrow> if pp_process_f32 port \<noteq> None then Some port else None)"

definition run_receive_filters ::
  "'w ports \<Rightarrow> int \<Rightarrow> bool \<Rightarrow> f32 list \<Rightarrow> f32 list \<Rightarrow> f32 list \<Rightarrow> 'w \<Rightarrow>
     ('w \<times> f32 list \<times> f32 list) \<times> bool result" where
  "run_receive_filters ports decoded_ctcss tail_tone_active input filtered notched w =
     (let ((w, filtered), status) = run_processor (po_receive_filter ports) input filtered w
      in case status of
           Inl e \<Rightarrow> ((w, filtered, notched), Inl e)
         | Inr _ \<Rightarrow>
           (case select_notch ports decoded_ctcss tail_tone_active of
              None \<Rightarrow> ((w, filtered, notched), Inr False)
            | Some port \<Rightarrow>
                (let ((w, notched), status) = run_processor port filtered notched w
                 in ((w, filtered, notched), bind_result status (\<lambda>_. Inr True)))))"

section \<open>Level measurement\<close>

record level =
  lvl_peak :: f32
  lvl_power :: f64
  lvl_rails :: nat

definition POSITIVE_RAIL :: f32 where
  "POSITIVE_RAIL = fp_div binary32 (fp_of_int binary32 32767) (fp_of_int binary32 32768)"

definition NEGATIVE_RAIL :: f32 where "NEGATIVE_RAIL = fp_of_int binary32 (-1)"

definition level_zero :: level where
  "level_zero = \<lparr>lvl_peak = fp_zero, lvl_power = fp_zero, lvl_rails = 0\<rparr>"

definition level_step :: "level \<Rightarrow> f32 \<Rightarrow> level" where
  "level_step l sample =
     \<lparr>lvl_peak = fp_max (lvl_peak l) (fp_abs sample),
      lvl_power = fp_add binary64 (lvl_power l) (fp_mul binary64 sample sample),
      lvl_rails = lvl_rails l + of_flag (fp_le POSITIVE_RAIL sample \<or> fp_le sample NEGATIVE_RAIL)\<rparr>"

definition level_rms :: "f64 \<Rightarrow> nat \<Rightarrow> f32" where
  "level_rms energy count =
     (if count = 0 then fp_zero
      else fp_narrow binary32 (fp_sqrt binary64 (fp_div binary64 energy (fp_of_int binary64 (int count)))))"

definition measure :: "f32 list \<Rightarrow> f32 \<times> f32 \<times> nat" where
  "measure samples =
     (let l = foldl level_step level_zero samples
      in (lvl_peak l, level_rms (lvl_power l) (length samples), lvl_rails l))"

text \<open>Every \<open>channels\<close>-th sample, from the first.\<close>

fun step_by :: "nat \<Rightarrow> 'a list \<Rightarrow> 'a list" where
  "step_by channels [] = []"
| "step_by channels (x # xs) = x # step_by channels (drop (channels - 1) xs)"

definition measure_channel :: "f32 list \<Rightarrow> nat \<Rightarrow> f32 \<times> f32 \<times> nat" where
  "measure_channel samples channel =
     (let (l, count) = foldl (\<lambda>(l, count). \<lambda>sample. (level_step l sample, count + 1)) (level_zero, 0)
            (step_by 2 (drop channel samples))
      in (lvl_peak l, level_rms (lvl_power l) count, lvl_rails l))"

section \<open>The publication clock\<close>

text \<open>The loop does not return when the next boundary saturates at or below the sample index.\<close>

partial_function (option) next_publication :: "nat \<Rightarrow> nat \<Rightarrow> nat \<Rightarrow> nat option" where
  "next_publication sample_index interval next_frame =
     (if next_frame \<le> sample_index
      then next_publication sample_index interval (saturating_add_u64 next_frame interval)
      else Some next_frame)"

definition publication_due :: "nat \<Rightarrow> nat \<Rightarrow> nat \<Rightarrow> (nat \<times> bool) option" where
  "publication_due sample_index next_frame interval =
     (if sample_index < next_frame then Some (next_frame, False)
      else Option.bind (next_publication sample_index interval next_frame) (\<lambda>n. Some (n, True)))"

end
