(* ===== verification/Session_State.thy ===== *)
theory Session_State
  imports Session_Config Session_Ports Vad Event_Queue Test_Tone
begin

text \<open>
  The state of a session (\<open>src/session.rs\<close>) and the records its callbacks exchange.  \<open>rw_\<close> are the fields
  of \<open>ReceiveWorker\<close>, \<open>tw_\<close> of \<open>TransmitWorker\<close>, \<open>ss_\<close> of \<open>Session\<close>, \<open>sh_\<close> of \<open>SharedState\<close>, \<open>sn_\<close> of
  \<open>AtomicSnapshot\<close>; \<open>ri_\<close>, \<open>ti_\<close> those of \<open>ReceiveInput\<close> and \<open>TransmitInput\<close>, \<open>rs_\<close>, \<open>tr_\<close> of their
  results.  Values the snapshot keeps as float bits are kept as floats; its counters wrap at 64 bits.
\<close>

section \<open>Callback records\<close>

definition RECEIVE_TONE_OVERRIDE :: "32 word" where "RECEIVE_TONE_OVERRIDE = 1"
definition RECEIVE_EXTERNAL_COR_VALID :: "32 word" where "RECEIVE_EXTERNAL_COR_VALID = 2"
definition RECEIVE_EXTERNAL_COR_PRESENT :: "32 word" where "RECEIVE_EXTERNAL_COR_PRESENT = 4"

record receive_input =
  ri_hardware_carrier :: nat
  ri_parallel_carrier :: nat
  ri_hardware_subaudible :: nat
  ri_parallel_subaudible :: nat
  ri_subaudible_override :: "32 word"

record profile_receive_input =
  pri_struct_size :: nat
  pri_controls :: receive_input
  pri_hardware_cor :: nat
  pri_hardware_cor_valid :: nat
  pri_external_ctcss :: nat
  pri_external_ctcss_valid :: nat

record receive_result =
  rv_generation_id :: nat
  rv_first_sample_index :: nat
  rv_frame_count :: nat
  rv_carrier_active :: nat
  rv_subaudible_active :: nat
  rv_receiver_keyed :: nat
  rv_ctcss_decoded_index :: int
  rv_dcs_valid :: nat
  rv_rssi_peak :: int
  rv_rssi_updated :: nat
  rv_ctcss_decoder_peak :: f32
  rv_input_peak :: f32
  rv_input_rms :: f32
  rv_input_rail_samples :: nat
  rv_output_peak :: f32
  rv_output_rms :: f32
  rv_output_rail_samples :: nat
  rv_periodic_status_due :: nat
  rv_raw_receiver_keyed :: nat
  rv_rf_burst_id :: nat
  rv_vad_mode :: nat
  rv_vad_voice_active :: nat
  rv_vad_score :: f32
  rv_vad_voice_sample_index :: nat
  rv_vad_preroll_frames :: nat

record profile_receive_result =
  prr_struct_size :: nat
  prr_result :: receive_result
  prr_external_ctcss :: nat
  prr_external_ctcss_valid :: nat

record transmit_input =
  ti_external_ptt_request :: nat
  ti_physical_ptt_applied :: nat
  ti_render_admitted :: nat
  ti_ctcss_inhibit :: nat
  ti_calibrated_test_tone :: nat
  ti_forced_ctcss_tenths_hz :: int

record transmit_result =
  tv_generation_id :: nat
  tv_first_sample_index :: nat
  tv_frame_count :: nat
  tv_logical_ptt :: nat
  tv_transmitter_state :: int
  tv_selected_ctcss_tenths_hz :: int
  tv_program_peak :: f32
  tv_program_rms :: f32
  tv_program_rail_samples :: nat
  tv_output_peak :: f32
  tv_output_rms :: f32
  tv_output_rail_samples :: nat
  tv_periodic_status_due :: nat
  tv_program_ring :: ring_observation

record prepared_outputs =
  pro_logical_ptt :: nat
  pro_external_ctcss_enable :: nat

record profile_transmit_result =
  ptr_struct_size :: nat
  ptr_result :: transmit_result
  ptr_outputs :: prepared_outputs

section \<open>Workers\<close>

record ('w, 's, 'r, 'd, 'h, 'n) receive_worker =
  rw_ports :: "'w ports"
  rw_config :: receive_config
  rw_detector :: "('s, 'r, 'd) receive_path"
  rw_vad :: "('h, 'n) speech_vad"
  rw_vad_needs_reset :: bool
  rw_qualification :: qualification_config
  rw_qualification_state :: qualification_state
  rw_cpu_saver_enabled :: bool
  rw_cpu_saver_state :: rx_cpu_saver_state
  rw_per_sample_noise_gate :: bool
  rw_ctcss_enabled :: bool
  rw_dcs_enabled :: bool
  rw_receive_channel :: nat
  rw_input_gain :: f32
  rw_maximum_frames :: nat
  rw_publication_interval_frames :: nat
  rw_next_publication_frame :: nat
  rw_sample_index :: nat
  rw_previous_carrier :: bool
  rw_previous_subaudible :: bool
  rw_previous_keyed :: bool
  rw_previous_ctcss :: int
  rw_previous_dcs :: bool
  rw_input_mono :: "f32 list"
  rw_delay :: "f32 list"
  rw_delay_index :: nat
  rw_delay_valid :: nat
  rw_vad_mode :: nat
  rw_work_a :: "f32 list"
  rw_work_b :: "f32 list"
  rw_work_c :: "f32 list"

record ('w, 't, 'u) transmit_worker =
  tw_ports :: "'w ports"
  tw_signaling :: "ts_config \<times> ts_state"
  tw_maximum_frames :: nat
  tw_publication_interval_frames :: nat
  tw_next_publication_frame :: nat
  tw_sample_index :: nat
  tw_ctcss_peak :: f32
  tw_dcs_peak :: f32
  tw_dcs_enabled :: bool
  tw_output_a_route :: output_route
  tw_output_b_route :: output_route
  tw_output_a_tone_gain :: f32
  tw_output_a_tone_bias :: f32
  tw_output_b_tone_gain :: f32
  tw_output_b_tone_bias :: f32
  tw_ctcss_tx :: "'t ctcss_transmit"
  tw_dcs :: "'u dcs_transmit"
  tw_test_tone :: tone_state
  tw_program :: "f32 list"
  tw_processed :: "f32 list"
  tw_ctcss :: "f32 list"
  tw_dcs_normal_raw :: "f32 list"
  tw_dcs_normal_filtered :: "f32 list"
  tw_dcs_turnoff_raw :: "f32 list"
  tw_dcs_turnoff_filtered :: "f32 list"
  tw_active :: "nat list"

section \<open>Shared state\<close>

record shared_state =
  sh_logical_ptt :: bool
  sh_receiver_blanking_ms :: int

record atomic_snapshot =
  sn_receive_frames :: nat
  sn_transmit_frames :: nat
  sn_receive_input_peak :: f32
  sn_receive_input_rms :: f32
  sn_receive_ctcss_decoder_peak :: f32
  sn_receive_output_peak :: f32
  sn_receive_output_rms :: f32
  sn_transmit_program_peak :: f32
  sn_transmit_program_rms :: f32
  sn_transmit_output_peak :: f32
  sn_transmit_output_rms :: f32
  sn_receive_input_rails :: "64 word"
  sn_receive_output_rails :: "64 word"
  sn_transmit_program_rails :: "64 word"
  sn_transmit_output_rails :: "64 word"
  sn_provider_failures :: "64 word"
  sn_carrier :: bool
  sn_subaudible :: bool
  sn_receiver_keyed :: bool
  sn_logical_ptt :: bool
  sn_decoded_ctcss :: int
  sn_dcs_valid :: bool
  sn_ring_occupancy :: nat
  sn_ring_reserve :: nat
  sn_ring_target :: nat
  sn_ring_capacity :: nat
  sn_ring_ratio :: f64
  sn_ring_underruns :: nat
  sn_ring_overruns :: nat
  sn_ring_concealment :: nat
  sn_raw_receiver_keyed :: bool
  sn_rf_burst_id :: nat
  sn_vad_mode :: nat
  sn_vad_voice_active :: bool
  sn_vad_score :: f32
  sn_vad_voice_sample_index :: nat
  sn_vad_preroll_frames :: nat

definition atomic_snapshot_default :: atomic_snapshot where
  "atomic_snapshot_default = \<lparr>sn_receive_frames = 0, sn_transmit_frames = 0, sn_receive_input_peak = fp_zero,
     sn_receive_input_rms = fp_zero, sn_receive_ctcss_decoder_peak = fp_zero, sn_receive_output_peak = fp_zero,
     sn_receive_output_rms = fp_zero, sn_transmit_program_peak = fp_zero, sn_transmit_program_rms = fp_zero,
     sn_transmit_output_peak = fp_zero, sn_transmit_output_rms = fp_zero, sn_receive_input_rails = 0,
     sn_receive_output_rails = 0, sn_transmit_program_rails = 0, sn_transmit_output_rails = 0,
     sn_provider_failures = 0, sn_carrier = False, sn_subaudible = False, sn_receiver_keyed = False,
     sn_logical_ptt = False, sn_decoded_ctcss = -1, sn_dcs_valid = False, sn_ring_occupancy = 0,
     sn_ring_reserve = 0, sn_ring_target = 0, sn_ring_capacity = 0, sn_ring_ratio = Finite False 1,
     sn_ring_underruns = 0, sn_ring_overruns = 0, sn_ring_concealment = 0, sn_raw_receiver_keyed = False,
     sn_rf_burst_id = 0, sn_vad_mode = 0, sn_vad_voice_active = False, sn_vad_score = fp_zero,
     sn_vad_voice_sample_index = u64_max, sn_vad_preroll_frames = 0\<rparr>"

record ('w, 's, 'r, 'd, 'h, 'n, 't, 'u) session =
  ss_profile :: "validated_profile option"
  ss_generation_id :: nat
  ss_maximum_frames :: "nat \<times> nat"
  ss_program_ring :: "'w ring_port"
  ss_receive :: "('w, 's, 'r, 'd, 'h, 'n) receive_worker"
  ss_transmit :: "('w, 't, 'u) transmit_worker"
  ss_receive_busy :: bool
  ss_transmit_busy :: bool
  ss_warmed :: bool
  ss_shared :: shared_state
  ss_snapshot :: atomic_snapshot
  ss_receive_events :: event_queue
  ss_transmit_events :: event_queue

section \<open>Failures and events\<close>

definition push_edge :: "event_queue \<Rightarrow> nat \<Rightarrow> nat \<Rightarrow> event_kind \<Rightarrow> int \<Rightarrow> event_queue" where
  "push_edge queue generation_id sample_index kind value =
     event_push \<lparr>ev_generation_id = generation_id, ev_sample_index = sample_index,
       ev_kind = event_kind_code kind, ev_value = value\<rparr> queue"

definition provider_failure ::
  "('w, 's, 'r, 'd, 'h, 'n, 't, 'u) session \<Rightarrow> bool \<Rightarrow> nat \<Rightarrow> ('w, 's, 'r, 'd, 'h, 'n, 't, 'u) session" where
  "provider_failure session receive sample_index =
     (let session = session\<lparr>ss_snapshot := (ss_snapshot session)\<lparr>
            sn_provider_failures := sn_provider_failures (ss_snapshot session) + 1\<rparr>\<rparr>
      in if receive
         then session\<lparr>ss_receive_events := push_edge (ss_receive_events session) (ss_generation_id session)
                sample_index EventProviderFailure 1\<rparr>
         else session\<lparr>ss_transmit_events := push_edge (ss_transmit_events session) (ss_generation_id session)
                sample_index EventProviderFailure 1\<rparr>)"

text \<open>The error code is that of the caller.\<close>

definition receive_provider_failure ::
  "('w, 's, 'r, 'd, 'h, 'n, 't, 'u) session \<Rightarrow> ('w, 's, 'r, 'd, 'h, 'n, 't, 'u) session \<times> radio_error" where
  "receive_provider_failure session =
     (let worker = ss_receive session;
          worker = (if rw_vad_mode worker \<noteq> 0
            then worker\<lparr>rw_vad_needs_reset := True, rw_delay_valid := 0, rw_delay_index := 0\<rparr> else worker)
      in (provider_failure (session\<lparr>ss_receive := worker\<rparr>) True (rw_sample_index worker), PROVIDER_FAILED))"

end
