(* ===== verification/Session_Receive.thy ===== *)
theory Session_Receive
  imports Session_State
begin

text \<open>
  The receive callback of a session (\<open>receive_inner\<close> in \<open>src/session.rs\<close>).  Its programme path works on
  the worker together with the state \<open>'w\<close> of the borrowed processors; a step that fails leaves both as
  they then are.  A buffer is the list of its samples, \<open>None\<close> a null pointer.  A call that never
  returns, because a Rust panic ends the process or a loop does not end, is \<open>None\<close>.
\<close>

unbundle bit_operations_syntax

definition run_bind :: "'p \<times> 'a result \<Rightarrow> ('p \<Rightarrow> 'a \<Rightarrow> 'p \<times> 'b result) \<Rightarrow> 'p \<times> 'b result" where
  "run_bind m f = (case m of (p, Inl e) \<Rightarrow> (p, Inl e) | (p, Inr a) \<Rightarrow> f p a)"

type_synonym ('w, 's, 'r, 'd, 'h, 'n) rx = "('w, 's, 'r, 'd, 'h, 'n) receive_worker \<times> 'w"

section \<open>Snapshots\<close>

definition tone_override :: "receive_input \<Rightarrow> bool" where
  "tone_override controls \<longleftrightarrow> ri_subaudible_override controls AND RECEIVE_TONE_OVERRIDE \<noteq> 0"

definition external_cor :: "receive_input \<Rightarrow> bool option" where
  "external_cor controls =
     (if ri_subaudible_override controls AND RECEIVE_EXTERNAL_COR_VALID \<noteq> 0
      then Some (ri_subaudible_override controls AND RECEIVE_EXTERNAL_COR_PRESENT \<noteq> 0) else None)"

definition override_bits_unknown :: "receive_input \<Rightarrow> bool" where
  "override_bits_unknown controls \<longleftrightarrow>
     ri_subaudible_override controls AND
       NOT (RECEIVE_TONE_OVERRIDE OR RECEIVE_EXTERNAL_COR_VALID OR RECEIVE_EXTERNAL_COR_PRESENT) \<noteq> 0"

definition receive_snapshots_valid ::
  "('w, 's, 'r, 'd, 'h, 'n) receive_worker \<Rightarrow> receive_input \<Rightarrow> bool \<Rightarrow> bool" where
  "receive_snapshots_valid worker controls snapshots_valid \<longleftrightarrow> snapshots_valid \<and>
     (qc_carrier_source (rw_qualification worker) \<noteq> CarrierExternal \<or> external_cor controls \<noteq> None)"

text \<open>With speech admission, a receiver that ignores its carrier is open, and one whose snapshots are
  missing or whose input is turned down is closed.\<close>

definition speech_qualification ::
  "('w, 's, 'r, 'd, 'h, 'n) receive_worker \<Rightarrow> bool \<Rightarrow> qualification_config" where
  "speech_qualification worker snapshots_valid =
     (let q = rw_qualification worker
      in if rw_vad_mode worker \<noteq> 0
         then let q = (if qc_carrier_source q = CarrierIgnore then q\<lparr>qc_carrier_source := CarrierOpen\<rparr> else q)
           in if \<not> snapshots_valid \<or> fp_eq (rw_input_gain worker) fp_zero
              then q\<lparr>qc_carrier_source := CarrierIgnore\<rparr> else q
         else q)"

definition final_qualification :: "qualification_config \<Rightarrow> receive_input \<Rightarrow> bool \<Rightarrow> qualification_config" where
  "final_qualification q controls snapshots_valid =
     (let q = q\<lparr>qc_subaudible_override := qc_subaudible_override q \<or> tone_override controls\<rparr>
      in if \<not> snapshots_valid then q\<lparr>qc_carrier_source := CarrierIgnore, qc_subaudible_override := False\<rparr> else q)"

definition worker_signal_mode :: "('w, 's, 'r, 'd, 'h, 'n) receive_worker \<Rightarrow> qualification_mode" where
  "worker_signal_mode worker =
     (if rw_dcs_enabled worker then QualifyDcs
      else if rw_ctcss_enabled worker then QualifyCtcss else QualifyNone)"

definition receive_inputs ::
  "('w, 's, 'r, 'd, 'h, 'n) receive_worker \<Rightarrow> receive_input \<Rightarrow> process_result \<Rightarrow> bool \<Rightarrow> qualification_inputs" where
  "receive_inputs worker controls detected tx_ptt =
     \<lparr>qi_external_carrier = external_cor controls,
      qi_hardware_carrier = (ri_hardware_carrier controls \<noteq> 0),
      qi_parallel_carrier = (ri_parallel_carrier controls \<noteq> 0),
      qi_dsp_carrier = pr_carrier_detect detected,
      qi_hardware_subaudible = (ri_hardware_subaudible controls \<noteq> 0),
      qi_parallel_subaudible = (ri_parallel_subaudible controls \<noteq> 0),
      qi_dcs_receive_enabled = rw_dcs_enabled worker, qi_dcs_valid = pr_dcs_valid detected,
      qi_ctcss_receive_enabled = rw_ctcss_enabled worker, qi_ctcss_decoder_available = True,
      qi_ctcss_decoded = (0 \<le> pr_ctcss_decoded detected), qi_signal_mode = worker_signal_mode worker,
      qi_tx_ptt_out = tx_ptt, qi_txrx_blanking_active = (pr_blanked_native_frames detected \<noteq> 0)\<rparr>"

section \<open>Detection\<close>

text \<open>An error of the detector is a panic.\<close>

definition receive_detect ::
  "('w, 's, 'r, 'd, 'h, 'n) receive_worker \<Rightarrow> f32 list \<Rightarrow> receive_input \<Rightarrow> qualification_config \<Rightarrow>
     (('w, 's, 'r, 'd, 'h, 'n) receive_worker \<times> process_result) option" where
  "receive_detect worker input controls qualification =
     (case process_with_carrier (rw_detector worker) input
             (external_carrier (qc_carrier_source qualification) (ri_hardware_carrier controls \<noteq> 0)
                (ri_parallel_carrier controls \<noteq> 0) (external_cor controls)) of
        None \<Rightarrow> None
      | Some (detector, Inl _) \<Rightarrow> None
      | Some (detector, Inr detected) \<Rightarrow> Some (worker\<lparr>rw_detector := detector\<rparr>, detected))"

definition receive_saver ::
  "('w, 's, 'r, 'd, 'h, 'n) receive_worker \<Rightarrow> bool \<Rightarrow> bool \<Rightarrow>
     ('w, 's, 'r, 'd, 'h, 'n) receive_worker option" where
  "receive_saver worker carrier_active tx_ptt =
     (case rx_cpu_saver_advance
        \<lparr>rxs_enabled = of_flag (rw_cpu_saver_enabled worker), rxs_carrier_detect = of_flag carrier_active,
         rxs_signal_mode_null = of_flag (worker_signal_mode worker = QualifyNone), rxs_tx_ptt_in = 0,
         rxs_tx_ptt_out = of_flag tx_ptt\<rparr> (rw_cpu_saver_state worker) of
        Inl _ \<Rightarrow> None
      | Inr saver \<Rightarrow>
          Some (worker\<lparr>rw_cpu_saver_state := saver,
            rw_detector := set_voice_processing_active (rxs_halted saver = 0) (rw_detector worker)\<rparr>))"

text \<open>The pending blanking is taken whatever its sign, and armed when it is positive.\<close>

definition take_blanking ::
  "('w, 's, 'r, 'd, 'h, 'n, 't, 'u) session \<Rightarrow> ('w, 's, 'r, 'd, 'h, 'n, 't, 'u) session" where
  "take_blanking session =
     (let duration = sh_receiver_blanking_ms (ss_shared session);
          session = session\<lparr>ss_shared := (ss_shared session)\<lparr>sh_receiver_blanking_ms := 0\<rparr>\<rparr>;
          worker = ss_receive session
      in if 0 < duration
         then session\<lparr>ss_receive := worker\<lparr>rw_detector := path_arm_receive_blanking duration (rw_detector worker)\<rparr>\<rparr>
         else session)"

definition receive_indications ::
  "('w, 's, 'r, 'd, 'h, 'n, 't, 'u) session \<Rightarrow> f32 list \<Rightarrow> nat \<Rightarrow> receive_input \<Rightarrow> bool \<Rightarrow>
     (('w, 's, 'r, 'd, 'h, 'n, 't, 'u) session \<times> process_result \<times> qualification_output) option" where
  "receive_indications session input frame_count controls snapshots_valid =
     (let session = take_blanking session;
          worker = ss_receive session;
          qualification = speech_qualification worker snapshots_valid;
          tx_ptt = sh_logical_ptt (ss_shared session)
      in Option.bind (receive_detect worker input controls qualification) (\<lambda>(worker, detected).
         let (state, qualified) = qualification_advance
               (final_qualification qualification controls snapshots_valid)
               (receive_inputs worker controls detected tx_ptt) frame_count (rw_qualification_state worker)
         in Option.bind (receive_saver (worker\<lparr>rw_qualification_state := state\<rparr>) (qo_carrier_active qualified) tx_ptt)
              (\<lambda>worker. Some (session\<lparr>ss_receive := worker\<rparr>, detected, qualified))))"

section \<open>The programme\<close>

definition captured_channel :: "nat \<Rightarrow> nat \<Rightarrow> f32 list \<Rightarrow> f32 list" where
  "captured_channel channel count input = List.map (\<lambda>index. input ! (index * 2 + channel)) [0..<count]"

definition rx_deemphasis :: "nat \<Rightarrow> ('w, 's, 'r, 'd, 'h, 'n) rx \<Rightarrow> ('w, 's, 'r, 'd, 'h, 'n) rx \<times> unit result" where
  "rx_deemphasis count = (\<lambda>(worker, w).
     let ((w, audio), status) = run_processor (po_receive_deemphasis (rw_ports worker))
           (take count (rw_input_mono worker)) (take count (rw_work_a worker)) w
     in ((worker\<lparr>rw_work_a := write_span 0 audio (rw_work_a worker)\<rparr>, w), status))"

text \<open>A noise squelch mutes sample by sample, any other carrier mutes the whole span.\<close>

definition gate_samples :: "nat list \<Rightarrow> f32 list \<Rightarrow> f32 list" where
  "gate_samples gates samples =
     map2 (\<lambda>sample gate. if gate = 0 then fp_zero else sample) samples gates @ drop (length gates) samples"

definition rx_gate ::
  "nat \<Rightarrow> bool \<Rightarrow> ('w, 's, 'r, 'd, 'h, 'n) receive_worker \<Rightarrow> ('w, 's, 'r, 'd, 'h, 'n) receive_worker" where
  "rx_gate count carrier_active worker =
     (if rw_per_sample_noise_gate worker
      then worker\<lparr>rw_work_a := write_span 0
             (gate_samples (carrier_gates (rw_detector worker)) (take count (rw_work_a worker))) (rw_work_a worker)\<rparr>
      else if \<not> carrier_active
      then worker\<lparr>rw_work_a := write_span 0 (replicate count fp_zero) (rw_work_a worker)\<rparr>
      else worker)"

text \<open>Without speech admission the audible delay is a plain ring.\<close>

definition plain_delay_step :: "f32 list \<times> nat \<Rightarrow> f32 \<Rightarrow> (f32 list \<times> nat) \<times> f32" where
  "plain_delay_step = (\<lambda>(delay, index) captured.
     if delay = [] then ((delay, index), captured)
     else
       let sample = delay ! index; delay = delay[index := captured]; index = index + 1;
           index = (if index = length delay then 0 else index)
       in ((delay, index), sample))"

definition rx_plain_programme ::
  "nat \<Rightarrow> f32 list \<Rightarrow> bool \<Rightarrow> ('w, 's, 'r, 'd, 'h, 'n) rx \<Rightarrow> ('w, 's, 'r, 'd, 'h, 'n) rx \<times> unit result" where
  "rx_plain_programme count input carrier_active = (\<lambda>(worker, w).
     let ((delay, index), mono) = step_samples plain_delay_step (rw_delay worker, rw_delay_index worker)
           (captured_channel (rw_receive_channel worker) count input);
         worker = worker\<lparr>rw_delay := delay, rw_delay_index := index,
           rw_input_mono := write_span 0 mono (rw_input_mono worker)\<rparr>
     in run_bind (rx_deemphasis count (worker, w)) (\<lambda>(worker, w) _.
        let worker = rx_gate count carrier_active worker;
            gain = rw_input_gain worker
        in ((worker\<lparr>rw_work_a := write_span 0
               (List.map (\<lambda>sample. fp_mul binary32 sample gain) (take count (rw_work_a worker)))
               (rw_work_a worker)\<rparr>, w), Inr ())))"

text \<open>With speech admission the delay belongs to the burst: what it held before is not heard.\<close>

definition speech_delay_step ::
  "bool \<Rightarrow> f32 \<Rightarrow> f32 list \<times> nat \<times> nat \<Rightarrow> f32 \<Rightarrow> (f32 list \<times> nat \<times> nat) \<times> f32" where
  "speech_delay_step raw gain = (\<lambda>(delay, index, valid) sample.
     let captured = (if raw then sample else fp_zero);
         (s, sample) =
           (if delay = [] then ((delay, index, valid), captured)
            else
              let full = (valid = length delay); delayed = delay ! index; delay = delay[index := captured];
                  index = (index + 1) mod length delay;
                  valid = (if raw then min (valid + 1) (length delay) else valid)
              in ((delay, index, valid), if full then delayed else fp_zero))
     in (s, fp_mul binary32 sample gain))"

definition rx_vad_reset :: "('w, 's, 'r, 'd, 'h, 'n) rx \<Rightarrow> ('w, 's, 'r, 'd, 'h, 'n) rx \<times> unit result" where
  "rx_vad_reset = (\<lambda>(worker, w).
     if rw_vad_needs_reset worker
     then let (vad, status) = vad_reset (rw_vad worker); worker = worker\<lparr>rw_vad := vad\<rparr>
       in case status of
            Inl e \<Rightarrow> ((worker, w), Inl e)
          | Inr _ \<Rightarrow> ((worker\<lparr>rw_vad_needs_reset := False, rw_delay_valid := 0, rw_delay_index := 0\<rparr>, w), Inr ())
     else ((worker, w), Inr ()))"

definition rx_speech ::
  "nat \<Rightarrow> bool \<Rightarrow> ('w, 's, 'r, 'd, 'h, 'n) rx \<Rightarrow> ('w, 's, 'r, 'd, 'h, 'n) rx \<times> vad_decision result" where
  "rx_speech count raw = (\<lambda>(worker, w).
     let (vad, status) = vad_process (rw_vad worker) (take count (rw_work_a worker)) raw (rw_sample_index worker)
     in ((worker\<lparr>rw_vad := vad\<rparr>, w), status))"

definition rx_delay_burst ::
  "nat \<Rightarrow> bool \<Rightarrow> ('w, 's, 'r, 'd, 'h, 'n) receive_worker \<Rightarrow> ('w, 's, 'r, 'd, 'h, 'n) receive_worker" where
  "rx_delay_burst count raw worker =
     (let worker = (if \<not> raw then worker\<lparr>rw_delay_valid := 0, rw_delay_index := 0\<rparr> else worker);
          ((delay, index, valid), audio) = step_samples (speech_delay_step raw (rw_input_gain worker))
            (rw_delay worker, rw_delay_index worker, rw_delay_valid worker) (take count (rw_work_a worker))
      in worker\<lparr>rw_delay := delay, rw_delay_index := index, rw_delay_valid := valid,
                rw_work_a := write_span 0 audio (rw_work_a worker)\<rparr>)"

definition rx_speech_programme ::
  "nat \<Rightarrow> f32 list \<Rightarrow> bool \<Rightarrow> bool \<Rightarrow> ('w, 's, 'r, 'd, 'h, 'n) rx \<Rightarrow>
     ('w, 's, 'r, 'd, 'h, 'n) rx \<times> (vad_decision \<times> bool) result" where
  "rx_speech_programme count input carrier_active raw rx =
     run_bind (rx_vad_reset rx) (\<lambda>(worker, w) _.
     let worker = worker\<lparr>rw_input_mono :=
           write_span 0 (captured_channel (rw_receive_channel worker) count input) (rw_input_mono worker)\<rparr>
     in run_bind (rx_deemphasis count (worker, w)) (\<lambda>(worker, w) _.
        run_bind (rx_speech count raw (rx_gate count carrier_active worker, w)) (\<lambda>(worker, w) speech.
        let worker = rx_delay_burst count raw worker;
            keyed = (raw \<and> vd_admitted speech);
            worker = (if rcf_vad_external_delay (rw_config worker) = 0 \<and> \<not> keyed
              then worker\<lparr>rw_work_a := write_span 0 (replicate count fp_zero) (rw_work_a worker)\<rparr> else worker)
        in ((worker, w), Inr (speech, keyed)))))"

definition rx_programme ::
  "nat \<Rightarrow> f32 list \<Rightarrow> qualification_output \<Rightarrow> ('w, 's, 'r, 'd, 'h, 'n) rx \<Rightarrow>
     ('w, 's, 'r, 'd, 'h, 'n) rx \<times> (vad_decision \<times> bool) result" where
  "rx_programme count input qualified rx =
     (if rw_vad_mode (fst rx) = 0
      then run_bind (rx_plain_programme count input (qo_carrier_active qualified) rx)
             (\<lambda>rx _. (rx, Inr (vad_decision_default, qo_rx_keyed qualified)))
      else rx_speech_programme count input (qo_carrier_active qualified) (qo_rx_keyed qualified) rx)"

section \<open>Filters and voice processing\<close>

definition rx_filters ::
  "nat \<Rightarrow> process_result \<Rightarrow> ('w, 's, 'r, 'd, 'h, 'n) rx \<Rightarrow> ('w, 's, 'r, 'd, 'h, 'n) rx \<times> bool result" where
  "rx_filters count detected = (\<lambda>(worker, w).
     let ((w, filtered, notched), status) =
           run_receive_filters (rw_ports worker) (pr_ctcss_decoded detected) (pr_ctcss_tail_tone_active detected)
             (take count (rw_work_a worker)) (take count (rw_work_b worker)) (take count (rw_work_c worker)) w
     in ((worker\<lparr>rw_work_b := write_span 0 filtered (rw_work_b worker),
                 rw_work_c := write_span 0 notched (rw_work_c worker)\<rparr>, w), status))"

definition rx_bypass_voice ::
  "nat \<Rightarrow> nat \<Rightarrow> bool \<Rightarrow> ('w, 's, 'r, 'd, 'h, 'n) rx \<Rightarrow> ('w, 's, 'r, 'd, 'h, 'n) rx \<times> unit result" where
  "rx_bypass_voice count frame_count notched = (\<lambda>(worker, w).
     let (w, status) = bypass_port (po_receive_noise_reduction (rw_ports worker)) frame_count w
     in case status of
          Inl e \<Rightarrow> ((worker, w), Inl e)
        | Inr _ \<Rightarrow>
            ((if notched
              then worker\<lparr>rw_work_b := write_span 0 (take count (rw_work_c worker)) (rw_work_b worker)\<rparr>
              else worker, w), Inr ()))"

definition rx_process_voice ::
  "nat \<Rightarrow> bool \<Rightarrow> ('w, 's, 'r, 'd, 'h, 'n) rx \<Rightarrow> ('w, 's, 'r, 'd, 'h, 'n) rx \<times> unit result" where
  "rx_process_voice count notched = (\<lambda>(worker, w).
     let ((w, audio), status) = run_optional_processor (po_receive_noise_reduction (rw_ports worker))
           (take count (if notched then rw_work_c worker else rw_work_b worker)) (take count (rw_work_a worker)) w;
         worker = worker\<lparr>rw_work_a := write_span 0 audio (rw_work_a worker)\<rparr>
     in case status of
          Inl e \<Rightarrow> ((worker, w), Inl e)
        | Inr _ \<Rightarrow>
            (let ((w, audio), status) = run_processor (po_receive_dynamics (rw_ports worker))
                   (take count (rw_work_a worker)) (take count (rw_work_b worker)) w
             in ((worker\<lparr>rw_work_b := write_span 0 audio (rw_work_b worker)\<rparr>, w), status)))"

definition rx_audio ::
  "nat \<Rightarrow> f32 list \<Rightarrow> process_result \<Rightarrow> qualification_output \<Rightarrow> ('w, 's, 'r, 'd, 'h, 'n) rx \<Rightarrow>
     ('w, 's, 'r, 'd, 'h, 'n) rx \<times> (vad_decision \<times> bool) result" where
  "rx_audio count input detected qualified rx =
     run_bind (rx_programme count input qualified rx) (\<lambda>rx (speech, keyed).
     run_bind (rx_filters count detected rx) (\<lambda>(worker, w) notched.
     run_bind (if rw_cpu_saver_enabled worker \<and> \<not> qo_rx_keyed qualified
               then rx_bypass_voice count count notched (worker, w)
               else rx_process_voice count notched (worker, w)) (\<lambda>rx _.
     (rx, Inr (speech, keyed)))))"

section \<open>Publication\<close>

definition receive_edges ::
  "('w, 's, 'r, 'd, 'h, 'n) receive_worker \<Rightarrow> qualification_output \<Rightarrow> bool \<Rightarrow> process_result \<Rightarrow>
     (event_kind \<times> int) list" where
  "receive_edges worker qualified keyed detected =
     List.map snd (filter fst
       [(rw_previous_carrier worker \<noteq> qo_carrier_active qualified,
           EventCarrier, int (of_flag (qo_carrier_active qualified))),
        (rw_previous_subaudible worker \<noteq> qo_subaudible_active qualified,
           EventSubaudible, int (of_flag (qo_subaudible_active qualified))),
        (rw_previous_keyed worker \<noteq> keyed, EventReceiverKeyed, int (of_flag keyed)),
        (rw_previous_ctcss worker \<noteq> pr_ctcss_decoded detected, EventCtcssDecode, pr_ctcss_decoded detected),
        (rw_previous_dcs worker \<noteq> pr_dcs_valid detected,
           EventDcsDecode, int (of_flag (pr_dcs_valid detected)))])"

definition push_edges :: "nat \<Rightarrow> nat \<Rightarrow> (event_kind \<times> int) list \<Rightarrow> event_queue \<Rightarrow> event_queue" where
  "push_edges generation_id sample_index edges queue =
     foldl (\<lambda>queue (kind, value). push_edge queue generation_id sample_index kind value) queue edges"

definition speech_preroll :: "nat \<Rightarrow> nat" where
  "speech_preroll mode = (if mode = 0 then 0 else VAD_PREROLL_FRAMES)"

definition last_voice_index :: "vad_decision \<Rightarrow> nat" where
  "last_voice_index speech = (case vd_last_voice_sample_index speech of None \<Rightarrow> u64_max | Some i \<Rightarrow> i)"

definition receive_snapshot ::
  "('w, 's, 'r, 'd, 'h, 'n) receive_worker \<Rightarrow> process_result \<Rightarrow> qualification_output \<Rightarrow> vad_decision \<Rightarrow> bool \<Rightarrow>
     f32 \<times> f32 \<times> nat \<Rightarrow> f32 \<times> f32 \<times> nat \<Rightarrow> atomic_snapshot \<Rightarrow> atomic_snapshot" where
  "receive_snapshot worker detected qualified speech keyed heard emitted snapshot =
     snapshot\<lparr>sn_receive_frames := rw_sample_index worker,
       sn_receive_input_peak := fst heard, sn_receive_input_rms := fst (snd heard),
       sn_receive_ctcss_decoder_peak := pr_ctcss_decoder_peak detected,
       sn_receive_output_peak := fst emitted, sn_receive_output_rms := fst (snd emitted),
       sn_receive_input_rails := sn_receive_input_rails snapshot + of_nat (snd (snd heard)),
       sn_receive_output_rails := sn_receive_output_rails snapshot + of_nat (snd (snd emitted)),
       sn_raw_receiver_keyed := qo_rx_keyed qualified, sn_rf_burst_id := vd_rf_burst_id speech,
       sn_vad_mode := rw_vad_mode worker, sn_vad_voice_active := vd_voice_active speech,
       sn_vad_score := vd_score speech, sn_vad_voice_sample_index := last_voice_index speech,
       sn_vad_preroll_frames := speech_preroll (rw_vad_mode worker),
       sn_carrier := qo_carrier_active qualified, sn_subaudible := qo_subaudible_active qualified,
       sn_receiver_keyed := keyed, sn_decoded_ctcss := pr_ctcss_decoded detected,
       sn_dcs_valid := pr_dcs_valid detected\<rparr>"

definition receive_result_of ::
  "('w, 's, 'r, 'd, 'h, 'n) receive_worker \<Rightarrow> nat \<Rightarrow> nat \<Rightarrow> nat \<Rightarrow> bool \<Rightarrow> process_result \<Rightarrow> qualification_output \<Rightarrow>
     vad_decision \<Rightarrow> bool \<Rightarrow> f32 \<times> f32 \<times> nat \<Rightarrow> f32 \<times> f32 \<times> nat \<Rightarrow> receive_result" where
  "receive_result_of worker generation_id first_sample frame_count due detected qualified speech keyed heard emitted =
     \<lparr>rv_generation_id = generation_id, rv_first_sample_index = first_sample, rv_frame_count = frame_count,
      rv_carrier_active = of_flag (qo_carrier_active qualified),
      rv_subaudible_active = of_flag (qo_subaudible_active qualified), rv_receiver_keyed = of_flag keyed,
      rv_ctcss_decoded_index = pr_ctcss_decoded detected, rv_dcs_valid = of_flag (pr_dcs_valid detected),
      rv_rssi_peak = pr_rssi_peak detected, rv_rssi_updated = of_flag (pr_rssi_updated detected),
      rv_ctcss_decoder_peak = pr_ctcss_decoder_peak detected,
      rv_input_peak = fst heard, rv_input_rms = fst (snd heard), rv_input_rail_samples = snd (snd heard),
      rv_output_peak = fst emitted, rv_output_rms = fst (snd emitted), rv_output_rail_samples = snd (snd emitted),
      rv_periodic_status_due = of_flag due, rv_raw_receiver_keyed = of_flag (qo_rx_keyed qualified),
      rv_rf_burst_id = vd_rf_burst_id speech, rv_vad_mode = rw_vad_mode worker,
      rv_vad_voice_active = of_flag (vd_voice_active speech), rv_vad_score = vd_score speech,
      rv_vad_voice_sample_index = last_voice_index speech,
      rv_vad_preroll_frames = speech_preroll (rw_vad_mode worker)\<rparr>"

text \<open>The clock moves before the edges are stamped, so an edge carries the index after its span.\<close>

definition receive_publish ::
  "('w, 's, 'r, 'd, 'h, 'n, 't, 'u) session \<Rightarrow> nat \<Rightarrow> process_result \<Rightarrow> qualification_output \<Rightarrow> vad_decision \<Rightarrow>
     bool \<Rightarrow> f32 \<times> f32 \<times> nat \<Rightarrow> (('w, 's, 'r, 'd, 'h, 'n, 't, 'u) session \<times> receive_result) option" where
  "receive_publish session frame_count detected qualified speech keyed heard =
     (let worker = ss_receive session;
          first_sample = rw_sample_index worker;
          worker = worker\<lparr>rw_sample_index := saturating_add_u64 first_sample frame_count\<rparr>
      in Option.bind (publication_due (rw_sample_index worker) (rw_next_publication_frame worker)
              (rw_publication_interval_frames worker)) (\<lambda>(next_frame, due).
         let emitted = measure (take frame_count (rw_work_b worker));
             events = push_edges (ss_generation_id session) (rw_sample_index worker)
               (receive_edges worker qualified keyed detected) (ss_receive_events session);
             worker = worker\<lparr>rw_next_publication_frame := next_frame,
               rw_previous_carrier := qo_carrier_active qualified,
               rw_previous_subaudible := qo_subaudible_active qualified, rw_previous_keyed := keyed,
               rw_previous_ctcss := pr_ctcss_decoded detected, rw_previous_dcs := pr_dcs_valid detected\<rparr>
         in Some (session\<lparr>ss_receive := worker, ss_receive_events := events,
                ss_snapshot := receive_snapshot worker detected qualified speech keyed heard emitted (ss_snapshot session)\<rparr>,
              receive_result_of worker (ss_generation_id session) first_sample frame_count due detected qualified
                speech keyed heard emitted)))"

section \<open>The callback\<close>

text \<open>The part under the busy flag: a checked span is received.  It gives the samples of the span, if it
  got that far, and the result.\<close>

definition receive_span ::
  "('w, 's, 'r, 'd, 'h, 'n, 't, 'u) session \<Rightarrow> 'w \<Rightarrow> f32 list \<Rightarrow> nat \<Rightarrow> receive_input \<Rightarrow> bool \<Rightarrow>
     ((('w, 's, 'r, 'd, 'h, 'n, 't, 'u) session \<times> 'w) \<times> (f32 list \<times> receive_result) result) option" where
  "receive_span session w input frame_count controls snapshots_valid =
     (let heard = measure_channel input (rw_receive_channel (ss_receive session));
          snapshots_valid = receive_snapshots_valid (ss_receive session) controls snapshots_valid
      in Option.bind (receive_indications session input frame_count controls snapshots_valid)
           (\<lambda>(session, detected, qualified).
         let ((worker, w), status) = rx_audio frame_count input detected qualified (ss_receive session, w);
             session = session\<lparr>ss_receive := worker\<rparr>
         in case status of
              Inl _ \<Rightarrow> (let (session, e) = receive_provider_failure session in Some ((session, w), Inl e))
            | Inr (speech, keyed) \<Rightarrow>
                Option.bind (receive_publish session frame_count detected qualified speech keyed heard)
                  (\<lambda>(session, result).
                    Some ((session, w), Inr (take frame_count (rw_work_b worker), result)))))"

definition receive_checked ::
  "('w, 's, 'r, 'd, 'h, 'n, 't, 'u) session \<Rightarrow> 'w \<Rightarrow> f32 list \<Rightarrow> nat \<Rightarrow> receive_input \<Rightarrow> bool \<Rightarrow>
     ((('w, 's, 'r, 'd, 'h, 'n, 't, 'u) session \<times> 'w) \<times> (f32 list \<times> receive_result) result) option" where
  "receive_checked session w input frame_count controls snapshots_valid =
     (if \<not> ss_warmed session then Some ((session, w), Inl NOT_READY)
      else if ss_receive_busy session then Some ((session, w), Inl BUSY)
      else if rw_maximum_frames (ss_receive session) < frame_count then Some ((session, w), Inl FRAME_COUNT_EXCEEDED)
      else if list_ex (\<lambda>sample. \<not> is_finite sample) input then Some ((session, w), Inl INVALID_ARGUMENT)
      else if override_bits_unknown controls then Some ((session, w), Inl INVALID_ARGUMENT)
      else receive_span session w input frame_count controls snapshots_valid)"

text \<open>The output is silenced first and stays silent unless the whole span succeeds.\<close>

definition silenced :: "nat \<Rightarrow> f32 list \<Rightarrow> f32 list" where
  "silenced count buffer = write_span 0 (replicate count fp_zero) buffer"

definition receive_inner ::
  "('w, 's, 'r, 'd, 'h, 'n, 't, 'u) session \<Rightarrow> 'w \<Rightarrow> f32 list option \<Rightarrow> f32 list option \<Rightarrow> nat \<Rightarrow>
     receive_input option \<Rightarrow> receive_result option \<Rightarrow> bool \<Rightarrow>
     ((('w, 's, 'r, 'd, 'h, 'n, 't, 'u) session \<times> 'w) \<times> f32 list option \<times> receive_result option \<times> unit result) option" where
  "receive_inner session w input output frame_count controls result snapshots_valid =
     (case (output, result) of
        (Some out, Some _) \<Rightarrow>
          if frame_count = 0 then Some ((session, w), output, result, Inl INVALID_ARGUMENT)
          else
            let out = silenced frame_count out
            in (case (input, controls) of
                  (Some input, Some controls) \<Rightarrow>
                    Option.bind (receive_checked session w (take (frame_count * 2) input) frame_count controls snapshots_valid)
                      (\<lambda>(state, status). Some
                        (case status of
                           Inl e \<Rightarrow> (state, Some out, result, Inl e)
                         | Inr (samples, r) \<Rightarrow> (state, Some (write_span 0 samples out), Some r, Inr ())))
                | _ \<Rightarrow> Some ((session, w), Some out, result, Inl INVALID_ARGUMENT))
      | _ \<Rightarrow> Some ((session, w), output, result, Inl INVALID_ARGUMENT))"

definition receive ::
  "('w, 's, 'r, 'd, 'h, 'n, 't, 'u) session option \<Rightarrow> 'w \<Rightarrow> f32 list option \<Rightarrow> f32 list option \<Rightarrow> nat \<Rightarrow>
     receive_input option \<Rightarrow> receive_result option \<Rightarrow>
     ((('w, 's, 'r, 'd, 'h, 'n, 't, 'u) session option \<times> 'w) \<times> f32 list option \<times> receive_result option \<times> unit result) option" where
  "receive session w input output frame_count controls result =
     (case session of
        None \<Rightarrow> Some ((session, w), output, result, Inl INVALID_ARGUMENT)
      | Some current \<Rightarrow>
          if ss_profile current \<noteq> None then Some ((session, w), output, result, Inl UNSUPPORTED)
          else map_option (\<lambda>((current, w), rest). ((Some current, w), rest))
                 (receive_inner current w input output frame_count controls result True))"

definition PROFILE_RECEIVE_INPUT_SIZE :: nat where "PROFILE_RECEIVE_INPUT_SIZE = 40"
definition PROFILE_RECEIVE_RESULT_SIZE :: nat where "PROFILE_RECEIVE_RESULT_SIZE = 152"

definition receive_result_default :: receive_result where
  "receive_result_default = \<lparr>rv_generation_id = 0, rv_first_sample_index = 0, rv_frame_count = 0,
     rv_carrier_active = 0, rv_subaudible_active = 0, rv_receiver_keyed = 0, rv_ctcss_decoded_index = 0,
     rv_dcs_valid = 0, rv_rssi_peak = 0, rv_rssi_updated = 0, rv_ctcss_decoder_peak = fp_zero,
     rv_input_peak = fp_zero, rv_input_rms = fp_zero, rv_input_rail_samples = 0, rv_output_peak = fp_zero,
     rv_output_rms = fp_zero, rv_output_rail_samples = 0, rv_periodic_status_due = 0, rv_raw_receiver_keyed = 0,
     rv_rf_burst_id = 0, rv_vad_mode = 0, rv_vad_voice_active = 0, rv_vad_score = fp_zero,
     rv_vad_voice_sample_index = 0, rv_vad_preroll_frames = 0\<rparr>"

text \<open>A normalised input counts only while it is valid; \<open>AND\<close> of two flags.\<close>

definition normalized_input :: "profile_receive_input \<Rightarrow> receive_input" where
  "normalized_input controls = (pri_controls controls)\<lparr>
     ri_hardware_carrier := pri_hardware_cor controls AND pri_hardware_cor_valid controls,
     ri_hardware_subaudible := pri_external_ctcss controls AND pri_external_ctcss_valid controls\<rparr>"

definition receive_profiled ::
  "('w, 's, 'r, 'd, 'h, 'n, 't, 'u) session option \<Rightarrow> 'w \<Rightarrow> f32 list option \<Rightarrow> f32 list option \<Rightarrow> nat \<Rightarrow>
     profile_receive_input option \<Rightarrow> profile_receive_result option \<Rightarrow>
     ((('w, 's, 'r, 'd, 'h, 'n, 't, 'u) session option \<times> 'w) \<times> f32 list option \<times> profile_receive_result option \<times>
       unit result) option" where
  "receive_profiled session w input output frame_count controls result =
     (case session of
        None \<Rightarrow> Some ((session, w), output, result, Inl INVALID_ARGUMENT)
      | Some current \<Rightarrow>
          (case ss_profile current of
             None \<Rightarrow> Some ((session, w), output, result, Inl UNSUPPORTED)
           | Some profile \<Rightarrow>
               if \<not> (record_fits pri_struct_size PROFILE_RECEIVE_INPUT_SIZE controls \<and>
                      record_fits prr_struct_size PROFILE_RECEIVE_RESULT_SIZE result)
               then Some ((session, w), output, result, Inl INVALID_ARGUMENT)
               else
                 (case controls of
                    None \<Rightarrow> Some ((session, w), output, result, Inl INVALID_ARGUMENT)
                  | Some controls \<Rightarrow>
                      if list_ex (\<lambda>value. 1 < value) [pri_hardware_cor controls, pri_hardware_cor_valid controls,
                           pri_external_ctcss controls, pri_external_ctcss_valid controls]
                      then Some ((session, w), output, result, Inl INVALID_ARGUMENT)
                      else
                        Option.bind (receive_inner current w input output frame_count (Some (normalized_input controls))
                            (Some receive_result_default)
                            (profile_snapshots_valid profile (pri_hardware_cor_valid controls \<noteq> 0)
                               (pri_external_ctcss_valid controls \<noteq> 0)))
                          (\<lambda>((current, w), output, received, status). Some ((Some current, w), output,
                            (case (status, received) of
                               (Inr _, Some received) \<Rightarrow>
                                 Some \<lparr>prr_struct_size = PROFILE_RECEIVE_RESULT_SIZE, prr_result = received,
                                   prr_external_ctcss = pri_external_ctcss controls,
                                   prr_external_ctcss_valid = pri_external_ctcss_valid controls\<rparr>
                             | _ \<Rightarrow> result), status)))))"

end
