(* ===== verification/Session_Transmit.thy ===== *)
theory Session_Transmit
  imports Session_Receive Signaling_Timeline
begin

text \<open>
  The transmit callback of a session (\<open>transmit_inner\<close> in \<open>src/session.rs\<close>).  As in Session_Receive, the
  programme works on the worker together with the state \<open>'w\<close> of the borrowed processors; the sine of
  the test tone is a parameter.  The render spans of \<open>tick\<close> partition the callback,
  so the slices taken from them are in range.
\<close>

type_synonym ('w, 't, 'u) tx = "('w, 't, 'u) transmit_worker \<times> 'w"

section \<open>The programme\<close>

definition ring_result_malformed :: "f32 list \<Rightarrow> ring_result \<Rightarrow> bool" where
  "ring_result_malformed output result \<longleftrightarrow>
     list_ex (\<lambda>sample. \<not> is_finite sample) output \<or> 1 < rr_receiver_keyed result \<or> 1 < rr_dcs_valid result \<or>
     rr_ctcss_decoded_index result < -1 \<or> rr_ctcss_decoded_index result \<ge> int TONE_COUNT"

definition render_ring ::
  "'w ring_port \<Rightarrow> f32 list \<Rightarrow> ring_result \<Rightarrow> 'w \<Rightarrow> ('w \<times> f32 list \<times> ring_result) \<times> unit result" where
  "render_ring port output result w =
     (let output = replicate (length output) fp_zero
      in case prg_render_f32 port of
           None \<Rightarrow> ((w, output, result), Inr ())
         | Some render \<Rightarrow>
             (let (w, output, result, value) = render (prg_context port) output result w
              in if value \<noteq> 0 \<or> ring_result_malformed output result
                 then ((w, replicate (length output) fp_zero, result), Inl PROVIDER_FAILED)
                 else ((w, output, result), Inr ())))"

definition tx_programme ::
  "'w ring_port \<Rightarrow> nat \<Rightarrow> ('w, 't, 'u) tx \<Rightarrow> ('w, 't, 'u) tx \<times> ring_result result" where
  "tx_programme port count = (\<lambda>(worker, w).
     let ((w, program, ring), status) = render_ring port (take count (tw_program worker)) ring_result_default w;
         worker = worker\<lparr>tw_program := write_span 0 program (tw_program worker)\<rparr>
     in case status of
          Inl e \<Rightarrow> ((worker, w), Inl e)
        | Inr _ \<Rightarrow>
            (let ((w, processed), status) = run_processor (po_transmit_program (tw_ports worker))
                   (take count (tw_program worker)) (take count (tw_processed worker)) w
             in ((worker\<lparr>tw_processed := write_span 0 processed (tw_processed worker)\<rparr>, w),
                 bind_result status (\<lambda>_. Inr ring))))"

definition tx_test_tone :: "(f64 \<Rightarrow> f64) \<Rightarrow> nat \<Rightarrow> nat \<Rightarrow> ('w, 't, 'u) transmit_worker \<Rightarrow> ('w, 't, 'u) transmit_worker" where
  "tx_test_tone sine frame_count enabled worker =
     (let (s, processed) = tone_render sine (tw_test_tone worker) (tw_processed worker) frame_count enabled
      in worker\<lparr>tw_test_tone := s, tw_processed := processed\<rparr>)"

definition tick_input :: "nat \<Rightarrow> transmit_input \<Rightarrow> ring_result \<Rightarrow> ts_input" where
  "tick_input frame_count controls ring =
     \<lparr>tsi_native_frame_count = frame_count, tsi_tx_render_admitted = (ti_render_admitted controls \<noteq> 0),
      tsi_external_ptt_request = (ti_external_ptt_request controls \<noteq> 0),
      tsi_physical_ptt_applied = (ti_physical_ptt_applied controls \<noteq> 0),
      tsi_decoded_ctcss = rr_ctcss_decoded_index ring, tsi_dcs_valid = (rr_dcs_valid ring \<noteq> 0),
      tsi_ctcss_inhibit = (ti_ctcss_inhibit controls \<noteq> 0),
      tsi_forced_ctcss_tenths_hz = ti_forced_ctcss_tenths_hz controls\<rparr>"

definition tx_tick ::
  "nat \<Rightarrow> transmit_input \<Rightarrow> ring_result \<Rightarrow> ('w, 't, 'u) transmit_worker \<Rightarrow>
     ('w, 't, 'u) transmit_worker \<times> ts_output result" where
  "tx_tick frame_count controls ring worker =
     (case tick (fst (tw_signaling worker)) (snd (tw_signaling worker)) (tick_input frame_count controls ring) of
        Inl _ \<Rightarrow> (worker, Inl INVALID_ARGUMENT)
      | Inr (state, signaling) \<Rightarrow> (worker\<lparr>tw_signaling := (fst (tw_signaling worker), state)\<rparr>, Inr signaling))"

section \<open>Signaling waveforms\<close>

definition span_frequency :: "'t ctcss_transmit \<Rightarrow> render_span \<Rightarrow> f64" where
  "span_frequency ctcss_tx sp =
     (let tail_frequency = crs_tail_tone_hz (rs_ctcss_render sp)
      in if fp_lt fp_zero tail_frequency then tail_frequency
         else ct_legacy_frequency ctcss_tx
           (fp_div binary64 (fp_of_int binary64 (rs_ctcss_frequency_tenths_hz sp)) (fp_of_int binary64 10)))"

definition render_ctcss_span :: "('w, 't, 'u) transmit_worker \<Rightarrow> render_span \<Rightarrow> ('w, 't, 'u) transmit_worker" where
  "render_ctcss_span worker sp =
     (let (ctcss_tx, samples) = ctcss_generate (tw_ctcss_tx worker) (rs_frame_count sp)
            (span_frequency (tw_ctcss_tx worker) sp) (tw_ctcss_peak worker)
            (of_flag (rs_logical_ptt sp \<and> crs_enabled (rs_ctcss_render sp) \<noteq> 0))
            (crs_phase_shift_degrees (rs_ctcss_render sp))
      in worker\<lparr>tw_ctcss_tx := ctcss_tx,
                tw_ctcss := write_span (rs_frame_offset sp) samples (tw_ctcss worker)\<rparr>)"

definition render_ctcss :: "('w, 't, 'u) transmit_worker \<Rightarrow> ts_output \<Rightarrow> nat \<Rightarrow> ('w, 't, 'u) transmit_worker" where
  "render_ctcss worker signaling count =
     foldl render_ctcss_span (worker\<lparr>tw_ctcss := silenced count (tw_ctcss worker)\<rparr>) (tso_render_spans signaling)"

definition render_dcs_span ::
  "('w, 't, 'u) transmit_worker \<Rightarrow> render_span \<Rightarrow> ('w, 't, 'u) transmit_worker \<times> unit result" where
  "render_dcs_span worker sp =
     (let ((dcs, samples), status) = dcs_generate (tw_dcs worker) (rs_frame_count sp) (tw_dcs_peak worker)
            (of_flag (rs_logical_ptt sp \<and> tw_dcs_enabled worker)) (of_flag (rs_dcs_turnoff_active sp));
          worker = worker\<lparr>tw_dcs := dcs\<rparr>
      in (if rs_dcs_turnoff_active sp
          then worker\<lparr>tw_dcs_turnoff_raw := write_span (rs_frame_offset sp) samples (tw_dcs_turnoff_raw worker)\<rparr>
          else worker\<lparr>tw_dcs_normal_raw := write_span (rs_frame_offset sp) samples (tw_dcs_normal_raw worker)\<rparr>,
          status))"

fun render_dcs_spans ::
  "('w, 't, 'u) transmit_worker \<Rightarrow> render_span list \<Rightarrow> ('w, 't, 'u) transmit_worker \<times> unit result" where
  "render_dcs_spans worker [] = (worker, Inr ())"
| "render_dcs_spans worker (sp # spans) =
     run_bind (render_dcs_span worker sp) (\<lambda>worker _. render_dcs_spans worker spans)"

definition render_dcs ::
  "('w, 't, 'u) transmit_worker \<Rightarrow> ts_output \<Rightarrow> nat \<Rightarrow> ('w, 't, 'u) transmit_worker \<times> unit result" where
  "render_dcs worker signaling count =
     render_dcs_spans
       (worker\<lparr>tw_dcs_normal_raw := silenced count (tw_dcs_normal_raw worker),
               tw_dcs_turnoff_raw := silenced count (tw_dcs_turnoff_raw worker)\<rparr>)
       (tso_render_spans signaling)"

definition tx_dcs_filters :: "nat \<Rightarrow> ('w, 't, 'u) tx \<Rightarrow> ('w, 't, 'u) tx \<times> unit result" where
  "tx_dcs_filters count = (\<lambda>(worker, w).
     let ((w, filtered), status) = run_processor (po_transmit_dcs_normal_filter (tw_ports worker))
           (take count (tw_dcs_normal_raw worker)) (take count (tw_dcs_normal_filtered worker)) w;
         worker = worker\<lparr>tw_dcs_normal_filtered := write_span 0 filtered (tw_dcs_normal_filtered worker)\<rparr>
     in case status of
          Inl e \<Rightarrow> ((worker, w), Inl e)
        | Inr _ \<Rightarrow>
            (let ((w, filtered), status) = run_processor (po_transmit_dcs_turnoff_filter (tw_ports worker))
                   (take count (tw_dcs_turnoff_raw worker)) (take count (tw_dcs_turnoff_filtered worker)) w
             in ((worker\<lparr>tw_dcs_turnoff_filtered := write_span 0 filtered (tw_dcs_turnoff_filtered worker)\<rparr>, w),
                 status)))"

definition external_encoder :: "validated_profile option \<Rightarrow> bool" where
  "external_encoder profile \<longleftrightarrow> (case profile of None \<Rightarrow> False | Some p \<Rightarrow> vpr_encode p = PROFILE_EXTERNAL)"

definition tx_waveforms ::
  "validated_profile option \<Rightarrow> ts_output \<Rightarrow> nat \<Rightarrow> ('w, 't, 'u) tx \<Rightarrow> ('w, 't, 'u) tx \<times> unit result" where
  "tx_waveforms profile signaling count = (\<lambda>(worker, w).
     let worker = (if external_encoder profile
           then worker\<lparr>tw_ctcss := silenced count (tw_ctcss worker)\<rparr>
           else render_ctcss worker signaling count);
         (worker, status) = render_dcs worker signaling count
     in case status of
          Inl e \<Rightarrow> ((worker, w), Inl e)
        | Inr _ \<Rightarrow> tx_dcs_filters count (worker, w))"

section \<open>Output\<close>

definition route_sample :: "output_route \<Rightarrow> f32 \<Rightarrow> f32 \<Rightarrow> f32 \<Rightarrow> f32 \<Rightarrow> f32 \<Rightarrow> f32" where
  "route_sample route voice ctcss dcs tone_gain bias =
     (let v = fp_zero;
          v = (if route_voice route then fp_add binary32 v voice else v);
          v = (if route_tone route
               then fp_add binary32 v (fp_add binary32 (fp_add binary32 (fp_mul binary32 ctcss tone_gain) bias) dcs)
               else v)
      in fp_clamp v (fp_of_int binary32 (-1)) (fp_of_int binary32 1))"

definition mark_active :: "nat \<Rightarrow> render_span list \<Rightarrow> nat list \<Rightarrow> nat list" where
  "mark_active count spans active =
     foldl (\<lambda>active sp. if rs_logical_ptt sp
         then write_span (rs_frame_offset sp) (replicate (rs_frame_count sp) 1) active else active)
       (write_span 0 (replicate count 0) active) spans"

definition output_frame :: "('w, 't, 'u) transmit_worker \<Rightarrow> nat \<Rightarrow> f32 list" where
  "output_frame worker index =
     (let voice = tw_processed worker ! index; ctcss = tw_ctcss worker ! index;
          dcs = fp_add binary32 (tw_dcs_normal_filtered worker ! index) (tw_dcs_turnoff_filtered worker ! index)
      in [route_sample (tw_output_a_route worker) voice ctcss dcs (tw_output_a_tone_gain worker)
            (tw_output_a_tone_bias worker),
          route_sample (tw_output_b_route worker) voice ctcss dcs (tw_output_b_tone_gain worker)
            (tw_output_b_tone_bias worker)])"

text \<open>The output was silenced before; a frame that is not active is left alone.\<close>

definition output_frames :: "('w, 't, 'u) transmit_worker \<Rightarrow> nat \<Rightarrow> f32 list" where
  "output_frames worker count =
     List.concat (List.map (\<lambda>index. if tw_active worker ! index = 0 then [fp_zero, fp_zero]
       else output_frame worker index) [0..<count])"

section \<open>Publication\<close>

definition store_ring :: "ring_observation \<Rightarrow> atomic_snapshot \<Rightarrow> atomic_snapshot" where
  "store_ring ring snapshot =
     snapshot\<lparr>sn_ring_occupancy := ro_occupancy_frames ring, sn_ring_reserve := ro_reserve_frames ring,
       sn_ring_target := ro_target_frames ring, sn_ring_capacity := ro_capacity_frames ring,
       sn_ring_ratio := ro_ratio ring, sn_ring_underruns := ro_underrun_samples ring,
       sn_ring_overruns := ro_overrun_samples ring, sn_ring_concealment := ro_concealment_samples ring\<rparr>"

definition load_ring :: "atomic_snapshot \<Rightarrow> ring_observation" where
  "load_ring snapshot =
     \<lparr>ro_occupancy_frames = sn_ring_occupancy snapshot, ro_reserve_frames = sn_ring_reserve snapshot,
      ro_target_frames = sn_ring_target snapshot, ro_capacity_frames = sn_ring_capacity snapshot,
      ro_ratio = sn_ring_ratio snapshot, ro_underrun_samples = sn_ring_underruns snapshot,
      ro_overrun_samples = sn_ring_overruns snapshot, ro_concealment_samples = sn_ring_concealment snapshot\<rparr>"

definition transmit_edges :: "ts_output \<Rightarrow> (event_kind \<times> int) list" where
  "transmit_edges signaling =
     (if tso_logical_ptt_raised signaling \<or> tso_logical_ptt_released signaling
      then [(EventPtt, int (of_flag (tso_logical_ptt signaling)))] else []) @
     (if tso_ctcss_status_event signaling
      then [(EventCtcssTransmit, sms_tx_ctcss_frequency_tenths_hz (tso_signal_mode signaling))] else []) @
     (case tso_receiver_blanking_arm signaling of
        None \<Rightarrow> []
      | Some duration_ms \<Rightarrow> [(EventReceiverBlanking, duration_ms)])"

definition transmit_shared :: "ts_output \<Rightarrow> shared_state \<Rightarrow> shared_state" where
  "transmit_shared signaling shared =
     (case tso_receiver_blanking_arm signaling of
        None \<Rightarrow> shared
      | Some duration_ms \<Rightarrow> shared\<lparr>sh_receiver_blanking_ms := duration_ms\<rparr>)
     \<lparr>sh_logical_ptt := tso_logical_ptt signaling\<rparr>"

definition transmit_snapshot ::
  "nat \<Rightarrow> ts_output \<Rightarrow> ring_observation \<Rightarrow> f32 \<times> f32 \<times> nat \<Rightarrow> f32 \<times> f32 \<times> nat \<Rightarrow> atomic_snapshot \<Rightarrow> atomic_snapshot" where
  "transmit_snapshot sample_index signaling ring program emitted snapshot =
     store_ring ring (snapshot\<lparr>sn_transmit_frames := sample_index,
       sn_transmit_program_peak := fst program, sn_transmit_program_rms := fst (snd program),
       sn_transmit_output_peak := fst emitted, sn_transmit_output_rms := fst (snd emitted),
       sn_transmit_program_rails := sn_transmit_program_rails snapshot + of_nat (snd (snd program)),
       sn_transmit_output_rails := sn_transmit_output_rails snapshot + of_nat (snd (snd emitted)),
       sn_logical_ptt := tso_logical_ptt signaling\<rparr>)"

definition transmit_result_of ::
  "nat \<Rightarrow> nat \<Rightarrow> nat \<Rightarrow> bool \<Rightarrow> ts_output \<Rightarrow> ring_observation \<Rightarrow> f32 \<times> f32 \<times> nat \<Rightarrow> f32 \<times> f32 \<times> nat \<Rightarrow> transmit_result" where
  "transmit_result_of generation_id first_sample frame_count due signaling ring program emitted =
     \<lparr>tv_generation_id = generation_id, tv_first_sample_index = first_sample, tv_frame_count = frame_count,
      tv_logical_ptt = of_flag (tso_logical_ptt signaling), tv_transmitter_state = tso_transmitter_state signaling,
      tv_selected_ctcss_tenths_hz = sms_tx_ctcss_frequency_tenths_hz (tso_signal_mode signaling),
      tv_program_peak = fst program, tv_program_rms = fst (snd program), tv_program_rail_samples = snd (snd program),
      tv_output_peak = fst emitted, tv_output_rms = fst (snd emitted), tv_output_rail_samples = snd (snd emitted),
      tv_periodic_status_due = of_flag due, tv_program_ring = ring\<rparr>"

definition prepared_outputs_default :: prepared_outputs where
  "prepared_outputs_default = \<lparr>pro_logical_ptt = 0, pro_external_ctcss_enable = 0\<rparr>"

definition prepared_outputs_of :: "validated_profile option \<Rightarrow> transmit_input \<Rightarrow> ts_output \<Rightarrow> prepared_outputs" where
  "prepared_outputs_of profile controls signaling =
     \<lparr>pro_logical_ptt = of_flag (tso_logical_ptt signaling),
      pro_external_ctcss_enable = of_flag (external_encoder profile \<and> tso_logical_ptt signaling \<and>
        crs_enabled (tso_ctcss_render signaling) \<noteq> 0 \<and> ti_ctcss_inhibit controls = 0)\<rparr>"

definition transmit_publish ::
  "('w, 's, 'r, 'd, 'h, 'n, 't, 'u) session \<Rightarrow> nat \<Rightarrow> ts_output \<Rightarrow> ring_result \<Rightarrow> f32 \<times> f32 \<times> nat \<Rightarrow> f32 list \<Rightarrow>
     (('w, 's, 'r, 'd, 'h, 'n, 't, 'u) session \<times> transmit_result) option" where
  "transmit_publish session frame_count signaling ring program samples =
     (let worker = ss_transmit session;
          first_sample = tw_sample_index worker;
          worker = worker\<lparr>tw_sample_index := saturating_add_u64 first_sample frame_count\<rparr>
      in Option.bind (publication_due (tw_sample_index worker) (tw_next_publication_frame worker)
              (tw_publication_interval_frames worker)) (\<lambda>(next_frame, due).
         let emitted = measure samples
         in Some (session\<lparr>ss_transmit := worker\<lparr>tw_next_publication_frame := next_frame\<rparr>,
                ss_transmit_events := push_edges (ss_generation_id session) (tw_sample_index worker)
                  (transmit_edges signaling) (ss_transmit_events session),
                ss_shared := transmit_shared signaling (ss_shared session),
                ss_snapshot := transmit_snapshot (tw_sample_index worker) signaling (rr_observation ring) program
                  emitted (ss_snapshot session)\<rparr>,
              transmit_result_of (ss_generation_id session) first_sample frame_count due signaling
                (rr_observation ring) program emitted)))"

section \<open>The callback\<close>

definition transmit_failure ::
  "('w, 's, 'r, 'd, 'h, 'n, 't, 'u) session \<Rightarrow> ('w, 't, 'u) tx \<Rightarrow>
     (('w, 's, 'r, 'd, 'h, 'n, 't, 'u) session \<times> 'w) \<times> 'a result" where
  "transmit_failure session = (\<lambda>(worker, w).
     ((provider_failure (session\<lparr>ss_transmit := worker\<rparr>) False (tw_sample_index worker), w), Inl PROVIDER_FAILED))"

text \<open>The part under the busy flag.  It gives the samples of the span, the prepared outputs and the
  result.\<close>

definition transmit_span ::
  "(f64 \<Rightarrow> f64) \<Rightarrow> ('w, 's, 'r, 'd, 'h, 'n, 't, 'u) session \<Rightarrow> 'w \<Rightarrow> nat \<Rightarrow> transmit_input \<Rightarrow>
     ((('w, 's, 'r, 'd, 'h, 'n, 't, 'u) session \<times> 'w) \<times> (f32 list \<times> prepared_outputs \<times> transmit_result) result) option" where
  "transmit_span sine session w frame_count controls =
     (case tx_programme (ss_program_ring session) frame_count (ss_transmit session, w) of
        (tx, Inl _) \<Rightarrow> Some (transmit_failure session tx)
      | ((worker, w), Inr ring) \<Rightarrow>
          (let worker = tx_test_tone sine frame_count (ti_calibrated_test_tone controls) worker;
               program = measure (take frame_count (tw_processed worker))
           in case tx_tick frame_count controls ring worker of
                (worker, Inl e) \<Rightarrow> Some ((session\<lparr>ss_transmit := worker\<rparr>, w), Inl e)
              | (worker, Inr signaling) \<Rightarrow>
                  (case tx_waveforms (ss_profile session) signaling frame_count (worker, w) of
                     (tx, Inl _) \<Rightarrow> Some (transmit_failure session tx)
                   | ((worker, w), Inr _) \<Rightarrow>
                       (let worker = worker\<lparr>tw_active :=
                              mark_active frame_count (tso_render_spans signaling) (tw_active worker)\<rparr>;
                            samples = output_frames worker frame_count
                        in Option.bind (transmit_publish (session\<lparr>ss_transmit := worker\<rparr>) frame_count signaling
                             ring program samples)
                           (\<lambda>(session, result). Some ((session, w),
                              Inr (samples, prepared_outputs_of (ss_profile session) controls signaling, result)))))))"

definition transmit_checked ::
  "(f64 \<Rightarrow> f64) \<Rightarrow> ('w, 's, 'r, 'd, 'h, 'n, 't, 'u) session \<Rightarrow> 'w \<Rightarrow> nat \<Rightarrow> transmit_input \<Rightarrow>
     ((('w, 's, 'r, 'd, 'h, 'n, 't, 'u) session \<times> 'w) \<times> (f32 list \<times> prepared_outputs \<times> transmit_result) result) option" where
  "transmit_checked sine session w frame_count controls =
     (if \<not> ss_warmed session then Some ((session, w), Inl NOT_READY)
      else if ss_transmit_busy session then Some ((session, w), Inl BUSY)
      else if tw_maximum_frames (ss_transmit session) < frame_count then Some ((session, w), Inl FRAME_COUNT_EXCEEDED)
      else transmit_span sine session w frame_count controls)"

text \<open>The output holds two samples a frame.\<close>

definition transmit_inner ::
  "(f64 \<Rightarrow> f64) \<Rightarrow> ('w, 's, 'r, 'd, 'h, 'n, 't, 'u) session \<Rightarrow> 'w \<Rightarrow> f32 list option \<Rightarrow> nat \<Rightarrow>
     transmit_input option \<Rightarrow> transmit_result option \<Rightarrow> prepared_outputs \<Rightarrow>
     ((('w, 's, 'r, 'd, 'h, 'n, 't, 'u) session \<times> 'w) \<times> f32 list option \<times> transmit_result option \<times>
       prepared_outputs \<times> unit result) option" where
  "transmit_inner sine session w output frame_count controls result prepared =
     (case (output, result, controls) of
        (Some out, Some _, Some controls) \<Rightarrow>
          if frame_count = 0 then Some ((session, w), output, result, prepared, Inl INVALID_ARGUMENT)
          else
            let out = silenced (frame_count * 2) out
            in Option.bind (transmit_checked sine session w frame_count controls) (\<lambda>(state, status). Some
                 (case status of
                    Inl e \<Rightarrow> (state, Some out, result, prepared, Inl e)
                  | Inr (samples, outputs, r) \<Rightarrow> (state, Some (write_span 0 samples out), Some r, outputs, Inr ())))
      | _ \<Rightarrow> Some ((session, w), output, result, prepared, Inl INVALID_ARGUMENT))"

definition transmit ::
  "(f64 \<Rightarrow> f64) \<Rightarrow> ('w, 's, 'r, 'd, 'h, 'n, 't, 'u) session option \<Rightarrow> 'w \<Rightarrow> f32 list option \<Rightarrow> nat \<Rightarrow>
     transmit_input option \<Rightarrow> transmit_result option \<Rightarrow>
     ((('w, 's, 'r, 'd, 'h, 'n, 't, 'u) session option \<times> 'w) \<times> f32 list option \<times> transmit_result option \<times>
       unit result) option" where
  "transmit sine session w output frame_count controls result =
     (case session of
        None \<Rightarrow> Some ((session, w), output, result, Inl INVALID_ARGUMENT)
      | Some current \<Rightarrow>
          if ss_profile current \<noteq> None then Some ((session, w), output, result, Inl UNSUPPORTED)
          else map_option (\<lambda>((current, w), output, result, _, status). ((Some current, w), output, result, status))
                 (transmit_inner sine current w output frame_count controls result prepared_outputs_default))"

definition PROFILE_TRANSMIT_RESULT_SIZE :: nat where "PROFILE_TRANSMIT_RESULT_SIZE = 136"

definition transmit_result_default :: transmit_result where
  "transmit_result_default = \<lparr>tv_generation_id = 0, tv_first_sample_index = 0, tv_frame_count = 0,
     tv_logical_ptt = 0, tv_transmitter_state = 0, tv_selected_ctcss_tenths_hz = 0, tv_program_peak = fp_zero,
     tv_program_rms = fp_zero, tv_program_rail_samples = 0, tv_output_peak = fp_zero, tv_output_rms = fp_zero,
     tv_output_rail_samples = 0, tv_periodic_status_due = 0, tv_program_ring = ring_observation_default\<rparr>"

definition profile_transmit_result_default :: profile_transmit_result where
  "profile_transmit_result_default = \<lparr>ptr_struct_size = PROFILE_TRANSMIT_RESULT_SIZE,
     ptr_result = transmit_result_default, ptr_outputs = prepared_outputs_default\<rparr>"

text \<open>A sized result is cleared before anything else is looked at.\<close>

definition transmit_profiled ::
  "(f64 \<Rightarrow> f64) \<Rightarrow> ('w, 's, 'r, 'd, 'h, 'n, 't, 'u) session option \<Rightarrow> 'w \<Rightarrow> f32 list option \<Rightarrow> nat \<Rightarrow>
     transmit_input option \<Rightarrow> profile_transmit_result option \<Rightarrow>
     ((('w, 's, 'r, 'd, 'h, 'n, 't, 'u) session option \<times> 'w) \<times> f32 list option \<times> profile_transmit_result option \<times>
       unit result) option" where
  "transmit_profiled sine session w output frame_count controls result =
     (if \<not> record_fits ptr_struct_size PROFILE_TRANSMIT_RESULT_SIZE result
      then Some ((session, w), output, result, Inl INVALID_ARGUMENT)
      else
        let cleared = Some profile_transmit_result_default
        in case session of
             None \<Rightarrow> Some ((session, w), output, cleared, Inl INVALID_ARGUMENT)
           | Some current \<Rightarrow>
               (case ss_profile current of
                  None \<Rightarrow> Some ((session, w), output, cleared, Inl UNSUPPORTED)
                | Some profile \<Rightarrow>
                    if snd (ss_maximum_frames current) < frame_count
                    then Some ((session, w), output, cleared, Inl FRAME_COUNT_EXCEEDED)
                    else
                      (case output of
                         None \<Rightarrow> Some ((session, w), output, cleared, Inl INVALID_ARGUMENT)
                       | Some out \<Rightarrow>
                           (let out = silenced (frame_count * 2) out
                            in case controls of
                                 None \<Rightarrow> Some ((session, w), Some out, cleared, Inl INVALID_ARGUMENT)
                               | Some c \<Rightarrow>
                                   if vpr_encode profile \<noteq> PROFILE_DSP \<and> ti_forced_ctcss_tenths_hz c \<noteq> 0
                                   then Some ((session, w), Some out, cleared, Inl UNSUPPORTED)
                                   else Option.bind
                                     (transmit_inner sine current w (Some out) frame_count controls
                                        (Some transmit_result_default) prepared_outputs_default)
                                     (\<lambda>((current, w), output, received, prepared, status).
                                       Some ((Some current, w), output,
                                         Some \<lparr>ptr_struct_size = PROFILE_TRANSMIT_RESULT_SIZE,
                                           ptr_result = (case received of None \<Rightarrow> transmit_result_default | Some r \<Rightarrow> r),
                                           ptr_outputs = prepared\<rparr>, status))))))"

end
