(* ===== verification/Session_Control.thy ===== *)
theory Session_Control
  imports Session_Transmit
begin

text \<open>
  Setup, update and observation of a session (\<open>src/session.rs\<close>): \<open>create\<close>, \<open>warm\<close>, the prepared updates,
  the snapshot and the event queues.  The provider libraries are the parameters of Provider_Clients,
  Samplerate_Client and Vad, collected in \<open>providers\<close>.  An output pointer is given by whether it is null;
  what is written through it is returned.
\<close>

record ('s, 'r, 'd, 'h, 'n, 't, 'u) providers =
  pv_squelch :: "'s squelch_descriptor option"
  pv_ctcss :: "('r, 't) ctcss_descriptor option"
  pv_dcs :: "('d, 'u) dcs_descriptor option"
  pv_samplerate :: "'h samplerate_descriptor option"
  pv_classifier :: "'n speech_detector"

section \<open>Creation\<close>

definition create_rejected :: "session_config \<Rightarrow> 'w session_ports \<Rightarrow> bool" where
  "create_rejected config ports \<longleftrightarrow>
     (let rx = scf_receive config; tx = scf_transmit config; q = scf_qualification config in
      scf_struct_size config < SESSION_CONFIG_SIZE \<or>
      spo_struct_size ports < SESSION_PORTS_SIZE \<or>
      scf_abi_version config \<noteq> ABI_VERSION \<or>
      scf_maximum_receive_frame_count config = 0 \<or>
      2 < rcf_vad_mode rx \<or>
      32767 < rcf_vad_hang_ms rx \<or>
      1 < rcf_vad_external_delay rx \<or>
      rcf_vad_external_delay rx \<noteq> 0 \<and> rcf_native_squelch_delay_frames rx \<noteq> 0 \<or>
      rcf_vad_mode rx \<noteq> 0 \<and> 4096 < scf_maximum_receive_frame_count config \<or>
      scf_maximum_transmit_frame_count config = 0 \<or>
      scf_publication_interval_ms config = 0 \<or>
      CANONICAL_CHANNELS \<le> scf_receive_channel config \<or>
      \<not> is_finite (scf_receive_input_gain config) \<or>
      fp_lt (scf_receive_input_gain config) fp_zero \<or>
      3000 < qcf_rx_on_delay_blocks q \<or>
      3000 < qcf_tx_off_delay_blocks q \<or>
      \<not> is_finite (tcf_output_a_tone_gain tx) \<or>
      \<not> is_finite (tcf_output_a_tone_bias tx) \<or>
      \<not> is_finite (tcf_output_b_tone_gain tx) \<or>
      \<not> is_finite (tcf_output_b_tone_bias tx))"

definition create_delay_frames :: "receive_config \<Rightarrow> nat \<Rightarrow> nat" where
  "create_delay_frames rx vad_mode =
     (if vad_mode \<noteq> 0 \<and> rcf_vad_external_delay rx = 0
      then max (rcf_native_squelch_delay_frames rx) VAD_PREROLL_FRAMES
      else rcf_native_squelch_delay_frames rx)"

definition receive_worker_of ::
  "'w session_ports \<Rightarrow> session_config \<Rightarrow> ('s, 'r, 'd) receive_path \<Rightarrow> ('h, 'n) speech_vad \<Rightarrow>
     qualification_config \<Rightarrow> bool \<Rightarrow> bool \<Rightarrow> bool \<Rightarrow> ('w, 's, 'r, 'd, 'h, 'n) receive_worker" where
  "receive_worker_of ports config detector vad qualification cpu_saver ctcss_on dcs_on =
     (let rx_max = scf_maximum_receive_frame_count config;
          publication_frames = scf_publication_interval_ms config * 48;
          vad_mode = effective_vad_mode (scf_receive config) qualification
      in \<lparr>rw_ports = spo_ports ports, rw_config = scf_receive config, rw_detector = detector, rw_vad = vad,
          rw_vad_needs_reset = False, rw_qualification = qualification,
          rw_qualification_state = qualification_default, rw_cpu_saver_enabled = cpu_saver,
          rw_cpu_saver_state = \<lparr>rxs_halted = 0, rxs_action = 0\<rparr>,
          rw_per_sample_noise_gate = (qc_carrier_source qualification = CarrierDspNoise),
          rw_ctcss_enabled = ctcss_on, rw_dcs_enabled = dcs_on,
          rw_receive_channel = scf_receive_channel config, rw_input_gain = scf_receive_input_gain config,
          rw_maximum_frames = rx_max, rw_publication_interval_frames = publication_frames,
          rw_next_publication_frame = publication_frames, rw_sample_index = 0, rw_previous_carrier = False,
          rw_previous_subaudible = False, rw_previous_keyed = False, rw_previous_ctcss = -1,
          rw_previous_dcs = False, rw_input_mono = replicate rx_max fp_zero,
          rw_delay = replicate (create_delay_frames (scf_receive config) vad_mode) fp_zero,
          rw_delay_index = 0, rw_delay_valid = 0, rw_vad_mode = vad_mode,
          rw_work_a = replicate rx_max fp_zero, rw_work_b = replicate rx_max fp_zero,
          rw_work_c = replicate rx_max fp_zero\<rparr>)"

definition transmit_worker_of ::
  "'w session_ports \<Rightarrow> session_config \<Rightarrow> ts_config \<times> ts_state \<Rightarrow> bool \<Rightarrow> output_route \<Rightarrow> output_route \<Rightarrow>
     't ctcss_transmit \<Rightarrow> 'u dcs_transmit \<Rightarrow> ('w, 't, 'u) transmit_worker" where
  "transmit_worker_of ports config signaling dcs_on output_a output_b ctcss_tx dcs =
     (let tx = scf_transmit config; tx_max = scf_maximum_transmit_frame_count config;
          publication_frames = scf_publication_interval_ms config * 48; b = replicate tx_max fp_zero
      in \<lparr>tw_ports = spo_ports ports, tw_signaling = signaling, tw_maximum_frames = tx_max,
          tw_publication_interval_frames = publication_frames, tw_next_publication_frame = publication_frames,
          tw_sample_index = 0, tw_ctcss_peak = tcf_ctcss_peak tx, tw_dcs_peak = tcf_dcs_peak tx,
          tw_dcs_enabled = dcs_on, tw_output_a_route = output_a, tw_output_b_route = output_b,
          tw_output_a_tone_gain = tcf_output_a_tone_gain tx, tw_output_a_tone_bias = tcf_output_a_tone_bias tx,
          tw_output_b_tone_gain = tcf_output_b_tone_gain tx, tw_output_b_tone_bias = tcf_output_b_tone_bias tx,
          tw_ctcss_tx = ctcss_tx, tw_dcs = dcs, tw_test_tone = tone_state_default, tw_program = b,
          tw_processed = b, tw_ctcss = b, tw_dcs_normal_raw = b, tw_dcs_normal_filtered = b,
          tw_dcs_turnoff_raw = b, tw_dcs_turnoff_filtered = b, tw_active = replicate tx_max 0\<rparr>)"

definition create_session ::
  "session_config \<Rightarrow> 'w session_ports \<Rightarrow> ('w, 's, 'r, 'd, 'h, 'n) receive_worker \<Rightarrow> ('w, 't, 'u) transmit_worker \<Rightarrow>
     ('w, 's, 'r, 'd, 'h, 'n, 't, 'u) session" where
  "create_session config ports receive_worker transmit_worker =
     \<lparr>ss_profile = None, ss_generation_id = scf_generation_id config,
      ss_maximum_frames = (scf_maximum_receive_frame_count config, scf_maximum_transmit_frame_count config),
      ss_program_ring = spo_program_ring ports, ss_receive = receive_worker, ss_transmit = transmit_worker,
      ss_receive_busy = False, ss_transmit_busy = False, ss_warmed = False,
      ss_shared = \<lparr>sh_logical_ptt = False, sh_receiver_blanking_ms = 0\<rparr>,
      ss_snapshot = atomic_snapshot_default, ss_receive_events = event_queue_new,
      ss_transmit_events = event_queue_new\<rparr>"

definition create_transmit_worker ::
  "('s, 'r, 'd, 'h, 'n, 't, 'u) providers \<Rightarrow> 'w session_ports \<Rightarrow> session_config \<Rightarrow> ts_config \<times> ts_state \<Rightarrow> bool \<Rightarrow>
     output_route \<Rightarrow> output_route \<Rightarrow> ('w, 't, 'u) transmit_worker fallible" where
  "create_transmit_worker pv ports config signaling dcs_on output_a output_b =
     bind_fallible (dcs_transmit_from_descriptor (pv_dcs pv)) (\<lambda>dcs.
     let (dcs, status) = dcs_transmit_configure dcs (tcf_dcs_code (scf_transmit config))
           (tcf_dcs_inverted (scf_transmit config))
     in bind_setup status (\<lambda>_.
        bind_fallible (ctcss_transmit_from_descriptor (pv_ctcss pv)) (\<lambda>ctcss_tx.
        Some (Inr (transmit_worker_of ports config signaling dcs_on output_a output_b ctcss_tx dcs)))))"

definition create_validated ::
  "('s, 'r, 'd, 'h, 'n, 't, 'u) providers \<Rightarrow> session_config \<Rightarrow> 'w session_ports \<Rightarrow>
     ('w, 's, 'r, 'd, 'h, 'n, 't, 'u) session fallible" where
  "create_validated pv config ports =
     bind_fallible (receive_config_of (pv_dcs pv) config) (\<lambda>(path, qualification, cpu_saver, ctcss_on, dcs_on).
     bind_fallible (receive_path_new path (pv_squelch pv) (pv_ctcss pv) (pv_dcs pv)) (\<lambda>detector.
     bind_fallible (transmit_config_of (pv_dcs pv) (scf_transmit config)) (\<lambda>(signaling, tx_dcs_on, output_a, output_b).
     bind_setup (case ts_new signaling of Inl _ \<Rightarrow> Inl INVALID_ARGUMENT | Inr t \<Rightarrow> Inr t) (\<lambda>signaling.
     bind_setup (speech_vad_new (pv_samplerate pv) (pv_classifier pv)
         (effective_vad_mode (scf_receive config) qualification) (rcf_vad_hang_ms (scf_receive config))
         (scf_maximum_receive_frame_count config)) (\<lambda>vad.
     bind_fallible (create_transmit_worker pv ports config signaling tx_dcs_on output_a output_b) (\<lambda>transmit_worker.
     Some (Inr (create_session config ports
       (receive_worker_of ports config detector vad qualification cpu_saver ctcss_on dcs_on) transmit_worker))))))))"

definition create ::
  "('s, 'r, 'd, 'h, 'n, 't, 'u) providers \<Rightarrow> session_config option \<Rightarrow> 'w session_ports option \<Rightarrow> bool \<Rightarrow>
     ('w, 's, 'r, 'd, 'h, 'n, 't, 'u) session fallible" where
  "create pv config ports output_null =
     (if output_null then Some (Inl INVALID_ARGUMENT)
      else case (config, ports) of
        (Some config, Some ports) \<Rightarrow>
          if create_rejected config ports then Some (Inl INVALID_ARGUMENT)
          else if scf_native_sample_rate_hz config \<noteq> NATIVE_SAMPLE_RATE_HZ \<or>
            scf_interleaved_channels config \<noteq> CANONICAL_CHANNELS then Some (Inl UNSUPPORTED)
          else create_validated pv config ports
      | _ \<Rightarrow> Some (Inl INVALID_ARGUMENT))"

definition initialize_profile ::
  "validated_profile \<Rightarrow> ('w, 's, 'r, 'd, 'h, 'n, 't, 'u) session \<Rightarrow> ('w, 's, 'r, 'd, 'h, 'n, 't, 'u) session" where
  "initialize_profile profile session =
     (let session = session\<lparr>ss_profile := Some profile\<rparr>; worker = ss_transmit session
      in if vpr_encode profile = PROFILE_EXTERNAL
         then session\<lparr>ss_transmit := worker\<lparr>tw_signaling :=
                (use_external_encoder (fst (tw_signaling worker)), snd (tw_signaling worker))\<rparr>\<rparr>
         else session)"

definition create_profiled ::
  "('s, 'r, 'd, 'h, 'n, 't, 'u) providers \<Rightarrow> session_config option \<Rightarrow> 'w session_ports option \<Rightarrow> profile option \<Rightarrow>
     profile_capabilities option \<Rightarrow> bool \<Rightarrow> ('w, 's, 'r, 'd, 'h, 'n, 't, 'u) session fallible" where
  "create_profiled pv config ports profile capabilities output_null =
     (if output_null then Some (Inl INVALID_ARGUMENT)
      else bind_setup (validated_profile_of config profile capabilities) (\<lambda>(config, profile).
        bind_fallible (create pv (Some config) ports False) (\<lambda>session.
        Some (Inr (initialize_profile profile session)))))"

section \<open>Prepared updates\<close>

record ('w, 's, 'r, 'd, 'h, 'n, 't, 'u) session_update =
  su_candidate :: "('w, 's, 'r, 'd, 'h, 'n, 't, 'u) session"
  su_receive_applied :: bool
  su_transmit_applied :: bool

definition prepare_update ::
  "('s, 'r, 'd, 'h, 'n, 't, 'u) providers \<Rightarrow> session_config option \<Rightarrow> 'w session_ports option \<Rightarrow> bool \<Rightarrow>
     ('w, 's, 'r, 'd, 'h, 'n, 't, 'u) session_update fallible" where
  "prepare_update pv config ports output_null =
     (if output_null then Some (Inl INVALID_ARGUMENT)
      else case ports of
        None \<Rightarrow> Some (Inl INVALID_ARGUMENT)
      | Some p \<Rightarrow>
          if spo_struct_size p < SESSION_PORTS_SIZE \<or> prg_context (spo_program_ring p) \<noteq> 0 \<or>
             prg_render_f32 (spo_program_ring p) \<noteq> None \<or> prg_warm (spo_program_ring p) \<noteq> None
          then Some (Inl INVALID_ARGUMENT)
          else bind_fallible (create pv config ports False) (\<lambda>candidate.
            Some (Inr \<lparr>su_candidate = candidate, su_receive_applied = False, su_transmit_applied = False\<rparr>)))"

definition prepare_profiled_update ::
  "('s, 'r, 'd, 'h, 'n, 't, 'u) providers \<Rightarrow> ('w, 's, 'r, 'd, 'h, 'n, 't, 'u) session option \<Rightarrow> session_config option \<Rightarrow>
     'w session_ports option \<Rightarrow> profile option \<Rightarrow> profile_capabilities option \<Rightarrow> bool \<Rightarrow>
     ('w, 's, 'r, 'd, 'h, 'n, 't, 'u) session_update fallible" where
  "prepare_profiled_update pv session config ports profile capabilities output_null =
     (if output_null then Some (Inl INVALID_ARGUMENT)
      else case session of
        None \<Rightarrow> Some (Inl INVALID_ARGUMENT)
      | Some session \<Rightarrow>
          bind_setup (validated_profile_of config profile capabilities) (\<lambda>(config, profile).
          if ss_profile session \<noteq> Some profile then Some (Inl UNSUPPORTED)
          else bind_fallible (prepare_update pv (Some config) ports False) (\<lambda>update.
            Some (Inr (update\<lparr>su_candidate := initialize_profile profile (su_candidate update)\<rparr>)))))"

text \<open>The decoder survives when nothing it was built from changed.\<close>

definition detector_retained ::
  "('w, 's, 'r, 'd, 'h, 'n) receive_worker \<Rightarrow> ('w, 's, 'r, 'd, 'h, 'n) receive_worker \<Rightarrow> bool" where
  "detector_retained live candidate \<longleftrightarrow>
     (let old = rw_config live; new = rw_config candidate in
      rcf_noise_filter_profile old = rcf_noise_filter_profile new \<and>
      rcf_ctcss_enabled old = rcf_ctcss_enabled new \<and>
      rcf_ctcss_tone_mask old = rcf_ctcss_tone_mask new \<and>
      rcf_ctcss_relax old = rcf_ctcss_relax new \<and>
      rcf_dcs_enabled old = rcf_dcs_enabled new \<and>
      rcf_dcs_code old = rcf_dcs_code new \<and>
      rcf_dcs_inverted old = rcf_dcs_inverted new \<and>
      qc_carrier_source (rw_qualification live) = qc_carrier_source (rw_qualification candidate))"

type_synonym ('w, 's, 'r, 'd, 'h, 'n) rx_pair =
  "('w, 's, 'r, 'd, 'h, 'n) receive_worker \<times> ('w, 's, 'r, 'd, 'h, 'n) receive_worker"

definition update_detector :: "('w, 's, 'r, 'd, 'h, 'n) rx_pair \<Rightarrow> ('w, 's, 'r, 'd, 'h, 'n) rx_pair" where
  "update_detector = (\<lambda>(live, candidate).
     if detector_retained live candidate
     then (live\<lparr>rw_detector := path_update_controls_from (rw_detector candidate) (rw_detector live)\<rparr>, candidate)
     else (live\<lparr>rw_detector := rw_detector candidate\<rparr>, candidate\<lparr>rw_detector := rw_detector live\<rparr>))"

definition vad_policy_changed ::
  "('w, 's, 'r, 'd, 'h, 'n) receive_worker \<Rightarrow> ('w, 's, 'r, 'd, 'h, 'n) receive_worker \<Rightarrow> bool" where
  "vad_policy_changed live candidate \<longleftrightarrow>
     rw_qualification live \<noteq> rw_qualification candidate \<or>
     rw_receive_channel live \<noteq> rw_receive_channel candidate \<or>
     fp_eq (rw_input_gain live) fp_zero \<noteq> fp_eq (rw_input_gain candidate) fp_zero \<or>
     rcf_vad_external_delay (rw_config live) \<noteq> rcf_vad_external_delay (rw_config candidate)"

definition update_vad :: "('w, 's, 'r, 'd, 'h, 'n) rx_pair \<Rightarrow> ('w, 's, 'r, 'd, 'h, 'n) rx_pair" where
  "update_vad = (\<lambda>(live, candidate).
     if \<not> settings_equal (rw_vad live) (rw_vad candidate)
     then (live\<lparr>rw_vad := inherit_burst_id (rw_vad live) (rw_vad candidate), rw_vad_needs_reset := False,
                rw_delay_valid := 0, rw_delay_index := 0\<rparr>,
           candidate\<lparr>rw_vad := rw_vad live\<rparr>)
     else if vad_policy_changed live candidate then (live\<lparr>rw_vad_needs_reset := True\<rparr>, candidate)
     else (live, candidate))"

text \<open>The configurations compared are those from before the update.\<close>

definition update_delay :: "('w, 's, 'r, 'd, 'h, 'n) rx_pair \<Rightarrow> ('w, 's, 'r, 'd, 'h, 'n) rx_pair" where
  "update_delay = (\<lambda>(live, candidate).
     if length (rw_delay live) \<noteq> length (rw_delay candidate) \<or>
        (rcf_vad_mode (rw_config live) = 0) \<noteq> (rcf_vad_mode (rw_config candidate) = 0)
     then (live\<lparr>rw_delay := rw_delay candidate, rw_delay_index := 0, rw_delay_valid := 0\<rparr>,
           candidate\<lparr>rw_delay := rw_delay live\<rparr>)
     else (live, candidate))"

definition update_receive_settings :: "('w, 's, 'r, 'd, 'h, 'n) rx_pair \<Rightarrow> ('w, 's, 'r, 'd, 'h, 'n) receive_worker" where
  "update_receive_settings = (\<lambda>(live, candidate).
     live\<lparr>rw_vad_mode := rw_vad_mode candidate, rw_ports := rw_ports candidate, rw_config := rw_config candidate,
       rw_qualification := rw_qualification candidate, rw_cpu_saver_enabled := rw_cpu_saver_enabled candidate,
       rw_per_sample_noise_gate := rw_per_sample_noise_gate candidate,
       rw_ctcss_enabled := rw_ctcss_enabled candidate, rw_dcs_enabled := rw_dcs_enabled candidate,
       rw_receive_channel := rw_receive_channel candidate, rw_input_gain := rw_input_gain candidate,
       rw_publication_interval_frames := rw_publication_interval_frames candidate,
       rw_next_publication_frame :=
         saturating_add_u64 (rw_sample_index live) (rw_publication_interval_frames candidate)\<rparr>)"

definition update_receive :: "('w, 's, 'r, 'd, 'h, 'n) rx_pair \<Rightarrow> ('w, 's, 'r, 'd, 'h, 'n) rx_pair" where
  "update_receive pair =
     (let (live, candidate) = update_delay (update_vad (update_detector pair))
      in (update_receive_settings (live, candidate), candidate))"

definition update_mismatch ::
  "('w, 's, 'r, 'd, 'h, 'n, 't, 'u) session \<Rightarrow> ('w, 's, 'r, 'd, 'h, 'n, 't, 'u) session_update \<Rightarrow> bool" where
  "update_mismatch session update \<longleftrightarrow>
     ss_maximum_frames session \<noteq> ss_maximum_frames (su_candidate update) \<or>
     ss_profile session \<noteq> ss_profile (su_candidate update)"

definition apply_receive_update ::
  "('w, 's, 'r, 'd, 'h, 'n, 't, 'u) session \<Rightarrow> ('w, 's, 'r, 'd, 'h, 'n, 't, 'u) session_update \<Rightarrow>
     (('w, 's, 'r, 'd, 'h, 'n, 't, 'u) session \<times> ('w, 's, 'r, 'd, 'h, 'n, 't, 'u) session_update) \<times> unit result" where
  "apply_receive_update session update =
     (if update_mismatch session update then ((session, update), Inl UNSUPPORTED)
      else if ss_receive_busy session then ((session, update), Inl BUSY)
      else if ss_receive_busy (su_candidate update) then ((session, update), Inl BUSY)
      else if su_receive_applied update then ((session, update), Inl INVALID_ARGUMENT)
      else
        let (live, candidate) = update_receive (ss_receive session, ss_receive (su_candidate update))
        in ((session\<lparr>ss_receive := live\<rparr>,
             update\<lparr>su_candidate := (su_candidate update)\<lparr>ss_receive := candidate\<rparr>, su_receive_applied := True\<rparr>),
            Inr ()))"

definition update_transmit ::
  "('w, 't, 'u) transmit_worker \<Rightarrow> ('w, 't, 'u) transmit_worker \<Rightarrow> ('w, 't, 'u) transmit_worker \<times> unit result" where
  "update_transmit live candidate =
     (let (dcs, status) = dcs_update_config_from (tw_dcs live) (tw_dcs candidate); live = live\<lparr>tw_dcs := dcs\<rparr>
      in case status of
           Inl e \<Rightarrow> (live, Inl e)
         | Inr _ \<Rightarrow>
             (live\<lparr>tw_ports := tw_ports candidate,
                tw_signaling := update_config_from (tw_signaling live) (tw_signaling candidate),
                tw_ctcss_peak := tw_ctcss_peak candidate, tw_dcs_peak := tw_dcs_peak candidate,
                tw_dcs_enabled := tw_dcs_enabled candidate, tw_output_a_route := tw_output_a_route candidate,
                tw_output_b_route := tw_output_b_route candidate,
                tw_output_a_tone_gain := tw_output_a_tone_gain candidate,
                tw_output_a_tone_bias := tw_output_a_tone_bias candidate,
                tw_output_b_tone_gain := tw_output_b_tone_gain candidate,
                tw_output_b_tone_bias := tw_output_b_tone_bias candidate,
                tw_publication_interval_frames := tw_publication_interval_frames candidate,
                tw_next_publication_frame :=
                  saturating_add_u64 (tw_sample_index live) (tw_publication_interval_frames candidate)\<rparr>, Inr ()))"

definition apply_transmit_update ::
  "('w, 's, 'r, 'd, 'h, 'n, 't, 'u) session \<Rightarrow> ('w, 's, 'r, 'd, 'h, 'n, 't, 'u) session_update \<Rightarrow>
     (('w, 's, 'r, 'd, 'h, 'n, 't, 'u) session \<times> ('w, 's, 'r, 'd, 'h, 'n, 't, 'u) session_update) \<times> unit result" where
  "apply_transmit_update session update =
     (if update_mismatch session update then ((session, update), Inl UNSUPPORTED)
      else if ss_transmit_busy session then ((session, update), Inl BUSY)
      else if ss_transmit_busy (su_candidate update) then ((session, update), Inl BUSY)
      else if su_transmit_applied update then ((session, update), Inl INVALID_ARGUMENT)
      else
        let (live, status) = update_transmit (ss_transmit session) (ss_transmit (su_candidate update));
            session = session\<lparr>ss_transmit := live\<rparr>
        in case status of
             Inl e \<Rightarrow> ((session, update), Inl e)
           | Inr _ \<Rightarrow> ((session, update\<lparr>su_transmit_applied := True\<rparr>), Inr ()))"

section \<open>Warming\<close>

text \<open>One processor is warmed and run on the buffer; a chain feeds each processor with what the one
  before gave, a bank runs them all on the same buffer.  The scratch buffer keeps the last output.\<close>

definition warm_processor ::
  "'w processor_port \<Rightarrow> nat \<Rightarrow> f32 list \<Rightarrow> f32 list \<times> 'w \<Rightarrow> (f32 list \<times> 'w) \<times> unit result" where
  "warm_processor port frames input = (\<lambda>(scratch, w).
     let (w, status) = warm_port port frames w
     in case status of
          Inl e \<Rightarrow> ((scratch, w), Inl e)
        | Inr _ \<Rightarrow> (let ((w, audio), status) = run_processor port (take frames input) (take frames scratch) w
                    in ((write_span 0 audio scratch, w), status)))"

fun warm_chain ::
  "nat \<Rightarrow> 'w processor_port list \<Rightarrow> (f32 list \<times> f32 list) \<times> 'w \<Rightarrow> ((f32 list \<times> f32 list) \<times> 'w) \<times> unit result" where
  "warm_chain frames [] s = (s, Inr ())"
| "warm_chain frames (port # ports) ((input, scratch), w) =
     (case warm_processor port frames input (scratch, w) of
        ((scratch, w), Inl e) \<Rightarrow> (((input, scratch), w), Inl PROVIDER_FAILED)
      | ((scratch, w), Inr _) \<Rightarrow> warm_chain frames ports ((take frames scratch, scratch), w))"

fun warm_bank ::
  "nat \<Rightarrow> 'w processor_port list \<Rightarrow> (f32 list \<times> f32 list) \<times> 'w \<Rightarrow> ((f32 list \<times> f32 list) \<times> 'w) \<times> unit result" where
  "warm_bank frames [] s = (s, Inr ())"
| "warm_bank frames (port # ports) ((input, scratch), w) =
     (if pp_process_f32 port = None then warm_bank frames ports ((input, scratch), w)
      else case warm_processor port frames input (scratch, w) of
        ((scratch, w), Inl e) \<Rightarrow> (((input, scratch), w), Inl PROVIDER_FAILED)
      | ((scratch, w), Inr _) \<Rightarrow> warm_bank frames ports ((input, scratch), w))"

definition warm_receive ::
  "('w, 's, 'r, 'd, 'h, 'n) receive_worker \<Rightarrow> 'w \<Rightarrow> (('w, 's, 'r, 'd, 'h, 'n) receive_worker \<times> 'w) \<times> unit result" where
  "warm_receive worker w =
     (let ports = rw_ports worker; frames = as_u32 (rw_maximum_frames worker);
          quiet = replicate (length (rw_input_mono worker)) fp_zero;
          (((input, scratch), w), status) = warm_chain frames
            [po_receive_deemphasis ports, po_receive_filter ports, po_receive_noise_reduction ports,
             po_receive_dynamics ports] ((quiet, rw_work_a worker), w);
          worker = worker\<lparr>rw_input_mono := input, rw_work_a := scratch\<rparr>
      in case status of
           Inl e \<Rightarrow> ((worker, w), Inl e)
         | Inr _ \<Rightarrow>
             (let (((input, scratch), w), status) = warm_bank frames
                    (po_receive_ctcss_notch ports @ [po_receive_ctcss_tail_notch ports]) ((quiet, rw_work_a worker), w)
              in ((worker\<lparr>rw_input_mono := input, rw_work_a := scratch\<rparr>, w), status)))"

definition warm_transmit :: "('w, 't, 'u) transmit_worker \<Rightarrow> 'w \<Rightarrow> (('w, 't, 'u) transmit_worker \<times> 'w) \<times> unit result" where
  "warm_transmit worker w =
     (let ports = tw_ports worker;
          (((program, processed), w), status) = warm_chain (as_u32 (tw_maximum_frames worker))
            [po_transmit_program ports, po_transmit_dcs_normal_filter ports, po_transmit_dcs_turnoff_filter ports]
            ((replicate (length (tw_program worker)) fp_zero, tw_processed worker), w)
      in ((worker\<lparr>tw_program := program, tw_processed := processed\<rparr>, w), status))"

definition warm_ring :: "'w ring_port \<Rightarrow> nat \<Rightarrow> 'w \<Rightarrow> 'w \<times> unit result" where
  "warm_ring port frames w =
     (case prg_warm port of
        None \<Rightarrow> (w, Inr ())
      | Some warm \<Rightarrow>
          (let (w, value) = warm (prg_context port) frames w
           in (w, if value \<noteq> 0 then Inl PROVIDER_FAILED else Inr ())))"

definition warm ::
  "('w, 's, 'r, 'd, 'h, 'n, 't, 'u) session \<Rightarrow> 'w \<Rightarrow> (('w, 's, 'r, 'd, 'h, 'n, 't, 'u) session \<times> 'w) \<times> unit result" where
  "warm session w =
     (if ss_warmed session then ((session, w), Inr ())
      else if ss_receive_busy session \<or> ss_transmit_busy session then ((session, w), Inl BUSY)
      else
        run_bind (let ((worker, w), status) = warm_receive (ss_receive session) w
                  in ((session\<lparr>ss_receive := worker\<rparr>, w), status)) (\<lambda>(session, w) _.
        run_bind (let ((worker, w), status) = warm_transmit (ss_transmit session) w
                  in ((session\<lparr>ss_transmit := worker\<rparr>, w), status)) (\<lambda>(session, w) _.
        run_bind (let (w, status) = warm_ring (ss_program_ring session)
                        (as_u32 (tw_maximum_frames (ss_transmit session))) w
                  in ((session, w), status)) (\<lambda>(session, w) _.
        ((session\<lparr>ss_warmed := True\<rparr>, w), Inr ())))))"

section \<open>Observation\<close>

record session_snapshot =
  sps_generation_id :: nat
  sps_receive_frames :: nat
  sps_transmit_frames :: nat
  sps_receive_input_peak :: f32
  sps_receive_input_rms :: f32
  sps_receive_ctcss_decoder_peak :: f32
  sps_receive_output_peak :: f32
  sps_receive_output_rms :: f32
  sps_transmit_program_peak :: f32
  sps_transmit_program_rms :: f32
  sps_transmit_output_peak :: f32
  sps_transmit_output_rms :: f32
  sps_receive_input_rail_samples :: nat
  sps_receive_output_rail_samples :: nat
  sps_transmit_program_rail_samples :: nat
  sps_transmit_output_rail_samples :: nat
  sps_provider_failures :: nat
  sps_receive_event_drops :: nat
  sps_transmit_event_drops :: nat
  sps_carrier_active :: nat
  sps_subaudible_active :: nat
  sps_receiver_keyed :: nat
  sps_logical_ptt :: nat
  sps_ctcss_decoded_index :: int
  sps_dcs_valid :: nat
  sps_program_ring :: ring_observation
  sps_raw_receiver_keyed :: nat
  sps_rf_burst_id :: nat
  sps_vad_mode :: nat
  sps_vad_voice_active :: nat
  sps_vad_score :: f32
  sps_vad_voice_sample_index :: nat
  sps_vad_preroll_frames :: nat

definition session_snapshot_of :: "('w, 's, 'r, 'd, 'h, 'n, 't, 'u) session \<Rightarrow> session_snapshot" where
  "session_snapshot_of session =
     (let n = ss_snapshot session in
     \<lparr>sps_generation_id = ss_generation_id session, sps_receive_frames = sn_receive_frames n,
      sps_transmit_frames = sn_transmit_frames n, sps_receive_input_peak = sn_receive_input_peak n,
      sps_receive_input_rms = sn_receive_input_rms n,
      sps_receive_ctcss_decoder_peak = sn_receive_ctcss_decoder_peak n,
      sps_receive_output_peak = sn_receive_output_peak n, sps_receive_output_rms = sn_receive_output_rms n,
      sps_transmit_program_peak = sn_transmit_program_peak n,
      sps_transmit_program_rms = sn_transmit_program_rms n,
      sps_transmit_output_peak = sn_transmit_output_peak n,
      sps_transmit_output_rms = sn_transmit_output_rms n,
      sps_receive_input_rail_samples = unat (sn_receive_input_rails n),
      sps_receive_output_rail_samples = unat (sn_receive_output_rails n),
      sps_transmit_program_rail_samples = unat (sn_transmit_program_rails n),
      sps_transmit_output_rail_samples = unat (sn_transmit_output_rails n),
      sps_provider_failures = unat (sn_provider_failures n),
      sps_receive_event_drops = unat (eq_drops (ss_receive_events session)),
      sps_transmit_event_drops = unat (eq_drops (ss_transmit_events session)),
      sps_carrier_active = of_flag (sn_carrier n), sps_subaudible_active = of_flag (sn_subaudible n),
      sps_receiver_keyed = of_flag (sn_receiver_keyed n), sps_logical_ptt = of_flag (sn_logical_ptt n),
      sps_ctcss_decoded_index = sn_decoded_ctcss n, sps_dcs_valid = of_flag (sn_dcs_valid n),
      sps_program_ring = load_ring n, sps_raw_receiver_keyed = of_flag (sn_raw_receiver_keyed n),
      sps_rf_burst_id = sn_rf_burst_id n, sps_vad_mode = sn_vad_mode n,
      sps_vad_voice_active = of_flag (sn_vad_voice_active n), sps_vad_score = sn_vad_score n,
      sps_vad_voice_sample_index = sn_vad_voice_sample_index n,
      sps_vad_preroll_frames = sn_vad_preroll_frames n\<rparr>)"

text \<open>A popped event is written to the caller's record, which is left alone when the queue is empty.\<close>

definition pop_into :: "event_queue \<Rightarrow> event \<Rightarrow> event_queue \<times> event \<times> nat" where
  "pop_into queue out =
     (case event_pop queue of None \<Rightarrow> (queue, out, 0) | Some (event, queue) \<Rightarrow> (queue, event, 1))"

definition pop_receive_event ::
  "('w, 's, 'r, 'd, 'h, 'n, 't, 'u) session \<Rightarrow> event option \<Rightarrow>
     ('w, 's, 'r, 'd, 'h, 'n, 't, 'u) session \<times> event option \<times> nat" where
  "pop_receive_event session out =
     (case out of
        None \<Rightarrow> (session, None, 0)
      | Some e \<Rightarrow> (let (queue, e, value) = pop_into (ss_receive_events session) e
                  in (session\<lparr>ss_receive_events := queue\<rparr>, Some e, value)))"

definition pop_transmit_event ::
  "('w, 's, 'r, 'd, 'h, 'n, 't, 'u) session \<Rightarrow> event option \<Rightarrow>
     ('w, 's, 'r, 'd, 'h, 'n, 't, 'u) session \<times> event option \<times> nat" where
  "pop_transmit_event session out =
     (case out of
        None \<Rightarrow> (session, None, 0)
      | Some e \<Rightarrow> (let (queue, e, value) = pop_into (ss_transmit_events session) e
                  in (session\<lparr>ss_transmit_events := queue\<rparr>, Some e, value)))"

end
