(* ===== verification/Session_Samples.thy ===== *)
theory Session_Samples
  imports Session_Control Receive_Path_Properties Signaling_Properties
begin

text \<open>
  A small warmed session the witnesses run on: the receive path, transmitter and speech admission of the
  earlier samples, processors that are absent, and providers that stay off.
\<close>

definition ports_sample :: "unit ports" where
  "ports_sample = \<lparr>po_receive_deemphasis = processor_port_default, po_receive_filter = processor_port_default,
     po_receive_ctcss_notch = replicate TONE_COUNT processor_port_default,
     po_receive_noise_reduction = processor_port_default, po_receive_dynamics = processor_port_default,
     po_transmit_program = processor_port_default, po_transmit_dcs_normal_filter = processor_port_default,
     po_transmit_dcs_turnoff_filter = processor_port_default, po_receive_ctcss_tail_notch = processor_port_default\<rparr>"

definition session_ports_sample :: "unit session_ports" where
  "session_ports_sample = \<lparr>spo_struct_size = 1504, spo_ports = ports_sample, spo_program_ring = ring_port_default\<rparr>"

definition config_sample :: session_config where
  "config_sample = session_config_sample\<lparr>scf_maximum_receive_frame_count := 2000,
     scf_receive := receive_config_default\<rparr>"

definition rx_worker_sample :: "(unit, unit, unit, unit, unit, unit) receive_worker" where
  "rx_worker_sample = receive_worker_of session_ports_sample config_sample path_sample
     ((vad_sample 0)\<lparr>sv_maximum_native_frames := 2000\<rparr>) tone_gate_sample False False False"

definition ctcss_tx_sample :: "unit ctcss_transmit" where
  "ctcss_tx_sample = \<lparr>ct_handle = (), ct_legacy_frequency = (\<lambda>f. f),
     ct_generate = (\<lambda>h frames frequency peak on shift. (h, replicate frames fp_zero))\<rparr>"

definition dcs_tx_sample :: "unit dcs_transmit" where
  "dcs_tx_sample = \<lparr>dt_handle = (), dt_configure = (\<lambda>h code inverted. (h, 0)),
     dt_update_config_from = (\<lambda>h prepared. (h, 0)),
     dt_generate = (\<lambda>h frames peak on turnoff. ((h, replicate frames fp_zero), 0))\<rparr>"

definition tx_worker_sample :: "ts_state \<Rightarrow> (unit, unit, unit) transmit_worker" where
  "tx_worker_sample s = transmit_worker_of session_ports_sample config_sample (ts_sample, s) False Composite Voice
     ctcss_tx_sample dcs_tx_sample"

type_synonym sample_session = "(unit, unit, unit, unit, unit, unit, unit, unit) session"

definition session_sample :: "ts_state \<Rightarrow> sample_session" where
  "session_sample s = (create_session config_sample session_ports_sample rx_worker_sample (tx_worker_sample s))
     \<lparr>ss_warmed := True\<rparr>"

definition rx_controls_sample :: receive_input where
  "rx_controls_sample = \<lparr>ri_hardware_carrier = 0, ri_parallel_carrier = 0, ri_hardware_subaudible = 0,
     ri_parallel_subaudible = 0, ri_subaudible_override = 0\<rparr>"

lemma session_sample_simps [simp]:
  "ss_receive (session_sample s) = rx_worker_sample" "ss_transmit (session_sample s) = tx_worker_sample s"
  "ss_warmed (session_sample s)" "\<not> ss_receive_busy (session_sample s)" "\<not> ss_transmit_busy (session_sample s)"
  "ss_receive_events (session_sample s) = event_queue_new" "ss_transmit_events (session_sample s) = event_queue_new"
  "ss_generation_id (session_sample s) = 1" "ss_program_ring (session_sample s) = ring_port_default"
  "ss_profile (session_sample s) = None" "ss_maximum_frames (session_sample s) = (2000, 960)"
  by (simp_all add: session_sample_def create_session_def config_sample_def session_config_sample_def
      session_ports_sample_def)

lemma rx_worker_sample_simps [simp]:
  "rw_detector rx_worker_sample = path_sample" "rw_maximum_frames rx_worker_sample = 2000"
  "rw_sample_index rx_worker_sample = 0" "rw_vad_mode rx_worker_sample = 0"
  "rx_worker_sample\<lparr>rw_detector := path_sample\<rparr> = rx_worker_sample"
  by (simp_all add: rx_worker_sample_def receive_worker_of_def config_sample_def session_config_sample_def
      effective_vad_mode_def receive_config_default_def Let_def)

end
