(* ===== verification/Session_Runs.thy ===== *)
theory Session_Runs
  imports Session_Samples
begin

text \<open>
  What both callbacks rest on: the publication clock, the borrowed processors with what is assumed of
  them, and the stamped edges of an event queue.
\<close>

section \<open>The publication clock\<close>

lemma next_publication_ends:
  assumes "0 < interval" and "sample < u64_max"
  shows "\<exists>n. next_publication sample interval start = Some n \<and> sample < n \<and> (start \<le> u64_max \<longrightarrow> n \<le> u64_max) \<and>
    (sample + interval \<le> u64_max \<longrightarrow>
       (start \<le> sample \<longrightarrow> n \<le> sample + interval) \<and> (\<exists>k. n = start + k * interval))"
proof (induction "Suc sample - start" arbitrary: start rule: less_induct)
  case less
  show ?case
  proof (cases "start \<le> sample")
    case False
    then show ?thesis by (subst next_publication.simps) (auto intro: exI [of _ 0])
  next
    case True
    let ?s = "saturating_add_u64 start interval"
    have s: "start < ?s" "?s \<le> u64_max" using True assms by (auto simp: saturating_add_u64_def)
    then obtain n where n: "next_publication sample interval ?s = Some n" "sample < n" "n \<le> u64_max"
      "sample + interval \<le> u64_max \<Longrightarrow> (?s \<le> sample \<longrightarrow> n \<le> sample + interval) \<and> (\<exists>k. n = ?s + k * interval)"
      using less.hyps [of ?s] True by force
    have "n \<le> sample + interval \<and> (\<exists>k. n = start + k * interval)" if a: "sample + interval \<le> u64_max"
    proof -
      have e: "?s = start + interval" using a True by (simp add: saturating_add_u64_def)
      then obtain k where k: "n = start + interval + k * interval" using n(4) [OF a] by auto
      then have "n = start + Suc k * interval" by simp
      moreover have "n \<le> sample + interval"
      proof (cases "?s \<le> sample")
        case True
        then show ?thesis using n(4) [OF a] by simp
      next
        case False
        then have "next_publication sample interval ?s = Some ?s" by (subst next_publication.simps) simp
        then show ?thesis using n(1) e \<open>start \<le> sample\<close> by simp
      qed
      ultimately show ?thesis by blast
    qed
    then show ?thesis using True n(1-3) by (subst next_publication.simps) auto
  qed
qed

lemma next_publication_bounds:
  assumes "next_publication sample interval start = Some n"
  shows "start \<le> u64_max \<longrightarrow> sample < n \<and> n \<le> u64_max"
  by (rule next_publication.raw_induct
      [where P = "\<lambda>sample interval start n. start \<le> u64_max \<longrightarrow> sample < n \<and> n \<le> u64_max", OF _ assms])
    (auto simp: saturating_add_u64_def split: if_splits)

text \<open>C39: the publication clock of a callback.  Below the last 64-bit sample index the loop ends, the span
  is due exactly when the clock has reached the boundary, and the new boundary is the next multiple of
  the interval past the clock.  At the last index, where the saturating counter stays for good, the loop
  never ends: a callback there does not return.\<close>

theorem publication_clock:
  assumes "0 < interval" and "next_frame \<le> u64_max" and "sample_index \<le> u64_max"
  shows "case publication_due sample_index next_frame interval of
      None \<Rightarrow> sample_index = u64_max
    | Some (n, due) \<Rightarrow> sample_index < u64_max \<and> due = (next_frame \<le> sample_index) \<and> sample_index < n \<and> n \<le> u64_max \<and>
        (sample_index + interval \<le> u64_max \<longrightarrow> (due \<longrightarrow> n \<le> sample_index + interval) \<and>
           (\<exists>k. n = next_frame + k * interval))"
proof (cases "sample_index < next_frame")
  case True
  then show ?thesis using assms by (auto simp: publication_due_def intro: exI [of _ 0])
next
  case False
  show ?thesis
  proof (cases "sample_index = u64_max")
    case True
    then have "next_publication sample_index interval next_frame = None"
      using next_publication_bounds [of sample_index interval next_frame] assms(2)
      by (cases "next_publication sample_index interval next_frame") auto
    with False True show ?thesis by (simp add: publication_due_def)
  next
    case neq: False
    then obtain n where "next_publication sample_index interval next_frame = Some n" "sample_index < n" "n \<le> u64_max"
      "sample_index + interval \<le> u64_max \<Longrightarrow> n \<le> sample_index + interval \<and> (\<exists>k. n = next_frame + k * interval)"
      using next_publication_ends [OF assms(1), of sample_index next_frame] assms False by force
    with False neq assms(3) show ?thesis by (auto simp: publication_due_def)
  qed
qed

theorem publication_clock_witness:
  "(\<exists>n. publication_due 1000 960 480 = Some (n, True) \<and> 1000 < n \<and> n \<le> 1480) \<and>
   publication_due u64_max 960 480 = None"
proof -
  have "\<exists>n. publication_due 1000 960 480 = Some (n, True) \<and> 1000 < n \<and> n \<le> 1480"
    using publication_clock [of 480 960 1000] by (auto simp: u64_max_def split: option.splits)
  moreover have "publication_due u64_max 960 480 = None"
    using publication_clock [of 480 960 u64_max] by (auto simp: u64_max_def split: option.splits)
  ultimately show ?thesis by blast
qed

section \<open>The borrowed processors\<close>

text \<open>What the session relies on of a processor: it writes the frames it is asked for and no others.\<close>

definition processor_sized :: "'w processor_port \<Rightarrow> bool" where
  "processor_sized port \<longleftrightarrow> (\<forall>f context input output w. pp_process_f32 port = Some f \<longrightarrow>
     length (fst (snd (f context input output w))) = length output)"

definition receive_ports_sized :: "'w ports \<Rightarrow> bool" where
  "receive_ports_sized ports \<longleftrightarrow> list_all processor_sized
     ([po_receive_deemphasis ports, po_receive_filter ports, po_receive_noise_reduction ports,
       po_receive_dynamics ports, po_receive_ctcss_tail_notch ports] @ po_receive_ctcss_notch ports)"

definition run_spec :: "('p \<Rightarrow> 'a \<Rightarrow> bool) \<Rightarrow> ('p \<Rightarrow> radio_error \<Rightarrow> bool) \<Rightarrow> 'p \<times> 'a result \<Rightarrow> bool" where
  "run_spec P E m = (case m of (p, Inl e) \<Rightarrow> E p e | (p, Inr a) \<Rightarrow> P p a)"

lemma run_spec_simps [simp]:
  "run_spec P E (p, Inr a) = P p a" "run_spec P E (p, Inl e) = E p e"
  by (simp_all add: run_spec_def)

lemma run_bind_simps [simp]:
  "run_bind (p, Inl e) f = (p, Inl e)" "run_bind (p, Inr a) f = f p a"
  by (simp_all add: run_bind_def)

lemma run_spec_bind:
  assumes "run_spec Q E m" and "\<And>p a. Q p a \<Longrightarrow> run_spec P E (f p a)"
  shows "run_spec P E (run_bind m f)"
  using assms by (cases m; cases "snd m") auto

lemma run_spec_mono:
  assumes "run_spec Q F m" and "\<And>p a. Q p a \<Longrightarrow> P p a" and "\<And>p e. F p e \<Longrightarrow> E p e"
  shows "run_spec P E m"
  using assms by (cases m; cases "snd m") auto

lemma all_finite: "\<not> list_ex (\<lambda>sample. \<not> is_finite sample) xs \<longleftrightarrow> list_all is_finite xs"
  by (induction xs) auto

lemma run_processor_spec:
  assumes "processor_sized port" and "length input = length output"
  shows "run_spec (\<lambda>(w', audio) _. length audio = length output \<and> list_all is_finite audio)
    (\<lambda>(w', audio) e. audio = replicate (length output) fp_zero) (run_processor port input output w)"
proof (cases "pp_process_f32 port")
  case None
  then show ?thesis using assms(2) by (simp add: run_processor_def all_finite [symmetric])
next
  case (Some f)
  obtain w' audio v where f: "f (pp_context port) input output w = (w', audio, v)" by (metis prod.exhaust)
  moreover have "length audio = length output"
    using assms(1) Some f unfolding processor_sized_def by (metis fst_conv snd_conv)
  ultimately show ?thesis using Some by (simp add: run_processor_def all_finite [symmetric])
qed

lemma run_optional_processor_spec:
  assumes "processor_sized port" and "length input = length output"
  shows "run_spec (\<lambda>(w', audio) _. length audio = length output) (\<lambda>(w', audio) e. length audio = length output)
    (run_optional_processor port input output w)"
proof (cases "pp_process_f32 port = None")
  case True
  obtain w' r where "bypass_port port (as_u32 (length input)) w = (w', r)" by fastforce
  then show ?thesis using True assms(2) by (cases r) (simp_all add: run_optional_processor_def)
next
  case False
  then show ?thesis
    using run_spec_mono [OF run_processor_spec [OF assms]] by (auto simp: run_optional_processor_def)
qed

lemma select_notch_sized:
  "receive_ports_sized ports \<Longrightarrow> select_notch ports d tail = Some port \<Longrightarrow> processor_sized port"
  by (auto simp: select_notch_def receive_ports_sized_def list_all_iff Let_def split: if_splits option.splits)

lemma run_receive_filters_spec:
  assumes "receive_ports_sized ports" and "length input = length filtered" and "length notched = length filtered"
  shows "run_spec
    (\<lambda>(w', fs, ns) on. length fs = length filtered \<and> length ns = length filtered \<and> list_all is_finite fs \<and>
      (on \<longrightarrow> list_all is_finite ns))
    (\<lambda>(w', fs, ns) e. length fs = length filtered \<and> length ns = length filtered)
    (run_receive_filters ports d tail input filtered notched w)"
proof -
  have sized: "processor_sized (po_receive_filter ports)" using assms(1) by (simp add: receive_ports_sized_def)
  obtain w1 fs r1 where r1: "run_processor (po_receive_filter ports) input filtered w = ((w1, fs), r1)"
    by (metis prod.exhaust)
  note f = run_processor_spec [OF sized assms(2), of w, unfolded r1]
  show ?thesis
  proof (cases r1)
    case (Inl e)
    then show ?thesis using f r1 assms(3) by (simp add: run_receive_filters_def)
  next
    case (Inr u)
    then have fs: "length fs = length filtered" "list_all is_finite fs" using f by simp_all
    show ?thesis
    proof (cases "select_notch ports d tail")
      case None
      then show ?thesis using fs r1 Inr assms(3) by (simp add: run_receive_filters_def)
    next
      case (Some port)
      obtain w2 ns r2 where r2: "run_processor port fs notched w1 = ((w2, ns), r2)" by (metis prod.exhaust)
      have "length fs = length notched" using fs assms(3) by simp
      from run_processor_spec [OF select_notch_sized [OF assms(1) Some] this, of w1, unfolded r2]
      show ?thesis using fs r1 r2 Inr Some assms(3) by (cases r2) (simp_all add: run_receive_filters_def)
    qed
  qed
qed

lemma run_processor_absent:
  "list_all is_finite input \<Longrightarrow> run_processor processor_port_default input buffer w = ((w, input), Inr ())"
  by (simp add: run_processor_def processor_port_default_def all_finite [symmetric])

lemma take_write_span: "length xs = n \<Longrightarrow> take n (write_span 0 xs b) = xs"
  by (simp add: write_span_def)

section \<open>Stamped edges\<close>

definition stamped :: "nat \<Rightarrow> nat \<Rightarrow> event_kind \<times> int \<Rightarrow> event" where
  "stamped generation_id sample_index = (\<lambda>(kind, value). \<lparr>ev_generation_id = generation_id,
     ev_sample_index = sample_index, ev_kind = event_kind_code kind, ev_value = value\<rparr>)"

lemma push_edges_items:
  assumes "queue_wf queue"
  shows "queue_wf (push_edges g i edges queue)"
    and "queue_items (push_edges g i edges queue) =
      queue_items queue @ take (EVENT_CAPACITY - length (queue_items queue)) (List.map (stamped g i) edges)"
  using assms
proof (induction edges arbitrary: queue)
  case Nil
  { case 1 then show ?case by (simp add: push_edges_def) next case 2 then show ?case by (simp add: push_edges_def) }
next
  case (Cons edge edges)
  obtain kind v where e: "edge = (kind, v)" by fastforce
  have step: "push_edges g i (edge # edges) queue = push_edges g i edges (event_push (stamped g i edge) queue)" for queue
    by (simp add: push_edges_def push_edge_def stamped_def e)
  {
    case 1
    then show ?case unfolding step by (intro Cons.IH(1) push_items(1))
  next
    case 2
    let ?q = "event_push (stamped g i edge) queue"
    note w = push_items [OF 2, of "stamped g i edge"]
    have "queue_items (push_edges g i (edge # edges) queue) =
        queue_items ?q @ take (64 - length (queue_items ?q)) (List.map (stamped g i) edges)"
      using Cons.IH(2) [OF w(1)] step by (simp add: EVENT_CAPACITY_def)
    also have "\<dots> = queue_items queue @ take (64 - length (queue_items queue)) (List.map (stamped g i) (edge # edges))"
    proof (cases "length (queue_items queue) < 64")
      case True
      then have "64 - length (queue_items queue) = Suc (64 - length (queue_items ?q))" using w(2) by simp
      then show ?thesis using w(2) True by simp
    next
      case False
      then show ?thesis using w(2) by simp
    qed
    finally show ?case by (simp add: EVENT_CAPACITY_def)
  }
qed

lemma publication_due_ends:
  assumes "0 < interval" and "sample_index < u64_max" and "next_frame \<le> u64_max"
  obtains n due where "publication_due sample_index next_frame interval = Some (n, due)" and "n \<le> u64_max"
    and "sample_index < n"
proof (cases "sample_index < next_frame")
  case True
  then show ?thesis using that [of next_frame False] assms(3) by (simp add: publication_due_def)
next
  case False
  moreover obtain n where "next_publication sample_index interval next_frame = Some n" "sample_index < n" "n \<le> u64_max"
    using next_publication_ends [OF assms(1,2), of next_frame] assms(3) by blast
  ultimately show ?thesis using that [of n True] by (simp add: publication_due_def)
qed

end
