(* ===== verification/Session_Receive_Properties.thy ===== *)
theory Session_Receive_Properties
  imports Session_Runs
begin

text \<open>
  The receive callback as a whole: the delay of a burst, the invariant under which a callback returns, keeps
  its buffers and fails silent, and what its events tell.
\<close>

section \<open>The delay of a burst\<close>

text \<open>The delay over callbacks: each one brings its captured samples in the work buffer and its raw
  qualification, runs \<open>rx_delay_burst\<close> on them and leaves its output in their place.\<close>

fun delay_calls ::
  "(bool \<times> f32 list) list \<Rightarrow> ('w, 's, 'r, 'd, 'h, 'n) receive_worker \<Rightarrow>
     ('w, 's, 'r, 'd, 'h, 'n) receive_worker \<times> f32 list list" where
  "delay_calls [] worker = (worker, [])"
| "delay_calls ((raw, captured) # calls) worker =
     (let worker = rx_delay_burst (length captured) raw
            (worker\<lparr>rw_work_a := write_span 0 captured (rw_work_a worker)\<rparr>);
          (final, outs) = delay_calls calls worker
      in (final, take (length captured) (rw_work_a worker) # outs))"

definition delay_ring :: "('w, 's, 'r, 'd, 'h, 'n) receive_worker \<Rightarrow> f32 list \<times> nat \<times> nat" where
  "delay_ring worker = (rw_delay worker, rw_delay_index worker, rw_delay_valid worker)"

lemma delay_call:
  assumes "rx_delay_burst (length captured) raw (worker\<lparr>rw_work_a := write_span 0 captured (rw_work_a worker)\<rparr>) = worker'"
  defines "s \<equiv> if raw then delay_ring worker else (rw_delay worker, 0, 0)"
  shows "step_samples (speech_delay_step raw (rw_input_gain worker)) s captured =
      (delay_ring worker', take (length captured) (rw_work_a worker'))"
    and "rw_input_gain worker' = rw_input_gain worker"
proof -
  obtain delay index valid audio where r:
    "step_samples (speech_delay_step raw (rw_input_gain worker)) s captured = ((delay, index, valid), audio)"
    by (metis prod.exhaust)
  have "length audio = length captured"
    using length_step_samples [of "speech_delay_step raw (rw_input_gain worker)" s captured] by (simp add: r)
  then show "step_samples (speech_delay_step raw (rw_input_gain worker)) s captured =
      (delay_ring worker', take (length captured) (rw_work_a worker'))"
    "rw_input_gain worker' = rw_input_gain worker"
    using r assms(1) by (auto simp: rx_delay_burst_def delay_ring_def s_def write_span_def)
qed

text \<open>While the qualification is closed the delay takes silence and gives silence.\<close>

lemma closed_stream:
  assumes "delay \<noteq> []" and "index < length delay"
  shows "\<exists>delay' index'. step_samples (speech_delay_step False gain) (delay, index, 0) xs =
      ((delay', index', 0), replicate (length xs) (fp_mul binary32 fp_zero gain)) \<and>
    length delay' = length delay \<and> index' < length delay"
  using assms
proof (induction xs arbitrary: delay index)
  case (Cons x xs)
  let ?d = "delay[index := fp_zero]"
  have "(index + 1) mod length delay < length ?d" "?d \<noteq> []" using Cons.prems by simp_all
  from Cons.IH [OF this(2,1)] show ?case
    using Cons.prems by (auto simp: speech_delay_step_def Let_def)
qed simp

lemma closed_calls:
  assumes "delay_calls (List.map (Pair False) quiet) worker = (final, outs)" and "rw_delay worker \<noteq> []"
    and "quiet \<noteq> [] \<or> rw_delay_valid worker = 0 \<and> rw_delay_index worker < length (rw_delay worker)"
  shows "concat outs = replicate (length (concat quiet)) (fp_mul binary32 fp_zero (rw_input_gain worker)) \<and>
    rw_input_gain final = rw_input_gain worker \<and> length (rw_delay final) = length (rw_delay worker) \<and>
    rw_delay_valid final = 0 \<and> rw_delay_index final < length (rw_delay final)"
  using assms
proof (induction quiet arbitrary: worker outs)
  case (Cons captured quiet)
  obtain next_worker where w: "rx_delay_burst (length captured) False
      (worker\<lparr>rw_work_a := write_span 0 captured (rw_work_a worker)\<rparr>) = next_worker" by blast
  obtain rest where rest: "delay_calls (List.map (Pair False) quiet) next_worker = (final, rest)"
    "outs = take (length captured) (rw_work_a next_worker) # rest"
    using Cons.prems(1) by (auto simp: w Let_def split: prod.splits)
  note c = delay_call [OF w]
  obtain delay index where d: "delay_ring next_worker = (delay, index, 0)" "length delay = length (rw_delay worker)"
    "index < length (rw_delay worker)"
    "take (length captured) (rw_work_a next_worker) =
      replicate (length captured) (fp_mul binary32 fp_zero (rw_input_gain worker))"
    using closed_stream [OF Cons.prems(2), of 0 "rw_input_gain worker" captured] Cons.prems(2) c(1) by auto
  then have "rw_delay next_worker \<noteq> []" "rw_delay_valid next_worker = 0"
    "rw_delay_index next_worker < length (rw_delay next_worker)" "length (rw_delay next_worker) = length (rw_delay worker)"
    using Cons.prems(2) by (auto simp: delay_ring_def)
  with Cons.IH [OF rest(1)] show ?case using rest(2) d(4) c(2) by (simp add: replicate_add)
qed simp

text \<open>From an emptied delay, the ring holds the latest samples of the burst, from wherever its index
  stood.\<close>

definition burst_ring :: "nat \<Rightarrow> nat \<Rightarrow> f32 list \<Rightarrow> f32 list \<times> nat \<times> nat \<Rightarrow> bool" where
  "burst_ring cap base heard = (\<lambda>(delay, index, valid). length delay = cap \<and>
     index = (base + length heard) mod cap \<and> valid = min (length heard) cap \<and>
     (\<forall>p < length heard. length heard \<le> p + cap \<longrightarrow> delay ! ((base + p) mod cap) = heard ! p))"

lemma burst_ring_start: "index < length delay \<Longrightarrow> burst_ring (length delay) index [] (delay, index, 0)"
  by (simp add: burst_ring_def)

lemma slots_apart:
  fixes p n cap :: nat
  assumes "p < n" and "n < p + cap"
  shows "p mod cap \<noteq> n mod cap"
proof
  assume "p mod cap = n mod cap"
  then have "cap dvd n - p" using assms(1) mod_eq_dvd_iff_nat [of p n cap] by simp
  with assms show False using dvd_imp_le [of cap "n - p"] by simp
qed

lemma burst_ring_step:
  assumes "burst_ring cap base heard (delay, index, valid)" and "0 < cap"
  shows "\<exists>s. speech_delay_step True gain (delay, index, valid) x =
      (s, fp_mul binary32 (if cap \<le> length heard then heard ! (length heard - cap) else fp_zero) gain) \<and>
    burst_ring cap base (heard @ [x]) s"
proof -
  let ?n = "length heard"
  let ?d = "delay[(base + ?n) mod cap := x]"
  have r: "length delay = cap" "index = (base + ?n) mod cap" "valid = min ?n cap"
    "\<And>p. p < ?n \<Longrightarrow> ?n \<le> p + cap \<Longrightarrow> delay ! ((base + p) mod cap) = heard ! p"
    using assms(1) by (auto simp: burst_ring_def)
  have out: "delay ! ((base + ?n) mod cap) = heard ! (?n - cap)" if "cap \<le> ?n"
  proof -
    have "base + ?n = base + (?n - cap) + cap" using that by simp
    then have "(base + ?n) mod cap = (base + (?n - cap)) mod cap" by (metis mod_add_self2)
    then show ?thesis using r(4) [of "?n - cap"] that assms(2) by simp
  qed
  have ring: "?d ! ((base + p) mod cap) = (heard @ [x]) ! p" if "p < ?n + 1" "?n + 1 \<le> p + cap" for p
  proof (cases "p = ?n")
    case True
    then show ?thesis using r(1) assms(2) by simp
  next
    case False
    then have "p < ?n" "?n < p + cap" using that by simp_all
    then show ?thesis using slots_apart [of "base + p" "base + ?n" cap] r(4) [of p] by (simp add: nth_append)
  qed
  have "burst_ring cap base (heard @ [x]) (?d, ((base + ?n) mod cap + 1) mod cap, min (valid + 1) cap)"
    using r(1,3) ring assms(2) by (auto simp: burst_ring_def mod_Suc_eq)
  moreover have "valid = length delay \<longleftrightarrow> cap \<le> ?n" using r(1,3) by auto
  moreover have "delay \<noteq> []" using r(1) assms(2) by auto
  ultimately show ?thesis using r(1,2) out by (simp add: speech_delay_step_def Let_def)
qed

lemma burst_stream:
  assumes "burst_ring cap base heard s" and "0 < cap"
  shows "snd (step_samples (speech_delay_step True gain) s xs) =
      List.map (\<lambda>y. fp_mul binary32 y gain)
        (take (length xs) (drop (length heard) (replicate cap fp_zero @ heard @ xs))) \<and>
    burst_ring cap base (heard @ xs) (fst (step_samples (speech_delay_step True gain) s xs))"
  using assms(1)
proof (induction xs arbitrary: heard s)
  case Nil
  then show ?case by simp
next
  case (Cons x xs)
  obtain s' where s': "speech_delay_step True gain s x =
      (s', fp_mul binary32 (if cap \<le> length heard then heard ! (length heard - cap) else fp_zero) gain)"
    "burst_ring cap base (heard @ [x]) s'"
    using burst_ring_step [of cap base heard "fst s" "fst (snd s)" "snd (snd s)" gain x] Cons.prems assms(2) by auto
  define S where "S = replicate cap fp_zero @ heard @ x # xs"
  have "drop (length heard) S = S ! length heard # drop (Suc (length heard)) S"
    by (rule Cons_nth_drop_Suc [symmetric]) (simp add: S_def)
  moreover have "S ! length heard = (if cap \<le> length heard then heard ! (length heard - cap) else fp_zero)"
    using assms(2) by (auto simp: S_def nth_append)
  moreover have "snd (step_samples (speech_delay_step True gain) s' xs) =
      List.map (\<lambda>y. fp_mul binary32 y gain) (take (length xs) (drop (Suc (length heard)) S)) \<and>
    burst_ring cap base (heard @ x # xs) (fst (step_samples (speech_delay_step True gain) s' xs))"
    using Cons.IH [OF s'(2)] by (simp add: S_def del: drop_append)
  ultimately show ?case
    unfolding S_def [symmetric] by (simp add: s'(1) case_prod_beta Let_def)
qed

text \<open>The callbacks of a burst hand the ring from one to the next: together they are one span.\<close>

lemma burst_calls:
  "concat (snd (delay_calls (List.map (Pair True) spans) worker)) =
     snd (step_samples (speech_delay_step True (rw_input_gain worker)) (delay_ring worker) (concat spans))"
proof (induction spans arbitrary: worker)
  case (Cons captured spans)
  obtain next_worker where w: "rx_delay_burst (length captured) True
      (worker\<lparr>rw_work_a := write_span 0 captured (rw_work_a worker)\<rparr>) = next_worker" by blast
  show ?case
    using delay_call [OF w] Cons.IH [of next_worker]
    by (simp add: w step_samples_append case_prod_beta Let_def)
qed simp

lemma delay_calls_append:
  "delay_calls (xs @ ys) worker =
     (let (worker, outs) = delay_calls xs worker; (worker, outs') = delay_calls ys worker in (worker, outs @ outs'))"
  by (induction xs arbitrary: worker) (auto simp: case_prod_beta Let_def)

text \<open>C38: a burst is heard from its own beginning and nothing else, in any partition.  Closed callbacks
  are silent, and after them, or from a delay that holds nothing, whatever an earlier burst left in its
  storage, the outputs of the raw-qualified callbacks, put together, are as many frames of silence as
  the delay has and then the captured stream; each sample carries the input gain.  How the stream is
  cut into callbacks does not show.\<close>

theorem burst_delay_exact:
  assumes "rw_delay worker \<noteq> []"
    and "quiet \<noteq> [] \<or> rw_delay_valid worker = 0 \<and> rw_delay_index worker < length (rw_delay worker)"
  shows "concat (snd (delay_calls (List.map (Pair False) quiet @ List.map (Pair True) spans) worker)) =
    List.map (\<lambda>y. fp_mul binary32 y (rw_input_gain worker))
      (replicate (length (concat quiet)) fp_zero @
       take (length (concat spans)) (replicate (length (rw_delay worker)) fp_zero @ concat spans))"
proof -
  obtain middle outs where m: "delay_calls (List.map (Pair False) quiet) worker = (middle, outs)" by fastforce
  note c = closed_calls [OF m assms]
  have ring: "delay_ring middle = (rw_delay middle, rw_delay_index middle, 0)" using c by (simp add: delay_ring_def)
  have "burst_ring (length (rw_delay worker)) (rw_delay_index middle) [] (delay_ring middle)"
    using burst_ring_start [of "rw_delay_index middle" "rw_delay middle"] c by (simp add: ring)
  from burst_stream [OF this, of "rw_input_gain worker" "concat spans"] assms(1) c show ?thesis
    using burst_calls [of spans middle] by (simp add: delay_calls_append m case_prod_beta Let_def)
qed

theorem burst_delay_exact_witness:
  "\<forall>worker. concat (snd (delay_calls
     [(False, [Finite False 1]), (True, [Finite False 1]), (True, [Finite True 1, Finite False 0])]
     (worker\<lparr>rw_delay := [NaN, Infty True], rw_input_gain := Finite False 1\<rparr>))) =
   List.map (\<lambda>y. fp_mul binary32 y (Finite False 1)) [fp_zero, fp_zero, fp_zero, Finite False 1]"
proof
  fix worker :: "('w, 's, 'r, 'd, 'h, 'n) receive_worker"
  let ?w = "worker\<lparr>rw_delay := [NaN, Infty True], rw_input_gain := Finite False 1\<rparr>"
  show "concat (snd (delay_calls
     [(False, [Finite False 1]), (True, [Finite False 1]), (True, [Finite True 1, Finite False 0])] ?w)) =
   List.map (\<lambda>y. fp_mul binary32 y (Finite False 1)) [fp_zero, fp_zero, fp_zero, Finite False 1]"
    using burst_delay_exact [of ?w "[[Finite False 1]]" "[[Finite False 1], [Finite True 1, Finite False 0]]"]
    by (simp add: numeral_2_eq_2 numeral_3_eq_3 del: delay_calls.simps)
qed

section \<open>The invariant of the receive worker\<close>

definition rx_setup_ok :: "('w, 's, 'r, 'd, 'h, 'n) receive_worker \<Rightarrow> bool" where
  "rx_setup_ok worker \<longleftrightarrow> receive_ports_sized (rw_ports worker) \<and> path_ok (rw_detector worker) \<and>
     ps_maximum_native_frames (rp_setup (rw_detector worker)) = rw_maximum_frames worker \<and>
     rxs_halted (rw_cpu_saver_state worker) \<le> 1 \<and> rw_receive_channel worker < 2 \<and>
     0 < rw_publication_interval_frames worker \<and> rw_next_publication_frame worker \<le> u64_max"

definition rx_buffers_ok :: "('w, 's, 'r, 'd, 'h, 'n) receive_worker \<Rightarrow> bool" where
  "rx_buffers_ok worker \<longleftrightarrow>
     (\<forall>b \<in> {rw_input_mono worker, rw_work_a worker, rw_work_b worker, rw_work_c worker}.
        length b = rw_maximum_frames worker) \<and>
     (rw_delay worker = [] \<or> rw_delay_index worker < length (rw_delay worker)) \<and>
     rw_delay_valid worker \<le> length (rw_delay worker)"

definition rx_vad_ok :: "('n \<Rightarrow> bool) \<Rightarrow> ('w, 's, 'r, 'd, 'h, 'n) receive_worker \<Rightarrow> bool" where
  "rx_vad_ok I worker \<longleftrightarrow> vad_ok I (rw_vad worker) \<and> sv_mode (rw_vad worker) = rw_vad_mode worker \<and>
     sv_maximum_native_frames (rw_vad worker) = rw_maximum_frames worker"

definition rx_ok :: "('n \<Rightarrow> bool) \<Rightarrow> ('w, 's, 'r, 'd, 'h, 'n) receive_worker \<Rightarrow> bool" where
  "rx_ok I worker \<longleftrightarrow> rx_setup_ok worker \<and> rx_buffers_ok worker \<and> rx_vad_ok I worker"

text \<open>What the programme path never touches.\<close>

definition rx_fixed where
  "rx_fixed worker = (rw_ports worker, rw_config worker, rw_detector worker, rw_qualification worker,
     rw_qualification_state worker, rw_cpu_saver_enabled worker, rw_cpu_saver_state worker,
     rw_per_sample_noise_gate worker, rw_ctcss_enabled worker, rw_dcs_enabled worker, rw_receive_channel worker,
     rw_input_gain worker, rw_maximum_frames worker, rw_publication_interval_frames worker,
     rw_next_publication_frame worker, rw_sample_index worker, rw_previous_carrier worker,
     rw_previous_subaudible worker, rw_previous_keyed worker, rw_previous_ctcss worker, rw_previous_dcs worker,
     rw_vad_mode worker)"

definition rx_kept :: "('n \<Rightarrow> bool) \<Rightarrow> ('w, 's, 'r, 'd, 'h, 'n) receive_worker \<Rightarrow>
    ('w, 's, 'r, 'd, 'h, 'n) receive_worker \<Rightarrow> bool" where
  "rx_kept I worker worker' \<longleftrightarrow> rx_ok I worker' \<and> rx_fixed worker' = rx_fixed worker"

lemma rx_kept_refl: "rx_ok I worker \<Longrightarrow> rx_kept I worker worker"
  by (simp add: rx_kept_def)

lemma rx_kept_trans: "rx_kept I a b \<Longrightarrow> rx_kept I b c \<Longrightarrow> rx_kept I a c"
  by (simp add: rx_kept_def)

lemma rx_keptD:
  assumes "rx_kept I worker worker'"
  shows "rx_ok I worker'" and "rw_maximum_frames worker' = rw_maximum_frames worker"
    and "rw_ports worker' = rw_ports worker" and "rw_sample_index worker' = rw_sample_index worker"
    and "rw_vad_mode worker' = rw_vad_mode worker" and "rw_config worker' = rw_config worker"
    and "rw_detector worker' = rw_detector worker"
    and "rw_publication_interval_frames worker' = rw_publication_interval_frames worker"
    and "rw_next_publication_frame worker' = rw_next_publication_frame worker"
    and "rw_cpu_saver_enabled worker' = rw_cpu_saver_enabled worker"
  using assms by (simp_all add: rx_kept_def rx_fixed_def)

lemmas rx_defs = rx_kept_def rx_ok_def rx_setup_ok_def rx_buffers_ok_def rx_vad_ok_def rx_fixed_def

lemma rx_writes:
  assumes "rx_ok I worker" and "length xs \<le> rw_maximum_frames worker"
  shows "rx_kept I worker (worker\<lparr>rw_work_a := write_span 0 xs (rw_work_a worker)\<rparr>)"
    and "rx_kept I worker (worker\<lparr>rw_work_b := write_span 0 xs (rw_work_b worker)\<rparr>)"
    and "rx_kept I worker (worker\<lparr>rw_work_c := write_span 0 xs (rw_work_c worker)\<rparr>)"
    and "rx_kept I worker (worker\<lparr>rw_input_mono := write_span 0 xs (rw_input_mono worker)\<rparr>)"
  using assms by (simp_all add: rx_defs length_write_span)

lemma rx_delay_write:
  assumes "rx_ok I worker" and "length delay = length (rw_delay worker)" and "delay = [] \<or> index < length delay"
    and "valid \<le> length delay"
  shows "rx_kept I worker (worker\<lparr>rw_delay := delay, rw_delay_index := index, rw_delay_valid := valid\<rparr>)"
  using assms by (simp add: rx_defs)

lemma rx_vad_write:
  assumes "rx_ok I worker" and "vad_ok I v" and "settings_equal (rw_vad worker) v"
  shows "rx_kept I worker (worker\<lparr>rw_vad := v\<rparr>)" and "rx_kept I worker (worker\<lparr>rw_vad_needs_reset := b\<rparr>)"
  using assms by (simp_all add: rx_defs settings_equal_def)

section \<open>The programme path\<close>

lemma rx_lengths:
  assumes "rx_ok I worker" and "count \<le> rw_maximum_frames worker"
  shows "length (take count (rw_input_mono worker)) = count" "length (take count (rw_work_a worker)) = count"
    "length (take count (rw_work_b worker)) = count" "length (take count (rw_work_c worker)) = count"
  using assms by (simp_all add: rx_ok_def rx_buffers_ok_def)

lemma rx_sized:
  assumes "rx_ok I worker"
  shows "receive_ports_sized (rw_ports worker)" "processor_sized (po_receive_deemphasis (rw_ports worker))"
    "processor_sized (po_receive_noise_reduction (rw_ports worker))"
    "processor_sized (po_receive_dynamics (rw_ports worker))"
  using assms by (simp_all add: rx_ok_def rx_setup_ok_def receive_ports_sized_def)

abbreviation rx_fails where
  "rx_fails I worker \<equiv> (\<lambda>(worker', w') (e :: radio_error). rx_kept I worker worker')"

lemma rx_deemphasis_spec:
  assumes "rx_ok I worker" and "count \<le> rw_maximum_frames worker"
  shows "run_spec (\<lambda>(worker', w') _. rx_kept I worker worker' \<and> list_all is_finite (take count (rw_work_a worker')))
    (rx_fails I worker) (rx_deemphasis count (worker, w))"
proof -
  obtain w' audio r where r: "run_processor (po_receive_deemphasis (rw_ports worker))
      (take count (rw_input_mono worker)) (take count (rw_work_a worker)) w = ((w', audio), r)" by (metis prod.exhaust)
  have len: "length (take count (rw_input_mono worker)) = length (take count (rw_work_a worker))"
    using rx_lengths [OF assms] by simp
  note spec = run_processor_spec [OF rx_sized(2) [OF assms(1)] len, of w, unfolded r]
  have "length audio = count" using spec rx_lengths(2) [OF assms] by (cases r) simp_all
  then show ?thesis
    using spec rx_writes(1) [OF assms(1), of audio] assms(2) r
    by (cases r) (simp_all add: rx_deemphasis_def take_write_span)
qed

lemma length_gate_samples [simp]: "length (gate_samples gates xs) = length xs"
  by (simp add: gate_samples_def)

lemma rx_gate_kept:
  assumes "rx_ok I worker" and "count \<le> rw_maximum_frames worker"
  shows "rx_kept I worker (rx_gate count carrier worker)"
  using rx_writes(1) [OF assms(1)] rx_kept_refl [OF assms(1)] assms(2) by (simp add: rx_gate_def)

lemma plain_delay_kept:
  assumes "delay = [] \<or> index < length delay"
    and "step_samples plain_delay_step (delay, index) xs = ((delay', index'), ys)"
  shows "length delay' = length delay \<and> (delay' = [] \<or> index' < length delay') \<and> length ys = length xs"
proof -
  have "(\<lambda>(d, i). length d = length delay \<and> (d = [] \<or> i < length d)) (fst (step_samples plain_delay_step (delay, index) xs))"
    by (rule step_samples_invariant) (use assms(1) in \<open>auto simp: plain_delay_step_def Let_def split: if_splits\<close>)
  moreover have "length (snd (step_samples plain_delay_step (delay, index) xs)) = length xs" by simp
  ultimately show ?thesis using assms(2) by auto
qed

lemma speech_delay_kept:
  assumes "delay = [] \<or> index < length delay" and "valid \<le> length delay"
    and "step_samples (speech_delay_step raw gain) (delay, index, valid) xs = ((delay', index', valid'), ys)"
  shows "length delay' = length delay \<and> (delay' = [] \<or> index' < length delay') \<and> valid' \<le> length delay' \<and>
    length ys = length xs"
proof -
  have "(\<lambda>(d, i, v). length d = length delay \<and> (d = [] \<or> i < length d) \<and> v \<le> length d)
      (fst (step_samples (speech_delay_step raw gain) (delay, index, valid) xs))"
    by (rule step_samples_invariant)
      (use assms(1,2) in \<open>auto simp: speech_delay_step_def Let_def intro!: mod_less_divisor split: if_splits\<close>)
  moreover have "length (snd (step_samples (speech_delay_step raw gain) (delay, index, valid) xs)) = length xs" by simp
  ultimately show ?thesis using assms(3) by auto
qed

lemma rx_plain_spec:
  assumes "rx_ok I worker" and "count \<le> rw_maximum_frames worker"
  shows "run_spec (\<lambda>(worker', w') _. rx_kept I worker worker') (rx_fails I worker)
    (rx_plain_programme count input carrier (worker, w))"
proof -
  obtain delay index mono where d: "step_samples plain_delay_step (rw_delay worker, rw_delay_index worker)
      (captured_channel (rw_receive_channel worker) count input) = ((delay, index), mono)" by (metis prod.exhaust)
  have b: "rw_delay worker = [] \<or> rw_delay_index worker < length (rw_delay worker)"
    "rw_delay_valid worker \<le> length (rw_delay worker)" using assms(1) by (simp_all add: rx_ok_def rx_buffers_ok_def)
  note k = plain_delay_kept [OF b(1) d]
  let ?v = "worker\<lparr>rw_delay := delay, rw_delay_index := index\<rparr>"
  let ?u = "?v\<lparr>rw_input_mono := write_span 0 mono (rw_input_mono worker)\<rparr>"
  have v: "rx_kept I worker ?v" using rx_delay_write [OF assms(1), of delay index "rw_delay_valid worker"] k b(2) by auto
  have u: "rx_kept I worker ?u"
    using rx_kept_trans [OF v rx_writes(4) [OF rx_keptD(1) [OF v], of mono]] k assms(2)
    by (simp add: captured_channel_def)
  have count: "count \<le> rw_maximum_frames ?u" using assms(2) by simp
  obtain q w' r where r: "rx_deemphasis count (?u, w) = ((q, w'), r)" by (metis prod.exhaust)
  have q: "rx_kept I worker q"
    using rx_kept_trans [OF u] rx_deemphasis_spec [OF rx_keptD(1) [OF u] count, of w, unfolded r] by (cases r) auto
  have g: "rx_kept I worker (rx_gate count carrier q)"
    using rx_kept_trans [OF q rx_gate_kept [OF rx_keptD(1) [OF q]]] assms(2) rx_keptD(2) [OF q] by simp
  have "rx_kept I worker ((rx_gate count carrier q)\<lparr>rw_work_a := write_span 0
      (List.map f (take count (rw_work_a (rx_gate count carrier q)))) (rw_work_a (rx_gate count carrier q))\<rparr>)" for f
    by (rule rx_kept_trans [OF g rx_writes(1) [OF rx_keptD(1) [OF g]]])
      (use rx_keptD(2) [OF g] assms(2) in simp)
  then show ?thesis using q r by (cases r) (simp_all add: rx_plain_programme_def d Let_def)
qed

text \<open>With speech admission, the receiver is keyed by a raw-qualified burst that is admitted, and unless
  the delay is elsewhere, nothing is heard of an unkeyed span.\<close>

definition speech_gated :: "nat \<Rightarrow> bool \<Rightarrow> ('w, 's, 'r, 'd, 'h, 'n) receive_worker \<Rightarrow> vad_decision \<Rightarrow> bool \<Rightarrow> bool" where
  "speech_gated count raw worker speech keyed \<longleftrightarrow> keyed = (raw \<and> vd_admitted speech) \<and>
     (rcf_vad_external_delay (rw_config worker) = 0 \<and> \<not> keyed \<longrightarrow>
        take count (rw_work_a worker) = replicate count fp_zero)"

lemma rx_vad_reset_spec:
  assumes "rx_ok I worker"
  shows "run_spec (\<lambda>(worker', w') _. rx_kept I worker worker') (rx_fails I worker) (rx_vad_reset (worker, w))"
proof (cases "rw_vad_needs_reset worker")
  case False
  then show ?thesis using rx_kept_refl [OF assms] by (simp add: rx_vad_reset_def)
next
  case True
  obtain v r where v: "vad_reset (rw_vad worker) = (v, r)" by fastforce
  have "vad_shape I (rw_vad worker)" using assms by (simp add: rx_ok_def rx_vad_ok_def vad_ok_shape)
  from vad_reset_ok(1) [OF this v] have "rx_kept I worker (worker\<lparr>rw_vad := v\<rparr>)"
    by (intro rx_vad_write(1) [OF assms]) (simp_all add: vad_closed_def)
  then show ?thesis using True v by (cases r) (auto simp: rx_vad_reset_def rx_defs)
qed

lemma rx_speech_spec:
  assumes "rx_ok I worker"
  shows "run_spec (\<lambda>(worker', w') _. rx_kept I worker worker') (rx_fails I worker) (rx_speech count raw (worker, w))"
proof -
  obtain v r where v: "vad_process (rw_vad worker) (take count (rw_work_a worker)) raw (rw_sample_index worker) = (v, r)"
    by fastforce
  have "vad_ok I (rw_vad worker)" using assms by (simp add: rx_ok_def rx_vad_ok_def)
  from vad_process_ok [OF this, of "take count (rw_work_a worker)" raw "rw_sample_index worker", unfolded v]
  have "rx_kept I worker (worker\<lparr>rw_vad := v\<rparr>)"
    by (intro rx_vad_write(1) [OF assms]) (simp_all add: vad_outcome_def Let_def)
  then show ?thesis using v by (cases r) (simp_all add: rx_speech_def)
qed

lemma rx_delay_burst_kept:
  assumes "rx_ok I worker" and "count \<le> rw_maximum_frames worker"
  shows "rx_kept I worker (rx_delay_burst count raw worker)"
proof -
  let ?u = "if \<not> raw then worker\<lparr>rw_delay_valid := 0, rw_delay_index := 0\<rparr> else worker"
  have u: "rx_kept I worker ?u" using assms(1) by (auto simp: rx_defs)
  obtain delay index valid audio where d: "step_samples (speech_delay_step raw (rw_input_gain ?u))
      (rw_delay ?u, rw_delay_index ?u, rw_delay_valid ?u) (take count (rw_work_a ?u)) = ((delay, index, valid), audio)"
    by (metis prod.exhaust)
  have "rw_delay ?u = [] \<or> rw_delay_index ?u < length (rw_delay ?u)" "rw_delay_valid ?u \<le> length (rw_delay ?u)"
    using rx_keptD(1) [OF u] unfolding rx_ok_def rx_buffers_ok_def by blast+
  note k = speech_delay_kept [OF this d]
  have v: "rx_kept I worker (?u\<lparr>rw_delay := delay, rw_delay_index := index, rw_delay_valid := valid\<rparr>)"
    by (rule rx_kept_trans [OF u rx_delay_write [OF rx_keptD(1) [OF u]]]) (use k in auto)
  have "rx_delay_burst count raw worker = (?u\<lparr>rw_delay := delay, rw_delay_index := index, rw_delay_valid := valid\<rparr>)
      \<lparr>rw_work_a := write_span 0 audio (rw_work_a (?u\<lparr>rw_delay := delay, rw_delay_index := index, rw_delay_valid := valid\<rparr>))\<rparr>"
    using d by (simp only: rx_delay_burst_def Let_def prod.case) simp
  then show ?thesis
    using rx_kept_trans [OF v rx_writes(1) [OF rx_keptD(1) [OF v], of audio]] k rx_keptD(2) [OF v] assms(2) by simp
qed

lemma rx_speech_programme_spec:
  assumes "rx_ok I worker" and "count \<le> rw_maximum_frames worker"
  shows "run_spec (\<lambda>(worker', w') (speech, keyed). rx_kept I worker worker' \<and> speech_gated count raw worker' speech keyed)
    (rx_fails I worker) (rx_speech_programme count input carrier raw (worker, w))"
proof -
  obtain w1 e1 r1 where r1: "rx_vad_reset (worker, w) = ((w1, e1), r1)" by (metis prod.exhaust)
  have k1: "rx_kept I worker w1" using rx_vad_reset_spec [OF assms(1), of w, unfolded r1] by (cases r1) auto
  let ?u = "w1\<lparr>rw_input_mono := write_span 0 (captured_channel (rw_receive_channel w1) count input) (rw_input_mono w1)\<rparr>"
  have u: "rx_kept I worker ?u"
    by (rule rx_kept_trans [OF k1 rx_writes(4) [OF rx_keptD(1) [OF k1]]])
      (use rx_keptD(2) [OF k1] assms(2) in \<open>simp add: captured_channel_def\<close>)
  obtain w2 e2 r2 where r2: "rx_deemphasis count (?u, e1) = ((w2, e2), r2)" by (metis prod.exhaust)
  have cu: "count \<le> rw_maximum_frames ?u" using rx_keptD(2) [OF u] assms(2) by simp
  have k2: "rx_kept I worker w2"
    using rx_kept_trans [OF u] rx_deemphasis_spec [OF rx_keptD(1) [OF u] cu, of e1, unfolded r2] by (cases r2) auto
  let ?g = "rx_gate count carrier w2"
  have g: "rx_kept I worker ?g"
    using rx_kept_trans [OF k2 rx_gate_kept [OF rx_keptD(1) [OF k2]]] rx_keptD(2) [OF k2] assms(2) by simp
  obtain w3 e3 r3 where r3: "rx_speech count raw (?g, e2) = ((w3, e3), r3)" by (metis prod.exhaust)
  have k3: "rx_kept I worker w3"
    using rx_kept_trans [OF g] rx_speech_spec [OF rx_keptD(1) [OF g], of count raw e2, unfolded r3] by (cases r3) auto
  let ?b = "rx_delay_burst count raw w3"
  have b: "rx_kept I worker ?b"
    using rx_kept_trans [OF k3 rx_delay_burst_kept [OF rx_keptD(1) [OF k3]]] rx_keptD(2) [OF k3] assms(2) by simp
  have z: "rx_kept I worker (?b\<lparr>rw_work_a := write_span 0 (replicate count fp_zero) (rw_work_a ?b)\<rparr>)"
    by (rule rx_kept_trans [OF b rx_writes(1) [OF rx_keptD(1) [OF b]]]) (use rx_keptD(2) [OF b] assms(2) in simp)
  show ?thesis
    using k1 k2 k3 b z r1 r2 r3
    by (cases r1; cases r2; cases r3)
      (simp_all add: rx_speech_programme_def speech_gated_def take_write_span Let_def)
qed

lemma rx_programme_spec:
  assumes "rx_ok I worker" and "count \<le> rw_maximum_frames worker"
  shows "run_spec (\<lambda>(worker', w') (speech, keyed). rx_kept I worker worker' \<and>
      (if rw_vad_mode worker = 0 then keyed = qo_rx_keyed qualified
       else speech_gated count (qo_rx_keyed qualified) worker' speech keyed))
    (rx_fails I worker) (rx_programme count input qualified (worker, w))"
proof (cases "rw_vad_mode worker = 0")
  case True
  obtain q r where r: "rx_plain_programme count input (qo_carrier_active qualified) (worker, w) = (q, r)" by fastforce
  then show ?thesis
    using rx_plain_spec [OF assms, of input "qo_carrier_active qualified" w, unfolded r] True
    by (cases r) (simp_all add: rx_programme_def case_prod_beta)
next
  case False
  then show ?thesis using rx_speech_programme_spec [OF assms] by (simp add: rx_programme_def)
qed

lemma rx_filters_spec:
  assumes "rx_ok I worker" and "count \<le> rw_maximum_frames worker"
  shows "run_spec (\<lambda>(worker', w') notched. rx_kept I worker worker' \<and> list_all is_finite (take count (rw_work_b worker')) \<and>
      (notched \<longrightarrow> list_all is_finite (take count (rw_work_c worker'))))
    (rx_fails I worker) (rx_filters count detected (worker, w))"
proof -
  obtain w' fs ns r where r: "run_receive_filters (rw_ports worker) (pr_ctcss_decoded detected)
      (pr_ctcss_tail_tone_active detected) (take count (rw_work_a worker)) (take count (rw_work_b worker))
      (take count (rw_work_c worker)) w = ((w', fs, ns), r)" by (metis prod.exhaust)
  note len = rx_lengths [OF assms]
  have "length (take count (rw_work_a worker)) = length (take count (rw_work_b worker))"
    "length (take count (rw_work_c worker)) = length (take count (rw_work_b worker))" using len by simp_all
  from run_receive_filters_spec [OF rx_sized(1) [OF assms(1)] this, of "pr_ctcss_decoded detected"
      "pr_ctcss_tail_tone_active detected" w, unfolded r]
  have spec: "length fs = count" "length ns = count"
    "r = Inr on \<Longrightarrow> list_all is_finite fs \<and> (on \<longrightarrow> list_all is_finite ns)" for on
    using len by (cases r; simp)+
  have b: "rx_kept I worker (worker\<lparr>rw_work_b := write_span 0 fs (rw_work_b worker)\<rparr>)"
    by (rule rx_writes(2) [OF assms(1)]) (use spec assms(2) in simp)
  have "rx_kept I worker (worker\<lparr>rw_work_b := write_span 0 fs (rw_work_b worker),
      rw_work_c := write_span 0 ns (rw_work_c worker)\<rparr>)"
    using rx_kept_trans [OF b rx_writes(3) [OF rx_keptD(1) [OF b], of ns]] spec(2) assms(2) by simp
  then show ?thesis using r spec by (cases r) (simp_all add: rx_filters_def take_write_span)
qed

lemma rx_bypass_spec:
  assumes "rx_ok I worker" and "count \<le> rw_maximum_frames worker"
    and "list_all is_finite (take count (rw_work_b worker))"
    and "notched \<longrightarrow> list_all is_finite (take count (rw_work_c worker))"
  shows "run_spec (\<lambda>(worker', w') _. rx_kept I worker worker' \<and> list_all is_finite (take count (rw_work_b worker')))
    (rx_fails I worker) (rx_bypass_voice count frames notched (worker, w))"
proof -
  obtain w' r where r: "bypass_port (po_receive_noise_reduction (rw_ports worker)) frames w = (w', r)" by fastforce
  have c: "length (take count (rw_work_c worker)) = count" by (rule rx_lengths(4) [OF assms(1,2)])
  show ?thesis
    using r rx_kept_refl [OF assms(1)] rx_writes(2) [OF assms(1), of "take count (rw_work_c worker)"] c assms(2-4)
    by (cases r) (simp_all add: rx_bypass_voice_def take_write_span [OF c])
qed

lemma rx_process_voice_spec:
  assumes "rx_ok I worker" and "count \<le> rw_maximum_frames worker"
  shows "run_spec (\<lambda>(worker', w') _. rx_kept I worker worker' \<and> list_all is_finite (take count (rw_work_b worker')))
    (rx_fails I worker) (rx_process_voice count notched (worker, w))"
proof -
  let ?input = "take count (if notched then rw_work_c worker else rw_work_b worker)"
  obtain w1 audio r1 where r1: "run_optional_processor (po_receive_noise_reduction (rw_ports worker)) ?input
      (take count (rw_work_a worker)) w = ((w1, audio), r1)" by (metis prod.exhaust)
  have "length ?input = length (take count (rw_work_a worker))" using rx_lengths [OF assms] by simp
  from run_optional_processor_spec [OF rx_sized(3) [OF assms(1)] this, of w, unfolded r1]
  have len: "length audio = count" using rx_lengths(2) [OF assms] by (cases r1) simp_all
  let ?a = "worker\<lparr>rw_work_a := write_span 0 audio (rw_work_a worker)\<rparr>"
  have a: "rx_kept I worker ?a" by (rule rx_writes(1) [OF assms(1)]) (use len assms(2) in simp)
  show ?thesis
  proof (cases r1)
    case (Inl e)
    then show ?thesis using r1 a by (simp add: rx_process_voice_def)
  next
    case (Inr u)
    obtain w2 out r2 where r2: "run_processor (po_receive_dynamics (rw_ports worker)) audio
        (take count (rw_work_b worker)) w1 = ((w2, out), r2)" by (metis prod.exhaust)
    have "length audio = length (take count (rw_work_b worker))" using len rx_lengths(3) [OF assms] by simp
    note spec = run_processor_spec [OF rx_sized(4) [OF assms(1)] this, of w1, unfolded r2]
    have out: "length out = count" using spec rx_lengths(3) [OF assms] by (cases r2) simp_all
    have "rx_kept I worker (?a\<lparr>rw_work_b := write_span 0 out (rw_work_b ?a)\<rparr>)"
      by (rule rx_kept_trans [OF a rx_writes(2) [OF rx_keptD(1) [OF a]]]) (use out rx_keptD(2) [OF a] assms(2) in simp)
    then show ?thesis
      using r1 r2 Inr spec out len
      by (cases r2) (simp_all add: rx_process_voice_def take_write_span Let_def)
  qed
qed

lemma rx_audio_spec:
  assumes "rx_ok I worker" and "count \<le> rw_maximum_frames worker"
  shows "run_spec (\<lambda>(worker', w') (speech, keyed). rx_kept I worker worker' \<and>
      list_all is_finite (take count (rw_work_b worker')) \<and> (keyed \<longrightarrow> qo_rx_keyed qualified))
    (rx_fails I worker) (rx_audio count input detected qualified (worker, w))"
proof -
  obtain w1 e1 r1 where r1: "rx_programme count input qualified (worker, w) = ((w1, e1), r1)" by (metis prod.exhaust)
  have k1: "rx_kept I worker w1"
    using rx_programme_spec [OF assms, of "qualified" input w, unfolded r1] by (cases r1) auto
  have c1: "count \<le> rw_maximum_frames w1" using rx_keptD(2) [OF k1] assms(2) by simp
  obtain w2 e2 r2 where r2: "rx_filters count detected (w1, e1) = ((w2, e2), r2)" by (metis prod.exhaust)
  note f = rx_filters_spec [OF rx_keptD(1) [OF k1] c1, of detected e1, unfolded r2]
  have k2: "rx_kept I worker w2" using f rx_kept_trans [OF k1] by (cases r2) auto
  have c2: "count \<le> rw_maximum_frames w2" using rx_keptD(2) [OF k2] assms(2) by simp
  show ?thesis
  proof (cases r1)
    case (Inl e)
    then show ?thesis using r1 k1 by (simp add: rx_audio_def)
  next
    case (Inr sk)
    then obtain speech keyed where sk: "r1 = Inr (speech, keyed)" by (cases sk) auto
    have raw: "keyed \<longrightarrow> qo_rx_keyed qualified"
      using rx_programme_spec [OF assms, of "qualified" input w, unfolded r1] sk
      by (auto simp: speech_gated_def split: if_splits)
    show ?thesis
    proof (cases r2)
      case (Inl e)
      then show ?thesis using r1 r2 sk k2 by (simp add: rx_audio_def)
    next
      case (Inr notched)
      let ?v = "if rw_cpu_saver_enabled w2 \<and> \<not> qo_rx_keyed qualified then rx_bypass_voice count count notched (w2, e2)
        else rx_process_voice count notched (w2, e2)"
      have "run_spec (\<lambda>(worker', w') _. rx_kept I w2 worker' \<and> list_all is_finite (take count (rw_work_b worker')))
          (rx_fails I w2) ?v"
        using rx_bypass_spec [OF rx_keptD(1) [OF k2] c2] rx_process_voice_spec [OF rx_keptD(1) [OF k2] c2] f Inr
        by auto
      moreover obtain w3 e3 r3 where r3: "?v = ((w3, e3), r3)" by (metis prod.exhaust)
      ultimately show ?thesis
        using rx_kept_trans [OF k2] r1 r2 sk Inr raw
        by (cases r3) (simp_all add: rx_audio_def)
    qed
  qed
qed

section \<open>Detection\<close>

text \<open>What a receive callback leaves alone in the session.\<close>

definition other_side where
  "other_side session = (ss_profile session, ss_generation_id session, ss_maximum_frames session,
     ss_program_ring session, ss_transmit session, ss_receive_busy session, ss_transmit_busy session,
     ss_warmed session, ss_transmit_events session, sh_logical_ptt (ss_shared session))"

type_synonym indications = "bool \<times> bool \<times> bool \<times> int \<times> bool"

definition rx_indications :: "('w, 's, 'r, 'd, 'h, 'n) receive_worker \<Rightarrow> indications" where
  "rx_indications worker = (rw_previous_carrier worker, rw_previous_subaudible worker, rw_previous_keyed worker,
     rw_previous_ctcss worker, rw_previous_dcs worker)"

text \<open>What a worker was built from, the processing of its DCS provider included.\<close>

definition rx_build where
  "rx_build worker = (rw_config worker, rw_maximum_frames worker, rp_setup (rw_detector worker),
     dr_process (rp_dcs_state (rw_detector worker)))"

definition rx_clock where
  "rx_clock worker = (rx_build worker, rx_indications worker, rw_sample_index worker, rw_publication_interval_frames worker, rw_next_publication_frame worker,
     rw_maximum_frames worker, rw_vad_mode worker, rw_config worker, rw_ports worker, rw_delay worker,
     rw_per_sample_noise_gate worker, rw_cpu_saver_enabled worker, rw_input_gain worker, rw_receive_channel worker)"

lemma rx_detector_write:
  assumes "rx_ok I worker" and "path_ok p" and "rp_setup p = rp_setup (rw_detector worker)"
  shows "rx_ok I (worker\<lparr>rw_detector := p\<rparr>)"
  using assms by (simp add: rx_ok_def rx_setup_ok_def rx_buffers_ok_def rx_vad_ok_def)

lemma take_blanking_spec:
  assumes "rx_ok I (ss_receive session)"
  shows "rx_ok I (ss_receive (take_blanking session))" and "other_side (take_blanking session) = other_side session"
    and "rx_clock (ss_receive (take_blanking session)) = rx_clock (ss_receive session)"
    and "rp_dcs_state (rw_detector (ss_receive (take_blanking session))) = rp_dcs_state (rw_detector (ss_receive session))"
    and "rp_setup (rw_detector (ss_receive (take_blanking session))) = rp_setup (rw_detector (ss_receive session))"
proof -
  have "path_ok (rw_detector (ss_receive session))" using assms by (simp add: rx_ok_def rx_setup_ok_def)
  then have "rx_ok I (ss_receive session\<lparr>rw_detector := path_arm_receive_blanking d (rw_detector (ss_receive session))\<rparr>)" for d
    by (intro rx_detector_write [OF assms]) (simp_all add: path_arm_receive_blanking_def path_ok_update(18))
  then show "rx_ok I (ss_receive (take_blanking session))"
    "other_side (take_blanking session) = other_side session"
    "rx_clock (ss_receive (take_blanking session)) = rx_clock (ss_receive session)"
    "rp_dcs_state (rw_detector (ss_receive (take_blanking session))) = rp_dcs_state (rw_detector (ss_receive session))"
    "rp_setup (rw_detector (ss_receive (take_blanking session))) = rp_setup (rw_detector (ss_receive session))"
    using assms by (simp_all add: take_blanking_def other_side_def rx_clock_def rx_indications_def rx_build_def path_arm_receive_blanking_def Let_def)
qed

lemma detector_span:
  assumes "rx_ok I worker" and "length input = 2 * count" and "0 < count" and "count \<le> rw_maximum_frames worker"
    and "list_all is_finite input"
  shows "path_ok (rw_detector worker)" and "accepted_span (rw_detector worker) input"
    and "process_with_carrier (rw_detector worker) input carrier = path_span (rw_detector worker) input carrier"
proof -
  show "path_ok (rw_detector worker)" using assms(1) by (simp add: rx_ok_def rx_setup_ok_def)
  show "accepted_span (rw_detector worker) input"
    using assms by (simp add: accepted_span_def rx_ok_def rx_setup_ok_def)
  then show "process_with_carrier (rw_detector worker) input carrier = path_span (rw_detector worker) input carrier"
    using assms(2,3) by (auto simp: process_with_carrier_def accepted_span_def)
qed

lemma path_span_dcs_process:
  assumes "path_ok p" and "accepted_span p native" and "path_span p native carrier = Some (p', r)"
  shows "dr_process (rp_dcs_state p') = dr_process (rp_dcs_state p)"
proof -
  obtain w k vox blanked detect rssi input where sp: "path_span p native carrier = path_bind (path_dcs w input)
      (\<lambda>p _. let (p, r) = span_finish (length native div 2) k blanked carrier detect vox rssi p in Some (p, Inr r))"
    and w: "rp_dcs_state w = rp_dcs_state p"
    using path_span_detected [OF assms(1,2)] by metis
  have finish: "rp_dcs_state (fst (span_finish n k blanked carrier detect vox rssi x)) = rp_dcs_state x" for n x
    by (simp add: span_finish_def path_ctcss_def path_publish_def case_prod_beta Let_def split: prod.splits if_splits)
  have dcs: "path_dcs w input = Some (x, u) \<Longrightarrow> dr_process (rp_dcs_state x) = dr_process (rp_dcs_state w)" for x u
    by (auto simp: path_dcs_def dcs_receive_process_def Let_def split: prod.splits sum.splits if_splits)
  have "\<exists>x u. path_dcs w input = Some (x, u) \<and> rp_dcs_state p' = rp_dcs_state x"
    using assms(3) finish
    by (auto simp: sp path_bind_def case_prod_beta Let_def split: option.splits prod.splits sum.splits)
  then show ?thesis using dcs w by metis
qed

lemma receive_detect_spec:
  assumes "rx_ok I worker" and "length input = 2 * count" and "0 < count" and "count \<le> rw_maximum_frames worker"
    and "list_all is_finite input" and "\<not> dcs_may_fail (rp_dcs_state (rw_detector worker))"
  obtains p detected where "receive_detect worker input controls q = Some (worker\<lparr>rw_detector := p\<rparr>, detected)"
    and "rx_ok I (worker\<lparr>rw_detector := p\<rparr>)" and "rp_setup p = rp_setup (rw_detector worker)"
    and "dr_process (rp_dcs_state p) = dr_process (rp_dcs_state (rw_detector worker))"
proof -
  let ?c = "external_carrier (qc_carrier_source q) (ri_hardware_carrier controls \<noteq> 0)
    (ri_parallel_carrier controls \<noteq> 0) (external_cor controls)"
  note d = detector_span [OF assms(1-5)]
  have "call_spec (\<lambda>p' r. path_ok p' \<and> rp_setup p' = rp_setup (rw_detector worker)) (\<lambda>_ _. False)
      (path_span (rw_detector worker) input ?c)"
    by (rule call_spec_mono [OF path_span_spec [OF d(1,2)]]) (use assms(6) in \<open>auto simp: span_done_def\<close>)
  then obtain p r where "path_span (rw_detector worker) input ?c = Some (p, Inr r)" "path_ok p"
      "rp_setup p = rp_setup (rw_detector worker)"
    by (rule call_spec_obtain) blast
  then show ?thesis
    using that rx_detector_write [OF assms(1)] d(3) [of ?c] path_span_dcs_process [OF d(1,2)]
    by (simp add: receive_detect_def)
qed

lemma rx_cpu_saver_flags:
  assumes "rxs_halted state \<le> 1"
  shows "\<exists>next_state. rx_cpu_saver_advance
      \<lparr>rxs_enabled = of_flag a, rxs_carrier_detect = of_flag b, rxs_signal_mode_null = of_flag c,
       rxs_tx_ptt_in = 0, rxs_tx_ptt_out = of_flag d\<rparr> state = Inr next_state \<and> rxs_halted next_state \<le> 1"
proof -
  have "of_flag x \<le> 1" "\<not> Suc 0 < of_flag x" for x by (simp_all add: of_flag_def)
  then show ?thesis using assms by (auto simp: rx_cpu_saver_advance_def Let_def)
qed

lemma receive_saver_spec:
  assumes "rx_ok I worker"
  obtains worker' where "receive_saver worker carrier ptt = Some worker'" and "rx_ok I worker'"
    and "rx_clock worker' = rx_clock worker"
proof -
  have h: "rxs_halted (rw_cpu_saver_state worker) \<le> 1" "path_ok (rw_detector worker)"
    using assms by (simp_all add: rx_ok_def rx_setup_ok_def)
  let ?in = "\<lparr>rxs_enabled = of_flag (rw_cpu_saver_enabled worker), rxs_carrier_detect = of_flag carrier,
    rxs_signal_mode_null = of_flag (worker_signal_mode worker = QualifyNone), rxs_tx_ptt_in = 0,
    rxs_tx_ptt_out = of_flag ptt\<rparr>"
  obtain st where st: "rx_cpu_saver_advance ?in (rw_cpu_saver_state worker) = Inr st" "rxs_halted st \<le> 1"
    using rx_cpu_saver_flags [OF h(1)] by metis
  let ?p = "set_voice_processing_active (rxs_halted st = 0) (rw_detector worker)"
  have "path_ok ?p" "rp_setup ?p = rp_setup (rw_detector worker)"
    using h(2) by (simp_all add: set_voice_processing_active_def path_ok_def)
  from rx_detector_write [OF assms this]
  have "rx_ok I (worker\<lparr>rw_cpu_saver_state := st, rw_detector := ?p\<rparr>)"
    using st(2) by (simp add: rx_ok_def rx_setup_ok_def rx_buffers_ok_def rx_vad_ok_def)
  then show ?thesis
    using st(1) by (intro that [of "worker\<lparr>rw_cpu_saver_state := st, rw_detector := ?p\<rparr>"])
      (simp_all add: receive_saver_def set_voice_processing_active_def rx_clock_def rx_indications_def rx_build_def)
qed

lemma receive_indications_spec:
  assumes "rx_ok I (ss_receive session)" and "length input = 2 * count" and "0 < count"
    and "count \<le> rw_maximum_frames (ss_receive session)" and "list_all is_finite input"
    and "\<not> dcs_may_fail (rp_dcs_state (rw_detector (ss_receive session)))"
  obtains session' detected out where
    "receive_indications session input count controls valid = Some (session', detected, out)"
    and "rx_ok I (ss_receive session')" and "other_side session' = other_side session"
    and "rx_clock (ss_receive session') = rx_clock (ss_receive session)"
    and "ss_receive_events session' = ss_receive_events session"
proof -
  let ?s = "take_blanking session"
  note b = take_blanking_spec [OF assms(1)]
  let ?q = "speech_qualification (ss_receive ?s) valid"
  have m: "rw_maximum_frames (ss_receive ?s) = rw_maximum_frames (ss_receive session)"
    using b(3) by (simp add: rx_clock_def rx_indications_def rx_build_def)
  obtain p detected where d: "receive_detect (ss_receive ?s) input controls ?q = Some (ss_receive ?s\<lparr>rw_detector := p\<rparr>, detected)"
    and p: "rx_ok I (ss_receive ?s\<lparr>rw_detector := p\<rparr>)" "rp_setup p = rp_setup (rw_detector (ss_receive ?s))"
      "dr_process (rp_dcs_state p) = dr_process (rp_dcs_state (rw_detector (ss_receive ?s)))"
    using receive_detect_spec [OF b(1) assms(2,3) _ assms(5)] m assms(4,6) b(4) by metis
  let ?w = "ss_receive ?s\<lparr>rw_detector := p\<rparr>"
  obtain st out where a: "qualification_advance (final_qualification ?q controls valid)
      (receive_inputs ?w controls detected (sh_logical_ptt (ss_shared ?s))) count (rw_qualification_state ?w) = (st, out)"
    by fastforce
  have "rx_ok I (?w\<lparr>rw_qualification_state := st\<rparr>)"
    using p by (simp add: rx_ok_def rx_setup_ok_def rx_buffers_ok_def rx_vad_ok_def)
  then obtain w' where w': "receive_saver (?w\<lparr>rw_qualification_state := st\<rparr>) (qo_carrier_active out)
      (sh_logical_ptt (ss_shared ?s)) = Some w'" "rx_ok I w'" "rx_clock w' = rx_clock (?w\<lparr>rw_qualification_state := st\<rparr>)"
    using receive_saver_spec by blast
  have "receive_indications session input count controls valid = Some (?s\<lparr>ss_receive := w'\<rparr>, detected, out)"
    using d a w'(1) by (simp add: receive_indications_def Let_def)
  then show ?thesis
    using w'(2,3) b(2,3) p(2,3) by (intro that [of "?s\<lparr>ss_receive := w'\<rparr>"]) (simp_all add: other_side_def rx_clock_def rx_indications_def rx_build_def take_blanking_def Let_def)
qed

section \<open>Publication\<close>

text \<open>What the application knows of the receiver: a result states the indications, an event changes one.\<close>

definition result_indications :: "receive_result \<Rightarrow> indications" where
  "result_indications r = (rv_carrier_active r \<noteq> 0, rv_subaudible_active r \<noteq> 0, rv_receiver_keyed r \<noteq> 0,
     rv_ctcss_decoded_index r, rv_dcs_valid r \<noteq> 0)"

definition replay :: "event \<Rightarrow> indications \<Rightarrow> indications" where
  "replay e = (\<lambda>(carrier, subaudible, keyed, ctcss, dcs).
     if ev_kind e = event_kind_code EventCarrier then (ev_value e \<noteq> 0, subaudible, keyed, ctcss, dcs)
     else if ev_kind e = event_kind_code EventSubaudible then (carrier, ev_value e \<noteq> 0, keyed, ctcss, dcs)
     else if ev_kind e = event_kind_code EventReceiverKeyed then (carrier, subaudible, ev_value e \<noteq> 0, ctcss, dcs)
     else if ev_kind e = event_kind_code EventCtcssDecode then (carrier, subaudible, keyed, ev_value e, dcs)
     else if ev_kind e = event_kind_code EventDcsDecode then (carrier, subaudible, keyed, ctcss, ev_value e \<noteq> 0)
     else (carrier, subaudible, keyed, ctcss, dcs))"

lemma receive_edges_replay:
  "fold replay (List.map (stamped g i) (receive_edges worker out keyed detected)) (rx_indications worker) =
     (qo_carrier_active out, qo_subaudible_active out, keyed, pr_ctcss_decoded detected, pr_dcs_valid detected)"
  by (simp add: receive_edges_def stamped_def replay_def rx_indications_def of_flag_def)

lemma length_receive_edges: "length (receive_edges worker out keyed detected) \<le> 5"
  by (simp add: receive_edges_def)

text \<open>A span is published when its result states the indications of the worker, and the events it gave,
  as far as they fit the queue, tell how they came about.\<close>

definition receive_published where
  "receive_published session session' r \<longleftrightarrow> result_indications r = rx_indications (ss_receive session') \<and>
     rv_receiver_keyed r \<le> rv_raw_receiver_keyed r \<and>
     (\<exists>events. fold replay events (rx_indications (ss_receive session)) = rx_indications (ss_receive session') \<and>
        length events \<le> 5 \<and>
        (\<forall>e \<in> set events. ev_generation_id e = ss_generation_id session \<and>
          ev_sample_index e = rw_sample_index (ss_receive session')) \<and>
        queue_items (ss_receive_events session') = queue_items (ss_receive_events session) @
          take (EVENT_CAPACITY - length (queue_items (ss_receive_events session))) events)"

definition rx_session_ok where
  "rx_session_ok I session \<longleftrightarrow> rx_ok I (ss_receive session) \<and> queue_wf (ss_receive_events session)"

lemma receive_publish_spec:
  assumes "rx_session_ok I session" and "rw_sample_index (ss_receive session) + count < u64_max"
    and "keyed \<longrightarrow> qo_rx_keyed out"
  obtains session' published where
    "receive_publish session count detected out speech keyed heard = Some (session', published)"
    and "rx_session_ok I session'" and "other_side session' = other_side session"
    and "rx_build (ss_receive session') = rx_build (ss_receive session)"
    and "rw_work_b (ss_receive session') = rw_work_b (ss_receive session)"
    and "rw_sample_index (ss_receive session') = rw_sample_index (ss_receive session) + count"
    and "rw_vad_mode (ss_receive session') = rw_vad_mode (ss_receive session)"
    and "receive_published session session' published"
proof -
  let ?w = "ss_receive session" and ?i = "rw_sample_index (ss_receive session) + count"
  have ok: "rx_ok I ?w" "queue_wf (ss_receive_events session)" using assms(1) by (simp_all add: rx_session_ok_def)
  have i: "saturating_add_u64 (rw_sample_index ?w) count = ?i" using assms(2) by (simp add: saturating_add_u64_def)
  obtain n due where due: "publication_due ?i (rw_next_publication_frame ?w) (rw_publication_interval_frames ?w) = Some (n, due)"
      "n \<le> u64_max"
    using publication_due_ends [OF _ assms(2)] ok(1) by (metis rx_ok_def rx_setup_ok_def)
  let ?v = "?w\<lparr>rw_sample_index := ?i, rw_next_publication_frame := n, rw_previous_carrier := qo_carrier_active out,
     rw_previous_subaudible := qo_subaudible_active out, rw_previous_keyed := keyed,
     rw_previous_ctcss := pr_ctcss_decoded detected, rw_previous_dcs := pr_dcs_valid detected\<rparr>"
  have v: "rx_ok I ?v" using ok(1) due(2) by (simp add: rx_defs)
  have edges: "receive_edges (?w\<lparr>rw_sample_index := j\<rparr>) out keyed detected = receive_edges ?w out keyed detected" for j
    by (simp add: receive_edges_def)
  note q = push_edges_items [OF ok(2), of "ss_generation_id session" ?i "receive_edges ?w out keyed detected"]
  let ?q = "push_edges (ss_generation_id session) ?i (receive_edges ?w out keyed detected) (ss_receive_events session)"
  let ?m = "measure (take count (rw_work_b ?w))"
  let ?s = "session\<lparr>ss_receive := ?v, ss_receive_events := ?q,
    ss_snapshot := receive_snapshot ?v detected out speech keyed heard ?m (ss_snapshot session)\<rparr>"
  let ?r = "receive_result_of ?v (ss_generation_id session) (rw_sample_index ?w) count due detected out speech keyed heard ?m"
  have p: "receive_publish session count detected out speech keyed heard = Some (?s, ?r)"
    using due(1) by (simp add: receive_publish_def Let_def i edges)
  have s: "ss_receive ?s = ?v" "ss_receive_events ?s = ?q" "other_side ?s = other_side session"
    by (simp_all add: other_side_def)
  have v': "rw_work_b ?v = rw_work_b ?w" "rw_sample_index ?v = ?i" "rw_vad_mode ?v = rw_vad_mode ?w" "rx_build ?v = rx_build ?w"
    by (simp_all add: rx_build_def)
  have r: "result_indications ?r = rx_indications ?v" "rv_receiver_keyed ?r \<le> rv_raw_receiver_keyed ?r"
    using assms(3) by (auto simp: receive_result_of_def result_indications_def rx_indications_def of_flag_def)
  let ?e = "List.map (stamped (ss_generation_id session) ?i) (receive_edges ?w out keyed detected)"
  have e: "fold replay ?e (rx_indications ?w) = rx_indications ?v"
    unfolding receive_edges_replay by (simp add: rx_indications_def)
  have n: "length ?e \<le> 5" using length_receive_edges by simp
  have st: "\<forall>e \<in> set ?e. ev_generation_id e = ss_generation_id session \<and> ev_sample_index e = ?i"
    by (auto simp: stamped_def)
  have pub: "receive_published session ?s ?r"
    unfolding receive_published_def s v' by (intro conjI exI [of _ ?e] r e n st q(2))
  have ok': "rx_session_ok I ?s" unfolding rx_session_ok_def s by (intro conjI v q(1))
  show ?thesis by (rule that [OF p ok' s(3)]) (simp_all only: s v' pub)
qed

section \<open>A callback\<close>

lemma receive_provider_failure_spec:
  assumes "rx_session_ok I session"
  obtains session' where "receive_provider_failure session = (session', PROVIDER_FAILED)" and "rx_session_ok I session'"
    and "other_side session' = other_side session" and "rx_build (ss_receive session') = rx_build (ss_receive session)"
    and "rw_sample_index (ss_receive session') = rw_sample_index (ss_receive session)"
proof -
  have ok: "rx_ok I (ss_receive session)" "queue_wf (ss_receive_events session)"
    using assms by (simp_all add: rx_session_ok_def)
  let ?w = "if rw_vad_mode (ss_receive session) \<noteq> 0
    then (ss_receive session)\<lparr>rw_vad_needs_reset := True, rw_delay_valid := 0, rw_delay_index := 0\<rparr> else ss_receive session"
  have "rx_ok I ?w" using ok(1) by (auto simp: rx_defs)
  then show ?thesis
    using that ok(2) push_items(1)
    by (simp add: receive_provider_failure_def provider_failure_def Let_def push_edge_def rx_session_ok_def other_side_def
        rx_build_def)
qed

lemma receive_span_spec:
  assumes "rx_session_ok I session" and "length input = 2 * count" and "0 < count"
    and "count \<le> rw_maximum_frames (ss_receive session)" and "list_all is_finite input"
    and "\<not> dcs_may_fail (rp_dcs_state (rw_detector (ss_receive session)))"
    and "rw_sample_index (ss_receive session) + count < u64_max"
  obtains session' w' status where "receive_span session w input count controls valid = Some ((session', w'), status)"
    and "rx_session_ok I session'" and "other_side session' = other_side session"
    and "rx_build (ss_receive session') = rx_build (ss_receive session)"
    and "case status of
        Inl e \<Rightarrow> e = PROVIDER_FAILED \<and> rw_sample_index (ss_receive session') = rw_sample_index (ss_receive session)
      | Inr (samples, published) \<Rightarrow> length samples = count \<and> list_all is_finite samples \<and>
          rw_sample_index (ss_receive session') = rw_sample_index (ss_receive session) + count \<and>
          receive_published session session' published"
proof -
  have ok: "rx_ok I (ss_receive session)" "queue_wf (ss_receive_events session)"
    using assms(1) by (simp_all add: rx_session_ok_def)
  obtain s1 detected out where i: "receive_indications session input count controls
        (receive_snapshots_valid (ss_receive session) controls valid) = Some (s1, detected, out)"
      "rx_ok I (ss_receive s1)" "other_side s1 = other_side session"
      "rx_clock (ss_receive s1) = rx_clock (ss_receive session)" "ss_receive_events s1 = ss_receive_events session"
    using receive_indications_spec [OF ok(1) assms(2-6)] by metis
  have m: "count \<le> rw_maximum_frames (ss_receive s1)" "rw_sample_index (ss_receive s1) = rw_sample_index (ss_receive session)"
    using i(4) assms(4) by (simp_all add: rx_clock_def rx_indications_def rx_build_def)
  obtain wk w1 r where a: "rx_audio count input detected out (ss_receive s1, w) = ((wk, w1), r)" by (metis prod.exhaust)
  note spec = rx_audio_spec [OF i(2) m(1), of out input detected w, unfolded a]
  have k: "rx_kept I (ss_receive s1) wk" using spec by (cases r) auto
  let ?s2 = "s1\<lparr>ss_receive := wk\<rparr>"
  have s2: "rx_session_ok I ?s2" "other_side ?s2 = other_side session"
      "rw_sample_index (ss_receive ?s2) = rw_sample_index (ss_receive session)"
      "rx_build (ss_receive ?s2) = rx_build (ss_receive session)"
    using rx_keptD(1,2,4,6,7) [OF k] ok(2) i(3-5) m(2)
    by (simp_all add: rx_session_ok_def other_side_def rx_clock_def rx_build_def)
  show ?thesis
  proof (cases r)
    case (Inl e)
    obtain s3 where "receive_provider_failure ?s2 = (s3, PROVIDER_FAILED)" "rx_session_ok I s3"
        "other_side s3 = other_side ?s2" "rx_build (ss_receive s3) = rx_build (ss_receive ?s2)"
        "rw_sample_index (ss_receive s3) = rw_sample_index (ss_receive ?s2)"
      by (rule receive_provider_failure_spec [OF s2(1)])
    then show ?thesis
      using i(1) a Inl s2 by (intro that [of s3 w1 "Inl PROVIDER_FAILED"]) (simp_all add: receive_span_def Let_def)
  next
    case (Inr sk)
    obtain speech keyed where sk: "r = Inr (speech, keyed)" using Inr by (cases sk) auto
    have n: "rw_sample_index (ss_receive ?s2) + count < u64_max" using s2(3) assms(7) by simp
    have raw: "keyed \<longrightarrow> qo_rx_keyed out" using spec sk by simp
    obtain s3 published where p: "receive_publish ?s2 count detected out speech keyed
          (measure_channel input (rw_receive_channel (ss_receive session))) = Some (s3, published)"
        "rx_session_ok I s3" "other_side s3 = other_side ?s2" "rx_build (ss_receive s3) = rx_build (ss_receive ?s2)"
        "rw_work_b (ss_receive s3) = rw_work_b (ss_receive ?s2)"
        "rw_sample_index (ss_receive s3) = rw_sample_index (ss_receive ?s2) + count"
        "receive_published ?s2 s3 published"
      by (rule receive_publish_spec [OF s2(1) n raw])
    have b: "length (take count (rw_work_b wk)) = count" "list_all is_finite (take count (rw_work_b wk))"
      using rx_lengths(3) [OF rx_keptD(1) [OF k]] rx_keptD(2) [OF k] m(1) spec sk by auto
    have "receive_published session s3 published"
      using p(7) rx_keptD(1) [OF k] i(3,4,5) k
      by (simp add: receive_published_def rx_clock_def rx_indications_def rx_build_def rx_kept_def rx_fixed_def other_side_def)
    then show ?thesis
      using i(1) a sk p s2 b
      by (intro that [of s3 w1 "Inr (take count (rw_work_b wk), published)"]) (simp_all add: receive_span_def Let_def)
  qed
qed

lemma receive_inner_spec:
  assumes "rx_session_ok I session" and "\<not> dcs_may_fail (rp_dcs_state (rw_detector (ss_receive session)))"
    and "rw_sample_index (ss_receive session) + frame_count < u64_max"
    and "\<forall>xs. input = Some xs \<longrightarrow> 2 * frame_count \<le> length xs"
  shows "case receive_inner session w input buffer frame_count controls published valid of
      None \<Rightarrow> False
    | Some ((session', w'), output', published', status) \<Rightarrow>
        rx_session_ok I session' \<and> other_side session' = other_side session \<and>
        rx_build (ss_receive session') = rx_build (ss_receive session) \<and>
        (case status of
           Inl e \<Rightarrow> published' = published \<and> (e \<noteq> PROVIDER_FAILED \<longrightarrow> session' = session \<and> w' = w) \<and>
             rw_sample_index (ss_receive session') = rw_sample_index (ss_receive session) \<and>
             output' = (if frame_count = 0 \<or> published = None then buffer else map_option (silenced frame_count) buffer)
         | Inr _ \<Rightarrow> published' \<noteq> None \<and>
             rw_sample_index (ss_receive session') = rw_sample_index (ss_receive session) + frame_count \<and>
             (\<exists>samples out. buffer = Some out \<and> output' = Some (samples @ drop frame_count out) \<and>
                length samples = frame_count \<and> list_all is_finite samples))"
proof (cases "\<exists>out r xs c. buffer = Some out \<and> published = Some r \<and> input = Some xs \<and> controls = Some c \<and> 0 < frame_count")
  case False
  then show ?thesis
    using assms(1) by (cases buffer; cases published; cases input; cases controls) (auto simp: receive_inner_def Let_def)
next
  case True
  then obtain out r xs c where g: "buffer = Some out" "published = Some r" "input = Some xs" "controls = Some c"
    "0 < frame_count" by blast
  let ?in = "take (frame_count * 2) xs"
  have len: "length ?in = 2 * frame_count" using assms(4) g(3) by simp
  show ?thesis
  proof (cases "ss_warmed session \<and> \<not> ss_receive_busy session \<and> frame_count \<le> rw_maximum_frames (ss_receive session) \<and>
      list_all is_finite ?in \<and> \<not> override_bits_unknown c")
    case False
    have "list_ex (\<lambda>sample. \<not> is_finite sample) ?in = (\<not> list_all is_finite ?in)"
      by (auto simp: list_all_iff list_ex_iff)
    with False have "\<exists>e. receive_checked session w ?in frame_count c valid = Some ((session, w), Inl e)"
      by (auto simp: receive_checked_def)
    then show ?thesis using g assms(1) by (auto simp: receive_inner_def Let_def)
  next
    case True
    then have ok: "frame_count \<le> rw_maximum_frames (ss_receive session)" "list_all is_finite ?in" by simp_all
    obtain s' w' status where r: "receive_span session w ?in frame_count c valid = Some ((s', w'), status)"
        "rx_session_ok I s'" "other_side s' = other_side session" "rx_build (ss_receive s') = rx_build (ss_receive session)"
        "case status of
            Inl e \<Rightarrow> e = PROVIDER_FAILED \<and> rw_sample_index (ss_receive s') = rw_sample_index (ss_receive session)
          | Inr (samples, r) \<Rightarrow> length samples = frame_count \<and> list_all is_finite samples \<and>
              rw_sample_index (ss_receive s') = rw_sample_index (ss_receive session) + frame_count \<and>
              receive_published session s' r"
      by (rule receive_span_spec [OF assms(1) len g(5) ok assms(2,3)])
    have "receive_checked session w ?in frame_count c valid = Some ((s', w'), status)"
      using True r(1) by (auto simp: receive_checked_def list_all_iff list_ex_iff)
    then show ?thesis
      using g r(2-5) by (cases status) (auto simp: receive_inner_def silenced_def write_span_def Let_def)
  qed
qed

text \<open>C1: the receive callback is total and fails silent.  From an accepted worker whose DCS provider cannot
  fail and whose clock is not at its end, the call returns: it does not panic and no loop of it runs
  on.  It keeps the invariant, the configuration
  and everything of the session that is the transmitter's.  On an error
  the span of the output is silence (it is untouched only when there is nothing to write to), the result
  is not written, the clock does not move, and unless a borrowed provider failed nothing at all has
  changed.  On success the span holds finite samples and the clock moves by the span.\<close>

theorem receive_total:
  assumes "rx_session_ok I session" and "\<not> dcs_may_fail (rp_dcs_state (rw_detector (ss_receive session)))"
    and "rw_sample_index (ss_receive session) + frame_count < u64_max"
    and "\<forall>xs. input = Some xs \<longrightarrow> 2 * frame_count \<le> length xs"
  shows "case receive_inner session w input buffer frame_count controls published valid of
      None \<Rightarrow> False
    | Some ((session', w'), output', published', status) \<Rightarrow>
        rx_session_ok I session' \<and> other_side session' = other_side session \<and>
        rx_build (ss_receive session') = rx_build (ss_receive session) \<and>
        (case status of
           Inl e \<Rightarrow> published' = published \<and> (e \<noteq> PROVIDER_FAILED \<longrightarrow> session' = session \<and> w' = w) \<and>
             rw_sample_index (ss_receive session') = rw_sample_index (ss_receive session) \<and>
             output' = (if frame_count = 0 \<or> published = None then buffer else map_option (silenced frame_count) buffer)
         | Inr _ \<Rightarrow> published' \<noteq> None \<and>
             rw_sample_index (ss_receive session') = rw_sample_index (ss_receive session) + frame_count \<and>
             (\<exists>samples out. buffer = Some out \<and> output' = Some (samples @ drop frame_count out) \<and>
                length samples = frame_count \<and> list_all is_finite samples))"
  by (rule receive_inner_spec [OF assms])

lemma rx_session_ok_sample: "rx_session_ok (\<lambda>_. True) (session_sample s)"
proof -
  have p: "processor_sized (processor_port_default :: unit processor_port)"
    by (simp add: processor_sized_def processor_port_default_def)
  have ports: "receive_ports_sized ports_sample"
    by (simp add: receive_ports_sized_def ports_sample_def p list_all_iff)
  have "rx_ok (\<lambda>_. True) rx_worker_sample"
    using ports path_ok_sample path_sample_simps(1)
    by (simp add: rx_ok_def rx_setup_ok_def rx_buffers_ok_def rx_vad_ok_def rx_worker_sample_def receive_worker_of_def
        config_sample_def session_config_sample_def session_ports_sample_def effective_vad_mode_def
        receive_config_default_def create_delay_frames_def u64_max_def vad_ok_def vad_sample_def policy_new_def
        policy_ok_def Let_def)
  then show ?thesis using queue_wf_new(1) by (simp add: rx_session_ok_def)
qed

lemma session_sample_dcs: "\<not> dcs_may_fail (rp_dcs_state (rw_detector (ss_receive (session_sample s))))"
  using path_sample_simps(5) by (simp add: dcs_may_fail_def)

text \<open>The sample session receives a quiet frame.\<close>

lemma select_notch_sample: "select_notch ports_sample d tail = None"
  by (auto simp: select_notch_def ports_sample_def processor_port_default_def Let_def split: option.splits)

lemma ports_sample_absent:
  "po_receive_deemphasis ports_sample = processor_port_default" "po_receive_filter ports_sample = processor_port_default"
  "po_receive_noise_reduction ports_sample = processor_port_default"
  "po_receive_dynamics ports_sample = processor_port_default"
  by (simp_all add: ports_sample_def)

definition quiet_worker :: "(unit, 's, 'r, 'd, 'h, 'n) receive_worker \<Rightarrow> bool" where
  "quiet_worker worker \<longleftrightarrow> rw_ports worker = ports_sample \<and> rw_delay worker = [] \<and> rw_vad_mode worker = 0 \<and>
     \<not> rw_per_sample_noise_gate worker \<and> \<not> rw_cpu_saver_enabled worker \<and> rw_input_gain worker = Finite False 1 \<and>
     rw_receive_channel worker = 0"

lemma gain_of_zero: "fp_mul binary32 fp_zero (Finite False 1) = fp_zero"
  by code_simp

abbreviation quiet_frame where "quiet_frame xs \<equiv> take 1 xs = [fp_zero]"

lemma quiet_write: "quiet_frame (write_span 0 [fp_zero] b)"
  by (simp add: take_write_span)

lemma absent_zero: "run_processor processor_port_default [fp_zero] b w = ((w, [fp_zero]), Inr ())"
  by (rule run_processor_absent) (simp add: fp_zero_def)

lemma rx_plain_quiet:
  assumes "quiet_worker worker"
  shows "\<exists>worker'. rx_plain_programme 1 [fp_zero, fp_zero] carrier (worker, ()) = ((worker', ()), Inr ()) \<and>
    quiet_frame (rw_work_a worker') \<and> quiet_worker worker'"
proof -
  note d = assms[unfolded quiet_worker_def]
  let ?u = "worker\<lparr>rw_delay := [], rw_input_mono := write_span 0 [fp_zero] (rw_input_mono worker)\<rparr>"
  let ?v = "?u\<lparr>rw_work_a := write_span 0 [fp_zero] (rw_work_a worker)\<rparr>"
  let ?g = "rx_gate 1 carrier ?v"
  have heard: "captured_channel 0 1 [fp_zero, fp_zero] = [fp_zero]" by (simp add: captured_channel_def)
  have delayed: "step_samples plain_delay_step ([], i) [fp_zero] = (([], i), [fp_zero])" for i
    by (simp add: plain_delay_step_def)
  have deemphasis: "rx_deemphasis 1 (?u, ()) = ((?v, ()), Inr ())"
    using d by (simp add: rx_deemphasis_def ports_sample_absent quiet_write [simplified] absent_zero Let_def)
  have gate: "quiet_frame (rw_work_a ?g)" "quiet_worker ?g"
    using d quiet_write by (simp_all add: rx_gate_def quiet_worker_def)
  let ?w = "?g\<lparr>rw_work_a := write_span 0 [fp_zero] (rw_work_a ?g)\<rparr>"
  have gain: "map (\<lambda>x. fp_mul binary32 x (rw_input_gain ?g)) (take 1 (rw_work_a ?g)) = [fp_zero]"
    using gate by (simp add: quiet_worker_def gain_of_zero)
  have "rx_plain_programme 1 [fp_zero, fp_zero] carrier (worker, ()) = ((?w, ()), Inr ())"
    using d heard delayed deemphasis gain by (simp add: rx_plain_programme_def run_bind_def Let_def)
  moreover have "quiet_worker ?w" using gate(2) by (simp add: quiet_worker_def)
  ultimately show ?thesis using quiet_write by auto
qed

lemma rx_audio_quiet:
  assumes "quiet_worker worker"
  shows "\<exists>worker'. rx_audio 1 [fp_zero, fp_zero] detected out (worker, ()) =
    ((worker', ()), Inr (vad_decision_default, qo_rx_keyed out))"
proof -
  obtain p where p: "rx_plain_programme 1 [fp_zero, fp_zero] (qo_carrier_active out) (worker, ()) = ((p, ()), Inr ())"
      "quiet_frame (rw_work_a p)" "quiet_worker p"
    using rx_plain_quiet [OF assms] by blast
  note d = p(3)[unfolded quiet_worker_def]
  let ?f = "p\<lparr>rw_work_b := write_span 0 [fp_zero] (rw_work_b p),
    rw_work_c := write_span 0 (take 1 (rw_work_c p)) (rw_work_c p)\<rparr>"
  have f: "rx_filters 1 detected (p, ()) = ((?f, ()), Inr False)"
    using d p(2) by (simp add: rx_filters_def run_receive_filters_def ports_sample_absent absent_zero
        select_notch_sample Let_def)
  have v: "\<exists>w. rx_process_voice 1 False (?f, ()) = ((w, ()), Inr ())"
    using d quiet_write
    by (simp add: rx_process_voice_def run_optional_processor_def bypass_port_def ports_sample_absent absent_zero
        processor_port_default_def [THEN arg_cong [where f = pp_process_f32], simplified]
        processor_port_default_def [THEN arg_cong [where f = pp_bypass], simplified] Let_def)
  show ?thesis
    using v assms d
    by (auto simp: rx_audio_def rx_programme_def run_bind_def p(1) f quiet_worker_def simp del: One_nat_def)
qed

lemma quiet_worker_sample: "quiet_worker rx_worker_sample"
  by (simp add: quiet_worker_def rx_worker_sample_def receive_worker_of_def config_sample_def session_config_sample_def
      session_ports_sample_def effective_vad_mode_def receive_config_default_def create_delay_frames_def
      tone_gate_sample_def Let_def)

lemma session_sample_receives:
  "\<exists>session' buffer' r. receive_inner (session_sample s) () (Some [fp_zero, fp_zero]) (Some [fp_zero]) 1
      (Some rx_controls_sample) (Some receive_result_default) True = Some ((session', ()), Some buffer', Some r, Inr ())"
proof -
  let ?s = "session_sample s" and ?in = "[fp_zero, fp_zero]"
  have ok: "rx_ok (\<lambda>_. True) (ss_receive ?s)" using rx_session_ok_sample [of s] by (simp add: rx_session_ok_def)
  have fin: "list_all is_finite ?in" by (simp add: fp_zero_def)
  let ?valid = "receive_snapshots_valid (ss_receive ?s) rx_controls_sample True"
  have len: "length ?in = 2 * 1" "(0 :: nat) < 1" "1 \<le> rw_maximum_frames (ss_receive ?s)" by simp_all
  obtain s1 detected out where i: "receive_indications ?s ?in 1 rx_controls_sample ?valid = Some (s1, detected, out)"
      "rx_ok (\<lambda>_. True) (ss_receive s1)" "rx_clock (ss_receive s1) = rx_clock (ss_receive ?s)"
      "ss_receive_events s1 = ss_receive_events ?s"
    using receive_indications_spec [OF ok len fin session_sample_dcs, of rx_controls_sample ?valid] by metis
  have "quiet_worker (ss_receive s1)"
    using quiet_worker_sample i(3) by (simp add: quiet_worker_def rx_clock_def)
  then obtain wk where a: "rx_audio 1 ?in detected out (ss_receive s1, ()) =
      ((wk, ()), Inr (vad_decision_default, qo_rx_keyed out))"
    using rx_audio_quiet by blast
  have k: "rx_kept (\<lambda>_. True) (ss_receive s1) wk"
    using rx_audio_spec [OF i(2), of 1 out ?in detected "()", unfolded a] i(3) by (simp add: rx_clock_def)
  let ?s2 = "s1\<lparr>ss_receive := wk\<rparr>"
  have s2: "rx_session_ok (\<lambda>_. True) ?s2" using rx_keptD(1) [OF k] i(4) queue_wf_new(1) by (simp add: rx_session_ok_def)
  have n: "rw_sample_index (ss_receive ?s2) + 1 < u64_max"
    using rx_keptD(4) [OF k] i(3) by (simp add: rx_clock_def u64_max_def)
  obtain s3 r where "receive_publish ?s2 1 detected out vad_decision_default (qo_rx_keyed out)
      (measure_channel ?in (rw_receive_channel (ss_receive ?s))) = Some (s3, r)"
    by (rule receive_publish_spec [OF s2 n, of "qo_rx_keyed out" out]) auto
  then have "receive_span ?s () ?in 1 rx_controls_sample True = Some ((s3, ()), Inr (take 1 (rw_work_b wk), r))"
    using i(1) a by (simp add: receive_span_def Let_def del: One_nat_def)
  moreover have "\<not> override_bits_unknown rx_controls_sample"
    by (simp add: override_bits_unknown_def rx_controls_sample_def)
  ultimately show ?thesis
    using fin len(3)
    by (simp add: receive_inner_def receive_checked_def list_all_iff list_ex_iff Let_def del: One_nat_def)
qed

theorem receive_total_witness:
  "\<exists>session' buffer' r. receive_inner (session_sample ts_keyed) () (Some [fp_zero, fp_zero]) (Some [fp_zero]) 1
      (Some rx_controls_sample) (Some receive_result_default) True = Some ((session', ()), Some buffer', Some r, Inr ()) \<and>
    rx_session_ok (\<lambda>_. True) session' \<and> rw_sample_index (ss_receive session') = 1 \<and> length buffer' = 1"
proof -
  obtain session' buffer' r where run: "receive_inner (session_sample ts_keyed) () (Some [fp_zero, fp_zero])
      (Some [fp_zero]) 1 (Some rx_controls_sample) (Some receive_result_default) True =
      Some ((session', ()), Some buffer', Some r, Inr ())"
    using session_sample_receives by blast
  from receive_total [OF rx_session_ok_sample session_sample_dcs, where s1 = ts_keyed and frame_count = 1
      and input = "Some [fp_zero, fp_zero]" and w = "()" and buffer = "Some [fp_zero]"
      and controls = "Some rx_controls_sample" and published = "Some receive_result_default" and valid = True] run
  show ?thesis by (auto simp: u64_max_def)
qed

text \<open>C7: the events of the receive queue tell the indications.  A successful callback queues, in order and
  stamped with the generation and the clock after the span, events that take the indications of the
  last result to those of the new one, as many as the queue has room for (at most five are needed).  The
  receiver is reported keyed only when it is raw-keyed.\<close>

theorem receive_events_replay:
  assumes "rx_session_ok I session" and "\<not> dcs_may_fail (rp_dcs_state (rw_detector (ss_receive session)))"
    and "rw_sample_index (ss_receive session) + frame_count < u64_max"
    and "\<forall>xs. input = Some xs \<longrightarrow> 2 * frame_count \<le> length xs"
    and "receive_inner session w input buffer frame_count controls published valid =
      Some ((session', w'), buffer', Some r, Inr ())"
  shows "receive_published session session' r"
proof -
  have "\<exists>out xs c. input = Some xs \<and> controls = Some c \<and> 0 < frame_count \<and>
      receive_checked session w (take (frame_count * 2) xs) frame_count c valid = Some ((session', w'), Inr (out, r))"
    using assms(5)
    by (auto simp: receive_inner_def Let_def bind_eq_Some_conv split: option.splits sum.splits if_splits)
      (metis obj_sumE surj_pair)
  then obtain out xs c where g: "input = Some xs" "controls = Some c" "0 < frame_count"
    "receive_checked session w (take (frame_count * 2) xs) frame_count c valid = Some ((session', w'), Inr (out, r))" by blast
  then have ok: "frame_count \<le> rw_maximum_frames (ss_receive session)" "list_all is_finite (take (frame_count * 2) xs)"
    "receive_span session w (take (frame_count * 2) xs) frame_count c valid = Some ((session', w'), Inr (out, r))"
    by (auto simp: receive_checked_def list_all_iff list_ex_iff split: if_splits)
  have len: "length (take (frame_count * 2) xs) = 2 * frame_count" using assms(4) g(1) by simp
  show ?thesis
    by (rule receive_span_spec [OF assms(1) len g(3) ok(1,2) assms(2,3), of w c valid]) (use ok(3) in auto)
qed

theorem receive_events_replay_witness:
  "\<exists>session' buffer' r. receive_inner (session_sample ts_keyed) () (Some [fp_zero, fp_zero]) (Some [fp_zero]) 1
      (Some rx_controls_sample) (Some receive_result_default) True = Some ((session', ()), Some buffer', Some r, Inr ()) \<and>
    receive_published (session_sample ts_keyed) session' r"
proof -
  obtain session' buffer' r where run: "receive_inner (session_sample ts_keyed) () (Some [fp_zero, fp_zero])
      (Some [fp_zero]) 1 (Some rx_controls_sample) (Some receive_result_default) True =
      Some ((session', ()), Some buffer', Some r, Inr ())"
    using session_sample_receives by blast
  have "receive_published (session_sample ts_keyed) session' r"
    by (rule receive_events_replay [OF rx_session_ok_sample session_sample_dcs _ _ run]) (simp_all add: u64_max_def)
  with run show ?thesis by blast
qed

text \<open>C40: a failing DCS provider ends the process.  On a checked span with the DCS decoder enabled, a
  provider that reports failure makes the callback panic instead of returning the provider error: no
  failure is counted, no event is queued and the caller gets no status.\<close>

theorem receive_dcs_failure_aborts:
  assumes "rx_ok I (ss_receive session)" and "dcs_fails (rp_dcs_state (rw_detector (ss_receive session)))"
    and "0 < frame_count" and "frame_count \<le> rw_maximum_frames (ss_receive session)"
    and "ss_warmed session" and "\<not> ss_receive_busy session" and "\<not> override_bits_unknown controls"
    and "length input = 2 * frame_count" and "list_all is_finite input"
  shows "receive_inner session w (Some input) (Some buffer) frame_count (Some controls) (Some published) valid = None"
proof -
  let ?s = "take_blanking session"
  note b = take_blanking_spec [OF assms(1)]
  have m: "frame_count \<le> rw_maximum_frames (ss_receive ?s)" using b(3) assms(4) by (simp add: rx_clock_def)
  note d = detector_span [OF b(1) assms(8,3) m assms(9)]
  have "receive_detect (ss_receive ?s) input controls q = None" for q
  proof -
    let ?c = "external_carrier (qc_carrier_source q) (ri_hardware_carrier controls \<noteq> 0)
      (ri_parallel_carrier controls \<noteq> 0) (external_cor controls)"
    obtain p' where "path_span (rw_detector (ss_receive ?s)) input ?c = Some (p', Inl PROVIDER_FAILED)"
      using path_span_dcs_fails [OF d(1,2), of ?c] assms(2) b(4) by auto
    then show ?thesis by (simp add: receive_detect_def d(3))
  qed
  then have "receive_span session w input frame_count controls valid = None"
    by (simp add: receive_span_def receive_indications_def Let_def)
  then show ?thesis
    using assms(3-9) by (auto simp: receive_inner_def receive_checked_def list_all_iff list_ex_iff Let_def)
qed


text \<open>A detector whose DCS provider always fails.\<close>

definition dcs_broken :: "unit dcs_receive" where
  "dcs_broken = dcs_off\<lparr>dr_enabled := (\<lambda>h. 1), dr_process := (\<lambda>h samples. (h, 0, 1))\<rparr>"

theorem receive_dcs_failure_aborts_witness:
  "receive_inner ((session_sample ts_keyed)\<lparr>ss_receive := rx_worker_sample\<lparr>rw_detector :=
      path_sample\<lparr>rp_dcs_state := dcs_broken\<rparr>\<rparr>\<rparr>) () (Some [fp_zero, fp_zero]) (Some [fp_zero]) 1
    (Some rx_controls_sample) (Some receive_result_default) True = None"
proof -
  let ?w = "rx_worker_sample\<lparr>rw_detector := path_sample\<lparr>rp_dcs_state := dcs_broken\<rparr>\<rparr>"
  have "rx_ok (\<lambda>_. True) rx_worker_sample" using rx_session_ok_sample [of ts_keyed] by (simp add: rx_session_ok_def)
  then have "rx_ok (\<lambda>_. True) ?w"
    by (rule rx_detector_write) (use path_ok_sample in \<open>simp_all add: path_ok_def\<close>)
  moreover have "dcs_fails dcs_broken" by (simp add: dcs_fails_def dcs_enabled_def dcs_broken_def)
  moreover have "\<not> override_bits_unknown rx_controls_sample"
    by (simp add: override_bits_unknown_def rx_controls_sample_def)
  ultimately show ?thesis
    using receive_dcs_failure_aborts [of "\<lambda>_. True" "(session_sample ts_keyed)\<lparr>ss_receive := ?w\<rparr>" 1
        rx_controls_sample "[fp_zero, fp_zero]" "()" "[fp_zero]" receive_result_default True]
    by (simp add: fp_zero_def)
qed

end
