(* ===== verification/Session_Transmit_Properties.thy ===== *)
theory Session_Transmit_Properties
  imports Session_Runs
begin

text \<open>
  The transmit callback as a whole: the invariant under which it returns, keeps its buffers and fails
  silent, and when its output is silent.
\<close>

section \<open>The invariant of the transmit worker\<close>

text \<open>What the session relies on: the program ring, the CTCSS and the DCS generator give the frames they are
  asked for.\<close>

definition ring_sized :: "'w ring_port \<Rightarrow> bool" where
  "ring_sized port \<longleftrightarrow> (\<forall>render context out result w. prg_render_f32 port = Some render \<longrightarrow>
     length (fst (snd (render context out result w))) = length out)"

definition ctcss_tx_sized :: "'t ctcss_transmit \<Rightarrow> bool" where
  "ctcss_tx_sized c \<longleftrightarrow> (\<forall>h frames frequency peak on shift.
     length (snd (ct_generate c h frames frequency peak on shift)) = frames)"

definition dcs_tx_sized :: "'u dcs_transmit \<Rightarrow> bool" where
  "dcs_tx_sized c \<longleftrightarrow> (\<forall>h frames peak on turnoff. length (snd (fst (dt_generate c h frames peak on turnoff))) = frames)"

definition tx_setup_ok :: "('w, 't, 'u) transmit_worker \<Rightarrow> bool" where
  "tx_setup_ok worker \<longleftrightarrow> list_all processor_sized [po_transmit_program (tw_ports worker),
     po_transmit_dcs_normal_filter (tw_ports worker), po_transmit_dcs_turnoff_filter (tw_ports worker)] \<and>
     config_ok (fst (tw_signaling worker)) \<and> ts_wf (fst (tw_signaling worker)) (snd (tw_signaling worker)) \<and>
     tw_maximum_frames worker \<le> u32_max \<and> 0 < tw_publication_interval_frames worker \<and>
     tw_next_publication_frame worker \<le> u64_max \<and> ctcss_tx_sized (tw_ctcss_tx worker) \<and> dcs_tx_sized (tw_dcs worker)"

definition tx_buffers_ok :: "('w, 't, 'u) transmit_worker \<Rightarrow> bool" where
  "tx_buffers_ok worker \<longleftrightarrow>
     (\<forall>b \<in> {tw_program worker, tw_processed worker, tw_ctcss worker, tw_dcs_normal_raw worker,
         tw_dcs_normal_filtered worker, tw_dcs_turnoff_raw worker, tw_dcs_turnoff_filtered worker}.
        length b = tw_maximum_frames worker) \<and>
     length (tw_active worker) = tw_maximum_frames worker"

definition tx_ok :: "('w, 't, 'u) transmit_worker \<Rightarrow> bool" where
  "tx_ok worker \<longleftrightarrow> tx_setup_ok worker \<and> tx_buffers_ok worker"

definition tx_fixed where
  "tx_fixed worker = (tw_ports worker, tw_signaling worker, tw_maximum_frames worker,
     tw_publication_interval_frames worker, tw_next_publication_frame worker, tw_sample_index worker)"

definition tx_kept :: "('w, 't, 'u) transmit_worker \<Rightarrow> ('w, 't, 'u) transmit_worker \<Rightarrow> bool" where
  "tx_kept worker worker' \<longleftrightarrow> tx_ok worker' \<and> tx_fixed worker' = tx_fixed worker"

lemma tx_kept_refl: "tx_ok worker \<Longrightarrow> tx_kept worker worker"
  by (simp add: tx_kept_def)

lemma tx_kept_trans: "tx_kept a b \<Longrightarrow> tx_kept b c \<Longrightarrow> tx_kept a c"
  by (simp add: tx_kept_def)

lemma tx_keptD:
  assumes "tx_kept worker worker'"
  shows "tx_ok worker'" and "tw_maximum_frames worker' = tw_maximum_frames worker"
    and "tw_ports worker' = tw_ports worker" and "tw_sample_index worker' = tw_sample_index worker"
    and "tw_publication_interval_frames worker' = tw_publication_interval_frames worker"
    and "tw_next_publication_frame worker' = tw_next_publication_frame worker"
    and "tw_signaling worker' = tw_signaling worker"
  using assms by (simp_all add: tx_kept_def tx_fixed_def)

lemmas tx_defs = tx_kept_def tx_ok_def tx_setup_ok_def tx_buffers_ok_def tx_fixed_def

lemma tx_writes:
  assumes "tx_ok worker" and "start + length xs \<le> tw_maximum_frames worker"
  shows "tx_kept worker (worker\<lparr>tw_program := write_span start xs (tw_program worker)\<rparr>)"
    and "tx_kept worker (worker\<lparr>tw_processed := write_span start xs (tw_processed worker)\<rparr>)"
    and "tx_kept worker (worker\<lparr>tw_ctcss := write_span start xs (tw_ctcss worker)\<rparr>)"
    and "tx_kept worker (worker\<lparr>tw_dcs_normal_raw := write_span start xs (tw_dcs_normal_raw worker)\<rparr>)"
    and "tx_kept worker (worker\<lparr>tw_dcs_normal_filtered := write_span start xs (tw_dcs_normal_filtered worker)\<rparr>)"
    and "tx_kept worker (worker\<lparr>tw_dcs_turnoff_raw := write_span start xs (tw_dcs_turnoff_raw worker)\<rparr>)"
    and "tx_kept worker (worker\<lparr>tw_dcs_turnoff_filtered := write_span start xs (tw_dcs_turnoff_filtered worker)\<rparr>)"
  using assms by (simp_all add: tx_defs length_write_span)

lemma tx_provider_writes:
  assumes "tx_ok worker"
  shows "ctcss_tx_sized c \<Longrightarrow> tx_kept worker (worker\<lparr>tw_ctcss_tx := c\<rparr>)"
    and "dcs_tx_sized d \<Longrightarrow> tx_kept worker (worker\<lparr>tw_dcs := d\<rparr>)"
    and "tx_kept worker (worker\<lparr>tw_test_tone := t\<rparr>)"
  using assms by (simp_all add: tx_defs)

lemma tx_sized:
  assumes "tx_ok worker"
  shows "processor_sized (po_transmit_program (tw_ports worker))"
    "processor_sized (po_transmit_dcs_normal_filter (tw_ports worker))"
    "processor_sized (po_transmit_dcs_turnoff_filter (tw_ports worker))"
  using assms by (simp_all add: tx_ok_def tx_setup_ok_def)

lemma tx_lengths:
  assumes "tx_ok worker" and "count \<le> tw_maximum_frames worker"
  shows "length (take count (tw_program worker)) = count" "length (take count (tw_processed worker)) = count"
    "length (take count (tw_dcs_normal_raw worker)) = count" "length (take count (tw_dcs_normal_filtered worker)) = count"
    "length (take count (tw_dcs_turnoff_raw worker)) = count"
    "length (take count (tw_dcs_turnoff_filtered worker)) = count"
  using assms by (simp_all add: tx_ok_def tx_buffers_ok_def)

abbreviation tx_fails where
  "tx_fails worker \<equiv> (\<lambda>(worker', w') (e :: radio_error). tx_kept worker worker')"

section \<open>The programme\<close>

lemma render_ring_spec:
  assumes "ring_sized port"
  shows "run_spec (\<lambda>(w', audio, result') _. length audio = length out) (\<lambda>(w', audio, result') e. length audio = length out)
    (render_ring port out result w)"
proof (cases "prg_render_f32 port")
  case None
  then show ?thesis by (simp add: render_ring_def)
next
  case (Some render)
  obtain w' audio result' v where r: "render (prg_context port) (replicate (length out) fp_zero) result w = (w', audio, result', v)"
    by (metis prod_cases4)
  moreover have "length audio = length out"
    using assms Some r unfolding ring_sized_def by (metis fst_conv snd_conv length_replicate)
  ultimately show ?thesis using Some by (simp add: render_ring_def)
qed

lemma tx_programme_spec:
  assumes "tx_ok worker" and "count \<le> tw_maximum_frames worker" and "ring_sized port"
  shows "run_spec (\<lambda>(worker', w') _. tx_kept worker worker') (tx_fails worker) (tx_programme port count (worker, w))"
proof -
  obtain w1 program ring r1 where r1: "render_ring port (take count (tw_program worker)) ring_result_default w =
      ((w1, program, ring), r1)" by (metis prod.exhaust)
  have p: "length program = count"
    using render_ring_spec [OF assms(3), of "take count (tw_program worker)" ring_result_default w, unfolded r1]
      tx_lengths(1) [OF assms(1,2)] by (cases r1) simp_all
  let ?p = "worker\<lparr>tw_program := write_span 0 program (tw_program worker)\<rparr>"
  have k: "tx_kept worker ?p" by (rule tx_writes(1) [OF assms(1)]) (use p assms(2) in simp)
  show ?thesis
  proof (cases r1)
    case (Inl e)
    then show ?thesis using r1 k by (simp add: tx_programme_def)
  next
    case (Inr u)
    obtain w2 audio r2 where r2: "run_processor (po_transmit_program (tw_ports worker)) (take count (tw_program ?p))
        (take count (tw_processed worker)) w1 = ((w2, audio), r2)" by (metis prod.exhaust)
    have len: "length (take count (tw_program ?p)) = length (take count (tw_processed worker))"
      using tx_lengths [OF assms(1,2)] p by (simp add: take_write_span)
    have "length audio = count"
      using run_processor_spec [OF tx_sized(1) [OF assms(1)] len, of w1, unfolded r2] tx_lengths(2) [OF assms(1,2)]
      by (cases r2) simp_all
    then have "tx_kept worker (?p\<lparr>tw_processed := write_span 0 audio (tw_processed ?p)\<rparr>)"
      by (intro tx_kept_trans [OF k tx_writes(2) [OF tx_keptD(1) [OF k]]]) (use tx_keptD(2) [OF k] assms(2) in simp)
    then show ?thesis
      using r1 r2 Inr by (cases r2) (simp_all add: tx_programme_def)
  qed
qed

lemma length_tone_render:
  "n \<le> length program \<Longrightarrow> length (snd (tone_render sine s program n on)) = length program"
  by (simp add: tone_render_def case_prod_beta Let_def)

lemma tx_test_tone_kept:
  assumes "tx_ok worker" and "count \<le> tw_maximum_frames worker"
  shows "tx_kept worker (tx_test_tone sine count on worker)"
proof -
  obtain s audio where t: "tone_render sine (tw_test_tone worker) (tw_processed worker) count on = (s, audio)" by fastforce
  have "length (tw_processed worker) = tw_maximum_frames worker" using assms(1) by (simp add: tx_ok_def tx_buffers_ok_def)
  then have "length audio = tw_maximum_frames worker"
    using length_tone_render [of count "tw_processed worker" sine "tw_test_tone worker" on] t assms(2) by simp
  then show ?thesis using assms(1) t by (simp add: tx_test_tone_def tx_defs)
qed

section \<open>The signaling of a callback\<close>

text \<open>The spans of a callback lie within it.\<close>

definition spans_within :: "nat \<Rightarrow> render_span list \<Rightarrow> bool" where
  "spans_within count spans \<longleftrightarrow> (\<forall>sp \<in> set spans. rs_frame_offset sp + rs_frame_count sp \<le> count)"

lemma tiles_within: "tiles a spans b \<Longrightarrow> spans_within b spans"
proof (induction spans arbitrary: a)
  case Nil
  then show ?case by (simp add: spans_within_def)
next
  case (Cons sp spans)
  then have "tiles (a + rs_frame_count sp) spans b" "rs_frame_offset sp = a" by simp_all
  with Cons.IH show ?case using tiles_bound by (fastforce simp: spans_within_def)
qed

lemma tx_tick_spec:
  assumes "tx_ok worker" and "count \<le> tw_maximum_frames worker"
  shows "tx_tick count controls ring worker = (worker, Inl INVALID_ARGUMENT) \<or>
    (\<exists>s' signaling. tick (fst (tw_signaling worker)) (snd (tw_signaling worker)) (tick_input count controls ring) =
        Inr (s', signaling) \<and>
      tx_tick count controls ring worker = (worker\<lparr>tw_signaling := (fst (tw_signaling worker), s')\<rparr>, Inr signaling) \<and>
      tx_ok (worker\<lparr>tw_signaling := (fst (tw_signaling worker), s')\<rparr>) \<and>
      spans_within count (tso_render_spans signaling))"
proof -
  let ?c = "fst (tw_signaling worker)" and ?s = "snd (tw_signaling worker)" and ?i = "tick_input count controls ring"
  have ok: "config_ok ?c" "ts_wf ?c ?s" "count \<le> u32_max"
    using assms by (simp_all add: tx_ok_def tx_setup_ok_def)
  have n: "tsi_native_frame_count ?i = count" by (simp add: tick_input_def)
  have kept: "ts_wf ?c s' \<Longrightarrow> tx_ok (worker\<lparr>tw_signaling := (?c, s')\<rparr>)" for s'
    using assms(1) by (simp add: tx_defs)
  show ?thesis
  proof (cases "tick_input_rejected ?i")
    case True
    then show ?thesis by (simp add: tx_tick_def tick_def)
  next
    case ok_input: False
    show ?thesis
    proof (cases "tsi_tx_render_admitted ?i")
      case True
      then obtain s' out where t: "tick ?c ?s ?i = Inr (s', out)" "ts_wf ?c s'" "tiles 0 (tso_render_spans out) count"
        using tick_result [OF ok(1,2) ok_input] ok(3) n by auto
      then show ?thesis using kept tiles_within by (auto simp: tx_tick_def)
    next
      case False
      then show ?thesis
        using kept ts_wf_receive_side [OF ok(2), of ?i] tick_held [OF ok_input False]
        by (simp add: tx_tick_def spans_within_def output_from_state_def)
    qed
  qed
qed

section \<open>Waveforms\<close>

lemma silenced_kept:
  assumes "tx_ok worker" and "count \<le> tw_maximum_frames worker"
  shows "tx_kept worker (worker\<lparr>tw_ctcss := silenced count (tw_ctcss worker)\<rparr>)"
    and "tx_kept worker (worker\<lparr>tw_dcs_normal_raw := silenced count (tw_dcs_normal_raw worker),
      tw_dcs_turnoff_raw := silenced count (tw_dcs_turnoff_raw worker)\<rparr>)"
  using assms by (simp_all add: tx_defs silenced_def length_write_span)

lemma render_ctcss_span_kept:
  assumes "tx_ok worker" and "rs_frame_offset sp + rs_frame_count sp \<le> tw_maximum_frames worker"
  shows "tx_kept worker (render_ctcss_span worker sp)"
proof -
  obtain c xs where g: "ctcss_generate (tw_ctcss_tx worker) (rs_frame_count sp) (span_frequency (tw_ctcss_tx worker) sp)
      (tw_ctcss_peak worker) (of_flag (rs_logical_ptt sp \<and> crs_enabled (rs_ctcss_render sp) \<noteq> 0))
      (crs_phase_shift_degrees (rs_ctcss_render sp)) = (c, xs)" by fastforce
  have "ctcss_tx_sized (tw_ctcss_tx worker)" using assms(1) by (simp add: tx_ok_def tx_setup_ok_def)
  then have c: "ctcss_tx_sized c" "length xs = rs_frame_count sp"
    using g unfolding ctcss_generate_def ctcss_tx_sized_def by (auto split: prod.splits) (metis snd_conv)
  have k: "tx_kept worker (worker\<lparr>tw_ctcss_tx := c\<rparr>)" by (rule tx_provider_writes(1) [OF assms(1) c(1)])
  have "tx_kept worker (worker\<lparr>tw_ctcss_tx := c, tw_ctcss := write_span (rs_frame_offset sp) xs (tw_ctcss worker)\<rparr>)"
    using tx_kept_trans [OF k tx_writes(3) [OF tx_keptD(1) [OF k], of "rs_frame_offset sp" xs]] c(2) assms(2) by simp
  then show ?thesis using g by (simp add: render_ctcss_span_def)
qed

lemma render_ctcss_spans_kept:
  assumes "tx_ok worker" and "spans_within (tw_maximum_frames worker) spans"
  shows "tx_kept worker (foldl render_ctcss_span worker spans)"
  using assms
proof (induction spans arbitrary: worker)
  case Nil
  then show ?case by (simp add: tx_kept_refl)
next
  case (Cons sp spans)
  have k: "tx_kept worker (render_ctcss_span worker sp)"
    by (rule render_ctcss_span_kept) (use Cons.prems in \<open>simp_all add: spans_within_def\<close>)
  have "tx_kept (render_ctcss_span worker sp) (foldl render_ctcss_span (render_ctcss_span worker sp) spans)"
    by (rule Cons.IH) (use Cons.prems(2) tx_keptD(1,2) [OF k] in \<open>simp_all add: spans_within_def\<close>)
  with tx_kept_trans [OF k] show ?case by simp
qed

lemma render_dcs_span_spec:
  assumes "tx_ok worker" and "rs_frame_offset sp + rs_frame_count sp \<le> tw_maximum_frames worker"
  shows "run_spec (\<lambda>worker' _. tx_kept worker worker') (\<lambda>worker' _. tx_kept worker worker') (render_dcs_span worker sp)"
proof -
  obtain d xs r where g: "dcs_generate (tw_dcs worker) (rs_frame_count sp) (tw_dcs_peak worker)
      (of_flag (rs_logical_ptt sp \<and> tw_dcs_enabled worker)) (of_flag (rs_dcs_turnoff_active sp)) = ((d, xs), r)"
    by (metis prod.exhaust)
  have "dcs_tx_sized (tw_dcs worker)" using assms(1) by (simp add: tx_ok_def tx_setup_ok_def)
  then have d: "dcs_tx_sized d" "length xs = rs_frame_count sp"
    using g unfolding dcs_generate_def dcs_tx_sized_def by (auto split: prod.splits) (metis fst_conv snd_conv)
  have k: "tx_kept worker (worker\<lparr>tw_dcs := d\<rparr>)" by (rule tx_provider_writes(2) [OF assms(1) d(1)])
  note w = tx_kept_trans [OF k tx_writes(4) [OF tx_keptD(1) [OF k], of "rs_frame_offset sp" xs]]
    tx_kept_trans [OF k tx_writes(6) [OF tx_keptD(1) [OF k], of "rs_frame_offset sp" xs]]
  show ?thesis using w g d(2) assms(2) by (cases r) (simp_all add: render_dcs_span_def Let_def)
qed

lemma render_dcs_spans_spec:
  assumes "tx_ok worker" and "spans_within (tw_maximum_frames worker) spans"
  shows "run_spec (\<lambda>worker' _. tx_kept worker worker') (\<lambda>worker' _. tx_kept worker worker')
    (render_dcs_spans worker spans)"
  using assms
proof (induction spans arbitrary: worker)
  case Nil
  then show ?case by (simp add: tx_kept_refl)
next
  case (Cons sp spans)
  obtain v r where v: "render_dcs_span worker sp = (v, r)" by fastforce
  have k: "tx_kept worker v"
    using render_dcs_span_spec [of worker sp] Cons.prems v by (cases r) (simp_all add: spans_within_def)
  have "run_spec (\<lambda>worker' _. tx_kept v worker') (\<lambda>worker' _. tx_kept v worker') (render_dcs_spans v spans)"
    by (rule Cons.IH) (use Cons.prems(2) tx_keptD(1,2) [OF k] in \<open>simp_all add: spans_within_def\<close>)
  then have "run_spec (\<lambda>worker' _. tx_kept worker worker') (\<lambda>worker' _. tx_kept worker worker') (render_dcs_spans v spans)"
    by (rule run_spec_mono) (use tx_kept_trans [OF k] in auto)
  then show ?case using v k by (cases r) simp_all
qed

lemma tx_dcs_filters_spec:
  assumes "tx_ok worker" and "count \<le> tw_maximum_frames worker"
  shows "run_spec (\<lambda>(worker', w') _. tx_kept worker worker') (tx_fails worker) (tx_dcs_filters count (worker, w))"
proof -
  note len = tx_lengths [OF assms]
  obtain w1 xs r1 where r1: "run_processor (po_transmit_dcs_normal_filter (tw_ports worker))
      (take count (tw_dcs_normal_raw worker)) (take count (tw_dcs_normal_filtered worker)) w = ((w1, xs), r1)"
    by (metis prod.exhaust)
  have "length (take count (tw_dcs_normal_raw worker)) = length (take count (tw_dcs_normal_filtered worker))"
    using len by simp
  from run_processor_spec [OF tx_sized(2) [OF assms(1)] this, of w, unfolded r1]
  have xs: "length xs = count" using len by (cases r1) simp_all
  let ?p = "worker\<lparr>tw_dcs_normal_filtered := write_span 0 xs (tw_dcs_normal_filtered worker)\<rparr>"
  have k: "tx_kept worker ?p" by (rule tx_writes(5) [OF assms(1)]) (use xs assms(2) in simp)
  show ?thesis
  proof (cases r1)
    case (Inl e)
    then show ?thesis using r1 k by (simp add: tx_dcs_filters_def)
  next
    case (Inr u)
    obtain w2 ys r2 where r2: "run_processor (po_transmit_dcs_turnoff_filter (tw_ports worker))
        (take count (tw_dcs_turnoff_raw worker)) (take count (tw_dcs_turnoff_filtered worker)) w1 = ((w2, ys), r2)"
      by (metis prod.exhaust)
    have "length (take count (tw_dcs_turnoff_raw worker)) = length (take count (tw_dcs_turnoff_filtered worker))"
      using len by simp
    from run_processor_spec [OF tx_sized(3) [OF assms(1)] this, of w1, unfolded r2]
    have "length ys = count" using len by (cases r2) simp_all
    then have "tx_kept worker (?p\<lparr>tw_dcs_turnoff_filtered := write_span 0 ys (tw_dcs_turnoff_filtered ?p)\<rparr>)"
      by (intro tx_kept_trans [OF k tx_writes(7) [OF tx_keptD(1) [OF k]]]) (use tx_keptD(2) [OF k] assms(2) in simp)
    then show ?thesis using r1 r2 Inr by (cases r2) (simp_all add: tx_dcs_filters_def)
  qed
qed

lemma tx_waveforms_spec:
  assumes "tx_ok worker" and "count \<le> tw_maximum_frames worker" and "spans_within count (tso_render_spans signaling)"
  shows "run_spec (\<lambda>(worker', w') _. tx_kept worker worker') (tx_fails worker)
    (tx_waveforms profile signaling count (worker, w))"
proof -
  have spans: "spans_within (tw_maximum_frames worker) (tso_render_spans signaling)"
    using assms(2,3) by (force simp: spans_within_def)
  let ?v = "if external_encoder profile then worker\<lparr>tw_ctcss := silenced count (tw_ctcss worker)\<rparr>
    else render_ctcss worker signaling count"
  note q = silenced_kept(1) [OF assms(1,2)]
  have "tx_kept (worker\<lparr>tw_ctcss := silenced count (tw_ctcss worker)\<rparr>) (render_ctcss worker signaling count)"
    unfolding render_ctcss_def by (rule render_ctcss_spans_kept) (use tx_keptD(1) [OF q] spans in simp_all)
  then have v: "tx_kept worker ?v" using q tx_kept_trans by auto
  let ?q = "?v\<lparr>tw_dcs_normal_raw := silenced count (tw_dcs_normal_raw ?v),
    tw_dcs_turnoff_raw := silenced count (tw_dcs_turnoff_raw ?v)\<rparr>"
  have count: "count \<le> tw_maximum_frames ?v" using tx_keptD(2) [OF v] assms(2) by simp
  have q: "tx_kept worker ?q" by (rule tx_kept_trans [OF v silenced_kept(2) [OF tx_keptD(1) [OF v] count]])
  obtain d r where d: "render_dcs ?v signaling count = (d, r)" by fastforce
  have "run_spec (\<lambda>worker' _. tx_kept ?q worker') (\<lambda>worker' _. tx_kept ?q worker') (render_dcs ?v signaling count)"
    unfolding render_dcs_def
    by (rule render_dcs_spans_spec [OF tx_keptD(1) [OF q]]) (use tx_keptD(2) [OF q] spans in simp)
  then have k: "tx_kept worker d" using tx_kept_trans [OF q] by (cases r) (simp_all add: d)
  have c: "count \<le> tw_maximum_frames d" using tx_keptD(2) [OF k] assms(2) by simp
  have f: "run_spec (\<lambda>(worker', w') _. tx_kept worker worker') (tx_fails worker) (tx_dcs_filters count (d, w))"
    by (rule run_spec_mono [OF tx_dcs_filters_spec [OF tx_keptD(1) [OF k] c]]) (use tx_kept_trans [OF k] in auto)
  have "tx_waveforms profile signaling count (worker, w) =
      (case r of Inl e \<Rightarrow> ((d, w), Inl e) | Inr _ \<Rightarrow> tx_dcs_filters count (d, w))"
    by (simp add: tx_waveforms_def Let_def d)
  then show ?thesis using k f by (cases r) simp_all
qed

section \<open>Output\<close>

lemma nth_write_span:
  assumes "start + length xs \<le> length b" and "i < length b"
  shows "write_span start xs b ! i = (if start \<le> i \<and> i < start + length xs then xs ! (i - start) else b ! i)"
  using assms by (auto simp: write_span_def nth_append min_def)

definition keyed_at :: "render_span list \<Rightarrow> nat \<Rightarrow> bool" where
  "keyed_at spans i \<longleftrightarrow> (\<exists>sp \<in> set spans. rs_logical_ptt sp \<and> rs_frame_offset sp \<le> i \<and>
     i < rs_frame_offset sp + rs_frame_count sp)"

definition mark_span :: "nat list \<Rightarrow> render_span \<Rightarrow> nat list" where
  "mark_span active sp = (if rs_logical_ptt sp
     then write_span (rs_frame_offset sp) (replicate (rs_frame_count sp) 1) active else active)"

lemma mark_active_fold: "mark_active count spans active = foldl mark_span (write_span 0 (replicate count 0) active) spans"
  by (simp add: mark_active_def mark_span_def [abs_def])

lemma length_mark_span:
  "rs_frame_offset sp + rs_frame_count sp \<le> length active \<Longrightarrow> length (mark_span active sp) = length active"
  by (simp add: mark_span_def length_write_span)

lemma mark_spans:
  assumes "spans_within (length active) spans"
  shows "length (foldl mark_span active spans) = length active \<and> (\<forall>i < length active.
    foldl mark_span active spans ! i \<noteq> 0 \<longleftrightarrow> active ! i \<noteq> 0 \<or> keyed_at spans i)"
  using assms
proof (induction spans arbitrary: active)
  case Nil
  then show ?case by (simp add: keyed_at_def)
next
  case (Cons sp spans)
  have sp: "rs_frame_offset sp + rs_frame_count sp \<le> length active" "spans_within (length active) spans"
    using Cons.prems by (simp_all add: spans_within_def)
  have "mark_span active sp ! i \<noteq> 0 \<longleftrightarrow> active ! i \<noteq> 0 \<or> (rs_logical_ptt sp \<and> rs_frame_offset sp \<le> i \<and>
      i < rs_frame_offset sp + rs_frame_count sp)" if "i < length active" for i
    using sp(1) that by (auto simp: mark_span_def nth_write_span)
  then show ?case using Cons.IH [of "mark_span active sp"] sp(2) length_mark_span [OF sp(1)] by (auto simp: keyed_at_def)
qed

lemma mark_active_spec:
  assumes "spans_within count spans" and "count \<le> length active"
  shows "length (mark_active count spans active) = length active"
    and "i < count \<Longrightarrow> mark_active count spans active ! i \<noteq> 0 \<longleftrightarrow> keyed_at spans i"
proof -
  let ?a = "write_span 0 (replicate count 0) active"
  have len: "length ?a = length active" using assms(2) by (simp add: length_write_span)
  have "spans_within (length ?a) spans" using assms len by (force simp: spans_within_def)
  note m = mark_spans [OF this, folded mark_active_fold]
  show "length (mark_active count spans active) = length active" using m len by simp
  show "i < count \<Longrightarrow> mark_active count spans active ! i \<noteq> 0 \<longleftrightarrow> keyed_at spans i"
    using m len assms(2) nth_write_span [of 0 "replicate count 0" active i] by simp
qed

text \<open>A sample within full scale; a NaN passes the clamp.\<close>

definition in_rails :: "f32 \<Rightarrow> bool" where
  "in_rails x \<longleftrightarrow> is_nan x \<or> is_finite x \<and> \<bar>fp_value x\<bar> \<le> 1"

lemma full_scale: "fp_of_int binary32 (-1) = Finite True 1" "fp_of_int binary32 1 = Finite False 1"
  by code_simp+

lemma clamp_in_rails: "in_rails (fp_clamp x (Finite True 1) (Finite False 1))"
  by (cases x) (auto simp: fp_clamp_def in_rails_def signed_def Let_def split: if_splits)

lemma output_frame_in_rails: "list_all in_rails (output_frame worker i)"
  by (simp add: output_frame_def route_sample_def full_scale clamp_in_rails Let_def)

lemma output_frames_Suc:
  "output_frames worker (Suc n) = output_frames worker n @
     (if tw_active worker ! n = 0 then [fp_zero, fp_zero] else output_frame worker n)"
  by (simp add: output_frames_def)

lemma output_frames_spec:
  "length (output_frames worker count) = 2 * count \<and> list_all in_rails (output_frames worker count) \<and>
   (\<forall>i < count. tw_active worker ! i = 0 \<longrightarrow>
      output_frames worker count ! (2 * i) = fp_zero \<and> output_frames worker count ! (2 * i + 1) = fp_zero)"
proof (induction count)
  case 0
  then show ?case by (simp add: output_frames_def)
next
  case (Suc n)
  have z: "in_rails fp_zero" by (simp add: in_rails_def fp_zero_def signed_def)
  have "length (output_frame worker n) = 2" by (simp add: output_frame_def Let_def)
  then show ?case
    using Suc z output_frame_in_rails [of worker n] by (auto simp: output_frames_Suc nth_append less_Suc_eq)
qed

section \<open>A callback\<close>

definition tx_session_ok where
  "tx_session_ok session \<longleftrightarrow> tx_ok (ss_transmit session) \<and> ring_sized (ss_program_ring session) \<and>
     queue_wf (ss_transmit_events session)"

text \<open>What a transmit callback leaves alone in the session.\<close>

definition tx_untouched where
  "tx_untouched session = (ss_profile session, ss_generation_id session, ss_maximum_frames session,
     ss_program_ring session, ss_receive session, ss_receive_busy session, ss_transmit_busy session,
     ss_warmed session, ss_receive_events session, tw_maximum_frames (ss_transmit session),
     fst (tw_signaling (ss_transmit session)))"

text \<open>A failure is one event of the transmitter, at the clock before the span.\<close>

definition transmit_fault where
  "transmit_fault session session' \<longleftrightarrow>
     queue_items (ss_transmit_events session') = queue_items (ss_transmit_events session) @
       take (EVENT_CAPACITY - length (queue_items (ss_transmit_events session)))
         [stamped (ss_generation_id session) (tw_sample_index (ss_transmit session)) (EventProviderFailure, 1)]"

lemma transmit_failure_spec:
  assumes "tx_session_ok session" and "tx_ok worker" and "tw_sample_index worker = tw_sample_index (ss_transmit session)"
    and "tw_maximum_frames worker = tw_maximum_frames (ss_transmit session)"
    and "fst (tw_signaling worker) = fst (tw_signaling (ss_transmit session))"
  shows "\<exists>session'. transmit_failure session (worker, w) = ((session', w), Inl PROVIDER_FAILED) \<and> tx_session_ok session' \<and>
    tx_untouched session' = tx_untouched session \<and> ss_shared session' = ss_shared session \<and>
    transmit_fault session session' \<and>
    tw_sample_index (ss_transmit session') = tw_sample_index (ss_transmit session)"
proof -
  let ?i = "tw_sample_index (ss_transmit session)" and ?g = "ss_generation_id session"
  have q: "queue_wf (ss_transmit_events session)" using assms(1) by (simp add: tx_session_ok_def)
  note e = push_edges_items [OF q, of ?g ?i "[(EventProviderFailure, 1)]", unfolded push_edges_def]
  show ?thesis
    using assms e
    by (simp add: transmit_failure_def provider_failure_def tx_session_ok_def tx_untouched_def transmit_fault_def Let_def)
qed

text \<open>A span is published when its signaling is what the state machine gives, the output carries nothing
  outside the spans with logical PTT and stays within full scale, and PTT is reported to the caller, the
  receiver and the events.\<close>

definition transmit_published where
  "transmit_published session session' count controls samples r \<longleftrightarrow> (\<exists>ring s' signaling.
     tick (fst (tw_signaling (ss_transmit session))) (snd (tw_signaling (ss_transmit session)))
       (tick_input count controls ring) = Inr (s', signaling) \<and>
     tw_signaling (ss_transmit session') = (fst (tw_signaling (ss_transmit session)), s') \<and>
     length samples = 2 * count \<and> list_all in_rails samples \<and>
     (\<forall>i < count. \<not> keyed_at (tso_render_spans signaling) i \<longrightarrow>
        samples ! (2 * i) = fp_zero \<and> samples ! (2 * i + 1) = fp_zero) \<and>
     tv_logical_ptt r = of_flag (tso_logical_ptt signaling) \<and>
     sh_logical_ptt (ss_shared session') = tso_logical_ptt signaling \<and>
     sh_receiver_blanking_ms (ss_shared session') = (case tso_receiver_blanking_arm signaling of
       None \<Rightarrow> sh_receiver_blanking_ms (ss_shared session) | Some duration_ms \<Rightarrow> duration_ms) \<and>
     queue_items (ss_transmit_events session') = queue_items (ss_transmit_events session) @
       take (EVENT_CAPACITY - length (queue_items (ss_transmit_events session)))
         (List.map (stamped (ss_generation_id session) (tw_sample_index (ss_transmit session) + count))
           (transmit_edges signaling)))"

lemma transmit_publish_spec:
  assumes "tx_session_ok session" and "tw_sample_index (ss_transmit session) + count < u64_max"
  shows "\<exists>session' r. transmit_publish session count signaling ring program samples = Some (session', r) \<and>
    tx_session_ok session' \<and> tx_untouched session' = tx_untouched session \<and>
    tw_sample_index (ss_transmit session') = tw_sample_index (ss_transmit session) + count \<and>
    tw_signaling (ss_transmit session') = tw_signaling (ss_transmit session) \<and>
    tv_logical_ptt r = of_flag (tso_logical_ptt signaling) \<and>
    sh_logical_ptt (ss_shared session') = tso_logical_ptt signaling \<and>
    sh_receiver_blanking_ms (ss_shared session') = (case tso_receiver_blanking_arm signaling of
      None \<Rightarrow> sh_receiver_blanking_ms (ss_shared session) | Some duration_ms \<Rightarrow> duration_ms) \<and>
    queue_items (ss_transmit_events session') = queue_items (ss_transmit_events session) @
      take (EVENT_CAPACITY - length (queue_items (ss_transmit_events session)))
        (List.map (stamped (ss_generation_id session) (tw_sample_index (ss_transmit session) + count))
          (transmit_edges signaling))"
proof -
  let ?w = "ss_transmit session" and ?i = "tw_sample_index (ss_transmit session) + count"
  have ok: "tx_ok ?w" "queue_wf (ss_transmit_events session)" "ring_sized (ss_program_ring session)"
    using assms(1) by (simp_all add: tx_session_ok_def)
  have i: "saturating_add_u64 (tw_sample_index ?w) count = ?i" using assms(2) by (simp add: saturating_add_u64_def)
  obtain n due where due: "publication_due ?i (tw_next_publication_frame ?w) (tw_publication_interval_frames ?w) = Some (n, due)"
      "n \<le> u64_max"
    using publication_due_ends [OF _ assms(2)] ok(1) by (metis tx_ok_def tx_setup_ok_def)
  let ?v = "?w\<lparr>tw_sample_index := ?i, tw_next_publication_frame := n\<rparr>"
  let ?q = "push_edges (ss_generation_id session) ?i (transmit_edges signaling) (ss_transmit_events session)"
  let ?s = "session\<lparr>ss_transmit := ?v, ss_transmit_events := ?q, ss_shared := transmit_shared signaling (ss_shared session),
    ss_snapshot := transmit_snapshot ?i signaling (rr_observation ring) program (measure samples) (ss_snapshot session)\<rparr>"
  let ?r = "transmit_result_of (ss_generation_id session) (tw_sample_index ?w) count due signaling (rr_observation ring)
    program (measure samples)"
  have p: "transmit_publish session count signaling ring program samples = Some (?s, ?r)"
    using due(1) by (simp add: transmit_publish_def Let_def i)
  have v: "tx_ok ?v" using ok(1) due(2) by (simp add: tx_defs)
  note q = push_edges_items [OF ok(2), of "ss_generation_id session" ?i "transmit_edges signaling"]
  have "tv_logical_ptt ?r = of_flag (tso_logical_ptt signaling)" by (simp add: transmit_result_of_def)
  moreover have "sh_logical_ptt (ss_shared ?s) = tso_logical_ptt signaling"
    by (simp add: transmit_shared_def)
  moreover have "sh_receiver_blanking_ms (ss_shared ?s) = (case tso_receiver_blanking_arm signaling of
      None \<Rightarrow> sh_receiver_blanking_ms (ss_shared session) | Some duration_ms \<Rightarrow> duration_ms)"
    by (simp add: transmit_shared_def split: option.split)
  moreover have "tx_session_ok ?s" using v q(1) ok(3) by (simp add: tx_session_ok_def)
  moreover have "tx_untouched ?s = tx_untouched session" by (simp add: tx_untouched_def)
  ultimately show ?thesis
    using q(2) by (intro exI [of _ ?s] exI [of _ ?r]) (simp add: p)
qed

lemma transmit_emitted:
  assumes "tx_session_ok session" and "tw_sample_index (ss_transmit session) + count < u64_max"
    and "tx_ok worker" and "count \<le> tw_maximum_frames worker" and "spans_within count (tso_render_spans signaling)"
    and "tw_sample_index worker = tw_sample_index (ss_transmit session)"
    and "tw_maximum_frames worker = tw_maximum_frames (ss_transmit session)"
    and "tw_signaling worker = (fst (tw_signaling (ss_transmit session)), s')"
    and "tick (fst (tw_signaling (ss_transmit session))) (snd (tw_signaling (ss_transmit session)))
      (tick_input count controls ring) = Inr (s', signaling)"
  defines "emitter \<equiv> worker\<lparr>tw_active := mark_active count (tso_render_spans signaling) (tw_active worker)\<rparr>"
  shows "\<exists>session' r. transmit_publish (session\<lparr>ss_transmit := emitter\<rparr>) count signaling ring program
      (output_frames emitter count) = Some (session', r) \<and> tx_session_ok session' \<and>
    tx_untouched session' = tx_untouched session \<and>
    tw_sample_index (ss_transmit session') = tw_sample_index (ss_transmit session) + count \<and>
    transmit_published session session' count controls (output_frames emitter count) r"
proof -
  have "count \<le> length (tw_active worker)" using assms(3,4) by (simp add: tx_ok_def tx_buffers_ok_def)
  note m = mark_active_spec [OF assms(5) this]
  have e: "tx_ok emitter" "tw_sample_index emitter = tw_sample_index (ss_transmit session)"
    "tw_signaling emitter = tw_signaling worker"
    "tw_maximum_frames emitter = tw_maximum_frames (ss_transmit session)"
    using assms(3,6,7) m(1) by (simp_all add: emitter_def tx_defs)
  let ?s = "session\<lparr>ss_transmit := emitter\<rparr>" and ?x = "output_frames emitter count"
  have sok: "tx_session_ok ?s" using e assms(1) by (simp add: tx_session_ok_def)
  have n: "tw_sample_index (ss_transmit ?s) + count < u64_max" using e assms(2) by simp
  obtain s3 r where pub: "transmit_publish ?s count signaling ring program ?x = Some (s3, r)"
      "tx_session_ok s3" "tx_untouched s3 = tx_untouched ?s"
      "tw_sample_index (ss_transmit s3) = tw_sample_index (ss_transmit ?s) + count"
      "tw_signaling (ss_transmit s3) = tw_signaling (ss_transmit ?s)"
      "tv_logical_ptt r = of_flag (tso_logical_ptt signaling)"
      "sh_logical_ptt (ss_shared s3) = tso_logical_ptt signaling"
      "sh_receiver_blanking_ms (ss_shared s3) = (case tso_receiver_blanking_arm signaling of
        None \<Rightarrow> sh_receiver_blanking_ms (ss_shared ?s) | Some duration_ms \<Rightarrow> duration_ms)"
      "queue_items (ss_transmit_events s3) = queue_items (ss_transmit_events ?s) @
        take (EVENT_CAPACITY - length (queue_items (ss_transmit_events ?s)))
          (List.map (stamped (ss_generation_id ?s) (tw_sample_index (ss_transmit ?s) + count)) (transmit_edges signaling))"
    using transmit_publish_spec [OF sok n] by blast
  have "length ?x = 2 * count \<and> list_all in_rails ?x \<and> (\<forall>i < count. \<not> keyed_at (tso_render_spans signaling) i \<longrightarrow>
      ?x ! (2 * i) = fp_zero \<and> ?x ! (2 * i + 1) = fp_zero)"
    using output_frames_spec [of emitter count] m(2) by (auto simp: emitter_def)
  then have "transmit_published session s3 count controls ?x r"
    unfolding transmit_published_def using assms(8,9) pub e
    by (intro exI [of _ ring] exI [of _ s'] exI [of _ signaling]) (simp split: option.split)
  moreover have "tx_untouched s3 = tx_untouched session" using pub(3) e(3,4) assms(8) by (simp add: tx_untouched_def)
  ultimately show ?thesis using pub(1,2,4) e(2) by auto
qed

type_synonym transmitted = "f32 list \<times> prepared_outputs \<times> transmit_result"

lemma transmit_span_spec:
  assumes "tx_session_ok session" and "0 < count" and "count \<le> tw_maximum_frames (ss_transmit session)"
    and "tw_sample_index (ss_transmit session) + count < u64_max"
  shows "\<exists>session' w' status. transmit_span sine session w count controls = Some ((session', w'), status) \<and>
    tx_session_ok session' \<and> tx_untouched session' = tx_untouched session \<and>
    (case status of
       Inl e \<Rightarrow> e \<in> {PROVIDER_FAILED, INVALID_ARGUMENT} \<and>
         tw_sample_index (ss_transmit session') = tw_sample_index (ss_transmit session) \<and>
         ss_shared session' = ss_shared session \<and>
         (e = PROVIDER_FAILED \<longrightarrow> transmit_fault session session') \<and>
         (e = INVALID_ARGUMENT \<longrightarrow> ss_transmit_events session' = ss_transmit_events session \<and>
            tw_signaling (ss_transmit session') = tw_signaling (ss_transmit session))
     | Inr (samples, prepared, r) \<Rightarrow> transmit_published session session' count controls samples r \<and>
         tw_sample_index (ss_transmit session') = tw_sample_index (ss_transmit session) + count)"
proof -
  let ?w = "ss_transmit session"
  have ok: "tx_ok ?w" "queue_wf (ss_transmit_events session)" "ring_sized (ss_program_ring session)"
    using assms(1) by (simp_all add: tx_session_ok_def)
  obtain w1 e1 r1 where p: "tx_programme (ss_program_ring session) count (?w, w) = ((w1, e1), r1)" by (metis prod.exhaust)
  have k1: "tx_kept ?w w1"
    using tx_programme_spec [OF ok(1) assms(3) ok(3), of w, unfolded p] by (cases r1) auto
  show ?thesis
  proof (cases r1)
    case (Inl e)
    obtain s' where "transmit_failure session (w1, e1) = ((s', e1), Inl PROVIDER_FAILED :: transmitted result)" "tx_session_ok s'"
        "tx_untouched s' = tx_untouched session" "tw_sample_index (ss_transmit s') = tw_sample_index ?w"
        "ss_shared s' = ss_shared session" "transmit_fault session s'"
      using transmit_failure_spec [OF assms(1) tx_keptD(1,4,2) [OF k1], of e1] tx_keptD(7) [OF k1] by auto
    then show ?thesis
      using p Inl by (intro exI [of _ s'] exI [of _ e1] exI [of _ "Inl PROVIDER_FAILED"]) (simp add: transmit_span_def)
  next
    case (Inr ring)
    let ?t = "tx_test_tone sine count (ti_calibrated_test_tone controls) w1"
    have c1: "count \<le> tw_maximum_frames w1" using tx_keptD(2) [OF k1] assms(3) by simp
    have t: "tx_kept ?w ?t" by (rule tx_kept_trans [OF k1 tx_test_tone_kept [OF tx_keptD(1) [OF k1] c1]])
    have ct: "count \<le> tw_maximum_frames ?t" using tx_keptD(2) [OF t] assms(3) by simp
    consider (rejected) "tx_tick count controls ring ?t = (?t, Inl INVALID_ARGUMENT)"
      | (ticked) s' signaling where "tick (fst (tw_signaling ?t)) (snd (tw_signaling ?t)) (tick_input count controls ring) =
            Inr (s', signaling)"
          "tx_tick count controls ring ?t = (?t\<lparr>tw_signaling := (fst (tw_signaling ?t), s')\<rparr>, Inr signaling)"
          "tx_ok (?t\<lparr>tw_signaling := (fst (tw_signaling ?t), s')\<rparr>)" "spans_within count (tso_render_spans signaling)"
      using tx_tick_spec [OF tx_keptD(1) [OF t] ct, of controls ring] by blast
    then show ?thesis
    proof cases
      case rejected
      have "tx_session_ok (session\<lparr>ss_transmit := ?t\<rparr>)" using assms(1) tx_keptD(1) [OF t] by (simp add: tx_session_ok_def)
      then show ?thesis
        using rejected p Inr tx_keptD(2,4,7) [OF t] by (simp add: transmit_span_def tx_untouched_def Let_def)
    next
      case ticked
      let ?u = "?t\<lparr>tw_signaling := (fst (tw_signaling ?t), s')\<rparr>"
      have cu: "count \<le> tw_maximum_frames ?u" using ct by simp
      obtain w2 e2 r2 where v: "tx_waveforms (ss_profile session) signaling count (?u, e1) = ((w2, e2), r2)"
        by (metis prod.exhaust)
      have k2: "tx_kept ?u w2"
        using tx_waveforms_spec [OF ticked(3) cu ticked(4), of "ss_profile session" e1, unfolded v] by (cases r2) auto
      have i2: "tw_sample_index w2 = tw_sample_index ?w" using tx_keptD(4) [OF k2] tx_keptD(4) [OF t] by simp
      have m2: "tw_maximum_frames w2 = tw_maximum_frames ?w" using tx_keptD(2) [OF k2] tx_keptD(2) [OF t] by simp
      show ?thesis
      proof (cases r2)
        case Inl2: (Inl e)
        obtain s3 where "transmit_failure session (w2, e2) = ((s3, e2), Inl PROVIDER_FAILED :: transmitted result)" "tx_session_ok s3"
            "tx_untouched s3 = tx_untouched session" "tw_sample_index (ss_transmit s3) = tw_sample_index ?w"
            "ss_shared s3 = ss_shared session" "transmit_fault session s3"
          using transmit_failure_spec [OF assms(1) tx_keptD(1) [OF k2] i2 m2, of e2] tx_keptD(7) [OF k2] tx_keptD(7) [OF t] by auto
        then show ?thesis
          using p Inr ticked(2) v Inl2 by (intro exI [of _ s3] exI [of _ e2] exI [of _ "Inl PROVIDER_FAILED"])
            (simp add: transmit_span_def Let_def)
      next
        case Inr2: (Inr u)
        let ?a = "w2\<lparr>tw_active := mark_active count (tso_render_spans signaling) (tw_active w2)\<rparr>"
        have c2: "count \<le> tw_maximum_frames w2" using tx_keptD(2) [OF k2] cu by simp
        have sg: "tw_signaling w2 = (fst (tw_signaling ?w), s')"
          "tick (fst (tw_signaling ?w)) (snd (tw_signaling ?w)) (tick_input count controls ring) = Inr (s', signaling)"
          using tx_keptD(7) [OF t] tx_keptD(7) [OF k2] ticked(1) by simp_all
        obtain s3 r where pub: "transmit_publish (session\<lparr>ss_transmit := ?a\<rparr>) count signaling ring
              (measure (take count (tw_processed ?t))) (output_frames ?a count) = Some (s3, r)" "tx_session_ok s3"
            "tx_untouched s3 = tx_untouched session" "tw_sample_index (ss_transmit s3) = tw_sample_index ?w + count"
            "transmit_published session s3 count controls (output_frames ?a count) r"
          using transmit_emitted [OF assms(1,4) tx_keptD(1) [OF k2] c2 ticked(4) i2 m2 sg] by blast
        have "ss_profile s3 = ss_profile session" using pub(3) by (simp add: tx_untouched_def)
        then have "transmit_span sine session w count controls = Some ((s3, e2), Inr (output_frames ?a count,
            prepared_outputs_of (ss_profile session) controls signaling, r))"
          using p Inr ticked(2) v Inr2 pub(1) by (simp add: transmit_span_def Let_def)
        then show ?thesis using pub by auto
      qed
    qed
  qed
qed

lemma transmit_inner_spec:
  assumes "tx_session_ok session" and "tw_sample_index (ss_transmit session) + frame_count < u64_max"
    and "\<forall>xs. buffer = Some xs \<longrightarrow> 2 * frame_count \<le> length xs"
  shows "case transmit_inner sine session w buffer frame_count controls published prepared of
      None \<Rightarrow> False
    | Some ((session', w'), buffer', published', prepared', status) \<Rightarrow>
        tx_session_ok session' \<and> tx_untouched session' = tx_untouched session \<and>
        (case status of
           Inl e \<Rightarrow> published' = published \<and> prepared' = prepared \<and>
             tw_sample_index (ss_transmit session') = tw_sample_index (ss_transmit session) \<and>
             (e \<notin> {PROVIDER_FAILED, INVALID_ARGUMENT} \<longrightarrow> session' = session \<and> w' = w) \<and>
             ss_shared session' = ss_shared session \<and>
             (e = PROVIDER_FAILED \<longrightarrow> transmit_fault session session') \<and>
             (e = INVALID_ARGUMENT \<longrightarrow> ss_transmit_events session' = ss_transmit_events session \<and>
                tw_signaling (ss_transmit session') = tw_signaling (ss_transmit session)) \<and>
             buffer' = (if frame_count = 0 \<or> published = None \<or> controls = None then buffer
               else map_option (silenced (frame_count * 2)) buffer)
         | Inr _ \<Rightarrow> tw_sample_index (ss_transmit session') = tw_sample_index (ss_transmit session) + frame_count \<and>
             (\<exists>samples out r c. controls = Some c \<and> buffer = Some out \<and> buffer' = Some (samples @ drop (2 * frame_count) out) \<and>
                published' = Some r \<and> transmit_published session session' frame_count c samples r))"
proof (cases "\<exists>out r c. buffer = Some out \<and> published = Some r \<and> controls = Some c \<and> 0 < frame_count")
  case False
  then show ?thesis
    using assms(1) by (cases buffer; cases published; cases controls) (auto simp: transmit_inner_def Let_def)
next
  case True
  then obtain out r c where g: "buffer = Some out" "published = Some r" "controls = Some c" "0 < frame_count" by blast
  show ?thesis
  proof (cases "ss_warmed session \<and> \<not> ss_transmit_busy session \<and> frame_count \<le> tw_maximum_frames (ss_transmit session)")
    case False
    then have "\<exists>e. transmit_checked sine session w frame_count c = Some ((session, w), Inl e) \<and> e \<noteq> PROVIDER_FAILED"
      by (auto simp: transmit_checked_def)
    then show ?thesis using g assms(1) by (auto simp: transmit_inner_def Let_def)
  next
    case True
    then have n: "frame_count \<le> tw_maximum_frames (ss_transmit session)" by simp
    obtain s' w' status where t: "transmit_span sine session w frame_count c = Some ((s', w'), status)"
        "tx_session_ok s'" "tx_untouched s' = tx_untouched session"
        "case status of
           Inl e \<Rightarrow> e \<in> {PROVIDER_FAILED, INVALID_ARGUMENT} \<and>
             tw_sample_index (ss_transmit s') = tw_sample_index (ss_transmit session) \<and>
             ss_shared s' = ss_shared session \<and> (e = PROVIDER_FAILED \<longrightarrow> transmit_fault session s') \<and>
             (e = INVALID_ARGUMENT \<longrightarrow> ss_transmit_events s' = ss_transmit_events session \<and>
                tw_signaling (ss_transmit s') = tw_signaling (ss_transmit session))
         | Inr (samples, prepared, r) \<Rightarrow> transmit_published session s' frame_count c samples r \<and>
             tw_sample_index (ss_transmit s') = tw_sample_index (ss_transmit session) + frame_count"
      using transmit_span_spec [OF assms(1) g(4) n assms(2), of sine w c] by blast
    have c: "transmit_checked sine session w frame_count c = Some ((s', w'), status)"
      using True t(1) by (simp add: transmit_checked_def)
    show ?thesis
    proof (cases status)
      case (Inl e)
      then show ?thesis using g t c by (auto simp: transmit_inner_def Let_def)
    next
      case (Inr a)
      obtain samples q v where a: "status = Inr (samples, q, v)" using Inr by (cases a) auto
      then have "length samples = 2 * frame_count" using t(4) by (auto simp: transmit_published_def)
      then have "write_span 0 samples (silenced (frame_count * 2) out) = samples @ drop (2 * frame_count) out"
        by (simp add: silenced_def write_span_def mult.commute)
      then show ?thesis using g t c a by (auto simp: transmit_inner_def Let_def)
    qed
  qed
qed

text \<open>C2: the transmit callback is total and fails silent, and its output follows PTT.  From an accepted
  transmitter whose clock is not at its end the call returns: it does not panic and no loop of it runs
  on.  It keeps the invariant and everything of the session that is the receiver's.  On an error the span
  of the output is silence and no result is written, the clock does not move, and NOT_READY, BUSY and a
  span that is too long change nothing; INVALID_ARGUMENT leaves the signaling and the events as they were, and
  a provider failure is told by one event and nothing else.
  On success the signaling state moves as the state machine gives, every frame outside the spans with
  logical PTT is silent, every sample is within full scale or a NaN, and PTT is told to the caller, the
  receiver and the event queue.\<close>

theorem transmit_total:
  assumes "tx_session_ok session" and "tw_sample_index (ss_transmit session) + frame_count < u64_max"
    and "\<forall>xs. buffer = Some xs \<longrightarrow> 2 * frame_count \<le> length xs"
  shows "case transmit_inner sine session w buffer frame_count controls published prepared of
      None \<Rightarrow> False
    | Some ((session', w'), buffer', published', prepared', status) \<Rightarrow>
        tx_session_ok session' \<and> tx_untouched session' = tx_untouched session \<and>
        (case status of
           Inl e \<Rightarrow> published' = published \<and> prepared' = prepared \<and>
             tw_sample_index (ss_transmit session') = tw_sample_index (ss_transmit session) \<and>
             (e \<notin> {PROVIDER_FAILED, INVALID_ARGUMENT} \<longrightarrow> session' = session \<and> w' = w) \<and>
             ss_shared session' = ss_shared session \<and>
             (e = PROVIDER_FAILED \<longrightarrow> transmit_fault session session') \<and>
             (e = INVALID_ARGUMENT \<longrightarrow> ss_transmit_events session' = ss_transmit_events session \<and>
                tw_signaling (ss_transmit session') = tw_signaling (ss_transmit session)) \<and>
             buffer' = (if frame_count = 0 \<or> published = None \<or> controls = None then buffer
               else map_option (silenced (frame_count * 2)) buffer)
         | Inr _ \<Rightarrow> tw_sample_index (ss_transmit session') = tw_sample_index (ss_transmit session) + frame_count \<and>
             (\<exists>samples out r c. controls = Some c \<and> buffer = Some out \<and> buffer' = Some (samples @ drop (2 * frame_count) out) \<and>
                published' = Some r \<and> transmit_published session session' frame_count c samples r))"
  by (rule transmit_inner_spec [OF assms])

lemma tx_session_ok_sample:
  assumes "ts_wf ts_sample s"
  shows "tx_session_ok (session_sample s)"
proof -
  have p: "processor_sized (processor_port_default :: unit processor_port)"
    by (simp add: processor_sized_def processor_port_default_def)
  have "tx_ok (tx_worker_sample s)"
    using assms ts_sample_ok p
    by (simp add: tx_ok_def tx_setup_ok_def tx_buffers_ok_def tx_worker_sample_def transmit_worker_of_def
        session_ports_sample_def ports_sample_def config_sample_def session_config_sample_def u32_max_def u64_max_def
        ctcss_tx_sized_def ctcss_tx_sample_def dcs_tx_sized_def dcs_tx_sample_def Let_def)
  then show ?thesis using queue_wf_new(1) by (simp add: tx_session_ok_def ring_sized_def ring_port_default_def)
qed

definition tx_controls_sample :: transmit_input where
  "tx_controls_sample = \<lparr>ti_external_ptt_request = 1, ti_physical_ptt_applied = 1, ti_render_admitted = 1,
     ti_ctcss_inhibit = 0, ti_calibrated_test_tone = 0, ti_forced_ctcss_tenths_hz = 0\<rparr>"

theorem transmit_total_witness:
  "\<exists>session' w' buffer' published' prepared' status. transmit_inner (\<lambda>x. x) (session_sample ts_keyed) ()
      (Some (replicate 1920 fp_zero)) 960 (Some tx_controls_sample) (Some transmit_result_default) prepared_outputs_default =
      Some ((session', w'), buffer', published', prepared', status) \<and> tx_session_ok session' \<and>
    tw_sample_index (ss_transmit session') = (case status of Inl _ \<Rightarrow> 0 | Inr _ \<Rightarrow> 960)"
proof -
  let ?call = "transmit_inner (\<lambda>x. x) (session_sample ts_keyed) () (Some (replicate 1920 fp_zero)) 960
    (Some tx_controls_sample) (Some transmit_result_default) prepared_outputs_default"
  have z: "tw_sample_index (tx_worker_sample ts_keyed) = 0" by (simp add: tx_worker_sample_def transmit_worker_of_def Let_def)
  have "tw_sample_index (ss_transmit (session_sample ts_keyed)) + 960 < u64_max" by (simp add: z u64_max_def)
  note t = transmit_total [OF tx_session_ok_sample [OF ts_keyed_wf] this, where buffer = "Some (replicate 1920 fp_zero)"
      and sine = "\<lambda>x. x" and w = "()" and controls = "Some tx_controls_sample" and
      published = "Some transmit_result_default" and prepared = prepared_outputs_default]
  obtain session' w' buffer' published' prepared' status where
    c: "?call = Some ((session', w'), buffer', published', prepared', status)"
    using t by (cases ?call) auto
  then show ?thesis using t z by (cases status) auto
qed

end
