(* ===== verification/Session_Ptt.thy ===== *)
theory Session_Ptt
  imports Session_Transmit_Properties
begin

text \<open>
  What the rest of a session is told of logical PTT (\<open>transmit_inner\<close> in \<open>src/session.rs\<close>): the result, the
  flag and the blanking shared with the receiver, and the transmit events, over consecutive callbacks.  A
  callback that succeeds tells every edge of the signaling machine; one that fails after the machine has
  moved tells none, then or later.
\<close>

section \<open>Edges\<close>

definition machine_ptt :: "('w, 's, 'r, 'd, 'h, 'n, 't, 'u) session \<Rightarrow> bool" where
  "machine_ptt session = ts_logical_ptt (snd (tw_signaling (ss_transmit session)))"

definition blanking_time :: "('w, 's, 'r, 'd, 'h, 'n, 't, 'u) session \<Rightarrow> int" where
  "blanking_time session = tcc_txrx_blanking_time_ms (tsc_tx_complete (fst (tw_signaling (ss_transmit session))))"

text \<open>An owner that reads the transmit events knows PTT from them.\<close>

definition replay_ptt :: "event \<Rightarrow> bool \<Rightarrow> bool" where
  "replay_ptt e ptt = (if ev_kind e = event_kind_code EventPtt then ev_value e \<noteq> 0 else ptt)"

definition ptt_told where
  "ptt_told session session' r \<longleftrightarrow>
     tv_logical_ptt r = of_flag (machine_ptt session') \<and>
     sh_logical_ptt (ss_shared session') = machine_ptt session' \<and>
     sh_receiver_blanking_ms (ss_shared session') = (if machine_ptt session \<and> \<not> machine_ptt session'
       then blanking_time session else sh_receiver_blanking_ms (ss_shared session)) \<and>
     (\<exists>events. fold replay_ptt events (machine_ptt session) = machine_ptt session' \<and>
        (machine_ptt session = machine_ptt session' \<longrightarrow> events = []) \<and> length events \<le> 3 \<and>
        (\<forall>e \<in> set events. ev_generation_id e = ss_generation_id session \<and>
          ev_sample_index e = tw_sample_index (ss_transmit session')) \<and>
        queue_items (ss_transmit_events session') = queue_items (ss_transmit_events session) @
          take (EVENT_CAPACITY - length (queue_items (ss_transmit_events session))) events)"

lemma published_told:
  assumes "tx_session_ok session" and "count \<le> u32_max"
    and "transmit_published session session' count controls samples r"
    and "tw_sample_index (ss_transmit session') = tw_sample_index (ss_transmit session) + count"
  shows "ptt_told session session' r"
proof -
  let ?t = "tw_signaling (ss_transmit session)"
  from assms(3) obtain ring s' signaling where p:
    "tick (fst ?t) (snd ?t) (tick_input count controls ring) = Inr (s', signaling)"
    "tw_signaling (ss_transmit session') = (fst ?t, s')"
    "tv_logical_ptt r = of_flag (tso_logical_ptt signaling)"
    "sh_logical_ptt (ss_shared session') = tso_logical_ptt signaling"
    "sh_receiver_blanking_ms (ss_shared session') = (case tso_receiver_blanking_arm signaling of
       None \<Rightarrow> sh_receiver_blanking_ms (ss_shared session) | Some duration_ms \<Rightarrow> duration_ms)"
    "queue_items (ss_transmit_events session') = queue_items (ss_transmit_events session) @
       take (EVENT_CAPACITY - length (queue_items (ss_transmit_events session)))
         (List.map (stamped (ss_generation_id session) (tw_sample_index (ss_transmit session) + count))
           (transmit_edges signaling))"
    unfolding transmit_published_def by (elim exE conjE) (rule that; assumption)
  have ok: "config_ok (fst ?t)" "ts_wf (fst ?t) (snd ?t)"
    using assms(1) by (simp_all add: tx_session_ok_def tx_ok_def tx_setup_ok_def)
  have n: "tsi_native_frame_count (tick_input count controls ring) \<le> u32_max"
    using assms(2) by (simp add: tick_input_def)
  note e = tick_edge_events [OF ok n p(1)]
  let ?events = "List.map (stamped (ss_generation_id session) (tw_sample_index (ss_transmit session) + count))
    (transmit_edges signaling)"
  have m: "machine_ptt session' = ts_logical_ptt s'" "machine_ptt session = ts_logical_ptt (snd ?t)"
    by (simp_all add: machine_ptt_def p(2))
  have "fold replay_ptt ?events (machine_ptt session) = machine_ptt session'"
    "machine_ptt session = machine_ptt session' \<longrightarrow> ?events = []" "length ?events \<le> 3"
    using e by (auto simp: transmit_edges_def stamped_def replay_ptt_def of_flag_def m)
  moreover have "\<forall>e \<in> set ?events. ev_generation_id e = ss_generation_id session \<and>
      ev_sample_index e = tw_sample_index (ss_transmit session')"
    using assms(4) by (auto simp: stamped_def)
  ultimately have "\<exists>events. fold replay_ptt events (machine_ptt session) = machine_ptt session' \<and>
        (machine_ptt session = machine_ptt session' \<longrightarrow> events = []) \<and> length events \<le> 3 \<and>
        (\<forall>e \<in> set events. ev_generation_id e = ss_generation_id session \<and>
          ev_sample_index e = tw_sample_index (ss_transmit session')) \<and>
        queue_items (ss_transmit_events session') = queue_items (ss_transmit_events session) @
          take (EVENT_CAPACITY - length (queue_items (ss_transmit_events session))) events"
    using p(6) by blast
  then show ?thesis
    using e p(3-5) by (simp add: ptt_told_def m blanking_time_def)
qed

lemma transmit_success:
  assumes "tx_session_ok session" and "tw_sample_index (ss_transmit session) + frame_count < u64_max"
    and "\<forall>xs. buffer = Some xs \<longrightarrow> 2 * frame_count \<le> length xs"
    and "transmit_inner sine session w buffer frame_count controls published prepared =
      Some ((session', w'), buffer', Some r, prepared', Inr ())"
  shows "ptt_told session session' r" and "tx_untouched session' = tx_untouched session" and "tx_session_ok session'"
proof -
  have "frame_count \<le> tw_maximum_frames (ss_transmit session)"
    using assms(4) by (auto simp: transmit_inner_def transmit_checked_def bind_eq_Some_conv Let_def
        split: option.splits sum.splits if_splits) (metis obj_sumE prod_cases3)+
  then have n: "frame_count \<le> u32_max"
    using assms(1) by (simp add: tx_session_ok_def tx_ok_def tx_setup_ok_def)
  have s: "tx_session_ok session'" "tx_untouched session' = tx_untouched session"
    "tw_sample_index (ss_transmit session') = tw_sample_index (ss_transmit session) + frame_count"
    "\<exists>samples c. transmit_published session session' frame_count c samples r"
    using transmit_inner_spec [OF assms(1-3), where sine = sine and w = w and controls = controls and
        published = published and prepared = prepared, unfolded assms(4)] by auto
  then show "ptt_told session session' r" using published_told [OF assms(1) n] by blast
  show "tx_untouched session' = tx_untouched session" "tx_session_ok session'" by (fact s)+
qed

text \<open>The receiver takes a pending blanking as that many milliseconds of frames, once.\<close>

lemma blanking_taken:
  "sh_receiver_blanking_ms (ss_shared (take_blanking session)) = 0"
  "0 < sh_receiver_blanking_ms (ss_shared session) \<Longrightarrow>
     blank_left (rp_blanking (rw_detector (ss_receive (take_blanking session)))) =
       nat (sh_receiver_blanking_ms (ss_shared session)) * 48"
  by (simp_all add: take_blanking_def path_arm_receive_blanking_def arm_blank_left Let_def)

section \<open>Properties\<close>

text \<open>C15: what a successful callback tells of PTT is what the signaling machine did.  The result and the flag
  shared with the receiver are the machine's PTT; the callback queues, in order and stamped with the
  generation and the clock after the span, at most three events, none without an edge, that take an owner
  that replays them from the PTT before to the PTT after, as many as the queue has room for; and exactly a
  release sets the blanking, for the configured time, which the next receive callback takes as that many
  milliseconds of frames, once.\<close>

theorem transmit_edges_told:
  assumes "tx_session_ok session" and "tw_sample_index (ss_transmit session) + frame_count < u64_max"
    and "\<forall>xs. buffer = Some xs \<longrightarrow> 2 * frame_count \<le> length xs"
    and "transmit_inner sine session w buffer frame_count controls published prepared =
      Some ((session', w'), buffer', Some r, prepared', Inr ())"
  shows "ptt_told session session' r \<and> sh_receiver_blanking_ms (ss_shared (take_blanking session')) = 0 \<and>
    (machine_ptt session \<and> \<not> machine_ptt session' \<and> 0 < blanking_time session \<longrightarrow>
       blank_left (rp_blanking (rw_detector (ss_receive (take_blanking session')))) = nat (blanking_time session) * 48)"
  using transmit_success(1) [OF assms] blanking_taken [of session'] by (simp add: ptt_told_def)

text \<open>C16: a release in a callback that fails is never told.  A provider that fails after the signaling
  machine has released PTT makes the callback report the failure and nothing else: the receiver is left with
  PTT on, and the machine is already off.  The next callback that succeeds without a new request finds no
  edge, so that at its end the machine, the result and the shared flag say off, but no event said so and the
  receiver is not blanked, although the transmission did end.\<close>

theorem failed_release_untold:
  assumes "tx_session_ok session" and "tw_sample_index (ss_transmit session) + frame_count < u64_max"
    and "2 * frame_count \<le> length buffer"
    and "transmit_inner sine session w (Some buffer) frame_count (Some controls) (Some published) prepared =
      Some ((failed, w1), buffer1, published1, prepared1, Inl PROVIDER_FAILED)"
    and "machine_ptt session" and "\<not> machine_ptt failed"
    and "tw_sample_index (ss_transmit session) + later_count < u64_max" and "2 * later_count \<le> length later_buffer"
    and "transmit_inner sine failed w2 (Some later_buffer) later_count (Some later_controls) (Some published) prepared =
      Some ((later, w3), buffer2, Some r, prepared2, Inr ())"
    and "\<not> machine_ptt later"
  shows "sh_logical_ptt (ss_shared failed) = sh_logical_ptt (ss_shared session) \<and>
    \<not> sh_logical_ptt (ss_shared later) \<and> tv_logical_ptt r = 0 \<and>
    sh_receiver_blanking_ms (ss_shared later) = sh_receiver_blanking_ms (ss_shared session) \<and>
    (\<exists>events. queue_items (ss_transmit_events later) = queue_items (ss_transmit_events session) @ events \<and>
       length events \<le> 1 \<and> (\<forall>e \<in> set events. ev_kind e = event_kind_code EventProviderFailure))"
proof -
  have b: "\<forall>xs. Some buffer = Some xs \<longrightarrow> 2 * frame_count \<le> length xs" using assms(3) by simp
  have f: "tx_session_ok failed" "tw_sample_index (ss_transmit failed) = tw_sample_index (ss_transmit session)"
    "ss_shared failed = ss_shared session" "transmit_fault session failed"
    using transmit_inner_spec [OF assms(1,2) b, where sine = sine and w = w and controls = "Some controls" and
        published = "Some published" and prepared = prepared, unfolded assms(4)] by auto
  have i: "tw_sample_index (ss_transmit failed) + later_count < u64_max" using assms(7) f(2) by simp
  have b2: "\<forall>xs. Some later_buffer = Some xs \<longrightarrow> 2 * later_count \<le> length xs" using assms(8) by simp
  have t: "ptt_told failed later r" by (rule transmit_success(1) [OF f(1) i b2 assms(9)])
  have "queue_items (ss_transmit_events later) = queue_items (ss_transmit_events failed)"
    using t assms(6,10) by (auto simp: ptt_told_def)
  moreover have "\<exists>events. queue_items (ss_transmit_events failed) = queue_items (ss_transmit_events session) @ events \<and>
       length events \<le> 1 \<and> (\<forall>e \<in> set events. ev_kind e = event_kind_code EventProviderFailure)"
    using f(4) by (auto simp: transmit_fault_def stamped_def dest: in_set_takeD)
  ultimately show ?thesis using t f(3) assms(6,10) by (simp add: ptt_told_def of_flag_def)
qed

text \<open>A transmitter with a filter that refuses spans of one frame.\<close>

definition picky_port :: "nat \<Rightarrow> 'w processor_port" where
  "picky_port n = processor_port_default\<lparr>pp_process_f32 := Some (\<lambda>context input buffer w.
     (w, replicate (length buffer) fp_zero, if length input = n then 1 else 0))\<rparr>"

definition picky_ports :: "unit ports" where
  "picky_ports = ports_sample\<lparr>po_transmit_dcs_normal_filter := picky_port 1, po_transmit_dcs_turnoff_filter := picky_port 0\<rparr>"

definition quiet_tx :: "sample_session \<Rightarrow> bool" where
  "quiet_tx session \<longleftrightarrow> tx_session_ok session \<and> ss_program_ring session = ring_port_default \<and>
     tw_ports (ss_transmit session) = picky_ports \<and> tw_dcs (ss_transmit session) = dcs_tx_sample \<and>
     fst (tw_signaling (ss_transmit session)) = ts_sample \<and> tw_sample_index (ss_transmit session) = 0 \<and>
     tw_maximum_frames (ss_transmit session) = 960 \<and> ss_warmed session \<and> \<not> ss_transmit_busy session \<and>
     ss_profile session = None"

lemma ring_default_sized [simp]: "ring_sized ring_port_default"
  by (simp add: ring_sized_def ring_port_default_def)

lemma picky_run:
  "run_processor (picky_port n) input buffer w =
     ((w, replicate (length buffer) fp_zero), if length input = n then Inl PROVIDER_FAILED else Inr ())"
  by (simp add: run_processor_def picky_port_def processor_port_default_def list_ex_iff fp_zero_def)

lemma dcs_spans_quiet:
  "tw_dcs worker = dcs_tx_sample \<Longrightarrow>
     \<exists>worker'. render_dcs_spans worker spans = (worker', Inr ()) \<and> tw_dcs worker' = dcs_tx_sample"
proof (induction spans arbitrary: worker)
  case (Cons sp spans)
  have "\<exists>v. render_dcs_span worker sp = (v, Inr ()) \<and> tw_dcs v = dcs_tx_sample"
    using Cons.prems by (simp add: render_dcs_span_def dcs_generate_def dcs_tx_sample_def Let_def)
  then show ?case using Cons.IH by auto
qed simp

lemma ctcss_spans_dcs: "tw_dcs (foldl render_ctcss_span worker spans) = tw_dcs worker"
  by (induction spans arbitrary: worker) (simp_all add: render_ctcss_span_def case_prod_beta Let_def)

text \<open>Its waveforms fail on one frame and on nothing else.\<close>

lemma waveforms_quiet:
  fixes worker :: "(unit, unit, unit) transmit_worker"
  assumes "tx_ok worker" and "0 < count" and "count \<le> tw_maximum_frames worker"
    and "spans_within count (tso_render_spans signaling)"
    and "tw_dcs worker = dcs_tx_sample" and "tw_ports worker = picky_ports"
  shows "\<exists>v. tx_waveforms None signaling count (worker, w) =
      ((v, w), if count = 1 then Inl PROVIDER_FAILED else Inr ()) \<and> tw_dcs v = dcs_tx_sample \<and> tx_kept worker v"
proof -
  let ?c = "render_ctcss worker signaling count"
  obtain d where d: "render_dcs ?c signaling count = (d, Inr ())" "tw_dcs d = dcs_tx_sample"
    using dcs_spans_quiet [of "?c\<lparr>tw_dcs_normal_raw := silenced count (tw_dcs_normal_raw ?c),
        tw_dcs_turnoff_raw := silenced count (tw_dcs_turnoff_raw ?c)\<rparr>" "tso_render_spans signaling"] assms(5)
    by (auto simp: render_dcs_def render_ctcss_def ctcss_spans_dcs)
  obtain v w' r where t: "tx_waveforms None signaling count (worker, w) = ((v, w'), r)" by (metis prod.exhaust)
  then have f: "tx_dcs_filters count (d, w) = ((v, w'), r)"
    using d(1) by (simp add: tx_waveforms_def external_encoder_def)
  have k: "tx_kept worker v"
    using tx_waveforms_spec [OF assms(1,3,4), of None w, unfolded t] by (cases r) simp_all
  have s: "spans_within (tw_maximum_frames worker) (tso_render_spans signaling)"
    using assms(3,4) by (force simp: spans_within_def)
  note q = silenced_kept(1) [OF assms(1,3)]
  have "tx_kept worker ?c"
    unfolding render_ctcss_def
    by (rule tx_kept_trans [OF q render_ctcss_spans_kept]) (use tx_keptD(1,2) [OF q] s in simp_all)
  note c = this tx_keptD(1,2) [OF this]
  have n: "count \<le> tw_maximum_frames ?c" using c(3) assms(3) by simp
  note sc = silenced_kept(2) [OF c(2) n]
  have "run_spec (\<lambda>x _. tx_kept ?c x) (\<lambda>x _. tx_kept ?c x) (render_dcs ?c signaling count)"
    unfolding render_dcs_def
    by (rule run_spec_mono [OF render_dcs_spans_spec [OF tx_keptD(1) [OF sc]]])
      (use tx_keptD(2) [OF sc] c(3) s tx_kept_trans [OF sc] in simp_all)
  then have dk: "tx_kept ?c d" by (simp add: d(1))
  have ports: "tw_ports d = picky_ports"
    using tx_keptD(3) [OF dk] tx_keptD(3) [OF c(1)] assms(6) by simp
  have len: "length (take count (tw_dcs_normal_raw d)) = count" "length (take count (tw_dcs_turnoff_raw d)) = count"
    using tx_lengths(3,5) [OF tx_keptD(1) [OF dk]] tx_keptD(2) [OF dk] n by simp_all
  have "w' = w \<and> tw_dcs v = tw_dcs d \<and> r = (if count = 1 then Inl PROVIDER_FAILED else Inr ())"
    using f assms(2) len by (auto simp: tx_dcs_filters_def ports picky_ports_def picky_run Let_def split: if_splits)
  then show ?thesis using t k d(2) by simp
qed

lemma programme_quiet:
  assumes "tx_ok worker" and "count \<le> tw_maximum_frames worker"
    and "po_transmit_program (tw_ports worker) = processor_port_default"
  shows "\<exists>v. tx_programme ring_port_default count (worker, w) = ((v, w), Inr ring_result_default) \<and>
    tx_kept worker v \<and> tw_dcs v = tw_dcs worker"
proof -
  have len: "length (take count (tw_program worker)) = count" using tx_lengths(1) [OF assms(1,2)] .
  have "list_all is_finite (replicate count fp_zero)" by (simp add: fp_zero_def list_all_iff)
  then have "\<exists>v. tx_programme ring_port_default count (worker, w) = ((v, w), Inr ring_result_default) \<and>
      tw_dcs v = tw_dcs worker"
    using len assms(3)
    by (simp add: tx_programme_def render_ring_def ring_port_default_def run_processor_absent take_write_span Let_def)
  then obtain v where v: "tx_programme ring_port_default count (worker, w) = ((v, w), Inr ring_result_default)"
    "tw_dcs v = tw_dcs worker" by blast
  from tx_programme_spec [OF assms(1,2) ring_default_sized, of w, unfolded v(1)] v show ?thesis by simp
qed

definition released_controls :: transmit_input where
  "released_controls = tx_controls_sample\<lparr>ti_external_ptt_request := 0\<rparr>"

lemma released_input:
  "0 < count \<Longrightarrow> \<not> tick_input_rejected (tick_input count released_controls ring_result_default)"
  "tsi_tx_render_admitted (tick_input count released_controls ring_result_default)"
  "\<not> tsi_external_ptt_request (tick_input count released_controls ring_result_default)"
  "tsi_native_frame_count (tick_input count released_controls ring_result_default) = count"
  "\<not> rekeys config (tick_input count released_controls ring_result_default) s"
  by (simp_all add: tick_input_def released_controls_def tx_controls_sample_def tick_input_rejected_def
      ring_result_default_def CTCSS_NONE_def TONE_COUNT_def rekeys_def)

lemma publish_signaling:
  "transmit_publish session count signaling ring program samples = Some (session', r) \<Longrightarrow>
     tw_signaling (ss_transmit session') = tw_signaling (ss_transmit session)"
  by (auto simp: transmit_publish_def Let_def bind_eq_Some_conv split: prod.splits)

text \<open>Up to its waveforms a callback of this transmitter runs as its signaling does.\<close>

lemma quiet_front:
  assumes "quiet_tx session" and "0 < count" and "count \<le> 960"
    and "ptt_of ts_sample (snd (tw_signaling (ss_transmit session))) = p" and "p \<noteq> PttKeyed"
  obtains v u s' out x where
    "tx_programme ring_port_default count (ss_transmit session, ()) = ((v, ()), Inr ring_result_default)"
    and "tx_tick count released_controls ring_result_default
      (tx_test_tone sine count (ti_calibrated_test_tone released_controls) v) = (u, Inr out)"
    and "tick ts_sample (snd (tw_signaling (ss_transmit session)))
      (tick_input count released_controls ring_result_default) = Inr (s', out)"
    and "ts_wf ts_sample s'" and "tiles 0 (tso_render_spans out) count"
    and "ptt_of ts_sample s' = ptt_after False False 0 count p"
    and "tx_waveforms None out count (u, ()) = ((x, ()), if count = 1 then Inl PROVIDER_FAILED else Inr ())"
    and "tx_ok x" and "tw_dcs x = dcs_tx_sample" and "tw_ports x = picky_ports" and "tw_signaling x = (ts_sample, s')"
    and "tw_sample_index x = 0" and "tw_maximum_frames x = 960"
proof -
  let ?w = "ss_transmit session" and ?i = "tick_input count released_controls ring_result_default"
  have ok: "tx_ok ?w" "count \<le> tw_maximum_frames ?w" "fst (tw_signaling ?w) = ts_sample"
    "tw_dcs ?w = dcs_tx_sample" "tw_ports ?w = picky_ports" "tw_sample_index ?w = 0" "tw_maximum_frames ?w = 960"
    using assms(1,3) by (simp_all add: quiet_tx_def tx_session_ok_def)
  have idle: "po_transmit_program (tw_ports ?w) = processor_port_default"
    using ok(5) by (simp add: picky_ports_def ports_sample_def)
  obtain v where v: "tx_programme ring_port_default count (?w, ()) = ((v, ()), Inr ring_result_default)"
      "tx_kept ?w v" "tw_dcs v = tw_dcs ?w"
    using programme_quiet [OF ok(1,2) idle] by blast
  have "count \<le> tw_maximum_frames v" using tx_keptD(2) [OF v(2)] ok(2) by simp
  let ?t = "tx_test_tone sine count (ti_calibrated_test_tone released_controls) v"
  have t: "tx_kept ?w ?t"
    by (rule tx_kept_trans [OF v(2) tx_test_tone_kept [OF tx_keptD(1) [OF v(2)]]]) fact
  have wf: "ts_wf ts_sample (snd (tw_signaling ?w))" and n: "count \<le> u32_max"
    using ok(1,3) assms(3) by (simp_all add: tx_ok_def tx_setup_ok_def u32_max_def)
  obtain s' out where k: "tick ts_sample (snd (tw_signaling ?w)) ?i = Inr (s', out)" "ts_wf ts_sample s'"
      "tiles 0 (tso_render_spans out) count" "ptt_of ts_sample s' = ptt_after False False 0 count p"
    using tick_result [OF ts_sample_ok wf released_input(1) [OF assms(2)]] released_input n assms(4,5)
    by (cases p) (auto simp: drain_def)
  let ?u = "?t\<lparr>tw_signaling := (ts_sample, s')\<rparr>"
  have u: "tx_ok ?u" "count \<le> tw_maximum_frames ?u" "tw_dcs ?u = dcs_tx_sample" "tw_ports ?u = picky_ports"
    "tx_tick count released_controls ring_result_default ?t = (?u, Inr out)"
    using tx_keptD [OF t] ok k(1,2) v(3) by (simp_all add: tx_defs tx_tick_def) (simp add: tx_test_tone_def case_prod_beta)
  obtain x where x: "tx_waveforms None out count (?u, ()) = ((x, ()), if count = 1 then Inl PROVIDER_FAILED else Inr ())"
      "tw_dcs x = dcs_tx_sample" "tx_kept ?u x"
    using waveforms_quiet [OF u(1) assms(2) u(2) tiles_within [OF k(3)] u(3,4)] by blast
  show ?thesis
    using that [OF v(1) u(5) k x(1) tx_keptD(1) [OF x(3)] x(2)] tx_keptD [OF x(3)] tx_keptD [OF t] ok by simp
qed

lemma quiet_span:
  assumes "quiet_tx session" and "0 < count" and "count \<le> 960"
    and "ptt_of ts_sample (snd (tw_signaling (ss_transmit session))) = p" and "p \<noteq> PttKeyed"
  obtains session' status where "transmit_span sine session () count released_controls = Some ((session', ()), status)"
    and "case status of Inl e \<Rightarrow> count = 1 \<and> e = PROVIDER_FAILED \<and> quiet_tx session' | Inr _ \<Rightarrow> count \<noteq> 1"
    and "\<not> machine_ptt session' \<longleftrightarrow> ptt_after False False 0 count p = PttOff"
    and "ptt_of ts_sample (snd (tw_signaling (ss_transmit session'))) = ptt_after False False 0 count p"
proof -
  let ?w = "ss_transmit session"
  obtain v u s' out x where
    v: "tx_programme ring_port_default count (?w, ()) = ((v, ()), Inr ring_result_default)"
      "tx_tick count released_controls ring_result_default
        (tx_test_tone sine count (ti_calibrated_test_tone released_controls) v) = (u, Inr out)" and
    k: "tick ts_sample (snd (tw_signaling ?w)) (tick_input count released_controls ring_result_default) = Inr (s', out)"
      "ts_wf ts_sample s'" "tiles 0 (tso_render_spans out) count"
      "ptt_of ts_sample s' = ptt_after False False 0 count p" and
    x: "tx_waveforms None out count (u, ()) = ((x, ()), if count = 1 then Inl PROVIDER_FAILED else Inr ())"
      "tx_ok x" "tw_dcs x = dcs_tx_sample" "tw_ports x = picky_ports" "tw_signaling x = (ts_sample, s')"
      "tw_sample_index x = 0" "tw_maximum_frames x = 960"
    by (rule quiet_front [OF assms, where sine = sine])
  have ok: "tx_session_ok session" "ss_program_ring session = ring_port_default" "ss_profile session = None"
    "fst (tw_signaling ?w) = ts_sample" "tw_sample_index ?w = 0" "tw_maximum_frames ?w = 960"
    using assms(1) by (simp_all add: quiet_tx_def)
  have on: "\<not> ts_logical_ptt s' \<longleftrightarrow> ptt_of ts_sample s' = PttOff"
    using k(2) by (auto simp: ts_wf_def ptt_of_def)
  show ?thesis
  proof (cases "count = 1")
    case True
    let ?f = "provider_failure (session\<lparr>ss_transmit := x\<rparr>) False (tw_sample_index x)"
    have "transmit_span sine session () count released_controls = Some ((?f, ()), Inl PROVIDER_FAILED)"
      using v x(1) True ok(2,3) by (simp add: transmit_span_def transmit_failure_def Let_def)
    moreover have "ss_transmit ?f = x" by (simp add: provider_failure_def Let_def)
    moreover have "quiet_tx ?f"
      using assms(1) x push_items(1)
      by (simp add: quiet_tx_def tx_session_ok_def provider_failure_def push_edge_def Let_def)
    ultimately show ?thesis
      using that [of ?f "Inl PROVIDER_FAILED"] True on k(4) x(5) by (simp add: machine_ptt_def)
  next
    case False
    let ?a = "x\<lparr>tw_active := mark_active count (tso_render_spans out) (tw_active x)\<rparr>"
    let ?t = "tx_test_tone sine count (ti_calibrated_test_tone released_controls) v"
    have c: "tw_sample_index ?w + count < u64_max" "count \<le> tw_maximum_frames x"
      "tw_sample_index x = tw_sample_index ?w" "tw_maximum_frames x = tw_maximum_frames ?w"
      "tw_signaling x = (fst (tw_signaling ?w), s')" "tick (fst (tw_signaling ?w)) (snd (tw_signaling ?w))
        (tick_input count released_controls ring_result_default) = Inr (s', out)"
      using assms(3) x ok(4-6) k(1) by (simp_all add: u64_max_def)
    obtain later r where e: "transmit_publish (session\<lparr>ss_transmit := ?a\<rparr>) count out ring_result_default
        (measure (take count (tw_processed ?t))) (output_frames ?a count) = Some (later, r)"
      using transmit_emitted [OF ok(1) c(1) x(2) c(2) tiles_within [OF k(3)] c(3-6)] by blast
    then have "tw_signaling (ss_transmit later) = (ts_sample, s')" using publish_signaling x(5) by fastforce
    moreover have "\<exists>status. transmit_span sine session () count released_controls = Some ((later, ()), Inr status)"
      using v x(1) False ok(2,3) e by (simp add: transmit_span_def Let_def)
    ultimately show ?thesis
      using that [of later "Inr _"] False on k(4) by (auto simp: machine_ptt_def)
  qed
qed

lemma picky_worker: "tx_ok worker \<Longrightarrow> tx_ok (worker\<lparr>tw_ports := picky_ports\<rparr>)"
proof -
  have "processor_sized (picky_port n :: unit processor_port)" for n
    by (simp add: processor_sized_def picky_port_def processor_port_default_def)
  moreover have "processor_sized (processor_port_default :: unit processor_port)"
    by (simp add: processor_sized_def processor_port_default_def)
  ultimately show "tx_ok worker \<Longrightarrow> tx_ok (worker\<lparr>tw_ports := picky_ports\<rparr>)"
    by (simp add: tx_defs picky_ports_def ports_sample_def)
qed

definition draining_session :: sample_session where
  "draining_session = (session_sample ts_keyed)\<lparr>ss_transmit := (tx_worker_sample
     (ts_keyed\<lparr>ts_transmitter_state := TX_STATE_FINISHING, ts_finish_remaining_frames := 1\<rparr>))\<lparr>tw_ports := picky_ports\<rparr>\<rparr>"

lemma draining_quiet:
  "quiet_tx draining_session" "ptt_of ts_sample (snd (tw_signaling (ss_transmit draining_session))) = PttDraining 1"
  "machine_ptt draining_session"
proof -
  let ?s = "ts_keyed\<lparr>ts_transmitter_state := TX_STATE_FINISHING, ts_finish_remaining_frames := 1\<rparr>"
  have wf: "ts_wf ts_sample ?s"
    using ts_keyed_wf [of ts_sample]
    by (simp add: ts_wf_def ts_keyed_def ts_default_def phase_ok_def dcs_clock_ok_def tones_wf_def tail_frames_def tx_state_defs)
  have "tx_ok (tx_worker_sample ?s)" using tx_session_ok_sample [OF wf] by (simp add: tx_session_ok_def)
  then have "tx_ok ((tx_worker_sample ?s)\<lparr>tw_ports := picky_ports\<rparr>)" by (rule picky_worker)
  then show "quiet_tx draining_session"
    using queue_wf_new(1)
    by (simp add: quiet_tx_def tx_session_ok_def draining_session_def tx_worker_sample_def transmit_worker_of_def
        config_sample_def session_config_sample_def Let_def)
  show "ptt_of ts_sample (snd (tw_signaling (ss_transmit draining_session))) = PttDraining 1" "machine_ptt draining_session"
    by (simp_all add: draining_session_def tx_worker_sample_def transmit_worker_of_def ptt_of_def tail_frames_def
        tx_state_defs machine_ptt_def ts_keyed_def ts_default_def Let_def)
qed

lemma quiet_inner:
  assumes "quiet_tx session" and "transmit_span sine session () count released_controls = Some ((session', ()), status)"
    and "0 < count" and "count \<le> 960"
  shows "\<exists>buffer' published' prepared'. transmit_inner sine session () (Some buffer) count (Some released_controls)
    (Some published) prepared = Some ((session', ()), buffer', (case status of Inl _ \<Rightarrow> Some published | Inr (_, _, r) \<Rightarrow> Some r),
      prepared', case status of Inl e \<Rightarrow> Inl e | Inr _ \<Rightarrow> Inr ())"
  using assms by (cases status) (auto simp: quiet_tx_def transmit_inner_def transmit_checked_def Let_def)

theorem failed_release_untold_witness:
  "\<exists>failed later buffer1 buffer2 published1 prepared1 prepared2 r.
    transmit_inner (\<lambda>x. x) draining_session () (Some [fp_zero, fp_zero]) 1 (Some released_controls)
      (Some transmit_result_default) prepared_outputs_default =
      Some ((failed, ()), buffer1, published1, prepared1, Inl PROVIDER_FAILED) \<and>
    transmit_inner (\<lambda>x. x) failed () (Some [fp_zero, fp_zero, fp_zero, fp_zero]) 2 (Some released_controls)
      (Some transmit_result_default) prepared_outputs_default =
      Some ((later, ()), buffer2, Some r, prepared2, Inr ()) \<and>
    machine_ptt draining_session \<and> tv_logical_ptt r = 0 \<and>
    sh_receiver_blanking_ms (ss_shared later) = sh_receiver_blanking_ms (ss_shared draining_session)"
proof -
  have z: "(0::nat) < 1" "(1::nat) \<le> 960" "(0::nat) < 2" "(2::nat) \<le> 960" "PttDraining 1 \<noteq> PttKeyed" by simp_all
  obtain failed where f: "transmit_span (\<lambda>x. x) draining_session () 1 released_controls =
      Some ((failed, ()), Inl PROVIDER_FAILED)" "quiet_tx failed" "\<not> machine_ptt failed"
      "ptt_of ts_sample (snd (tw_signaling (ss_transmit failed))) = PttOff"
    by (rule quiet_span [OF draining_quiet(1) z(1,2) draining_quiet(2) z(5), where sine = "\<lambda>x. x"])
      (auto simp: drain_def split: sum.splits)
  obtain later out q r where l: "transmit_span (\<lambda>x. x) failed () 2 released_controls =
      Some ((later, ()), Inr (out, q, r))" "\<not> machine_ptt later"
    by (rule quiet_span [OF f(2) z(3,4) f(4), where sine = "\<lambda>x. x"]) (auto split: sum.splits)
  obtain b1 p1 b2 q1 q2 where c: "transmit_inner (\<lambda>x. x) draining_session () (Some [fp_zero, fp_zero]) 1
      (Some released_controls) (Some transmit_result_default) prepared_outputs_default =
      Some ((failed, ()), b1, p1, q1, Inl PROVIDER_FAILED)"
    "transmit_inner (\<lambda>x. x) failed () (Some [fp_zero, fp_zero, fp_zero, fp_zero]) 2 (Some released_controls)
      (Some transmit_result_default) prepared_outputs_default = Some ((later, ()), b2, Some r, q2, Inr ())"
    using quiet_inner [OF draining_quiet(1) f(1) z(1,2)] quiet_inner [OF f(2) l(1) z(3,4)] by fastforce
  have s: "tx_session_ok draining_session" "tw_sample_index (ss_transmit draining_session) = 0"
    using draining_quiet(1) by (simp_all add: quiet_tx_def)
  show ?thesis
    using failed_release_untold [OF s(1) _ _ c(1) draining_quiet(3) f(3) _ _ c(2) l(2)] c s(2) draining_quiet(3)
    by (auto simp: u64_max_def)
qed

theorem transmit_edges_told_witness:
  "\<exists>later buffer' prepared' r. transmit_inner (\<lambda>x. x) draining_session () (Some [fp_zero, fp_zero, fp_zero, fp_zero]) 2
      (Some released_controls) (Some transmit_result_default) prepared_outputs_default =
      Some ((later, ()), buffer', Some r, prepared', Inr ()) \<and> ptt_told draining_session later r \<and>
    blank_left (rp_blanking (rw_detector (ss_receive (take_blanking later)))) = 4800"
proof -
  have z: "(0::nat) < 2" "(2::nat) \<le> 960" "PttDraining 1 \<noteq> PttKeyed" by simp_all
  obtain later out q r where l: "transmit_span (\<lambda>x. x) draining_session () 2 released_controls =
      Some ((later, ()), Inr (out, q, r))" "\<not> machine_ptt later"
    by (rule quiet_span [OF draining_quiet(1) z(1,2) draining_quiet(2) z(3), where sine = "\<lambda>x. x"])
      (auto simp: drain_def split: sum.splits)
  obtain b p where c: "transmit_inner (\<lambda>x. x) draining_session () (Some [fp_zero, fp_zero, fp_zero, fp_zero]) 2
      (Some released_controls) (Some transmit_result_default) prepared_outputs_default =
      Some ((later, ()), b, Some r, p, Inr ())"
    using quiet_inner [OF draining_quiet(1) l(1) z(1,2)] by fastforce
  have s: "tx_session_ok draining_session" "tw_sample_index (ss_transmit draining_session) = 0"
    "blanking_time draining_session = 100"
    using draining_quiet(1) by (simp_all add: quiet_tx_def blanking_time_def ts_sample_def)
  show ?thesis
    using transmit_edges_told [OF s(1) _ _ c] c s(2,3) l(2) draining_quiet(3) by (auto simp: u64_max_def)
qed

end
