(* ===== verification/Session_Sides.thy ===== *)
theory Session_Sides
  imports Session_Ptt Session_Receive_Properties
begin

text \<open>
  The two callbacks of a session run on threads of their own (\<open>receive_inner\<close> and \<open>transmit_inner\<close> in
  \<open>src/session.rs\<close>).  This theory shows that each works on its own half: what the other side owns, its
  worker, its event queue and its part of the snapshot, is neither read nor written.  What they share is
  logical PTT, the pending blanking and the count of provider failures.
\<close>

section \<open>Halves of a session\<close>

text \<open>The transmit half is that of the first session, the rest of the second.\<close>

definition with_transmitter ::
  "('w, 's, 'r, 'd, 'h, 'n, 't, 'u) session \<Rightarrow> ('w, 's, 'r, 'd, 'h, 'n, 't, 'u) session \<Rightarrow>
     ('w, 's, 'r, 'd, 'h, 'n, 't, 'u) session" where
  "with_transmitter other session =
     (let n = ss_snapshot other in
      session\<lparr>ss_program_ring := ss_program_ring other, ss_transmit := ss_transmit other,
        ss_transmit_busy := ss_transmit_busy other, ss_transmit_events := ss_transmit_events other,
        ss_snapshot := (ss_snapshot session)\<lparr>sn_transmit_frames := sn_transmit_frames n,
          sn_transmit_program_peak := sn_transmit_program_peak n, sn_transmit_program_rms := sn_transmit_program_rms n,
          sn_transmit_output_peak := sn_transmit_output_peak n, sn_transmit_output_rms := sn_transmit_output_rms n,
          sn_transmit_program_rails := sn_transmit_program_rails n, sn_transmit_output_rails := sn_transmit_output_rails n,
          sn_logical_ptt := sn_logical_ptt n, sn_ring_occupancy := sn_ring_occupancy n,
          sn_ring_reserve := sn_ring_reserve n, sn_ring_target := sn_ring_target n,
          sn_ring_capacity := sn_ring_capacity n, sn_ring_ratio := sn_ring_ratio n,
          sn_ring_underruns := sn_ring_underruns n, sn_ring_overruns := sn_ring_overruns n,
          sn_ring_concealment := sn_ring_concealment n\<rparr>\<rparr>)"

text \<open>The receive half is that of the first session, the rest of the second.\<close>

definition with_receiver ::
  "('w, 's, 'r, 'd, 'h, 'n, 't, 'u) session \<Rightarrow> ('w, 's, 'r, 'd, 'h, 'n, 't, 'u) session \<Rightarrow>
     ('w, 's, 'r, 'd, 'h, 'n, 't, 'u) session" where
  "with_receiver other session =
     (let n = ss_snapshot other in
      session\<lparr>ss_receive := ss_receive other, ss_receive_busy := ss_receive_busy other,
        ss_receive_events := ss_receive_events other,
        ss_snapshot := (ss_snapshot session)\<lparr>sn_receive_frames := sn_receive_frames n,
          sn_receive_input_peak := sn_receive_input_peak n, sn_receive_input_rms := sn_receive_input_rms n,
          sn_receive_ctcss_decoder_peak := sn_receive_ctcss_decoder_peak n,
          sn_receive_output_peak := sn_receive_output_peak n, sn_receive_output_rms := sn_receive_output_rms n,
          sn_receive_input_rails := sn_receive_input_rails n, sn_receive_output_rails := sn_receive_output_rails n,
          sn_raw_receiver_keyed := sn_raw_receiver_keyed n, sn_rf_burst_id := sn_rf_burst_id n,
          sn_vad_mode := sn_vad_mode n, sn_vad_voice_active := sn_vad_voice_active n,
          sn_vad_score := sn_vad_score n, sn_vad_voice_sample_index := sn_vad_voice_sample_index n,
          sn_vad_preroll_frames := sn_vad_preroll_frames n, sn_carrier := sn_carrier n,
          sn_subaudible := sn_subaudible n, sn_receiver_keyed := sn_receiver_keyed n,
          sn_decoded_ctcss := sn_decoded_ctcss n, sn_dcs_valid := sn_dcs_valid n\<rparr>\<rparr>)"

lemma with_transmitter_fields:
  "ss_receive (with_transmitter z session) = ss_receive session"
  "ss_shared (with_transmitter z session) = ss_shared session"
  "ss_warmed (with_transmitter z session) = ss_warmed session"
  "ss_receive_busy (with_transmitter z session) = ss_receive_busy session"
  "ss_generation_id (with_transmitter z session) = ss_generation_id session"
  "ss_receive_events (with_transmitter z session) = ss_receive_events session"
  "(with_transmitter z session)\<lparr>ss_receive := r\<rparr> = with_transmitter z (session\<lparr>ss_receive := r\<rparr>)"
  "(with_transmitter z session)\<lparr>ss_shared := sh\<rparr> = with_transmitter z (session\<lparr>ss_shared := sh\<rparr>)"
  "(with_transmitter z session)\<lparr>ss_receive_events := e\<rparr> = with_transmitter z (session\<lparr>ss_receive_events := e\<rparr>)"
  by (simp_all add: with_transmitter_def Let_def)

lemma with_receiver_fields:
  "ss_transmit (with_receiver z session) = ss_transmit session"
  "ss_shared (with_receiver z session) = ss_shared session"
  "ss_warmed (with_receiver z session) = ss_warmed session"
  "ss_profile (with_receiver z session) = ss_profile session"
  "ss_program_ring (with_receiver z session) = ss_program_ring session"
  "ss_transmit_busy (with_receiver z session) = ss_transmit_busy session"
  "ss_generation_id (with_receiver z session) = ss_generation_id session"
  "ss_transmit_events (with_receiver z session) = ss_transmit_events session"
  "(with_receiver z session)\<lparr>ss_transmit := r\<rparr> = with_receiver z (session\<lparr>ss_transmit := r\<rparr>)"
  "(with_receiver z session)\<lparr>ss_shared := sh\<rparr> = with_receiver z (session\<lparr>ss_shared := sh\<rparr>)"
  "(with_receiver z session)\<lparr>ss_transmit_events := e\<rparr> = with_receiver z (session\<lparr>ss_transmit_events := e\<rparr>)"
  by (simp_all add: with_receiver_def Let_def)

text \<open>The snapshot, field by field; it is written in the same step as other fields.\<close>

lemma with_transmitter_snapshot:
  "(with_transmitter z a)\<lparr>ss_snapshot := receive_snapshot worker detected qualified speech keyed heard emitted
     (ss_snapshot (with_transmitter z b))\<rparr> =
   with_transmitter z (a\<lparr>ss_snapshot := receive_snapshot worker detected qualified speech keyed heard emitted (ss_snapshot b)\<rparr>)"
  "(with_transmitter z a)\<lparr>ss_snapshot := (ss_snapshot (with_transmitter z a))\<lparr>sn_provider_failures :=
     sn_provider_failures (ss_snapshot (with_transmitter z a)) + 1\<rparr>\<rparr> =
   with_transmitter z (a\<lparr>ss_snapshot := (ss_snapshot a)\<lparr>sn_provider_failures :=
     sn_provider_failures (ss_snapshot a) + 1\<rparr>\<rparr>)"
  by (simp_all add: with_transmitter_def receive_snapshot_def Let_def)

lemma with_receiver_snapshot:
  "(with_receiver z a)\<lparr>ss_snapshot := transmit_snapshot i signaling ring program emitted (ss_snapshot (with_receiver z b))\<rparr> =
   with_receiver z (a\<lparr>ss_snapshot := transmit_snapshot i signaling ring program emitted (ss_snapshot b)\<rparr>)"
  "(with_receiver z a)\<lparr>ss_snapshot := (ss_snapshot (with_receiver z a))\<lparr>sn_provider_failures :=
     sn_provider_failures (ss_snapshot (with_receiver z a)) + 1\<rparr>\<rparr> =
   with_receiver z (a\<lparr>ss_snapshot := (ss_snapshot a)\<lparr>sn_provider_failures :=
     sn_provider_failures (ss_snapshot a) + 1\<rparr>\<rparr>)"
  by (simp_all add: with_receiver_def transmit_snapshot_def store_ring_def Let_def)

lemmas rx_local = with_transmitter_fields with_transmitter_snapshot
lemmas tx_local = with_receiver_fields with_receiver_snapshot

section \<open>The receive callback\<close>

lemma take_blanking_local: "take_blanking (with_transmitter z session) = with_transmitter z (take_blanking session)"
  by (simp add: take_blanking_def rx_local Let_def)

lemma indications_local:
  "receive_indications (with_transmitter z session) input count controls valid =
     map_option (\<lambda>(s, rest). (with_transmitter z s, rest)) (receive_indications session input count controls valid)"
  by (auto simp: receive_indications_def take_blanking_local rx_local Let_def split: Option.bind_splits prod.splits)

lemma receive_publish_local:
  "receive_publish (with_transmitter z session) count detected qualified speech keyed heard =
     map_option (\<lambda>(s, r). (with_transmitter z s, r)) (receive_publish session count detected qualified speech keyed heard)"
  by (auto simp: receive_publish_def rx_local Let_def split: Option.bind_splits prod.splits)

lemma receive_failure_local:
  "receive_provider_failure (with_transmitter z session) =
     (with_transmitter z (fst (receive_provider_failure session)), snd (receive_provider_failure session))"
  by (simp add: receive_provider_failure_def provider_failure_def rx_local Let_def)

lemma receive_span_local:
  "receive_span (with_transmitter z session) w input count controls valid =
     map_option (\<lambda>((s, w), rest). ((with_transmitter z s, w), rest)) (receive_span session w input count controls valid)"
  by (cases "receive_indications session input count controls (receive_snapshots_valid (ss_receive session) controls valid)")
    (auto simp: receive_span_def indications_local receive_publish_local receive_failure_local rx_local Let_def
      split: Option.bind_splits prod.splits sum.splits)

lemma receive_local:
  "receive_inner (with_transmitter z session) w input buffer count controls result valid =
     map_option (\<lambda>((s, w), rest). ((with_transmitter z s, w), rest))
       (receive_inner session w input buffer count controls result valid)"
  by (auto simp: receive_inner_def receive_checked_def receive_span_local rx_local Let_def
      split: Option.bind_splits prod.splits sum.splits option.splits)

section \<open>The transmit callback\<close>

lemma transmit_failure_local:
  "transmit_failure (with_receiver z session) tx =
     (case transmit_failure session tx of ((s, w), r) \<Rightarrow> ((with_receiver z s, w), r))"
  by (cases tx) (simp add: transmit_failure_def provider_failure_def tx_local Let_def)

lemma transmit_publish_local:
  "transmit_publish (with_receiver z session) count signaling ring program samples =
     map_option (\<lambda>(s, r). (with_receiver z s, r)) (transmit_publish session count signaling ring program samples)"
  by (auto simp: transmit_publish_def tx_local Let_def split: Option.bind_splits prod.splits)

lemma transmit_span_local:
  "transmit_span sine (with_receiver z session) w count controls =
     map_option (\<lambda>((s, w), rest). ((with_receiver z s, w), rest)) (transmit_span sine session w count controls)"
  by (auto simp: transmit_span_def transmit_publish_local transmit_failure_local tx_local Let_def
      split: Option.bind_splits prod.splits sum.splits)

lemma transmit_local:
  "transmit_inner sine (with_receiver z session) w buffer count controls result prepared =
     map_option (\<lambda>((s, w), rest). ((with_receiver z s, w), rest))
       (transmit_inner sine session w buffer count controls result prepared)"
  by (auto simp: transmit_inner_def transmit_checked_def transmit_span_local tx_local Let_def
      split: Option.bind_splits prod.splits sum.splits option.splits)

section \<open>The two sides together\<close>

text \<open>What no callback changes, and what the sides share.\<close>

definition session_constant where
  "session_constant session = (ss_profile session, ss_generation_id session, ss_maximum_frames session, ss_warmed session)"

definition failures_counted :: "('w, 's, 'r, 'd, 'h, 'n, 't, 'u) session \<Rightarrow> 64 word" where
  "failures_counted session = sn_provider_failures (ss_snapshot session)"

lemma receive_steps_constant:
  "receive_indications session input count controls valid = Some (s, rest) \<Longrightarrow> session_constant s = session_constant session"
  "receive_publish session count detected q speech keyed heard = Some (s, published) \<Longrightarrow>
     session_constant s = session_constant session"
  "session_constant (session\<lparr>ss_receive := worker\<rparr>) = session_constant session"
  "session_constant (fst (receive_provider_failure session)) = session_constant session"
proof -
  have "case receive_indications session input count controls valid of None \<Rightarrow> True
      | Some (s, rest) \<Rightarrow> session_constant s = session_constant session"
    by (simp add: receive_indications_def session_constant_def take_blanking_def Let_def
        split: Option.bind_splits option.split prod.split)
  then show "receive_indications session input count controls valid = Some (s, rest) \<Longrightarrow>
      session_constant s = session_constant session" by simp
  have "case receive_publish session count detected q speech keyed heard of None \<Rightarrow> True
      | Some (s', r) \<Rightarrow> session_constant s' = session_constant session"
    by (simp add: receive_publish_def session_constant_def Let_def split: Option.bind_splits option.split prod.split)
  then show "receive_publish session count detected q speech keyed heard = Some (s, published) \<Longrightarrow>
      session_constant s = session_constant session" by simp
  show "session_constant (session\<lparr>ss_receive := worker\<rparr>) = session_constant session"
    "session_constant (fst (receive_provider_failure session)) = session_constant session"
    by (simp_all add: session_constant_def receive_provider_failure_def provider_failure_def Let_def)
qed

lemma receive_span_steps:
  assumes "receive_span session w input count controls valid = Some ((session', w'), rest)"
  obtains s d q worker where
    "receive_indications session input count controls (receive_snapshots_valid (ss_receive session) controls valid) =
      Some (s, d, q)"
    and "(\<exists>e. rest = Inl e \<and> session' = fst (receive_provider_failure (s\<lparr>ss_receive := worker\<rparr>))) \<or>
      (\<exists>audio published speech keyed. rest = Inr (audio, published) \<and>
         receive_publish (s\<lparr>ss_receive := worker\<rparr>) count d q speech keyed
           (measure_channel input (rw_receive_channel (ss_receive session))) = Some (session', published))"
proof -
  let ?valid = "receive_snapshots_valid (ss_receive session) controls valid"
  obtain s d q where i: "receive_indications session input count controls ?valid = Some (s, d, q)"
    using assms by (auto simp: receive_span_def bind_eq_Some_conv Let_def)
  obtain worker v r where a: "rx_audio count input d q (ss_receive s, w) = ((worker, v), r)" by (metis prod.exhaust)
  show ?thesis
  proof (cases r)
    case (Inl e)
    then show ?thesis
      using assms by (intro that [OF i, of worker]) (simp add: receive_span_def i a case_prod_beta Let_def, auto)
  next
    case (Inr a')
    then show ?thesis
      using assms by (intro that [OF i, of worker]) (cases a'; auto simp: receive_span_def i a bind_eq_Some_conv Let_def)
  qed
qed

lemma receive_span_constant:
  assumes "receive_span session w input count controls valid = Some ((session', w'), rest)"
  shows "session_constant session' = session_constant session"
  by (rule receive_span_steps [OF assms])
    (auto simp: receive_steps_constant(3,4) dest!: receive_steps_constant(1,2))

lemma receive_constant:
  assumes "receive_inner session w input buffer count controls result valid = Some ((session', w'), rest)"
  shows "session_constant session' = session_constant session"
proof (cases "session' = session")
  case False
  then have "\<exists>i c v x. receive_span session w i count c v = Some ((session', w'), x)"
    using assms by (cases buffer; cases result; cases input; cases controls)
      (auto simp: receive_inner_def receive_checked_def Let_def bind_eq_Some_conv split: if_splits sum.splits,
        metis obj_sumE surj_pair)
  then show ?thesis by (elim exE) (rule receive_span_constant)
qed simp

lemma transmit_steps_constant:
  "transmit_publish session count signaling ring program samples = Some (s, published) \<Longrightarrow>
     session_constant s = session_constant session"
  "session_constant (session\<lparr>ss_transmit := worker\<rparr>) = session_constant session"
  "transmit_failure session tx = ((s, v), status) \<Longrightarrow> session_constant s = session_constant session"
  by (cases tx; auto simp: transmit_publish_def transmit_failure_def session_constant_def provider_failure_def Let_def
      bind_eq_Some_conv split: prod.splits if_splits)+

lemma transmit_span_constant:
  assumes "transmit_span sine session w count controls = Some ((session', w'), rest)"
  shows "session_constant session' = session_constant session"
proof -
  have published: "transmit_publish (session\<lparr>ss_transmit := worker\<rparr>) count signaling ring program samples =
      Some (s, r) \<Longrightarrow> session_constant s = session_constant session" for worker signaling ring program samples s r
    using transmit_steps_constant(1,2) by metis
  show ?thesis
    using assms by (auto simp: transmit_span_def bind_eq_Some_conv Let_def transmit_steps_constant
        split: prod.splits sum.splits dest: published transmit_steps_constant(3))
qed

lemma transmit_constant:
  assumes "transmit_inner sine session w buffer count controls result prepared = Some ((session', w'), rest)"
  shows "session_constant session' = session_constant session"
proof (cases "session' = session")
  case False
  then have "\<exists>c x. transmit_span sine session w count c = Some ((session', w'), x)"
    using assms by (cases buffer; cases result; cases controls)
      (auto simp: transmit_inner_def transmit_checked_def Let_def bind_eq_Some_conv split: if_splits sum.splits,
        metis obj_sumE prod_cases3)
  then show ?thesis by (elim exE) (rule transmit_span_constant)
qed simp

lemma with_own_half [simp]: "with_transmitter session session = session" "with_receiver session session = session"
  by (simp_all add: with_transmitter_def with_receiver_def)

lemma halves:
  assumes "session_constant session' = session_constant session" and "ss_shared session' = ss_shared session"
    and "failures_counted session' = failures_counted session"
  shows "with_transmitter session session' = with_receiver session' session"
  using assms
  by (auto intro!: session.equality atomic_snapshot.equality
      simp: with_transmitter_def with_receiver_def session_constant_def failures_counted_def Let_def)

text \<open>A callback that succeeds counts no failure; of the shared words, the receiver writes only the blanking.\<close>

lemma receive_shares:
  assumes "receive_inner session w input buffer count controls result valid = Some ((session', w'), b, r, Inr ())"
  shows "failures_counted session' = failures_counted session"
    and "ss_shared session' = (ss_shared session)\<lparr>sh_receiver_blanking_ms := 0\<rparr>"
proof -
  have front: "case receive_indications session i n c v of None \<Rightarrow> True
      | Some (s, rest) \<Rightarrow> failures_counted s = failures_counted session \<and>
          ss_shared s = (ss_shared session)\<lparr>sh_receiver_blanking_ms := 0\<rparr>" for i n c v
    by (simp add: receive_indications_def failures_counted_def take_blanking_def Let_def
        split: Option.bind_splits option.split prod.split)
  have told: "case receive_publish s n d q speech keyed h of None \<Rightarrow> True
      | Some (s', x) \<Rightarrow> failures_counted s' = failures_counted s \<and> ss_shared s' = ss_shared s" for s n d q speech keyed h
    by (simp add: receive_publish_def failures_counted_def receive_snapshot_def Let_def
        split: Option.bind_splits option.split prod.split)
  obtain i c out x where "receive_span session w i count c valid = Some ((session', w'), Inr (out, x))"
    using assms by (cases buffer; cases result; cases input; cases controls)
      (auto simp: receive_inner_def receive_checked_def Let_def bind_eq_Some_conv split: if_splits sum.splits,
        metis obj_sumE surj_pair)
  then obtain s d q worker speech keyed where a:
    "receive_indications session i count c (receive_snapshots_valid (ss_receive session) c valid) = Some (s, d, q)"
    "receive_publish (s\<lparr>ss_receive := worker\<rparr>) count d q speech keyed
      (measure_channel i (rw_receive_channel (ss_receive session))) = Some (session', x)"
    by (rule receive_span_steps) auto
  have "failures_counted (s\<lparr>ss_receive := worker\<rparr>) = failures_counted s"
    "ss_shared (s\<lparr>ss_receive := worker\<rparr>) = ss_shared s" by (simp_all add: failures_counted_def)
  with front [of i count c "receive_snapshots_valid (ss_receive session) c valid"]
    told [of "s\<lparr>ss_receive := worker\<rparr>" count d q speech keyed
      "measure_channel i (rw_receive_channel (ss_receive session))"] a
  show "failures_counted session' = failures_counted session"
    "ss_shared session' = (ss_shared session)\<lparr>sh_receiver_blanking_ms := 0\<rparr>" by simp_all
qed

lemma publish_failures:
  "transmit_publish session count signaling ring program samples = Some (s, r) \<Longrightarrow> failures_counted s = failures_counted session"
  by (auto simp: transmit_publish_def failures_counted_def transmit_snapshot_def store_ring_def Let_def bind_eq_Some_conv
      split: prod.splits)

lemma transmit_failures:
  assumes "transmit_inner sine session w buffer count controls result prepared = Some ((session', w'), b, r, q, Inr ())"
  shows "failures_counted session' = failures_counted session"
proof -
  have worker: "failures_counted (session\<lparr>ss_transmit := worker\<rparr>) = failures_counted session" for worker
    by (simp add: failures_counted_def)
  obtain c x where "transmit_span sine session w count c = Some ((session', w'), Inr x)"
    using assms by (cases buffer; cases result; cases controls)
      (auto simp: transmit_inner_def transmit_checked_def Let_def bind_eq_Some_conv split: if_splits sum.splits,
        metis obj_sumE prod_cases3)
  then show ?thesis
    by (auto simp: transmit_span_def transmit_failure_def bind_eq_Some_conv Let_def worker
        split: prod.splits sum.splits dest: publish_failures)
qed

text \<open>C11: the two callbacks commute.  On one session, each callback gives the same output, result, status and
  borrowed state whether the other has run before it or not, and the session is the same at the end in
  either order, as long as neither changes what they share: logical PTT and the pending blanking, and the
  count of provider failures.\<close>

theorem callbacks_commute:
  assumes "receive_inner session w input buffer count controls result valid = Some ((received, w'), heard)"
    and "transmit_inner sine session v out frames tx_controls tx_result prepared = Some ((transmitted, v'), emitted)"
    and "ss_shared received = ss_shared session" and "failures_counted received = failures_counted session"
    and "ss_shared transmitted = ss_shared session" and "failures_counted transmitted = failures_counted session"
  shows "\<exists>both. transmit_inner sine received v out frames tx_controls tx_result prepared = Some ((both, v'), emitted) \<and>
    receive_inner transmitted w input buffer count controls result valid = Some ((both, w'), heard)"
proof -
  have r: "received = with_transmitter session received"
    using receive_local [of session session w input buffer count controls result valid] assms(1) by simp
  have rx: "received = with_receiver received session"
    using halves [OF receive_constant [OF assms(1)] assms(3,4)] r by simp
  have t: "transmitted = with_receiver session transmitted"
    using transmit_local [of sine session session v out frames tx_controls tx_result prepared] assms(2) by simp
  have tx: "transmitted = with_transmitter transmitted session"
    using halves [of session transmitted] transmit_constant [OF assms(2)] assms(5,6) t by simp
  have "transmit_inner sine (with_receiver received session) v out frames tx_controls tx_result prepared =
      Some ((with_receiver received transmitted, v'), emitted)"
    using transmit_local [of sine received session v out frames tx_controls tx_result prepared] assms(2) by simp
  moreover have "receive_inner (with_transmitter transmitted session) w input buffer count controls result valid =
      Some ((with_transmitter transmitted received, w'), heard)"
    using receive_local [of transmitted session w input buffer count controls result valid] assms(1) by simp
  moreover have "with_receiver received transmitted = with_transmitter transmitted received"
    using halves [of received transmitted] assms(3-6) receive_constant [OF assms(1)] transmit_constant [OF assms(2)]
    by simp
  ultimately show ?thesis using rx tx by metis
qed

text \<open>A session at rest.\<close>

definition idle_session :: sample_session where
  "idle_session = (session_sample ts_default)\<lparr>ss_transmit := (tx_worker_sample ts_default)\<lparr>tw_ports := picky_ports\<rparr>\<rparr>"

lemma idle_quiet:
  "quiet_tx idle_session" "ptt_of ts_sample (snd (tw_signaling (ss_transmit idle_session))) = PttOff"
  "\<not> machine_ptt idle_session" "ss_shared idle_session = \<lparr>sh_logical_ptt = False, sh_receiver_blanking_ms = 0\<rparr>"
proof -
  have "tx_ok (tx_worker_sample ts_default)"
    using tx_session_ok_sample [OF ts_default_wf] by (simp add: tx_session_ok_def)
  then have "tx_ok ((tx_worker_sample ts_default)\<lparr>tw_ports := picky_ports\<rparr>)" by (rule picky_worker)
  then show "quiet_tx idle_session"
    using queue_wf_new(1)
    by (simp add: quiet_tx_def tx_session_ok_def idle_session_def tx_worker_sample_def transmit_worker_of_def
        config_sample_def session_config_sample_def Let_def)
  show "ptt_of ts_sample (snd (tw_signaling (ss_transmit idle_session))) = PttOff" "\<not> machine_ptt idle_session"
    "ss_shared idle_session = \<lparr>sh_logical_ptt = False, sh_receiver_blanking_ms = 0\<rparr>"
    by (simp_all add: idle_session_def tx_worker_sample_def transmit_worker_of_def ptt_of_def tx_state_defs
        machine_ptt_def ts_default_def session_sample_def create_session_def Let_def)
qed

lemma idle_receives:
  "\<exists>session' buffer' r. receive_inner idle_session () (Some [fp_zero, fp_zero]) (Some [fp_zero]) 1
    (Some rx_controls_sample) (Some receive_result_default) True = Some ((session', ()), Some buffer', Some r, Inr ())"
proof -
  have "idle_session = with_transmitter idle_session (session_sample ts_default)"
    by (simp add: with_transmitter_def idle_session_def Let_def)
  then show ?thesis
    using session_sample_receives [of ts_default] receive_local [of idle_session "session_sample ts_default"] by force
qed

lemma idle_transmits:
  "\<exists>later b p r. transmit_inner (\<lambda>x. x) idle_session () (Some [fp_zero, fp_zero, fp_zero, fp_zero]) 2
      (Some released_controls) (Some transmit_result_default) prepared_outputs_default =
      Some ((later, ()), b, Some r, p, Inr ()) \<and> ss_shared later = ss_shared idle_session"
proof -
  have z: "(0::nat) < 2" "(2::nat) \<le> 960" "PttOff \<noteq> PttKeyed" by simp_all
  obtain later out q r where l: "transmit_span (\<lambda>x. x) idle_session () 2 released_controls =
      Some ((later, ()), Inr (out, q, r))" "\<not> machine_ptt later"
    by (rule quiet_span [OF idle_quiet(1) z(1,2) idle_quiet(2) z(3), where sine = "\<lambda>x. x"]) (auto split: sum.splits)
  obtain b p where c: "transmit_inner (\<lambda>x. x) idle_session () (Some [fp_zero, fp_zero, fp_zero, fp_zero]) 2
      (Some released_controls) (Some transmit_result_default) prepared_outputs_default =
      Some ((later, ()), b, Some r, p, Inr ())"
    using quiet_inner [OF idle_quiet(1) l(1) z(1,2)] by fastforce
  have s: "tx_session_ok idle_session" "tw_sample_index (ss_transmit idle_session) = 0"
    using idle_quiet(1) by (simp_all add: quiet_tx_def)
  have "ptt_told idle_session later r"
    by (rule transmit_success(1) [OF s(1) _ _ c]) (simp_all add: s(2) u64_max_def)
  then have "ss_shared later = ss_shared idle_session"
    using l(2) idle_quiet(3,4) by (auto intro!: shared_state.equality simp: ptt_told_def)
  with c show ?thesis by blast
qed

theorem callbacks_commute_witness:
  "\<exists>received transmitted both b r c q x.
    receive_inner idle_session () (Some [fp_zero, fp_zero]) (Some [fp_zero]) 1
      (Some rx_controls_sample) (Some receive_result_default) True = Some ((received, ()), b, r, Inr ()) \<and>
    transmit_inner (\<lambda>x. x) received () (Some [fp_zero, fp_zero, fp_zero, fp_zero]) 2
      (Some released_controls) (Some transmit_result_default) prepared_outputs_default =
      Some ((both, ()), c, q, x, Inr ()) \<and>
    receive_inner transmitted () (Some [fp_zero, fp_zero]) (Some [fp_zero]) 1
      (Some rx_controls_sample) (Some receive_result_default) True = Some ((both, ()), b, r, Inr ())"
proof -
  obtain received b r where rx: "receive_inner idle_session () (Some [fp_zero, fp_zero]) (Some [fp_zero]) 1
      (Some rx_controls_sample) (Some receive_result_default) True = Some ((received, ()), b, r, Inr ())"
    using idle_receives by blast
  obtain transmitted c q x where tx: "transmit_inner (\<lambda>x. x) idle_session () (Some [fp_zero, fp_zero, fp_zero, fp_zero]) 2
      (Some released_controls) (Some transmit_result_default) prepared_outputs_default =
      Some ((transmitted, ()), c, q, x, Inr ())" "ss_shared transmitted = ss_shared idle_session"
    using idle_transmits by blast
  have "ss_shared received = ss_shared idle_session" using receive_shares(2) [OF rx] idle_quiet(4) by simp
  from callbacks_commute [OF rx tx(1) this receive_shares(1) [OF rx] tx(2) transmit_failures [OF tx(1)]] rx
  show ?thesis by blast
qed

end
