(* ===== verification/Session_Create.thy ===== *)
theory Session_Create
  imports Session_Receive_Properties Session_Transmit_Properties
begin

text \<open>
  What \<open>create\<close>, \<open>create_profiled\<close> and \<open>warm\<close> (\<open>src/session.rs\<close>) give: a session that satisfies the
  invariant of both callbacks, with its clocks at zero, its queues empty and PTT off, and no call that
  panics.  The contracts of the provider libraries and of the borrowed ports are stated here once.
\<close>

section \<open>Contracts\<close>

text \<open>A DCS decoder that processes whatever it is given.\<close>

definition dcs_sound :: "('d \<Rightarrow> f32 list \<Rightarrow> 'd \<times> nat \<times> int) \<Rightarrow> bool" where
  "dcs_sound process \<longleftrightarrow> (\<forall>h input. snd (snd (process h input)) = 0)"

lemma dcs_sound_may_fail: "dcs_sound (dr_process c) \<Longrightarrow> \<not> dcs_may_fail c"
  by (simp add: dcs_sound_def dcs_may_fail_def)

text \<open>What a client relies on of the libraries: a decoder is off until it is configured and its audio does
  not switch it, generators give the frames they are asked for, the DCS decoder does not fail, and the
  classifier keeps its own invariant.\<close>

definition providers_ok :: "('n \<Rightarrow> bool) \<Rightarrow> ('s, 'r, 'd, 'h, 'n, 't, 'u) providers \<Rightarrow> bool" where
  "providers_ok I pv \<longleftrightarrow>
     (\<forall>c. ctcss_receive_from_descriptor (pv_ctcss pv) = Some (Inr c) \<longrightarrow> ctcss_configured c \<and> \<not> ctcss_enabled c) \<and>
     (\<forall>c. ctcss_transmit_from_descriptor (pv_ctcss pv) = Some (Inr c) \<longrightarrow> ctcss_tx_sized c) \<and>
     (\<forall>c. dcs_receive_from_descriptor (pv_dcs pv) = Some (Inr c) \<longrightarrow> dcs_sound (dr_process c)) \<and>
     (\<forall>c. dcs_transmit_from_descriptor (pv_dcs pv) = Some (Inr c) \<longrightarrow> dcs_tx_sized c) \<and>
     detector_in I (pv_classifier pv)"

definition ports_ok :: "'w session_ports \<Rightarrow> bool" where
  "ports_ok ports \<longleftrightarrow> receive_ports_sized (spo_ports ports) \<and>
     list_all processor_sized [po_transmit_program (spo_ports ports),
       po_transmit_dcs_normal_filter (spo_ports ports), po_transmit_dcs_turnoff_filter (spo_ports ports)] \<and>
     ring_sized (spo_program_ring ports)"

text \<open>The fields of the configuration as 32-bit counts, with room for the gate of the squelch delay, and a
  CTCSS tail that still fits once it is rounded up.\<close>

definition config_fits :: "session_config \<Rightarrow> bool" where
  "config_fits config \<longleftrightarrow> scf_maximum_receive_frame_count config + 960 \<le> u32_max \<and>
     scf_maximum_transmit_frame_count config \<le> u32_max \<and> scf_publication_interval_ms config \<le> u32_max \<and>
     tcf_ctcss_turnoff_duration_ms (scf_transmit config) \<le> 89478480"

section \<open>The invariant of a session\<close>

text \<open>The detector is what the configuration in force asks for.\<close>

definition rx_built :: "('w, 's, 'r, 'd, 'h, 'n) receive_worker \<Rightarrow> bool" where
  "rx_built worker \<longleftrightarrow>
     (let config = rw_config worker; s = rp_setup (rw_detector worker) in
      ps_baseband_coefficients s = fp_coefficients BASEBAND \<and>
      (\<exists>noise. noise_profile (rcf_noise_filter_profile config) = Some noise \<and>
         ps_noise_coefficients s = fp_coefficients noise) \<and>
      ps_lsd_coefficients s = fp_coefficients (ctcss_profile (rcf_ctcss_tone_mask config)) \<and>
      (ps_center_config s = None \<longleftrightarrow> rcf_ctcss_enabled config = 0) \<and>
      dcs_sound (dr_process (rp_dcs_state (rw_detector worker))))"

lemma rx_built_cong: "rx_build a = rx_build b \<Longrightarrow> rx_built a \<longleftrightarrow> rx_built b"
  by (simp add: rx_build_def rx_built_def)

definition session_ok ::
  "('n \<Rightarrow> bool) \<Rightarrow> ('w, 's, 'r, 'd, 'h, 'n, 't, 'u) session \<Rightarrow> bool" where
  "session_ok I session \<longleftrightarrow> rx_session_ok I session \<and> tx_session_ok session \<and> rx_built (ss_receive session) \<and>
     ss_maximum_frames session = (rw_maximum_frames (ss_receive session), tw_maximum_frames (ss_transmit session))"

text \<open>A session nothing has run on yet.\<close>

definition fresh_session :: "session_config \<Rightarrow> ('w, 's, 'r, 'd, 'h, 'n, 't, 'u) session \<Rightarrow> bool" where
  "fresh_session config session \<longleftrightarrow> \<not> ss_warmed session \<and> \<not> ss_receive_busy session \<and> \<not> ss_transmit_busy session \<and>
     ss_generation_id session = scf_generation_id config \<and>
     rw_sample_index (ss_receive session) = 0 \<and> tw_sample_index (ss_transmit session) = 0 \<and>
     rx_indications (ss_receive session) = (False, False, False, -1, False) \<and>
     \<not> vp_raw (sv_policy (rw_vad (ss_receive session))) \<and> snd (tw_signaling (ss_transmit session)) = ts_default \<and>
     queue_items (ss_receive_events session) = [] \<and> queue_items (ss_transmit_events session) = [] \<and>
     ss_shared session = \<lparr>sh_logical_ptt = False, sh_receiver_blanking_ms = 0\<rparr>"

text \<open>The DCS tail its configuration asks for.\<close>

definition dcs_tail_ms :: "('w, 's, 'r, 'd, 'h, 'n, 't, 'u) session \<Rightarrow> int" where
  "dcs_tail_ms session = dtc_turnoff_duration_ms (tsc_dcs_turnoff (fst (tw_signaling (ss_transmit session))))"

section \<open>Creation never panics\<close>

lemma code_supported_no_panic: "code_supported d code \<noteq> None"
  by (cases d rule: dcs_descriptor_cases) (auto simp: code_supported_def)

lemma transmit_clients_no_panic:
  "ctcss_transmit_from_descriptor c \<noteq> None" "dcs_transmit_from_descriptor d \<noteq> None"
  by (cases c rule: ctcss_descriptor_cases; auto simp: ctcss_transmit_from_descriptor_def created_cases)
    (cases d rule: dcs_descriptor_cases; auto simp: dcs_transmit_from_descriptor_def created_cases)

lemmas no_panic = bind_setup_no_panic bind_fallible_no_panic code_supported_no_panic transmit_clients_no_panic
  receive_path_new_no_panic

lemma receive_config_no_panic: "receive_config_of dcs config \<noteq> None"
proof -
  have "receive_levels_rejected dcs rx a b \<noteq> None" for rx a b
    unfolding receive_levels_rejected_def by (simp del: not_None_eq add: no_panic)
  then show ?thesis
    unfolding receive_config_of_def Let_def by (intro no_panic) (auto simp del: not_None_eq intro!: no_panic)
qed

lemma transmit_config_no_panic: "transmit_config_of dcs config \<noteq> None"
proof -
  have "transmit_levels_rejected dcs config a b \<noteq> None" for a b
    unfolding transmit_levels_rejected_def by (simp del: not_None_eq add: no_panic)
  then show ?thesis
    unfolding transmit_config_of_def by (intro no_panic) (auto simp del: not_None_eq intro!: no_panic)
qed

lemma create_transmit_worker_no_panic:
  "create_transmit_worker pv ports config signaling dcs_on a b \<noteq> None"
  unfolding create_transmit_worker_def Let_def case_prod_beta by (intro no_panic) simp

lemma create_no_panic: "create pv config ports output_null \<noteq> None"
proof -
  have "create_validated pv c p \<noteq> None" for c p
    unfolding create_validated_def case_prod_beta
    by (intro no_panic receive_config_no_panic transmit_config_no_panic create_transmit_worker_no_panic) simp
  then show ?thesis by (auto simp: create_def simp del: not_None_eq split: option.splits)
qed

section \<open>What creation gives\<close>

lemma ctcss_configured_handle: "ctcss_configured (c\<lparr>cr_handle := h\<rparr>) = ctcss_configured c"
  by (simp add: ctcss_configured_def)

lemma configure_dcs_process:
  assumes "configure_dcs config c = Inr c'"
  shows "dr_process c' = dr_process c"
  using assms
  by (auto simp: configure_dcs_def dcs_receive_configure_def bind_result_Inr Let_def split: option.splits prod.splits)

lemma created_detector:
  assumes "receive_path_new path sq (pv_ctcss pv) (pv_dcs pv) = Some (Inr p)" and "providers_ok I pv"
    and "pc_maximum_native_frames path + 960 \<le> u32_max" and "fec_noise_divisor (pc_frontend path) \<noteq> -1"
  obtains hang squelch ctcss dcs where "p = receive_path_of path hang squelch ctcss dcs" and "path_ok p"
    and "dcs_sound (dr_process dcs)"
proof -
  obtain hang squelch c d dcs where b: "\<not> path_config_rejected path"
    "ctcss_receive_from_descriptor (pv_ctcss pv) = Some (Inr c)" "dcs_receive_from_descriptor (pv_dcs pv) = Some (Inr d)"
    "configure_dcs (pc_dcs path) d = Inr dcs"
    "p = receive_path_of path hang squelch
       (case pc_ctcss path of None \<Rightarrow> c | Some x \<Rightarrow> ctcss_configure c (ctc_tone_mask x) (ctc_relax x)) dcs"
    using assms(1) by (auto simp: receive_path_new_def bind_setup_Inr bind_fallible_Inr Let_def split: if_splits)
  let ?c = "case pc_ctcss path of None \<Rightarrow> c | Some x \<Rightarrow> ctcss_configure c (ctc_tone_mask x) (ctc_relax x)"
  have "ctcss_configured ?c" "pc_ctcss path = None \<longrightarrow> \<not> ctcss_enabled ?c"
    using assms(2) b(2) by (auto simp: providers_ok_def ctcss_configure_def ctcss_configured_handle split: option.splits)
  from path_ok_of_config [OF b(1) assms(3,4) this] have "path_ok p" by (simp add: b(5))
  moreover have "dcs_sound (dr_process dcs)"
    using assms(2) b(3) configure_dcs_process [OF b(4)] by (simp add: providers_ok_def)
  ultimately show ?thesis using that b(5) by blast
qed

lemma effective_vad_mode_zero: "effective_vad_mode rx q = 0 \<longleftrightarrow> rcf_vad_mode rx = 0"
  by (simp add: effective_vad_mode_def)

lemma speech_vad_new_shape:
  assumes "speech_vad_new pointer d mode hang_ms frames = Inr v"
  shows "sv_mode v = mode" and "sv_maximum_native_frames v = frames" and "\<not> vp_raw (sv_policy v)"
  using assms by (auto simp: speech_vad_new_def bind_result_Inr policy_new_def split: if_splits)

lemma created_receive_worker:
  assumes "receive_config_of dcs_table config = Some (Inr (path, qualification, saver, ctcss_on, dcs_on))"
    and "detector = receive_path_of path hang squelch ctcss dcs" and "path_ok detector" and "dcs_sound (dr_process dcs)"
    and "speech_vad_new pointer (pv_classifier pv) (effective_vad_mode (scf_receive config) qualification)
      (rcf_vad_hang_ms (scf_receive config)) (scf_maximum_receive_frame_count config) = Inr vad"
    and "providers_ok I pv" and "ports_ok ports" and "config_fits config" and "\<not> create_rejected config ports"
  defines "worker \<equiv> receive_worker_of ports config detector vad qualification saver ctcss_on dcs_on"
  shows "rx_ok I worker" and "rx_built worker" and "rw_maximum_frames worker = scf_maximum_receive_frame_count config"
    and "rw_sample_index worker = 0" and "rx_indications worker = (False, False, False, -1, False)"
    and "\<not> vp_raw (sv_policy (rw_vad worker))"
proof -
  obtain noise source gain threshold relax inverted where p:
    "noise_profile (rcf_noise_filter_profile (scf_receive config)) = Some noise"
    "rcf_ctcss_enabled (scf_receive config) = of_flag ctcss_on"
    "path = session_path_config config noise source gain threshold ctcss_on relax dcs_on inverted"
    using receive_config_of_Inr [OF assms(1)] by metis
  note v = speech_vad_new_shape [OF assms(5)] speech_vad_new_ok [OF assms(5), of I]
  have c: "0 < scf_publication_interval_ms config" "scf_receive_channel config < 2"
    "scf_publication_interval_ms config * 48 \<le> u64_max"
    using assms(8,9) by (auto simp: create_rejected_def config_fits_def CANONICAL_CHANNELS_def u32_max_def u64_max_def Let_def)
  have su: "ps_maximum_native_frames (rp_setup detector) = scf_maximum_receive_frame_count config"
    "rp_dcs_state detector = dcs" "rp_setup detector = path_setup_of path hang"
    by (simp_all add: assms(2) p(3) receive_path_of_def path_setup_of_def session_path_config_def Let_def)
  show "rx_ok I worker"
    using assms(3,6,7) v c su(1)
    by (auto simp: rx_ok_def rx_setup_ok_def rx_buffers_ok_def rx_vad_ok_def worker_def receive_worker_of_def
        ports_ok_def providers_ok_def create_delay_frames_def Let_def)
  show "rx_built worker"
    using assms(4) p(1,2) su(2,3)
    by (auto simp: rx_built_def worker_def receive_worker_of_def p(3) path_setup_of_def session_path_config_def
        session_frontend_def then_some_def of_flag_def Let_def)
  show "rw_maximum_frames worker = scf_maximum_receive_frame_count config" "rw_sample_index worker = 0"
    "rx_indications worker = (False, False, False, -1, False)" "\<not> vp_raw (sv_policy (rw_vad worker))"
    using v(3) by (simp_all add: worker_def receive_worker_of_def rx_indications_def Let_def)
qed

lemma ts_new_Inr: "ts_new config = Inr t \<Longrightarrow> t = (config, ts_default) \<and> ts_validate_config config = Inr ()"
  by (auto simp: ts_new_def bind_result_Inr)

lemma created_transmit_worker:
  assumes "create_transmit_worker pv ports config signaling dcs_on a b = Some (Inr worker)"
    and "config_ok (fst signaling)" and "snd signaling = ts_default"
    and "providers_ok I pv" and "ports_ok ports" and "config_fits config" and "\<not> create_rejected config ports"
  shows "tx_ok worker" and "tw_maximum_frames worker = scf_maximum_transmit_frame_count config"
    and "tw_sample_index worker = 0" and "tw_signaling worker = signaling"
proof -
  obtain ctcss_tx dcs where w: "worker = transmit_worker_of ports config signaling dcs_on a b ctcss_tx dcs"
    "ctcss_tx_sized ctcss_tx" "dcs_tx_sized dcs"
    using assms(1,4)
    by (auto simp: create_transmit_worker_def providers_ok_def bind_fallible_Inr bind_setup_Inr dcs_tx_sized_def
        dcs_transmit_configure_def Let_def split: prod.splits)
  have c: "0 < scf_publication_interval_ms config" "scf_publication_interval_ms config * 48 \<le> u64_max"
    "scf_maximum_transmit_frame_count config \<le> u32_max"
    using assms(6,7) by (auto simp: create_rejected_def config_fits_def u32_max_def u64_max_def Let_def)
  show "tx_ok worker"
    using assms(2,3,5) w c ts_default_wf [of "fst signaling"]
    by (simp add: tx_ok_def tx_setup_ok_def tx_buffers_ok_def transmit_worker_of_def ports_ok_def Let_def)
  show "tw_maximum_frames worker = scf_maximum_transmit_frame_count config" "tw_sample_index worker = 0"
    "tw_signaling worker = signaling"
    by (simp_all add: w(1) transmit_worker_of_def Let_def)
qed

lemma recoded_Inr: "(case r of Inl _ \<Rightarrow> Inl e | Inr t \<Rightarrow> Inr t) = Inr u \<longleftrightarrow> r = Inr u"
  by (cases r) auto

lemma created_session:
  assumes "create_validated pv config ports = Some (Inr session)" and "\<not> create_rejected config ports"
    and "scf_native_sample_rate_hz config = NATIVE_SAMPLE_RATE_HZ"
    and "providers_ok I pv" and "ports_ok ports" and "config_fits config"
  shows "session_ok I session" and "fresh_session config session"
    and "ss_maximum_frames session = (scf_maximum_receive_frame_count config, scf_maximum_transmit_frame_count config)"
    and "ss_profile session = None" and "dcs_tail_ms session = tcf_dcs_turnoff_duration_ms (scf_transmit config)"
proof -
  obtain path q saver ctcss_on dcs_on detector signaling tx_dcs_on a b vad tw st where c:
    "receive_config_of (pv_dcs pv) config = Some (Inr (path, q, saver, ctcss_on, dcs_on))"
    "receive_path_new path (pv_squelch pv) (pv_ctcss pv) (pv_dcs pv) = Some (Inr detector)"
    "transmit_config_of (pv_dcs pv) (scf_transmit config) = Some (Inr (signaling, tx_dcs_on, a, b))"
    "ts_new signaling = Inr st"
    "speech_vad_new (pv_samplerate pv) (pv_classifier pv) (effective_vad_mode (scf_receive config) q)
      (rcf_vad_hang_ms (scf_receive config)) (scf_maximum_receive_frame_count config) = Inr vad"
    "create_transmit_worker pv ports config st tx_dcs_on a b = Some (Inr tw)"
    "session = create_session config ports (receive_worker_of ports config detector vad q saver ctcss_on dcs_on) tw"
    using assms(1)
    by (auto simp: create_validated_def bind_fallible_Inr bind_setup_Inr recoded_Inr Let_def)
  have "pc_maximum_native_frames path = scf_maximum_receive_frame_count config"
    using receive_config_of_Inr [OF c(1)] by (metis session_path_config_def path_config.select_convs(2))
  then have "pc_maximum_native_frames path + 960 \<le> u32_max" using assms(6) by (simp add: config_fits_def)
  moreover have "fec_noise_divisor (pc_frontend path) \<noteq> -1"
  proof -
    obtain noise source gain threshold relax inverted where
      "noise_profile (rcf_noise_filter_profile (scf_receive config)) = Some noise"
      "path = session_path_config config noise source gain threshold ctcss_on relax dcs_on inverted"
      using receive_config_of_Inr [OF c(1)] by metis
    then show ?thesis
      by (auto simp: session_path_config_def session_frontend_def noise_profile_def Let_def split: if_splits)
  qed
  ultimately obtain hang squelch ctcss dcs where d: "detector = receive_path_of path hang squelch ctcss dcs"
      "path_ok detector" "dcs_sound (dr_process dcs)"
    using created_detector [OF c(2) assms(4)] by metis
  note rx = created_receive_worker [OF c(1) d c(5) assms(4,5,6,2)]
  have st: "fst st = signaling" "snd st = ts_default" "config_ok (fst st)"
    "dtc_turnoff_duration_ms (tsc_dcs_turnoff (fst st)) = tcf_dcs_turnoff_duration_ms (scf_transmit config)"
  proof -
    show "fst st = signaling" "snd st = ts_default" using ts_new_Inr [OF c(4)] by auto
    have "crc_turnoff_duration_ms (tsc_ctcss_render signaling) = tcf_ctcss_turnoff_duration_ms (scf_transmit config)"
      and dcs: "dtc_turnoff_duration_ms (tsc_dcs_turnoff signaling) = tcf_dcs_turnoff_duration_ms (scf_transmit config)"
      using c(3) by (auto simp: transmit_config_of_def session_signaling_def bind_fallible_Inr bind_setup_Inr split: if_splits)
    then show "config_ok (fst st)" "dtc_turnoff_duration_ms (tsc_dcs_turnoff (fst st)) =
        tcf_dcs_turnoff_duration_ms (scf_transmit config)"
      using ts_new_Inr [OF c(4)] assms(6) by (auto simp: config_ok_def tail_fits_def config_fits_def)
  qed
  note tx = created_transmit_worker [OF c(6) st(3,2) assms(4,5,6,2)]
  have ring: "ring_sized (spo_program_ring ports)" using assms(5) by (simp add: ports_ok_def)
  show "session_ok I session"
    using rx(1,2,3) tx(1,2) ring queue_wf_new(1)
    by (simp add: session_ok_def rx_session_ok_def tx_session_ok_def c(7) create_session_def)
  show "fresh_session config session"
    using rx(4,5,6) tx(3,4) st(2) queue_wf_new
    by (simp add: fresh_session_def c(7) create_session_def)
  show "ss_maximum_frames session = (scf_maximum_receive_frame_count config, scf_maximum_transmit_frame_count config)"
    by (simp add: c(7) create_session_def)
  show "ss_profile session = None" "dcs_tail_ms session = tcf_dcs_turnoff_duration_ms (scf_transmit config)"
    using tx(4) st(4) by (simp_all add: dcs_tail_ms_def c(7) create_session_def)
qed

lemma create_spec:
  assumes "create pv config ports output_null = Some (Inr session)" and "providers_ok I pv"
    and "\<forall>c p. config = Some c \<and> ports = Some p \<longrightarrow> config_fits c \<and> ports_ok p"
  obtains c p where "config = Some c" and "ports = Some p" and "\<not> output_null" and "session_ok I session"
    and "fresh_session c session"
    and "ss_maximum_frames session = (scf_maximum_receive_frame_count c, scf_maximum_transmit_frame_count c)"
    and "ss_profile session = None" and "dcs_tail_ms session = tcf_dcs_turnoff_duration_ms (scf_transmit c)"
proof -
  obtain c p where o: "config = Some c" "ports = Some p" "\<not> output_null" "\<not> create_rejected c p"
    "scf_native_sample_rate_hz c = NATIVE_SAMPLE_RATE_HZ" "create_validated pv c p = Some (Inr session)"
    using assms(1) by (auto simp: create_def split: if_splits option.splits)
  from created_session [OF o(6,4,5) assms(2)] show ?thesis using that o(1-3) assms(3) by blast
qed

section \<open>Warming\<close>

lemma warm_processor_lengths:
  assumes "processor_sized port" and "length input = frames" and "length scratch = frames"
  shows "length (fst (fst (warm_processor port frames input (scratch, w)))) = frames"
proof -
  have whole: "take frames input = input" "take frames scratch = scratch" using assms by simp_all
  obtain w1 s1 where p: "warm_port port frames w = (w1, s1)" by fastforce
  obtain w2 audio s2 where r: "run_processor port input scratch w1 = ((w2, audio), s2)"
    by (metis prod.exhaust)
  have "length input = length scratch" using assms by simp
  from run_processor_spec [OF assms(1) this, of w1, unfolded r] have "length audio = frames"
    using assms(3) by (cases s2) auto
  then show ?thesis using assms(3) by (cases s1) (auto simp: warm_processor_def p r whole write_span_def)
qed

lemma warm_chain_lengths:
  assumes "list_all processor_sized ports" and "length input = frames" and "length scratch = frames"
  shows "length (fst (fst (fst (warm_chain frames ports ((input, scratch), w))))) = frames \<and>
    length (snd (fst (fst (warm_chain frames ports ((input, scratch), w))))) = frames"
  using assms
proof (induction ports arbitrary: input scratch w)
  case (Cons port ports)
  obtain s1 w1 r1 where p: "warm_processor port frames input (scratch, w) = ((s1, w1), r1)" by (metis prod.exhaust)
  have "length s1 = frames" using warm_processor_lengths [of port input frames scratch w] Cons.prems by (simp add: p)
  then show ?case using Cons by (cases r1) (simp_all add: p)
qed simp

lemma warm_bank_lengths:
  assumes "list_all processor_sized ports" and "length input = frames" and "length scratch = frames"
  shows "length (fst (fst (fst (warm_bank frames ports ((input, scratch), w))))) = frames \<and>
    length (snd (fst (fst (warm_bank frames ports ((input, scratch), w))))) = frames"
  using assms
proof (induction ports arbitrary: input scratch w)
  case (Cons port ports)
  obtain s1 w1 r1 where p: "warm_processor port frames input (scratch, w) = ((s1, w1), r1)" by (metis prod.exhaust)
  have "length s1 = frames" using warm_processor_lengths [of port input frames scratch w] Cons.prems by (simp add: p)
  then show ?case using Cons by (cases r1) (simp_all add: p)
qed simp

lemma warm_receive_spec:
  assumes "rx_ok I worker"
  shows "\<exists>input scratch w' status. warm_receive worker w =
      ((worker\<lparr>rw_input_mono := input, rw_work_a := scratch\<rparr>, w'), status) \<and>
    rx_ok I (worker\<lparr>rw_input_mono := input, rw_work_a := scratch\<rparr>)"
proof -
  let ?n = "rw_maximum_frames worker" and ?ports = "rw_ports worker"
  have ok: "receive_ports_sized ?ports" "length (rw_input_mono worker) = ?n" "length (rw_work_a worker) = ?n"
    "?n + 960 \<le> u32_max"
    using assms path_okD(1) [of "rw_detector worker"]
    by (auto simp: rx_ok_def rx_setup_ok_def rx_buffers_ok_def setup_ok_def)
  have frames: "as_u32 ?n = ?n" using ok(4) by (simp add: as_u32_def u32_max_def)
  let ?q = "replicate ?n fp_zero"
  obtain i1 s1 w1 r1 where c: "warm_chain ?n [po_receive_deemphasis ?ports, po_receive_filter ?ports,
      po_receive_noise_reduction ?ports, po_receive_dynamics ?ports] ((?q, rw_work_a worker), w) = (((i1, s1), w1), r1)"
    by (metis prod.exhaust)
  have l1: "length i1 = ?n" "length s1 = ?n"
    using warm_chain_lengths [of "[po_receive_deemphasis ?ports, po_receive_filter ?ports, po_receive_noise_reduction ?ports,
        po_receive_dynamics ?ports]" ?q ?n "rw_work_a worker" w] ok
    by (simp_all add: c receive_ports_sized_def del: warm_chain.simps)
  obtain i2 s2 w2 r2 where b: "warm_bank ?n (po_receive_ctcss_notch ?ports @ [po_receive_ctcss_tail_notch ?ports])
      ((?q, s1), w1) = (((i2, s2), w2), r2)" by (metis prod.exhaust)
  have l2: "length i2 = ?n" "length s2 = ?n"
    using warm_bank_lengths [of "po_receive_ctcss_notch ?ports @ [po_receive_ctcss_tail_notch ?ports]" ?q ?n s1 w1] ok(1) l1
    by (simp_all add: b receive_ports_sized_def del: warm_bank.simps)
  have kept: "length i = ?n \<Longrightarrow> length s = ?n \<Longrightarrow> rx_ok I (worker\<lparr>rw_input_mono := i, rw_work_a := s\<rparr>)" for i s
    using assms by (auto simp: rx_ok_def rx_setup_ok_def rx_buffers_ok_def rx_vad_ok_def)
  show ?thesis
    using kept [OF l1] kept [OF l2] ok(2) by (cases r1) (auto simp: warm_receive_def frames c b Let_def simp del: warm_chain.simps warm_bank.simps)
qed

lemma warm_transmit_spec:
  assumes "tx_ok worker"
  shows "\<exists>program processed w' status. warm_transmit worker w =
      ((worker\<lparr>tw_program := program, tw_processed := processed\<rparr>, w'), status) \<and>
    tx_ok (worker\<lparr>tw_program := program, tw_processed := processed\<rparr>)"
proof -
  let ?n = "tw_maximum_frames worker" and ?ports = "tw_ports worker"
  have ok: "list_all processor_sized [po_transmit_program ?ports, po_transmit_dcs_normal_filter ?ports,
      po_transmit_dcs_turnoff_filter ?ports]" "length (tw_program worker) = ?n" "length (tw_processed worker) = ?n"
      "?n \<le> u32_max"
    using assms by (auto simp: tx_ok_def tx_setup_ok_def tx_buffers_ok_def)
  have frames: "as_u32 ?n = ?n" using ok(4) by (simp add: as_u32_def u32_max_def)
  obtain i1 s1 w1 r1 where c: "warm_chain ?n [po_transmit_program ?ports, po_transmit_dcs_normal_filter ?ports,
      po_transmit_dcs_turnoff_filter ?ports] ((replicate ?n fp_zero, tw_processed worker), w) = (((i1, s1), w1), r1)"
    by (metis prod.exhaust)
  have l1: "length i1 = ?n" "length s1 = ?n"
    using warm_chain_lengths [OF ok(1), of "replicate ?n fp_zero" ?n "tw_processed worker" w] ok(3)
    by (simp_all add: c del: warm_chain.simps)
  have "tx_ok (worker\<lparr>tw_program := i1, tw_processed := s1\<rparr>)"
    using assms l1 by (auto simp: tx_ok_def tx_setup_ok_def tx_buffers_ok_def)
  then show ?thesis using ok(2) by (auto simp: warm_transmit_def frames c Let_def simp del: warm_chain.simps)
qed

text \<open>What warming leaves of a session: everything but the buffers the processors were run on.\<close>

definition warm_keeps where
  "warm_keeps session session' \<longleftrightarrow>
     (\<exists>input scratch program processed warmed. session' = session\<lparr>
        ss_receive := ss_receive session\<lparr>rw_input_mono := input, rw_work_a := scratch\<rparr>,
        ss_transmit := ss_transmit session\<lparr>tw_program := program, tw_processed := processed\<rparr>,
        ss_warmed := warmed\<rparr>)"

lemma warm_spec:
  assumes "session_ok I session"
  shows "\<exists>session' w' status. warm session w = ((session', w'), status) \<and> session_ok I session' \<and>
    warm_keeps session session' \<and> ss_warmed session' = (ss_warmed session \<or> status = Inr ())"
proof (cases "ss_warmed session \<or> ss_receive_busy session \<or> ss_transmit_busy session")
  case True
  have "warm_keeps session session"
    unfolding warm_keeps_def
    by (rule exI [of _ "rw_input_mono (ss_receive session)"], rule exI [of _ "rw_work_a (ss_receive session)"],
        rule exI [of _ "tw_program (ss_transmit session)"], rule exI [of _ "tw_processed (ss_transmit session)"],
        rule exI [of _ "ss_warmed session"]) simp
  then show ?thesis using True assms by (cases "ss_warmed session") (simp_all add: warm_def)
next
  case False
  have ok: "rx_ok I (ss_receive session)" "tx_ok (ss_transmit session)" "rx_built (ss_receive session)"
    using assms by (simp_all add: session_ok_def rx_session_ok_def tx_session_ok_def)
  obtain i s w1 r1 where rx: "warm_receive (ss_receive session) w =
      ((ss_receive session\<lparr>rw_input_mono := i, rw_work_a := s\<rparr>, w1), r1)"
      "rx_ok I (ss_receive session\<lparr>rw_input_mono := i, rw_work_a := s\<rparr>)"
    using warm_receive_spec [OF ok(1), of w] by blast
  obtain p q w2 r2 where tx: "warm_transmit (ss_transmit session) w1 =
      ((ss_transmit session\<lparr>tw_program := p, tw_processed := q\<rparr>, w2), r2)"
      "tx_ok (ss_transmit session\<lparr>tw_program := p, tw_processed := q\<rparr>)"
    using warm_transmit_spec [OF ok(2), of w1] by blast
  obtain w3 r3 where ring: "warm_ring (ss_program_ring session) (as_u32 (tw_maximum_frames (ss_transmit session))) w2 = (w3, r3)"
    by fastforce
  let ?a = "session\<lparr>ss_receive := ss_receive session\<lparr>rw_input_mono := i, rw_work_a := s\<rparr>\<rparr>"
  let ?b = "?a\<lparr>ss_transmit := ss_transmit session\<lparr>tw_program := p, tw_processed := q\<rparr>\<rparr>"
  have run: "warm session w = (case (r1, r2, r3) of
      (Inl e, _, _) \<Rightarrow> ((?a, w1), Inl e) | (_, Inl e, _) \<Rightarrow> ((?b, w2), Inl e) | (_, _, Inl e) \<Rightarrow> ((?b, w3), Inl e)
    | _ \<Rightarrow> ((?b\<lparr>ss_warmed := True\<rparr>, w3), Inr ()))"
    using False rx(1) tx(1) ring by (cases r1; cases r2; cases r3) (simp_all add: warm_def)
  have built: "rx_built (ss_receive session\<lparr>rw_input_mono := i, rw_work_a := s\<rparr>)"
    using ok(3) by (simp add: rx_built_def)
  have oks: "session_ok I ?a" "session_ok I ?b" "session_ok I (?b\<lparr>ss_warmed := True\<rparr>)"
    using assms rx(2) tx(2) built by (simp_all add: session_ok_def rx_session_ok_def tx_session_ok_def)
  have keeps: "warm_keeps session ?a" "warm_keeps session ?b" "warm_keeps session (?b\<lparr>ss_warmed := True\<rparr>)"
    unfolding warm_keeps_def
    by (rule exI [of _ i], rule exI [of _ s], rule exI [of _ "tw_program (ss_transmit session)"],
        rule exI [of _ "tw_processed (ss_transmit session)"], rule exI [of _ "ss_warmed session"], simp)
      (rule exI [of _ i], rule exI [of _ s], rule exI [of _ p], rule exI [of _ q], rule exI [of _ "ss_warmed session"], simp,
       rule exI [of _ i], rule exI [of _ s], rule exI [of _ p], rule exI [of _ q], rule exI [of _ True], simp)
  show ?thesis
    using False oks keeps by (cases r1; cases r2; cases r3) (simp_all add: run)
qed

section \<open>What creation answers\<close>

text \<open>The errors a setup call reports.\<close>

definition setup_errors :: "'a fallible \<Rightarrow> bool" where
  "setup_errors m \<longleftrightarrow> (\<forall>e. m = Some (Inl e) \<longrightarrow> e \<in> {INVALID_ARGUMENT, UNSUPPORTED, PROVIDER_FAILED})"

lemma setup_errors_bind:
  "(\<And>e. r = Inl e \<Longrightarrow> e \<in> {INVALID_ARGUMENT, UNSUPPORTED, PROVIDER_FAILED}) \<Longrightarrow> (\<And>a. setup_errors (f a)) \<Longrightarrow>
    setup_errors (bind_setup r f)"
  "setup_errors m \<Longrightarrow> (\<And>a. setup_errors (f a)) \<Longrightarrow> setup_errors (bind_fallible m f)"
  "setup_errors (Some (Inr a))" "setup_errors (Some (Inl INVALID_ARGUMENT))" "setup_errors (Some (Inl UNSUPPORTED))"
  by (auto simp: setup_errors_def bind_fallible_def bind_setup_def split: sum.splits option.splits)

lemma client_errors:
  "setup_errors (ctcss_receive_from_descriptor c) \<and> setup_errors (ctcss_transmit_from_descriptor c)"
  "setup_errors (dcs_receive_from_descriptor d) \<and> setup_errors (dcs_transmit_from_descriptor d) \<and>
    setup_errors (code_supported d code)"
proof (goal_cases)
  case 1
  show ?case
    by (cases c rule: ctcss_descriptor_cases)
      (auto simp: setup_errors_def ctcss_receive_from_descriptor_def ctcss_transmit_from_descriptor_def created_cases
        split: if_splits)
next
  case 2
  show ?case
    by (cases d rule: dcs_descriptor_cases)
      (auto simp: setup_errors_def dcs_receive_from_descriptor_def dcs_transmit_from_descriptor_def
        code_supported_def created_cases split: if_splits)
qed

lemma levels_errors:
  "setup_errors (receive_levels_rejected dcs rx a b)" "setup_errors (transmit_levels_rejected dcs tx a b)"
  using client_errors(2) [of dcs]
  by (simp_all add: receive_levels_rejected_def transmit_levels_rejected_def setup_errors_bind)

lemma scalar_errors:
  "bool32 v = Inl e \<Longrightarrow> e = INVALID_ARGUMENT" "q8_gain x = Inl e \<Longrightarrow> e = INVALID_ARGUMENT"
  "try_i16 i = Inl e \<Longrightarrow> e = INVALID_ARGUMENT" "carrier_source_of v = Inl e \<Longrightarrow> e = INVALID_ARGUMENT"
  "subaudible_source_of v = Inl e \<Longrightarrow> e = INVALID_ARGUMENT" "tone_off_mode_of v = Inl e \<Longrightarrow> e = INVALID_ARGUMENT"
  "output_route_parse v = Inl e \<Longrightarrow> e = INVALID_ARGUMENT" "vox_hang_frames vox = Inl e \<Longrightarrow> e = INVALID_ARGUMENT"
  by (auto simp: bool32_def q8_gain_def try_i16_def carrier_source_of_def subaudible_source_of_def tone_off_mode_of_def
      output_route_parse_def vox_hang_frames_def split: if_splits option.splits)

lemma bind_result_Inl: "bind_result r f = Inl e \<longleftrightarrow> r = Inl e \<or> (\<exists>a. r = Inr a \<and> f a = Inl e)"
  by (cases r) (auto simp: bind_result_def)

lemma qualification_of_errors: "qualification_of source q = Inl e \<Longrightarrow> e = INVALID_ARGUMENT"
  by (auto simp: qualification_of_def bind_result_Inl dest: scalar_errors)

lemma setup_bind_invalid:
  "(\<And>e. r = Inl e \<Longrightarrow> e = INVALID_ARGUMENT) \<Longrightarrow> (\<And>a. setup_errors (f a)) \<Longrightarrow> setup_errors (bind_setup r f)"
  by (rule setup_errors_bind(1)) auto

lemma receive_config_errors: "setup_errors (receive_config_of dcs config)"
  unfolding receive_config_of_def Let_def
  by (intro setup_bind_invalid setup_errors_bind(2) levels_errors)
    (auto dest: scalar_errors qualification_of_errors split: option.splits
      intro!: setup_bind_invalid setup_errors_bind(3,4))

lemma transmit_config_errors: "setup_errors (transmit_config_of dcs config)"
  unfolding transmit_config_of_def
  by (intro setup_bind_invalid setup_errors_bind(2) levels_errors)
    (auto dest: scalar_errors intro!: setup_bind_invalid setup_errors_bind(3,4))

lemma provider_result_errors:
  "squelch_from_descriptor sq = Inl e \<Longrightarrow> e \<in> {INVALID_ARGUMENT, UNSUPPORTED, PROVIDER_FAILED}"
  "configure_dcs config dcs = Inl e \<Longrightarrow> e \<in> {INVALID_ARGUMENT, UNSUPPORTED, PROVIDER_FAILED}"
  "snd (dcs_transmit_configure c code inverted) = Inl e \<Longrightarrow> e \<in> {INVALID_ARGUMENT, UNSUPPORTED, PROVIDER_FAILED}"
  "src_from_descriptor sr n = Inl e \<Longrightarrow> e \<in> {INVALID_ARGUMENT, UNSUPPORTED, PROVIDER_FAILED}"
  "snd (active_rearm a) = Inl e \<Longrightarrow> e \<in> {INVALID_ARGUMENT, UNSUPPORTED, PROVIDER_FAILED}"
  by (auto simp: squelch_from_descriptor_def configure_dcs_def dcs_receive_configure_def dcs_transmit_configure_def
      src_from_descriptor_def active_rearm_def src_client_reset_def created_def bind_result_Inl Let_def
      split: if_splits option.splits prod.splits sum.splits)

lemma speech_vad_errors:
  assumes "speech_vad_new sr d mode hang frames = Inl e"
  shows "e \<in> {INVALID_ARGUMENT, UNSUPPORTED, PROVIDER_FAILED}"
  using assms
  by (auto simp: speech_vad_new_def active_new_def bind_result_Inl Let_def case_prod_beta split: if_splits
      dest: provider_result_errors(4,5))

lemma receive_path_errors: "setup_errors (receive_path_new path sq ct dc)"
  unfolding receive_path_new_def Let_def
  using client_errors(1) [of ct] client_errors(2) [of dc] by (auto intro!: setup_errors_bind dest: scalar_errors provider_result_errors)

lemma transmit_worker_errors: "setup_errors (create_transmit_worker pv ports config signaling on a b)"
  unfolding create_transmit_worker_def Let_def case_prod_beta
  using client_errors(1) [of "pv_ctcss pv"] client_errors(2) [of "pv_dcs pv"]
  by (auto intro!: setup_errors_bind dest: provider_result_errors)

lemma create_errors: "setup_errors (create pv config ports output_null)"
proof -
  have "setup_errors (create_validated pv c p)" for c p
    unfolding create_validated_def case_prod_beta
    by (intro setup_errors_bind receive_config_errors transmit_config_errors receive_path_errors transmit_worker_errors)
      (auto dest: speech_vad_errors split: sum.splits)
  then show ?thesis by (auto simp: create_def setup_errors_bind split: option.splits)
qed

section \<open>The property\<close>

text \<open>Provider tables of the clients the other samples use, and a session they create.\<close>

definition supported_prefix :: "nat \<Rightarrow> nat \<Rightarrow> string \<Rightarrow> descriptor_prefix" where
  "supported_prefix version bytes name = \<lparr>dp_struct_size = bytes, dp_abi_version = version, dp_capability_name = Some name\<rparr>"

definition squelch_table_sample :: "unit squelch_descriptor" where
  "squelch_table_sample = \<lparr>sd_prefix = supported_prefix SQUELCH_ABI_VERSION SQUELCH_DESCRIPTOR_SIZE SQUELCH_CAPABILITY_NAME,
     sd_create = Some (0, Some ()), sd_destroy = Some (\<lambda>h. ()), sd_noise_update = Some (\<lambda>h was p level hysteresis. (h, 0)),
     sd_vox_advance = Some (\<lambda>h offset qualified hang. h), sd_vox_finish = Some (\<lambda>h frames. (h, 0))\<rparr>"

definition ctcss_table_sample :: "(unit, unit) ctcss_descriptor" where
  "ctcss_table_sample = \<lparr>cd_prefix = supported_prefix CTCSS_ABI_VERSION CTCSS_DESCRIPTOR_SIZE CTCSS_CAPABILITY_NAME,
     cd_rx_create = Some (0, Some ()), cd_rx_destroy = Some (\<lambda>h. ()), cd_rx_configure = Some (\<lambda>h mask relax. h),
     cd_rx_enabled = Some (\<lambda>h. 0), cd_rx_decoded = Some (\<lambda>h. -1), cd_rx_tail_tone_active = Some (\<lambda>h. 0),
     cd_rx_clear_tail_on_carrier_loss = Some (\<lambda>h carrier. h), cd_rx_process = Some (\<lambda>h samples carrier. (h, -1)),
     cd_tx_create = Some (0, Some ()), cd_tx_destroy = Some (\<lambda>h. ()), cd_legacy_frequency = Some (\<lambda>f. f),
     cd_tx_generate = Some (\<lambda>h frames frequency peak on shift. (h, replicate frames fp_zero))\<rparr>"

definition dcs_table_sample :: "(unit, unit) dcs_descriptor" where
  "dcs_table_sample = \<lparr>dd_prefix = supported_prefix DCS_ABI_VERSION DCS_DESCRIPTOR_SIZE DCS_CAPABILITY_NAME,
     dd_code_supported = Some (\<lambda>code. 1), dd_configured_code = Some (\<lambda>code. code),
     dd_receive_create = Some (0, Some ()), dd_receive_destroy = Some (\<lambda>h. ()),
     dd_receive_configure = Some (\<lambda>h code inverted. (h, 0)), dd_receive_valid = Some (\<lambda>h. 0),
     dd_receive_enabled = Some (\<lambda>h. 0), dd_receive_process = Some (\<lambda>h samples. (h, 0, 0)),
     dd_transmit_create = Some (0, Some ()), dd_transmit_destroy = Some (\<lambda>h. ()),
     dd_transmit_configure = Some (\<lambda>h code inverted. (h, 0)),
     dd_transmit_update_config_from = Some (\<lambda>h prepared. (h, 0)),
     dd_transmit_generate = Some (\<lambda>h frames peak on turnoff. ((h, replicate frames fp_zero), 0))\<rparr>"

definition providers_sample :: "(unit, unit, unit, unit, unit, unit, unit) providers" where
  "providers_sample = \<lparr>pv_squelch = Some squelch_table_sample, pv_ctcss = Some ctcss_table_sample,
     pv_dcs = Some dcs_table_sample, pv_samplerate = None, pv_classifier = detector_sample\<rparr>"

lemma prefix_supported_sample [simp]: "prefix_supported version bytes name (supported_prefix version bytes name)"
  by (simp add: prefix_supported_def supported_prefix_def)

lemma clients_sample:
  "ctcss_receive_from_descriptor (Some ctcss_table_sample) = Some (Inr ctcss_off)"
  "ctcss_transmit_from_descriptor (Some ctcss_table_sample) = Some (Inr ctcss_tx_sample)"
  "dcs_receive_from_descriptor (Some dcs_table_sample) = Some (Inr dcs_off)"
  "dcs_transmit_from_descriptor (Some dcs_table_sample) = Some (Inr dcs_tx_sample)"
  "\<exists>c. squelch_from_descriptor (Some squelch_table_sample) = Inr c"
  by (simp_all add: ctcss_receive_from_descriptor_def ctcss_transmit_from_descriptor_def ctcss_descriptor_valid_def
      ctcss_table_sample_def dcs_receive_from_descriptor_def dcs_transmit_from_descriptor_def dcs_descriptor_valid_def
      dcs_table_sample_def squelch_from_descriptor_def squelch_table_sample_def created_def ctcss_off_def
      ctcss_tx_sample_def dcs_off_def dcs_tx_sample_def)

lemma providers_ok_sample: "providers_ok (\<lambda>_. True) providers_sample"
  by (simp add: providers_ok_def providers_sample_def clients_sample ctcss_configured_def ctcss_enabled_def ctcss_off_def
      ctcss_tx_sized_def ctcss_tx_sample_def dcs_sound_def dcs_off_def dcs_tx_sized_def dcs_tx_sample_def
      detector_in_def detector_keeps_def)

lemma ports_ok_sample: "ports_ok session_ports_sample"
  by (simp add: ports_ok_def session_ports_sample_def ports_sample_def receive_ports_sized_def processor_sized_def
      processor_port_default_def ring_sized_def ring_port_default_def list_all_iff)

lemma config_fits_sample: "config_fits config_sample"
  by (simp add: config_fits_def config_sample_def session_config_sample_def transmit_config_default_def u32_max_def)

lemma q8_gain_zero: "q8_gain fp_zero = Inr 0"
  by code_simp

lemma fp_zero_unit: "unit_interval fp_zero"
  by code_simp

lemma config_sample_accepted:
  "\<not> create_rejected config_sample session_ports_sample"
  "\<exists>path q. receive_config_of dcs config_sample = Some (Inr (path, q, False, False, False)) \<and>
     rcf_vad_mode (scf_receive config_sample) = 0"
  "\<exists>signaling. transmit_config_of dcs (scf_transmit config_sample) = Some (Inr (signaling, False, Disabled, Disabled)) \<and>
     ts_validate_config signaling = Inr ()"
  subgoal
    by (simp add: create_rejected_def config_sample_def session_config_sample_def session_ports_sample_def
        SESSION_CONFIG_SIZE_def SESSION_PORTS_SIZE_def ABI_VERSION_def receive_config_default_def
        transmit_config_default_def CANONICAL_CHANNELS_def fp_zero_def signed_def Let_def)
  subgoal
    by (simp add: receive_config_of_def config_sample_def session_config_sample_def receive_config_default_def
        noise_profile_def bool32_def q8_gain_zero try_i16_def in_i16_def carrier_source_of_def
        receive_levels_rejected_def MAX_SIGNED_PCM_LEVEL_def bind_fallible_def qualification_of_def
        subaudible_source_of_def Let_def)
  subgoal
    by (simp add: transmit_config_of_def config_sample_def session_config_sample_def transmit_config_default_def
        transmit_levels_rejected_def bool32_def fp_zero_unit bind_fallible_def tone_off_mode_of_def output_route_parse_def
        session_signaling_def ts_validate_config_def component_def signal_mode_validate_config_def
        ctcss_render_validate_config_def tx_complete_validate_config_def fp_zero_unit [unfolded fp_zero_def] fp_zero_def
        TONE_COUNT_def list_ex_iff Let_def)
  done

lemma create_sample:
  "\<exists>session. create providers_sample (Some config_sample) (Some session_ports_sample) False = Some (Inr session)"
proof -
  obtain path q where rx: "receive_config_of (Some dcs_table_sample) config_sample = Some (Inr (path, q, False, False, False))"
    "rcf_vad_mode (scf_receive config_sample) = 0"
    using config_sample_accepted(2) by blast
  obtain signaling where tx: "transmit_config_of (Some dcs_table_sample) (scf_transmit config_sample) =
      Some (Inr (signaling, False, Disabled, Disabled))" "ts_validate_config signaling = Inr ()"
    using config_sample_accepted(3) by blast
  obtain sq where sq: "squelch_from_descriptor (Some squelch_table_sample) = Inr sq" using clients_sample(5) by blast
  obtain noise source gain threshold relax inverted where
    p: "path = session_path_config config_sample noise source gain threshold False relax False inverted"
    "noise_profile (rcf_noise_filter_profile (scf_receive config_sample)) = Some noise"
    using receive_config_of_Inr [OF rx(1)] by metis
  have rate: "scf_native_sample_rate_hz config_sample = NATIVE_SAMPLE_RATE_HZ"
    "scf_interleaved_channels config_sample = CANONICAL_CHANNELS" "0 < scf_maximum_receive_frame_count config_sample"
    "rcf_vad_hang_ms (scf_receive config_sample) = 1000" "rcf_vox_hang_ms (scf_receive config_sample) = 0"
    by (simp_all add: config_sample_def session_config_sample_def receive_config_default_def NATIVE_SAMPLE_RATE_HZ_def
        CANONICAL_CHANNELS_def)
  have "\<not> path_config_rejected path"
    using noise_profile_fits [OF p(2)] stage_profile_fits rate(1,3)
    by (simp add: p(1) path_config_rejected_def session_path_config_def session_frontend_def valid_filter_def
        then_some_def NATIVE_SAMPLE_RATE_HZ_def BASE_SAMPLE_RATE_HZ_def Let_def)
  then have path: "\<exists>d. receive_path_new path (Some squelch_table_sample) (Some ctcss_table_sample) (Some dcs_table_sample) =
      Some (Inr d)"
    using rate(5)
    by (simp add: receive_path_new_def clients_sample sq bind_fallible_def configure_dcs_def p(1) session_path_config_def
        then_some_def vox_hang_frames_def Let_def)
  have vad: "\<exists>v. speech_vad_new (None :: unit samplerate_descriptor option) detector_sample 0 (rcf_vad_hang_ms (scf_receive config_sample))
      (scf_maximum_receive_frame_count config_sample) = Inr v"
    using rate(3,4) by (simp add: speech_vad_new_def)
  have mode: "effective_vad_mode (scf_receive config_sample) q = 0" using rx(2) by (simp add: effective_vad_mode_def)
  have signaling: "ts_new signaling = Inr (signaling, ts_default)" using tx(2) by (simp add: ts_new_def)
  have worker: "\<exists>tw. create_transmit_worker providers_sample session_ports_sample config_sample (signaling, ts_default) False
      Disabled Disabled = Some (Inr tw)"
    by (simp add: create_transmit_worker_def providers_sample_def clients_sample bind_fallible_def dcs_tx_sample_def
        dcs_transmit_configure_def)
  show ?thesis
    using config_sample_accepted(1) rate(1,2) rx(1) path tx(1) signaling vad worker
    by (auto simp: create_def create_validated_def providers_sample_def bind_fallible_def mode)
qed

text \<open>C4: creation never panics, and what it builds is sound.  Over provider libraries and borrowed ports that
  keep their contracts, and fields that are 32-bit counts, \<open>create\<close> either reports one of its three
  errors, or returns a session that satisfies the invariant of both callbacks: its detector is the one its
  configuration asks for, every buffer has the negotiated length, both clocks are at zero, both queues are
  empty, PTT is off, no burst is open, and it is not warmed.\<close>

theorem create_total:
  assumes "providers_ok I pv" and "\<forall>c p. config = Some c \<and> ports = Some p \<longrightarrow> config_fits c \<and> ports_ok p"
  shows "case create pv config ports output_null of
      None \<Rightarrow> False
    | Some (Inl e) \<Rightarrow> e \<in> {INVALID_ARGUMENT, UNSUPPORTED, PROVIDER_FAILED}
    | Some (Inr session) \<Rightarrow> \<exists>c. config = Some c \<and> session_ok I session \<and> fresh_session c session \<and>
        ss_maximum_frames session = (scf_maximum_receive_frame_count c, scf_maximum_transmit_frame_count c)"
proof -
  obtain r where r: "create pv config ports output_null = Some r" using create_no_panic by fastforce
  show ?thesis
  proof (cases r)
    case (Inl e)
    then show ?thesis using create_errors [of pv config ports output_null] r by (simp add: setup_errors_def)
  next
    case (Inr session)
    from create_spec [OF r [unfolded Inr] assms] show ?thesis using r Inr by auto
  qed
qed

theorem create_total_witness:
  "\<exists>session. create providers_sample (Some config_sample) (Some session_ports_sample) False = Some (Inr session) \<and>
    session_ok (\<lambda>_. True) session \<and> fresh_session config_sample session \<and> ss_maximum_frames session = (2000, 960)"
proof -
  obtain session where s: "create providers_sample (Some config_sample) (Some session_ports_sample) False = Some (Inr session)"
    using create_sample by blast
  have "\<forall>c p. Some config_sample = Some c \<and> Some session_ports_sample = Some p \<longrightarrow> config_fits c \<and> ports_ok p"
    using config_fits_sample ports_ok_sample by blast
  from create_total [OF providers_ok_sample this, of False] s show ?thesis
    by (simp add: config_sample_def session_config_sample_def)
qed

end
