(* ===== verification/Session_Update.thy ===== *)
theory Session_Update
  imports Session_Create
begin

text \<open>
  Prepared updates on a live session (\<open>apply_receive_update\<close>, \<open>apply_transmit_update\<close> of
  \<open>src/session.rs\<close>): applying one keeps the invariant and the stream, with one exception on the
  transmit side, which is shown here too.
\<close>

section \<open>Candidates\<close>

text \<open>The storage an update holds: a receiver nothing has run on until it is swapped in, and a transmitter
  that is only read.\<close>

definition candidate_ok ::
  "('n \<Rightarrow> bool) \<Rightarrow> ('w, 's, 'r, 'd, 'h, 'n, 't, 'u) session_update \<Rightarrow> bool" where
  "candidate_ok I update \<longleftrightarrow>
     (let c = su_candidate update in
      (\<not> su_receive_applied update \<longrightarrow>
         rx_ok I (ss_receive c) \<and> rx_built (ss_receive c) \<and> \<not> vp_raw (sv_policy (rw_vad (ss_receive c)))) \<and>
      tx_ok (ss_transmit c) \<and>
      ss_maximum_frames c = (rw_maximum_frames (ss_receive c), tw_maximum_frames (ss_transmit c)))"

section \<open>The receiver\<close>

text \<open>The retained detector with the prepared controls is again one for its configuration.\<close>

lemma path_ok_retained:
  assumes "rx_ok I live" and "rx_ok I candidate" and "rx_built live" and "rx_built candidate"
    and "detector_retained live candidate" and "rw_maximum_frames live = rw_maximum_frames candidate"
  defines "p \<equiv> path_update_controls_from (rw_detector candidate) (rw_detector live)"
  shows "path_ok p" and "ps_maximum_native_frames (rp_setup p) = rw_maximum_frames live"
    and "rp_dcs_state p = rp_dcs_state (rw_detector live)"
proof -
  let ?l = "rw_detector live" and ?c = "rw_detector candidate"
  have same: "ps_baseband_coefficients (rp_setup ?l) = ps_baseband_coefficients (rp_setup ?c)"
    "ps_noise_coefficients (rp_setup ?l) = ps_noise_coefficients (rp_setup ?c)"
    "ps_center_config (rp_setup ?l) = None \<longleftrightarrow> ps_center_config (rp_setup ?c) = None"
    using assms(3,4,5) by (auto simp: rx_built_def detector_retained_def Let_def)
  have l: "path_ok ?l" "ps_maximum_native_frames (rp_setup ?l) = rw_maximum_frames live"
    and c: "path_ok ?c" "ps_maximum_native_frames (rp_setup ?c) = rw_maximum_frames candidate"
    using assms(1,2) by (simp_all add: rx_ok_def rx_setup_ok_def)
  have "setup_ok (rp_setup p)"
    using path_okD(1) [OF l(1)] path_okD(1) [OF c(1)] same(1,2)
    by (simp add: setup_ok_def p_def path_update_controls_from_def)
  moreover have "buffers_ok (rp_setup p) (rp_buffers p)"
    using l(1) by (simp add: path_ok_def buffers_ok_def p_def path_update_controls_from_def)
  ultimately show "path_ok p"
    using l(1) same(3) by (simp add: path_ok_def p_def path_update_controls_from_def)
  show "ps_maximum_native_frames (rp_setup p) = rw_maximum_frames live" "rp_dcs_state p = rp_dcs_state ?l"
    using l(2) by (simp_all add: p_def path_update_controls_from_def)
qed

text \<open>The three allocations that may be swapped, each with what the candidate holds afterwards.\<close>

lemma update_detector_spec:
  assumes "rx_ok I live" and "rx_ok I candidate" and "rx_built live" and "rx_built candidate"
    and "rw_maximum_frames live = rw_maximum_frames candidate"
  shows "\<exists>p q. update_detector (live, candidate) = (live\<lparr>rw_detector := p\<rparr>, candidate\<lparr>rw_detector := q\<rparr>) \<and>
    path_ok p \<and> ps_maximum_native_frames (rp_setup p) = rw_maximum_frames live \<and>
    rx_built (live\<lparr>rw_detector := p, rw_config := rw_config candidate\<rparr>) \<and>
    p = (if detector_retained live candidate then path_update_controls_from (rw_detector candidate) (rw_detector live)
      else rw_detector candidate)"
proof (cases "detector_retained live candidate")
  case True
  let ?p = "path_update_controls_from (rw_detector candidate) (rw_detector live)"
  note r = path_ok_retained [OF assms(1-4) True assms(5)]
  have "rx_built (live\<lparr>rw_detector := ?p, rw_config := rw_config candidate\<rparr>)"
    using assms(3,4) True by (auto simp: rx_built_def detector_retained_def path_update_controls_from_def Let_def)
  then show ?thesis
    using True r(1,2) by (intro exI [of _ ?p] exI [of _ "rw_detector candidate"]) (simp add: update_detector_def)
next
  case False
  have "path_ok (rw_detector candidate)" "ps_maximum_native_frames (rp_setup (rw_detector candidate)) = rw_maximum_frames live"
    using assms(2,5) by (simp_all add: rx_ok_def rx_setup_ok_def)
  moreover have "rx_built (live\<lparr>rw_detector := rw_detector candidate, rw_config := rw_config candidate\<rparr>)"
    using assms(4) by (simp add: rx_built_def)
  ultimately show ?thesis
    using False by (intro exI [of _ "rw_detector candidate"] exI [of _ "rw_detector live"]) (simp add: update_detector_def)
qed

lemma inherit_vad_ok: "vad_ok I v \<Longrightarrow> \<not> vp_raw (sv_policy v) \<Longrightarrow> vad_ok I (inherit_burst_id live v)"
  by (auto simp: vad_ok_def policy_ok_def inherit_burst_id_def)

lemma update_vad_spec:
  assumes "rx_ok I live" and "rx_ok I candidate" and "\<not> vp_raw (sv_policy (rw_vad candidate))"
    and "rw_maximum_frames live = rw_maximum_frames candidate"
  shows "\<exists>v u reset i k. update_vad (live\<lparr>rw_detector := p\<rparr>, candidate\<lparr>rw_detector := q\<rparr>) =
      (live\<lparr>rw_detector := p, rw_vad := v, rw_vad_needs_reset := reset, rw_delay_valid := i, rw_delay_index := k\<rparr>,
       candidate\<lparr>rw_detector := q, rw_vad := u\<rparr>) \<and>
    vad_ok I v \<and> sv_mode v = rw_vad_mode candidate \<and> sv_maximum_native_frames v = rw_maximum_frames live \<and>
    vp_rf_burst_id (sv_policy v) = vp_rf_burst_id (sv_policy (rw_vad live)) \<and>
    (if settings_equal (rw_vad live) (rw_vad candidate)
     then v = rw_vad live \<and> i = rw_delay_valid live \<and> k = rw_delay_index live \<and>
       reset = (rw_vad_needs_reset live \<or> vad_policy_changed live candidate)
     else \<not> vp_raw (sv_policy v) \<and> i = 0 \<and> k = 0 \<and> \<not> reset)"
proof -
  let ?l = "live\<lparr>rw_detector := p\<rparr>" and ?c = "candidate\<lparr>rw_detector := q\<rparr>"
  have changed: "vad_policy_changed ?l ?c = vad_policy_changed live candidate" by (simp add: vad_policy_changed_def)
  have v: "vad_ok I (rw_vad live)" "sv_mode (rw_vad live) = rw_vad_mode live"
    "sv_maximum_native_frames (rw_vad live) = rw_maximum_frames live"
    "vad_ok I (rw_vad candidate)" "sv_mode (rw_vad candidate) = rw_vad_mode candidate"
    "sv_maximum_native_frames (rw_vad candidate) = rw_maximum_frames live"
    using assms(1,2,4) by (simp_all add: rx_ok_def rx_vad_ok_def)
  show ?thesis
  proof (cases "settings_equal (rw_vad live) (rw_vad candidate)")
    case True
    have "update_vad (?l, ?c) = (?l\<lparr>rw_vad := rw_vad live,
        rw_vad_needs_reset := (rw_vad_needs_reset live \<or> vad_policy_changed live candidate),
        rw_delay_valid := rw_delay_valid live, rw_delay_index := rw_delay_index live\<rparr>,
        ?c\<lparr>rw_vad := rw_vad candidate\<rparr>)"
      using True by (auto simp: update_vad_def changed)
    then show ?thesis
      using True v by (intro exI [of _ "rw_vad live"] exI [of _ "rw_vad candidate"]
        exI [of _ "rw_vad_needs_reset live \<or> vad_policy_changed live candidate"]
        exI [of _ "rw_delay_valid live"] exI [of _ "rw_delay_index live"]) (simp add: settings_equal_def)
  next
    case False
    let ?v = "inherit_burst_id (rw_vad live) (rw_vad candidate)"
    have "update_vad (?l, ?c) = (?l\<lparr>rw_vad := ?v, rw_vad_needs_reset := False, rw_delay_valid := 0, rw_delay_index := 0\<rparr>,
        ?c\<lparr>rw_vad := rw_vad live\<rparr>)"
      using False by (simp add: update_vad_def)
    moreover have "sv_mode ?v = rw_vad_mode candidate" "sv_maximum_native_frames ?v = rw_maximum_frames live"
      "vp_rf_burst_id (sv_policy ?v) = vp_rf_burst_id (sv_policy (rw_vad live))" "\<not> vp_raw (sv_policy ?v)"
      using v(5,6) assms(3) by (simp_all add: inherit_burst_id_def)
    ultimately show ?thesis
      using False inherit_vad_ok [OF v(4) assms(3)]
      by (intro exI [of _ ?v] exI [of _ "rw_vad live"] exI [of _ False] exI [of _ 0]) simp
  qed
qed

text \<open>The delay is replaced when its length or the use of speech admission changes, and a replaced delay is
  empty.\<close>

lemma update_delay_spec:
  assumes "rw_delay live = [] \<or> rw_delay_index live < length (rw_delay live)"
    and "rw_delay_valid live \<le> length (rw_delay live)"
  shows "\<exists>d e i k. update_delay (live, candidate) =
      (live\<lparr>rw_delay := d, rw_delay_index := i, rw_delay_valid := k\<rparr>, candidate\<lparr>rw_delay := e\<rparr>) \<and>
    (d = [] \<or> i < length d) \<and> k \<le> length d \<and> length d = length (rw_delay candidate) \<and>
    (d = rw_delay live \<and> i = rw_delay_index live \<and> k = rw_delay_valid live \<or> i = 0 \<and> k = 0)"
proof (cases "length (rw_delay live) \<noteq> length (rw_delay candidate) \<or>
    (rcf_vad_mode (rw_config live) = 0) \<noteq> (rcf_vad_mode (rw_config candidate) = 0)")
  case True
  then show ?thesis
    by (intro exI [of _ "rw_delay candidate"] exI [of _ "rw_delay live"] exI [of _ 0]) (auto simp: update_delay_def)
next
  case False
  have self: "live\<lparr>rw_delay := rw_delay live, rw_delay_index := rw_delay_index live, rw_delay_valid := rw_delay_valid live\<rparr> = live"
    "candidate\<lparr>rw_delay := rw_delay candidate\<rparr> = candidate"
    by simp_all
  have u: "update_delay (live, candidate) = (live, candidate)" "length (rw_delay live) = length (rw_delay candidate)"
    using False unfolding update_delay_def prod.case by (simp_all only: if_False if_not_P de_Morgan_disj not_not)
  show ?thesis
    by (rule exI [of _ "rw_delay live"], rule exI [of _ "rw_delay candidate"], rule exI [of _ "rw_delay_index live"],
        rule exI [of _ "rw_delay_valid live"], unfold self) (use assms u in simp)
qed

text \<open>What an update of the receiver promises: the stream goes on where it was, under the new configuration.\<close>

definition rx_updated ::
  "('w, 's, 'r, 'd, 'h, 'n) receive_worker \<Rightarrow> ('w, 's, 'r, 'd, 'h, 'n) receive_worker \<Rightarrow>
     ('w, 's, 'r, 'd, 'h, 'n) receive_worker \<Rightarrow> bool" where
  "rx_updated live candidate live' \<longleftrightarrow>
     rw_detector live' = (if detector_retained live candidate
       then path_update_controls_from (rw_detector candidate) (rw_detector live) else rw_detector candidate) \<and>
     (detector_retained live candidate \<longrightarrow> rp_blanking (rw_detector live') = rp_blanking (rw_detector live)) \<and>
     rw_config live' = rw_config candidate \<and> rw_qualification live' = rw_qualification candidate \<and>
     rw_ports live' = rw_ports candidate \<and> rw_maximum_frames live' = rw_maximum_frames live \<and>
     rw_sample_index live' = rw_sample_index live \<and> rx_indications live' = rx_indications live \<and>
     rw_qualification_state live' = rw_qualification_state live \<and>
     rw_next_publication_frame live' =
       saturating_add_u64 (rw_sample_index live) (rw_publication_interval_frames candidate) \<and>
     vp_rf_burst_id (sv_policy (rw_vad live')) = vp_rf_burst_id (sv_policy (rw_vad live)) \<and>
     (settings_equal (rw_vad live) (rw_vad candidate) \<and> \<not> vad_policy_changed live candidate \<longrightarrow>
        rw_vad live' = rw_vad live \<and> rw_vad_needs_reset live' = rw_vad_needs_reset live) \<and>
     (\<not> settings_equal (rw_vad live) (rw_vad candidate) \<or> vad_policy_changed live candidate \<longrightarrow>
        \<not> vp_raw (sv_policy (rw_vad live')) \<or> rw_vad_needs_reset live') \<and>
     length (rw_delay live') = length (rw_delay candidate) \<and>
     (rw_delay live' = rw_delay live \<or> rw_delay_valid live' = 0)"

lemma saturating_add_le: "saturating_add_u64 a b \<le> u64_max"
  by (simp add: saturating_add_u64_def)

lemma update_receive_spec:
  assumes "rx_ok I live" and "rx_ok I candidate" and "rx_built live" and "rx_built candidate"
    and "\<not> vp_raw (sv_policy (rw_vad candidate))" and "rw_maximum_frames live = rw_maximum_frames candidate"
  shows "case update_receive (live, candidate) of (live', candidate') \<Rightarrow>
    rx_ok I live' \<and> rx_built live' \<and> rx_updated live candidate live' \<and>
    rw_maximum_frames candidate' = rw_maximum_frames candidate"
proof -
  obtain p q where d: "update_detector (live, candidate) = (live\<lparr>rw_detector := p\<rparr>, candidate\<lparr>rw_detector := q\<rparr>)"
    and p: "path_ok p" "ps_maximum_native_frames (rp_setup p) = rw_maximum_frames live"
      "rx_built (live\<lparr>rw_detector := p, rw_config := rw_config candidate\<rparr>)"
      "p = (if detector_retained live candidate then path_update_controls_from (rw_detector candidate) (rw_detector live)
        else rw_detector candidate)"
    using update_detector_spec [OF assms(1-4,6)] by blast
  obtain v u reset i k where v: "update_vad (live\<lparr>rw_detector := p\<rparr>, candidate\<lparr>rw_detector := q\<rparr>) =
      (live\<lparr>rw_detector := p, rw_vad := v, rw_vad_needs_reset := reset, rw_delay_valid := i, rw_delay_index := k\<rparr>,
       candidate\<lparr>rw_detector := q, rw_vad := u\<rparr>)"
    and vok: "vad_ok I v" "sv_mode v = rw_vad_mode candidate" "sv_maximum_native_frames v = rw_maximum_frames live"
      "vp_rf_burst_id (sv_policy v) = vp_rf_burst_id (sv_policy (rw_vad live))"
      "if settings_equal (rw_vad live) (rw_vad candidate)
       then v = rw_vad live \<and> i = rw_delay_valid live \<and> k = rw_delay_index live \<and>
         reset = (rw_vad_needs_reset live \<or> vad_policy_changed live candidate)
       else \<not> vp_raw (sv_policy v) \<and> i = 0 \<and> k = 0 \<and> \<not> reset"
    using update_vad_spec [OF assms(1,2,5,6), of p q] by blast
  have b: "rw_delay live = [] \<or> rw_delay_index live < length (rw_delay live)" "rw_delay_valid live \<le> length (rw_delay live)"
    using assms(1) by (simp_all add: rx_ok_def rx_buffers_ok_def)
  let ?l = "live\<lparr>rw_detector := p, rw_vad := v, rw_vad_needs_reset := reset, rw_delay_valid := i, rw_delay_index := k\<rparr>"
  let ?c = "candidate\<lparr>rw_detector := q, rw_vad := u\<rparr>"
  have "rw_delay ?l = [] \<or> rw_delay_index ?l < length (rw_delay ?l)" "rw_delay_valid ?l \<le> length (rw_delay ?l)"
    using b vok(5) by (auto split: if_splits)
  then obtain dl e j n where dl: "update_delay (?l, ?c) =
      (?l\<lparr>rw_delay := dl, rw_delay_index := j, rw_delay_valid := n\<rparr>, ?c\<lparr>rw_delay := e\<rparr>)"
    and dok: "dl = [] \<or> j < length dl" "n \<le> length dl" "length dl = length (rw_delay ?c)"
      "dl = rw_delay ?l \<and> j = rw_delay_index ?l \<and> n = rw_delay_valid ?l \<or> j = 0 \<and> n = 0"
    using update_delay_spec [of ?l ?c] by blast
  let ?m = "?l\<lparr>rw_delay := dl, rw_delay_index := j, rw_delay_valid := n\<rparr>"
  let ?d = "?c\<lparr>rw_delay := e\<rparr>"
  let ?x = "update_receive_settings (?m, ?d)"
  have run: "update_receive (live, candidate) = (?x, ?d)"
    by (simp add: update_receive_def d v dl)
  have ok: "rx_setup_ok live" "rx_setup_ok candidate" "rx_buffers_ok live"
    using assms(1,2) by (simp_all add: rx_ok_def)
  have "rx_setup_ok ?x"
    using ok(1,2) p(1,2) saturating_add_le
    by (simp add: rx_setup_ok_def update_receive_settings_def)
  moreover have "rx_buffers_ok ?x"
    using ok(3) dok(1,2) by (simp add: rx_buffers_ok_def update_receive_settings_def)
  moreover have "rx_vad_ok I ?x"
    using vok(1-3) by (simp add: rx_vad_ok_def update_receive_settings_def)
  ultimately have "rx_ok I ?x" by (simp add: rx_ok_def)
  moreover have "rx_built ?x" using p(3) by (simp add: rx_built_def update_receive_settings_def)
  moreover have "rp_blanking (path_update_controls_from prepared x) = rp_blanking x" for prepared x
    by (simp add: path_update_controls_from_def Let_def)
  moreover from this have "rx_updated live candidate ?x"
    using vok(4,5) dok(3,4) p(4) by (auto simp: rx_updated_def update_receive_settings_def rx_indications_def split: if_splits)
  ultimately show ?thesis by (simp add: run)
qed

text \<open>Everything of a session but its receiver.\<close>

definition beside_receiver where
  "beside_receiver session = (ss_profile session, ss_generation_id session, ss_maximum_frames session,
     ss_program_ring session, ss_transmit session, ss_receive_busy session, ss_transmit_busy session,
     ss_warmed session, ss_shared session, ss_snapshot session, ss_receive_events session, ss_transmit_events session)"

lemma apply_receive_spec:
  assumes "session_ok I session" and "candidate_ok I update"
  shows "case apply_receive_update session update of ((session', update'), status) \<Rightarrow>
    session_ok I session' \<and> candidate_ok I update' \<and> beside_receiver session' = beside_receiver session \<and>
    ss_transmit (su_candidate update') = ss_transmit (su_candidate update) \<and>
    su_transmit_applied update' = su_transmit_applied update \<and>
    (case status of
       Inl e \<Rightarrow> session' = session \<and> update' = update \<and> e \<in> {UNSUPPORTED, BUSY, INVALID_ARGUMENT}
     | Inr _ \<Rightarrow> \<not> su_receive_applied update \<and> su_receive_applied update' \<and>
         rx_updated (ss_receive session) (ss_receive (su_candidate update)) (ss_receive session'))"
proof (cases "update_mismatch session update \<or> ss_receive_busy session \<or> ss_receive_busy (su_candidate update) \<or>
    su_receive_applied update")
  case True
  then show ?thesis using assms by (auto simp: apply_receive_update_def)
next
  case False
  let ?l = "ss_receive session" and ?c = "ss_receive (su_candidate update)"
  have ok: "rx_ok I ?l" "rx_built ?l" "rx_ok I ?c" "rx_built ?c" "\<not> vp_raw (sv_policy (rw_vad ?c))"
    "rw_maximum_frames ?l = rw_maximum_frames ?c"
    using assms False
    by (simp_all add: session_ok_def rx_session_ok_def candidate_ok_def update_mismatch_def Let_def)
  obtain l' c' where u: "update_receive (?l, ?c) = (l', c')" by fastforce
  note s = update_receive_spec [OF ok(1,3,2,4,5,6), unfolded u prod.case]
  show ?thesis
    using False assms s u
    by (auto simp: apply_receive_update_def session_ok_def rx_session_ok_def tx_session_ok_def candidate_ok_def
        beside_receiver_def rx_updated_def Let_def)
qed

text \<open>C12: an update of the receiver never interrupts the stream.  It is refused without any effect when the
  geometry or the profile differ, while a callback runs, and when it was applied before; otherwise the
  session satisfies its invariant under the new configuration, whichever of the detector, the speech
  admission and the delay are retained or swapped.  The clock, the reported indications, the qualification
  and everything beside the receiver stay; the detector stays, with its blanking, unless something it was
  built from changed, and is the candidate's otherwise; the burst identity is carried over, a change of the
  gate closes the burst or schedules its reset, and a replaced delay starts empty.\<close>

theorem receive_update_seamless:
  assumes "session_ok I session" and "candidate_ok I update"
  shows "case apply_receive_update session update of ((session', update'), status) \<Rightarrow>
    session_ok I session' \<and> candidate_ok I update' \<and> beside_receiver session' = beside_receiver session \<and>
    (case status of
       Inl e \<Rightarrow> session' = session \<and> update' = update \<and> e \<in> {UNSUPPORTED, BUSY, INVALID_ARGUMENT}
     | Inr _ \<Rightarrow> \<not> su_receive_applied update \<and> su_receive_applied update' \<and>
         rx_updated (ss_receive session) (ss_receive (su_candidate update)) (ss_receive session'))"
  using apply_receive_spec [OF assms] by (auto split: prod.splits sum.splits)

section \<open>The transmitter\<close>

lemma ts_wf_config:
  assumes "ts_wf config s" and "ts_turnoff_phase s = DcsTail \<longrightarrow> 0 < dtc_turnoff_duration_ms (tsc_dcs_turnoff config')"
  shows "ts_wf config' s"
proof -
  have "0 < tail_frames config s \<Longrightarrow> 0 < tail_frames config' s"
    by (auto simp: tail_frames_def finish_frames_def split: turnoff_phase.splits if_splits)
  then show ?thesis using assms by (auto simp: ts_wf_def)
qed

text \<open>What an update of the transmitter promises: the transmission goes on where it was.\<close>

definition tx_updated ::
  "('w, 't, 'u) transmit_worker \<Rightarrow> ('w, 't, 'u) transmit_worker \<Rightarrow> ('w, 't, 'u) transmit_worker \<Rightarrow> bool" where
  "tx_updated live candidate live' \<longleftrightarrow>
     tw_signaling live' = (fst (tw_signaling candidate), snd (tw_signaling live)) \<and>
     tw_ports live' = tw_ports candidate \<and> tw_maximum_frames live' = tw_maximum_frames live \<and>
     tw_sample_index live' = tw_sample_index live \<and> tw_test_tone live' = tw_test_tone live \<and>
     tw_ctcss_tx live' = tw_ctcss_tx live \<and>
     (tw_output_a_route live', tw_output_b_route live') = (tw_output_a_route candidate, tw_output_b_route candidate) \<and>
     tw_next_publication_frame live' =
       saturating_add_u64 (tw_sample_index live) (tw_publication_interval_frames candidate)"

lemma update_transmit_spec:
  assumes "tx_ok live" and "tx_ok candidate" and "tw_maximum_frames live = tw_maximum_frames candidate"
    and "ts_turnoff_phase (snd (tw_signaling live)) = DcsTail \<longrightarrow>
      0 < dtc_turnoff_duration_ms (tsc_dcs_turnoff (fst (tw_signaling candidate)))"
  shows "case update_transmit live candidate of
      (live', Inl e) \<Rightarrow> tx_ok live' \<and> e = PROVIDER_FAILED \<and> (\<exists>dcs. live' = live\<lparr>tw_dcs := dcs\<rparr>)
    | (live', Inr _) \<Rightarrow> tx_ok live' \<and> tx_updated live candidate live'"
proof -
  obtain dcs st where d: "dcs_update_config_from (tw_dcs live) (tw_dcs candidate) = (dcs, st)" by fastforce
  have dok: "dcs_tx_sized dcs" "st = Inr () \<or> st = Inl PROVIDER_FAILED"
    using d assms(1)
    by (simp_all add: dcs_update_config_from_def dcs_tx_sized_def tx_ok_def tx_setup_ok_def case_prod_beta Let_def)
      (auto split: if_splits)
  have ok: "tx_setup_ok live" "tx_setup_ok candidate" "tx_buffers_ok live"
    using assms(1,2) by (simp_all add: tx_ok_def)
  have wf: "ts_wf (fst (tw_signaling candidate)) (snd (tw_signaling live))"
    by (rule ts_wf_config [OF _ assms(4), of "fst (tw_signaling live)"]) (use ok(1) in \<open>simp add: tx_setup_ok_def\<close>)
  show ?thesis
  proof (cases st)
    case (Inl e)
    have "tx_ok (live\<lparr>tw_dcs := dcs\<rparr>)" using ok(1,3) dok(1) by (simp add: tx_ok_def tx_setup_ok_def tx_buffers_ok_def)
    then show ?thesis using Inl dok(2) by (auto simp: update_transmit_def d)
  next
    case (Inr u)
    obtain live' where l: "update_transmit live candidate = (live', Inr ())" using Inr by (simp add: update_transmit_def d)
    then have eq: "live' = fst (update_transmit live candidate)" by simp
    have "tx_setup_ok live'"
      using ok(1,2) wf dok(1) saturating_add_le
      by (simp add: eq update_transmit_def d Inr tx_setup_ok_def update_config_from_def)
    moreover have "tx_buffers_ok live'"
      using ok(3) by (simp add: eq update_transmit_def d Inr tx_buffers_ok_def)
    moreover have "tx_updated live candidate live'"
      by (simp add: eq update_transmit_def d Inr tx_updated_def update_config_from_def)
    ultimately show ?thesis by (simp add: l tx_ok_def)
  qed
qed

text \<open>A DCS tail in progress keeps the duration it is checked against positive.\<close>

definition tail_kept ::
  "('w, 's, 'r, 'd, 'h, 'n, 't, 'u) session \<Rightarrow> ('w, 's, 'r, 'd, 'h, 'n, 't, 'u) session_update \<Rightarrow> bool" where
  "tail_kept session update \<longleftrightarrow> (ts_turnoff_phase (snd (tw_signaling (ss_transmit session))) = DcsTail \<longrightarrow>
     0 < dcs_tail_ms (su_candidate update))"

text \<open>Everything of a session but its transmitter.\<close>

definition beside_transmitter where
  "beside_transmitter session = (ss_profile session, ss_generation_id session, ss_maximum_frames session,
     ss_program_ring session, ss_receive session, ss_receive_busy session, ss_transmit_busy session,
     ss_warmed session, ss_shared session, ss_snapshot session, ss_receive_events session, ss_transmit_events session)"

lemma apply_transmit_spec:
  assumes "session_ok I session" and "candidate_ok I update" and "tail_kept session update"
  shows "case apply_transmit_update session update of ((session', update'), status) \<Rightarrow>
    session_ok I session' \<and> candidate_ok I update' \<and> beside_transmitter session' = beside_transmitter session \<and>
    (case status of
       Inl e \<Rightarrow> update' = update \<and> (if e = PROVIDER_FAILED
         then (\<exists>dcs. ss_transmit session' = (ss_transmit session)\<lparr>tw_dcs := dcs\<rparr>)
         else session' = session \<and> e \<in> {UNSUPPORTED, BUSY, INVALID_ARGUMENT})
     | Inr _ \<Rightarrow> \<not> su_transmit_applied update \<and> su_transmit_applied update' \<and>
         tx_updated (ss_transmit session) (ss_transmit (su_candidate update)) (ss_transmit session'))"
proof (cases "update_mismatch session update \<or> ss_transmit_busy session \<or> ss_transmit_busy (su_candidate update) \<or>
    su_transmit_applied update")
  case True
  then show ?thesis using assms by (auto simp: apply_transmit_update_def)
next
  case False
  let ?l = "ss_transmit session" and ?c = "ss_transmit (su_candidate update)"
  have ok: "tx_ok ?l" "tx_ok ?c" "tw_maximum_frames ?l = tw_maximum_frames ?c"
    using assms(1,2) False
    by (simp_all add: session_ok_def tx_session_ok_def candidate_ok_def update_mismatch_def Let_def)
  obtain l' st where u: "update_transmit ?l ?c = (l', st)" by fastforce
  have s: "case st of Inl e \<Rightarrow> tx_ok l' \<and> e = PROVIDER_FAILED \<and> (\<exists>dcs. l' = ?l\<lparr>tw_dcs := dcs\<rparr>)
    | Inr _ \<Rightarrow> tx_ok l' \<and> tx_updated ?l ?c l'"
    using update_transmit_spec [OF ok assms(3) [unfolded tail_kept_def dcs_tail_ms_def]] by (simp add: u split: sum.splits)
  have m: "tw_maximum_frames l' = tw_maximum_frames ?l" using s by (auto simp: tx_updated_def split: sum.splits)
  have ok': "session_ok I (session\<lparr>ss_transmit := l'\<rparr>)"
    using assms(1) s m by (auto simp: session_ok_def rx_session_ok_def tx_session_ok_def split: sum.splits)
  show ?thesis
  proof (cases st)
    case (Inl e)
    then show ?thesis using False u s ok' assms(2)
      by (auto simp: apply_transmit_update_def beside_transmitter_def Let_def)
  next
    case (Inr x)
    have "candidate_ok I (update\<lparr>su_transmit_applied := True\<rparr>)" using assms(2) by (simp add: candidate_ok_def)
    then show ?thesis using False u s ok' Inr
      by (auto simp: apply_transmit_update_def beside_transmitter_def Let_def)
  qed
qed

text \<open>C13: an update of the transmitter never interrupts a transmission, with one exception.  As long as a
  DCS tail in progress keeps a positive duration, applying an update keeps the invariant, the signaling
  state, PTT, both oscillators and the clock, and changes nothing but the transmitter.  A refused update
  changes nothing at all; when the DCS provider refuses the configuration, nothing but its own handle has
  changed and the update can be applied again.\<close>

theorem transmit_update_seamless:
  assumes "session_ok I session" and "candidate_ok I update" and "tail_kept session update"
  shows "case apply_transmit_update session update of ((session', update'), status) \<Rightarrow>
    session_ok I session' \<and> candidate_ok I update' \<and> beside_transmitter session' = beside_transmitter session \<and>
    (case status of
       Inl e \<Rightarrow> update' = update \<and> (if e = PROVIDER_FAILED
         then (\<exists>dcs. ss_transmit session' = (ss_transmit session)\<lparr>tw_dcs := dcs\<rparr>)
         else session' = session \<and> e \<in> {UNSUPPORTED, BUSY, INVALID_ARGUMENT})
     | Inr _ \<Rightarrow> \<not> su_transmit_applied update \<and> su_transmit_applied update' \<and>
         tx_updated (ss_transmit session) (ss_transmit (su_candidate update)) (ss_transmit session'))"
  by (rule apply_transmit_spec [OF assms])

section \<open>The exception\<close>

lemma rekey_short_tail:
  assumes "ts_transmitter_state s = TX_STATE_TOC" and "ts_turnoff_phase s = DcsTail"
    and "dtc_turnoff_duration_ms (tsc_dcs_turnoff config) \<le> 0"
    and "tsi_external_ptt_request input" and "tsi_tx_render_admitted input"
  shows "\<exists>e. tick config s input = Inl e"
proof -
  have "prepare_transmitter config input x a = Inl InvalidConfigurationOrState"
    if "ts_transmitter_state x = TX_STATE_TOC" "ts_turnoff_phase x = DcsTail" for x a
    using that assms(3,4)
    by (simp add: prepare_transmitter_def rekey_def rekey_dcs_tail_def dcs_turnoff_advance_def dcs_turnoff_validate_def
        dcs_turnoff_validate_config_def component_def tx_state_defs)
  moreover have "ts_transmitter_state (receive_side config input s) = TX_STATE_TOC"
    "ts_turnoff_phase (receive_side config input s) = DcsTail"
    using assms(1,2) by (simp_all add: receive_side_def sync_ctcss_option_def case_prod_beta Let_def)
  ultimately show ?thesis using assms(5) by (simp add: tick_def case_prod_beta Let_def)
qed

text \<open>A failing programme leaves the signaling alone.\<close>

lemma tx_programme_signaling:
  assumes "tx_programme port count (worker, w) = ((worker', w'), r)"
  shows "tw_signaling worker' = tw_signaling worker"
  using assms by (auto simp: tx_programme_def case_prod_beta Let_def split: sum.splits)

text \<open>C14: an update during a DCS tail can make the transmitter refuse every request.  An update with a DCS
  turn-off duration that is not positive is accepted when its DCS turn-off is switched off (the default
  configuration is one); applied while a DCS tail runs, it leaves the tail to be checked against that
  duration.  From then on every callback with PTT requested fails, the signaling state stays as it is, and
  no result is written: the transmission can neither be taken up again nor end while PTT is held.\<close>

theorem dcs_update_wedges_transmitter:
  assumes "apply_transmit_update session update = ((session', update'), Inr ())"
    and "ts_transmitter_state (snd (tw_signaling (ss_transmit session))) = TX_STATE_TOC"
    and "ts_turnoff_phase (snd (tw_signaling (ss_transmit session))) = DcsTail"
    and "dcs_tail_ms (su_candidate update) \<le> 0"
    and "ti_external_ptt_request controls \<noteq> 0" and "ti_render_admitted controls \<noteq> 0"
  shows "\<exists>after w' buffer' e. transmit_inner sine session' w buffer frame_count (Some controls) published prepared =
      Some ((after, w'), buffer', published, prepared, Inl e) \<and>
    tw_signaling (ss_transmit after) = tw_signaling (ss_transmit session')"
proof -
  let ?t = "tw_signaling (ss_transmit session')"
  have sg: "?t = (fst (tw_signaling (ss_transmit (su_candidate update))), snd (tw_signaling (ss_transmit session)))"
    using assms(1)
    by (auto simp: apply_transmit_update_def update_transmit_def update_config_from_def Let_def
        split: if_splits prod.splits sum.splits)
  have tick: "\<exists>e. tick (fst ?t) (snd ?t) (tick_input n controls ring) = Inl e" for n ring
    using rekey_short_tail assms(2-6) by (simp add: sg tick_input_def dcs_tail_ms_def)
  have span: "\<exists>s w' e. transmit_span sine session' w frame_count controls = Some ((s, w'), Inl e) \<and>
      tw_signaling (ss_transmit s) = ?t"
  proof -
    obtain x v r where p: "tx_programme (ss_program_ring session') frame_count (ss_transmit session', w) = ((x, v), r)"
      by (metis prod.exhaust)
    have x: "tw_signaling x = ?t" by (rule tx_programme_signaling [OF p])
    show ?thesis
    proof (cases r)
      case (Inl e)
      then show ?thesis using p x by (simp add: transmit_span_def transmit_failure_def provider_failure_def push_edge_def Let_def)
    next
      case (Inr ring)
      let ?y = "tx_test_tone sine frame_count (ti_calibrated_test_tone controls) x"
      have y: "tw_signaling ?y = ?t" using x by (simp add: tx_test_tone_def case_prod_beta)
      have "tx_tick frame_count controls ring ?y = (?y, Inl INVALID_ARGUMENT)"
        using tick [of frame_count ring] y by (auto simp: tx_tick_def)
      then show ?thesis using p Inr y by (simp add: transmit_span_def Let_def)
    qed
  qed
  have "\<exists>s w' e. transmit_checked sine session' w frame_count controls = Some ((s, w'), Inl e) \<and>
      tw_signaling (ss_transmit s) = ?t"
    using span by (simp add: transmit_checked_def)
  then obtain s v e where "transmit_checked sine session' w frame_count controls = Some ((s, v), Inl e)"
    "tw_signaling (ss_transmit s) = ?t" by blast
  then show ?thesis
    by (cases buffer; cases published; cases "frame_count = 0") (simp_all add: transmit_inner_def Let_def)
qed

section \<open>Prepared updates\<close>

lemma candidate_of_session:
  assumes "session_ok I session" and "fresh_session config session"
  shows "candidate_ok I \<lparr>su_candidate = session, su_receive_applied = False, su_transmit_applied = False\<rparr>"
  using assms
  by (simp add: candidate_ok_def session_ok_def rx_session_ok_def tx_session_ok_def fresh_session_def Let_def)

lemma prepare_sample:
  "\<exists>update. prepare_update providers_sample (Some config_sample) (Some session_ports_sample) False = Some (Inr update) \<and>
    candidate_ok (\<lambda>_. True) update \<and> \<not> update_mismatch (session_sample s) update \<and> dcs_tail_ms (su_candidate update) = 0 \<and>
    \<not> su_receive_applied update \<and> \<not> su_transmit_applied update \<and> \<not> ss_receive_busy (su_candidate update) \<and>
    \<not> ss_transmit_busy (su_candidate update)"
proof -
  obtain session where c: "create providers_sample (Some config_sample) (Some session_ports_sample) False = Some (Inr session)"
    using create_sample by blast
  let ?u = "\<lparr>su_candidate = session, su_receive_applied = False, su_transmit_applied = False\<rparr>"
  have "\<forall>c p. Some config_sample = Some c \<and> Some session_ports_sample = Some p \<longrightarrow> config_fits c \<and> ports_ok p"
    using config_fits_sample ports_ok_sample by blast
  then obtain k where k: "config_sample = k" "session_ok (\<lambda>_. True) session" "fresh_session k session"
      "ss_maximum_frames session = (scf_maximum_receive_frame_count k, scf_maximum_transmit_frame_count k)"
      "ss_profile session = None" "dcs_tail_ms session = tcf_dcs_turnoff_duration_ms (scf_transmit k)"
    using create_spec [OF c providers_ok_sample] by (metis option.inject)
  have "prepare_update providers_sample (Some config_sample) (Some session_ports_sample) False = Some (Inr ?u)"
    using c by (simp add: prepare_update_def session_ports_sample_def SESSION_PORTS_SIZE_def ring_port_default_def
        bind_fallible_def)
  moreover have "\<not> update_mismatch (session_sample s) ?u" "dcs_tail_ms session = 0"
    using k(4-6) by (simp_all add: update_mismatch_def k(1) [symmetric] config_sample_def session_config_sample_def
        transmit_config_default_def)
  ultimately show ?thesis
    using candidate_of_session [OF k(2,3)] k(3) by (intro exI [of _ ?u]) (simp add: fresh_session_def)
qed

lemma prepare_update_spec:
  assumes "prepare_update pv config ports output_null = Some (Inr update)" and "providers_ok I pv"
    and "\<forall>c p. config = Some c \<and> ports = Some p \<longrightarrow> config_fits c \<and> ports_ok p"
  shows "candidate_ok I update" and "\<not> su_receive_applied update" and "\<not> su_transmit_applied update"
    and "\<exists>c. config = Some c \<and> dcs_tail_ms (su_candidate update) = tcf_dcs_turnoff_duration_ms (scf_transmit c)"
proof -
  obtain session where s: "create pv config ports False = Some (Inr session)"
    "update = \<lparr>su_candidate = session, su_receive_applied = False, su_transmit_applied = False\<rparr>"
    using assms(1) by (auto simp: prepare_update_def bind_fallible_Inr split: option.splits if_splits)
  obtain c where c: "config = Some c" "session_ok I session" "fresh_session c session"
      "dcs_tail_ms session = tcf_dcs_turnoff_duration_ms (scf_transmit c)"
    using create_spec [OF s(1) assms(2,3)] by metis
  show "candidate_ok I update" unfolding s(2) by (rule candidate_of_session [OF c(2,3)])
  show "\<not> su_receive_applied update" "\<not> su_transmit_applied update" by (simp_all add: s(2))
  show "\<exists>c. config = Some c \<and> dcs_tail_ms (su_candidate update) = tcf_dcs_turnoff_duration_ms (scf_transmit c)"
    using c(1,4) by (simp add: s(2))
qed

section \<open>Runs\<close>

theorem receive_update_seamless_witness:
  "\<exists>session update session' update'.
    create providers_sample (Some config_sample) (Some session_ports_sample) False = Some (Inr session) \<and>
    prepare_update providers_sample (Some config_sample) (Some session_ports_sample) False = Some (Inr update) \<and>
    apply_receive_update session update = ((session', update'), Inr ()) \<and> session_ok (\<lambda>_. True) session' \<and>
    rx_updated (ss_receive session) (ss_receive (su_candidate update)) (ss_receive session')"
proof -
  have fits: "\<forall>c p. Some config_sample = Some c \<and> Some session_ports_sample = Some p \<longrightarrow> config_fits c \<and> ports_ok p"
    using config_fits_sample ports_ok_sample by blast
  obtain session where c: "create providers_sample (Some config_sample) (Some session_ports_sample) False = Some (Inr session)"
    using create_sample by blast
  obtain k where k: "config_sample = k" "session_ok (\<lambda>_. True) session" "fresh_session k session"
      "ss_maximum_frames session = (scf_maximum_receive_frame_count k, scf_maximum_transmit_frame_count k)"
      "ss_profile session = None"
    using create_spec [OF c providers_ok_sample fits] by (metis option.inject)
  obtain update where u: "prepare_update providers_sample (Some config_sample) (Some session_ports_sample) False = Some (Inr update)"
    "candidate_ok (\<lambda>_. True) update" "\<not> update_mismatch (session_sample ts_keyed) update"
    "\<not> su_receive_applied update" "\<not> ss_receive_busy (su_candidate update)"
    using prepare_sample by blast
  have "\<not> update_mismatch session update"
    using u(3) k(1,4,5) by (auto simp: update_mismatch_def config_sample_def session_config_sample_def)
  then have run: "\<exists>session' update'. apply_receive_update session update = ((session', update'), Inr ())"
    using u(4,5) k(3) by (simp add: apply_receive_update_def fresh_session_def case_prod_beta Let_def)
  show ?thesis using receive_update_seamless [OF k(2) u(2)] run c u(1) by auto
qed

theorem transmit_update_seamless_witness:
  "\<exists>session update session' update' status.
    create providers_sample (Some config_sample) (Some session_ports_sample) False = Some (Inr session) \<and>
    prepare_update providers_sample (Some config_sample) (Some session_ports_sample) False = Some (Inr update) \<and>
    apply_transmit_update session update = ((session', update'), status) \<and> session_ok (\<lambda>_. True) session' \<and>
    candidate_ok (\<lambda>_. True) update' \<and> beside_transmitter session' = beside_transmitter session"
proof -
  have fits: "\<forall>c p. Some config_sample = Some c \<and> Some session_ports_sample = Some p \<longrightarrow> config_fits c \<and> ports_ok p"
    using config_fits_sample ports_ok_sample by blast
  obtain session where c: "create providers_sample (Some config_sample) (Some session_ports_sample) False = Some (Inr session)"
    using create_sample by blast
  obtain k where k: "config_sample = k" "session_ok (\<lambda>_. True) session" "fresh_session k session"
    using create_spec [OF c providers_ok_sample fits] by (metis option.inject)
  obtain update where u: "prepare_update providers_sample (Some config_sample) (Some session_ports_sample) False = Some (Inr update)"
    "candidate_ok (\<lambda>_. True) update"
    using prepare_sample by blast
  have "tail_kept session update" using k(3) by (simp add: tail_kept_def fresh_session_def ts_default_def)
  from transmit_update_seamless [OF k(2) u(2) this]
  show ?thesis using c u(1) by (auto split: prod.splits)
qed

text \<open>A transmitter in the middle of a DCS tail.\<close>

definition dcs_tail_sample :: ts_state where
  "dcs_tail_sample = ts_default\<lparr>ts_transmitter_state := TX_STATE_TOC, ts_logical_ptt := True, ts_turnoff_phase := DcsTail,
     ts_turnoff_remaining_frames := 4800, ts_dcs_turnoff_remaining_ms := 100\<rparr>"

theorem dcs_update_wedges_transmitter_witness:
  "\<exists>update session' update' after w' buffer' e.
    prepare_update providers_sample (Some config_sample) (Some session_ports_sample) False = Some (Inr update) \<and>
    apply_transmit_update (session_sample dcs_tail_sample) update = ((session', update'), Inr ()) \<and>
    transmit_inner (\<lambda>x. x) session' () (Some (replicate 1920 fp_zero)) 960 (Some tx_controls_sample)
      (Some transmit_result_default) prepared_outputs_default =
      Some ((after, w'), buffer', Some transmit_result_default, prepared_outputs_default, Inl e) \<and>
    ts_logical_ptt (snd (tw_signaling (ss_transmit after)))"
proof -
  let ?s = "session_sample dcs_tail_sample"
  obtain update where u: "prepare_update providers_sample (Some config_sample) (Some session_ports_sample) False = Some (Inr update)"
    "\<not> update_mismatch ?s update" "dcs_tail_ms (su_candidate update) = 0"
    "\<not> su_transmit_applied update" "\<not> ss_transmit_busy (su_candidate update)"
    using prepare_sample by blast
  have w: "tw_signaling (tx_worker_sample dcs_tail_sample) = (ts_sample, dcs_tail_sample)"
    "tw_dcs (tx_worker_sample dcs_tail_sample) = dcs_tx_sample"
    by (simp_all add: tx_worker_sample_def transmit_worker_of_def Let_def)
  have "snd (dcs_update_config_from dcs_tx_sample d) = Inr ()" for d
    by (simp add: dcs_update_config_from_def dcs_tx_sample_def)
  then obtain session' update' where run: "apply_transmit_update ?s update = ((session', update'), Inr ())"
      "snd (tw_signaling (ss_transmit session')) = dcs_tail_sample"
    using u(2,4,5) w by (simp add: apply_transmit_update_def update_transmit_def update_config_from_def case_prod_beta Let_def)
  have "ti_external_ptt_request tx_controls_sample \<noteq> 0" "ti_render_admitted tx_controls_sample \<noteq> 0"
    by (simp_all add: tx_controls_sample_def)
  moreover have s: "ts_transmitter_state dcs_tail_sample = TX_STATE_TOC" "ts_turnoff_phase dcs_tail_sample = DcsTail"
    "ts_logical_ptt dcs_tail_sample"
    by (simp_all add: dcs_tail_sample_def)
  moreover have "ts_transmitter_state (snd (tw_signaling (ss_transmit ?s))) = TX_STATE_TOC"
    "ts_turnoff_phase (snd (tw_signaling (ss_transmit ?s))) = DcsTail"
    using s by (simp_all add: w)
  ultimately show ?thesis
    using dcs_update_wedges_transmitter [OF run(1), of tx_controls_sample "\<lambda>x. x" "()" "Some (replicate 1920 fp_zero)" 960
        "Some transmit_result_default" prepared_outputs_default] u(1,3) run
    by (metis order_refl)
qed

end
