(* ===== verification/Session_Reach.thy ===== *)
theory Session_Reach
  imports Session_Update
begin

text \<open>
  The life of a session: whatever its owner calls between \<open>create\<close> and \<open>destroy\<close> (\<open>src/session.rs\<close>), in any
  order and number, keeps the invariant of both callbacks, so that they return on every call.  The calls
  are the steps of a transition system; the prepared updates that are not reclaimed yet are part of its
  state.
\<close>

section \<open>Transition systems\<close>

locale transition_system =
  fixes start :: "'x \<Rightarrow> bool"
    and step :: "'x \<Rightarrow> 'x \<Rightarrow> bool"
    and inv :: "'x \<Rightarrow> bool"
  assumes start_inv: "start x \<Longrightarrow> inv x"
    and step_inv: "inv x \<Longrightarrow> step x y \<Longrightarrow> inv y"

context transition_system
begin

lemma reachable_inv:
  assumes "start x" and "step\<^sup>*\<^sup>* x y"
  shows "inv y"
  using assms(2)
proof (induction rule: rtranclp_induct)
  case base
  then show ?case using assms(1) by (rule start_inv)
next
  case (step y z)
  then show ?case using step_inv by blast
qed

end

section \<open>The exported callbacks\<close>

text \<open>A call is admissible while its clock is not at its end and its spans hold the frames it names.\<close>

definition span_holds :: "nat \<Rightarrow> f32 list option \<Rightarrow> bool" where
  "span_holds count buffer \<longleftrightarrow> (\<forall>xs. buffer = Some xs \<longrightarrow> 2 * count \<le> length xs)"

definition rx_admissible where
  "rx_admissible session input count \<longleftrightarrow>
     rw_sample_index (ss_receive session) + count < u64_max \<and> span_holds count input"

definition tx_admissible where
  "tx_admissible session buffer count \<longleftrightarrow>
     tw_sample_index (ss_transmit session) + count < u64_max \<and> span_holds count buffer"

lemma receive_inner_keeps:
  assumes "session_ok I session" and "rx_admissible session input count"
  shows "\<exists>session' w' rest. receive_inner session w input buffer count controls result valid = Some ((session', w'), rest) \<and>
    session_ok I session'"
proof -
  have ok: "rx_session_ok I session" "\<not> dcs_may_fail (rp_dcs_state (rw_detector (ss_receive session)))"
    using assms(1) dcs_sound_may_fail by (auto simp: session_ok_def rx_built_def Let_def)
  have "rw_sample_index (ss_receive session) + count < u64_max" "\<forall>xs. input = Some xs \<longrightarrow> 2 * count \<le> length xs"
    using assms(2) by (simp_all add: rx_admissible_def span_holds_def)
  note s = receive_inner_spec [OF ok this, where w = w and buffer = buffer and controls = controls and published = result
      and valid = valid]
  obtain session' w' rest where r: "receive_inner session w input buffer count controls result valid = Some ((session', w'), rest)"
    using s by (auto split: option.splits)
  with s have k: "rx_session_ok I session'" "other_side session' = other_side session"
    "rx_build (ss_receive session') = rx_build (ss_receive session)"
    by (auto split: prod.splits)
  have "rx_built (ss_receive session')"
    using rx_built_cong [OF k(3)] assms(1) by (simp add: session_ok_def)
  moreover have "ss_transmit session' = ss_transmit session" "ss_program_ring session' = ss_program_ring session"
    "ss_transmit_events session' = ss_transmit_events session" "ss_maximum_frames session' = ss_maximum_frames session"
    using k(2) by (simp_all add: other_side_def)
  moreover have "rw_maximum_frames (ss_receive session') = rw_maximum_frames (ss_receive session)"
    using k(3) by (simp add: rx_build_def)
  ultimately have "session_ok I session'" using k(1) assms(1) by (simp add: session_ok_def tx_session_ok_def)
  with r show ?thesis by blast
qed

lemma transmit_inner_keeps:
  assumes "session_ok I session" and "tx_admissible session buffer count"
  shows "\<exists>session' w' rest. transmit_inner sine session w buffer count controls result prepared = Some ((session', w'), rest) \<and>
    session_ok I session'"
proof -
  have ok: "tx_session_ok session" "tw_sample_index (ss_transmit session) + count < u64_max"
    "\<forall>xs. buffer = Some xs \<longrightarrow> 2 * count \<le> length xs"
    using assms by (simp_all add: session_ok_def tx_admissible_def span_holds_def)
  note s = transmit_inner_spec [OF ok, where sine = sine and w = w and controls = controls and published = result
      and prepared = prepared]
  obtain session' w' rest where r: "transmit_inner sine session w buffer count controls result prepared = Some ((session', w'), rest)"
    using s by (auto split: option.splits)
  with s have k: "tx_session_ok session'" "tx_untouched session' = tx_untouched session"
    by (auto split: prod.splits)
  have "ss_receive session' = ss_receive session" "ss_receive_events session' = ss_receive_events session"
    "ss_maximum_frames session' = ss_maximum_frames session"
    "tw_maximum_frames (ss_transmit session') = tw_maximum_frames (ss_transmit session)"
    using k(2) by (simp_all add: tx_untouched_def)
  then have "session_ok I session'" using k(1) assms(1) by (simp add: session_ok_def rx_session_ok_def)
  with r show ?thesis by blast
qed

lemma receive_keeps:
  assumes "session_ok I session" and "rx_admissible session input count"
  shows "\<exists>session' w' rest. receive (Some session) w input buffer count controls result = Some ((Some session', w'), rest) \<and>
    session_ok I session'"
  using receive_inner_keeps [OF assms, where w = w and buffer = buffer and controls = controls and result = result
      and valid = True] assms(1)
  by (auto simp: receive_def)

lemma receive_profiled_keeps:
  assumes "session_ok I session" and "rx_admissible session input count"
  shows "\<exists>session' w' rest. receive_profiled (Some session) w input buffer count controls result =
      Some ((Some session', w'), rest) \<and> session_ok I session'"
proof (cases "ss_profile session")
  case None
  then show ?thesis using assms(1) by (simp add: receive_profiled_def)
next
  case (Some p)
  show ?thesis
  proof (cases controls)
    case None
    then show ?thesis using assms(1) Some by (simp add: receive_profiled_def)
  next
    case controls: (Some c)
    obtain session' w' b r st where "receive_inner session w input buffer count (Some (normalized_input c)) (Some receive_result_default)
        (profile_snapshots_valid p (pri_hardware_cor_valid c \<noteq> 0) (pri_external_ctcss_valid c \<noteq> 0)) =
        Some ((session', w'), b, r, st)" "session_ok I session'"
      using receive_inner_keeps [OF assms] by (metis prod.exhaust)
    then show ?thesis using assms(1) Some controls by (simp add: receive_profiled_def)
  qed
qed

lemma transmit_keeps:
  assumes "session_ok I session" and "tx_admissible session buffer count"
  shows "\<exists>session' w' rest. transmit sine (Some session) w buffer count controls result = Some ((Some session', w'), rest) \<and>
    session_ok I session'"
  using transmit_inner_keeps [OF assms, where sine = sine and w = w and controls = controls and result = result
      and prepared = prepared_outputs_default] assms(1)
  by (auto simp: transmit_def case_prod_beta)

lemma transmit_profiled_keeps:
  assumes "session_ok I session" and "tx_admissible session buffer count"
  shows "\<exists>session' w' rest. transmit_profiled sine (Some session) w buffer count controls result =
      Some ((Some session', w'), rest) \<and> session_ok I session'"
proof (cases "ss_profile session = None \<or> buffer = None \<or> controls = None")
  case True
  then show ?thesis
    using assms(1) by (cases buffer; cases controls; cases "ss_profile session") (auto simp: transmit_profiled_def Let_def)
next
  case False
  then obtain p out c where g: "ss_profile session = Some p" "buffer = Some out" "controls = Some c" by auto
  have "tx_admissible session (Some (silenced (count * 2) out)) count"
    using assms(2) g(2) by (simp add: tx_admissible_def span_holds_def silenced_def write_span_def)
  then obtain session' w' b r q st where "transmit_inner sine session w (Some (silenced (count * 2) out)) count controls
      (Some transmit_result_default) prepared_outputs_default = Some ((session', w'), b, r, q, st)" "session_ok I session'"
    using transmit_inner_keeps [OF assms(1)] by (metis prod.exhaust)
  then show ?thesis using assms(1) g by (simp add: transmit_profiled_def Let_def)
qed

section \<open>The life of a session\<close>

text \<open>The session, the state of the borrowed ports, and the updates that were prepared and not reclaimed.\<close>

record ('w, 's, 'r, 'd, 'h, 'n, 't, 'u) life =
  lf_session :: "('w, 's, 'r, 'd, 'h, 'n, 't, 'u) session"
  lf_world :: 'w
  lf_updates :: "('w, 's, 'r, 'd, 'h, 'n, 't, 'u) session_update list"

inductive life_step ::
  "(f64 \<Rightarrow> f64) \<Rightarrow> ('s, 'r, 'd, 'h, 'n, 't, 'u) providers \<Rightarrow> ('w, 's, 'r, 'd, 'h, 'n, 't, 'u) life \<Rightarrow>
     ('w, 's, 'r, 'd, 'h, 'n, 't, 'u) life \<Rightarrow> bool" for sine pv where
  step_receive: "rx_admissible (lf_session x) input count \<Longrightarrow>
    receive (Some (lf_session x)) (lf_world x) input buffer count controls result = Some ((Some s, w), rest) \<Longrightarrow>
    life_step sine pv x (x\<lparr>lf_session := s, lf_world := w\<rparr>)"
| step_receive_profiled: "rx_admissible (lf_session x) input count \<Longrightarrow>
    receive_profiled (Some (lf_session x)) (lf_world x) input buffer count pcontrols presult = Some ((Some s, w), prest) \<Longrightarrow>
    life_step sine pv x (x\<lparr>lf_session := s, lf_world := w\<rparr>)"
| step_transmit: "tx_admissible (lf_session x) buffer count \<Longrightarrow>
    transmit sine (Some (lf_session x)) (lf_world x) buffer count tcontrols tresult = Some ((Some s, w), trest) \<Longrightarrow>
    life_step sine pv x (x\<lparr>lf_session := s, lf_world := w\<rparr>)"
| step_transmit_profiled: "tx_admissible (lf_session x) buffer count \<Longrightarrow>
    transmit_profiled sine (Some (lf_session x)) (lf_world x) buffer count tcontrols tpresult = Some ((Some s, w), tprest) \<Longrightarrow>
    life_step sine pv x (x\<lparr>lf_session := s, lf_world := w\<rparr>)"
| step_warm: "warm (lf_session x) (lf_world x) = ((s, w), status) \<Longrightarrow>
    life_step sine pv x (x\<lparr>lf_session := s, lf_world := w\<rparr>)"
| step_prepare: "prepare_update pv (Some config) (Some ports) False = Some (Inr u) \<Longrightarrow> config_fits config \<Longrightarrow>
    ports_ok ports \<Longrightarrow> life_step sine pv x (x\<lparr>lf_updates := u # lf_updates x\<rparr>)"
| step_prepare_profiled: "prepare_profiled_update pv (Some (lf_session x)) (Some config) (Some ports) profile caps False =
      Some (Inr u) \<Longrightarrow> config_fits config \<Longrightarrow> ports_ok ports \<Longrightarrow>
    life_step sine pv x (x\<lparr>lf_updates := u # lf_updates x\<rparr>)"
| step_apply_receive: "i < length (lf_updates x) \<Longrightarrow>
    apply_receive_update (lf_session x) (lf_updates x ! i) = ((s, u), status) \<Longrightarrow>
    life_step sine pv x (x\<lparr>lf_session := s, lf_updates := (lf_updates x)[i := u]\<rparr>)"
| step_apply_transmit: "i < length (lf_updates x) \<Longrightarrow> tail_kept (lf_session x) (lf_updates x ! i) \<Longrightarrow>
    apply_transmit_update (lf_session x) (lf_updates x ! i) = ((s, u), status) \<Longrightarrow>
    life_step sine pv x (x\<lparr>lf_session := s, lf_updates := (lf_updates x)[i := u]\<rparr>)"
| step_reclaim: "life_step sine pv x (x\<lparr>lf_updates := take i (lf_updates x) @ drop (Suc i) (lf_updates x)\<rparr>)"
| step_pop_receive: "pop_receive_event (lf_session x) e = (s, e', value) \<Longrightarrow>
    life_step sine pv x (x\<lparr>lf_session := s\<rparr>)"
| step_pop_transmit: "pop_transmit_event (lf_session x) e = (s, e', value) \<Longrightarrow>
    life_step sine pv x (x\<lparr>lf_session := s\<rparr>)"

definition life_start ::
  "('n \<Rightarrow> bool) \<Rightarrow> ('s, 'r, 'd, 'h, 'n, 't, 'u) providers \<Rightarrow> ('w, 's, 'r, 'd, 'h, 'n, 't, 'u) life \<Rightarrow> bool" where
  "life_start I pv x \<longleftrightarrow> providers_ok I pv \<and> lf_updates x = [] \<and>
     (\<exists>config ports. config_fits config \<and> ports_ok ports \<and>
        (create pv (Some config) (Some ports) False = Some (Inr (lf_session x)) \<or>
         (\<exists>profile caps. create_profiled pv (Some config) (Some ports) profile caps False = Some (Inr (lf_session x)))))"

definition life_ok ::
  "('n \<Rightarrow> bool) \<Rightarrow> ('s, 'r, 'd, 'h, 'n, 't, 'u) providers \<Rightarrow> ('w, 's, 'r, 'd, 'h, 'n, 't, 'u) life \<Rightarrow> bool" where
  "life_ok I pv x \<longleftrightarrow> providers_ok I pv \<and> session_ok I (lf_session x) \<and> (\<forall>u \<in> set (lf_updates x). candidate_ok I u)"

text \<open>A profile only selects sources and the external encoder.\<close>

lemma profile_configure_fits: "config_fits (profile_configure p config) \<longleftrightarrow> config_fits config"
  by (simp add: config_fits_def profile_configure_def)

lemma external_config_ok: "config_ok (use_external_encoder c) \<longleftrightarrow> config_ok c"
  by (simp add: config_ok_def tail_fits_def use_external_encoder_def ts_validate_config_def)

lemma initialize_profile_ok:
  assumes "session_ok I session" and "fresh_session config session"
  shows "session_ok I (initialize_profile p session)"
    and "\<not> vp_raw (sv_policy (rw_vad (ss_receive (initialize_profile p session))))"
proof -
  have "ts_wf c (snd (tw_signaling (ss_transmit session)))" for c
    using assms(2) ts_default_wf by (simp add: fresh_session_def)
  then have "tx_ok ((ss_transmit session)\<lparr>tw_signaling :=
      (use_external_encoder (fst (tw_signaling (ss_transmit session))), snd (tw_signaling (ss_transmit session)))\<rparr>)"
    using assms(1) external_config_ok
    by (simp add: session_ok_def tx_session_ok_def tx_ok_def tx_setup_ok_def tx_buffers_ok_def)
  then show "session_ok I (initialize_profile p session)"
    using assms(1) by (simp add: initialize_profile_def session_ok_def rx_session_ok_def tx_session_ok_def Let_def)
  show "\<not> vp_raw (sv_policy (rw_vad (ss_receive (initialize_profile p session))))"
    using assms(2) by (simp add: initialize_profile_def fresh_session_def Let_def)
qed

lemma validated_profile_of_fits:
  assumes "validated_profile_of (Some config) profile caps = Inr (config', p)" and "config_fits config"
  shows "config_fits config'"
  using assms by (auto simp: validated_profile_of_def bind_result_Inr profile_configure_fits split: if_splits option.splits)

lemma start_ok:
  assumes "life_start I pv x"
  shows "life_ok I pv x"
proof -
  obtain config ports where c: "config_fits config" "ports_ok ports" "providers_ok I pv" "lf_updates x = []"
    "create pv (Some config) (Some ports) False = Some (Inr (lf_session x)) \<or>
     (\<exists>profile caps. create_profiled pv (Some config) (Some ports) profile caps False = Some (Inr (lf_session x)))"
    using assms by (auto simp: life_start_def)
  have made: "session_ok I s \<and> fresh_session k s"
    if "create pv (Some k) (Some ports) False = Some (Inr s)" "config_fits k" for k s
    using create_spec [OF that(1) c(3)] that(2) c(2) by (metis option.inject)
  have "session_ok I (lf_session x)"
    using c(5)
  proof (elim disjE exE)
    fix profile caps
    assume "create_profiled pv (Some config) (Some ports) profile caps False = Some (Inr (lf_session x))"
    then obtain config' p s where p: "validated_profile_of (Some config) profile caps = Inr (config', p)"
      "create pv (Some config') (Some ports) False = Some (Inr s)" "lf_session x = initialize_profile p s"
      by (auto simp: create_profiled_def bind_setup_Inr bind_fallible_Inr)
    then show ?thesis using made validated_profile_of_fits [OF p(1) c(1)] initialize_profile_ok(1) by metis
  qed (use made c(1) in blast)
  then show ?thesis using c(3,4) by (simp add: life_ok_def)
qed

lemma prepare_profiled_spec:
  assumes "prepare_profiled_update pv session (Some config) (Some ports) profile caps False = Some (Inr update)"
    and "providers_ok I pv" and "config_fits config" and "ports_ok ports"
  shows "candidate_ok I update"
proof -
  obtain config' p u where p: "validated_profile_of (Some config) profile caps = Inr (config', p)"
    "prepare_update pv (Some config') (Some ports) False = Some (Inr u)"
    "update = u\<lparr>su_candidate := initialize_profile p (su_candidate u)\<rparr>"
    using assms(1) by (auto simp: prepare_profiled_update_def bind_setup_Inr bind_fallible_Inr split: option.splits if_splits)
  obtain s where s: "create pv (Some config') (Some ports) False = Some (Inr s)"
    "u = \<lparr>su_candidate = s, su_receive_applied = False, su_transmit_applied = False\<rparr>"
    using p(2) by (auto simp: prepare_update_def bind_fallible_Inr split: if_splits)
  have "session_ok I s" "fresh_session config' s"
    using create_spec [OF s(1) assms(2)] validated_profile_of_fits [OF p(1) assms(3)] assms(4) by (metis option.inject)+
  from initialize_profile_ok [OF this, of p] show ?thesis
    by (simp add: p(3) s(2) candidate_ok_def session_ok_def rx_session_ok_def tx_session_ok_def Let_def)
qed

lemma pop_into_wf: "queue_wf q \<Longrightarrow> pop_into q e = (q', e', v) \<Longrightarrow> queue_wf q'"
  using pop_items by (auto simp: pop_into_def split: option.splits)

lemma step_ok:
  assumes "life_step sine pv x y" and "life_ok I pv x"
  shows "life_ok I pv y"
  using assms
proof (induction rule: life_step.induct)
  case (step_receive x input count buffer controls result s w rest)
  then show ?case using receive_keeps [of I "lf_session x" input count "lf_world x" buffer controls result]
    by (auto simp: life_ok_def)
next
  case (step_receive_profiled x input count buffer controls result s w rest)
  then show ?case using receive_profiled_keeps [of I "lf_session x" input count "lf_world x" buffer controls result]
    by (auto simp: life_ok_def)
next
  case (step_transmit x buffer count controls result s w rest)
  then show ?case using transmit_keeps [of I "lf_session x" buffer count sine "lf_world x" controls result]
    by (auto simp: life_ok_def)
next
  case (step_transmit_profiled x buffer count controls result s w rest)
  then show ?case using transmit_profiled_keeps [of I "lf_session x" buffer count sine "lf_world x" controls result]
    by (auto simp: life_ok_def)
next
  case (step_warm x s w status)
  then show ?case using warm_spec [of I "lf_session x" "lf_world x"] by (auto simp: life_ok_def)
next
  case (step_prepare config ports u x)
  then show ?case using prepare_update_spec(1) [of pv "Some config" "Some ports" False u I] by (simp add: life_ok_def)
next
  case (step_prepare_profiled x config ports profile caps u)
  then have "candidate_ok I u" using prepare_profiled_spec [OF step_prepare_profiled(1)] by (simp add: life_ok_def)
  then show ?case using step_prepare_profiled(4) by (simp add: life_ok_def)
next
  case (step_apply_receive i x s u status)
  then have "candidate_ok I (lf_updates x ! i)" by (simp add: life_ok_def)
  then show ?case using step_apply_receive apply_receive_spec [of I "lf_session x" "lf_updates x ! i"]
    by (auto simp: life_ok_def dest: set_update_subset_insert [THEN subsetD])
next
  case (step_apply_transmit i x s u status)
  then have "candidate_ok I (lf_updates x ! i)" by (simp add: life_ok_def)
  then show ?case using step_apply_transmit apply_transmit_spec [of I "lf_session x" "lf_updates x ! i"]
    by (auto simp: life_ok_def dest: set_update_subset_insert [THEN subsetD])
next
  case (step_reclaim x i)
  then show ?case by (auto simp: life_ok_def dest: in_set_takeD in_set_dropD)
next
  case (step_pop_receive x e s e' v)
  then show ?case using pop_into_wf
    by (auto simp: life_ok_def pop_receive_event_def session_ok_def rx_session_ok_def tx_session_ok_def
        split: option.splits prod.splits)
next
  case (step_pop_transmit x e s e' v)
  then show ?case using pop_into_wf
    by (auto simp: life_ok_def pop_transmit_event_def session_ok_def rx_session_ok_def tx_session_ok_def
        split: option.splits prod.splits)
qed

interpretation sessions: transition_system "life_start I pv" "life_step sine pv" "life_ok I pv" for I pv sine
  by unfold_locales (auto intro: start_ok step_ok)

text \<open>C3: whatever is done with a session, its callbacks return.  After any sequence of callbacks of both sides,
  profiled or not, of warming, of preparing, applying and reclaiming updates and of reading events, starting
  from a session one of the constructors made, the invariant holds, as long as no transmit update takes the
  duration from a DCS tail in progress (\<open>tail_kept\<close>): no callback panics or runs on, on any
  arguments whose spans hold the frames they name, before the clocks end.\<close>

theorem reachable_session_total:
  assumes "life_start I pv x" and "(life_step sine pv)\<^sup>*\<^sup>* x y"
  shows "session_ok I (lf_session y) \<and>
    (rx_admissible (lf_session y) input count \<longrightarrow>
       receive (Some (lf_session y)) w input buffer count controls result \<noteq> None \<and>
       receive_profiled (Some (lf_session y)) w input buffer count pcontrols presult \<noteq> None) \<and>
    (tx_admissible (lf_session y) buffer count \<longrightarrow>
       transmit sine (Some (lf_session y)) w buffer count tcontrols tresult \<noteq> None \<and>
       transmit_profiled sine (Some (lf_session y)) w buffer count tcontrols tpresult \<noteq> None)"
proof -
  have "life_ok I pv y" by (rule sessions.reachable_inv [OF assms])
  then have ok: "session_ok I (lf_session y)" by (simp add: life_ok_def)
  show ?thesis
    using ok receive_keeps [OF ok] receive_profiled_keeps [OF ok] transmit_keeps [OF ok] transmit_profiled_keeps [OF ok]
    by (metis option.distinct(1))
qed

theorem reachable_session_total_witness:
  "\<exists>session warmed w' status. create providers_sample (Some config_sample) (Some session_ports_sample) False = Some (Inr session) \<and>
    warm session () = ((warmed, w'), status) \<and>
    receive (Some warmed) () (Some [fp_zero, fp_zero]) (Some [fp_zero]) 1 (Some rx_controls_sample)
      (Some receive_result_default) \<noteq> None"
proof -
  obtain session where c: "create providers_sample (Some config_sample) (Some session_ports_sample) False = Some (Inr session)"
    using create_sample by blast
  have "\<forall>c p. Some config_sample = Some c \<and> Some session_ports_sample = Some p \<longrightarrow> config_fits c \<and> ports_ok p"
    using config_fits_sample ports_ok_sample by blast
  then obtain k where k: "session_ok (\<lambda>_. True) session" "fresh_session k session"
    using create_spec [OF c providers_ok_sample] by (metis option.inject)
  obtain warmed w' status where w: "warm session () = ((warmed, w'), status)" by (metis prod.exhaust)
  let ?x = "\<lparr>lf_session = session, lf_world = (), lf_updates = []\<rparr>"
  have start: "life_start (\<lambda>_. True) providers_sample ?x"
    using c providers_ok_sample config_fits_sample ports_ok_sample by (auto simp: life_start_def)
  have "life_step (\<lambda>x. x) providers_sample ?x (?x\<lparr>lf_session := warmed, lf_world := w'\<rparr>)"
    by (rule step_warm) (simp add: w)
  then have reach: "(life_step (\<lambda>x. x) providers_sample)\<^sup>*\<^sup>* ?x (?x\<lparr>lf_session := warmed, lf_world := w'\<rparr>)" by blast
  have "rw_sample_index (ss_receive warmed) = 0"
    using warm_spec [OF k(1), of "()"] w k(2) by (auto simp: warm_keeps_def fresh_session_def)
  then have "rx_admissible warmed (Some [fp_zero, fp_zero]) 1" by (simp add: rx_admissible_def span_holds_def u64_max_def)
  then show ?thesis using reachable_session_total [OF start reach] c w by fastforce
qed

end
