(* ===== verification/Session_Guards.thy ===== *)
theory Session_Guards
  imports Session_Reach
begin

text \<open>
  The guards of a session (\<open>BusyGuard\<close> and \<open>enter\<close> in \<open>src/session.rs\<close>), under every interleaving of any
  number of threads.  The other theories take a callback as one step; here a call is what its thread does to
  the guards: it enters them one after the other, runs its body when it holds them all, and drops them in
  reverse when it returns, also when one of them was busy.  A thread is a number, an update too.
\<close>

section \<open>Guards and calls\<close>

datatype guard = LiveReceive | LiveTransmit | CandidateReceive nat | CandidateTransmit nat

datatype guarded_call = CallWarm | CallReceive | CallTransmit | CallReceiveUpdate nat | CallTransmitUpdate nat

text \<open>The guards a call enters, in its order.\<close>

fun call_guards :: "guarded_call \<Rightarrow> guard list" where
  "call_guards CallWarm = [LiveReceive, LiveTransmit]"
| "call_guards CallReceive = [LiveReceive]"
| "call_guards CallTransmit = [LiveTransmit]"
| "call_guards (CallReceiveUpdate u) = [LiveReceive, CandidateReceive u]"
| "call_guards (CallTransmitUpdate u) = [LiveTransmit, CandidateTransmit u]"

text \<open>The workers its body takes a reference to: of the receiver or not, of the session that is live or
  of a candidate.\<close>

fun body_workers :: "guarded_call \<Rightarrow> (bool \<times> nat option) set" where
  "body_workers CallWarm = {(True, None), (False, None)}"
| "body_workers CallReceive = {(True, None)}"
| "body_workers CallTransmit = {(False, None)}"
| "body_workers (CallReceiveUpdate u) = {(True, None), (True, Some u)}"
| "body_workers (CallTransmitUpdate u) = {(False, None), (False, Some u)}"

text \<open>What a call looks at before its first guard: a session that is warmed is not warmed again, one that
  is not does not run its callbacks.\<close>

fun call_admitted :: "bool \<Rightarrow> guarded_call \<Rightarrow> bool" where
  "call_admitted warmed CallWarm = (\<not> warmed)"
| "call_admitted warmed CallReceive = warmed"
| "call_admitted warmed CallTransmit = warmed"
| "call_admitted warmed _ = True"

text \<open>\<open>enter\<close> is a compare-and-exchange, dropping a guard a store.\<close>

definition enter :: "guard \<Rightarrow> (guard \<Rightarrow> bool) \<Rightarrow> (guard \<Rightarrow> bool) option" where
  "enter g flags = (if flags g then None else Some (flags(g := True)))"

definition drop_guard :: "guard \<Rightarrow> (guard \<Rightarrow> bool) \<Rightarrow> guard \<Rightarrow> bool" where
  "drop_guard g flags = flags(g := False)"

text \<open>Where a thread is: its call, the guards it holds, the last one first, and those it has still to enter.\<close>

datatype guard_thread =
    Outside
  | Entering guarded_call "guard list" "guard list"
  | Inside guarded_call "guard list"
  | Returning "guard list"

record guarded =
  gd_flags :: "guard \<Rightarrow> bool"
  gd_warmed :: bool
  gd_threads :: "nat \<Rightarrow> guard_thread"
  gd_bodies :: "guarded_call list"

definition guarded_new :: "bool \<Rightarrow> guarded" where
  "guarded_new warmed = \<lparr>gd_flags = (\<lambda>g. False), gd_warmed = warmed, gd_threads = (\<lambda>i. Outside), gd_bodies = []\<rparr>"

text \<open>One atomic step of thread \<open>i\<close>.  A body that has run is recorded; that of \<open>warm\<close> sets the flag it looked
  at, unless a processor failed.\<close>

inductive guard_step :: "nat \<Rightarrow> guarded \<Rightarrow> guarded \<Rightarrow> bool" where
  guard_refuse: "gd_threads s i = Outside \<Longrightarrow> \<not> call_admitted (gd_warmed s) c \<Longrightarrow> guard_step i s s"
| guard_begin: "gd_threads s i = Outside \<Longrightarrow> call_admitted (gd_warmed s) c \<Longrightarrow>
    guard_step i s (s\<lparr>gd_threads := (gd_threads s)(i := Entering c [] (call_guards c))\<rparr>)"
| guard_enter: "gd_threads s i = Entering c held (g # rest) \<Longrightarrow> enter g (gd_flags s) = Some flags \<Longrightarrow>
    guard_step i s (s\<lparr>gd_flags := flags, gd_threads := (gd_threads s)(i := Entering c (g # held) rest)\<rparr>)"
| guard_busy: "gd_threads s i = Entering c held (g # rest) \<Longrightarrow> enter g (gd_flags s) = None \<Longrightarrow>
    guard_step i s (s\<lparr>gd_threads := (gd_threads s)(i := Returning held)\<rparr>)"
| guard_body: "gd_threads s i = Entering c held [] \<Longrightarrow>
    guard_step i s (s\<lparr>gd_threads := (gd_threads s)(i := Inside c held)\<rparr>)"
| guard_done: "gd_threads s i = Inside c held \<Longrightarrow>
    guard_step i s (s\<lparr>gd_warmed := (gd_warmed s \<or> c = CallWarm \<and> succeeded),
      gd_threads := (gd_threads s)(i := Returning held), gd_bodies := gd_bodies s @ [c]\<rparr>)"
| guard_drop: "gd_threads s i = Returning (g # held) \<Longrightarrow>
    guard_step i s (s\<lparr>gd_flags := drop_guard g (gd_flags s), gd_threads := (gd_threads s)(i := Returning held)\<rparr>)"
| guard_return: "gd_threads s i = Returning [] \<Longrightarrow>
    guard_step i s (s\<lparr>gd_threads := (gd_threads s)(i := Outside)\<rparr>)"

definition guarded_step :: "guarded \<Rightarrow> guarded \<Rightarrow> bool" where
  "guarded_step s s' \<longleftrightarrow> (\<exists>i. guard_step i s s')"

section \<open>Who holds what\<close>

fun held_by :: "guard_thread \<Rightarrow> guard list" where
  "held_by Outside = []"
| "held_by (Entering c held rest) = held"
| "held_by (Inside c held) = held"
| "held_by (Returning held) = held"

fun thread_ok :: "guard_thread \<Rightarrow> bool" where
  "thread_ok (Entering c held rest) \<longleftrightarrow> rev held @ rest = call_guards c"
| "thread_ok (Inside c held) \<longleftrightarrow> rev held = call_guards c"
| "thread_ok _ \<longleftrightarrow> True"

text \<open>A flag is set exactly while one thread holds its guard, and no other does.\<close>

definition guarded_ok :: "guarded \<Rightarrow> bool" where
  "guarded_ok s \<longleftrightarrow> (\<forall>i. thread_ok (gd_threads s i) \<and> distinct (held_by (gd_threads s i)) \<and>
       length (held_by (gd_threads s i)) \<le> 2) \<and>
     (\<forall>i j. i \<noteq> j \<longrightarrow> set (held_by (gd_threads s i)) \<inter> set (held_by (gd_threads s j)) = {}) \<and>
     (\<forall>g. gd_flags s g \<longleftrightarrow> (\<exists>i. g \<in> set (held_by (gd_threads s i))))"

lemma call_guards_short: "distinct (call_guards c)" "length (call_guards c) \<le> 2"
  by (cases c; simp)+

lemma guarded_ok_new: "guarded_ok (guarded_new warmed)"
  by (simp add: guarded_ok_def guarded_new_def)

lemma guarded_move:
  assumes "guarded_ok s" and "thread_ok t" and "held_by t = held_by (gd_threads s i)"
    and "gd_flags s' = gd_flags s" and "gd_threads s' = (gd_threads s)(i := t)"
  shows "guarded_ok s'"
proof -
  have "held_by (gd_threads s' j) = held_by (gd_threads s j)" for j
    using assms(3,5) by simp
  moreover have "thread_ok (gd_threads s' j)" for j
    using assms(1,2,5) by (simp add: guarded_ok_def)
  ultimately show ?thesis using assms(1,4) by (simp add: guarded_ok_def)
qed

lemma guarded_take:
  assumes "guarded_ok s" and "thread_ok t" and "held_by t = g # held_by (gd_threads s i)" and "length (held_by t) \<le> 2"
    and "\<not> gd_flags s g" and "gd_flags s' = (gd_flags s)(g := True)" and "gd_threads s' = (gd_threads s)(i := t)"
  shows "guarded_ok s'"
proof -
  have free: "g \<notin> set (held_by (gd_threads s j))" for j
    using assms(1,5) by (auto simp: guarded_ok_def)
  have "thread_ok (gd_threads s' j) \<and> distinct (held_by (gd_threads s' j)) \<and> length (held_by (gd_threads s' j)) \<le> 2" for j
    using assms(1-4,7) free by (simp add: guarded_ok_def)
  moreover have "set (held_by (gd_threads s' j)) \<inter> set (held_by (gd_threads s' k)) = {}" if "j \<noteq> k" for j k
    using assms(1,3,7) free that by (auto simp: guarded_ok_def)
  moreover have "gd_flags s' h \<longleftrightarrow> (\<exists>j. h \<in> set (held_by (gd_threads s' j)))" for h
    using assms(1,3,6,7) by (auto simp: guarded_ok_def)
  ultimately show ?thesis by (simp add: guarded_ok_def)
qed

lemma guarded_drop:
  assumes "guarded_ok s" and "thread_ok t" and "held_by (gd_threads s i) = g # held_by t"
    and "gd_flags s' = (gd_flags s)(g := False)" and "gd_threads s' = (gd_threads s)(i := t)"
  shows "guarded_ok s'"
proof -
  have i: "g \<notin> set (held_by t)" "distinct (held_by t)" "length (held_by t) \<le> 2"
    and other: "j \<noteq> i \<Longrightarrow> set (held_by (gd_threads s j)) \<inter> set (g # held_by t) = {}" for j
    using assms(1) assms(3) [symmetric] unfolding guarded_ok_def by (metis distinct.simps(2), metis distinct.simps(2),
      metis Suc_leD length_Cons, metis)
  have "thread_ok (gd_threads s' j) \<and> distinct (held_by (gd_threads s' j)) \<and> length (held_by (gd_threads s' j)) \<le> 2" for j
    using assms(1,2,5) i by (simp add: guarded_ok_def)
  moreover have "set (held_by (gd_threads s' j)) \<inter> set (held_by (gd_threads s' k)) = {}" if "j \<noteq> k" for j k
    using assms(1,5) other [of j] other [of k] that by (auto simp: guarded_ok_def)
  moreover have "gd_flags s' h \<longleftrightarrow> (\<exists>j. h \<in> set (held_by (gd_threads s' j)))" for h
  proof (cases "h = g")
    case True
    then show ?thesis using assms(4,5) other i(1) by auto
  next
    case False
    have "gd_flags s h \<longleftrightarrow> (\<exists>j. h \<in> set (held_by (gd_threads s j)))" using assms(1) by (simp add: guarded_ok_def)
    also have "\<dots> \<longleftrightarrow> (\<exists>j. h \<in> set (held_by (gd_threads s' j)))"
      by (rule iff_exI) (use False assms(3,5) in auto)
    finally show ?thesis using False assms(4) by simp
  qed
  ultimately show ?thesis by (simp add: guarded_ok_def)
qed

lemma guard_step_ok:
  assumes "guard_step i s s'" and "guarded_ok s"
  shows "guarded_ok s'"
  using assms
proof (induction rule: guard_step.induct)
  case (guard_begin s i c)
  show ?case by (rule guarded_move [OF guard_begin.prems]) (use guard_begin.hyps in simp_all)
next
  case (guard_enter s i c held g rest flags)
  have t: "thread_ok (Entering c held (g # rest))" using guard_enter.prems guard_enter.hyps(1) by (metis guarded_ok_def)
  then have "length (g # held) \<le> 2"
    using call_guards_short(2) [of c] by (metis thread_ok.simps(1) length_append length_rev length_Cons le_add1 add_Suc_shift order_trans)
  then show ?case
    using guard_enter.hyps t
    by (intro guarded_take [OF guard_enter.prems, where t = "Entering c (g # held) rest" and g = g and i = i])
      (auto simp: enter_def split: if_splits)
next
  case (guard_busy s i c held g rest)
  show ?case by (rule guarded_move [OF guard_busy.prems]) (use guard_busy.hyps in simp_all)
next
  case (guard_body s i c held)
  have "thread_ok (Entering c held [])" using guard_body by (metis guarded_ok_def)
  then show ?case by (intro guarded_move [OF guard_body.prems]) (use guard_body.hyps in simp_all)
next
  case (guard_done s i c held succeeded)
  show ?case by (rule guarded_move [OF guard_done.prems]) (use guard_done.hyps in simp_all)
next
  case (guard_drop s i g held)
  show ?case by (rule guarded_drop [OF guard_drop.prems]) (use guard_drop.hyps in \<open>simp_all add: drop_guard_def\<close>)
next
  case (guard_return s i)
  show ?case by (rule guarded_move [OF guard_return.prems]) (use guard_return.hyps in simp_all)
qed

interpretation guards: transition_system "\<lambda>s. \<exists>warmed. s = guarded_new warmed" guarded_step guarded_ok
  by unfold_locales (auto simp: guarded_step_def guarded_ok_new intro: guard_step_ok)

section \<open>Calls never wait\<close>

text \<open>The steps a thread has still to take, whatever the others do.\<close>

fun steps_left :: "guard_thread \<Rightarrow> nat" where
  "steps_left Outside = 0"
| "steps_left (Entering c held rest) = 2 * length rest + length held + 3"
| "steps_left (Inside c held) = length held + 2"
| "steps_left (Returning held) = length held + 1"

lemma guard_step_left:
  assumes "guard_step i s s'"
  shows "gd_threads s i \<noteq> Outside \<Longrightarrow> steps_left (gd_threads s' i) < steps_left (gd_threads s i)"
    and "j \<noteq> i \<Longrightarrow> gd_threads s' j = gd_threads s j"
  using assms by (induction rule: guard_step.induct) auto

lemma guard_step_enabled: "\<exists>s'. guard_step i s s'"
proof (cases "gd_threads s i")
  case Outside
  then show ?thesis using guard_refuse guard_begin by blast
next
  case (Entering c held rest)
  show ?thesis
  proof (cases rest)
    case Nil
    then show ?thesis using Entering guard_body by blast
  next
    case (Cons g gs)
    then show ?thesis using Entering guard_enter guard_busy by (cases "enter g (gd_flags s)") blast+
  qed
next
  case (Inside c held)
  then show ?thesis using guard_done by blast
next
  case (Returning held)
  then show ?thesis using guard_drop guard_return by (cases held) blast+
qed

lemma guarded_left: "guarded_ok s \<Longrightarrow> steps_left (gd_threads s i) \<le> 7"
proof -
  assume "guarded_ok s"
  then have t: "thread_ok (gd_threads s i)" "length (held_by (gd_threads s i)) \<le> 2" by (simp_all add: guarded_ok_def)
  show ?thesis
  proof (cases "gd_threads s i")
    case (Entering c held rest)
    with t have "length held + length rest \<le> 2"
      using call_guards_short(2) [of c] by (metis thread_ok.simps(1) length_append length_rev)
    then show ?thesis using Entering by simp
  qed (use t in auto)
qed

lemma busy_holder:
  assumes "guarded_ok s" and "gd_threads s i = Entering c held (g # rest)" and "gd_flags s g"
  shows "\<exists>j. j \<noteq> i \<and> g \<in> set (held_by (gd_threads s j))"
proof -
  obtain j where j: "g \<in> set (held_by (gd_threads s j))" using assms(1,3) by (auto simp: guarded_ok_def)
  have "rev held @ g # rest = call_guards c" using assms(1,2) by (metis guarded_ok_def thread_ok.simps(1))
  then have "g \<notin> set held" using call_guards_short(1) [of c] by (metis distinct_append not_distinct_conv_prefix set_rev disjoint_insert(1) list.simps(15))
  then show ?thesis using j assms(2) by (metis held_by.simps(2))
qed

text \<open>A call that finds its guards free runs to its end.\<close>

lemma enter_all:
  assumes "gd_threads s i = Entering c held rest" and "\<forall>g \<in> set rest. \<not> gd_flags s g" and "distinct rest"
  shows "\<exists>s'. guarded_step\<^sup>*\<^sup>* s s' \<and> gd_threads s' = (gd_threads s)(i := Entering c (rev rest @ held) []) \<and>
    gd_flags s' = (\<lambda>g. gd_flags s g \<or> g \<in> set rest) \<and> gd_warmed s' = gd_warmed s \<and> gd_bodies s' = gd_bodies s"
  using assms
proof (induction rest arbitrary: s held)
  case Nil
  then show ?case by (intro exI [of _ s]) auto
next
  case (Cons g rest)
  let ?t = "s\<lparr>gd_flags := (gd_flags s)(g := True), gd_threads := (gd_threads s)(i := Entering c (g # held) rest)\<rparr>"
  have "guarded_step s ?t"
    using guard_enter [of s i c held g rest "(gd_flags s)(g := True)"] Cons.prems by (auto simp: guarded_step_def enter_def)
  moreover have "gd_threads ?t i = Entering c (g # held) rest" "distinct rest" "\<forall>h \<in> set rest. \<not> gd_flags ?t h"
    using Cons.prems by auto
  note Cons.IH [OF this(1) this(3) this(2)]
  then obtain s' where s: "guarded_step\<^sup>*\<^sup>* ?t s'" "gd_threads s' = (gd_threads ?t)(i := Entering c (rev rest @ g # held) [])"
      "gd_flags s' = (\<lambda>h. gd_flags ?t h \<or> h \<in> set rest)" "gd_warmed s' = gd_warmed ?t" "gd_bodies s' = gd_bodies ?t"
    by (elim exE conjE) (rule that; assumption)
  moreover have "gd_flags s' = (\<lambda>h. gd_flags s h \<or> h \<in> set (g # rest))" unfolding s(3) by (rule ext) simp
  ultimately show ?case by (intro exI [of _ s'] conjI) (auto intro: converse_rtranclp_into_rtranclp)
qed

lemma drop_all:
  assumes "gd_threads s i = Returning held"
  shows "\<exists>s'. guarded_step\<^sup>*\<^sup>* s s' \<and> gd_threads s' = (gd_threads s)(i := Outside) \<and>
    gd_flags s' = (\<lambda>g. gd_flags s g \<and> g \<notin> set held) \<and> gd_warmed s' = gd_warmed s \<and> gd_bodies s' = gd_bodies s"
  using assms
proof (induction held arbitrary: s)
  case Nil
  then have "guarded_step s (s\<lparr>gd_threads := (gd_threads s)(i := Outside)\<rparr>)"
    using guard_return by (auto simp: guarded_step_def)
  then show ?case by (intro exI [of _ "s\<lparr>gd_threads := (gd_threads s)(i := Outside)\<rparr>"]) auto
next
  case (Cons g held)
  let ?t = "s\<lparr>gd_flags := drop_guard g (gd_flags s), gd_threads := (gd_threads s)(i := Returning held)\<rparr>"
  have "guarded_step s ?t" using guard_drop [of s i g held] Cons.prems by (auto simp: guarded_step_def)
  moreover have "gd_threads ?t i = Returning held" by simp
  note Cons.IH [OF this]
  then obtain s' where s: "guarded_step\<^sup>*\<^sup>* ?t s'" "gd_threads s' = (gd_threads ?t)(i := Outside)"
      "gd_flags s' = (\<lambda>h. gd_flags ?t h \<and> h \<notin> set held)" "gd_warmed s' = gd_warmed ?t" "gd_bodies s' = gd_bodies ?t"
    by (elim exE conjE) (rule that; assumption)
  moreover have "gd_flags s' = (\<lambda>h. gd_flags s h \<and> h \<notin> set (g # held))" unfolding s(3) by (rule ext) (simp add: drop_guard_def)
  ultimately show ?case by (intro exI [of _ s'] conjI) (auto intro: converse_rtranclp_into_rtranclp)
qed

lemma call_runs:
  assumes "gd_threads s i = Entering c [] (call_guards c)" and "\<forall>g. \<not> gd_flags s g"
  shows "\<exists>s'. guarded_step\<^sup>*\<^sup>* s s' \<and> gd_threads s' = (gd_threads s)(i := Outside) \<and> (\<forall>g. \<not> gd_flags s' g) \<and>
    gd_warmed s' = (gd_warmed s \<or> c = CallWarm) \<and> gd_bodies s' = gd_bodies s @ [c]"
proof -
  obtain a where a: "guarded_step\<^sup>*\<^sup>* s a" "gd_threads a = (gd_threads s)(i := Entering c (rev (call_guards c)) [])"
      "gd_flags a = (\<lambda>g. g \<in> set (call_guards c))" "gd_warmed a = gd_warmed s" "gd_bodies a = gd_bodies s"
    using enter_all [OF assms(1)] assms(2) call_guards_short(1) [of c] by auto
  let ?b = "a\<lparr>gd_threads := (gd_threads a)(i := Inside c (rev (call_guards c)))\<rparr>"
  let ?d = "?b\<lparr>gd_warmed := (gd_warmed ?b \<or> c = CallWarm \<and> True), gd_threads := (gd_threads ?b)(i := Returning (rev (call_guards c))),
    gd_bodies := gd_bodies ?b @ [c]\<rparr>"
  have "guarded_step a ?b" using guard_body [of a i c "rev (call_guards c)"] a(2) by (auto simp: guarded_step_def)
  moreover have "guarded_step ?b ?d" using guard_done [of ?b i c "rev (call_guards c)" True] unfolding guarded_step_def by auto
  moreover obtain e where "guarded_step\<^sup>*\<^sup>* ?d e" "gd_threads e = (gd_threads ?d)(i := Outside)"
      "gd_flags e = (\<lambda>g. gd_flags ?d g \<and> g \<notin> set (rev (call_guards c)))" "gd_warmed e = gd_warmed ?d" "gd_bodies e = gd_bodies ?d"
    using drop_all [of ?d i] by auto
  ultimately show ?thesis using a by (intro exI [of _ e]) auto
qed

section \<open>The guards exclude\<close>

lemma guarded_reachable: "guarded_step\<^sup>*\<^sup>* (guarded_new warmed) s \<Longrightarrow> guarded_ok s"
  by (rule guards.reachable_inv) auto

lemma inside_holds:
  assumes "guarded_ok s" and "gd_threads s i = Inside c held"
  shows "held_by (gd_threads s i) = rev (call_guards c)"
proof -
  have "thread_ok (gd_threads s i)" using assms(1) by (simp add: guarded_ok_def)
  then show ?thesis using assms(2) by (metis held_by.simps(3) rev_rev_ident thread_ok.simps(2))
qed

lemma guards_cover: "set (call_guards c) \<inter> set (call_guards d) = {} \<Longrightarrow> body_workers c \<inter> body_workers d = {}"
  by (cases c; cases d) auto

text \<open>C5: Of any number of threads that call into a session and its candidates in any interleaving, two that
  run the bodies of their calls at the same time hold references to different workers: never two receive
  callbacks run, never a callback and an update of its side, never anything on a live session beside \<open>warm\<close>, and
  never two updates that exchange the same candidate's side.\<close>

theorem guards_exclusive:
  assumes "guarded_step\<^sup>*\<^sup>* (guarded_new warmed) s" and "i \<noteq> j"
    and "gd_threads s i = Inside c h" and "gd_threads s j = Inside d k"
  shows "body_workers c \<inter> body_workers d = {}"
proof -
  have ok: "guarded_ok s" using assms(1) by (rule guarded_reachable)
  then have "set (held_by (gd_threads s i)) \<inter> set (held_by (gd_threads s j)) = {}"
    using assms(2) by (metis guarded_ok_def)
  then show ?thesis using inside_holds [OF ok assms(3)] inside_holds [OF ok assms(4)] by (intro guards_cover) simp
qed

lemma call_enters:
  assumes "gd_threads s i = Outside" and "call_admitted (gd_warmed s) c" and "\<forall>g \<in> set (call_guards c). \<not> gd_flags s g"
  shows "\<exists>s'. guarded_step\<^sup>*\<^sup>* s s' \<and> gd_threads s' = (gd_threads s)(i := Inside c (rev (call_guards c))) \<and>
    gd_flags s' = (\<lambda>g. gd_flags s g \<or> g \<in> set (call_guards c)) \<and> gd_warmed s' = gd_warmed s"
proof -
  let ?a = "s\<lparr>gd_threads := (gd_threads s)(i := Entering c [] (call_guards c))\<rparr>"
  have a: "guarded_step s ?a" using guard_begin [of s i c] assms by (auto simp: guarded_step_def)
  have "gd_threads ?a i = Entering c [] (call_guards c)" "\<forall>g \<in> set (call_guards c). \<not> gd_flags ?a g" using assms(3) by simp_all
  note enter_all [OF this call_guards_short(1)]
  then obtain b where b: "guarded_step\<^sup>*\<^sup>* ?a b" "gd_threads b = (gd_threads ?a)(i := Entering c (rev (call_guards c) @ []) [])"
      "gd_flags b = (\<lambda>g. gd_flags ?a g \<or> g \<in> set (call_guards c))" "gd_warmed b = gd_warmed ?a"
    by (elim exE conjE) (rule that; assumption)
  let ?c = "b\<lparr>gd_threads := (gd_threads b)(i := Inside c (rev (call_guards c)))\<rparr>"
  have "guarded_step b ?c" using guard_body [of b i c "rev (call_guards c)"] b(2) by (auto simp: guarded_step_def)
  then have "guarded_step\<^sup>*\<^sup>* s ?c" using a b(1) by (meson converse_rtranclp_into_rtranclp rtranclp.rtrancl_into_rtrancl)
  then show ?thesis using b by (intro exI [of _ ?c]) simp
qed

lemma both_inside: "\<exists>s. guarded_step\<^sup>*\<^sup>* (guarded_new True) s \<and>
  gd_threads s 0 = Inside CallReceive [LiveReceive] \<and> gd_threads s 1 = Inside CallTransmit [LiveTransmit]"
proof -
  obtain a where a: "guarded_step\<^sup>*\<^sup>* (guarded_new True) a"
      "gd_threads a = (gd_threads (guarded_new True))(0 := Inside CallReceive [LiveReceive])"
      "gd_flags a = (\<lambda>g. gd_flags (guarded_new True) g \<or> g \<in> set [LiveReceive])" "gd_warmed a = gd_warmed (guarded_new True)"
    using call_enters [of "guarded_new True" 0 CallReceive] by (auto simp: guarded_new_def)
  obtain b where "guarded_step\<^sup>*\<^sup>* a b" "gd_threads b = (gd_threads a)(1 := Inside CallTransmit [LiveTransmit])"
    using call_enters [of a 1 CallTransmit] a(2-4) by (auto simp: guarded_new_def)
  then show ?thesis using a(1,2) by (intro exI [of _ b]) auto
qed

theorem guards_exclusive_witness: "body_workers CallReceive \<inter> body_workers CallTransmit = {}"
proof -
  obtain s where "guarded_step\<^sup>*\<^sup>* (guarded_new True) s" "gd_threads s 0 = Inside CallReceive [LiveReceive]"
      "gd_threads s 1 = Inside CallTransmit [LiveTransmit]"
    using both_inside by blast
  then show ?thesis using guards_exclusive [of True s 0 1] by (metis zero_neq_one)
qed

section \<open>The guards never wait and never leak\<close>

text \<open>C6: No thread waits for another.  In every state that is reached, a thread inside a call can step whatever
  the others do, each of its steps brings it nearer to its return, a step of another thread leaves it where it
  is, and seven steps are always enough.  A guard is busy only while another thread holds it: when every thread
  has returned, also from the calls that were refused, all of them are free.\<close>

theorem guards_never_wait:
  assumes "guarded_step\<^sup>*\<^sup>* (guarded_new warmed) s"
  shows "(\<exists>s'. guard_step i s s') \<and> steps_left (gd_threads s i) \<le> 7 \<and>
    (\<forall>s'. guard_step i s s' \<longrightarrow> gd_threads s i = Outside \<or> steps_left (gd_threads s' i) < steps_left (gd_threads s i)) \<and>
    (\<forall>j s'. guard_step j s s' \<longrightarrow> j = i \<or> gd_threads s' i = gd_threads s i) \<and>
    (\<forall>c held g rest. gd_threads s i = Entering c held (g # rest) \<and> enter g (gd_flags s) = None \<longrightarrow>
      (\<exists>j. j \<noteq> i \<and> g \<in> set (held_by (gd_threads s j)))) \<and>
    ((\<forall>j. gd_threads s j = Outside) \<longrightarrow> (\<forall>g. \<not> gd_flags s g))"
proof -
  have ok: "guarded_ok s" using assms by (rule guarded_reachable)
  have "\<forall>g. \<not> gd_flags s g" if "\<forall>j. gd_threads s j = Outside"
    using ok that by (simp add: guarded_ok_def)
  moreover have "\<exists>j. j \<noteq> i \<and> g \<in> set (held_by (gd_threads s j))"
    if "gd_threads s i = Entering c held (g # rest)" "enter g (gd_flags s) = None" for c held g rest
    using busy_holder [OF ok that(1)] that(2) by (simp add: enter_def split: if_splits)
  moreover have "gd_threads s i = Outside \<or> steps_left (gd_threads s' i) < steps_left (gd_threads s i)"
    if "guard_step i s s'" for s'
    using guard_step_left(1) [OF that] by blast
  moreover have "j = i \<or> gd_threads s' i = gd_threads s i" if "guard_step j s s'" for j s'
    using guard_step_left(2) [OF that, of i] by blast
  ultimately show ?thesis using guard_step_enabled guarded_left [OF ok] by blast
qed

theorem guards_never_wait_witness: "steps_left (gd_threads (guarded_new True) 0) \<le> 7 \<and> (\<forall>g. \<not> gd_flags (guarded_new True) g)"
  using guards_never_wait [of True "guarded_new True" 0] by (simp add: guarded_new_def)

section \<open>Warming twice\<close>

text \<open>C17: \<open>warm\<close> looks at the flag before it enters the guards and not again after it.  Two threads may both
  find the session cold: one warms it, a receive callback runs, and the other then warms it again, with the
  processors already in use.\<close>

theorem late_warm_repeats:
  "\<exists>s. guarded_step\<^sup>*\<^sup>* (guarded_new False) s \<and> gd_bodies s = [CallWarm, CallReceive, CallWarm]"
proof -
  let ?n = "guarded_new False"
  let ?a = "?n\<lparr>gd_threads := (gd_threads ?n)(0 := Entering CallWarm [] (call_guards CallWarm))\<rparr>"
  let ?b = "?a\<lparr>gd_threads := (gd_threads ?a)(1 := Entering CallWarm [] (call_guards CallWarm))\<rparr>"
  have "guarded_step ?n ?a" "guarded_step ?a ?b"
    unfolding guarded_step_def by (rule exI, rule guard_begin; simp add: guarded_new_def)+
  then have b: "guarded_step\<^sup>*\<^sup>* ?n ?b" by auto
  have "gd_threads ?b 0 = Entering CallWarm [] (call_guards CallWarm)" "\<forall>g. \<not> gd_flags ?b g" by (simp_all add: guarded_new_def)
  note call_runs [OF this]
  then obtain p where p: "guarded_step\<^sup>*\<^sup>* ?b p" "gd_threads p = (gd_threads ?b)(0 := Outside)" "\<forall>g. \<not> gd_flags p g"
      "gd_warmed p" "gd_bodies p = [CallWarm]"
    by (auto simp: guarded_new_def)
  let ?q = "p\<lparr>gd_threads := (gd_threads p)(2 := Entering CallReceive [] (call_guards CallReceive))\<rparr>"
  have q: "guarded_step p ?q"
    unfolding guarded_step_def by (rule exI, rule guard_begin) (use p in \<open>simp_all add: guarded_new_def\<close>)
  have "gd_threads ?q 2 = Entering CallReceive [] (call_guards CallReceive)" "\<forall>g. \<not> gd_flags ?q g" using p by simp_all
  note call_runs [OF this]
  then obtain r where r: "guarded_step\<^sup>*\<^sup>* ?q r" "gd_threads r = (gd_threads ?q)(2 := Outside)" "\<forall>g. \<not> gd_flags r g"
      "gd_bodies r = [CallWarm, CallReceive]"
    using p(5) by auto
  have "gd_threads r 1 = Entering CallWarm [] (call_guards CallWarm)" using r(2) p(2) by simp
  from call_runs [OF this r(3)]
  obtain s where "guarded_step\<^sup>*\<^sup>* r s" "gd_bodies s = [CallWarm, CallReceive, CallWarm]" using r(4) by auto
  then show ?thesis using b p(1) q r(1) by (meson converse_rtranclp_into_rtranclp rtranclp_trans)
qed

end
