(* ===== verification/Session_Squelch.thy ===== *)
theory Session_Squelch
  imports Session_Receive_Properties
begin

text \<open>
  What the squelch promises of the programme (\<open>receive_inner\<close> in \<open>src/session.rs\<close>): which samples of a span
  are silent when the filters get it, with and without speech admission.
\<close>

section \<open>Silence\<close>

lemma scaled_zero:
  assumes "is_finite gain"
  shows "fp_eq (fp_mul binary32 fp_zero gain) fp_zero"
  using assms by (cases gain) (simp_all add: fp_zero_def fp_round_def signed_def)

lemma zero_silent: "fp_eq fp_zero fp_zero"
  by (simp add: fp_zero_def)

text \<open>The sample that is closed: by its own gate, where the detector gates sample by sample, by the carrier of
  the span otherwise.\<close>

definition sample_closed :: "('w, 's, 'r, 'd, 'h, 'n) receive_worker \<Rightarrow> bool \<Rightarrow> nat \<Rightarrow> bool" where
  "sample_closed worker carrier i \<longleftrightarrow>
     (if rw_per_sample_noise_gate worker
      then i < length (carrier_gates (rw_detector worker)) \<and> carrier_gates (rw_detector worker) ! i = 0
      else \<not> carrier)"

lemma sample_closed_kept: "rx_kept I worker worker' \<Longrightarrow> sample_closed worker' carrier i = sample_closed worker carrier i"
  by (simp add: sample_closed_def rx_kept_def rx_fixed_def)

lemma gain_kept: "rx_kept I worker worker' \<Longrightarrow> rw_input_gain worker' = rw_input_gain worker"
  by (simp add: rx_kept_def rx_fixed_def)

lemma nth_write_front: "i < length xs \<Longrightarrow> write_span 0 xs b ! i = xs ! i"
  by (simp add: write_span_def nth_append)

lemma nth_gate_samples:
  assumes "i < length xs" and "i < length gates" and "gates ! i = 0"
  shows "gate_samples gates xs ! i = fp_zero"
  using assms by (simp add: gate_samples_def nth_append)

lemma gate_closes:
  assumes "rx_ok I worker" and "count \<le> rw_maximum_frames worker" and "i < count" and "sample_closed worker carrier i"
  shows "rw_work_a (rx_gate count carrier worker) ! i = fp_zero"
  using assms rx_lengths(2) [OF assms(1,2)]
  by (auto simp: rx_gate_def sample_closed_def nth_write_front nth_gate_samples)

lemma plain_gate_silent:
  assumes "rx_ok I worker" and "count \<le> rw_maximum_frames worker" and "is_finite (rw_input_gain worker)"
    and "i < count" and "sample_closed worker carrier i"
    and "rx_plain_programme count input carrier (worker, w) = ((worker', w'), Inr a)"
  shows "fp_eq (rw_work_a worker' ! i) fp_zero"
proof -
  obtain delay index mono where d: "step_samples plain_delay_step (rw_delay worker, rw_delay_index worker)
      (captured_channel (rw_receive_channel worker) count input) = ((delay, index), mono)" by (metis prod.exhaust)
  have b: "rw_delay worker = [] \<or> rw_delay_index worker < length (rw_delay worker)"
    "rw_delay_valid worker \<le> length (rw_delay worker)" using assms(1) by (simp_all add: rx_ok_def rx_buffers_ok_def)
  note k = plain_delay_kept [OF b(1) d]
  let ?v = "worker\<lparr>rw_delay := delay, rw_delay_index := index\<rparr>"
  let ?u = "?v\<lparr>rw_input_mono := write_span 0 mono (rw_input_mono worker)\<rparr>"
  have v: "rx_kept I worker ?v" using rx_delay_write [OF assms(1), of delay index "rw_delay_valid worker"] k b(2) by auto
  have u: "rx_kept I worker ?u"
    using rx_kept_trans [OF v rx_writes(4) [OF rx_keptD(1) [OF v], of mono]] k assms(2)
    by (simp add: captured_channel_def)
  have count: "count \<le> rw_maximum_frames ?u" using assms(2) by simp
  obtain q e r where r: "rx_deemphasis count (?u, w) = ((q, e), r)" by (metis prod.exhaust)
  have q: "rx_kept I worker q"
    using rx_kept_trans [OF u] rx_deemphasis_spec [OF rx_keptD(1) [OF u] count, of w, unfolded r] by (cases r) auto
  let ?g = "rx_gate count carrier q"
  have cq: "count \<le> rw_maximum_frames q" using rx_keptD(2) [OF q] assms(2) by simp
  have g: "rx_kept I worker ?g" by (rule rx_kept_trans [OF q rx_gate_kept [OF rx_keptD(1) [OF q] cq]])
  have "rw_work_a ?g ! i = fp_zero"
    using gate_closes [OF rx_keptD(1) [OF q] cq assms(4)] sample_closed_kept [OF q] assms(5) by simp
  moreover have "length (take count (rw_work_a ?g)) = count"
    using rx_lengths(2) [OF rx_keptD(1) [OF g], of count] rx_keptD(2) [OF g] assms(2) by simp
  moreover have "worker' = ?g\<lparr>rw_work_a := write_span 0
      (List.map (\<lambda>x. fp_mul binary32 x (rw_input_gain ?g)) (take count (rw_work_a ?g))) (rw_work_a ?g)\<rparr>"
    using assms(6) r by (cases r) (simp_all add: rx_plain_programme_def d Let_def run_bind_def)
  ultimately show ?thesis using assms(3,4) scaled_zero gain_kept [OF g] by (simp add: nth_write_front)
qed

section \<open>Speech admission\<close>

text \<open>While the qualification is closed the delay hands out nothing and takes nothing in.\<close>

lemma closed_delay_silent:
  assumes "is_finite gain" and "delay = [] \<or> valid < length delay"
  shows "list_all (\<lambda>x. fp_eq x fp_zero) (snd (step_samples (speech_delay_step False gain) (delay, index, valid) xs))"
  by (rule step_samples_outputs [where P = "\<lambda>(d, i, v). d = [] \<or> v < length d"])
    (use assms in \<open>auto simp: speech_delay_step_def scaled_zero Let_def split: if_splits\<close>)

lemma closed_burst_silent:
  assumes "rx_ok I worker" and "count \<le> rw_maximum_frames worker" and "is_finite (rw_input_gain worker)" and "i < count"
  shows "fp_eq (rw_work_a (rx_delay_burst count False worker) ! i) fp_zero"
proof -
  obtain s audio where d: "step_samples (speech_delay_step False (rw_input_gain worker)) (rw_delay worker, 0, 0)
      (take count (rw_work_a worker)) = (s, audio)" by fastforce
  have "length audio = count" using length_step_samples [of "speech_delay_step False (rw_input_gain worker)"
      "(rw_delay worker, 0, 0)" "take count (rw_work_a worker)", unfolded d] rx_lengths(2) [OF assms(1,2)] by simp
  moreover have "list_all (\<lambda>x. fp_eq x fp_zero) audio"
    using closed_delay_silent [OF assms(3), of "rw_delay worker" 0 0 "take count (rw_work_a worker)", unfolded d] by auto
  ultimately show ?thesis using d assms(4)
    by (auto simp: rx_delay_burst_def nth_write_front list_all_length split: prod.split)
qed

lemma speech_closed_silent:
  assumes "rx_ok I worker" and "count \<le> rw_maximum_frames worker" and "is_finite (rw_input_gain worker)" and "i < count"
    and "rx_speech_programme count input carrier False (worker, w) = ((worker', w'), Inr a)"
  shows "fp_eq (rw_work_a worker' ! i) fp_zero"
proof -
  obtain w1 e1 r1 where r1: "rx_vad_reset (worker, w) = ((w1, e1), r1)" by (metis prod.exhaust)
  have k1: "rx_kept I worker w1" using rx_vad_reset_spec [OF assms(1), of w, unfolded r1] by (cases r1) auto
  let ?u = "w1\<lparr>rw_input_mono := write_span 0 (captured_channel (rw_receive_channel w1) count input) (rw_input_mono w1)\<rparr>"
  have u: "rx_kept I worker ?u"
    by (rule rx_kept_trans [OF k1 rx_writes(4) [OF rx_keptD(1) [OF k1]]])
      (use rx_keptD(2) [OF k1] assms(2) in \<open>simp add: captured_channel_def\<close>)
  obtain w2 e2 r2 where r2: "rx_deemphasis count (?u, e1) = ((w2, e2), r2)" by (metis prod.exhaust)
  have cu: "count \<le> rw_maximum_frames ?u" using rx_keptD(2) [OF u] assms(2) by simp
  have k2: "rx_kept I worker w2"
    using rx_kept_trans [OF u] rx_deemphasis_spec [OF rx_keptD(1) [OF u] cu, of e1, unfolded r2] by (cases r2) auto
  let ?g = "rx_gate count carrier w2"
  have g: "rx_kept I worker ?g"
    using rx_kept_trans [OF k2 rx_gate_kept [OF rx_keptD(1) [OF k2]]] rx_keptD(2) [OF k2] assms(2) by simp
  obtain w3 e3 r3 where r3: "rx_speech count False (?g, e2) = ((w3, e3), r3)" by (metis prod.exhaust)
  have k3: "rx_kept I worker w3"
    using rx_kept_trans [OF g] rx_speech_spec [OF rx_keptD(1) [OF g], of count False e2, unfolded r3] by (cases r3) auto
  have burst: "fp_eq (rw_work_a (rx_delay_burst count False w3) ! i) fp_zero"
    using closed_burst_silent [OF rx_keptD(1) [OF k3]] rx_keptD(2) [OF k3] gain_kept [OF k3] assms(2-4) by simp
  show ?thesis
    using assms(4,5) r1 r2 r3 burst
    by (cases r1; cases r2; cases r3)
      (auto simp: rx_speech_programme_def run_bind_def Let_def nth_write_front zero_silent split: if_splits)
qed

section \<open>A closed squelch is silent\<close>

text \<open>C8: A sample that the squelch closes reaches the filters as silence, whatever the de-emphasis port made of
  it and whatever the delay still held.  Without speech admission that is a sample its own gate closes or, without
  such gates, any sample of a span without carrier.  With speech admission it is any sample of a span whose
  qualification is closed and, unless the audible delay is external, of a span in which the receiver is not keyed.\<close>

theorem closed_squelch_silent:
  assumes "rx_ok I worker" and "count \<le> rw_maximum_frames worker" and "is_finite (rw_input_gain worker)"
    and "i < count" and "rx_programme count input qualified (worker, w) = ((worker', w'), Inr (speech, keyed))"
    and "if rw_vad_mode worker = 0 then sample_closed worker (qo_carrier_active qualified) i
      else \<not> qo_rx_keyed qualified \<or> rcf_vad_external_delay (rw_config worker) = 0 \<and> \<not> keyed"
  shows "fp_eq (rw_work_a worker' ! i) fp_zero"
proof (cases "rw_vad_mode worker = 0")
  case True
  then obtain a where "rx_plain_programme count input (qo_carrier_active qualified) (worker, w) = ((worker', w'), Inr a)"
    using assms(5) by (auto simp: rx_programme_def run_bind_def split: prod.splits sum.splits)
  then show ?thesis using plain_gate_silent [OF assms(1-4)] assms(6) True by simp
next
  case False
  then have p: "rx_speech_programme count input (qo_carrier_active qualified) (qo_rx_keyed qualified) (worker, w) =
      ((worker', w'), Inr (speech, keyed))" using assms(5) by (simp add: rx_programme_def)
  show ?thesis
  proof (cases "qo_rx_keyed qualified")
    case closed: False
    then show ?thesis using speech_closed_silent [OF assms(1-4)] p by simp
  next
    case True
    have s: "rx_kept I worker worker'" "speech_gated count (qo_rx_keyed qualified) worker' speech keyed"
      using rx_speech_programme_spec [OF assms(1,2), of "qo_rx_keyed qualified" input "qo_carrier_active qualified" w, unfolded p]
      by simp_all
    then have "take count (rw_work_a worker') = replicate count fp_zero"
      using True False assms(6) rx_keptD(6) [OF s(1)] by (simp add: speech_gated_def)
    then have "rw_work_a worker' ! i = fp_zero" using assms(4) by (metis nth_take nth_replicate)
    then show ?thesis by (simp add: zero_silent)
  qed
qed

lemma plain_absent_runs:
  assumes "quiet_worker worker"
  shows "\<exists>worker'. rx_plain_programme 1 [Finite False 1, Finite False 1] carrier (worker, ()) = ((worker', ()), Inr ())"
proof -
  note d = assms [unfolded quiet_worker_def]
  let ?x = "[Finite False 1]"
  let ?u = "worker\<lparr>rw_delay := [], rw_input_mono := write_span 0 ?x (rw_input_mono worker)\<rparr>"
  let ?v = "?u\<lparr>rw_work_a := write_span 0 ?x (rw_work_a worker)\<rparr>"
  have heard: "captured_channel 0 1 [Finite False 1, Finite False 1] = ?x" by (simp add: captured_channel_def)
  have delayed: "step_samples plain_delay_step ([], i) ?x = (([], i), ?x)" for i by (simp add: plain_delay_step_def)
  have absent: "run_processor processor_port_default ?x b w = ((w, ?x), Inr ())" for b w
    by (rule run_processor_absent) simp
  have front: "take 1 (write_span 0 ?x b) = ?x" for b by (simp add: take_write_span)
  have "rx_deemphasis 1 (?u, ()) = ((?v, ()), Inr ())"
    using d by (simp add: rx_deemphasis_def ports_sample_absent front [simplified] absent Let_def)
  then show ?thesis
    using d heard delayed by (simp add: rx_plain_programme_def run_bind_def Let_def)
qed

theorem closed_squelch_silent_witness:
  "\<forall>out. \<exists>worker'. rx_programme 1 [Finite False 1, Finite False 1] (out\<lparr>qo_carrier_active := False\<rparr>) (rx_worker_sample, ()) =
     ((worker', ()), Inr (vad_decision_default, qo_rx_keyed out)) \<and> fp_eq (rw_work_a worker' ! 0) fp_zero"
proof
  fix out :: qualification_output
  let ?q = "out\<lparr>qo_carrier_active := False\<rparr>"
  note d = quiet_worker_sample [unfolded quiet_worker_def]
  obtain worker' where "rx_plain_programme 1 [Finite False 1, Finite False 1] False (rx_worker_sample, ()) = ((worker', ()), Inr ())"
    using plain_absent_runs [OF quiet_worker_sample] by blast
  then have p: "rx_programme 1 [Finite False 1, Finite False 1] ?q (rx_worker_sample, ()) =
      ((worker', ()), Inr (vad_decision_default, qo_rx_keyed ?q))"
    using d by (simp add: rx_programme_def run_bind_def)
  have ok: "rx_ok (\<lambda>_. True) rx_worker_sample" "1 \<le> rw_maximum_frames rx_worker_sample"
    using rx_session_ok_sample [of ts_keyed] by (simp_all add: rx_session_ok_def)
  have "fp_eq (rw_work_a worker' ! 0) fp_zero"
    using closed_squelch_silent [OF ok _ _ p, of 0] d by (simp add: sample_closed_def)
  then show "\<exists>worker'. rx_programme 1 [Finite False 1, Finite False 1] ?q (rx_worker_sample, ()) =
     ((worker', ()), Inr (vad_decision_default, qo_rx_keyed out)) \<and> fp_eq (rw_work_a worker' ! 0) fp_zero"
    using p by (intro exI [of _ worker']) simp
qed

end
