(* ===== verification/Session_Observe.thy ===== *)
theory Session_Observe
  imports Session_Receive_Properties Session_Ptt
begin

text \<open>
  A callback publishes what it did twice: in the result it hands its caller, and in the atomics that \<open>snapshot\<close>
  reads (\<open>src/session.rs\<close>).  Here the two are compared: what the control plane reads after a callback is what
  the callback returned, and nothing else of the record has moved.
\<close>

section \<open>What a result adds to the snapshot\<close>

text \<open>The rail counters are 64-bit sums over the callbacks.\<close>

definition rails_after :: "nat \<Rightarrow> nat \<Rightarrow> nat" where
  "rails_after before rails = (before + rails) mod 2 ^ 64"

definition receive_told :: "receive_result \<Rightarrow> nat \<Rightarrow> session_snapshot \<Rightarrow> session_snapshot" where
  "receive_told r drops n =
     n\<lparr>sps_receive_frames := saturating_add_u64 (rv_first_sample_index r) (rv_frame_count r),
       sps_receive_input_peak := rv_input_peak r, sps_receive_input_rms := rv_input_rms r,
       sps_receive_ctcss_decoder_peak := rv_ctcss_decoder_peak r,
       sps_receive_output_peak := rv_output_peak r, sps_receive_output_rms := rv_output_rms r,
       sps_receive_input_rail_samples := rails_after (sps_receive_input_rail_samples n) (rv_input_rail_samples r),
       sps_receive_output_rail_samples := rails_after (sps_receive_output_rail_samples n) (rv_output_rail_samples r),
       sps_receive_event_drops := drops, sps_carrier_active := rv_carrier_active r,
       sps_subaudible_active := rv_subaudible_active r, sps_receiver_keyed := rv_receiver_keyed r,
       sps_ctcss_decoded_index := rv_ctcss_decoded_index r, sps_dcs_valid := rv_dcs_valid r,
       sps_raw_receiver_keyed := rv_raw_receiver_keyed r, sps_rf_burst_id := rv_rf_burst_id r,
       sps_vad_mode := rv_vad_mode r, sps_vad_voice_active := rv_vad_voice_active r, sps_vad_score := rv_vad_score r,
       sps_vad_voice_sample_index := rv_vad_voice_sample_index r, sps_vad_preroll_frames := rv_vad_preroll_frames r\<rparr>"

definition transmit_told :: "transmit_result \<Rightarrow> nat \<Rightarrow> session_snapshot \<Rightarrow> session_snapshot" where
  "transmit_told r drops n =
     n\<lparr>sps_transmit_frames := saturating_add_u64 (tv_first_sample_index r) (tv_frame_count r),
       sps_transmit_program_peak := tv_program_peak r, sps_transmit_program_rms := tv_program_rms r,
       sps_transmit_output_peak := tv_output_peak r, sps_transmit_output_rms := tv_output_rms r,
       sps_transmit_program_rail_samples := rails_after (sps_transmit_program_rail_samples n) (tv_program_rail_samples r),
       sps_transmit_output_rail_samples := rails_after (sps_transmit_output_rail_samples n) (tv_output_rail_samples r),
       sps_transmit_event_drops := drops, sps_logical_ptt := tv_logical_ptt r, sps_program_ring := tv_program_ring r\<rparr>"

lemma rails_word: "unat (w + of_nat n :: 64 word) = rails_after (unat w) n"
  by (simp add: rails_after_def unat_word_ariths unat_of_nat mod_add_right_eq)

lemma load_store_ring: "load_ring (store_ring ring snapshot) = ring"
  by (simp add: load_ring_def store_ring_def)

section \<open>Receive\<close>

lemma receive_publish_told:
  assumes "receive_publish session frame_count detected qualified speech keyed heard = Some (session', r)"
  shows "session_snapshot_of session' =
    receive_told r (unat (eq_drops (ss_receive_events session'))) (session_snapshot_of session)"
  using assms
  by (auto simp: receive_publish_def receive_told_def session_snapshot_of_def receive_snapshot_def receive_result_of_def
      rails_word load_ring_def Let_def split: Option.bind_splits prod.splits)

lemma receive_indications_observed:
  assumes "receive_indications session input frame_count controls valid = Some (session', detected, qualified)"
  shows "session_snapshot_of session' = session_snapshot_of session"
  using assms
  by (auto simp: receive_indications_def take_blanking_def session_snapshot_of_def Let_def
      split: Option.bind_splits prod.splits if_splits)

lemma snapshot_ignores_receive: "session_snapshot_of (session\<lparr>ss_receive := worker\<rparr>) = session_snapshot_of session"
  by (simp add: session_snapshot_of_def)

lemma snapshot_ignores_transmit: "session_snapshot_of (session\<lparr>ss_transmit := worker\<rparr>) = session_snapshot_of session"
  by (simp add: session_snapshot_of_def)

lemma receive_span_told:
  assumes "receive_span session w input frame_count controls valid = Some ((session', w'), Inr (samples, r))"
  shows "session_snapshot_of session' =
    receive_told r (unat (eq_drops (ss_receive_events session'))) (session_snapshot_of session)"
proof -
  let ?valid = "receive_snapshots_valid (ss_receive session) controls valid"
  obtain s1 detected qu where i: "receive_indications session input frame_count controls ?valid =
      Some (s1, detected, qu)"
    using assms by (cases "receive_indications session input frame_count controls ?valid") (auto simp: receive_span_def Let_def)
  obtain wk w1 a where a: "rx_audio frame_count input detected qu (ss_receive s1, w) = ((wk, w1), a)"
    by (metis prod.exhaust)
  from assms i a obtain speech keyed where s: "a = Inr (speech, keyed)"
    by (cases a) (auto simp: receive_span_def Let_def split: prod.splits)
  have "receive_publish (s1\<lparr>ss_receive := wk\<rparr>) frame_count detected qu speech keyed
      (measure_channel input (rw_receive_channel (ss_receive session))) = Some (session', r)"
    using assms i a s by (auto simp: receive_span_def Let_def split: Option.bind_splits)
  from receive_publish_told [OF this] show ?thesis
    using receive_indications_observed [OF i] by (simp add: snapshot_ignores_receive)
qed

text \<open>C9: The control plane reads what the receive callback returned.  After a successful callback, \<open>snapshot\<close>
  gives the clock, the levels, the indications and the speech state of its result, the rail counters that grew by
  those of the result (modulo \<open>2 ^ 64\<close>), and the drops of the queue; whatever belongs to the transmitter, the
  generation and the count of provider failures are as they were.\<close>

theorem receive_reported:
  assumes "receive_inner session w input buffer frame_count controls published valid =
    Some ((session', w'), buffer', Some r, Inr ())"
  shows "session_snapshot_of session' =
    receive_told r (unat (eq_drops (ss_receive_events session'))) (session_snapshot_of session)"
proof -
  from assms obtain xs c samples where
    "receive_checked session w (take (frame_count * 2) xs) frame_count c valid = Some ((session', w'), Inr (samples, r))"
    by (auto simp: receive_inner_def Let_def split: option.splits if_splits Option.bind_splits sum.splits)
  then have "receive_span session w (take (frame_count * 2) xs) frame_count c valid = Some ((session', w'), Inr (samples, r))"
    by (simp add: receive_checked_def split: if_splits)
  then show ?thesis by (rule receive_span_told)
qed

theorem receive_reported_witness:
  "\<exists>session' buffer' r. receive_inner (session_sample ts_keyed) () (Some [fp_zero, fp_zero]) (Some [fp_zero]) 1
      (Some rx_controls_sample) (Some receive_result_default) True = Some ((session', ()), Some buffer', Some r, Inr ()) \<and>
    sps_receiver_keyed (session_snapshot_of session') = rv_receiver_keyed r \<and>
    sps_logical_ptt (session_snapshot_of session') = sps_logical_ptt (session_snapshot_of (session_sample ts_keyed))"
proof -
  obtain session' buffer' r where run: "receive_inner (session_sample ts_keyed) () (Some [fp_zero, fp_zero])
      (Some [fp_zero]) 1 (Some rx_controls_sample) (Some receive_result_default) True =
      Some ((session', ()), Some buffer', Some r, Inr ())"
    using session_sample_receives by blast
  from receive_reported [OF this] run show ?thesis by (auto simp: receive_told_def)
qed

section \<open>Transmit\<close>

lemma transmit_publish_told:
  assumes "transmit_publish session frame_count signaling ring program samples = Some (session', r)"
  shows "session_snapshot_of session' =
    transmit_told r (unat (eq_drops (ss_transmit_events session'))) (session_snapshot_of session)"
  using assms
  by (auto simp: transmit_publish_def transmit_told_def session_snapshot_of_def transmit_snapshot_def transmit_result_of_def
      rails_word load_ring_def store_ring_def Let_def split: Option.bind_splits prod.splits)

lemma transmit_span_told:
  assumes "transmit_span sine session w frame_count controls = Some ((session', w'), Inr (samples, outputs, r))"
  shows "session_snapshot_of session' =
    transmit_told r (unat (eq_drops (ss_transmit_events session'))) (session_snapshot_of session)"
proof -
  from assms obtain wk signaling ring program where
    "transmit_publish (session\<lparr>ss_transmit := wk\<rparr>) frame_count signaling ring program samples = Some (session', r)"
    by (auto simp: transmit_span_def transmit_failure_def Let_def split: prod.splits sum.splits Option.bind_splits)
  from transmit_publish_told [OF this] show ?thesis by (simp add: snapshot_ignores_transmit)
qed

text \<open>C10: The control plane reads what the transmit callback returned.  After a successful callback, \<open>snapshot\<close>
  gives the clock, the levels, the logical PTT and the whole observation of the programme ring of its result, the
  rail counters that grew by those of the result, and the drops of the queue; whatever belongs to the receiver is
  as it was.\<close>

theorem transmit_reported:
  assumes "transmit_inner sine session w buffer frame_count controls published prepared =
    Some ((session', w'), buffer', Some r, prepared', Inr ())"
  shows "session_snapshot_of session' =
    transmit_told r (unat (eq_drops (ss_transmit_events session'))) (session_snapshot_of session)"
proof -
  from assms obtain c samples outputs where
    "transmit_checked sine session w frame_count c = Some ((session', w'), Inr (samples, outputs, r))"
    by (auto simp: transmit_inner_def Let_def split: option.splits if_splits Option.bind_splits sum.splits)
  then have "transmit_span sine session w frame_count c = Some ((session', w'), Inr (samples, outputs, r))"
    by (simp add: transmit_checked_def split: if_splits)
  then show ?thesis by (rule transmit_span_told)
qed

theorem transmit_reported_witness:
  "\<exists>later buffer' prepared' r. transmit_inner (\<lambda>x. x) draining_session () (Some [fp_zero, fp_zero, fp_zero, fp_zero]) 2
      (Some released_controls) (Some transmit_result_default) prepared_outputs_default =
      Some ((later, ()), buffer', Some r, prepared', Inr ()) \<and>
    sps_program_ring (session_snapshot_of later) = tv_program_ring r \<and>
    sps_receiver_keyed (session_snapshot_of later) = sps_receiver_keyed (session_snapshot_of draining_session)"
proof -
  have z: "(0::nat) < 2" "(2::nat) \<le> 960" "PttDraining 1 \<noteq> PttKeyed" by simp_all
  obtain later out q r where l: "transmit_span (\<lambda>x. x) draining_session () 2 released_controls =
      Some ((later, ()), Inr (out, q, r))" "\<not> machine_ptt later"
    by (rule quiet_span [OF draining_quiet(1) z(1,2) draining_quiet(2) z(3), where sine = "\<lambda>x. x"])
      (auto simp: drain_def split: sum.splits)
  obtain b p where c: "transmit_inner (\<lambda>x. x) draining_session () (Some [fp_zero, fp_zero, fp_zero, fp_zero]) 2
      (Some released_controls) (Some transmit_result_default) prepared_outputs_default =
      Some ((later, ()), b, Some r, p, Inr ())"
    using quiet_inner [OF draining_quiet(1) l(1) z(1,2)] by fastforce
  from transmit_reported [OF this] c show ?thesis by (auto simp: transmit_told_def)
qed

end
