(* ===== verification/Spec2Isabelle.thy ===== *)
theory Spec2Isabelle
  imports Radio_Prelude Soft_Float Timer Audio_Meter Signal_Mode Ctcss_Render_State Tx_Primitives
    Transmit_Signaling Signaling_Timeline Signaling_Loop Signaling Signaling_Properties
    Receive_Qualification Rx_Blanking Event_Queue Fixed_Stage Fir Deemphasis Envelope_Meter Center_Slicer
    Delay_Line Provider_Clients Receive_Frontend Receive_Profiles Receive_Path Receive_Path_Properties
    Samplerate_Client Vad Test_Tone Session_Config Session_Ports Session_State Session_Receive Session_Transmit
    Session_Control Session_Samples Session_Runs Session_Receive_Properties Session_Transmit_Properties
    Session_Ptt Session_Sides Session_Create Session_Update Session_Reach
    Session_Guards Session_Squelch Session_Observe
begin

text \<open>
  A verification of librptadvradio, the portable signal and signaling core of a radio interface: a
  receive callback and a transmit callback over 48 kHz stereo audio, with the detectors, the signaling
  state machine and the speech admission between them.  Every definition that models code is a
  translation of the Rust sources under \<open>src/src/\<close>, in the order the code has them; a record has the
  fields of the struct, a function the branches of the function.

  \<^bold>\<open>The program.\<close>  A \<^emph>\<open>session\<close> (\<open>session.rs\<close>) owns a receive worker and a transmit worker.  The receive
  callback measures its input, takes the blanking the transmitter has armed, runs the detector
  (\<open>receive_path.rs\<close>: frontend, filters, CTCSS and DCS clients, delay), qualifies carrier and tone
  (\<open>receive_qualification.rs\<close>), runs the receiver saver, then the audio path (a plain squelch delay, or
  speech admission through \<open>vad.rs\<close> with a burst delay, then borrowed processors), and publishes events,
  a snapshot and a result.  The transmit callback renders the borrowed programme ring, advances the
  signaling machine (\<open>transmit_signaling.rs\<close>), renders its CTCSS and DCS waveforms span by span, routes
  them to the two outputs and publishes.  The two share only logical PTT, the blanking to arm, the
  snapshot and two event queues.  Control operations create, warm, update and read a session.

  \<^bold>\<open>Theories and sources.\<close>
  \<^item> Radio_Prelude, Soft_Float: status codes, fixed-width arithmetic (integers with the wrap-around
    written out), fallible calls (\<open>None\<close> is a panic or a loop that runs on, \<open>Inl\<close> an error status),
    IEEE 754 arithmetic by value, and the two interfaces \<open>span_stage\<close> (a stage whose callback partition
    is invisible) and \<open>frame_clock\<close> (a counter that adds up over a partition).
  \<^item> Timer, Audio_Meter, Signal_Mode, Ctcss_Render_State, Tx_Primitives (\<open>timer\<close>, \<open>audio_meter\<close>,
    \<open>signal_mode\<close>, \<open>ctcss_render_state\<close>, and \<open>dcs_turnoff\<close>, \<open>tx_finish\<close>, \<open>tx_complete\<close>, \<open>tx_cpu_saver\<close>,
    \<open>rx_cpu_saver\<close>): the primitives of signaling.
  \<^item> Transmit_Signaling, Signaling_Timeline (\<open>transmit_signaling.rs\<close>: configuration, PTT preparation, the
    sample-clocked loop and the callback); Signaling_Loop, Signaling, Signaling_Properties: its
    invariant, the tiling of its spans, totality, the off/keyed/draining specification, release times
    and edge events.
  \<^item> Receive_Qualification, Rx_Blanking: admission delays and blanking.
  \<^item> Event_Queue: the queue of \<open>session.rs\<close>, serially (an instance of \<open>bounded_queue\<close>) and under every
    interleaving of the individual loads and stores of its two sides.
  \<^item> Fixed_Stage, Fir, Deemphasis, Envelope_Meter, Center_Slicer, Delay_Line: the sample stages, each an
    instance of \<open>span_stage\<close> with its exact function.
  \<^item> Provider_Clients (\<open>squelch_client\<close>, \<open>ctcss_client\<close>, \<open>dcs_client\<close>), Samplerate_Client: descriptor
    validation and calls; the libraries behind them are parameters.
  \<^item> Receive_Frontend, Receive_Profiles, Receive_Path, Receive_Path_Properties: the detector.
  \<^item> Vad: the burst policy, the analysis framing and admission.
  \<^item> Test_Tone (\<open>calibrated_test_tone.rs\<close>), over a sine that is a parameter.
  \<^item> Session_Config (\<open>session.rs\<close> configuration and \<open>profile.rs\<close>), Session_Ports (processor ports, meters,
    publication clock), Session_State (workers, snapshot, shared state), Session_Receive and
    Session_Transmit (the callbacks), Session_Control (create, updates, warm, snapshot, queue readers).
  \<^item> Session_Samples (concrete sessions for the runs), Session_Runs (what the session relies on of ports,
    filters and clock), Session_Receive_Properties, Session_Transmit_Properties: invariants and totality
    of the callbacks, what they publish, and the burst delay.
  \<^item> Session_Ptt: what a transmit callback tells of PTT over consecutive calls, and the hand-over of the
    blanking to the receiver.  Session_Sides: the two callbacks work on halves of the session of their own.
  \<^item> Session_Create: the contracts of provider libraries and ports, the bounds on a configuration
    (\<open>config_fits\<close>: counts that are 32-bit values of the C interface), that construction never panics and
    what it builds, and warming.  Session_Update: prepared updates of either side against a live session.
    Session_Reach: the calls an owner can make between create and destroy as the steps of a transition
    system (the interface \<open>transition_system\<close>), and the invariant in every reachable state.
  \<^item> Session_Guards (\<open>BusyGuard\<close>, \<open>enter\<close> and the calls that use them): any number of threads, interleaved at
    every compare-and-exchange; exclusion, progress, and what a check before the guards is worth.
    Session_Squelch: which samples a closed squelch silences.  Session_Observe: the snapshot against the results.

  \<^bold>\<open>Effects.\<close>  A borrowed port, ring or provider is a function over a state of its own: the caller's
  context is the state \<open>w\<close> that the session threads through its calls, a handle is a value that each call
  returns updated.  Buffers are lists; a call that writes a span of one returns the whole list.  The code
  accesses shared state with atomic operations; here a callback is one step, which is what the busy
  flags (Session_Guards: two bodies never run on the same worker) and the ownership of each field give (Session_Sides: a callback neither reads nor writes what the
  other side owns, and the two commute), except for the event queue, whose two sides do run
  concurrently and are modelled load by load.

  \<^bold>\<open>Hypotheses.\<close>  What the theorems ask of code that is not here is documented behaviour: a port leaves the
  length of a span as it is, a classifier keeps its own invariant, a sine is any function, a DCS detector
  that a successful create handed over does not fail on a valid span.  The detector's invariant asks that
  its noise divisor is not -1, since \<open>i32::MIN / -1\<close> panics (\<open>noise_divide\<close>; the panic is a theorem of
  Receive_Frontend, and every path a session creates meets the condition).  A transmit update is asked not to take
  the duration from a DCS tail in progress (\<open>tail_kept\<close>; what happens otherwise is a theorem too).  A clock is
  asked to stay below \<open>2 ^ 64 - 1\<close> frames, which is where the publication loop stops ending.

  \<^bold>\<open>Termination.\<close>  No definition uses fuel.  The loops that need an argument are the timeline loop
  (\<open>cursor_measure\<close>), the analysis loop of the classifier and the publication loop, whose end is proved
  where it is used.

  \<^bold>\<open>Not modelled.\<close>  \<open>lib.rs\<close> (the exported table of function pointers), the C header and packaging,
  \<open>Drop\<close>, destroy and discard_update (they free memory), entry points that exist only for tests, null
  session pointers, the bit patterns of NaNs and the sign of zero where no comparison sees it, and weak memory
  orderings (loads and stores of the queue and of the guards are taken in one order).  What is left of the
  sources under \<open>src/src/\<close> besides these is test code.
\<close>

end
